(* ===== verification/Prelude.thy ===== *)
theory Prelude
  imports Complex_Main "HOL-Library.AList" "HOL-Library.Char_ord" "HOL-Library.List_Lexorder"
    "HOL-Library.Product_Lexorder" "HOL-Library.Sublist" "HOL-Library.Code_Target_Numeral"
begin

text \<open>
  What every component shares: the exceptions the program raises as a datatype and the
  error-returning computations built on them, Python's \<open>str\<close> methods on the ASCII strings the
  program handles, insertion-ordered dictionaries as association lists, and the lemma
  collections the component proofs use.

  Strings are ASCII \<open>char\<close> lists. A Python \<open>dict\<close> whose order matters is an association list
  updated by \<open>AList.update\<close>, which overwrites in place and appends a new key at the end, as
  Python does.
\<close>

named_theorems journal_simps \<open>unfolding rules for the journal operations\<close>
named_theorems dec_eval \<open>evaluation of Decimal operations on literals\<close>


section \<open>Exceptions and fallible computations\<close>

text \<open>
  One constructor per exception class; the string is the fixed part of the message. \<open>Killed\<close> is what
  no \<open>except Exception\<close> catches: the cancellation of the task, or the end of the process.
\<close>

datatype error =
    ValueError string
  | KeyError string
  | RuntimeError string
  | AssertionError string
  | ArithmeticError string
  | ConnectionError string
  | IntegrityError string
  | TypeError string
  | IndexError string
  | AccountStreamError string
  | UnifiedAccountStateError string
  | MarketStreamError string
  | MarketIdentityError string
  | FollowerTruthError string
  | ContinuousNetworkError string
  | Killed

type_synonym 'a result = "error + 'a"

fun rbind :: "'a result \<Rightarrow> ('a \<Rightarrow> 'b result) \<Rightarrow> 'b result" where
  "rbind (Inl e) f = Inl e"
| "rbind (Inr x) f = f x"

text \<open>\<open>require b e\<close> is the guard \<open>if not b: raise e\<close>.\<close>

definition require :: "bool \<Rightarrow> error \<Rightarrow> unit result" where
  "require b e = (if b then Inr () else Inl e)"

lemma rbind_Inr_iff [simp]:
  "rbind m f = Inr y \<longleftrightarrow> (\<exists>x. m = Inr x \<and> f x = Inr y)"
  by (cases m) auto

lemma rbind_Inl_iff:
  "rbind m f = Inl e \<longleftrightarrow> m = Inl e \<or> (\<exists>x. m = Inr x \<and> f x = Inl e)"
  by (cases m) auto

lemma require_Inr [simp]: "require b e = Inr u \<longleftrightarrow> b"
  by (simp add: require_def)

lemma require_Inl [simp]: "require b e = Inl e' \<longleftrightarrow> \<not> b \<and> e' = e"
  by (auto simp: require_def)

lemma require_simps [simp]:
  "require True e = Inr ()" "require False e = Inl e"
  by (simp_all add: require_def)

text \<open>A loop that may raise: left to right, stopping at the first exception.\<close>

fun rfold :: "('a \<Rightarrow> 's \<Rightarrow> 's result) \<Rightarrow> 'a list \<Rightarrow> 's \<Rightarrow> 's result" where
  "rfold f [] s = Inr s"
| "rfold f (x # xs) s = rbind (f x s) (rfold f xs)"

lemma rfold_append: "rfold f (xs @ ys) s = rbind (rfold f xs s) (rfold f ys)"
proof (induction xs arbitrary: s)
  case Nil
  then show ?case by simp
next
  case (Cons x xs)
  then show ?case by (cases "f x s") auto
qed

text \<open>An invariant every iteration keeps holds after the loop.\<close>

lemma rfold_invariant:
  assumes "rfold f xs s = Inr t" and "P s"
    and "\<And>x s t. x \<in> set xs \<Longrightarrow> P s \<Longrightarrow> f x s = Inr t \<Longrightarrow> P t"
  shows "P t"
  using assms
proof (induction xs arbitrary: s)
  case Nil
  then show ?case by simp
next
  case (Cons x xs)
  from Cons.prems(1) obtain u where u: "f x s = Inr u" and rest: "rfold f xs u = Inr t"
    by auto
  from u Cons.prems(2,3) have "P u" by (meson list.set_intros(1))
  with rest Cons.prems(3) show ?case
    by (intro Cons.IH) (auto intro: list.set_intros(2))
qed

text \<open>Collecting the results of a fallible function over a list.\<close>

fun rmap :: "('a \<Rightarrow> 'b result) \<Rightarrow> 'a list \<Rightarrow> 'b list result" where
  "rmap f [] = Inr []"
| "rmap f (x # xs) = rbind (f x) (\<lambda>y. rbind (rmap f xs) (\<lambda>ys. Inr (y # ys)))"

lemma rmap_Inr_iff: "rmap f xs = Inr ys \<longleftrightarrow> list_all2 (\<lambda>x y. f x = Inr y) xs ys"
proof (induction xs arbitrary: ys)
  case Nil
  then show ?case by auto
next
  case (Cons x xs)
  then show ?case by (auto simp: list_all2_Cons1)
qed


lemma find_append: "find P (xs @ ys) = (case find P xs of None \<Rightarrow> find P ys | Some x \<Rightarrow> Some x)"
  by (induction xs) auto


section \<open>Strings\<close>

definition py_space :: "char \<Rightarrow> bool" where
  "py_space c = (let n = (of_char c :: nat) in 9 \<le> n \<and> n \<le> 13 \<or> 28 \<le> n \<and> n \<le> 32)"

definition py_strip :: "string \<Rightarrow> string" where
  "py_strip s = rev (dropWhile py_space (rev (dropWhile py_space s)))"

definition lower_char :: "char \<Rightarrow> char" where
  "lower_char c =
     (let n = (of_char c :: nat) in if 65 \<le> n \<and> n \<le> 90 then char_of (n + 32) else c)"

definition py_lower :: "string \<Rightarrow> string" where
  "py_lower s = map lower_char s"

definition upper_char :: "char \<Rightarrow> char" where
  "upper_char c =
     (let n = (of_char c :: nat) in if 97 \<le> n \<and> n \<le> 122 then char_of (n - 32) else c)"

definition py_upper :: "string \<Rightarrow> string" where
  "py_upper s = map upper_char s"

lemma lower_char_idem [simp]: "lower_char (lower_char c) = lower_char c"
  by (auto simp: lower_char_def Let_def)

lemma py_lower_idem [simp]: "py_lower (py_lower s) = py_lower s"
  by (simp add: py_lower_def)

lemma py_lower_Nil [simp]: "py_lower s = [] \<longleftrightarrow> s = []" "py_lower [] = []"
  by (simp_all add: py_lower_def)

lemma py_space_lower [simp]: "py_space (lower_char c) = py_space c"
  by (auto simp: lower_char_def py_space_def Let_def)

lemma dropWhile_map_lower:
  "dropWhile py_space (map lower_char s) = map lower_char (dropWhile py_space s)"
  by (induction s) auto

lemma py_strip_lower: "py_strip (py_lower s) = py_lower (py_strip s)"
  by (simp add: py_strip_def py_lower_def dropWhile_map_lower rev_map)

lemma dropWhile_idem_last:
  "s \<noteq> [] \<Longrightarrow> \<not> P (hd s) \<Longrightarrow> dropWhile P s = s"
  by (cases s) auto

lemma py_strip_idem [simp]: "py_strip (py_strip s) = py_strip s"
proof -
  define t where "t = dropWhile py_space s"
  define u where "u = dropWhile py_space (rev t)"
  have "dropWhile py_space (rev u) = rev u"
  proof (cases "u = []")
    case False
    have "suffix u (rev t)" by (simp add: u_def suffix_dropWhile)
    then obtain v where "rev t = v @ u" by (auto simp: suffix_def)
    then have t: "t = rev u @ rev v" by (metis rev_append rev_rev_ident)
    with False have "hd (rev u) = hd t" and "t \<noteq> []" by (auto simp: hd_append)
    then have "\<not> py_space (hd (rev u))" using hd_dropWhile [of py_space s] by (simp add: t_def)
    with False show ?thesis by (intro dropWhile_idem_last) auto
  qed simp
  then show ?thesis by (simp add: py_strip_def u_def t_def)
qed


section \<open>Insertion-ordered dictionaries\<close>

text \<open>\<open>d.get(k, default)\<close> for a dictionary kept as an association list.\<close>

definition dget :: "('k \<times> 'v) list \<Rightarrow> 'k \<Rightarrow> 'v \<Rightarrow> 'v" where
  "dget d k v = (case map_of d k of None \<Rightarrow> v | Some w \<Rightarrow> w)"

lemma dget_update [simp]: "dget (AList.update k v d) k' w = (if k' = k then v else dget d k' w)"
  by (simp add: dget_def AList.update_conv)

lemma dget_delete [simp]: "dget (AList.delete k d) k' w = (if k' = k then w else dget d k' w)"
  by (simp add: dget_def AList.delete_conv)

lemma dget_Nil [simp]: "dget [] k v = v"
  by (simp add: dget_def)

lemma update_new: "k \<notin> set (map fst d) \<Longrightarrow> AList.update k v d = d @ [(k, v)]"
  by (induction d) auto

lemma in_set_update_D:
  "p \<in> set (AList.update k v d) \<Longrightarrow> p = (k, v) \<or> p \<in> set d"
proof (induction d)
  case (Cons q d)
  then show ?case by (cases q) (auto split: if_splits)
qed simp


section \<open>Searching and replacing rows of a table\<close>

text \<open>\<open>set_row p r xs\<close>: the rows satisfying \<open>p\<close> are replaced by \<open>r\<close>, the others kept.\<close>

definition set_row :: "('a \<Rightarrow> bool) \<Rightarrow> 'a \<Rightarrow> 'a list \<Rightarrow> 'a list" where
  "set_row p r xs = map (\<lambda>x. if p x then r else x) xs"

lemma set_row_Nil [simp]: "set_row p r [] = []"
  by (simp add: set_row_def)

lemma set_row_Cons [simp]: "set_row p r (x # xs) = (if p x then r else x) # set_row p r xs"
  by (simp add: set_row_def)

lemma length_set_row [simp]: "length (set_row p r xs) = length xs"
  by (simp add: set_row_def)

lemma in_set_row_D: "y \<in> set (set_row p r xs) \<Longrightarrow> y = r \<or> (y \<in> set xs \<and> \<not> p y)"
  by (auto simp: set_row_def split: if_splits)

lemma map_set_row:
  "(\<And>x. x \<in> set xs \<Longrightarrow> p x \<Longrightarrow> f x = f r) \<Longrightarrow> map f (set_row p r xs) = map f xs"
  by (auto simp: set_row_def)

lemma find_set_row:
  "p r \<Longrightarrow> find p xs \<noteq> None \<Longrightarrow> find p (set_row p r xs) = Some r"
  by (induction xs) (auto split: if_splits)

lemma find_set_row_other:
  "(\<And>x. p x \<Longrightarrow> \<not> q x) \<Longrightarrow> \<not> q r \<Longrightarrow> find q (set_row p r xs) = find q xs"
  by (induction xs) auto

lemma find_SomeD: "find p xs = Some x \<Longrightarrow> x \<in> set xs \<and> p x"
  by (induction xs) (auto split: if_splits)

lemma distinct_map_eqD:
  "distinct (map f xs) \<Longrightarrow> x \<in> set xs \<Longrightarrow> y \<in> set xs \<Longrightarrow> f x = f y \<Longrightarrow> x = y"
  by (auto simp: distinct_map inj_on_def)

lemma find_distinct_key:
  "distinct (map f xs) \<Longrightarrow> x \<in> set xs \<Longrightarrow> find (\<lambda>y. f y = f x) xs = Some x"
proof (induction xs)
  case (Cons a xs)
  then show ?case by (cases "a = x") (auto simp: image_iff)
qed simp


section \<open>Simulations\<close>

text \<open>
  The interface between a component's step relation and the abstract specification it implements:
  an invariant the steps keep, and an abstract run for every concrete step. Clients transfer
  facts about abstract runs to concrete ones.
\<close>

locale simulation =
  fixes inv :: "'s \<Rightarrow> bool"
    and step :: "'s \<Rightarrow> 's \<Rightarrow> bool"
    and abs :: "'s \<Rightarrow> 'a"
    and astep :: "'a \<Rightarrow> 'a \<Rightarrow> bool"
  assumes inv_step: "inv s \<Longrightarrow> step s t \<Longrightarrow> inv t"
    and sim_step: "inv s \<Longrightarrow> step s t \<Longrightarrow> astep\<^sup>*\<^sup>* (abs s) (abs t)"
begin

lemma inv_run: "step\<^sup>*\<^sup>* s t \<Longrightarrow> inv s \<Longrightarrow> inv t"
  by (induction rule: rtranclp_induct) (auto intro: inv_step)

lemma sim_run:
  assumes "step\<^sup>*\<^sup>* s t" and "inv s"
  shows "astep\<^sup>*\<^sup>* (abs s) (abs t)"
  using assms
proof (induction rule: rtranclp_induct)
  case (step t u)
  then have "inv t" by (blast intro: inv_run)
  with step show ?case by (meson rtranclp_trans sim_step)
qed simp

text \<open>A relation the abstract steps maintain relates the ends of every concrete run.\<close>

lemma transfer_run:
  assumes "step\<^sup>*\<^sup>* s t" and "inv s" and "R (abs s)"
    and "\<And>a b. astep a b \<Longrightarrow> R a \<Longrightarrow> R b"
  shows "R (abs t)"
proof -
  have "astep\<^sup>*\<^sup>* (abs s) (abs t)" using assms(1,2) by (rule sim_run)
  then show ?thesis using assms(3) by (induction rule: rtranclp_induct) (auto intro: assms(4))
qed

end

end
