(* ===== verification/Decimals.thy ===== *)
theory Decimals
  imports Prelude "HOL-Library.Log_Nat"
begin

text \<open>
  Python's \<open>decimal.Decimal\<close> as the program uses it: the default context (28 significant digits,
  \<open>ROUND_HALF_EVEN\<close>) applied to every arithmetic result, \<open>quantize\<close> with an explicit rounding
  mode, \<open>adjusted\<close> and \<open>copy_sign\<close>.

  A finite Decimal is its value, a rational. Comparisons are exact; \<open>+\<close>, \<open>-\<close>, \<open>*\<close>, \<open>/\<close>, unary
  minus and \<open>abs\<close> round to the context. Values that have not passed an \<open>is_finite\<close> test have type
  \<open>dec\<close>. Not represented: trailing zeros (two Decimals of one value print differently), the sign of
  zero, and the exponent limits \<open>Emin\<close>/\<open>Emax\<close> (one million digits).
\<close>

section \<open>Values\<close>

datatype dec = Fin rat | Infinite bool | NaN

fun is_finite :: "dec \<Rightarrow> bool" where
  "is_finite (Fin x) = True"
| "is_finite _ = False"

fun dec_val :: "dec \<Rightarrow> rat" where
  "dec_val (Fin x) = x"
| "dec_val _ = 0"

lemma is_finite_iff: "is_finite d \<longleftrightarrow> (\<exists>x. d = Fin x)"
  by (cases d) auto


section \<open>Powers of ten and the position of the leading digit\<close>

definition pow10 :: "int \<Rightarrow> rat" where
  "pow10 e = (if 0 \<le> e then 10 ^ nat e else 1 / 10 ^ nat (- e))"

lemma pow10_powi: "pow10 e = 10 powi e"
  by (simp add: pow10_def power_int_def inverse_eq_divide power_one_over)

lemma pow10_pos [simp]: "0 < pow10 e"
  by (simp add: pow10_powi)

lemma pow10_nz [simp]: "pow10 e \<noteq> 0"
  using pow10_pos [of e] by linarith

lemma pow10_nonneg [simp]: "0 \<le> pow10 e"
  by (simp add: less_imp_le)

lemma pow10_not_neg [simp]: "\<not> pow10 e < 0"
  by (simp add: not_less)

lemma pow10_not_le_0 [simp]: "\<not> pow10 e \<le> 0"
  by (simp add: not_le)

lemma pow10_0 [simp]: "pow10 0 = 1"
  by (simp add: pow10_def)

lemma pow10_1 [simp]: "pow10 1 = 10"
  by (simp add: pow10_def)

lemma pow10_add: "pow10 (a + b) = pow10 a * pow10 b"
  by (simp add: pow10_powi power_int_add)

lemma pow10_diff: "pow10 (a - b) = pow10 a / pow10 b"
  by (simp add: pow10_powi power_int_diff)

lemma pow10_Suc: "pow10 (e + 1) = 10 * pow10 e"
  by (simp add: pow10_add)

lemma pow10_mono: "a \<le> b \<Longrightarrow> pow10 a \<le> pow10 b"
  by (simp add: pow10_powi power_int_increasing)

lemma pow10_strict_mono: "a < b \<Longrightarrow> pow10 a < pow10 b"
  by (simp add: pow10_powi power_int_strict_increasing)

lemma pow10_le_iff [simp]: "pow10 a \<le> pow10 b \<longleftrightarrow> a \<le> b"
  by (meson linorder_not_less pow10_mono pow10_strict_mono)

lemma pow10_less_iff [simp]: "pow10 a < pow10 b \<longleftrightarrow> a < b"
  by (meson linorder_not_less pow10_mono pow10_strict_mono)

lemma pow10_of_nat: "pow10 (int n) = 10 ^ n"
  by (simp add: pow10_def)

lemma pow10_Ints: "0 \<le> e \<Longrightarrow> pow10 e \<in> \<int>"
  by (simp add: pow10_def)

text \<open>\<open>Decimal.adjusted()\<close>: the exponent of the most significant digit.\<close>

definition adjusted :: "rat \<Rightarrow> int" where
  "adjusted x =
     (let (a, b) = quotient_of \<bar>x\<bar>;
          e = int (floorlog 10 (nat a)) - int (floorlog 10 (nat b))
      in if pow10 e \<le> \<bar>x\<bar> then e else e - 1)"

lemma floorlog_ten_bounds:
  assumes "0 < n"
  shows "pow10 (int (floorlog 10 n) - 1) \<le> rat_of_nat n"
    and "rat_of_nat n < pow10 (int (floorlog 10 n))"
proof -
  have b: "10 ^ (floorlog 10 n - 1) \<le> n" "n < 10 ^ floorlog 10 n"
    using floorlog_bounds [of n 10] assms by auto
  have "floorlog 10 n \<noteq> 0" using assms by (simp add: floorlog_eq_zero_iff)
  then have "int (floorlog 10 n) - 1 = int (floorlog 10 n - 1)" by simp
  then show "pow10 (int (floorlog 10 n) - 1) \<le> rat_of_nat n"
    using b(1) by (simp only: pow10_of_nat) (metis of_nat_le_iff of_nat_numeral of_nat_power)
  show "rat_of_nat n < pow10 (int (floorlog 10 n))"
    using b(2) by (simp only: pow10_of_nat) (metis of_nat_less_iff of_nat_numeral of_nat_power)
qed

lemma adjusted_bounds:
  assumes "x \<noteq> 0"
  shows "pow10 (adjusted x) \<le> \<bar>x\<bar>" and "\<bar>x\<bar> < pow10 (adjusted x + 1)"
proof -
  obtain a b where q: "quotient_of \<bar>x\<bar> = (a, b)" by (cases "quotient_of \<bar>x\<bar>")
  have bpos: "0 < b" using quotient_of_denom_pos [OF q] .
  have xab: "\<bar>x\<bar> = of_int a / of_int b" using quotient_of_div [OF q] .
  have apos: "0 < a" using assms bpos xab
    by (metis abs_le_zero_iff divide_nonpos_pos linorder_not_less of_int_0_less_iff of_int_le_0_iff)
  define A where "A = nat a"
  define B where "B = nat b"
  have AB: "0 < A" "0 < B" "\<bar>x\<bar> = of_nat A / of_nat B"
    using apos bpos xab by (simp_all add: A_def B_def)
  define m where "m = int (floorlog 10 A)"
  define n where "n = int (floorlog 10 B)"
  have mA: "pow10 (m - 1) \<le> of_nat A" "of_nat A < pow10 m"
    and nB: "pow10 (n - 1) \<le> of_nat B" "of_nat B < pow10 n"
    unfolding m_def n_def using floorlog_ten_bounds AB by auto
  have adj: "adjusted x = (if pow10 (m - n) \<le> \<bar>x\<bar> then m - n else m - n - 1)"
    by (simp add: adjusted_def q m_def n_def A_def B_def Let_def)
  have up: "\<bar>x\<bar> < pow10 (m - n + 1)"
  proof -
    have "\<bar>x\<bar> < pow10 m / of_nat B" using AB mA by (simp add: divide_strict_right_mono)
    also have "\<dots> \<le> pow10 m / pow10 (n - 1)"
      using nB(1) AB(2) by (intro divide_left_mono) auto
    also have "\<dots> = pow10 (m - n + 1)" by (simp add: pow10_add pow10_diff)
    finally show ?thesis .
  qed
  have lo: "pow10 (m - n - 1) \<le> \<bar>x\<bar>"
  proof -
    have "pow10 (m - n - 1) = pow10 (m - 1) / pow10 n" by (simp add: pow10_diff)
    also have "\<dots> \<le> of_nat A / pow10 n" using mA by (intro divide_right_mono) auto
    also have "\<dots> \<le> of_nat A / of_nat B" using nB AB by (intro divide_left_mono) auto
    finally show ?thesis using AB by simp
  qed
  show "pow10 (adjusted x) \<le> \<bar>x\<bar>" using lo adj by auto
  show "\<bar>x\<bar> < pow10 (adjusted x + 1)" using up adj by auto
qed

lemma adjusted_unique:
  assumes "pow10 e \<le> \<bar>x\<bar>" and "\<bar>x\<bar> < pow10 (e + 1)"
  shows "adjusted x = e"
proof -
  have "0 < \<bar>x\<bar>" using assms(1) pow10_pos [of e] by linarith
  then have "x \<noteq> 0" by simp
  note b = adjusted_bounds [OF this]
  have "pow10 e < pow10 (adjusted x + 1)" using assms(1) b(2) by linarith
  moreover have "pow10 (adjusted x) < pow10 (e + 1)" using assms(2) b(1) by linarith
  ultimately show ?thesis by simp
qed

lemma adjusted_uminus [simp]: "adjusted (- x) = adjusted x"
  by (simp add: adjusted_def)

lemma adjusted_mono:
  assumes "x \<noteq> 0" and "\<bar>x\<bar> \<le> \<bar>y\<bar>"
  shows "adjusted x \<le> adjusted y"
proof -
  have "y \<noteq> 0" using assms by auto
  then have "pow10 (adjusted x) < pow10 (adjusted y + 1)"
    using adjusted_bounds(1) [OF assms(1)] adjusted_bounds(2) [of y] assms(2) by linarith
  then show ?thesis by simp
qed


section \<open>Rounding to an integer\<close>

datatype rounding = ROUND_HALF_EVEN | ROUND_HALF_UP | ROUND_FLOOR | ROUND_CEILING

text \<open>
  \<open>round_int\<close> is the rounding of \<open>y\<close> to an integer. Half-even and half-up look at the
  magnitude, so they are symmetric in the sign; floor and ceiling are directed.
\<close>

definition half_even :: "rat \<Rightarrow> int" where
  "half_even y =
     (let f = \<lfloor>y\<rfloor>; r = y - of_int f
      in if r < 1 / 2 then f else if 1 / 2 < r then f + 1 else if even f then f else f + 1)"

fun round_int :: "rounding \<Rightarrow> rat \<Rightarrow> int" where
  "round_int ROUND_HALF_EVEN y = (if y < 0 then - half_even (- y) else half_even y)"
| "round_int ROUND_HALF_UP y = (if y < 0 then - \<lfloor>- y + 1 / 2\<rfloor> else \<lfloor>y + 1 / 2\<rfloor>)"
| "round_int ROUND_FLOOR y = \<lfloor>y\<rfloor>"
| "round_int ROUND_CEILING y = \<lceil>y\<rceil>"

lemma half_even_of_int [simp]: "half_even (of_int n) = n"
  by (simp add: half_even_def)

lemma half_even_error: "\<bar>of_int (half_even y) - y\<bar> \<le> 1 / 2"
  unfolding half_even_def Let_def abs_if
  using of_int_floor_le [of y] floor_correct [of y] by (simp; linarith)

lemma half_even_mono:
  assumes "x \<le> y"
  shows "half_even x \<le> half_even y"
proof (cases "\<lfloor>x\<rfloor> = \<lfloor>y\<rfloor>")
  case True
  then show ?thesis using assms by (auto simp: half_even_def Let_def)
next
  case False
  then have "\<lfloor>x\<rfloor> + 1 \<le> \<lfloor>y\<rfloor>" using floor_mono [OF assms] by linarith
  moreover have "half_even x \<le> \<lfloor>x\<rfloor> + 1" and "\<lfloor>y\<rfloor> \<le> half_even y"
    by (auto simp: half_even_def Let_def)
  ultimately show ?thesis by linarith
qed

lemma half_even_ge: "of_int n \<le> y \<Longrightarrow> n \<le> half_even y"
  using half_even_mono [of "of_int n" y] by simp

lemma half_even_le: "y \<le> of_int n \<Longrightarrow> half_even y \<le> n"
  using half_even_mono [of y "of_int n"] by simp


section \<open>The default arithmetic context\<close>

text \<open>
  \<open>ctx x\<close> is \<open>x\<close> rounded to the context precision of 28 significant digits, half to even.
\<close>

definition prec :: int where "prec = 28"

definition ctx :: "rat \<Rightarrow> rat" where
  "ctx x =
     (if x = 0 then 0
      else let q = pow10 (adjusted x - (prec - 1))
           in of_int (round_int ROUND_HALF_EVEN (x / q)) * q)"

text \<open>The values a context operation can return, exactly representable in 28 digits.\<close>

definition ctx_rep :: "rat \<Rightarrow> bool" where
  "ctx_rep x \<longleftrightarrow> ctx x = x"

text \<open>The rounded mantissa of a positive value stays between \<open>10^27\<close> and \<open>10^28\<close>.\<close>

lemma ctx_pos_mantissa:
  assumes "0 < x"
  obtains m where "ctx x = of_int m * pow10 (adjusted x - 27)"
    and "10 ^ 27 \<le> m" and "m \<le> 10 ^ 28" and "m = half_even (x / pow10 (adjusted x - 27))"
proof -
  define q where "q = pow10 (adjusted x - 27)"
  have q: "0 < q" by (simp add: q_def)
  have b: "pow10 (adjusted x) \<le> x" "x < pow10 (adjusted x + 1)"
    using adjusted_bounds [of x] assms by auto
  have "pow10 (adjusted x) = 10 ^ 27 * q" "pow10 (adjusted x + 1) = 10 ^ 28 * q"
    by (simp_all add: q_def pow10_diff pow10_add pow10_def [of 27])
  with b q have "10 ^ 27 \<le> x / q" "x / q \<le> 10 ^ 28"
    by (simp_all add: pos_le_divide_eq pos_divide_le_eq)
  then have "10 ^ 27 \<le> half_even (x / q)" "half_even (x / q) \<le> 10 ^ 28"
    by (auto intro!: half_even_ge half_even_le)
  moreover have "ctx x = of_int (half_even (x / q)) * q"
    using assms q by (simp add: ctx_def q_def Let_def prec_def divide_less_0_iff)
  ultimately show thesis using that by (simp add: q_def)
qed

lemma ctx_0 [simp]: "ctx 0 = 0"
  by (simp add: ctx_def)

lemma ctx_uminus: "ctx (- x) = - ctx x"
proof -
  have "round_int ROUND_HALF_EVEN (- y) = - round_int ROUND_HALF_EVEN y" if "y \<noteq> 0" for y
    using that by auto
  then show ?thesis by (simp add: ctx_def Let_def)
qed

lemma ctx_pos_bounds:
  assumes "0 < x"
  shows "pow10 (adjusted x) \<le> ctx x" and "ctx x \<le> pow10 (adjusted x + 1)"
proof -
  obtain m where m: "ctx x = of_int m * pow10 (adjusted x - 27)" "10 ^ 27 \<le> m" "m \<le> 10 ^ 28"
    using ctx_pos_mantissa [OF assms] by metis
  define q where "q = pow10 (adjusted x - 27)"
  have e: "pow10 (adjusted x) = 10 ^ 27 * q" "pow10 (adjusted x + 1) = 10 ^ 28 * q"
    by (simp_all add: q_def pow10_diff pow10_add pow10_def [of 27])
  have "(10 ^ 27 :: rat) \<le> of_int m" "(of_int m :: rat) \<le> 10 ^ 28"
    using m(2,3) by (metis of_int_le_iff of_int_numeral of_int_power)+
  then show "pow10 (adjusted x) \<le> ctx x" and "ctx x \<le> pow10 (adjusted x + 1)"
    using m(1) e by (simp_all add: q_def mult_right_mono)
qed

lemma ctx_pos_mono:
  assumes "0 < x" and "x \<le> y"
  shows "ctx x \<le> ctx y"
proof (cases "adjusted x = adjusted y")
  case True
  have "0 < y" using assms by linarith
  have "half_even (x / pow10 (adjusted x - 27)) \<le> half_even (y / pow10 (adjusted x - 27))"
    using assms by (intro half_even_mono divide_right_mono) auto
  then show ?thesis
    using ctx_pos_mantissa [OF \<open>0 < x\<close>] ctx_pos_mantissa [OF \<open>0 < y\<close>] True
    by (metis mult_right_mono of_int_le_iff pow10_nonneg)
next
  case False
  have "0 < y" using assms by linarith
  have "adjusted x \<le> adjusted y" using assms by (intro adjusted_mono) auto
  with False have "adjusted x + 1 \<le> adjusted y" by linarith
  then have "pow10 (adjusted x + 1) \<le> pow10 (adjusted y)" by simp
  then show ?thesis
    using ctx_pos_bounds(2) [OF \<open>0 < x\<close>] ctx_pos_bounds(1) [OF \<open>0 < y\<close>] by linarith
qed

lemma ctx_pos: "0 < x \<Longrightarrow> 0 < ctx x"
  using ctx_pos_bounds(1) [of x] pow10_pos [of "adjusted x"] by linarith

lemma ctx_mono: "x \<le> y \<Longrightarrow> ctx x \<le> ctx y"
proof -
  assume le: "x \<le> y"
  consider "0 < x" | "x = 0" | "x < 0" "0 \<le> y" | "x < 0" "y < 0" by linarith
  then show ?thesis
  proof cases
    case 1
    then show ?thesis using le by (rule ctx_pos_mono)
  next
    case 2
    then show ?thesis using le ctx_pos [of y] by (cases "y = 0") auto
  next
    case 3
    have "0 < ctx (- x)" using 3 by (intro ctx_pos) simp
    moreover have "0 \<le> ctx y" using 3 ctx_pos [of y] by (cases "y = 0") auto
    ultimately show ?thesis by (simp add: ctx_uminus)
  next
    case 4
    have "ctx (- y) \<le> ctx (- x)" using 4 le by (intro ctx_pos_mono) auto
    then show ?thesis by (simp add: ctx_uminus)
  qed
qed

lemma ctx_rel_error: "\<bar>ctx x - x\<bar> \<le> \<bar>x\<bar> * pow10 (- 27) / 2"
proof -
  have pos: "\<bar>ctx y - y\<bar> \<le> y * pow10 (- 27) / 2" if "0 < y" for y
  proof -
    define q where "q = pow10 (adjusted y - 27)"
    have q: "0 < q" by (simp add: q_def)
    obtain m where m: "ctx y = of_int m * q" "m = half_even (y / q)"
      using ctx_pos_mantissa [OF \<open>0 < y\<close>] unfolding q_def by metis
    have "\<bar>of_int m - y / q\<bar> \<le> 1 / 2" using half_even_error m(2) by simp
    then have "\<bar>of_int m - y / q\<bar> * q \<le> 1 / 2 * q" using q by (intro mult_right_mono) auto
    moreover have "ctx y - y = (of_int m - y / q) * q" using q m(1) by (simp add: field_simps)
    ultimately have "\<bar>ctx y - y\<bar> \<le> q / 2" using q by (simp add: abs_mult)
    also have "q = pow10 (adjusted y) * pow10 (- 27)" by (simp add: q_def flip: pow10_add)
    also have "\<dots> / 2 \<le> y * pow10 (- 27) / 2"
      using adjusted_bounds(1) [of y] that by (simp add: divide_right_mono mult_right_mono)
    finally show ?thesis by simp
  qed
  consider "0 < x" | "x = 0" | "x < 0" by linarith
  then show ?thesis
  proof cases
    case 3
    then show ?thesis using pos [of "- x"] by (simp add: ctx_uminus abs_minus_commute)
  qed (use pos in auto)
qed

lemma ctx_mantissa_rep:
  assumes "\<bar>m\<bar> \<le> 10 ^ 28"
  shows "ctx_rep (of_int m * pow10 e)"
proof -
  have pos: "ctx (of_int m * pow10 e) = of_int m * pow10 e" if m: "0 < m" "m \<le> 10 ^ 28" for m
  proof -
    define x where "x = of_int m * pow10 e"
    have x: "0 < x" using m by (simp add: x_def)
    have xu: "x \<le> pow10 (e + 28)"
    proof -
      have "(of_int m :: rat) \<le> 10 ^ 28" using m(2) by (metis of_int_le_iff of_int_numeral of_int_power)
      then show ?thesis by (simp add: x_def pow10_add pow10_def [of 28] mult_right_mono)
    qed
    have "pow10 (adjusted x) \<le> pow10 (e + 28)" using adjusted_bounds(1) [of x] x xu by linarith
    then have le: "adjusted x \<le> e + 28" by simp
    show ?thesis
    proof (cases "adjusted x = e + 28")
      case True
      then have "x = pow10 (e + 28)" using adjusted_bounds(1) [of x] x xu by simp
      then have "x / pow10 (adjusted x - 27) = of_int (10 ^ 27)"
        using True by (simp add: pow10_def [of 27] flip: pow10_diff)
      moreover obtain k where "ctx x = of_int k * pow10 (adjusted x - 27)"
        "k = half_even (x / pow10 (adjusted x - 27))"
        using ctx_pos_mantissa [OF x] by metis
      ultimately show ?thesis unfolding x_def [symmetric]
        by (metis half_even_of_int nonzero_eq_divide_eq pow10_nz)
    next
      case False
      define k where "k = e - (adjusted x - 27)"
      have "0 \<le> k" using le False by (simp add: k_def)
      have "x / pow10 (adjusted x - 27) = of_int m * pow10 k"
        by (simp add: x_def k_def pow10_diff)
      also have "\<dots> = of_int (m * 10 ^ nat k)" using \<open>0 \<le> k\<close> by (simp add: pow10_def)
      finally have "x / pow10 (adjusted x - 27) = of_int (m * 10 ^ nat k)" .
      moreover obtain j where "ctx x = of_int j * pow10 (adjusted x - 27)"
        "j = half_even (x / pow10 (adjusted x - 27))"
        using ctx_pos_mantissa [OF x] by metis
      ultimately show ?thesis unfolding x_def [symmetric]
        by (metis half_even_of_int nonzero_eq_divide_eq pow10_nz)
    qed
  qed
  consider "0 < m" | "m = 0" | "m < 0" by linarith
  then show ?thesis
  proof cases
    case 3
    then show ?thesis using pos [of "- m"] assms by (simp add: ctx_rep_def ctx_uminus)
  qed (use pos assms in \<open>auto simp: ctx_rep_def\<close>)
qed

text \<open>
  Short decimals are exact: a conditional rewrite rule that evaluates the context on the literals
  of a concrete input.
\<close>

lemma floor_numeral_frac [dec_eval]:
  "\<lfloor>numeral a / numeral b :: rat\<rfloor> = numeral a div numeral b"
  "\<lfloor>- (numeral a / numeral b) :: rat\<rfloor> = - numeral a div numeral b"
  "\<lfloor>1 / numeral b :: rat\<rfloor> = 1 div numeral b"
  using floor_divide_of_int_eq [of "numeral a" "numeral b", where ?'a = rat]
    floor_divide_of_int_eq [of "- numeral a" "numeral b", where ?'a = rat]
    floor_divide_of_int_eq [of 1 "numeral b", where ?'a = rat] by simp_all

lemma ctx_short [dec_eval]:
  assumes "x * 10 ^ 12 \<in> \<int>" and "\<bar>x\<bar> \<le> 10 ^ 15"
  shows "ctx x = x"
proof -
  obtain n where n: "x * 10 ^ 12 = of_int n" using assms(1) by (auto elim: Ints_cases)
  then have x: "x = of_int n * pow10 (- 12)" by (simp add: pow10_def)
  have "\<bar>x\<bar> * 10 ^ 12 \<le> 10 ^ 15 * 10 ^ 12" using assms(2) by (intro mult_right_mono) auto
  also have "\<dots> \<le> 10 ^ 28" by simp
  finally have "\<bar>of_int n :: rat\<bar> \<le> 10 ^ 28" by (simp add: abs_mult flip: n)
  then have "\<bar>n\<bar> \<le> 10 ^ 28" by (metis of_int_abs of_int_le_iff of_int_numeral of_int_power)
  then show ?thesis using ctx_mantissa_rep [of n "- 12"] by (simp add: ctx_rep_def x)
qed

text \<open>The same shortcut for evaluation by code equations.\<close>

definition short_dec :: "rat \<Rightarrow> bool" where
  "short_dec x = (case quotient_of x of (n, d) \<Rightarrow> 1000000000000 mod d = 0 \<and> \<bar>n\<bar> \<le> 1000000000000000 * d)"

lemma short_dec_ctx: "short_dec x \<Longrightarrow> ctx x = x"
proof -
  assume s: "short_dec x"
  obtain n d where q: "quotient_of x = (n, d)" by (cases "quotient_of x")
  have d: "0 < d" using quotient_of_denom_pos [OF q] .
  have x: "x = of_int n / of_int d" by (rule quotient_of_div [OF q])
  have "d dvd 1000000000000" using s by (auto simp: short_dec_def q mod_eq_0_iff_dvd)
  then obtain k where k: "1000000000000 = d * k" by (rule dvdE)
  have "x * 10 ^ 12 = of_int n / of_int d * of_int (d * k)" by (simp add: x flip: k)
  also have "\<dots> = of_int (n * k)" using d by simp
  finally have 1: "x * 10 ^ 12 \<in> \<int>" by (metis Ints_of_int)
  have "\<bar>n\<bar> \<le> 1000000000000000 * d" using s by (auto simp: short_dec_def q)
  then have "of_int \<bar>n\<bar> \<le> (of_int (1000000000000000 * d) :: rat)" by (simp only: of_int_le_iff)
  moreover have "\<bar>x\<bar> = of_int \<bar>n\<bar> / of_int d" unfolding x using d by (simp only: abs_divide of_int_abs)
  ultimately have "\<bar>x\<bar> \<le> of_int (1000000000000000 * d) / of_int d" using d by (simp only:) (rule divide_right_mono, auto)
  then have "\<bar>x\<bar> \<le> 10 ^ 15" using d by simp
  with 1 show "ctx x = x" by (rule ctx_short)
qed

lemma ctx_code [code]: "ctx x = (if short_dec x then x else if x = 0 then 0
      else let q = pow10 (adjusted x - (prec - 1))
           in of_int (round_int ROUND_HALF_EVEN (x / q)) * q)"
  using short_dec_ctx [of x] by (simp add: ctx_def)

lemma ctx_rep_ctx [simp]: "ctx_rep (ctx x)"
proof -
  have pos: "ctx_rep (ctx y)" if "0 < y" for y
    using ctx_pos_mantissa [OF that] ctx_mantissa_rep by (metis abs_of_nonneg order_trans zero_le_numeral zero_le_power)
  consider "0 < x" | "x = 0" | "x < 0" by linarith
  then show ?thesis
  proof cases
    case 3
    then show ?thesis using pos [of "- x"] by (simp add: ctx_rep_def ctx_uminus)
  qed (use pos in \<open>auto simp: ctx_rep_def\<close>)
qed


section \<open>What a rounded arithmetic promises\<close>

text \<open>
  The clients of the context need only these laws: rounding is odd, monotone, idempotent, and
  moves a value by at most the fraction \<open>u\<close> of its magnitude.
\<close>

locale rounded_arith =
  fixes rnd :: "rat \<Rightarrow> rat" and u :: rat
  assumes rnd_neg: "rnd (- x) = - rnd x"
    and rnd_mono: "x \<le> y \<Longrightarrow> rnd x \<le> rnd y"
    and rnd_idem: "rnd (rnd x) = rnd x"
    and rnd_error: "\<bar>rnd x - x\<bar> \<le> \<bar>x\<bar> * u"
    and u_range: "0 \<le> u" "u < 1"
begin

lemma rnd_zero: "rnd 0 = 0"
  using rnd_error [of 0] by simp

lemma rnd_upper: "0 \<le> x \<Longrightarrow> rnd x \<le> x * (1 + u)"
  using rnd_error [of x] by (simp add: algebra_simps abs_if split: if_splits)

lemma rnd_lower: "0 \<le> x \<Longrightarrow> x * (1 - u) \<le> rnd x"
  using rnd_error [of x] by (simp add: algebra_simps abs_if split: if_splits)

lemma rnd_pos: "0 < x \<Longrightarrow> 0 < rnd x"
proof -
  assume x: "0 < x"
  have "0 < x * (1 - u)" using x u_range by simp
  then show ?thesis using rnd_lower [of x] x by linarith
qed

lemma rnd_nonneg: "0 \<le> x \<Longrightarrow> 0 \<le> rnd x"
  using rnd_mono [of 0 x] rnd_zero by simp

lemma rnd_pos_iff: "0 < rnd x \<longleftrightarrow> 0 < x"
  using rnd_pos [of x] rnd_mono [of x 0] rnd_zero by force

lemma rnd_neg_iff: "rnd x < 0 \<longleftrightarrow> x < 0"
  using rnd_pos_iff [of "- x"] by (simp add: rnd_neg)

lemma rnd_zero_iff: "rnd x = 0 \<longleftrightarrow> x = 0"
  using rnd_pos_iff [of x] rnd_neg_iff [of x] by (metis linorder_neqE_linordered_idom rnd_zero less_irrefl)

lemma rnd_abs: "rnd \<bar>x\<bar> = \<bar>rnd x\<bar>"
  using rnd_neg [of x] rnd_nonneg [of x] rnd_neg_iff [of x] by (auto simp: abs_if)

lemma rnd_le_rep: "x \<le> y \<Longrightarrow> rnd y = y \<Longrightarrow> rnd x \<le> y"
  using rnd_mono [of x y] by simp

lemma rnd_ge_rep: "y \<le> x \<Longrightarrow> rnd y = y \<Longrightarrow> y \<le> rnd x"
  using rnd_mono [of y x] by simp

text \<open>Summing from left to right with a rounding after every addition.\<close>

definition fsum :: "rat \<Rightarrow> rat list \<Rightarrow> rat" where
  "fsum = foldl (\<lambda>a x. rnd (a + x))"

lemma fsum_simps [simp]:
  "fsum a [] = a" "fsum a (x # xs) = fsum (rnd (a + x)) xs"
  by (simp_all add: fsum_def)

lemma fsum_upper:
  "0 \<le> a \<Longrightarrow> \<forall>x \<in> set xs. 0 \<le> x \<Longrightarrow>
   0 \<le> fsum a xs \<and> fsum a xs \<le> (1 + u) ^ length xs * (a + sum_list xs)"
proof (induction xs arbitrary: a)
  case (Cons x xs)
  let ?b = "rnd (a + x)"
  have ax: "0 \<le> a + x" using Cons.prems by simp
  have b: "0 \<le> ?b" using ax by (rule rnd_nonneg)
  have s: "0 \<le> sum_list xs" using Cons.prems(2) by (simp add: sum_list_nonneg)
  have IH: "0 \<le> fsum ?b xs" "fsum ?b xs \<le> (1 + u) ^ length xs * (?b + sum_list xs)"
    using Cons.IH [OF b] Cons.prems(2) by auto
  have "?b + sum_list xs \<le> (a + x) * (1 + u) + sum_list xs * (1 + u)"
    using rnd_upper [OF ax] s u_range(1) by (intro add_mono) (simp_all add: algebra_simps)
  also have "\<dots> = (1 + u) * (a + sum_list (x # xs))" by (simp add: algebra_simps)
  finally have "?b + sum_list xs \<le> (1 + u) * (a + sum_list (x # xs))" .
  then have "(1 + u) ^ length xs * (?b + sum_list xs) \<le>
      (1 + u) ^ length xs * ((1 + u) * (a + sum_list (x # xs)))"
    using u_range by (intro mult_left_mono) auto
  with IH show ?case by (simp add: algebra_simps)
qed simp

lemma fsum_lower:
  "0 \<le> a \<Longrightarrow> \<forall>x \<in> set xs. 0 \<le> x \<Longrightarrow> (1 - u) ^ length xs * (a + sum_list xs) \<le> fsum a xs"
proof (induction xs arbitrary: a)
  case (Cons x xs)
  let ?b = "rnd (a + x)"
  have ax: "0 \<le> a + x" using Cons.prems by simp
  have b: "0 \<le> ?b" using ax by (rule rnd_nonneg)
  have s: "0 \<le> sum_list xs" using Cons.prems(2) by (simp add: sum_list_nonneg)
  have "(1 - u) * (a + sum_list (x # xs)) = (a + x) * (1 - u) + sum_list xs * (1 - u)"
    by (simp add: algebra_simps)
  also have "\<dots> \<le> ?b + sum_list xs"
    using rnd_lower [OF ax] s u_range(1) by (intro add_mono) (simp_all add: mult_left_le)
  finally have "(1 - u) ^ length xs * ((1 - u) * (a + sum_list (x # xs))) \<le>
      (1 - u) ^ length xs * (?b + sum_list xs)"
    using u_range by (intro mult_left_mono) auto
  also have "\<dots> \<le> fsum ?b xs" using Cons.IH [OF b] Cons.prems(2) by simp
  finally show ?case by (simp add: algebra_simps)
qed simp

lemma fsum_mono:
  "a \<le> b \<Longrightarrow> list_all2 (\<le>) xs ys \<Longrightarrow> fsum a xs \<le> fsum b ys"
proof (induction xs arbitrary: a b ys)
  case (Cons x xs)
  then obtain y ys' where "ys = y # ys'" "x \<le> y" "list_all2 (\<le>) xs ys'"
    by (auto simp: list_all2_Cons1)
  then show ?case using Cons by (auto intro!: Cons.IH rnd_mono add_mono)
qed simp

end

definition ctx_ulp :: rat where
  "ctx_ulp = pow10 (- 27) / 2"

interpretation dc: rounded_arith ctx ctx_ulp
proof unfold_locales
  fix x y :: rat
  show "ctx (- x) = - ctx x" by (rule ctx_uminus)
  show "x \<le> y \<Longrightarrow> ctx x \<le> ctx y" by (rule ctx_mono)
  show "ctx (ctx x) = ctx x" using ctx_rep_ctx [of x] by (simp add: ctx_rep_def)
  show "\<bar>ctx x - x\<bar> \<le> \<bar>x\<bar> * ctx_ulp" using ctx_rel_error [of x] by (simp add: ctx_ulp_def)
  show "0 \<le> ctx_ulp" "ctx_ulp < 1" by (simp_all add: ctx_ulp_def pow10_def)
qed

lemmas ctx_sign_iff [simp] = dc.rnd_pos_iff dc.rnd_neg_iff dc.rnd_zero_iff

lemma ctx_nonneg_iff [simp]: "0 \<le> ctx x \<longleftrightarrow> 0 \<le> x" "ctx x \<le> 0 \<longleftrightarrow> x \<le> 0"
  by (simp_all flip: not_less)

lemma ctx_idem [simp]: "ctx (ctx x) = ctx x"
  by (rule dc.rnd_idem)

lemma ctx_abs: "ctx \<bar>x\<bar> = \<bar>ctx x\<bar>"
  by (rule dc.rnd_abs)


section \<open>Decimal operations\<close>

definition dadd :: "rat \<Rightarrow> rat \<Rightarrow> rat" where "dadd x y = ctx (x + y)"
definition dsub :: "rat \<Rightarrow> rat \<Rightarrow> rat" where "dsub x y = ctx (x - y)"
definition dmul :: "rat \<Rightarrow> rat \<Rightarrow> rat" where "dmul x y = ctx (x * y)"
definition dneg :: "rat \<Rightarrow> rat" where "dneg x = ctx (- x)"
definition dabs :: "rat \<Rightarrow> rat" where "dabs x = ctx \<bar>x\<bar>"

text \<open>\<open>ddiv\<close> is used where the code has already excluded a zero divisor; \<open>py_div\<close> raises.\<close>

definition ddiv :: "rat \<Rightarrow> rat \<Rightarrow> rat" where "ddiv x y = ctx (x / y)"

definition py_div :: "rat \<Rightarrow> rat \<Rightarrow> rat result" where
  "py_div x y = (if y = 0 then Inl (ArithmeticError ''division by zero'') else Inr (ddiv x y))"

definition copy_sign :: "rat \<Rightarrow> rat \<Rightarrow> rat" where
  "copy_sign x y = (if y < 0 then - \<bar>x\<bar> else \<bar>x\<bar>)"

lemmas dec_op_defs [dec_eval] =
  dadd_def dsub_def dmul_def dneg_def dabs_def ddiv_def py_div_def copy_sign_def

text \<open>\<open>sum(xs, Decimal("0"))\<close>\<close>

definition dsum :: "rat list \<Rightarrow> rat" where
  "dsum xs = foldl dadd 0 xs"

lemma dsum_fsum: "dsum xs = dc.fsum 0 xs"
  by (simp add: dsum_def dc.fsum_def dadd_def [abs_def])

lemma dsum_Nil [simp]: "dsum [] = 0"
  by (simp add: dsum_def)

text \<open>
  \<open>x.quantize(Decimal(1).scaleb(e), rounding)\<close> under precision \<open>p\<close>: \<open>InvalidOperation\<close> (an
  \<open>ArithmeticError\<close>) when the coefficient needs more than \<open>p\<close> digits.
\<close>

definition quantize_in :: "nat \<Rightarrow> rounding \<Rightarrow> rat \<Rightarrow> int \<Rightarrow> rat result" where
  "quantize_in p m x e =
     (let n = round_int m (x / pow10 e)
      in if 10 ^ p \<le> \<bar>n\<bar> then Inl (ArithmeticError ''quantize result has too many digits'')
         else Inr (of_int n * pow10 e))"

definition quantize :: "rounding \<Rightarrow> rat \<Rightarrow> int \<Rightarrow> rat result" where
  "quantize = quantize_in 28"

lemmas quantize_defs [dec_eval] = quantize_def quantize_in_def pow10_def

text \<open>A value is on the grid of step \<open>10^e\<close> when it is an integer multiple of it.\<close>

definition on_grid :: "int \<Rightarrow> rat \<Rightarrow> bool" where
  "on_grid e x \<longleftrightarrow> x / pow10 e \<in> \<int>"

lemma on_grid_mult [simp]: "on_grid e (of_int n * pow10 e)"
  by (simp add: on_grid_def)

lemma on_grid_uminus [simp]: "on_grid e (- x) = on_grid e x"
  by (simp add: on_grid_def)

lemma on_grid_abs [simp]: "on_grid e \<bar>x\<bar> = on_grid e x"
  by (simp add: abs_if)

lemma on_grid_mono:
  assumes "on_grid e x" and "d \<le> e"
  shows "on_grid d x"
proof -
  have "x / pow10 d = (x / pow10 e) * pow10 (e - d)" by (simp add: pow10_diff)
  moreover have "(x / pow10 e) * pow10 (e - d) \<in> \<int>"
    using assms by (intro Ints_mult pow10_Ints) (auto simp: on_grid_def)
  ultimately show ?thesis by (simp only: on_grid_def)
qed

lemma quantize_grid: "quantize_in p m x e = Inr y \<Longrightarrow> on_grid e y"
  by (auto simp: quantize_in_def Let_def split: if_splits)

lemma quantize_in_error: "quantize_in p m x e = Inl err \<Longrightarrow> \<exists>msg. err = ArithmeticError msg"
  by (auto simp: quantize_in_def Let_def split: if_splits)

lemma quantize_rep: "quantize m x e = Inr y \<Longrightarrow> ctx_rep y"
  by (auto simp: quantize_def quantize_in_def Let_def intro!: ctx_mantissa_rep split: if_splits)

lemma quantize_floor_bounds:
  assumes "quantize_in p ROUND_FLOOR x e = Inr y"
  shows "y \<le> x" and "x < y + pow10 e"
proof -
  define z where "z = x / pow10 e"
  have y: "y = of_int \<lfloor>z\<rfloor> * pow10 e" and x: "x = z * pow10 e"
    using assms by (auto simp: quantize_in_def Let_def z_def split: if_splits)
  have "of_int \<lfloor>z\<rfloor> \<le> z" "z < of_int \<lfloor>z\<rfloor> + 1" by linarith+
  then show "y \<le> x" unfolding x y by (intro mult_right_mono) auto
  have "z * pow10 e < (of_int \<lfloor>z\<rfloor> + 1) * pow10 e"
    using \<open>z < of_int \<lfloor>z\<rfloor> + 1\<close> by (intro mult_strict_right_mono) auto
  then show "x < y + pow10 e" by (simp add: x y algebra_simps)
qed

lemma quantize_ceiling_neg:
  "quantize_in p ROUND_CEILING x e = Inr y \<longleftrightarrow> quantize_in p ROUND_FLOOR (- x) e = Inr (- y)"
  by (auto simp: quantize_in_def Let_def ceiling_def split: if_splits)

lemma quantize_ceiling_bounds:
  assumes "quantize_in p ROUND_CEILING x e = Inr y"
  shows "x \<le> y" and "y < x + pow10 e"
  using quantize_floor_bounds [of p "- x" e "- y"] assms by (simp_all add: quantize_ceiling_neg)

end
