(* ===== verification/Json.thy ===== *)
theory Json
  imports Decimals
begin

text \<open>
  The parts of Python's standard library that turn text into data and back: the syntax and the
  values of \<open>json.loads\<close>, the compact \<open>json.dumps\<close> with sorted keys, and the numeric syntax of the
  \<open>Decimal\<close> constructor. JSON integers are unbounded; a float is kept as the text of its literal,
  which the program only ever reads as a number. Strings are ASCII; a \<open>\u\<close> escape of another
  character stands for it undecoded. The recursion limit of the interpreter is not modelled.
\<close>

section \<open>The Decimal constructor\<close>

definition is_digit :: "char \<Rightarrow> bool" where
  "is_digit c = (let n = (of_char c :: nat) in 48 \<le> n \<and> n \<le> 57)"

definition digit_val :: "char \<Rightarrow> int" where
  "digit_val c = int (of_char c) - 48"

definition digits_val :: "string \<Rightarrow> int" where
  "digits_val ds = foldl (\<lambda>acc c. 10 * acc + digit_val c) 0 ds"

text \<open>An optional sign: whether it is negative, and the rest.\<close>

fun split_sign :: "string \<Rightarrow> bool \<times> string" where
  "split_sign (c # s) =
     (if c = CHR ''-'' then (True, s) else if c = CHR ''+'' then (False, s) else (False, c # s))"
| "split_sign [] = (False, [])"

text \<open>The exponent part of a lower-cased literal; no exponent counts as 0.\<close>

fun parse_exponent :: "string \<Rightarrow> int option" where
  "parse_exponent [] = Some 0"
| "parse_exponent (c # s) =
     (if c \<noteq> CHR ''e'' then None
      else let (neg, ds) = split_sign s
           in if ds = [] \<or> \<not> list_all is_digit ds then None
              else Some (if neg then - digits_val ds else digits_val ds))"

fun fraction_part :: "string \<Rightarrow> string \<times> string" where
  "fraction_part (c # s) =
     (if c = CHR ''.'' then (takeWhile is_digit s, dropWhile is_digit s) else ([], c # s))"
| "fraction_part [] = ([], [])"

definition parse_finite :: "bool \<Rightarrow> string \<Rightarrow> dec option" where
  "parse_finite neg u =
     (let ip = takeWhile is_digit u;
          (fp, rest) = fraction_part (dropWhile is_digit u)
      in if ip = [] \<and> fp = [] then None
         else case parse_exponent rest of
           None \<Rightarrow> None
         | Some e \<Rightarrow>
             let v = of_int (digits_val (ip @ fp)) * pow10 (e - int (length fp))
             in Some (Fin (if neg then - v else v)))"

definition parse_decimal :: "string \<Rightarrow> dec option" where
  "parse_decimal s =
     (let (neg, u) = split_sign (py_lower (filter (\<lambda>c. c \<noteq> CHR ''_'') (py_strip s)))
      in if u = ''inf'' \<or> u = ''infinity'' then Some (Infinite neg)
         else if prefix ''nan'' u \<and> list_all is_digit (drop 3 u) \<or>
                 prefix ''snan'' u \<and> list_all is_digit (drop 4 u) then Some NaN
         else parse_finite neg u)"

text \<open>An argument annotated \<open>Decimal | str | int\<close>, passed through \<open>Decimal(str(value))\<close>.\<close>

datatype dec_arg = DecimalArg dec | TextArg string | IntArg int

fun decimal_of :: "dec_arg \<Rightarrow> dec option" where
  "decimal_of (DecimalArg d) = Some d"
| "decimal_of (TextArg s) = parse_decimal s"
| "decimal_of (IntArg n) = Some (Fin (of_int n))"


section \<open>JSON values\<close>

datatype json =
    JNull
  | JBool bool
  | JInt int
  | JFloat string
  | JStr string
  | JArr "json list"
  | JObj "(string \<times> json) list"

text \<open>\<open>m.get(k)\<close> on a dictionary; \<open>None\<close> also for a missing key, which Python reads as \<open>None\<close>.\<close>

definition jget :: "(string \<times> json) list \<Rightarrow> string \<Rightarrow> json" where
  "jget m k = dget m k JNull"


section \<open>json.loads\<close>

text \<open>Each parser returns what it read and the unread rest of the text, or \<open>None\<close> for a syntax error.\<close>

definition json_ws :: "char \<Rightarrow> bool" where
  "json_ws c \<longleftrightarrow> of_char c \<in> {32, 9, 10, 13 :: nat}"

definition skip_ws :: "string \<Rightarrow> string" where
  "skip_ws s = dropWhile json_ws s"

definition is_hex :: "char \<Rightarrow> bool" where
  "is_hex c = (let n = (of_char c :: nat)
     in 48 \<le> n \<and> n \<le> 57 \<or> 65 \<le> n \<and> n \<le> 70 \<or> 97 \<le> n \<and> n \<le> 102)"

definition hex_val :: "char \<Rightarrow> nat" where
  "hex_val c = (let n = (of_char c :: nat)
     in if n \<le> 57 then n - 48 else if n \<le> 70 then n - 55 else n - 87)"

definition unescape :: "char \<Rightarrow> char option" where
  "unescape e = map_of [(CHR 0x22, CHR 0x22), (CHR 0x5C, CHR 0x5C), (CHR 0x2F, CHR 0x2F),
     (CHR ''b'', CHR 0x08), (CHR ''f'', CHR 0x0C), (CHR ''n'', CHR 0x0A), (CHR ''r'', CHR 0x0D),
     (CHR ''t'', CHR 0x09)] e"

definition unescape_u :: "string \<Rightarrow> string" where
  "unescape_u h = (let n = foldl (\<lambda>acc c. 16 * acc + hex_val c) 0 h
     in if n < 128 then [char_of n] else CHR 0x5C # CHR ''u'' # h)"

definition push :: "string \<Rightarrow> (string \<times> string) option \<Rightarrow> (string \<times> string) option" where
  "push cs r = map_option (\<lambda>(s, rest). (cs @ s, rest)) r"

text \<open>After the opening quote; control characters are refused (strict mode).\<close>

fun json_str :: "string \<Rightarrow> (string \<times> string) option" where
  "json_str [] = None"
| "json_str (c # s) =
     (if c = CHR 0x22 then Some ([], s)
      else if c = CHR 0x5C then
        (case s of
           [] \<Rightarrow> None
         | e # t \<Rightarrow>
             if e = CHR ''u'' then
               (case t of
                  a # b # x # d # t' \<Rightarrow>
                    if is_hex a \<and> is_hex b \<and> is_hex x \<and> is_hex d
                    then push (unescape_u [a, b, x, d]) (json_str t') else None
                | _ \<Rightarrow> None)
             else case unescape e of None \<Rightarrow> None | Some c' \<Rightarrow> push [c'] (json_str t))
      else if of_char c < (32 :: nat) then None
      else push [c] (json_str s))"

definition digits1 :: "string \<Rightarrow> (string \<times> string) option" where
  "digits1 s = (if takeWhile is_digit s = [] then None
                else Some (takeWhile is_digit s, dropWhile is_digit s))"

text \<open>The number regex \<open>(-?(?:0|[1-9]\d*))(\.\d+)?([eE][-+]?\d+)?\<close>; an absent optional part is skipped.\<close>

definition json_fraction :: "string \<Rightarrow> string \<times> string" where
  "json_fraction r =
     (case r of
        c # t \<Rightarrow>
          if c = CHR ''.'' then (case digits1 t of None \<Rightarrow> ([], r) | Some (ds, t') \<Rightarrow> (CHR ''.'' # ds, t'))
          else ([], r)
      | [] \<Rightarrow> ([], r))"

definition json_exponent :: "string \<Rightarrow> string \<times> string" where
  "json_exponent r =
     (case r of
        c # t \<Rightarrow>
          if c = CHR ''e'' \<or> c = CHR ''E'' then
            (let (neg, u) = split_sign t
             in case digits1 u of
                  None \<Rightarrow> ([], r)
                | Some (ds, t') \<Rightarrow> (CHR ''e'' # (if neg then CHR ''-'' # ds else ds), t'))
          else ([], r)
      | [] \<Rightarrow> ([], r))"

definition json_int_part :: "string \<Rightarrow> (string \<times> string) option" where
  "json_int_part s =
     (case s of [] \<Rightarrow> None | c # t \<Rightarrow> if c = CHR ''0'' then Some (''0'', t) else digits1 s)"

definition json_unsigned :: "bool \<Rightarrow> string \<Rightarrow> (json \<times> string) option" where
  "json_unsigned neg s =
     (case json_int_part s of
        None \<Rightarrow> None
      | Some (ip, r) \<Rightarrow>
          let (fp, r1) = json_fraction r;
              (ex, r2) = json_exponent r1
          in Some (if fp = [] \<and> ex = []
                   then JInt (if neg then - digits_val ip else digits_val ip)
                   else JFloat ((if neg then ''-'' else []) @ ip @ fp @ ex), r2))"

definition json_number :: "string \<Rightarrow> (json \<times> string) option" where
  "json_number s =
     (if take 1 s = ''-'' then json_unsigned True (drop 1 s) else json_unsigned False s)"

definition json_literal :: "string \<Rightarrow> (json \<times> string) option" where
  "json_literal s =
     (case find (\<lambda>(l, _). prefix l s)
             [(''null'', JNull), (''true'', JBool True), (''false'', JBool False),
              (''NaN'', JFloat ''nan''), (''Infinity'', JFloat ''inf''), (''-Infinity'', JFloat ''-inf'')] of
        Some (l, v) \<Rightarrow> Some (v, drop (length l) s)
      | None \<Rightarrow> json_number s)"

text \<open>A repeated key keeps its first place and its last value.\<close>

definition make_obj :: "(string \<times> json) list \<Rightarrow> json" where
  "make_obj ms = JObj (fold (\<lambda>(k, v). AList.update k v) ms [])"

text \<open>
  A value, the elements of an array after a \<open>[\<close> or a comma, and the members of an object after
  a \<open>{\<close> or a comma. The first argument bounds the recursion; \<open>json_loads\<close> gives it two units per
  character, and every second call consumes one.
\<close>

fun json_value :: "nat \<Rightarrow> string \<Rightarrow> (json \<times> string) option"
  and json_elems :: "nat \<Rightarrow> string \<Rightarrow> (json list \<times> string) option"
  and json_members :: "nat \<Rightarrow> string \<Rightarrow> ((string \<times> json) list \<times> string) option" where
  "json_value 0 s = None"
| "json_value (Suc n) s =
     (case s of
        [] \<Rightarrow> None
      | c # t \<Rightarrow>
          if c = CHR 0x22 then map_option (\<lambda>(v, r). (JStr v, r)) (json_str t)
          else if c = CHR ''{'' then
            (case skip_ws t of
               d # t' \<Rightarrow>
                 if d = CHR ''}'' then Some (JObj [], t')
                 else map_option (\<lambda>(ms, r). (make_obj ms, r)) (json_members n (d # t'))
             | [] \<Rightarrow> None)
          else if c = CHR ''['' then
            (case skip_ws t of
               d # t' \<Rightarrow>
                 if d = CHR '']'' then Some (JArr [], t')
                 else map_option (\<lambda>(vs, r). (JArr vs, r)) (json_elems n (d # t'))
             | [] \<Rightarrow> None)
          else json_literal s)"
| "json_elems 0 s = None"
| "json_elems (Suc n) s =
     (case json_value n s of
        None \<Rightarrow> None
      | Some (v, r) \<Rightarrow>
          (case skip_ws r of
             [] \<Rightarrow> None
           | d # t \<Rightarrow>
               if d = CHR '']'' then Some ([v], t)
               else if d = CHR '',''
               then map_option (\<lambda>(vs, r'). (v # vs, r')) (json_elems n (skip_ws t))
               else None))"
| "json_members 0 s = None"
| "json_members (Suc n) s =
     (case s of
        [] \<Rightarrow> None
      | q # k \<Rightarrow>
          if q \<noteq> CHR 0x22 then None
          else case json_str k of
            None \<Rightarrow> None
          | Some (key, r) \<Rightarrow>
              (case skip_ws r of
                 [] \<Rightarrow> None
               | d # t \<Rightarrow>
                   if d \<noteq> CHR '':'' then None
                   else case json_value n (skip_ws t) of
                     None \<Rightarrow> None
                   | Some (v, r') \<Rightarrow>
                       (case skip_ws r' of
                          [] \<Rightarrow> None
                        | e # t' \<Rightarrow>
                            if e = CHR ''}'' then Some ([(key, v)], t')
                            else if e = CHR '',''
                            then map_option (\<lambda>(ms, r''). ((key, v) # ms, r'')) (json_members n (skip_ws t'))
                            else None)))"

definition json_loads :: "string \<Rightarrow> json option" where
  "json_loads s =
     (case json_value (2 * length s + 2) (skip_ws s) of
        None \<Rightarrow> None
      | Some (v, r) \<Rightarrow> if skip_ws r = [] then Some v else None)"


section \<open>json.dumps\<close>

text \<open>\<open>str(n)\<close> of an integer.\<close>

fun show_nat :: "nat \<Rightarrow> string" where
  "show_nat n =
     (if n < 10 then [char_of (48 + n)] else show_nat (n div 10) @ [char_of (48 + n mod 10)])"

declare show_nat.simps [simp del]

definition show_int :: "int \<Rightarrow> string" where
  "show_int i = (if i < 0 then CHR ''-'' # show_nat (nat (- i)) else show_nat (nat i))"

text \<open>
  \<open>str(v)\<close>. Of the text of a container the program only ever observes that it begins with a
  bracket, which no pattern or number syntax it is matched against accepts.
\<close>

fun py_str :: "json \<Rightarrow> string" where
  "py_str JNull = ''None''"
| "py_str (JBool b) = (if b then ''True'' else ''False'')"
| "py_str (JInt n) = show_int n"
| "py_str (JFloat r) = r"
| "py_str (JStr s) = s"
| "py_str (JArr _) = ''[''"
| "py_str (JObj _) = ''{''"

text \<open>Truthiness, for \<open>v or default\<close>.\<close>

fun py_truthy :: "json \<Rightarrow> bool" where
  "py_truthy JNull = False"
| "py_truthy (JBool b) = b"
| "py_truthy (JInt n) = (n \<noteq> 0)"
| "py_truthy (JFloat r) = (case parse_decimal r of Some (Fin v) \<Rightarrow> v \<noteq> 0 | _ \<Rightarrow> True)"
| "py_truthy (JStr s) = (s \<noteq> [])"
| "py_truthy (JArr xs) = (xs \<noteq> [])"
| "py_truthy (JObj m) = (m \<noteq> [])"

text \<open>\<open>str(v or "")\<close>.\<close>

definition str_or_empty :: "json \<Rightarrow> string" where
  "str_or_empty v = (if py_truthy v then py_str v else [])"


text \<open>\<open>json.dumps(s)\<close> of a string, with \<open>ensure_ascii\<close>.\<close>

definition hex_digit :: "nat \<Rightarrow> char" where
  "hex_digit n = char_of (if n < 10 then 48 + n else 87 + n)"

definition quote_char :: "char \<Rightarrow> string" where
  "quote_char c =
     (case map_of [(CHR 0x22, CHR 0x22), (CHR 0x5C, CHR 0x5C), (CHR 0x08, CHR ''b''), (CHR 0x0C, CHR ''f''),
                   (CHR 0x0A, CHR ''n''), (CHR 0x0D, CHR ''r''), (CHR 0x09, CHR ''t'')] c of
        Some e \<Rightarrow> [CHR 0x5C, e]
      | None \<Rightarrow>
          let n = (of_char c :: nat)
          in if 32 \<le> n \<and> n < 128 then [c]
             else [CHR 0x5C, CHR ''u'', CHR ''0'', CHR ''0'', hex_digit (n div 16), hex_digit (n mod 16)])"

definition quote :: "string \<Rightarrow> string" where
  "quote s = CHR 0x22 # concat (map quote_char s) @ [CHR 0x22]"

fun join_comma :: "string list \<Rightarrow> string" where
  "join_comma [] = []"
| "join_comma [x] = x"
| "join_comma (x # y # xs) = x @ CHR '','' # join_comma (y # xs)"

text \<open>\<open>json.dumps(v, separators=(",", ":"), sort_keys=True)\<close>.\<close>

function json_dumps :: "json \<Rightarrow> string" where
  "json_dumps JNull = ''null''"
| "json_dumps (JBool b) = (if b then ''true'' else ''false'')"
| "json_dumps (JInt n) = show_int n"
| "json_dumps (JFloat r) = r"
| "json_dumps (JStr s) = quote s"
| "json_dumps (JArr xs) = ''['' @ join_comma (map json_dumps xs) @ '']''"
| "json_dumps (JObj m) =
     ''{'' @ join_comma (map snd (sort_key fst (map (\<lambda>(k, v). (k, quote k @ '':'' @ json_dumps v)) m))) @ ''}''"
  by pat_completeness auto
termination
proof (relation "measure size")
  fix m :: "(string \<times> json) list" and z k v
  assume "z \<in> set m" "(k, v) = z"
  then have "size v < Suc (size_list (size_prod (\<lambda>_. 0) size) m)"
    by (induction m) auto
  then show "(v, JObj m) \<in> measure size" by simp
qed (auto simp: less_Suc_eq_le size_list_estimation')

end
