(* ===== verification/Markets.thy ===== *)
theory Markets
  imports Prelude
begin

text \<open>
  \<^verbatim>\<open>markets.py\<close>: market identities. A market is an asset of the default perpetual exchange or an
  asset qualified by a DEX name. Constructing a \<open>MarketIdentity\<close> runs \<open>__post_init__\<close>, so the
  constructor is the fallible \<open>make_identity\<close>. Arguments of a type other than \<open>str\<close> are not
  representable here.
\<close>

section \<open>Components of a name\<close>

definition is_lower_ch :: "char \<Rightarrow> bool" where
  "is_lower_ch c = (let n = (of_char c :: nat) in 97 \<le> n \<and> n \<le> 122)"

definition is_upper_ch :: "char \<Rightarrow> bool" where
  "is_upper_ch c = (let n = (of_char c :: nat) in 65 \<le> n \<and> n \<le> 90)"

definition is_alnum :: "char \<Rightarrow> bool" where
  "is_alnum c = (is_lower_ch c \<or> is_upper_ch c \<or>
     (let n = (of_char c :: nat) in 48 \<le> n \<and> n \<le> 57))"

text \<open>\<open>str.islower\<close>: some cased character, and none in upper case.\<close>

definition py_islower :: "string \<Rightarrow> bool" where
  "py_islower s \<longleftrightarrow> list_ex is_lower_ch s \<and> \<not> list_ex is_upper_ch s"

text \<open>The two patterns, matched in full.\<close>

definition asset_component :: "string \<Rightarrow> bool" where
  "asset_component s \<longleftrightarrow>
     (case s of [] \<Rightarrow> False
      | c # t \<Rightarrow> (is_alnum c \<or> c = CHR ''$'') \<and> length t \<le> 31 \<and>
          list_all (\<lambda>x. is_alnum x \<or> x \<in> set ''_$*.-'') t)"

definition dex_component :: "string \<Rightarrow> bool" where
  "dex_component s \<longleftrightarrow>
     (case s of [] \<Rightarrow> False
      | c # t \<Rightarrow> is_alnum c \<and> length t \<le> 15 \<and>
          list_all (\<lambda>x. is_alnum x \<or> x \<in> set ''_.<>-'') t)"

definition validate_component :: "string \<Rightarrow> string \<Rightarrow> unit result" where
  "validate_component v name =
     require (if name = ''DEX'' then dex_component v else asset_component v)
       (MarketIdentityError (name @ '' component is malformed''))"

definition canonical_asset :: "string \<Rightarrow> string" where
  "canonical_asset v = (if py_islower v then py_upper v else v)"


section \<open>Identities\<close>

record MarketIdentity =
  mi_asset :: string
  mi_dex :: "string option"

definition make_identity :: "string \<Rightarrow> string option \<Rightarrow> MarketIdentity result" where
  "make_identity asset dex =
     rbind (validate_component asset ''asset'') (\<lambda>_.
     rbind (require (\<not> py_islower asset)
              (MarketIdentityError ''canonical all-lowercase asset component must be uppercase'')) (\<lambda>_.
     rbind (case dex of
              None \<Rightarrow> Inr ()
            | Some d \<Rightarrow>
                rbind (require (d \<noteq> []) (MarketIdentityError ''DEX component must not be empty''))
                  (\<lambda>_. validate_component d ''DEX'')) (\<lambda>_.
     Inr \<lparr>mi_asset = asset, mi_dex = dex\<rparr>)))"

definition canonical :: "MarketIdentity \<Rightarrow> string" where
  "canonical m = (case mi_dex m of None \<Rightarrow> mi_asset m | Some d \<Rightarrow> d @ '':'' @ mi_asset m)"

definition is_default_perp :: "MarketIdentity \<Rightarrow> bool" where
  "is_default_perp m \<longleftrightarrow> mi_dex m = None"

definition parse_market :: "string \<Rightarrow> MarketIdentity result" where
  "parse_market v =
     (let raw = py_strip v;
          colons = length (filter (\<lambda>c. c = CHR '':'') raw)
      in if raw = [] then Inl (MarketIdentityError ''market must not be empty'')
         else if 1 < colons then Inl (MarketIdentityError ''market must contain at most one colon'')
         else if colons = 0 then
           rbind (validate_component raw ''asset'') (\<lambda>_. make_identity (canonical_asset raw) None)
         else
           let dex = takeWhile (\<lambda>c. c \<noteq> CHR '':'') raw;
               asset = drop (length dex + 1) raw
           in if dex = [] then Inl (MarketIdentityError ''DEX component must not be empty'')
              else if asset = [] then Inl (MarketIdentityError ''asset component must not be empty'')
              else rbind (validate_component dex ''DEX'') (\<lambda>_.
                   rbind (validate_component asset ''asset'') (\<lambda>_.
                   make_identity (canonical_asset asset) (Some dex))))"

definition canonical_market :: "string \<Rightarrow> string result" where
  "canonical_market v = rbind (parse_market v) (\<lambda>m. Inr (canonical m))"

definition canonical_market_symbol :: "string \<Rightarrow> string result" where
  "canonical_market_symbol v = canonical_market v"

definition market_dex :: "string \<Rightarrow> string result" where
  "market_dex v = rbind (parse_market v) (\<lambda>m. Inr (case mi_dex m of None \<Rightarrow> [] | Some d \<Rightarrow> d))"

definition qualify_market_symbol :: "string \<Rightarrow> string \<Rightarrow> string result" where
  "qualify_market_symbol dex coin =
     (let d = py_strip dex
      in rbind (if d \<noteq> [] then validate_component d ''DEX'' else Inr ()) (\<lambda>_.
         rbind (parse_market coin) (\<lambda>m.
         case mi_dex m of
           Some e \<Rightarrow>
             if d \<noteq> [] \<and> e \<noteq> d
             then Inl (MarketIdentityError ''market DEX conflicts with response DEX'')
             else Inr (canonical m)
         | None \<Rightarrow>
             if d = [] then Inr (canonical m)
             else rbind (make_identity (mi_asset m) (Some d)) (\<lambda>q. Inr (canonical q)))))"

definition is_valid_market :: "string \<Rightarrow> bool" where
  "is_valid_market v = (case parse_market v of Inl _ \<Rightarrow> False | Inr _ \<Rightarrow> True)"

definition is_canonical_market :: "string \<Rightarrow> bool" where
  "is_canonical_market v = (case canonical_market v of Inl _ \<Rightarrow> False | Inr c \<Rightarrow> c = v)"


section \<open>Lemmas\<close>

definition identity_ok :: "MarketIdentity \<Rightarrow> bool" where
  "identity_ok m \<longleftrightarrow> asset_component (mi_asset m) \<and> \<not> py_islower (mi_asset m) \<and>
     (case mi_dex m of None \<Rightarrow> True | Some d \<Rightarrow> dex_component d)"

lemma make_identity_Inr:
  "make_identity a d = Inr m \<longleftrightarrow> m = \<lparr>mi_asset = a, mi_dex = d\<rparr> \<and> identity_ok m"
  by (cases d) (auto simp: make_identity_def identity_ok_def validate_component_def dex_component_def)

text \<open>No component contains a colon or a space.\<close>

lemma alnum_plain: "is_alnum c \<Longrightarrow> c \<noteq> CHR '':'' \<and> \<not> py_space c"
  by (auto simp: is_alnum_def is_lower_ch_def is_upper_ch_def py_space_def Let_def)

lemma punctuation_plain: "c \<in> set ''_$*.<>-'' \<Longrightarrow> c \<noteq> CHR '':'' \<and> \<not> py_space c"
  by (auto simp: py_space_def)

lemma asset_chars: "asset_component s \<Longrightarrow> c \<in> set s \<Longrightarrow> is_alnum c \<or> c \<in> set ''_$*.<>-''"
  by (cases s) (auto simp: asset_component_def list_all_iff)

lemma dex_chars: "dex_component s \<Longrightarrow> c \<in> set s \<Longrightarrow> is_alnum c \<or> c \<in> set ''_$*.<>-''"
  by (cases s) (auto simp: dex_component_def list_all_iff)

lemma asset_plain: "asset_component s \<Longrightarrow> c \<in> set s \<Longrightarrow> c \<noteq> CHR '':'' \<and> \<not> py_space c"
  using asset_chars alnum_plain punctuation_plain by blast

lemma dex_plain: "dex_component s \<Longrightarrow> c \<in> set s \<Longrightarrow> c \<noteq> CHR '':'' \<and> \<not> py_space c"
  using dex_chars alnum_plain punctuation_plain by blast

lemma component_nonempty: "asset_component s \<Longrightarrow> s \<noteq> []" "dex_component s \<Longrightarrow> s \<noteq> []"
  by (auto simp: asset_component_def dex_component_def)

lemma dropWhile_none: "(\<And>c. c \<in> set s \<Longrightarrow> \<not> P c) \<Longrightarrow> dropWhile P s = s"
  by (cases s) auto

lemma strip_plain: "(\<And>c. c \<in> set s \<Longrightarrow> \<not> py_space c) \<Longrightarrow> py_strip s = s"
  using dropWhile_none [of s py_space] dropWhile_none [of "rev s" py_space] by (simp add: py_strip_def)

lemma no_colon_count: "(\<And>c. c \<in> set s \<Longrightarrow> c \<noteq> CHR '':'') \<Longrightarrow> filter (\<lambda>c. c = CHR '':'') s = []"
  by (auto simp: filter_empty_conv)

text \<open>Every identity the parser accepts is printed to a name it parses back to.\<close>

lemma parse_canonical:
  assumes "identity_ok m"
  shows "parse_market (canonical m) = Inr m"
proof -
  obtain a d where m: "m = \<lparr>mi_asset = a, mi_dex = d\<rparr>" by (cases m)
  with assms have a: "asset_component a" "\<not> py_islower a" by (auto simp: identity_ok_def)
  have mk: "make_identity (canonical_asset a) d = Inr m"
    using assms a by (simp add: make_identity_Inr m canonical_asset_def)
  show ?thesis
  proof (cases d)
    case None
    have "py_strip a = a" "filter (\<lambda>c. c = CHR '':'') a = []" "a \<noteq> []"
      using asset_plain [OF a(1)] component_nonempty(1) [OF a(1)]
      by (auto intro!: strip_plain no_colon_count)
    then show ?thesis
      using a mk None by (simp add: parse_market_def canonical_def m validate_component_def)
  next
    case (Some x)
    with assms m have x: "dex_component x" by (auto simp: identity_ok_def)
    let ?n = "x @ CHR '':'' # a"
    have "py_strip ?n = ?n"
      using asset_plain [OF a(1)] dex_plain [OF x] by (intro strip_plain) (auto simp: py_space_def)
    moreover have "filter (\<lambda>c. c = CHR '':'') ?n = [CHR '':'']"
      using asset_plain [OF a(1)] dex_plain [OF x] by (auto simp: filter_empty_conv)
    moreover have "takeWhile (\<lambda>c. c \<noteq> CHR '':'') ?n = x"
      using dex_plain [OF x] by (auto simp: takeWhile_eq_all_conv takeWhile_append)
    moreover have "x \<noteq> []" "a \<noteq> []" using x a component_nonempty by blast+
    ultimately show ?thesis
      using a x mk Some by (simp add: parse_market_def canonical_def m validate_component_def Let_def)
  qed
qed

lemma parse_market_ok: "parse_market v = Inr m \<Longrightarrow> identity_ok m"
  by (auto simp: parse_market_def Let_def make_identity_Inr split: if_splits)


text \<open>Evaluation on literals.\<close>

lemmas market_eval =
  parse_market_def py_strip_def py_space_def validate_component_def dex_component_def
  asset_component_def is_alnum_def is_lower_ch_def is_upper_ch_def make_identity_def
  canonical_asset_def py_islower_def py_upper_def upper_char_def canonical_def char_of_eq_iff


section \<open>Properties\<close>

text \<open>
  canonical names are stable and unambiguous: printing an accepted market gives a name that
  parses back to the same market and is its own canonical form, so two inputs share a canonical
  name exactly when they denote the same market.
\<close>

theorem canonical_market_round_trip:
  assumes "parse_market v = Inr m"
  shows "parse_market (canonical m) = Inr m \<and> is_canonical_market (canonical m) \<and>
    (\<forall>w n. parse_market w = Inr n \<longrightarrow> (canonical n = canonical m \<longleftrightarrow> n = m))"
proof -
  note rt = parse_canonical [OF parse_market_ok]
  have "parse_market (canonical m) = Inr m" using assms by (rule rt)
  moreover have "is_canonical_market (canonical m)"
    using calculation by (simp add: is_canonical_market_def canonical_market_def)
  moreover have "n = m" if "parse_market w = Inr n" "canonical n = canonical m" for w n
    using rt [OF that(1)] rt [OF assms] unfolding that(2) by auto
  ultimately show ?thesis by auto
qed

theorem canonical_market_round_trip_witness:
  "parse_market '' xyz:aapl '' = Inr \<lparr>mi_asset = ''AAPL'', mi_dex = Some ''xyz''\<rparr> \<and>
   is_canonical_market ''xyz:AAPL''"
proof -
  have "parse_market '' xyz:aapl '' = Inr \<lparr>mi_asset = ''AAPL'', mi_dex = Some ''xyz''\<rparr>"
    by (simp add: market_eval)
  with canonical_market_round_trip [OF this] show ?thesis by (simp add: canonical_def)
qed

text \<open>
  qualifying a coin of a DEX-scoped response yields a canonical name, of that DEX when the
  response names one; a coin that carries another DEX prefix is refused, never rewritten.
\<close>

theorem qualify_market_symbol_dex:
  assumes "qualify_market_symbol dex coin = Inr s"
  shows "is_canonical_market s \<and>
    (py_strip dex \<noteq> [] \<longrightarrow> market_dex s = Inr (py_strip dex)) \<and>
    (\<forall>m. parse_market coin = Inr m \<longrightarrow> (\<exists>q. parse_market s = Inr q \<and> mi_asset q = mi_asset m))"
proof -
  from assms obtain m q where m: "parse_market coin = Inr m"
    and q: "identity_ok q" "s = canonical q" "mi_asset q = mi_asset m"
      "py_strip dex \<noteq> [] \<longrightarrow> mi_dex q = Some (py_strip dex)"
  proof -
    from assms obtain m where m: "parse_market coin = Inr m"
      by (auto simp: qualify_market_symbol_def Let_def)
    then have "identity_ok m" by (rule parse_market_ok)
    with m assms that show ?thesis
      by (cases "mi_dex m") (auto simp: qualify_market_symbol_def Let_def make_identity_Inr split: if_splits)
  qed
  have "parse_market s = Inr q" using q by (simp add: parse_canonical)
  with m q show ?thesis by (auto simp: is_canonical_market_def canonical_market_def market_dex_def)
qed

theorem qualify_market_symbol_dex_witness:
  "qualify_market_symbol ''xyz'' ''aapl'' = Inr ''xyz:AAPL'' \<and> market_dex ''xyz:AAPL'' = Inr ''xyz''"
proof -
  have q: "qualify_market_symbol ''xyz'' ''aapl'' = Inr ''xyz:AAPL''"
    by (simp add: qualify_market_symbol_def market_eval)
  have "py_strip ''xyz'' = ''xyz''" by (simp add: market_eval)
  with q qualify_market_symbol_dex [OF q] show ?thesis by simp
qed

end
