(* ===== verification/Continuous_Config.thy ===== *)
theory Continuous_Config
  imports Json Markets
begin

text \<open>
  \<^verbatim>\<open>continuous_config.py\<close>: the copy plan. A plan file is parsed as JSON and every field validated;
  binding a plan attaches the signer profiles. Reading the file, the environment and the profile
  registry is I/O: the parsed payload, the text of \<open>HLCT_API_PRIVATE_KEY\<close>, the registry's records
  and its list of invalid profiles are arguments. The plan digest is the argument \<open>digest\<close>.
\<close>

section \<open>Data\<close>

record ContinuousSlotConfig =
  slot_id :: string
  source_address :: string
  follower_account_address :: string
  credential_profile_id :: string
  multiplier :: rat
  max_order_notional_usd :: rat
  max_gross_exposure_usd :: rat
  max_open_positions :: int
  max_leverage :: int
  action_limit_per_minute :: int
  allowed_markets :: "string list"
  slot_enabled :: bool

record ContinuousPlan =
  plan_version :: int
  plan_network :: string
  plan_runtime_id :: string
  plan_startup_baseline_only :: bool
  max_combined_gross_usd :: rat
  plan_slots :: "ContinuousSlotConfig list"
  plan_sha256 :: string

definition enabled_slots :: "ContinuousPlan \<Rightarrow> ContinuousSlotConfig list" where
  "enabled_slots p = filter slot_enabled (plan_slots p)"

record BoundContinuousSlot =
  b_config :: ContinuousSlotConfig
  b_api_wallet_address :: string
  b_api_private_key_file :: string
  b_global_account_address :: string
  b_expected_account_mode :: string
  b_dynamic_market_eligibility :: bool
  b_denied_markets :: "string list"
  b_external_writers_allowed :: bool

record BoundContinuousPlan =
  bound_plan :: ContinuousPlan
  bound_slots :: "BoundContinuousSlot list"

definition CONTINUOUS_PLAN_VERSION :: int where "CONTINUOUS_PLAN_VERSION = 1"


section \<open>Field validators\<close>

definition address_re :: "string \<Rightarrow> bool" where
  "address_re s \<longleftrightarrow> length s = 42 \<and> prefix ''0x'' s \<and>
     list_all (\<lambda>c. is_digit c \<or> c \<in> set ''abcdef'') (drop 2 s)"

definition id_re :: "string \<Rightarrow> bool" where
  "id_re s \<longleftrightarrow>
     (case s of [] \<Rightarrow> False
      | c # t \<Rightarrow> (is_lower_ch c \<or> is_digit c) \<and> length t \<le> 63 \<and>
          list_all (\<lambda>x. is_lower_ch x \<or> is_digit x \<or> x \<in> set ''_-'') t)"

definition only_fields :: "(string \<times> json) list \<Rightarrow> string list \<Rightarrow> string \<Rightarrow> unit result" where
  "only_fields payload allowed label =
     require (list_all (\<lambda>(k, _). k \<in> set allowed) payload) (ValueError (label @ '' has unknown fields''))"

definition cfg_positive_decimal :: "json \<Rightarrow> string \<Rightarrow> rat result" where
  "cfg_positive_decimal v label =
     (case parse_decimal (py_str v) of
        None \<Rightarrow> Inl (ValueError (label @ '' must be a decimal''))
      | Some d \<Rightarrow>
          if \<not> is_finite d \<or> dec_val d \<le> 0
          then Inl (ValueError (label @ '' must be finite and positive''))
          else Inr (dec_val d))"

text \<open>
  \<open>int(value)\<close> with \<open>str(result) == str(value)\<close>: an integer, or a string that is the plain
  rendering of one; a float never renders as its integer part does.
\<close>

definition cfg_positive_int :: "json \<Rightarrow> string \<Rightarrow> int result" where
  "cfg_positive_int v label =
     (let bad = Inl (ValueError (label @ '' must be a positive integer''))
      in case v of
           JInt n \<Rightarrow> if 0 < n then Inr n else bad
         | JStr s \<Rightarrow>
             if s \<noteq> [] \<and> list_all is_digit s \<and> show_int (digits_val s) = s \<and> 0 < digits_val s
             then Inr (digits_val s) else bad
         | _ \<Rightarrow> bad)"


section \<open>Parsing a plan\<close>

text \<open>The allow-list: canonical names, no duplicate.\<close>

definition add_allowed :: "json \<Rightarrow> string list \<Rightarrow> string list result" where
  "add_allowed v ms =
     rbind (canonical_market_symbol (py_str v)) (\<lambda>m.
     if m \<in> set ms then Inl (ValueError ''has duplicate allowed market'') else Inr (ms @ [m]))"

definition parse_slot :: "json \<Rightarrow> ContinuousSlotConfig result" where
  "parse_slot v =
     (case v of
        JObj raw \<Rightarrow>
          rbind (only_fields raw [''slot'', ''source_address'', ''follower_account_address'',
                  ''credential_profile_id'', ''multiplier'', ''max_order_notional_usd'',
                  ''max_gross_exposure_usd'', ''max_open_positions'', ''max_leverage'',
                  ''action_limit_per_minute'', ''allowed_markets'', ''enabled''] ''continuous slot'') (\<lambda>_.
          let sid = py_lower (str_or_empty (jget raw ''slot''));
              profile = py_lower (str_or_empty (jget raw ''credential_profile_id''));
              source = py_lower (str_or_empty (jget raw ''source_address''));
              follower = py_lower (str_or_empty (jget raw ''follower_account_address''))
          in
          rbind (require (id_re sid \<and> id_re profile)
                   (ValueError ''continuous slot/profile ID is invalid'')) (\<lambda>_.
          rbind (require (address_re source \<and> address_re follower)
                   (ValueError ''slot has an invalid account address'')) (\<lambda>_.
          rbind (require (source \<noteq> follower)
                   (ValueError ''slot source and follower must differ'')) (\<lambda>_.
          rbind (cfg_positive_decimal (jget raw ''multiplier'') ''multiplier'') (\<lambda>mult.
          rbind (cfg_positive_decimal (jget raw ''max_order_notional_usd'')
                   ''max_order_notional_usd'') (\<lambda>order_cap.
          rbind (cfg_positive_decimal (jget raw ''max_gross_exposure_usd'')
                   ''max_gross_exposure_usd'') (\<lambda>gross_cap.
          rbind (require (order_cap \<le> gross_cap)
                   (ValueError ''slot order cap exceeds gross cap'')) (\<lambda>_.
          rbind (cfg_positive_int (jget raw ''max_open_positions'') ''max_open_positions'') (\<lambda>npos.
          rbind (cfg_positive_int (jget raw ''max_leverage'') ''max_leverage'') (\<lambda>lev.
          rbind (cfg_positive_int (jget raw ''action_limit_per_minute'')
                   ''action_limit_per_minute'') (\<lambda>limit.
          rbind (case dget raw ''allowed_markets'' (JArr []) of
                   JArr xs \<Rightarrow> rfold add_allowed xs []
                 | _ \<Rightarrow> Inl (ValueError ''slot allowed_markets must be a list'')) (\<lambda>markets.
          case jget raw ''enabled'' of
            JBool b \<Rightarrow>
              Inr \<lparr>slot_id = sid, source_address = source, follower_account_address = follower,
                   credential_profile_id = profile, multiplier = mult,
                   max_order_notional_usd = order_cap, max_gross_exposure_usd = gross_cap,
                   max_open_positions = npos, max_leverage = lev,
                   action_limit_per_minute = limit, allowed_markets = markets, slot_enabled = b\<rparr>
          | _ \<Rightarrow> Inl (ValueError ''slot enabled must be boolean'')))))))))))))
      | _ \<Rightarrow> Inl (ValueError ''continuous slot must be an object''))"

definition validate_slots :: "ContinuousSlotConfig list \<Rightarrow> rat \<Rightarrow> unit result" where
  "validate_slots slots combined_cap =
     (let enabled = filter slot_enabled slots
      in rbind (require (enabled \<noteq> []) (ValueError ''continuous plan has no enabled slots'')) (\<lambda>_.
         rbind (require (distinct (map slot_id slots))
                  (ValueError ''continuous plan has duplicate slot IDs'')) (\<lambda>_.
         rbind (require (distinct (map source_address enabled))
                  (ValueError ''continuous plan has duplicate source addresses'')) (\<lambda>_.
         rbind (require (distinct (map follower_account_address enabled))
                  (ValueError ''continuous plan has duplicate follower addresses'')) (\<lambda>_.
         rbind (require (distinct (map credential_profile_id enabled))
                  (ValueError ''continuous plan has duplicate credential profiles'')) (\<lambda>_.
         rbind (require (\<not> list_ex (\<lambda>s. source_address s \<in> set (map follower_account_address slots)) enabled)
                  (ValueError ''enabled source address collides with owned follower account'')) (\<lambda>_.
         require (combined_cap \<le> dsum (map max_gross_exposure_usd enabled))
           (ValueError ''combined gross cap exceeds the sum of enabled slot caps''))))))))"

text \<open>\<open>payload.get("version") == 1\<close>: Python's \<open>True\<close> and \<open>1.0\<close> equal 1.\<close>

fun version_matches :: "json \<Rightarrow> bool" where
  "version_matches (JInt n) = (n = CONTINUOUS_PLAN_VERSION)"
| "version_matches (JBool b) = b"
| "version_matches (JFloat r) = (parse_decimal r = Some (Fin (of_int CONTINUOUS_PLAN_VERSION)))"
| "version_matches _ = False"

definition load_continuous_plan ::
  "(string \<Rightarrow> string \<Rightarrow> rat \<Rightarrow> ContinuousSlotConfig list \<Rightarrow> string) \<Rightarrow> json \<Rightarrow> ContinuousPlan result" where
  "load_continuous_plan digest v =
     (case v of
        JObj payload \<Rightarrow>
          rbind (only_fields payload [''version'', ''network'', ''runtime_id'',
                  ''startup_baseline_only'', ''max_combined_gross_usd'', ''slots'']
                  ''continuous plan'') (\<lambda>_.
          rbind (require (version_matches (jget payload ''version''))
                   (ValueError ''continuous plan version must be 1'')) (\<lambda>_.
          let network = py_lower (str_or_empty (jget payload ''network''));
              rid = py_lower (str_or_empty (jget payload ''runtime_id''))
          in
          rbind (require (network \<in> {''mainnet'', ''testnet''})
                   (ValueError ''continuous plan network must be mainnet or testnet'')) (\<lambda>_.
          rbind (require (id_re rid) (ValueError ''continuous plan runtime_id is invalid'')) (\<lambda>_.
          rbind (require (jget payload ''startup_baseline_only'' = JBool True)
                   (ValueError ''continuous runtime requires startup_baseline_only=true'')) (\<lambda>_.
          rbind (cfg_positive_decimal (jget payload ''max_combined_gross_usd'')
                   ''max_combined_gross_usd'') (\<lambda>cap.
          case jget payload ''slots'' of
            JArr raw_slots \<Rightarrow>
              rbind (require (1 \<le> length raw_slots \<and> length raw_slots \<le> 10)
                       (ValueError ''continuous plan requires between one and ten slots'')) (\<lambda>_.
              rbind (rmap parse_slot raw_slots) (\<lambda>slots.
              rbind (validate_slots slots cap) (\<lambda>_.
              Inr \<lparr>plan_version = CONTINUOUS_PLAN_VERSION, plan_network = network,
                   plan_runtime_id = rid, plan_startup_baseline_only = True,
                   max_combined_gross_usd = cap, plan_slots = slots,
                   plan_sha256 = digest network rid cap slots\<rparr>)))
          | _ \<Rightarrow> Inl (ValueError ''continuous plan requires between one and ten slots'')))))))
      | _ \<Rightarrow> Inl (ValueError ''continuous plan must be a JSON object''))"


section \<open>Binding signer profiles\<close>

text \<open>The fields of a registry record that binding reads; a missing field is the empty string.\<close>

record credential_record =
  cr_profile_id :: string
  cr_source_wallet :: string
  cr_follower_account_address :: string
  cr_api_wallet_address :: string
  cr_global_account_address :: string
  cr_api_private_key_file :: string
  cr_expected_account_mode :: string
  cr_eligibility :: string
  cr_denied_symbols :: "string list"

definition no_collision ::
  "string set \<Rightarrow> (credential_record \<Rightarrow> string) \<Rightarrow> credential_record list \<Rightarrow> unit result" where
  "no_collision sources field records =
     require (\<not> list_ex (\<lambda>r. py_lower (py_strip (field r)) \<in> sources) records)
       (ValueError ''enabled source address collides with an owned account'')"

text \<open>\<open>by_id\<close> keeps the last record of a profile id.\<close>

definition record_by_id :: "credential_record list \<Rightarrow> string \<Rightarrow> credential_record option" where
  "record_by_id records pid = find (\<lambda>r. cr_profile_id r = pid) (rev records)"

definition bind_slot ::
  "credential_record list \<Rightarrow> ContinuousSlotConfig \<Rightarrow> BoundContinuousSlot list \<Rightarrow>
   BoundContinuousSlot list result" where
  "bind_slot records slot bound =
     (case record_by_id records (credential_profile_id slot) of
        None \<Rightarrow> Inl (ValueError ''slot credential profile is missing'')
      | Some r \<Rightarrow>
          rbind (require (py_lower (cr_source_wallet r) = source_address slot)
                   (ValueError ''slot source does not match its credential profile'')) (\<lambda>_.
          rbind (require (py_lower (cr_follower_account_address r) = follower_account_address slot)
                   (ValueError ''slot follower does not match its credential profile'')) (\<lambda>_.
          rbind (rmap canonical_market_symbol (cr_denied_symbols r)) (\<lambda>denied.
          let dynamic = (py_lower (py_strip (cr_eligibility r)) = ''all_active_markets'')
          in
          rbind (require (dynamic \<or> \<not> list_ex (\<lambda>m. m \<in> set denied) (allowed_markets slot))
                   (ValueError ''slot allows markets denied by its credential profile'')) (\<lambda>_.
          rbind (require (dynamic \<or> allowed_markets slot \<noteq> [])
                   (ValueError ''slot requires either all-active profile eligibility or an explicit legacy market allowlist'')) (\<lambda>_.
          let wallet = py_lower (cr_api_wallet_address r)
          in
          rbind (require (wallet \<notin> set (map b_api_wallet_address bound))
                   (ValueError ''continuous slots require distinct API wallets'')) (\<lambda>_.
          Inr (bound @ [\<lparr>b_config = slot, b_api_wallet_address = wallet,
                 b_api_private_key_file = cr_api_private_key_file r,
                 b_global_account_address = py_lower (cr_global_account_address r),
                 b_expected_account_mode = cr_expected_account_mode r,
                 b_dynamic_market_eligibility = dynamic,
                 b_denied_markets = sort (remdups denied),
                 b_external_writers_allowed = False\<rparr>]))))))))"

definition bind_continuous_plan ::
  "string \<Rightarrow> credential_record list \<Rightarrow> string list \<Rightarrow> ContinuousPlan \<Rightarrow> BoundContinuousPlan result" where
  "bind_continuous_plan direct_key records invalid plan =
     rbind (require (py_strip direct_key = [])
              (ValueError ''direct private-key environment input is forbidden for continuous runtime'')) (\<lambda>_.
     rbind (require (invalid = []) (ValueError ''invalid credential profiles'')) (\<lambda>_.
     let sources = set (map source_address (enabled_slots plan))
     in
     rbind (no_collision sources cr_follower_account_address records) (\<lambda>_.
     rbind (no_collision sources cr_api_wallet_address records) (\<lambda>_.
     rbind (no_collision sources cr_global_account_address records) (\<lambda>_.
     rbind (rfold (bind_slot records) (enabled_slots plan) []) (\<lambda>bound.
     Inr \<lparr>bound_plan = plan, bound_slots = bound\<rparr>))))))"


section \<open>What a loaded plan guarantees\<close>

definition slot_ok :: "ContinuousSlotConfig \<Rightarrow> bool" where
  "slot_ok s \<longleftrightarrow>
     id_re (slot_id s) \<and> id_re (credential_profile_id s) \<and>
     address_re (source_address s) \<and> address_re (follower_account_address s) \<and>
     source_address s \<noteq> follower_account_address s \<and>
     0 < multiplier s \<and> 0 < max_order_notional_usd s \<and>
     max_order_notional_usd s \<le> max_gross_exposure_usd s \<and>
     0 < max_open_positions s \<and> 0 < max_leverage s \<and> 0 < action_limit_per_minute s \<and>
     distinct (allowed_markets s) \<and> list_all is_canonical_market (allowed_markets s)"

definition slots_ok :: "ContinuousSlotConfig list \<Rightarrow> rat \<Rightarrow> bool" where
  "slots_ok slots cap \<longleftrightarrow>
     (let enabled = filter slot_enabled slots
      in enabled \<noteq> [] \<and> distinct (map slot_id slots) \<and> distinct (map source_address enabled) \<and>
         distinct (map follower_account_address enabled) \<and>
         distinct (map credential_profile_id enabled) \<and>
         set (map source_address enabled) \<inter> set (map follower_account_address slots) = {} \<and>
         cap \<le> dsum (map max_gross_exposure_usd enabled))"

lemma validate_slots_iff: "validate_slots slots cap = Inr () \<longleftrightarrow> slots_ok slots cap"
  by (auto simp: validate_slots_def slots_ok_def Let_def list_ex_iff)

lemma cfg_positive_decimal_pos: "cfg_positive_decimal v l = Inr x \<Longrightarrow> 0 < x"
  by (auto simp: cfg_positive_decimal_def split: option.splits if_splits)

lemma cfg_positive_int_pos: "cfg_positive_int v l = Inr n \<Longrightarrow> 0 < n"
  by (auto simp: cfg_positive_int_def Let_def split: json.splits if_splits)

lemma canonical_symbol_canonical: "canonical_market_symbol v = Inr m \<Longrightarrow> is_canonical_market m"
  by (auto simp: canonical_market_symbol_def canonical_market_def is_canonical_market_def
      parse_canonical [OF parse_market_ok])

lemma allowed_fold:
  assumes "rfold add_allowed xs ms = Inr ms'" and "distinct ms \<and> list_all is_canonical_market ms"
  shows "distinct ms' \<and> list_all is_canonical_market ms'"
  using assms
  by (rule rfold_invariant)
    (auto simp: add_allowed_def dest: canonical_symbol_canonical split: if_splits)

lemma parse_slot_ok:
  assumes "parse_slot v = Inr s"
  shows "slot_ok s"
proof -
  from assms obtain raw where v: "v = JObj raw" by (cases v) (auto simp: parse_slot_def)
  from assms obtain xs where xs: "dget raw ''allowed_markets'' (JArr []) = JArr xs"
    unfolding v parse_slot_def Let_def by (cases "dget raw ''allowed_markets'' (JArr [])") auto
  from assms obtain b where b: "jget raw ''enabled'' = JBool b"
    unfolding v parse_slot_def Let_def by (cases "jget raw ''enabled''") auto
  show ?thesis
    using assms unfolding v parse_slot_def Let_def slot_ok_def
    by (auto simp: xs b dest: cfg_positive_decimal_pos cfg_positive_int_pos allowed_fold)
qed

lemma bind_slot_Inr:
  assumes "bind_slot records slot bound = Inr bound'"
  obtains r b where "bound' = bound @ [b]" "b_config b = slot"
    "record_by_id records (credential_profile_id slot) = Some r"
    "py_lower (cr_source_wallet r) = source_address slot"
    "py_lower (cr_follower_account_address r) = follower_account_address slot"
    "b_api_wallet_address b = py_lower (cr_api_wallet_address r)"
    "b_api_wallet_address b \<notin> set (map b_api_wallet_address bound)"
    "b_dynamic_market_eligibility b \<or>
       allowed_markets slot \<noteq> [] \<and> set (allowed_markets slot) \<inter> set (b_denied_markets b) = {}"
  using assms
  by (auto simp: bind_slot_def Let_def list_ex_iff disjoint_iff split: option.splits)

text \<open>A slot bound to the signer profile its configuration names.\<close>

definition bound_to :: "credential_record list \<Rightarrow> BoundContinuousSlot \<Rightarrow> bool" where
  "bound_to records b \<longleftrightarrow>
     (\<exists>r \<in> set records. cr_profile_id r = credential_profile_id (b_config b) \<and>
        py_lower (cr_source_wallet r) = source_address (b_config b) \<and>
        py_lower (cr_follower_account_address r) = follower_account_address (b_config b) \<and>
        b_api_wallet_address b = py_lower (cr_api_wallet_address r)) \<and>
     (b_dynamic_market_eligibility b \<or>
        allowed_markets (b_config b) \<noteq> [] \<and>
        set (allowed_markets (b_config b)) \<inter> set (b_denied_markets b) = {})"

lemma bind_slot_step:
  assumes "bind_slot records slot bound = Inr bound'"
    and "distinct (map b_api_wallet_address bound) \<and> list_all (bound_to records) bound"
  shows "map b_config bound' = map b_config bound @ [slot]"
    and "distinct (map b_api_wallet_address bound') \<and> list_all (bound_to records) bound'"
proof -
  from assms(1) obtain r b where b: "bound' = bound @ [b]" "b_config b = slot"
    "record_by_id records (credential_profile_id slot) = Some r"
    "py_lower (cr_source_wallet r) = source_address slot"
    "py_lower (cr_follower_account_address r) = follower_account_address slot"
    "b_api_wallet_address b = py_lower (cr_api_wallet_address r)"
    "b_api_wallet_address b \<notin> set (map b_api_wallet_address bound)"
    "b_dynamic_market_eligibility b \<or>
       allowed_markets slot \<noteq> [] \<and> set (allowed_markets slot) \<inter> set (b_denied_markets b) = {}"
    by (rule bind_slot_Inr)
  have "r \<in> set records \<and> cr_profile_id r = credential_profile_id slot"
    using find_SomeD [OF b(3) [unfolded record_by_id_def]] by simp
  with b have "bound_to records b" by (auto simp: bound_to_def)
  with assms(2) b show "map b_config bound' = map b_config bound @ [slot]"
    and "distinct (map b_api_wallet_address bound') \<and> list_all (bound_to records) bound'" by auto
qed

lemma bind_fold:
  assumes "rfold (bind_slot records) slots bound = Inr bound'"
    and "distinct (map b_api_wallet_address bound) \<and> list_all (bound_to records) bound"
  shows "map b_config bound' = map b_config bound @ slots \<and>
    distinct (map b_api_wallet_address bound') \<and> list_all (bound_to records) bound'"
  using assms
proof (induction slots arbitrary: bound)
  case (Cons s slots)
  then obtain b1 where "bind_slot records s bound = Inr b1" "rfold (bind_slot records) slots b1 = Inr bound'"
    by auto
  with Cons show ?case using bind_slot_step [of records s bound b1] by force
qed simp


section \<open>A concrete plan\<close>

definition ex_source :: string where "ex_source = ''0x'' @ replicate 40 (CHR ''1'')"
definition ex_follower :: string where "ex_follower = ''0x'' @ replicate 40 (CHR ''2'')"

definition ex_slot_json :: json where
  "ex_slot_json = JObj [(''slot'', JStr ''s1''), (''source_address'', JStr ex_source),
     (''follower_account_address'', JStr ex_follower), (''credential_profile_id'', JStr ''p1''),
     (''multiplier'', JInt 1), (''max_order_notional_usd'', JInt 100),
     (''max_gross_exposure_usd'', JInt 500), (''max_open_positions'', JInt 3),
     (''max_leverage'', JInt 5), (''action_limit_per_minute'', JInt 20),
     (''allowed_markets'', JArr [JStr ''btc'']), (''enabled'', JBool True)]"

definition ex_plan_json :: json where
  "ex_plan_json = JObj [(''version'', JInt 1), (''network'', JStr ''testnet''),
     (''runtime_id'', JStr ''r1''), (''startup_baseline_only'', JBool True),
     (''max_combined_gross_usd'', JInt 500), (''slots'', JArr [ex_slot_json])]"

definition ex_slot :: ContinuousSlotConfig where
  "ex_slot = \<lparr>slot_id = ''s1'', source_address = ex_source,
     follower_account_address = ex_follower, credential_profile_id = ''p1'', multiplier = 1,
     max_order_notional_usd = 100, max_gross_exposure_usd = 500, max_open_positions = 3,
     max_leverage = 5, action_limit_per_minute = 20, allowed_markets = [''BTC''],
     slot_enabled = True\<rparr>"

definition ex_plan :: ContinuousPlan where
  "ex_plan = \<lparr>plan_version = 1, plan_network = ''testnet'', plan_runtime_id = ''r1'',
     plan_startup_baseline_only = True, max_combined_gross_usd = 500, plan_slots = [ex_slot],
     plan_sha256 = ''d''\<rparr>"

definition ex_credentials :: credential_record where
  "ex_credentials = \<lparr>cr_profile_id = ''p1'', cr_source_wallet = ex_source,
     cr_follower_account_address = ex_follower,
     cr_api_wallet_address = ''0x'' @ replicate 40 (CHR ''3''),
     cr_global_account_address = ''0x'' @ replicate 40 (CHR ''4''),
     cr_api_private_key_file = ''key'', cr_expected_account_mode = ''unified'',
     cr_eligibility = ''legacy'', cr_denied_symbols = []\<rparr>"

lemma ex_config_values:
  "cfg_positive_decimal (JInt 1) l = Inr 1" "cfg_positive_decimal (JInt 100) l = Inr 100"
  "cfg_positive_decimal (JInt 500) l = Inr 500"
  "canonical_market_symbol ''btc'' = Inr ''BTC''"
  "py_lower ''s1'' = ''s1''" "py_lower ''p1'' = ''p1''" "py_lower ''r1'' = ''r1''"
  "id_re ''s1''" "id_re ''p1''" "id_re ''r1''" "py_lower ''testnet'' = ''testnet''"
proof -
  have "parse_decimal (show_int 1) = Some (Fin 1)" "parse_decimal (show_int 100) = Some (Fin 100)"
    "parse_decimal (show_int 500) = Some (Fin 500)" by code_simp+
  then show "cfg_positive_decimal (JInt 1) l = Inr 1" "cfg_positive_decimal (JInt 100) l = Inr 100"
    "cfg_positive_decimal (JInt 500) l = Inr 500" by (simp_all add: cfg_positive_decimal_def)
  show "canonical_market_symbol ''btc'' = Inr ''BTC''"
    by (simp add: canonical_market_symbol_def canonical_market_def market_eval)
qed (simp_all add: py_lower_def lower_char_def id_re_def is_lower_ch_def is_digit_def)

lemma ex_addresses:
  "py_lower ex_source = ex_source" "py_lower ex_follower = ex_follower"
  "address_re ex_source" "address_re ex_follower"
  "ex_source \<noteq> []" "ex_follower \<noteq> []" "ex_source \<noteq> ex_follower" "ex_follower \<noteq> ex_source"
  by code_simp+

lemma ex_slot_parses: "parse_slot ex_slot_json = Inr ex_slot"
  using ex_config_values ex_addresses
  by (simp add: parse_slot_def ex_slot_json_def only_fields_def jget_def dget_def str_or_empty_def
      cfg_positive_int_def add_allowed_def ex_slot_def)

lemma ex_plan_loads: "load_continuous_plan (\<lambda>_ _ _ _. ''d'') ex_plan_json = Inr ex_plan"
proof -
  have "dsum [500] = 500" by (simp add: dsum_def dec_eval)
  then have "validate_slots [ex_slot] 500 = Inr ()"
    using ex_addresses by (simp add: validate_slots_def ex_slot_def)
  with ex_config_values ex_slot_parses show ?thesis
    by (simp add: load_continuous_plan_def ex_plan_json_def only_fields_def jget_def dget_def
        str_or_empty_def CONTINUOUS_PLAN_VERSION_def ex_plan_def)
qed


section \<open>Properties\<close>

text \<open>
  a plan that loads is safe to run: every slot has positive limits with its order cap within its
  gross cap, distinct canonical markets and a source other than its follower; the enabled slots have
  distinct sources, followers and signer profiles, no enabled source is any slot's follower (so the
  copier cannot copy itself), and the combined cap is covered by the slot caps.
\<close>

theorem loaded_plan_ok:
  assumes "load_continuous_plan digest v = Inr p"
  shows "list_all slot_ok (plan_slots p) \<and> slots_ok (plan_slots p) (max_combined_gross_usd p) \<and>
    1 \<le> length (plan_slots p) \<and> length (plan_slots p) \<le> 10 \<and>
    plan_network p \<in> {''mainnet'', ''testnet''} \<and> plan_startup_baseline_only p \<and>
    0 < max_combined_gross_usd p"
proof -
  from assms obtain payload where v: "v = JObj payload"
    by (cases v) (auto simp: load_continuous_plan_def)
  from assms obtain raw where slots: "jget payload ''slots'' = JArr raw"
    unfolding v load_continuous_plan_def Let_def by (cases "jget payload ''slots''") auto
  from assms obtain slots cap where raw: "1 \<le> length raw" "length raw \<le> 10"
    "rmap parse_slot raw = Inr slots"
    and cap: "cfg_positive_decimal (jget payload ''max_combined_gross_usd'')
                   ''max_combined_gross_usd'' = Inr cap"
    and ok: "validate_slots slots cap = Inr ()"
    and p: "plan_slots p = slots" "max_combined_gross_usd p = cap"
      "plan_network p \<in> {''mainnet'', ''testnet''}" "plan_startup_baseline_only p"
    unfolding v load_continuous_plan_def Let_def by (auto simp: slots)
  have all: "list_all2 (\<lambda>x y. parse_slot x = Inr y) raw slots" using raw(3) by (simp add: rmap_Inr_iff)
  then have "list_all slot_ok slots"
    by (induction rule: list_all2_induct) (auto intro: parse_slot_ok)
  moreover have "length slots = length raw" using all by (simp add: list_all2_lengthD)
  ultimately show ?thesis
    using raw p ok cfg_positive_decimal_pos [OF cap] by (simp add: validate_slots_iff)
qed

theorem loaded_plan_ok_witness: "list_all slot_ok (plan_slots ex_plan) \<and> slots_ok [ex_slot] 500"
  using loaded_plan_ok [OF ex_plan_loads] by (simp add: ex_plan_def)

text \<open>
  binding attaches exactly the enabled slots, in order, each to the registry profile it names
  with matching source and follower and to an API wallet no other slot uses; no enabled source is
  an account, wallet or principal of any registered profile, and without dynamic eligibility no
  allowed market is denied.
\<close>

theorem bound_plan_ok:
  assumes "bind_continuous_plan key records invalid plan = Inr b"
  shows "map b_config (bound_slots b) = enabled_slots plan \<and>
    distinct (map b_api_wallet_address (bound_slots b)) \<and>
    list_all (bound_to records) (bound_slots b) \<and>
    (\<forall>s \<in> set (enabled_slots plan). \<forall>r \<in> set records.
       source_address s \<noteq> py_lower (py_strip (cr_follower_account_address r)) \<and>
       source_address s \<noteq> py_lower (py_strip (cr_api_wallet_address r)) \<and>
       source_address s \<noteq> py_lower (py_strip (cr_global_account_address r)))"
proof -
  from assms obtain bound where fold: "rfold (bind_slot records) (enabled_slots plan) [] = Inr bound"
    and b: "b = \<lparr>bound_plan = plan, bound_slots = bound\<rparr>"
    and nc: "\<And>r. r \<in> set records \<Longrightarrow>
      py_lower (py_strip (cr_follower_account_address r)) \<notin> source_address ` set (enabled_slots plan) \<and>
      py_lower (py_strip (cr_api_wallet_address r)) \<notin> source_address ` set (enabled_slots plan) \<and>
      py_lower (py_strip (cr_global_account_address r)) \<notin> source_address ` set (enabled_slots plan)"
    by (auto simp: bind_continuous_plan_def no_collision_def list_ex_iff)
  have "map b_config bound = enabled_slots plan \<and> distinct (map b_api_wallet_address bound) \<and>
      list_all (bound_to records) bound"
    using bind_fold [OF fold] by simp
  moreover have "x \<notin> source_address ` set (enabled_slots plan) \<Longrightarrow> s \<in> set (enabled_slots plan) \<Longrightarrow>
      source_address s \<noteq> x" for x s by auto
  ultimately show ?thesis using nc by (simp add: b)
qed


theorem bound_plan_ok_witness:
  "\<exists>b. bind_continuous_plan [] [ex_credentials] [] ex_plan = Inr b \<and>
       map b_config (bound_slots b) = [ex_slot] \<and> list_all (bound_to [ex_credentials]) (bound_slots b)"
proof -
  have strip: "py_strip ex_follower = ex_follower" "py_strip [] = []"
    "py_strip (''0x'' @ replicate 40 (CHR ''3'')) = ''0x'' @ replicate 40 (CHR ''3'')"
    "py_strip (''0x'' @ replicate 40 (CHR ''4'')) = ''0x'' @ replicate 40 (CHR ''4'')"
    "py_lower (''0x'' @ replicate 40 (CHR ''3'')) \<noteq> ex_source"
    "py_lower (''0x'' @ replicate 40 (CHR ''4'')) \<noteq> ex_source"
    "py_lower (py_strip ''legacy'') \<noteq> ''all_active_markets''"
    by code_simp+
  have "\<exists>b. bind_continuous_plan [] [ex_credentials] [] ex_plan = Inr b"
    using ex_addresses strip
    by (simp add: bind_continuous_plan_def ex_plan_def enabled_slots_def ex_slot_def no_collision_def
        ex_credentials_def bind_slot_def record_by_id_def Let_def list_ex_iff)
  moreover have "enabled_slots ex_plan = [ex_slot]"
    by (simp add: ex_plan_def enabled_slots_def ex_slot_def)
  ultimately show ?thesis using bound_plan_ok by metis
qed

end
