(* ===== verification/Precision.thy ===== *)
theory Precision
  imports Decimals
begin

text \<open>
  \<^verbatim>\<open>precision.py\<close>: how sizes and prices are put on the venue's grids. Sizes round toward zero to
  the market's lot; prices keep five significant figures and at most \<open>6 - szDecimals\<close> decimals
  (\<open>8 - szDecimals\<close> on spot); the IOC limit rounds to the permitted side of its envelope.
\<close>

section \<open>Operations\<close>

definition PERP_MAX_DECIMALS :: int where "PERP_MAX_DECIMALS = 6"
definition SPOT_MAX_DECIMALS :: int where "SPOT_MAX_DECIMALS = 8"

definition quantize_size :: "dec \<Rightarrow> int \<Rightarrow> rat result" where
  "quantize_size sz sz_decimals =
     (case sz of
        Fin x \<Rightarrow> quantize (if 0 \<le> x then ROUND_FLOOR else ROUND_CEILING) x (- sz_decimals)
      | _ \<Rightarrow> Inl (ValueError ''size must be finite''))"

definition five_sig :: "rat \<Rightarrow> rat result" where
  "five_sig v =
     (if v = 0 then Inr 0
      else quantize_in 50 ROUND_HALF_UP v (- max 0 (4 - adjusted v)))"

definition quantize_price :: "dec \<Rightarrow> int \<Rightarrow> bool \<Rightarrow> rat result" where
  "quantize_price price sz_decimals is_spot =
     (if \<not> is_finite price \<or> dec_val price \<le> 0 then Inl (ValueError ''price must be positive'')
      else let max_decimals =
                 (if is_spot then SPOT_MAX_DECIMALS else PERP_MAX_DECIMALS) - sz_decimals
           in if max_decimals < 0
              then Inl (ValueError ''sz_decimals exceeds exchange price decimal budget'')
              else rbind (five_sig (dec_val price)) (\<lambda>rounded.
                if rounded = of_int \<lfloor>rounded\<rfloor> then Inr rounded
                else quantize ROUND_HALF_UP rounded (- max_decimals)))"

text \<open>
  The quantum is the larger of \<open>10^-sig_decimals\<close> and \<open>10^-max_decimals\<close>, hence the larger exponent.
\<close>

definition quantize_price_inside_limit :: "dec \<Rightarrow> int \<Rightarrow> bool \<Rightarrow> rat result" where
  "quantize_price_inside_limit price sz_decimals is_buy =
     (if \<not> is_finite price \<or> dec_val price \<le> 0 then Inl (ValueError ''price must be positive'')
      else let max_decimals = PERP_MAX_DECIMALS - sz_decimals
           in if max_decimals < 0
              then Inl (ValueError ''sz_decimals exceeds exchange price decimal budget'')
              else let sig_decimals = max 0 (4 - adjusted (dec_val price));
                       quantum = max (- sig_decimals) (- max_decimals)
                   in rbind (quantize (if is_buy then ROUND_FLOOR else ROUND_CEILING)
                               (dec_val price) quantum) (\<lambda>rounded.
                        if rounded \<le> 0
                        then Inl (ValueError ''no positive venue price exists inside the IOC limit'')
                        else Inr rounded))"

definition ioc_multiplier :: "bool \<Rightarrow> rat \<Rightarrow> rat" where
  "ioc_multiplier is_buy bps = (if is_buy then dadd 1 (ddiv bps 10000) else dsub 1 (ddiv bps 10000))"

definition aggressive_ioc_price :: "dec \<Rightarrow> bool \<Rightarrow> dec \<Rightarrow> int \<Rightarrow> rat result" where
  "aggressive_ioc_price mid is_buy slippage_bps sz_decimals =
     (if \<not> is_finite mid \<or> dec_val mid \<le> 0 \<or> \<not> is_finite slippage_bps
      then Inl (ValueError ''mid must be positive and slippage_bps must be finite'')
      else if dec_val slippage_bps < 0 \<or> 10000 \<le> dec_val slippage_bps
      then Inl (ValueError ''slippage_bps must be between 0 and 10000'')
      else quantize_price_inside_limit
             (Fin (dmul (dec_val mid) (ioc_multiplier is_buy (dec_val slippage_bps))))
             sz_decimals is_buy)"


lemma quantize_price_error:
  assumes "quantize_price price d spot = Inl err"
  shows "(\<exists>msg. err = ValueError msg) \<or> (\<exists>msg. err = ArithmeticError msg)"
proof -
  have five: "five_sig v = Inl e \<Longrightarrow> \<exists>msg. e = ArithmeticError msg" for v e
    by (auto simp: five_sig_def dest: quantize_in_error split: if_splits)
  show ?thesis
    using assms unfolding quantize_price_def Let_def quantize_def
    by (auto simp: rbind_Inl_iff dest!: five quantize_in_error split: if_splits)
qed


section \<open>Sizes\<close>

lemma quantize_size_Fin:
  "quantize_size (Fin x) d =
     quantize (if 0 \<le> x then ROUND_FLOOR else ROUND_CEILING) x (- d)"
  by (simp add: quantize_size_def)

text \<open>Truncation toward zero: on the lot grid, never larger, never a lot or more smaller.\<close>

lemma quantize_size_nonneg:
  assumes "quantize_size (Fin x) d = Inr y" and "0 \<le> x"
  shows "0 \<le> y" and "y \<le> x" and "x < y + pow10 (- d)"
proof -
  have q: "quantize_in 28 ROUND_FLOOR x (- d) = Inr y"
    using assms by (simp add: quantize_size_Fin quantize_def)
  show "y \<le> x" and "x < y + pow10 (- d)" using quantize_floor_bounds [OF q] by auto
  show "0 \<le> y" using q assms(2) by (auto simp: quantize_in_def Let_def split: if_splits)
qed

lemma quantize_size_neg:
  assumes "quantize_size (Fin x) d = Inr y" and "x < 0"
  shows "y \<le> 0" and "x \<le> y" and "y < x + pow10 (- d)"
proof -
  have q: "quantize_in 28 ROUND_CEILING x (- d) = Inr y"
    using assms by (simp add: quantize_size_Fin quantize_def)
  show "x \<le> y" and "y < x + pow10 (- d)" using quantize_ceiling_bounds [OF q] by auto
  have "\<lceil>x / pow10 (- d)\<rceil> \<le> 0" using assms(2) by (simp add: ceiling_le_zero divide_le_0_iff)
  then show "y \<le> 0" using q
    by (auto simp: quantize_in_def Let_def mult_le_0_iff split: if_splits)
qed

lemma quantize_size_grid: "quantize_size (Fin x) d = Inr y \<Longrightarrow> on_grid (- d) y"
  by (simp add: quantize_size_Fin quantize_def quantize_grid)

lemma quantize_size_rep: "quantize_size (Fin x) d = Inr y \<Longrightarrow> ctx_rep y"
  by (simp add: quantize_size_Fin quantize_rep)

lemma quantize_size_abs_le: "quantize_size (Fin x) d = Inr y \<Longrightarrow> \<bar>y\<bar> \<le> \<bar>x\<bar>"
  using quantize_size_nonneg [of x d y] quantize_size_neg [of x d y]
  by (cases "0 \<le> x") auto

lemma quantize_size_sign:
  assumes "quantize_size (Fin x) d = Inr y"
  shows "0 < y \<Longrightarrow> 0 < x" and "y < 0 \<Longrightarrow> x < 0"
  using quantize_size_nonneg [OF assms] quantize_size_neg [OF assms]
  by (cases "0 \<le> x"; force)+

lemma quantize_size_lot: "quantize_size (Fin x) d = Inr y \<Longrightarrow> \<bar>x\<bar> < \<bar>y\<bar> + pow10 (- d)"
  using quantize_size_nonneg [of x d y] quantize_size_neg [of x d y]
  by (cases "0 \<le> x") auto

lemma quantize_size_total:
  assumes "\<bar>x\<bar> < 10 ^ 28 * pow10 (- d)"
  shows "\<exists>y. quantize_size (Fin x) d = Inr y"
proof -
  define z where "z = x / pow10 (- d)"
  have z: "\<bar>z\<bar> < of_int (10 ^ 28)" using assms by (simp add: z_def abs_divide pos_divide_less_eq)
  have fl: "\<bar>\<lfloor>z\<rfloor>\<bar> < 10 ^ 28" if "0 \<le> z"
  proof -
    have "\<lfloor>z\<rfloor> < 10 ^ 28" using z that by (subst floor_less_iff) simp
    then show ?thesis using that by simp
  qed
  have ce: "\<bar>\<lceil>z\<rceil>\<bar> < 10 ^ 28" if "z < 0"
  proof -
    have "- (10 ^ 28) < \<lceil>z\<rceil>" using z that by (subst less_ceiling_iff) simp
    moreover have "\<lceil>z\<rceil> \<le> 0" using that by simp
    ultimately show ?thesis by linarith
  qed
  have s: "0 \<le> x \<longleftrightarrow> 0 \<le> z" by (simp add: z_def zero_le_divide_iff)
  show ?thesis
    using fl ce unfolding s quantize_size_Fin quantize_def quantize_in_def Let_def z_def [symmetric]
    by (cases "0 \<le> z") auto
qed


section \<open>Prices inside the limit\<close>

text \<open>
  A venue price has at most \<open>6 - szDecimals\<close> decimals, and is an integer or has at most five
  significant figures.
\<close>

definition venue_price :: "int \<Rightarrow> rat \<Rightarrow> bool" where
  "venue_price sz_decimals y \<longleftrightarrow>
     0 < y \<and> on_grid (- (PERP_MAX_DECIMALS - sz_decimals)) y \<and>
     (on_grid 0 y \<or> on_grid (adjusted y - 4) y)"

lemma on_grid_pow10: "e \<le> b \<Longrightarrow> on_grid e (pow10 b)"
  by (simp add: on_grid_def pow10_Ints flip: pow10_diff)

lemma on_grid_pos_ge: "on_grid e y \<Longrightarrow> 0 < y \<Longrightarrow> pow10 e \<le> y"
proof -
  assume g: "on_grid e y" and y: "0 < y"
  obtain n where n: "y / pow10 e = of_int n" using g by (auto simp: on_grid_def elim: Ints_cases)
  have "0 < y / pow10 e" using y by simp
  then have "1 \<le> n" by (simp add: n)
  then have "1 \<le> y / pow10 e" by (simp add: n)
  then show ?thesis by (simp add: pos_le_divide_eq)
qed

text \<open>The ceiling on a grid is the least grid point above.\<close>

lemma grid_least:
  assumes "on_grid e y" and "on_grid e z" and "y - pow10 e < x" and "x \<le> z"
  shows "y \<le> z"
proof (rule ccontr)
  assume "\<not> y \<le> z"
  then have "0 < y - z" by simp
  moreover have "on_grid e (y - z)"
    using assms(1,2) by (simp add: on_grid_def diff_divide_distrib)
  ultimately have "pow10 e \<le> y - z" by (rule on_grid_pos_ge [rotated])
  with assms(3,4) show False by linarith
qed

lemma five_figures:
  assumes y: "0 < y" and g: "on_grid e y" and e: "adjusted p - 4 \<le> e"
    and p: "0 < p" and near: "y - pow10 e < p"
  shows "on_grid (adjusted y - 4) y"
proof (cases "adjusted y \<le> adjusted p")
  case True
  then show ?thesis using g e by (intro on_grid_mono [OF g]) linarith
next
  case False
  define b where "b = adjusted y"
  have yb: "pow10 b \<le> y" "y < pow10 (b + 1)" using adjusted_bounds [of y] y by (simp_all add: b_def)
  have "p < pow10 (adjusted p + 1)" using adjusted_bounds(2) [of p] p by simp
  also have "\<dots> \<le> pow10 b" using False by (simp add: b_def)
  finally have pb: "p \<le> pow10 b" by simp
  have "pow10 e \<le> y" using g y by (rule on_grid_pos_ge)
  then have "pow10 e < pow10 (b + 1)" using yb by linarith
  then have "e \<le> b" by simp
  then have "y \<le> pow10 b" using g near pb by (intro grid_least [of e y "pow10 b" p] on_grid_pow10) auto
  then have "y = pow10 b" using yb by simp
  then show ?thesis using on_grid_pow10 [of "adjusted y - 4" b] by (simp add: b_def)
qed

lemma inside_limit_spec:
  assumes "quantize_price_inside_limit (Fin p) d is_buy = Inr y"
  shows "venue_price d y" and "is_buy \<Longrightarrow> y \<le> p" and "\<not> is_buy \<Longrightarrow> p \<le> y" and "y < 10 ^ 28"
proof -
  define e where "e = max (- max 0 (4 - adjusted p)) (- (PERP_MAX_DECIMALS - d))"
  have p: "0 < p" and d: "0 \<le> PERP_MAX_DECIMALS - d" and y: "0 < y"
    and q: "quantize_in 28 (if is_buy then ROUND_FLOOR else ROUND_CEILING) p e = Inr y"
    using assms
    by (auto simp: quantize_price_inside_limit_def Let_def quantize_def e_def not_le split: if_splits)
  have g: "on_grid e y" using q by (rule quantize_grid)
  have buy: "y \<le> p" if is_buy using q that quantize_floor_bounds by simp
  have sell: "p \<le> y" "y < p + pow10 e" if "\<not> is_buy" using q that quantize_ceiling_bounds by simp_all
  show "is_buy \<Longrightarrow> y \<le> p" and "\<not> is_buy \<Longrightarrow> p \<le> y" using buy sell by auto
  have near: "y - pow10 e < p"
  proof (cases is_buy)
    case True
    then show ?thesis using buy pow10_pos [of e] by linarith
  next
    case False
    then show ?thesis using sell by linarith
  qed
  have e0: "e \<le> 0" using d by (simp add: e_def)
  have "on_grid 0 y \<or> on_grid (adjusted y - 4) y"
  proof (cases "4 \<le> adjusted p")
    case True
    then have "e = 0" using d by (simp add: e_def)
    then show ?thesis using g by simp
  next
    case False
    then have "adjusted p - 4 \<le> e" by (simp add: e_def)
    then show ?thesis using five_figures [OF y g _ p near] by blast
  qed
  moreover have "on_grid (- (PERP_MAX_DECIMALS - d)) y"
    by (rule on_grid_mono [OF g]) (simp add: e_def)
  ultimately show "venue_price d y" using y by (simp add: venue_price_def)
  show "y < 10 ^ 28"
  proof -
    obtain n where n: "y = of_int n * pow10 e" "\<bar>n\<bar> < 10 ^ 28"
      using q by (auto simp: quantize_in_def Let_def not_le split: if_splits)
    have "pow10 e \<le> 1" using e0 pow10_le_iff [of e 0] by simp
    moreover have n0: "0 < n" using n(1) y by (simp add: zero_less_mult_iff)
    ultimately have "y \<le> of_int n" using n(1) by (simp add: mult_left_le)
    also have "\<dots> < of_int (10 ^ 28)" using n(2) n0 by (simp only: of_int_less_iff)
    finally show ?thesis by simp
  qed
qed


section \<open>Venue prices are fixed points of the price rules\<close>

lemma half_up_of_int [simp]: "round_int ROUND_HALF_UP (of_int n) = n"
proof -
  have "\<lfloor>of_int n + 1 / 2 :: rat\<rfloor> = n" "\<lfloor>- of_int n + 1 / 2 :: rat\<rfloor> = - n"
    by (simp_all add: floor_eq_iff)
  then show ?thesis by simp
qed

lemma quantize_in_grid_id:
  assumes "on_grid e x" and "\<bar>x\<bar> < 10 ^ p * pow10 e"
  shows "quantize_in p ROUND_HALF_UP x e = Inr x"
proof -
  obtain n where n: "x / pow10 e = of_int n" using assms(1) by (auto simp: on_grid_def elim: Ints_cases)
  then have x: "x = of_int n * pow10 e" by (simp add: field_simps)
  have "\<bar>of_int n :: rat\<bar> < 10 ^ p" using assms(2) by (simp add: x abs_mult)
  then have "\<bar>n\<bar> < 10 ^ p" by (metis of_int_abs of_int_less_iff of_int_numeral of_int_power)
  then show ?thesis using n x by (simp only: quantize_in_def Let_def half_up_of_int) simp
qed

lemma five_sig_venue:
  assumes "venue_price d y" and "y < 10 ^ 28"
  shows "five_sig y = Inr y"
proof -
  have y: "0 < y" using assms(1) by (simp add: venue_price_def)
  define a where "a = adjusted y"
  have b: "pow10 a \<le> y" "y < pow10 (a + 1)" using adjusted_bounds [of y] y by (simp_all add: a_def)
  have a28: "a < 28"
  proof -
    have "pow10 a < pow10 28" using b(1) assms(2) by (simp add: pow10_def [of 28])
    then show ?thesis by simp
  qed
  define e where "e = - max 0 (4 - a)"
  have "on_grid e y"
    using assms(1) on_grid_mono [of 0 y e] on_grid_mono [of "a - 4" y e]
    by (auto simp: venue_price_def e_def a_def)
  moreover have "\<bar>y\<bar> < 10 ^ 50 * pow10 e"
  proof -
    have "y < pow10 (a + 1)" using b by simp
    also have "\<dots> \<le> pow10 (50 + e)" using a28 by (simp add: e_def)
    also have "\<dots> = 10 ^ 50 * pow10 e" by (simp add: pow10_add pow10_def [of 50])
    finally show ?thesis using y by simp
  qed
  ultimately show ?thesis using y by (simp add: five_sig_def quantize_in_grid_id e_def a_def)
qed

lemma quantize_price_venue:
  assumes "venue_price d y" and "y < 10 ^ 28" and "0 \<le> d" and "d \<le> PERP_MAX_DECIMALS"
  shows "quantize_price (Fin y) d False = Inr y"
proof -
  have y: "0 < y" using assms(1) by (simp add: venue_price_def)
  have "quantize ROUND_HALF_UP y (- (PERP_MAX_DECIMALS - d)) = Inr y" if frac: "y \<noteq> of_int \<lfloor>y\<rfloor>"
  proof -
    have "\<not> on_grid 0 y" using frac by (auto simp: on_grid_def elim!: Ints_cases)
    then have g: "on_grid (adjusted y - 4) y" using assms(1) by (simp add: venue_price_def)
    have "adjusted y < 4"
      using \<open>\<not> on_grid 0 y\<close> on_grid_mono [OF g, of 0] by (meson diff_ge_0_iff_ge not_le_imp_less)
    then have "pow10 (adjusted y + 1) \<le> pow10 4" by simp
    moreover have "y < pow10 (adjusted y + 1)" using adjusted_bounds(2) [of y] y by simp
    ultimately have "y < pow10 4" by (rule less_le_trans [rotated])
    also have "\<dots> \<le> pow10 (28 - (PERP_MAX_DECIMALS - d))"
      using assms(3) by (simp add: PERP_MAX_DECIMALS_def)
    also have "\<dots> = 10 ^ 28 * pow10 (- (PERP_MAX_DECIMALS - d))"
      by (simp add: pow10_diff pow10_def [of 28])
    finally show ?thesis
      using assms(1) y by (simp add: quantize_def quantize_in_grid_id venue_price_def)
  qed
  then show ?thesis
    using y assms five_sig_venue [OF assms(1,2)] by (simp add: quantize_price_def Let_def)
qed


section \<open>Properties\<close>

text \<open>
  \<open>quantize_size\<close> truncates: the result is a whole number of lots, keeps the sign, is never
  larger in magnitude than the request and is less than one lot smaller; and it does return for
  every size below \<open>10^28\<close> lots.
\<close>

theorem quantize_size_truncates:
  assumes "\<bar>x\<bar> < 10 ^ 28 * pow10 (- d)"
  shows "\<exists>y. quantize_size (Fin x) d = Inr y \<and> on_grid (- d) y \<and> 0 \<le> x * y \<and>
           \<bar>y\<bar> \<le> \<bar>x\<bar> \<and> \<bar>x\<bar> < \<bar>y\<bar> + pow10 (- d)"
proof -
  obtain y where y: "quantize_size (Fin x) d = Inr y" using quantize_size_total [OF assms] by blast
  have "0 \<le> x * y"
    using quantize_size_nonneg(1) [OF y] quantize_size_neg(1) [OF y]
    by (cases "0 \<le> x") (auto simp: zero_le_mult_iff)
  then show ?thesis
    using y quantize_size_grid [OF y] quantize_size_abs_le [OF y] quantize_size_lot [OF y] by blast
qed

theorem quantize_size_truncates_witness:
  "\<exists>y. quantize_size (Fin (- 12345 / 1000)) 2 = Inr y \<and> on_grid (- 2) y \<and>
     0 \<le> (- 12345 / 1000) * y \<and> \<bar>y\<bar> \<le> \<bar>- 12345 / 1000\<bar> \<and> \<bar>- 12345 / 1000\<bar> < \<bar>y\<bar> + pow10 (- 2)"
  by (rule quantize_size_truncates) (simp add: pow10_def)

text \<open>
  the IOC limit price is on the permitted side of its raw envelope (at or below
  \<open>mid * (1 + bps/10000)\<close> for a buy, at or above \<open>mid * (1 - bps/10000)\<close> for a sell, in context
  arithmetic) and is a price the venue accepts.
\<close>

theorem aggressive_ioc_price_inside_envelope:
  assumes "aggressive_ioc_price (Fin mid) is_buy (Fin bps) d = Inr y"
  shows "venue_price d y \<and>
         (if is_buy then y \<le> dmul mid (dadd 1 (ddiv bps 10000))
          else dmul mid (dsub 1 (ddiv bps 10000)) \<le> y)"
proof -
  have q: "quantize_price_inside_limit (Fin (dmul mid (ioc_multiplier is_buy bps))) d is_buy = Inr y"
    using assms by (simp add: aggressive_ioc_price_def split: if_splits)
  show ?thesis using inside_limit_spec(1,2,3) [OF q] by (simp add: ioc_multiplier_def)
qed

lemma aggressive_ioc_price_example:
  "aggressive_ioc_price (Fin (100123 / 1000)) True (Fin 140) 3 = Inr (10152 / 100)"
proof -
  have "adjusted (50762361 / 500000) = 2" by (rule adjusted_unique) (simp_all add: pow10_def)
  then show ?thesis
    by (simp add: aggressive_ioc_price_def ioc_multiplier_def quantize_price_inside_limit_def
        PERP_MAX_DECIMALS_def dec_eval)
qed

theorem aggressive_ioc_price_inside_envelope_witness:
  "aggressive_ioc_price (Fin (100123 / 1000)) True (Fin 140) 3 = Inr (10152 / 100) \<and>
   venue_price 3 (10152 / 100) \<and> 10152 / 100 \<le> dmul (100123 / 1000) (dadd 1 (ddiv 140 10000))"
  using aggressive_ioc_price_inside_envelope [OF aggressive_ioc_price_example]
    aggressive_ioc_price_example by simp

text \<open>
  the limit price is a fixed point of the price rules the order preflight applies again, so
  the preflight never moves the price of an IOC it is asked about.
\<close>

theorem ioc_price_is_fixed_point:
  assumes "aggressive_ioc_price (Fin mid) is_buy (Fin bps) d = Inr y" and "0 \<le> d"
  shows "quantize_price (Fin y) d False = Inr y"
proof -
  have q: "quantize_price_inside_limit (Fin (dmul mid (ioc_multiplier is_buy bps))) d is_buy = Inr y"
    using assms(1) by (simp add: aggressive_ioc_price_def split: if_splits)
  then have "d \<le> PERP_MAX_DECIMALS"
    by (simp add: quantize_price_inside_limit_def Let_def split: if_splits)
  then show ?thesis
    using quantize_price_venue inside_limit_spec(1,4) [OF q] assms(2) by blast
qed

theorem ioc_price_is_fixed_point_witness:
  "quantize_price (Fin (10152 / 100)) 3 False = Inr (10152 / 100)"
  by (rule ioc_price_is_fixed_point [OF aggressive_ioc_price_example]) simp

end
