(* ===== verification/Order_Preflight.thy ===== *)
theory Order_Preflight
  imports Precision
begin

text \<open>
  \<^verbatim>\<open>order_preflight.py\<close>: the local validation of one perp order against the venue's rules. The
  reason strings are a datatype with one constructor per message and the interpolated values as
  its arguments. \<open>result_of\<close> is \<open>_result\<close>, which recomputes the derived fields of every outcome.
\<close>

section \<open>Data\<close>

datatype order_eligibility = PLACEABLE | PLACEABLE_AFTER_ROUNDING | REJECTED_ORDER

record perp_rules =
  rules_market :: string
  rules_sz_decimals :: int
  rules_max_leverage :: int
  minimum_notional_usd :: rat
  contract_size :: rat
  market_type :: string
  margin_mode :: string

definition HYPERLIQUID_PERP_MIN_NOTIONAL_USD :: rat where
  "HYPERLIQUID_PERP_MIN_NOTIONAL_USD = 10"

text \<open>The dataclass constructor with its defaults.\<close>

definition perp_rules_default :: "string \<Rightarrow> int \<Rightarrow> int \<Rightarrow> perp_rules" where
  "perp_rules_default m d l =
     \<lparr>rules_market = m, rules_sz_decimals = d, rules_max_leverage = l,
      minimum_notional_usd = HYPERLIQUID_PERP_MIN_NOTIONAL_USD, contract_size = 1,
      market_type = ''perp'', margin_mode = ''unknown''\<rparr>"

definition quantity_step :: "perp_rules \<Rightarrow> rat" where
  "quantity_step r = pow10 (- rules_sz_decimals r)"

datatype preflight_reason =
    SideInvalid
  | InputsNotFinite
  | InputsNotPositive
  | PriceUnrepresentable string
  | BelowOneLot rat
  | ExceedsOrderCap rat rat
  | BelowMinimum bool rat string rat
  | LeverageOutOfRange int int
  | MarginExceedsCollateral rat rat
  | ExactCloseBelowMinimum
  | MarginExchangeAuthoritative
  | AfterRounding "rat option" "rat option" "(rat option \<times> int option) option"
  | MarginEstimateOnly "rat option" "int option"
  | AllChecksPass

record preflight_result =
  eligibility :: order_eligibility
  res_market :: string
  res_market_type :: string
  res_side :: string
  requested_quantity :: dec
  requested_notional_usd :: dec
  requested_price :: dec
  rounded_quantity :: rat
  rounded_price :: dec
  submitted_notional_usd :: dec
  res_quantity_step :: rat
  res_minimum_notional_usd :: rat
  required_margin_usd :: "rat option"
  available_collateral_usd :: "dec option"
  res_leverage :: "int option"
  res_margin_mode :: string
  res_reduce_only :: bool
  exact_reduce_only_close :: bool
  reason :: preflight_reason

definition placeable :: "preflight_result \<Rightarrow> bool" where
  "placeable r \<longleftrightarrow> eligibility r \<noteq> REJECTED_ORDER"


section \<open>Operations\<close>

definition is_exact_reduce_only_close :: "string \<Rightarrow> bool \<Rightarrow> rat \<Rightarrow> dec \<Rightarrow> bool" where
  "is_exact_reduce_only_close side reduce_only qty current =
     (if \<not> reduce_only \<or> side \<notin> {''buy'', ''sell''} \<or> \<not> is_finite current \<or>
         qty \<le> 0 \<or> dec_val current = 0
      then False
      else let signed = (if side = ''buy'' then qty else dneg qty)
           in dadd (dec_val current) signed = 0)"

definition result_of ::
  "perp_rules \<Rightarrow> string \<Rightarrow> order_eligibility \<Rightarrow> dec \<Rightarrow> dec \<Rightarrow> rat \<Rightarrow> bool \<Rightarrow> dec \<Rightarrow> int option \<Rightarrow>
   dec option \<Rightarrow> preflight_reason \<Rightarrow> preflight_result result" where
  "result_of rules side elig req_qty price qty reduce_only current leverage collateral why =
     rbind (if is_finite price \<and> 0 < dec_val price
            then (case quantize_price price (rules_sz_decimals rules) (market_type rules = ''spot'') of
                    Inl (ValueError m) \<Rightarrow> Inr NaN
                  | Inl e \<Rightarrow> Inl e
                  | Inr p \<Rightarrow> Inr (Fin p))
            else Inr NaN) (\<lambda>rprice.
     let req_notional =
           (if is_finite req_qty \<and> is_finite price
            then Fin (dmul (dmul (dabs (dec_val req_qty)) (contract_size rules)) (dec_val price))
            else NaN);
         submitted =
           (if is_finite rprice
            then Fin (dmul (dmul (dabs qty) (contract_size rules)) (dec_val rprice))
            else NaN);
         margin =
           (case leverage of
              Some l \<Rightarrow>
                (if \<not> reduce_only \<and> 0 < l \<and> is_finite submitted
                 then Some (ddiv (dec_val submitted) (of_int l))
                 else if reduce_only then Some 0 else None)
            | None \<Rightarrow> (if reduce_only then Some 0 else None))
     in Inr \<lparr>eligibility = elig, res_market = rules_market rules,
             res_market_type = market_type rules, res_side = side,
             requested_quantity = req_qty, requested_notional_usd = req_notional,
             requested_price = price, rounded_quantity = qty, rounded_price = rprice,
             submitted_notional_usd = submitted, res_quantity_step = quantity_step rules,
             res_minimum_notional_usd = minimum_notional_usd rules,
             required_margin_usd = margin, available_collateral_usd = collateral,
             res_leverage = leverage, res_margin_mode = margin_mode rules,
             res_reduce_only = reduce_only,
             exact_reduce_only_close = is_exact_reduce_only_close side reduce_only qty current,
             reason = why\<rparr>)"

text \<open>The reason reported for a placeable order.\<close>

definition accept_reason ::
  "perp_rules \<Rightarrow> rat \<Rightarrow> rat \<Rightarrow> dec \<Rightarrow> dec \<Rightarrow> rat \<Rightarrow> bool \<Rightarrow> bool \<Rightarrow> int option \<Rightarrow> dec option \<Rightarrow>
   rat option \<Rightarrow> preflight_reason" where
  "accept_reason rules rounded rprice req_qty price submitted exact_close reduce_only leverage
     collateral margin =
     (if exact_close \<and> submitted < minimum_notional_usd rules then ExactCloseBelowMinimum
      else if margin = None \<and> \<not> reduce_only then MarginExchangeAuthoritative
      else if Fin rounded \<noteq> req_qty \<or> Fin rprice \<noteq> price
      then AfterRounding (if Fin rounded \<noteq> req_qty then Some rounded else None)
             (if Fin rprice \<noteq> price then Some rprice else None)
             (if \<not> reduce_only \<and> collateral = None then Some (margin, leverage) else None)
      else if \<not> reduce_only \<and> collateral = None then MarginEstimateOnly margin leverage
      else AllChecksPass)"

text \<open>The tail of the preflight for an order that passed every check.\<close>

definition accept_order ::
  "perp_rules \<Rightarrow> string \<Rightarrow> dec \<Rightarrow> dec \<Rightarrow> rat \<Rightarrow> rat \<Rightarrow> rat \<Rightarrow> bool \<Rightarrow> bool \<Rightarrow> dec \<Rightarrow> int option \<Rightarrow>
   dec option \<Rightarrow> rat option \<Rightarrow> preflight_result result" where
  "accept_order rules side req_qty price rounded rprice submitted exact_close reduce_only current
     leverage collateral margin =
     rbind (result_of rules side
              (if Fin rounded \<noteq> req_qty \<or> Fin rprice \<noteq> price
               then PLACEABLE_AFTER_ROUNDING else PLACEABLE)
              req_qty price rounded reduce_only current leverage collateral
              (accept_reason rules rounded rprice req_qty price submitted exact_close
                 reduce_only leverage collateral margin)) (\<lambda>r.
     if margin \<noteq> None \<and> required_margin_usd r \<noteq> margin
     then Inl (AssertionError ''preflight margin calculation diverged'')
     else Inr r)"

definition preflight_hyperliquid_perp_order ::
  "perp_rules \<Rightarrow> dec \<Rightarrow> dec \<Rightarrow> string \<Rightarrow> dec \<Rightarrow> bool \<Rightarrow> dec \<Rightarrow> int option \<Rightarrow> dec option \<Rightarrow>
   preflight_result result" where
  "preflight_hyperliquid_perp_order rules req_qty price side cap reduce_only current leverage
     collateral =
     (let side' = py_lower (py_strip side);
          result = (\<lambda>elig qty why.
             result_of rules side' elig req_qty price qty reduce_only current leverage collateral why);
          reject = result REJECTED_ORDER
      in if side' \<notin> {''buy'', ''sell''} then reject 0 SideInvalid
         else if \<not> is_finite req_qty \<or> \<not> is_finite price \<or> \<not> is_finite cap \<or> \<not> is_finite current
         then reject 0 InputsNotFinite
         else if dec_val req_qty \<le> 0 \<or> dec_val price \<le> 0 \<or> dec_val cap \<le> 0
         then reject 0 InputsNotPositive
         else case quantize_price price (rules_sz_decimals rules) (market_type rules = ''spot'') of
           Inl (ValueError m) \<Rightarrow> reject 0 (PriceUnrepresentable m)
         | Inl e \<Rightarrow> Inl e
         | Inr rprice \<Rightarrow>
             rbind (quantize_size req_qty (rules_sz_decimals rules)) (\<lambda>q.
             let rounded = dabs q
             in if rounded \<le> 0 then reject rounded (BelowOneLot (quantity_step rules))
                else
                  let submitted = dmul (dmul rounded (contract_size rules)) rprice;
                      exact_close = is_exact_reduce_only_close side' reduce_only rounded current
                  in if dec_val cap < submitted
                     then reject rounded (ExceedsOrderCap submitted (dec_val cap))
                     else if submitted < minimum_notional_usd rules \<and> \<not> exact_close
                     then reject rounded (BelowMinimum reduce_only submitted (market_type rules)
                            (minimum_notional_usd rules))
                     else
                       let accept = accept_order rules side' req_qty price rounded rprice submitted
                             exact_close reduce_only current leverage collateral
                       in (case (if reduce_only then None else leverage) of
                             None \<Rightarrow> accept None
                           | Some l \<Rightarrow>
                               if l < 1 \<or> rules_max_leverage rules < l
                               then reject rounded (LeverageOutOfRange l (rules_max_leverage rules))
                               else
                                 let margin = ddiv submitted (of_int l)
                                 in (case collateral of
                                       Some (Fin c) \<Rightarrow>
                                         if c < margin then reject rounded (MarginExceedsCollateral margin c)
                                         else accept (Some margin)
                                     | _ \<Rightarrow> accept (Some margin)))))"


section \<open>Lemmas\<close>

lemma is_exact_close_iff:
  assumes "0 < z" and "ctx_rep z"
  shows "is_exact_reduce_only_close side reduce_only z (Fin c) \<longleftrightarrow>
    reduce_only \<and> (side = ''buy'' \<and> c = - z \<or> side = ''sell'' \<and> c = z)"
proof -
  have "dneg z = - z" using assms(2) by (simp add: dneg_def ctx_uminus ctx_rep_def)
  then show ?thesis
    using assms(1) by (auto simp: is_exact_reduce_only_close_def dadd_def Let_def)
qed

lemma dabs_rep: "0 \<le> z \<Longrightarrow> ctx_rep z \<Longrightarrow> dabs z = z"
  by (simp add: dabs_def ctx_rep_def)

text \<open>The fields \<open>_result\<close> fills in once the price is representable.\<close>

lemma result_of_ok:
  assumes "quantize_price (Fin p) (rules_sz_decimals rules) (market_type rules = ''spot'') = Inr rp"
    and "0 < p"
  obtains r where
    "result_of rules side elig q (Fin p) qty reduce_only cur leverage collateral why = Inr r"
    "eligibility r = elig" "rounded_quantity r = qty" "rounded_price r = Fin rp" "reason r = why"
    "submitted_notional_usd r = Fin (dmul (dmul (dabs qty) (contract_size rules)) rp)"
    "\<And>l. leverage = Some l \<Longrightarrow> \<not> reduce_only \<Longrightarrow> 0 < l \<Longrightarrow>
       required_margin_usd r = Some (ddiv (dmul (dmul (dabs qty) (contract_size rules)) rp) (of_int l))"
  using assms by (auto simp: result_of_def Let_def)

definition margin_ok :: "perp_rules \<Rightarrow> rat \<Rightarrow> bool \<Rightarrow> int option \<Rightarrow> dec option \<Rightarrow> bool" where
  "margin_ok rules submitted reduce_only leverage collateral \<longleftrightarrow>
     reduce_only \<or>
     (case leverage of
        None \<Rightarrow> True
      | Some l \<Rightarrow> 1 \<le> l \<and> l \<le> rules_max_leverage rules \<and>
          (case collateral of Some (Fin c) \<Rightarrow> ddiv submitted (of_int l) \<le> c | _ \<Rightarrow> True))"

text \<open>The accepting tail: no divergence of the recomputed margin is possible.\<close>

lemma accept_tail:
  assumes "quantize_price (Fin p) (rules_sz_decimals rules) (market_type rules = ''spot'') = Inr rp"
    and "0 < p" and "0 < z" and "ctx_rep z"
    and "margin = None \<or> (\<exists>l. leverage = Some l \<and> 0 < l \<and> \<not> reduce_only \<and>
           margin = Some (ddiv (dmul (dmul z (contract_size rules)) rp) (of_int l)))"
  shows "\<exists>r. accept_order rules side q (Fin p) z rp submitted exact reduce_only cur leverage collateral
             margin = Inr r \<and>
           placeable r \<and> rounded_quantity r = z \<and> rounded_price r = Fin rp \<and>
           submitted_notional_usd r = Fin (dmul (dmul z (contract_size rules)) rp)"
proof -
  define elig where "elig = (if Fin z \<noteq> q \<or> Fin rp \<noteq> Fin p then PLACEABLE_AFTER_ROUNDING else PLACEABLE)"
  define why where "why = accept_reason rules z rp q (Fin p) submitted exact reduce_only leverage
    collateral margin"
  obtain r where r:
    "result_of rules side elig q (Fin p) z reduce_only cur leverage collateral why = Inr r"
    "eligibility r = elig" "rounded_quantity r = z" "rounded_price r = Fin rp"
    "submitted_notional_usd r = Fin (dmul (dmul (dabs z) (contract_size rules)) rp)"
    "\<And>l. leverage = Some l \<Longrightarrow> \<not> reduce_only \<Longrightarrow> 0 < l \<Longrightarrow>
       required_margin_usd r = Some (ddiv (dmul (dmul (dabs z) (contract_size rules)) rp) (of_int l))"
    by (rule result_of_ok [OF assms(1,2)]) blast
  have "dabs z = z" using assms(3,4) by (simp add: dabs_rep)
  moreover have "elig \<noteq> REJECTED_ORDER" by (simp add: elig_def)
  ultimately show ?thesis
    using r assms(5) unfolding accept_order_def elig_def [symmetric] why_def [symmetric]
    by (auto simp: placeable_def)
qed

lemma reject_tail:
  assumes "quantize_price (Fin p) (rules_sz_decimals rules) (market_type rules = ''spot'') = Inr rp"
    and "0 < p" and "0 < z" and "ctx_rep z"
  shows "\<exists>r. result_of rules side REJECTED_ORDER q (Fin p) z reduce_only cur leverage collateral why
             = Inr r \<and> \<not> placeable r \<and> rounded_quantity r = z \<and> rounded_price r = Fin rp \<and>
           submitted_notional_usd r = Fin (dmul (dmul z (contract_size rules)) rp)"
proof -
  have "dabs z = z" using assms(3,4) by (simp add: dabs_rep)
  then show ?thesis
    using result_of_ok [OF assms(1,2), of side REJECTED_ORDER q z reduce_only cur leverage collateral why]
    by (metis placeable_def)
qed


lemma preflight_decides:
  assumes side: "side \<in> {''buy'', ''sell''}" and pos: "0 < q" "0 < p" "0 < cap"
    and price: "quantize_price (Fin p) (rules_sz_decimals rules) (market_type rules = ''spot'') = Inr rp"
    and qty: "quantize_size (Fin q) (rules_sz_decimals rules) = Inr z" "0 < z"
  shows "\<exists>r. preflight_hyperliquid_perp_order rules (Fin q) (Fin p) side (Fin cap) reduce_only
               (Fin cur) leverage collateral = Inr r \<and>
             rounded_quantity r = z \<and>
             submitted_notional_usd r = Fin (dmul (dmul z (contract_size rules)) rp) \<and>
             (placeable r \<longleftrightarrow>
                dmul (dmul z (contract_size rules)) rp \<le> cap \<and>
                (minimum_notional_usd rules \<le> dmul (dmul z (contract_size rules)) rp \<or>
                 reduce_only \<and> cur = (if side = ''buy'' then - z else z)) \<and>
                margin_ok rules (dmul (dmul z (contract_size rules)) rp) reduce_only leverage collateral)"
proof -
  define s where "s = dmul (dmul z (contract_size rules)) rp"
  have norm: "py_lower (py_strip side) = side"
    using side by (auto simp: py_lower_def py_strip_def lower_char_def py_space_def)
  have rep: "ctx_rep z" using qty(1) by (rule quantize_size_rep)
  have dz: "dabs z = z" using rep qty(2) by (simp add: dabs_rep)
  define E where "E = is_exact_reduce_only_close side reduce_only z (Fin cur)"
  have ex: "E \<longleftrightarrow> reduce_only \<and> cur = (if side = ''buy'' then - z else z)"
    using side by (auto simp: E_def is_exact_close_iff [OF qty(2) rep])
  note acc = accept_tail [OF price pos(2) qty(2) rep, folded s_def,
      where side = side and q = "Fin q" and reduce_only = reduce_only and cur = "Fin cur"
        and submitted = s and leverage = leverage and collateral = collateral]
  note rej = reject_tail [OF price pos(2) qty(2) rep, folded s_def,
      of side "Fin q" reduce_only "Fin cur" leverage collateral]
  let ?pre = "preflight_hyperliquid_perp_order rules (Fin q) (Fin p) side (Fin cap) reduce_only
               (Fin cur) leverage collateral"
  let ?rej = "\<lambda>why. result_of rules side REJECTED_ORDER (Fin q) (Fin p) z reduce_only (Fin cur)
     leverage collateral why"
  let ?acc = "accept_order rules side (Fin q) (Fin p) z rp s E reduce_only (Fin cur) leverage collateral"
  let ?max = "rules_max_leverage rules"
  have pre: "?pre = (if cap < s then ?rej (ExceedsOrderCap s cap)
      else if s < minimum_notional_usd rules \<and> \<not> E
      then ?rej (BelowMinimum reduce_only s (market_type rules) (minimum_notional_usd rules))
      else case (if reduce_only then None else leverage) of
        None \<Rightarrow> ?acc None
      | Some l \<Rightarrow>
          if l < 1 \<or> ?max < l then ?rej (LeverageOutOfRange l ?max)
          else case collateral of
            Some (Fin c) \<Rightarrow>
              if c < ddiv s (of_int l) then ?rej (MarginExceedsCollateral (ddiv s (of_int l)) c)
              else ?acc (Some (ddiv s (of_int l)))
          | _ \<Rightarrow> ?acc (Some (ddiv s (of_int l))))"
    unfolding preflight_hyperliquid_perp_order_def norm Let_def
    using side pos qty by (simp add: price dz E_def s_def split: option.split dec.split)
  have rejected: "\<exists>r. ?pre = Inr r \<and> rounded_quantity r = z \<and> submitted_notional_usd r = Fin s \<and>
      \<not> placeable r" if "?pre = ?rej why" for why
    using rej [of why] that by auto
  have accepted: "\<exists>r. ?pre = Inr r \<and> rounded_quantity r = z \<and> submitted_notional_usd r = Fin s \<and>
      placeable r" if "?pre = ?acc m" and "m = None \<or>
        (\<exists>l. leverage = Some l \<and> 0 < l \<and> \<not> reduce_only \<and> m = Some (ddiv s (of_int l)))" for m
    using acc [of m E] that by auto
  let ?ok = "s \<le> cap \<and> (minimum_notional_usd rules \<le> s \<or> E) \<and>
     margin_ok rules s reduce_only leverage collateral"
  have "(\<not> ?ok \<and> (\<exists>why. ?pre = ?rej why)) \<or>
      (?ok \<and> (\<exists>m. ?pre = ?acc m \<and> (m = None \<or>
        (\<exists>l. leverage = Some l \<and> 0 < l \<and> \<not> reduce_only \<and> m = Some (ddiv s (of_int l))))))"
    unfolding pre margin_ok_def by (auto simp: not_less split: option.split dec.split)
  then have "\<exists>r. ?pre = Inr r \<and> rounded_quantity r = z \<and> submitted_notional_usd r = Fin s \<and>
      (placeable r \<longleftrightarrow> ?ok)"
    using rejected accepted by blast
  then show ?thesis by (simp only: s_def ex)
qed

text \<open>What a placeable result tells about an order of positive size at a positive price.\<close>

lemma preflight_placeable:
  assumes "preflight_hyperliquid_perp_order rules (Fin q) (Fin p) side (Fin cap) reduce_only
      (Fin cur) leverage collateral = Inr r"
    and "placeable r" and "side \<in> {''buy'', ''sell''}" and "0 < p" and "0 < cap"
  obtains rp z where "quantize_price (Fin p) (rules_sz_decimals rules) (market_type rules = ''spot'') = Inr rp"
    "quantize_size (Fin q) (rules_sz_decimals rules) = Inr z" "0 < z" "0 < q"
    "dmul (dmul z (contract_size rules)) rp \<le> cap"
    "minimum_notional_usd rules \<le> dmul (dmul z (contract_size rules)) rp \<or>
       reduce_only \<and> cur = (if side = ''buy'' then - z else z)"
    "margin_ok rules (dmul (dmul z (contract_size rules)) rp) reduce_only leverage collateral"
proof -
  have norm: "py_lower (py_strip side) = side"
    using assms(3) by (auto simp: py_lower_def py_strip_def lower_char_def py_space_def)
  have rej: "\<not> placeable r'"
    if "result_of rules s REJECTED_ORDER q' p' z' ro c' l' co' why = Inr r'" for s q' p' z' ro c' l' co' why r'
    using that by (auto simp: result_of_def Let_def placeable_def)
  have q: "0 < q"
    using assms(1-5) rej unfolding preflight_hyperliquid_perp_order_def norm Let_def
    by (cases "0 < q") auto
  obtain rp where rp: "quantize_price (Fin p) (rules_sz_decimals rules) (market_type rules = ''spot'') = Inr rp"
  proof (cases "quantize_price (Fin p) (rules_sz_decimals rules) (market_type rules = ''spot'')")
    case (Inl e)
    with assms q rej show ?thesis
      unfolding preflight_hyperliquid_perp_order_def norm Let_def by (cases e) auto
  qed (rule that)
  obtain z where z: "quantize_size (Fin q) (rules_sz_decimals rules) = Inr z"
    using assms q rp unfolding preflight_hyperliquid_perp_order_def norm Let_def
    by (cases "quantize_size (Fin q) (rules_sz_decimals rules)") auto
  have "0 < z"
  proof (rule ccontr)
    assume "\<not> 0 < z"
    then have "z = 0" using quantize_size_nonneg(1) [OF z] q by simp
    then have "dabs z = 0" by (simp add: dabs_def)
    with assms q rp z rej show False
      unfolding preflight_hyperliquid_perp_order_def norm Let_def by auto
  qed
  from preflight_decides [OF assms(3) q assms(4,5) rp z this, of reduce_only cur leverage collateral]
  have "dmul (dmul z (contract_size rules)) rp \<le> cap \<and>
      (minimum_notional_usd rules \<le> dmul (dmul z (contract_size rules)) rp \<or>
       reduce_only \<and> cur = (if side = ''buy'' then - z else z)) \<and>
      margin_ok rules (dmul (dmul z (contract_size rules)) rp) reduce_only leverage collateral"
    using assms(1,2) by (auto simp del: if_split)
  then show ?thesis by (intro that [OF rp z \<open>0 < z\<close> q]) blast+
qed


section \<open>Properties\<close>

text \<open>
  on well-formed input the preflight always returns a result, and it is placeable exactly when
  the order notional is within the cap, reaches the venue minimum or is the exact close of the
  current position, and (for an order that may add risk with a known leverage) the leverage is in
  range and the margin fits the known collateral.
\<close>

theorem preflight_placeable_iff:
  assumes side: "side \<in> {''buy'', ''sell''}" and pos: "0 < q" "0 < p" "0 < cap"
    and price: "quantize_price (Fin p) (rules_sz_decimals rules) (market_type rules = ''spot'') = Inr rp"
    and qty: "quantize_size (Fin q) (rules_sz_decimals rules) = Inr z" "0 < z"
  shows "\<exists>r. preflight_hyperliquid_perp_order rules (Fin q) (Fin p) side (Fin cap) reduce_only
               (Fin cur) leverage collateral = Inr r \<and>
             rounded_quantity r = z \<and>
             submitted_notional_usd r = Fin (dmul (dmul z (contract_size rules)) rp) \<and>
             (placeable r \<longleftrightarrow>
                dmul (dmul z (contract_size rules)) rp \<le> cap \<and>
                (minimum_notional_usd rules \<le> dmul (dmul z (contract_size rules)) rp \<or>
                 reduce_only \<and> cur = (if side = ''buy'' then - z else z)) \<and>
                margin_ok rules (dmul (dmul z (contract_size rules)) rp) reduce_only leverage collateral)"
  using assms by (rule preflight_decides)

lemma preflight_example_inputs:
  "quantize_price (Fin (2505 / 100)) 2 False = Inr (2505 / 100)"
  "quantize_size (Fin (3 / 10)) 2 = Inr (3 / 10)"
proof -
  have "adjusted (501 / 20) = 1" by (rule adjusted_unique) (simp_all add: pow10_def)
  then show "quantize_price (Fin (2505 / 100)) 2 False = Inr (2505 / 100)"
    by (simp add: quantize_price_def five_sig_def PERP_MAX_DECIMALS_def dec_eval)
  show "quantize_size (Fin (3 / 10)) 2 = Inr (3 / 10)"
    by (simp add: quantize_size_def dec_eval)
qed

text \<open>A reduce-only order of 0.3 at 25.05 (USD 7.515, below the minimum of 10) closing a long of 0.3.\<close>

theorem preflight_placeable_iff_witness:
  "\<exists>r. preflight_hyperliquid_perp_order (perp_rules_default ''SOL'' 2 20) (Fin (3 / 10))
         (Fin (2505 / 100)) ''sell'' (Fin 500) True (Fin (3 / 10)) None None = Inr r \<and>
       submitted_notional_usd r = Fin (7515 / 1000) \<and> placeable r"
  using preflight_placeable_iff [of "''sell''" "3 / 10" "2505 / 100" 500
      "perp_rules_default ''SOL'' 2 20" "2505 / 100" "3 / 10" True "3 / 10" None None]
    preflight_example_inputs
  by (auto simp: perp_rules_default_def HYPERLIQUID_PERP_MIN_NOTIONAL_USD_def margin_ok_def dec_eval)

end
