(* ===== verification/Desired_Engine.thy ===== *)
theory Desired_Engine
  imports Continuous_Config Order_Preflight
begin

text \<open>
  \<^verbatim>\<open>desired_engine.py\<close>: the target portfolio of a follower and the next order toward it.
  \<open>build_desired_portfolio\<close> scales the source's positions by equity, keeps the largest ones and
  shrinks them to the gross cap; \<open>choose_next_action\<close> walks the markets, reductions first, and
  returns at most one order. The portfolio digest (SHA-256 of a JSON text) is the argument
  \<open>digest\<close>. Blocker and reason texts are datatypes.
\<close>

section \<open>Data\<close>

text \<open>\<open>Position\<close> of \<^verbatim>\<open>models.py\<close>; a source position carries an unchecked Decimal size.\<close>

record 'n position =
  pos_coin :: string
  pos_size :: 'n
  pos_entry_px :: "dec option"
  pos_leverage :: "int option"
  pos_updated_ms :: int

record DesiredPortfolio =
  d_desired_id :: string
  d_positions :: "(string \<times> rat position) list"
  d_source_equity :: rat
  d_follower_equity :: rat
  d_scale :: rat
  d_gross_scale :: rat
  d_gross_notional_usd :: rat

text \<open>The last two are reasons of \<^verbatim>\<open>continuous_runtime.py\<close>.\<close>

datatype action_reason = CloseReversal | MoveTowardTarget | NearestExecutable | CloseBeforeReplan | FailClose string

record NextAction =
  n_desired_id :: string
  n_market :: string
  n_side :: string
  n_size :: rat
  n_reduce_only :: bool
  n_reason :: action_reason

definition signed_size :: "NextAction \<Rightarrow> rat" where
  "signed_size a = (if n_side a = ''buy'' then n_size a else dneg (n_size a))"

datatype blocker =
    UnresolvedAction string
  | NoFreshMetadata string
  | BelowOneVenueLot string
  | NoVenueRules string
  | SubMinimumDebt string dec preflight_reason
  | CloseMovesAway string
  | CloseRejected preflight_reason

record ActionDecision =
  dec_action :: "NextAction option"
  dec_residual :: rat
  dec_blocker :: "blocker option"
  dec_skipped :: "blocker list"


section \<open>The desired portfolio\<close>

text \<open>\<open>xs[:n]\<close>.\<close>

definition py_take :: "int \<Rightarrow> 'a list \<Rightarrow> 'a list" where
  "py_take n xs = take (nat (if n < 0 then int (length xs) + n else n)) xs"

type_synonym candidate = "string \<times> rat position \<times> rat"

definition candidate_step ::
  "ContinuousSlotConfig \<Rightarrow> rat \<Rightarrow> (string \<times> dec) list \<Rightarrow> string \<times> dec position \<Rightarrow> candidate list \<Rightarrow>
   candidate list result" where
  "candidate_step slot scale mids item cands =
     (let (raw_market, source) = item
      in rbind (canonical_market_symbol raw_market) (\<lambda>market.
         if allowed_markets slot \<noteq> [] \<and> market \<notin> set (allowed_markets slot) then Inr cands
         else case map_of mids market of
           Some (Fin mid) \<Rightarrow>
             if mid \<le> 0 then Inr cands
             else if \<not> is_finite (pos_size source)
             then Inl (ValueError ''source position is not finite'')
             else
               let sz = dmul (dec_val (pos_size source)) scale
               in if sz = 0 then Inr cands
                  else Inr (cands @ [(market,
                    \<lparr>pos_coin = market, pos_size = sz, pos_entry_px = pos_entry_px source,
                     pos_leverage = map_option (\<lambda>l. min l (max_leverage slot)) (pos_leverage source),
                     pos_updated_ms = pos_updated_ms source\<rparr>,
                    dmul (dabs sz) mid)])
         | _ \<Rightarrow> Inr cands))"

definition candidates ::
  "ContinuousSlotConfig \<Rightarrow> rat \<Rightarrow> (string \<times> dec) list \<Rightarrow> (string \<times> dec position) list \<Rightarrow>
   candidate list result" where
  "candidates slot scale mids source_positions =
     rfold (candidate_step slot scale mids) source_positions []"

text \<open>Largest notional first, ties by name.\<close>

definition select_candidates :: "ContinuousSlotConfig \<Rightarrow> candidate list \<Rightarrow> candidate list" where
  "select_candidates slot cands =
     py_take (max_open_positions slot) (sort_key (\<lambda>(m, _, n). (dneg n, m)) cands)"

definition gross_scale_of :: "ContinuousSlotConfig \<Rightarrow> candidate list \<Rightarrow> rat" where
  "gross_scale_of slot selected =
     (let gross = dsum (map (\<lambda>(_, _, n). n) selected)
      in if max_gross_exposure_usd slot < gross then ddiv (max_gross_exposure_usd slot) gross else 1)"

definition scaled_positions :: "rat \<Rightarrow> candidate list \<Rightarrow> (string \<times> rat position) list" where
  "scaled_positions g selected =
     fold (\<lambda>(m, p, _). AList.update m (p\<lparr>pos_coin := m, pos_size := dmul (pos_size p) g\<rparr>)) selected []"

text \<open>\<open>mids[market]\<close> of a selected market, whose mid was found finite.\<close>

definition mid_of :: "(string \<times> dec) list \<Rightarrow> string \<Rightarrow> rat" where
  "mid_of mids m = dec_val (dget mids m NaN)"

definition build_desired_portfolio ::
  "(string \<Rightarrow> rat \<Rightarrow> (string \<times> rat) list \<Rightarrow> string) \<Rightarrow> ContinuousSlotConfig \<Rightarrow>
   (string \<times> dec position) list \<Rightarrow> dec \<Rightarrow> dec \<Rightarrow> (string \<times> dec) list \<Rightarrow> DesiredPortfolio result" where
  "build_desired_portfolio digest slot source_positions source_equity follower_equity mids =
     rbind (require (is_finite source_equity \<and> 0 < dec_val source_equity)
              (ValueError ''source equity must be finite and positive'')) (\<lambda>_.
     rbind (require (is_finite follower_equity \<and> 0 < dec_val follower_equity)
              (ValueError ''follower equity must be finite and positive'')) (\<lambda>_.
     let scale = dmul (ddiv (dec_val follower_equity) (dec_val source_equity)) (multiplier slot)
     in rbind (candidates slot scale mids source_positions) (\<lambda>cands.
        let selected = select_candidates slot cands;
            g = gross_scale_of slot selected;
            positions = scaled_positions g selected;
            final_gross = dsum (map (\<lambda>(m, p). dmul (dabs (pos_size p)) (mid_of mids m)) positions)
        in Inr \<lparr>d_desired_id = digest (slot_id slot) scale
                  (map (\<lambda>(m, p). (m, pos_size p)) (sort_key fst positions)),
                d_positions = positions, d_source_equity = dec_val source_equity,
                d_follower_equity = dec_val follower_equity, d_scale = scale,
                d_gross_scale = g, d_gross_notional_usd = final_gross\<rparr>)))"


section \<open>The next action\<close>

text \<open>\<open>positions.get(market, Position(market, 0)).size\<close>.\<close>

definition size_in :: "(string \<times> rat position) list \<Rightarrow> string \<Rightarrow> rat" where
  "size_in ps m = (case map_of ps m of None \<Rightarrow> 0 | Some p \<Rightarrow> pos_size p)"

definition leverage_in :: "(string \<times> rat position) list \<Rightarrow> string \<Rightarrow> int option" where
  "leverage_in ps m = (case map_of ps m of None \<Rightarrow> None | Some p \<Rightarrow> pos_leverage p)"

definition needs_reduction :: "rat \<Rightarrow> rat \<Rightarrow> bool" where
  "needs_reduction desired_size confirmed \<longleftrightarrow>
     (if confirmed = 0 then False
      else desired_size = 0 \<or> (0 < confirmed) \<noteq> (0 < desired_size) \<or> dabs desired_size < dabs confirmed)"

text \<open>The observed world the decision is made on.\<close>

record engine_view =
  v_follower_positions :: "(string \<times> rat position) list"
  v_unresolved :: "(string \<times> rat) list"
  v_mids :: "(string \<times> dec) list"
  v_size_decimals :: "(string \<times> int) list"
  v_market_rules :: "(string \<times> perp_rules) list option"

text \<open>What one iteration of the market loop does.\<close>

datatype market_step =
    AtTarget
  | Act NextAction rat
  | Block blocker rat
  | Defer blocker rat

definition is_reversing :: "rat \<Rightarrow> rat \<Rightarrow> bool" where
  "is_reversing desired_size confirmed \<longleftrightarrow>
     confirmed \<noteq> 0 \<and> desired_size \<noteq> 0 \<and> (0 < confirmed) \<noteq> (0 < desired_size)"

definition raw_action_size :: "rat \<Rightarrow> rat \<Rightarrow> rat" where
  "raw_action_size desired_size confirmed =
     (if is_reversing desired_size confirmed then dneg confirmed else dsub desired_size confirmed)"

definition is_reduce_only :: "rat \<Rightarrow> rat \<Rightarrow> bool" where
  "is_reduce_only desired_size confirmed \<longleftrightarrow>
     is_reversing desired_size confirmed \<or>
     confirmed \<noteq> 0 \<and> raw_action_size desired_size confirmed \<noteq> 0 \<and>
     (0 < raw_action_size desired_size confirmed) \<noteq> (0 < confirmed) \<and>
     dabs desired_size < dabs confirmed"

definition clip_size :: "rat \<Rightarrow> rat \<Rightarrow> rat" where
  "clip_size raw max_size = (if max_size < dabs raw then copy_sign max_size raw else raw)"

definition side_of :: "rat \<Rightarrow> string" where
  "side_of x = (if 0 < x then ''buy'' else ''sell'')"

definition make_action ::
  "string \<Rightarrow> string \<Rightarrow> rat \<Rightarrow> bool \<Rightarrow> action_reason \<Rightarrow> NextAction" where
  "make_action desired_id market signed reduce_only why =
     \<lparr>n_desired_id = desired_id, n_market = market, n_side = side_of signed, n_size = dabs signed,
      n_reduce_only = reduce_only, n_reason = why\<rparr>"

definition order_rules ::
  "ContinuousSlotConfig \<Rightarrow> engine_view \<Rightarrow> string \<Rightarrow> int \<Rightarrow> perp_rules option" where
  "order_rules slot view market decimals =
     (case v_market_rules view of
        Some rules \<Rightarrow> map_of rules market
      | None \<Rightarrow> Some (perp_rules_default market decimals (max_leverage slot)))"

text \<open>The branch for a reduction the venue would refuse: try closing up to the order cap.\<close>

definition nearest_step ::
  "ContinuousSlotConfig \<Rightarrow> string \<Rightarrow> perp_rules \<Rightarrow> string \<Rightarrow> rat \<Rightarrow> rat \<Rightarrow> rat \<Rightarrow> rat \<Rightarrow> int \<Rightarrow> int option \<Rightarrow>
   rat \<Rightarrow> market_step result" where
  "nearest_step slot desired_id rules market desired_size confirmed mid max_size decimals leverage
     residual =
     rbind (quantize_size (Fin (copy_sign (min (dabs confirmed) max_size) (dneg confirmed))) decimals) (\<lambda>chunk.
     let after_chunk = dadd confirmed chunk;
         improves = dabs (dsub desired_size after_chunk) < dabs (dsub desired_size confirmed)
     in rbind (preflight_hyperliquid_perp_order rules (Fin (dabs chunk)) (Fin mid) (side_of chunk)
                 (Fin (max_order_notional_usd slot)) True (Fin confirmed) leverage None) (\<lambda>close.
        if \<not> improves then Inr (Defer (CloseMovesAway market) residual)
        else if \<not> placeable close then Inr (Defer (CloseRejected (reason close)) residual)
        else Inr (Act (make_action desired_id market chunk True NearestExecutable) residual)))"

definition order_step ::
  "ContinuousSlotConfig \<Rightarrow> string \<Rightarrow> engine_view \<Rightarrow> string \<Rightarrow> rat \<Rightarrow> rat \<Rightarrow> rat \<Rightarrow> int \<Rightarrow> rat \<Rightarrow>
   market_step result" where
  "order_step slot desired_id view market desired_size confirmed mid decimals residual =
     (let reversing = is_reversing desired_size confirmed;
          reduce_only = is_reduce_only desired_size confirmed;
          max_size = ddiv (max_order_notional_usd slot) mid
      in rbind (quantize_size (Fin (clip_size (raw_action_size desired_size confirmed) max_size)) decimals) (\<lambda>signed.
         if signed = 0 then Inr (Defer (BelowOneVenueLot market) residual)
         else case order_rules slot view market decimals of
           None \<Rightarrow> Inr (Block (NoVenueRules market) residual)
         | Some rules \<Rightarrow>
             let leverage = leverage_in (v_follower_positions view) market
             in rbind (preflight_hyperliquid_perp_order rules (Fin (dabs signed)) (Fin mid)
                         (side_of signed) (Fin (max_order_notional_usd slot)) reduce_only
                         (Fin confirmed) leverage None) (\<lambda>pre.
                if placeable pre
                then Inr (Act (make_action desired_id market signed reduce_only
                       (if reversing then CloseReversal else MoveTowardTarget)) residual)
                else if \<not> reduce_only
                then Inr (Defer (SubMinimumDebt market (submitted_notional_usd pre) (reason pre)) residual)
                else nearest_step slot desired_id rules market desired_size confirmed mid max_size
                       decimals leverage residual)))"

definition market_step_of ::
  "ContinuousSlotConfig \<Rightarrow> DesiredPortfolio \<Rightarrow> engine_view \<Rightarrow> string \<Rightarrow> market_step result" where
  "market_step_of slot desired view market =
     (let desired_size = size_in (d_positions desired) market;
          confirmed = size_in (v_follower_positions view) market;
          unresolved = dget (v_unresolved view) market 0;
          residual = dsub desired_size (dadd confirmed unresolved)
      in if residual = 0 then Inr AtTarget
         else if unresolved \<noteq> 0 then Inr (Block (UnresolvedAction market) residual)
         else case (map_of (v_mids view) market, map_of (v_size_decimals view) market) of
           (Some (Fin mid), Some decimals) \<Rightarrow>
             if mid \<le> 0 then Inr (Block (NoFreshMetadata market) residual)
             else order_step slot (d_desired_id desired) view market desired_size confirmed mid
                    decimals residual
         | _ \<Rightarrow> Inr (Block (NoFreshMetadata market) residual))"

text \<open>The loop: the skipped blockers so far, newest last, and the residual of the first of them.\<close>

fun walk_markets ::
  "(string \<Rightarrow> market_step result) \<Rightarrow> string list \<Rightarrow> (blocker \<times> rat) list \<Rightarrow> ActionDecision result" where
  "walk_markets step [] skipped =
     Inr (case skipped of
            [] \<Rightarrow> \<lparr>dec_action = None, dec_residual = 0, dec_blocker = None, dec_skipped = []\<rparr>
          | (b, res) # _ \<Rightarrow>
              \<lparr>dec_action = None, dec_residual = res, dec_blocker = Some b,
               dec_skipped = map fst skipped\<rparr>)"
| "walk_markets step (m # ms) skipped =
     rbind (step m) (\<lambda>s.
       case s of
         AtTarget \<Rightarrow> walk_markets step ms skipped
       | Act a res \<Rightarrow>
           Inr \<lparr>dec_action = Some a, dec_residual = res, dec_blocker = None,
                dec_skipped = map fst skipped\<rparr>
       | Block b res \<Rightarrow>
           Inr \<lparr>dec_action = None, dec_residual = res, dec_blocker = Some b, dec_skipped = []\<rparr>
       | Defer b res \<Rightarrow> walk_markets step ms (skipped @ [(b, res)]))"

text \<open>All markets of either book, those that must shrink first.\<close>

definition action_markets :: "DesiredPortfolio \<Rightarrow> engine_view \<Rightarrow> string list" where
  "action_markets desired view =
     sort_key (\<lambda>m. (\<not> needs_reduction (size_in (d_positions desired) m)
                        (size_in (v_follower_positions view) m), m))
       (sort (remdups (map fst (d_positions desired) @ map fst (v_follower_positions view))))"

definition choose_next_action ::
  "ContinuousSlotConfig \<Rightarrow> DesiredPortfolio \<Rightarrow> engine_view \<Rightarrow> ActionDecision result" where
  "choose_next_action slot desired view =
     walk_markets (market_step_of slot desired view) (action_markets desired view) []"

end
