(* ===== verification/Desired_Portfolio.thy ===== *)
theory Desired_Portfolio
  imports Desired_Engine "HOL-Library.Multiset"
begin

text \<open>
  Properties of \<open>build_desired_portfolio\<close>: what the target book may contain, and that its gross
  exposure stays within the configured cap up to the rounding of 28-digit arithmetic.
\<close>

section \<open>Candidates\<close>

definition cand_ok ::
  "ContinuousSlotConfig \<Rightarrow> rat \<Rightarrow> (string \<times> dec) list \<Rightarrow> (string \<times> dec position) list \<Rightarrow> candidate \<Rightarrow> bool" where
  "cand_ok slot scale mids src c \<longleftrightarrow>
     (case c of (m, p, n) \<Rightarrow>
        is_canonical_market m \<and> (allowed_markets slot = [] \<or> m \<in> set (allowed_markets slot)) \<and>
        (\<exists>mid. map_of mids m = Some (Fin mid) \<and> 0 < mid \<and> n = dmul (dabs (pos_size p)) mid) \<and>
        (\<exists>raw s. (raw, s) \<in> set src \<and> canonical_market_symbol raw = Inr m \<and>
           is_finite (pos_size s) \<and> pos_size p = dmul (dec_val (pos_size s)) scale \<and>
           pos_leverage p = map_option (\<lambda>l. min l (max_leverage slot)) (pos_leverage s)) \<and>
        pos_size p \<noteq> 0)"

lemma candidate_step_ok:
  assumes "candidate_step slot scale mids item cs = Inr cs'" and "item \<in> set src"
    and "\<forall>c \<in> set cs. cand_ok slot scale mids src c"
  shows "\<forall>c \<in> set cs'. cand_ok slot scale mids src c"
proof -
  obtain raw s where item: "item = (raw, s)" by (cases item)
  from assms(1) obtain m where m: "canonical_market_symbol raw = Inr m"
    by (auto simp: candidate_step_def item)
  note canon = canonical_symbol_canonical [OF m]
  define new where "new = (\<lambda>mid. (m, \<lparr>pos_coin = m, pos_size = dmul (dec_val (pos_size s)) scale,
       pos_entry_px = pos_entry_px s,
       pos_leverage = map_option (\<lambda>l. min l (max_leverage slot)) (pos_leverage s),
       pos_updated_ms = pos_updated_ms s\<rparr>, dmul (dabs (dmul (dec_val (pos_size s)) scale)) mid))"
  consider "cs' = cs" | mid where "cs' = cs @ [new mid]" "map_of mids m = Some (Fin mid)" "0 < mid"
      "allowed_markets slot = [] \<or> m \<in> set (allowed_markets slot)" "is_finite (pos_size s)"
      "dmul (dec_val (pos_size s)) scale \<noteq> 0"
  proof (cases "\<exists>mid. map_of mids m = Some (Fin mid)")
    case True
    with assms(1) m that show ?thesis
      unfolding candidate_step_def item new_def Let_def by (auto split: if_splits)
  next
    case False
    with assms(1) m that(1) show ?thesis
      unfolding candidate_step_def item Let_def
      by (cases "map_of mids m"; cases "the (map_of mids m)") (auto split: if_splits)
  qed
  then show ?thesis
  proof cases
    case (2 mid)
    moreover have "(raw, s) \<in> set src" using assms(2) by (simp add: item)
    ultimately have "cand_ok slot scale mids src (new mid)"
      using m canon by (auto simp: cand_ok_def new_def)
    with 2 assms(3) show ?thesis by auto
  qed (use assms(3) in simp)
qed

lemma candidates_ok:
  assumes "candidates slot scale mids src = Inr cs" and "c \<in> set cs"
  shows "cand_ok slot scale mids src c"
proof -
  have "\<forall>c \<in> set cs. cand_ok slot scale mids src c"
    using assms(1) unfolding candidates_def
    by (rule rfold_invariant [where P = "\<lambda>cs. \<forall>c \<in> set cs. cand_ok slot scale mids src c"])
      (simp, metis candidate_step_ok)
  with assms(2) show ?thesis by blast
qed

lemma py_take_set: "set (py_take n xs) \<subseteq> set xs"
  by (auto simp: py_take_def dest: in_set_takeD)

lemma py_take_length: "0 \<le> n \<Longrightarrow> length (py_take n xs) \<le> nat n"
  by (simp add: py_take_def)

lemma select_subset: "set (select_candidates slot cs) \<subseteq> set cs"
  using py_take_set by (fastforce simp: select_candidates_def)

lemma select_length: "0 \<le> max_open_positions slot \<Longrightarrow>
    length (select_candidates slot cs) \<le> nat (max_open_positions slot)"
  by (simp add: select_candidates_def py_take_length)


section \<open>Positions\<close>

lemma fold_update_in:
  assumes "(k, v) \<in> set (fold (\<lambda>(m, p, n). AList.update m (f m p)) xs acc)"
  shows "(k, v) \<in> set acc \<or> (\<exists>p n. (k, p, n) \<in> set xs \<and> v = f k p)"
  using assms
proof (induction xs arbitrary: acc)
  case (Cons x xs)
  obtain m p n where x: "x = (m, p, n)" by (cases x)
  from Cons.IH [of "AList.update m (f m p) acc"] Cons.prems
  show ?case by (auto simp: x dest!: in_set_update_D)
qed simp

lemma scaled_positions_in:
  assumes "(m, q) \<in> set (scaled_positions g sel)"
  obtains p n where "(m, p, n) \<in> set sel" "q = p\<lparr>pos_coin := m, pos_size := dmul (pos_size p) g\<rparr>"
proof -
  define f where "f = (\<lambda>m (p :: rat position). p\<lparr>pos_coin := m, pos_size := dmul (pos_size p) g\<rparr>)"
  have "(m, q) \<in> set (fold (\<lambda>(m, p, n). AList.update m (f m p)) sel [])"
    using assms by (simp add: scaled_positions_def f_def)
  from fold_update_in [OF this] that show ?thesis by (auto simp: f_def)
qed

lemma update_distinct: "distinct (map fst d) \<Longrightarrow> distinct (map fst (AList.update k v d))"
  by (rule distinct_update)

lemma scaled_positions_distinct: "distinct (map fst (scaled_positions g sel))"
proof -
  have "distinct (map fst (fold (\<lambda>(m, p, n). AList.update m (f m p)) xs acc))"
    if "distinct (map fst acc)" for f :: "string \<Rightarrow> rat position \<Rightarrow> rat position" and xs :: "candidate list" and acc
    using that by (induction xs arbitrary: acc) (auto simp: update_distinct)
  from this [of "[]" "\<lambda>m p. p\<lparr>pos_coin := m, pos_size := dmul (pos_size p) g\<rparr>" sel] show ?thesis
    by (simp add: scaled_positions_def)
qed

text \<open>Overwriting entries only lowers a sum of non-negative terms.\<close>

lemma sum_update_le:
  fixes w :: "'k \<times> 'v \<Rightarrow> rat"
  assumes "\<And>e. e \<in> set d \<Longrightarrow> 0 \<le> w e"
  shows "sum_list (map w (AList.update k v d)) \<le> sum_list (map w d) + w (k, v)"
  using assms
proof (induction d)
  case (Cons e d)
  obtain a b where e: "e = (a, b)" by (cases e)
  show ?case
  proof (cases "a = k")
    case True
    then show ?thesis using Cons.prems [of "(a, b)"] by (simp add: e)
  next
    case False
    then show ?thesis using Cons.IH Cons.prems by (auto simp: e)
  qed
qed simp

lemma sum_fold_update_le:
  fixes w :: "'k \<times> 'v \<Rightarrow> rat"
  assumes "\<And>e. 0 \<le> w e"
  shows "sum_list (map w (fold (\<lambda>(m, p, n). AList.update m (f m p)) xs acc)) \<le>
    sum_list (map w acc) + sum_list (map (\<lambda>(m, p, n). w (m, f m p)) xs)"
proof (induction xs arbitrary: acc)
  case (Cons x xs)
  obtain m p n where x: "x = (m, p, n)" by (cases x)
  show ?case
    using Cons.IH [of "AList.update m (f m p) acc"] sum_update_le [of acc w m "f m p"] assms
    by (simp add: x)
qed simp

lemma length_update_le: "length (AList.update k v d) \<le> Suc (length d)"
  by (induction d) auto

lemma fold_update_length:
  "length (fold (\<lambda>(m, p, n). AList.update m (f m p)) xs acc) \<le> length acc + length xs"
proof (induction xs arbitrary: acc)
  case (Cons x xs)
  obtain m p n where x: "x = (m, p, n)" by (cases x)
  have "length (AList.update m (f m p) acc) \<le> Suc (length acc)" by (rule length_update_le)
  with Cons.IH [of "AList.update m (f m p) acc"] show ?case by (simp add: x)
qed simp

lemma scaled_positions_length: "length (scaled_positions g sel) \<le> length sel"
  using fold_update_length [of "\<lambda>m p. p\<lparr>pos_coin := m, pos_size := dmul (pos_size p) g\<rparr>" sel "[]"]
  by (simp add: scaled_positions_def)


section \<open>Gross exposure\<close>

abbreviation cand_mid :: "(string \<times> dec) list \<Rightarrow> candidate \<Rightarrow> rat" where
  "cand_mid mids c \<equiv> mid_of mids (fst c)"

lemma cand_exact:
  assumes "cand_ok slot scale mids src (m, p, n)"
  shows "0 < mid_of mids m" and "0 \<le> n"
    and "\<bar>pos_size p\<bar> * mid_of mids m * (1 - ctx_ulp) \<le> n"
proof -
  from assms obtain mid where mid: "map_of mids m = Some (Fin mid)" "0 < mid"
    "n = dmul (dabs (pos_size p)) mid" by (auto simp: cand_ok_def)
  from assms have "\<exists>x. pos_size p = ctx x" by (auto simp: cand_ok_def dmul_def)
  then have "dabs (pos_size p) = \<bar>pos_size p\<bar>" by (auto simp: dabs_def ctx_abs)
  moreover have "mid_of mids m = mid" using mid by (simp add: mid_of_def dget_def)
  ultimately show "0 < mid_of mids m" "0 \<le> n" "\<bar>pos_size p\<bar> * mid_of mids m * (1 - ctx_ulp) \<le> n"
    using mid dc.rnd_lower [of "\<bar>pos_size p\<bar> * mid"] by (auto simp: dmul_def)
qed

lemma gross_scale_bounds:
  assumes "\<forall>c \<in> set sel. cand_ok slot scale mids src c" and cap: "0 < max_gross_exposure_usd slot"
  defines "g \<equiv> gross_scale_of slot sel" and "G \<equiv> dsum (map (\<lambda>(_, _, n). n) sel)"
  shows "0 < g" and "g * G \<le> max_gross_exposure_usd slot * (1 + ctx_ulp)"
proof -
  have u: "0 \<le> ctx_ulp" by (rule dc.u_range)
  let ?M = "max_gross_exposure_usd slot"
  have "0 < g \<and> g * G \<le> ?M * (1 + ctx_ulp)"
  proof (cases "?M < G")
    case True
    then have G: "0 < G" using cap by simp
    have g: "g = ctx (?M / G)" using True by (simp add: g_def gross_scale_of_def G_def ddiv_def)
    have "g \<le> ?M * (1 + ctx_ulp) / G" using dc.rnd_upper [of "?M / G"] cap G by (simp add: g)
    then have "g * G \<le> ?M * (1 + ctx_ulp)" by (simp add: pos_le_divide_eq [OF G])
    with g cap G show ?thesis by simp
  next
    case False
    then have "g = 1" by (simp add: g_def gross_scale_of_def G_def)
    moreover have "?M * 1 \<le> ?M * (1 + ctx_ulp)" using u cap by (intro mult_left_mono) auto
    ultimately show ?thesis using False by auto
  qed
  then show "0 < g" and "g * G \<le> ?M * (1 + ctx_ulp)" by auto
qed

lemma scaled_gross_bound:
  assumes ok: "\<forall>c \<in> set sel. cand_ok slot scale mids src c" and cap: "0 < max_gross_exposure_usd slot"
  shows "sum_list (map (\<lambda>(m, p). \<bar>pos_size p\<bar> * mid_of mids m)
      (scaled_positions (gross_scale_of slot sel) sel)) * (1 - ctx_ulp) ^ (length sel + 1)
    \<le> max_gross_exposure_usd slot * (1 + ctx_ulp) ^ 2"
proof -
  define g where "g = gross_scale_of slot sel"
  define G where "G = dsum (map (\<lambda>(_, _, n). n) sel)"
  define A where "A = sum_list (map (\<lambda>(m, p, n). \<bar>pos_size p\<bar> * mid_of mids m) sel)"
  define N where "N = sum_list (map (\<lambda>(_, _, n). n) sel)"
  define S where "S = sum_list (map (\<lambda>(m, p). \<bar>pos_size p\<bar> * mid_of mids m) (scaled_positions g sel))"
  let ?u = ctx_ulp and ?M = "max_gross_exposure_usd slot"
  have u: "0 \<le> ?u" "?u < 1" by (rule dc.u_range)+
  note g = gross_scale_bounds [OF ok cap, folded g_def G_def]
  define w where "w = (\<lambda>(m, p :: rat position). \<bar>pos_size p\<bar> * \<bar>mid_of mids m\<bar>)"
  define f where "f = (\<lambda>m (p :: rat position). p\<lparr>pos_coin := m, pos_size := dmul (pos_size p) g\<rparr>)"
  have pos: "0 < mid_of mids m" if "(m, p, n) \<in> set sel" for m p n
    using cand_exact(1) ok that by blast
  have sp: "scaled_positions g sel = fold (\<lambda>(m, p, n). AList.update m (f m p)) sel []"
    by (simp add: scaled_positions_def f_def)
  have "sum_list (map w (scaled_positions g sel)) \<le> sum_list (map (\<lambda>(m, p, n). w (m, f m p)) sel)"
    unfolding sp using sum_fold_update_le [of w f sel "[]"] by (simp add: w_def split_beta)
  moreover have "map (\<lambda>(m, p). \<bar>pos_size p\<bar> * mid_of mids m) (scaled_positions g sel)
      = map w (scaled_positions g sel)"
    by (auto simp: w_def elim!: scaled_positions_in dest!: pos)
  ultimately have "S \<le> sum_list (map (\<lambda>(m, p, n). w (m, f m p)) sel)" by (simp only: S_def)
  also have "\<dots> \<le> sum_list (map (\<lambda>(m, p, n). (1 + ?u) * g * (\<bar>pos_size p\<bar> * mid_of mids m)) sel)"
  proof (rule sum_list_mono)
    fix c assume c: "c \<in> set sel"
    obtain m p n where mpn: "c = (m, p, n)" by (cases c)
    have "\<bar>dmul (pos_size p) g\<bar> \<le> \<bar>pos_size p\<bar> * g * (1 + ?u)"
      using dc.rnd_upper [of "\<bar>pos_size p * g\<bar>"] g(1)
      by (simp add: dmul_def ctx_abs [symmetric]) (simp add: abs_mult)
    then show "(case c of (m, p, n) \<Rightarrow> w (m, f m p))
        \<le> (case c of (m, p, n) \<Rightarrow> (1 + ?u) * g * (\<bar>pos_size p\<bar> * mid_of mids m))"
      using mult_right_mono [of "\<bar>dmul (pos_size p) g\<bar>" "\<bar>pos_size p\<bar> * g * (1 + ?u)" "mid_of mids m"]
        pos [of m p n] c by (simp add: mpn w_def f_def algebra_simps)
  qed
  also have "\<dots> = (1 + ?u) * g * A"
    unfolding A_def by (induction sel) (auto simp: algebra_simps)
  finally have S: "S \<le> (1 + ?u) * g * A" .
  have A: "A * (1 - ?u) \<le> N"
  proof -
    have "A * (1 - ?u) = sum_list (map (\<lambda>(m, p, n). \<bar>pos_size p\<bar> * mid_of mids m * (1 - ?u)) sel)"
      unfolding A_def by (induction sel) (auto simp: algebra_simps)
    also have "\<dots> \<le> N"
      unfolding N_def using ok by (intro sum_list_mono) (auto dest: cand_exact(3))
    finally show ?thesis .
  qed
  have G: "(1 - ?u) ^ length sel * N \<le> G"
    using dc.fsum_lower [of 0 "map (\<lambda>(_, _, n). n) sel"] ok cand_exact(2)
    by (fastforce simp: G_def N_def dsum_fsum)
  have "S * (1 - ?u) ^ (length sel + 1) \<le> (1 + ?u) * g * A * (1 - ?u) ^ (length sel + 1)"
    using S u by (intro mult_right_mono) auto
  also have "\<dots> = (1 + ?u) * g * ((1 - ?u) ^ length sel * (A * (1 - ?u)))" by (simp add: algebra_simps)
  also have "\<dots> \<le> (1 + ?u) * g * ((1 - ?u) ^ length sel * N)"
    using A u g(1) by (intro mult_left_mono) auto
  also have "\<dots> \<le> (1 + ?u) * g * G" using G u g(1) by (intro mult_left_mono) auto
  also have "\<dots> \<le> (1 + ?u) * (?M * (1 + ?u))"
    using mult_left_mono [OF g(2), of "1 + ?u"] u by (simp add: algebra_simps)
  finally show ?thesis by (simp add: S_def g_def power2_eq_square algebra_simps)
qed


lemma build_desired_Inr:
  assumes "build_desired_portfolio digest slot src se fe mids = Inr d"
  obtains cands sel where
    "candidates slot (dmul (ddiv (dec_val fe) (dec_val se)) (multiplier slot)) mids src = Inr cands"
    "sel = select_candidates slot cands"
    "d_gross_scale d = gross_scale_of slot sel"
    "d_positions d = scaled_positions (gross_scale_of slot sel) sel"
    "0 < dec_val se" "0 < dec_val fe"
  using assms by (auto simp: build_desired_portfolio_def Let_def)

lemma select_ok:
  assumes "candidates slot scale mids src = Inr cands" and "c \<in> set (select_candidates slot cands)"
  shows "cand_ok slot scale mids src c"
  using candidates_ok [OF assms(1)] select_subset assms(2) by blast


text \<open>A concrete book: the source is long 1 BTC at 1000, the slot's gross cap is 500.\<close>

definition ex_position :: "dec position" where
  "ex_position = \<lparr>pos_coin = ''BTC'', pos_size = Fin 1, pos_entry_px = None,
     pos_leverage = Some 10, pos_updated_ms = 0\<rparr>"

definition ex_target :: "rat position" where
  "ex_target = \<lparr>pos_coin = ''BTC'', pos_size = 1 / 2, pos_entry_px = None,
     pos_leverage = Some 5, pos_updated_ms = 0\<rparr>"

definition ex_desired :: DesiredPortfolio where
  "ex_desired = \<lparr>d_desired_id = ''id'', d_positions = [(''BTC'', ex_target)],
     d_source_equity = 200, d_follower_equity = 200, d_scale = 1, d_gross_scale = 1 / 2,
     d_gross_notional_usd = 500\<rparr>"

lemma ex_slot_ok: "slot_ok ex_slot"
  using parse_slot_ok [OF ex_slot_parses] .

lemma ex_build:
  "build_desired_portfolio (\<lambda>_ _ _. ''id'') ex_slot [(''BTC'', ex_position)] (Fin 200) (Fin 200)
     [(''BTC'', Fin 1000)] = Inr ex_desired"
proof -
  have "canonical_market_symbol ''BTC'' = Inr ''BTC''"
    by (simp add: canonical_market_symbol_def canonical_market_def market_eval)
  then show ?thesis
    by (simp add: build_desired_portfolio_def candidates_def candidate_step_def ex_slot_def
        ex_position_def select_candidates_def py_take_def gross_scale_of_def scaled_positions_def
        dsum_def mid_of_def dget_def ex_desired_def ex_target_def dec_eval Let_def)
qed


section \<open>Properties\<close>

text \<open>
  C33: the gross notional of the desired book at the given mids, computed exactly, never exceeds the
  slot's cap by more than the rounding of the 28-digit arithmetic (a relative half unit in the
  28th digit per operation): by less than one part in 10^24 for up to 1000 positions.
\<close>

theorem desired_gross_within_cap:
  assumes "build_desired_portfolio digest slot src se fe mids = Inr d" and "slot_ok slot"
  defines "gross \<equiv> sum_list (map (\<lambda>(m, p). \<bar>pos_size p\<bar> * mid_of mids m) (d_positions d))"
  shows "gross \<le> max_gross_exposure_usd slot * (1 + ctx_ulp) ^ 2
      / (1 - ctx_ulp) ^ (nat (max_open_positions slot) + 1) \<and>
    (max_open_positions slot \<le> 1000 \<longrightarrow> gross \<le> max_gross_exposure_usd slot * (1 + 1 / 10 ^ 24))"
proof -
  let ?M = "max_gross_exposure_usd slot" and ?k = "nat (max_open_positions slot) + 1" and ?u = ctx_ulp
  have M: "0 < ?M" and npos: "0 < max_open_positions slot" using assms(2) by (auto simp: slot_ok_def)
  from assms(1) obtain cands sel where
    c: "candidates slot (dmul (ddiv (dec_val fe) (dec_val se)) (multiplier slot)) mids src = Inr cands"
    and sel: "sel = select_candidates slot cands"
    and d: "d_positions d = scaled_positions (gross_scale_of slot sel) sel"
    by (rule build_desired_Inr) blast
  have "\<forall>x \<in> set sel. cand_ok slot (dmul (ddiv (dec_val fe) (dec_val se)) (multiplier slot)) mids src x"
    using select_ok [OF c] by (simp add: sel)
  from scaled_gross_bound [OF this M] have b: "gross * (1 - ?u) ^ (length sel + 1) \<le> ?M * (1 + ?u) ^ 2"
    by (simp add: gross_def d)
  have u: "0 \<le> ?u" "?u < 1" by (rule dc.u_range)+
  have gross: "0 \<le> gross"
  proof -
    have "0 < mid_of mids m" if "(m, p) \<in> set (d_positions d)" for m p
      using that cand_exact(1) select_ok [OF c] unfolding d sel by (blast elim: scaled_positions_in)
    then show ?thesis unfolding gross_def by (intro sum_list_nonneg) (fastforce simp: less_imp_le)
  qed
  have "length sel + 1 \<le> ?k" using select_length [of slot cands] npos by (simp add: sel)
  then have "(1 - ?u) ^ ?k \<le> (1 - ?u) ^ (length sel + 1)" using u by (intro power_decreasing) auto
  then have "gross * (1 - ?u) ^ ?k \<le> gross * (1 - ?u) ^ (length sel + 1)"
    using gross by (rule mult_left_mono)
  with b have b': "gross * (1 - ?u) ^ ?k \<le> ?M * (1 + ?u) ^ 2" by simp
  then have main: "gross \<le> ?M * (1 + ?u) ^ 2 / (1 - ?u) ^ ?k"
    using u by (simp add: pos_le_divide_eq)
  moreover have "gross \<le> ?M * (1 + 1 / 10 ^ 24)" if "max_open_positions slot \<le> 1000"
  proof -
    have k: "?k \<le> 1001" using that by simp
    have "1 - of_nat ?k * ?u \<le> (1 - ?u) ^ ?k"
      using Bernoulli_inequality [of "- real_of_rat ?u" ?k] u
      by (metis (mono_tags, opaque_lifting) diff_conv_add_uminus mult_minus_right of_rat_1 of_rat_add of_rat_less_eq
          of_rat_minus of_rat_mult of_rat_of_nat_eq of_rat_power neg_le_iff_le of_rat_le_1_iff less_imp_le)
    moreover have "of_nat ?k * ?u \<le> 1001 * ?u" using k u by (intro mult_right_mono) (auto simp: of_nat_le_iff)
    ultimately have "1 - 1001 * ?u \<le> (1 - ?u) ^ ?k" by simp
    then have "gross * (1 - 1001 * ?u) \<le> ?M * (1 + ?u) ^ 2"
      using b' mult_left_mono [of "1 - 1001 * ?u" "(1 - ?u) ^ ?k" gross] gross by simp
    moreover have "(1 + ?u) ^ 2 \<le> (1 + 1 / 10 ^ 24) * (1 - 1001 * ?u)"
      by (simp add: ctx_ulp_def pow10_def power2_eq_square)
    then have "?M * (1 + ?u) ^ 2 \<le> ?M * ((1 + 1 / 10 ^ 24) * (1 - 1001 * ?u))"
      using M by (intro mult_left_mono) auto
    ultimately have "gross * (1 - 1001 * ?u) \<le> ?M * (1 + 1 / 10 ^ 24) * (1 - 1001 * ?u)"
      by (simp add: algebra_simps)
    moreover have "0 < 1 - 1001 * ?u" by (simp add: ctx_ulp_def pow10_def)
    ultimately show ?thesis by (rule mult_right_le_imp_le)
  qed
  ultimately show ?thesis by blast
qed


theorem desired_gross_within_cap_witness:
  "sum_list (map (\<lambda>(m, p). \<bar>pos_size p\<bar> * mid_of [(''BTC'', Fin 1000)] m) (d_positions ex_desired))
     \<le> 500 * (1 + 1 / 10 ^ 24)"
  using desired_gross_within_cap [OF ex_build ex_slot_ok] by (simp add: ex_slot_def)

text \<open>
  a desired book holds at most \<open>max_open_positions\<close> markets, each once, each canonical, on the
  allow-list when there is one and with a usable mid; its size has the sign of a source position in
  that market (never the opposite side, never zero) and its leverage is within the slot's limit.
\<close>

theorem desired_positions_ok:
  assumes "build_desired_portfolio digest slot src se fe mids = Inr d" and "slot_ok slot"
  shows "int (length (d_positions d)) \<le> max_open_positions slot \<and> distinct (map fst (d_positions d)) \<and>
    (\<forall>(m, p) \<in> set (d_positions d).
       is_canonical_market m \<and> (allowed_markets slot = [] \<or> m \<in> set (allowed_markets slot)) \<and>
       (\<exists>mid. map_of mids m = Some (Fin mid) \<and> 0 < mid) \<and> pos_size p \<noteq> 0 \<and>
       (\<exists>raw s. (raw, s) \<in> set src \<and> canonical_market_symbol raw = Inr m \<and>
          sgn (pos_size p) = sgn (dec_val (pos_size s))) \<and>
       (\<forall>l. pos_leverage p = Some l \<longrightarrow> l \<le> max_leverage slot))"
proof -
  let ?scale = "dmul (ddiv (dec_val fe) (dec_val se)) (multiplier slot)"
  have pos: "0 < max_gross_exposure_usd slot" "0 < max_open_positions slot" "0 < multiplier slot"
    using assms(2) by (auto simp: slot_ok_def)
  from assms(1) obtain cands sel where c: "candidates slot ?scale mids src = Inr cands"
    and sel: "sel = select_candidates slot cands"
    and d: "d_positions d = scaled_positions (gross_scale_of slot sel) sel"
    and eq: "0 < dec_val se" "0 < dec_val fe"
    by (rule build_desired_Inr) blast
  have ok: "\<forall>x \<in> set sel. cand_ok slot ?scale mids src x" using select_ok [OF c] by (simp add: sel)
  have scale: "0 < ?scale" using eq pos(3) by (simp add: dmul_def ddiv_def)
  have g: "0 < gross_scale_of slot sel" using gross_scale_bounds(1) [OF ok pos(1)] .
  have "length (d_positions d) \<le> nat (max_open_positions slot)"
    using scaled_positions_length [of "gross_scale_of slot sel" sel] select_length [of slot cands] pos(2)
    by (simp add: d sel)
  moreover have "distinct (map fst (d_positions d))" by (simp add: d scaled_positions_distinct)
  moreover have "is_canonical_market m \<and> (allowed_markets slot = [] \<or> m \<in> set (allowed_markets slot)) \<and>
       (\<exists>mid. map_of mids m = Some (Fin mid) \<and> 0 < mid) \<and> pos_size q \<noteq> 0 \<and>
       (\<exists>raw s. (raw, s) \<in> set src \<and> canonical_market_symbol raw = Inr m \<and>
          sgn (pos_size q) = sgn (dec_val (pos_size s))) \<and>
       (\<forall>l. pos_leverage q = Some l \<longrightarrow> l \<le> max_leverage slot)"
    if "(m, q) \<in> set (d_positions d)" for m q
  proof -
    from that obtain p n where p: "(m, p, n) \<in> set sel"
      "q = p\<lparr>pos_coin := m, pos_size := dmul (pos_size p) (gross_scale_of slot sel)\<rparr>"
      unfolding d by (rule scaled_positions_in)
    have "cand_ok slot ?scale mids src (m, p, n)" using ok p(1) by blast
    then obtain raw s mid where s: "(raw, s) \<in> set src" "canonical_market_symbol raw = Inr m"
      "pos_size p = dmul (dec_val (pos_size s)) ?scale"
      "pos_leverage p = map_option (\<lambda>l. min l (max_leverage slot)) (pos_leverage s)"
      "map_of mids m = Some (Fin mid)" "0 < mid"
      and m: "is_canonical_market m" "allowed_markets slot = [] \<or> m \<in> set (allowed_markets slot)"
        "pos_size p \<noteq> 0"
      by (auto simp: cand_ok_def)
    have sgn_mul: "sgn (dmul x y) = sgn x" if "0 < y" for x y
      using that by (auto simp: dmul_def sgn_if zero_less_mult_iff)
    have "sgn (pos_size q) = sgn (dec_val (pos_size s))" using s(3) scale g by (simp add: p(2) sgn_mul)
    moreover have "pos_size q \<noteq> 0" using m(3) g by (simp add: p(2) dmul_def)
    moreover have "\<forall>l. pos_leverage q = Some l \<longrightarrow> l \<le> max_leverage slot" using s(4) by (auto simp: p(2))
    ultimately show ?thesis using s m by blast
  qed
  ultimately show ?thesis using pos(2) by fastforce
qed

theorem desired_positions_ok_witness:
  "length (d_positions ex_desired) \<le> 3 \<and> list_all (\<lambda>(m, p). is_canonical_market m) (d_positions ex_desired)"
  using desired_positions_ok [OF ex_build ex_slot_ok] by (simp add: ex_slot_def ex_desired_def)

text \<open>
  The book keeps the largest candidates: no candidate left out has a larger notional than one
  that was selected, and the selection has exactly the smaller of the limit and the number of
  candidates.
\<close>

theorem selection_keeps_largest:
  assumes "0 < max_open_positions slot" and "candidates slot scale mids src = Inr cands"
  shows "length (select_candidates slot cands) = min (nat (max_open_positions slot)) (length cands) \<and>
    (\<exists>dropped. mset (select_candidates slot cands) + mset dropped = mset cands \<and>
       (\<forall>(_, _, n) \<in> set (select_candidates slot cands). \<forall>(_, _, n') \<in> set dropped. n' \<le> n))"
proof -
  let ?key = "\<lambda>(m :: string, p :: rat position, n :: rat). (dneg n, m)"
  let ?xs = "sort_key ?key cands" and ?k = "nat (max_open_positions slot)"
  have sel: "select_candidates slot cands = take ?k ?xs"
    using assms(1) by (simp add: select_candidates_def py_take_def)
  have rep: "ctx n = n" if "(m, p, n) \<in> set cands" for m p n
    using candidates_ok [OF assms(2) that] by (auto simp: cand_ok_def dmul_def)
  have "n' \<le> n" if "(m, p, n) \<in> set (take ?k ?xs)" "(m', p', n') \<in> set (drop ?k ?xs)" for m p n m' p' n'
  proof -
    have "sorted (map ?key (take ?k ?xs @ drop ?k ?xs))" using sorted_sort_key [of ?key cands] by simp
    then have "?key (m, p, n) \<le> ?key (m', p', n')"
      using that by (simp only: map_append sorted_append) (force simp: image_iff)
    then have "dneg n \<le> dneg n'" by (auto simp: less_eq_prod_def)
    moreover have "(m, p, n) \<in> set cands" "(m', p', n') \<in> set cands"
      using that in_set_takeD in_set_dropD by (metis set_sort)+
    ultimately show ?thesis using rep by (simp add: dneg_def ctx_uminus)
  qed
  moreover have "mset (take ?k ?xs) + mset (drop ?k ?xs) = mset cands"
    by (metis append_take_drop_id mset_append mset_sort)
  ultimately show ?thesis unfolding sel by (intro conjI exI [of _ "drop ?k ?xs"]) (auto simp: min.commute)
qed

theorem selection_keeps_largest_witness:
  "\<exists>cands. candidates ex_slot 1 [(''BTC'', Fin 1000)] [(''BTC'', ex_position)] = Inr cands \<and>
     length (select_candidates ex_slot cands) = min 3 (length cands)"
proof -
  have "canonical_market_symbol ''BTC'' = Inr ''BTC''"
    by (simp add: canonical_market_symbol_def canonical_market_def market_eval)
  then have "\<exists>cands. candidates ex_slot 1 [(''BTC'', Fin 1000)] [(''BTC'', ex_position)] = Inr cands"
    by (simp add: candidates_def candidate_step_def ex_slot_def ex_position_def dec_eval)
  then show ?thesis using selection_keeps_largest [of ex_slot] by (auto simp: ex_slot_def)
qed

end
