(* ===== verification/Next_Action.thy ===== *)
theory Next_Action
  imports Desired_Portfolio
begin

text \<open>
  Properties of \<open>choose_next_action\<close>: an order it returns is executable, within the order cap,
  never crosses a position through zero when reduce-only, brings the book strictly closer to the
  target, is never issued over an unresolved attempt, and yields to reductions elsewhere.
\<close>

section \<open>The market loop\<close>

definition passed_over :: "(string \<Rightarrow> market_step result) \<Rightarrow> string \<Rightarrow> bool" where
  "passed_over step m \<longleftrightarrow> step m = Inr AtTarget \<or> (\<exists>b r. step m = Inr (Defer b r))"

lemma walk_markets_act:
  assumes "walk_markets step ms sk = Inr d" and "dec_action d = Some a"
  shows "\<exists>pre m post res. ms = pre @ m # post \<and> step m = Inr (Act a res) \<and> (\<forall>x \<in> set pre. passed_over step x)"
  using assms
proof (induction ms arbitrary: sk)
  case Nil
  then show ?case by (cases sk) auto
next
  case (Cons m ms)
  from Cons.prems(1) obtain s where s: "step m = Inr s" by auto
  have later: ?case if "walk_markets step ms sk' = Inr d" "passed_over step m" for sk'
  proof -
    from Cons.IH [OF that(1) Cons.prems(2)] obtain pre m' post res where
      "ms = pre @ m' # post" "step m' = Inr (Act a res)" "\<forall>x \<in> set pre. passed_over step x" by auto
    then show ?thesis using that(2)
      by (intro exI [of _ "m # pre"] exI [of _ m'] exI [of _ post]) auto
  qed
  show ?case
  proof (cases s)
    case (Act a' r)
    with Cons.prems s show ?thesis by (intro exI [of _ "[]"] exI [of _ m] exI [of _ ms]) auto
  next
    case (Block b r)
    with Cons.prems s show ?thesis by auto
  next
    case AtTarget
    with Cons.prems s show ?thesis by (intro later [of sk]) (auto simp: passed_over_def)
  next
    case (Defer b r)
    with Cons.prems s show ?thesis by (intro later [of "sk @ [(b, r)]"]) (auto simp: passed_over_def)
  qed
qed


section \<open>Sizes\<close>

lemma quantize_size_id:
  assumes "quantize_size (Fin x) d = Inr y"
  shows "quantize_size (Fin \<bar>y\<bar>) d = Inr \<bar>y\<bar>"
proof -
  obtain n where n: "y = of_int n * pow10 (- d)" "\<bar>n\<bar> < 10 ^ 28"
    using assms by (auto simp: quantize_size_Fin quantize_def quantize_in_def Let_def split: if_splits)
  then have "\<bar>y\<bar> / pow10 (- d) = of_int \<bar>n\<bar>" by (simp add: abs_mult)
  then show ?thesis
    using n by (simp add: quantize_size_Fin quantize_def quantize_in_def Let_def abs_mult)
qed

lemma abs_clip_le:
  assumes "0 < k" and "ctx_rep raw"
  shows "\<bar>clip_size raw k\<bar> \<le> \<bar>raw\<bar>" and "sgn (clip_size raw k) = sgn raw"
proof -
  have "dabs raw = \<bar>raw\<bar>" using assms(2) by (simp add: dabs_def ctx_abs ctx_rep_def)
  then show "\<bar>clip_size raw k\<bar> \<le> \<bar>raw\<bar>" "sgn (clip_size raw k) = sgn raw"
    using assms(1) by (auto simp: clip_size_def copy_sign_def sgn_if split: if_splits)
qed

lemma quantized_direction:
  assumes "quantize_size (Fin x) d = Inr y" and "y \<noteq> 0"
  shows "sgn y = sgn x"
  using quantize_size_sign [OF assms(1)] assms(2) by (cases "0 < y") (auto simp: sgn_if)

text \<open>A step in the direction of the gap and shorter than twice the gap narrows it.\<close>

lemma step_narrows:
  fixes d c s :: rat
  assumes "sgn s = sgn (d - c)" and "s \<noteq> 0" and "\<bar>s\<bar> < 2 * \<bar>d - c\<bar>"
  shows "\<bar>d - (c + s)\<bar> < \<bar>d - c\<bar>"
  using assms by (cases "d - c" "0 :: rat" rule: linorder_cases) (auto simp: sgn_if split: if_splits)

lemma raw_rep: "ctx_rep (raw_action_size d c)"
  by (simp add: raw_action_size_def dneg_def dsub_def)

lemma raw_action_bound:
  assumes "ctx_rep c" and "raw_action_size d c \<noteq> 0"
  shows "sgn (raw_action_size d c) = sgn (d - c)" and "\<bar>raw_action_size d c\<bar> < 2 * \<bar>d - c\<bar>"
proof -
  have c: "ctx (- c) = - c" using assms(1) by (simp add: ctx_uminus ctx_rep_def)
  have "sgn (raw_action_size d c) = sgn (d - c) \<and> \<bar>raw_action_size d c\<bar> < 2 * \<bar>d - c\<bar>"
  proof (cases "is_reversing d c")
    case True
    then show ?thesis using c by (auto simp: raw_action_size_def dneg_def is_reversing_def sgn_if)
  next
    case False
    then have raw: "raw_action_size d c = ctx (d - c)" by (simp add: raw_action_size_def dsub_def)
    have "\<bar>ctx (d - c)\<bar> \<le> \<bar>d - c\<bar> * (1 + ctx_ulp)"
      using dc.rnd_upper [of "\<bar>d - c\<bar>"] by (simp add: ctx_abs)
    moreover have "0 < \<bar>d - c\<bar>" using assms(2) by (simp add: raw)
    moreover have "1 + ctx_ulp < 2" using dc.u_range(2) by simp
    ultimately have "\<bar>ctx (d - c)\<bar> < \<bar>d - c\<bar> * 2"
      using mult_strict_left_mono [of "1 + ctx_ulp" 2 "\<bar>d - c\<bar>"] by linarith
    then show ?thesis by (simp add: raw sgn_if)
  qed
  then show "sgn (raw_action_size d c) = sgn (d - c)" and "\<bar>raw_action_size d c\<bar> < 2 * \<bar>d - c\<bar>" by auto
qed

lemma reduce_only_iff:
  assumes "ctx_rep c" and "ctx_rep d"
  shows "is_reduce_only d c \<longleftrightarrow> needs_reduction d c"
  using assms
  by (auto simp: is_reduce_only_def needs_reduction_def is_reversing_def raw_action_size_def dsub_def
      dabs_def ctx_abs ctx_rep_def split: if_splits)

text \<open>A reduce-only size stays within the confirmed position and points against it.\<close>

lemma reduce_only_bound:
  assumes "ctx_rep c" and "ctx_rep d" and "is_reduce_only d c"
  shows "\<bar>raw_action_size d c\<bar> \<le> \<bar>c\<bar>" and "sgn (raw_action_size d c) = - sgn c"
proof -
  have c: "ctx (- c) = - c" "ctx c = c" "ctx \<bar>c\<bar> = \<bar>c\<bar>" "ctx \<bar>d\<bar> = \<bar>d\<bar>"
    using assms(1,2) by (simp_all add: ctx_uminus ctx_rep_def ctx_abs)
  have "\<bar>raw_action_size d c\<bar> \<le> \<bar>c\<bar> \<and> sgn (raw_action_size d c) = - sgn c"
  proof (cases "is_reversing d c")
    case True
    then show ?thesis using c by (auto simp: raw_action_size_def dneg_def sgn_if)
  next
    case False
    then have raw: "raw_action_size d c = ctx (d - c)" by (simp add: raw_action_size_def dsub_def)
    have lt: "\<bar>d\<bar> < \<bar>c\<bar>" and nz: "c \<noteq> 0"
      using assms(3) False c by (auto simp: is_reduce_only_def dabs_def)
    have same: "d = 0 \<or> (0 < c) = (0 < d)" using False nz by (auto simp: is_reversing_def)
    have "\<bar>d - c\<bar> \<le> \<bar>c\<bar>" using lt same nz by auto
    then have "ctx \<bar>d - c\<bar> \<le> ctx \<bar>c\<bar>" by (rule ctx_mono)
    then have "\<bar>ctx (d - c)\<bar> \<le> \<bar>c\<bar>" using c(3) by (simp add: ctx_abs)
    moreover have "sgn (ctx (d - c)) = - sgn c" using lt same nz by (auto simp: sgn_if)
    ultimately show ?thesis by (simp add: raw)
  qed
  then show "\<bar>raw_action_size d c\<bar> \<le> \<bar>c\<bar>" and "sgn (raw_action_size d c) = - sgn c" by auto
qed


section \<open>One order\<close>

text \<open>The order \<open>a\<close> for a market with desired size \<open>d\<close> and confirmed size \<open>c\<close>.\<close>

definition order_ok ::
  "ContinuousSlotConfig \<Rightarrow> perp_rules \<Rightarrow> int option \<Rightarrow> rat \<Rightarrow> int \<Rightarrow> rat \<Rightarrow> rat \<Rightarrow> NextAction \<Rightarrow> bool" where
  "order_ok slot rules leverage mid decimals d c a \<longleftrightarrow>
     0 < n_size a \<and> on_grid (- decimals) (n_size a) \<and> n_side a \<in> {''buy'', ''sell''} \<and>
     (n_reduce_only a \<longrightarrow> \<bar>signed_size a\<bar> \<le> \<bar>c\<bar> \<and> sgn (signed_size a) = - sgn c) \<and>
     \<bar>d - (c + signed_size a)\<bar> < \<bar>d - c\<bar> \<and>
     (\<exists>pre. preflight_hyperliquid_perp_order rules (Fin (n_size a)) (Fin mid) (n_side a)
        (Fin (max_order_notional_usd slot)) (n_reduce_only a) (Fin c) leverage None = Inr pre \<and> placeable pre) \<and>
     quantize_size (Fin (n_size a)) decimals = Inr (n_size a)"

lemma make_action_simps [simp]:
  "n_reduce_only (make_action i m s r w) = r" "n_market (make_action i m s r w) = m"
  "n_side (make_action i m s r w) = side_of s" "n_desired_id (make_action i m s r w) = i"
  by (simp_all add: make_action_def)

lemma make_action_size:
  assumes "ctx_rep s" and "s \<noteq> 0"
  shows "n_size (make_action i m s r w) = \<bar>s\<bar>" and "signed_size (make_action i m s r w) = s"
proof -
  have "ctx \<bar>s\<bar> = \<bar>s\<bar>" "ctx (- \<bar>s\<bar>) = - \<bar>s\<bar>"
    using assms(1) by (simp_all add: ctx_abs ctx_rep_def ctx_uminus)
  with assms(2) show "n_size (make_action i m s r w) = \<bar>s\<bar>" "signed_size (make_action i m s r w) = s"
    by (auto simp: make_action_def dabs_def signed_size_def side_of_def dneg_def)
qed

lemma order_ok_make:
  assumes "quantize_size (Fin x) decimals = Inr s" and "s \<noteq> 0"
    and "reduce_only \<longrightarrow> \<bar>s\<bar> \<le> \<bar>c\<bar> \<and> sgn s = - sgn c" and "\<bar>d - (c + s)\<bar> < \<bar>d - c\<bar>"
    and "preflight_hyperliquid_perp_order rules (Fin (dabs s)) (Fin mid) (side_of s)
        (Fin (max_order_notional_usd slot)) reduce_only (Fin c) leverage None = Inr pre" and "placeable pre"
  shows "order_ok slot rules leverage mid decimals d c (make_action i m s reduce_only w)"
proof -
  have rep: "ctx_rep s" using assms(1) by (rule quantize_size_rep)
  have "dabs s = \<bar>s\<bar>" using rep by (simp add: dabs_def ctx_abs ctx_rep_def)
  moreover have "on_grid (- decimals) s" using assms(1) by (rule quantize_size_grid)
  moreover have "side_of s \<in> {''buy'', ''sell''}" by (simp add: side_of_def)
  ultimately show ?thesis
    using assms make_action_size [OF rep assms(2)] quantize_size_id [OF assms(1)]
    unfolding order_ok_def by auto
qed

text \<open>The confirmed position is a multiple of the lot, of at most 28 digits.\<close>

definition lot_position :: "int \<Rightarrow> rat \<Rightarrow> bool" where
  "lot_position decimals c \<longleftrightarrow> on_grid (- decimals) c \<and> \<bar>c\<bar> \<le> 10 ^ 28 * pow10 (- decimals)"

lemma lot_rep:
  assumes "on_grid (- decimals) c" and "\<bar>c\<bar> \<le> 10 ^ 28 * pow10 (- decimals)"
  shows "ctx_rep c"
proof -
  obtain n where n: "c / pow10 (- decimals) = of_int n"
    using assms(1) by (auto simp: on_grid_def elim: Ints_cases)
  then have c: "c = of_int n * pow10 (- decimals)" by (simp add: field_simps)
  have "of_int \<bar>n\<bar> * pow10 (- decimals) \<le> 10 ^ 28 * pow10 (- decimals)"
    using assms(2) by (simp add: c abs_mult)
  then have "of_int \<bar>n\<bar> \<le> (10 ^ 28 :: rat)" by simp
  then have "\<bar>n\<bar> \<le> 10 ^ 28"
    by (metis of_int_le_iff of_int_numeral of_int_power)
  then show ?thesis unfolding c by (rule ctx_mantissa_rep)
qed

lemma dabs_less: "dabs x < dabs y \<Longrightarrow> \<bar>x\<bar> < \<bar>y\<bar>"
  using ctx_mono [of "\<bar>y\<bar>" "\<bar>x\<bar>"] by (force simp: dabs_def)

lemma nearest_step_ok:
  assumes "nearest_step slot i rules m d c mid k decimals leverage res = Inr (Act a r)"
    and c: "lot_position decimals c" "c \<noteq> 0" and "0 < mid" and cap: "0 < max_order_notional_usd slot"
    and k: "0 < k"
  shows "order_ok slot rules leverage mid decimals d c a \<and> n_market a = m \<and> n_reduce_only a"
proof -
  from assms(1) obtain s pre where q: "quantize_size (Fin (copy_sign (min (dabs c) k) (dneg c))) decimals = Inr s"
    and imp: "dabs (dsub d (dadd c s)) < dabs (dsub d c)"
    and pre: "preflight_hyperliquid_perp_order rules (Fin (dabs s)) (Fin mid) (side_of s)
                 (Fin (max_order_notional_usd slot)) True (Fin c) leverage None = Inr pre" "placeable pre"
    and a: "a = make_action i m s True NearestExecutable"
    by (auto simp: nearest_step_def Let_def split: if_splits)
  have rep: "ctx_rep c" using lot_rep c(1) by (auto simp: lot_position_def)
  have dc: "dabs c = \<bar>c\<bar>" "dneg c = - c"
    using rep by (simp_all add: dabs_def ctx_abs ctx_rep_def dneg_def ctx_uminus)
  have side: "side_of s \<in> {''buy'', ''sell''}" by (simp add: side_of_def)
  have nz: "s \<noteq> 0"
    using preflight_placeable [OF pre side assms(4) cap] by (auto simp: dabs_def)
  have "\<bar>s\<bar> \<le> \<bar>copy_sign (min (dabs c) k) (dneg c)\<bar>" using q by (rule quantize_size_abs_le)
  also have "\<dots> \<le> \<bar>c\<bar>" using k by (simp add: copy_sign_def dc)
  finally have le: "\<bar>s\<bar> \<le> \<bar>c\<bar>" .
  have sg: "sgn s = - sgn c"
    using quantized_direction [OF q nz] k c(2) by (auto simp: copy_sign_def dc sgn_if min_def split: if_splits)
  have "on_grid (- decimals) (c + s)"
    using quantize_size_grid [OF q] c(1) by (simp add: lot_position_def on_grid_def add_divide_distrib)
  moreover have "\<bar>c + s\<bar> \<le> \<bar>c\<bar>" using le sg nz c(2) by (auto simp: sgn_if split: if_splits)
  ultimately have "ctx_rep (c + s)" using c(1) by (intro lot_rep [of decimals]) (auto simp: lot_position_def)
  then have "dadd c s = c + s" by (simp add: dadd_def ctx_rep_def)
  with imp have "dabs (d - (c + s)) < dabs (d - c)" by (simp add: dsub_def dabs_def ctx_abs)
  then have "\<bar>d - (c + s)\<bar> < \<bar>d - c\<bar>" by (rule dabs_less)
  with order_ok_make [OF q nz _ _ pre] le sg show ?thesis by (auto simp: a)
qed

lemma order_step_ok:
  assumes step: "order_step slot i view m d c mid decimals res = Inr (Act a r)"
    and c: "lot_position decimals c" and d: "ctx_rep d" and mid: "0 < mid"
    and cap: "0 < max_order_notional_usd slot"
  obtains rules where "order_rules slot view m decimals = Some rules"
    "order_ok slot rules (leverage_in (v_follower_positions view) m) mid decimals d c a"
    "n_market a = m" "n_reduce_only a = needs_reduction d c"
proof -
  define k where "k = ddiv (max_order_notional_usd slot) mid"
  have k: "0 < k" using mid cap by (simp add: k_def ddiv_def)
  have rep: "ctx_rep c" using lot_rep c by (auto simp: lot_position_def)
  let ?lev = "leverage_in (v_follower_positions view) m"
  from step obtain s rules pre where
    q: "quantize_size (Fin (clip_size (raw_action_size d c) k)) decimals = Inr s" and nz: "s \<noteq> 0"
    and rules: "order_rules slot view m decimals = Some rules"
    and pre: "preflight_hyperliquid_perp_order rules (Fin (dabs s)) (Fin mid) (side_of s)
        (Fin (max_order_notional_usd slot)) (is_reduce_only d c) (Fin c) ?lev None = Inr pre"
    and act: "placeable pre \<and> a = make_action i m s (is_reduce_only d c)
         (if is_reversing d c then CloseReversal else MoveTowardTarget) \<or>
       is_reduce_only d c \<and> nearest_step slot i rules m d c mid k decimals ?lev res = Inr (Act a r)"
  proof -
    from step obtain s where s: "quantize_size (Fin (clip_size (raw_action_size d c) k)) decimals = Inr s"
      "s \<noteq> 0" by (auto simp: order_step_def Let_def k_def split: if_splits)
    with step obtain rules where r: "order_rules slot view m decimals = Some rules"
      by (cases "order_rules slot view m decimals") (auto simp: order_step_def Let_def k_def)
    with step s obtain pre where pre: "preflight_hyperliquid_perp_order rules (Fin (dabs s)) (Fin mid)
        (side_of s) (Fin (max_order_notional_usd slot)) (is_reduce_only d c) (Fin c) ?lev None = Inr pre"
      by (auto simp: order_step_def Let_def k_def)
    show ?thesis
      using step s r pre
      by (intro that [OF s r pre], cases "placeable pre"; cases "is_reduce_only d c")
        (simp_all add: order_step_def Let_def k_def)
  qed
  have raw: "raw_action_size d c \<noteq> 0"
    using quantize_size_abs_le [OF q] nz abs_clip_le(1) [OF k raw_rep, of d c] by auto
  have dir: "sgn s = sgn (raw_action_size d c)"
    using quantized_direction [OF q nz] abs_clip_le(2) [OF k raw_rep] by simp
  have len: "\<bar>s\<bar> \<le> \<bar>raw_action_size d c\<bar>"
    using quantize_size_abs_le [OF q] abs_clip_le(1) [OF k raw_rep, of d c] by simp
  have near: "\<bar>d - (c + s)\<bar> < \<bar>d - c\<bar>"
    using raw_action_bound [OF rep raw] dir len nz by (intro step_narrows) auto
  have ro: "is_reduce_only d c \<longrightarrow> \<bar>s\<bar> \<le> \<bar>c\<bar> \<and> sgn s = - sgn c"
    using reduce_only_bound [OF rep d] dir len by auto
  note iff = reduce_only_iff [OF rep d]
  from act show ?thesis
  proof (elim disjE conjE)
    assume "placeable pre" "a = make_action i m s (is_reduce_only d c)
         (if is_reversing d c then CloseReversal else MoveTowardTarget)"
    then show ?thesis using order_ok_make [OF q nz ro near pre] iff by (intro that [OF rules]) auto
  next
    assume "is_reduce_only d c" "nearest_step slot i rules m d c mid k decimals ?lev res = Inr (Act a r)"
    moreover have "c \<noteq> 0"
      using calculation(1) by (auto simp: is_reduce_only_def is_reversing_def)
    ultimately show ?thesis
      using nearest_step_ok [OF _ c _ mid cap k] iff by (intro that [OF rules]) auto
  qed
qed


lemma market_step_Act:
  assumes "market_step_of slot desired view m = Inr (Act a r)"
  obtains mid decimals where "dget (v_unresolved view) m 0 = 0"
    "map_of (v_mids view) m = Some (Fin mid)" "0 < mid" "map_of (v_size_decimals view) m = Some decimals"
    "\<exists>res. order_step slot (d_desired_id desired) view m (size_in (d_positions desired) m)
       (size_in (v_follower_positions view) m) mid decimals res = Inr (Act a r)"
proof -
  define residual where "residual = dsub (size_in (d_positions desired) m)
    (dadd (size_in (v_follower_positions view) m) (dget (v_unresolved view) m 0))"
  have "\<exists>mid decimals. dget (v_unresolved view) m 0 = 0 \<and>
    map_of (v_mids view) m = Some (Fin mid) \<and> 0 < mid \<and> map_of (v_size_decimals view) m = Some decimals \<and>
    order_step slot (d_desired_id desired) view m (size_in (d_positions desired) m)
       (size_in (v_follower_positions view) m) mid decimals residual = Inr (Act a r)"
    using assms unfolding market_step_of_def Let_def residual_def [symmetric]
    by (auto split: if_splits option.splits dec.splits)
  then show ?thesis using that by blast
qed


text \<open>
  The observations the engine is given: the desired sizes are Decimal results, every confirmed
  size is a multiple of its market's lot.
\<close>

definition view_ok :: "DesiredPortfolio \<Rightarrow> engine_view \<Rightarrow> bool" where
  "view_ok desired view \<longleftrightarrow>
     (\<forall>(m, p) \<in> set (d_positions desired). ctx_rep (pos_size p)) \<and>
     (\<forall>(m, decimals) \<in> set (v_size_decimals view).
        lot_position decimals (size_in (v_follower_positions view) m))"

lemma chosen_order_ok:
  assumes choose: "choose_next_action slot desired view = Inr dcn" "dec_action dcn = Some a"
    and slot: "slot_ok slot" and view: "view_ok desired view"
  defines "m \<equiv> n_market a"
  defines "d \<equiv> size_in (d_positions desired) m" and "c \<equiv> size_in (v_follower_positions view) m"
  obtains mid decimals rules pre post where
    "action_markets desired view = pre @ m # post"
    "\<forall>x \<in> set pre. passed_over (market_step_of slot desired view) x"
    "dget (v_unresolved view) m 0 = 0" "map_of (v_mids view) m = Some (Fin mid)" "0 < mid"
    "map_of (v_size_decimals view) m = Some decimals"
    "order_rules slot view m decimals = Some rules"
    "order_ok slot rules (leverage_in (v_follower_positions view) m) mid decimals d c a"
    "n_reduce_only a = needs_reduction d c" "ctx_rep d" "lot_position decimals c"
proof -
  from walk_markets_act [OF choose(1) [unfolded choose_next_action_def] choose(2)]
  obtain pre m' post res where ms: "action_markets desired view = pre @ m' # post"
    and act: "market_step_of slot desired view m' = Inr (Act a res)"
    and pre: "\<forall>x \<in> set pre. passed_over (market_step_of slot desired view) x" by blast
  from act obtain mid decimals res' where u: "dget (v_unresolved view) m' 0 = 0"
    and mid: "map_of (v_mids view) m' = Some (Fin mid)" "0 < mid"
    and dec: "map_of (v_size_decimals view) m' = Some decimals"
    and step: "order_step slot (d_desired_id desired) view m' (size_in (d_positions desired) m')
       (size_in (v_follower_positions view) m') mid decimals res' = Inr (Act a res)"
    by (rule market_step_Act) blast
  have c: "lot_position decimals (size_in (v_follower_positions view) m')"
    using view map_of_SomeD [OF dec] by (auto simp: view_ok_def)
  have d: "ctx_rep (size_in (d_positions desired) m')"
    using view by (auto simp: view_ok_def size_in_def ctx_rep_def dest!: map_of_SomeD split: option.split)
  have cap: "0 < max_order_notional_usd slot" using slot by (simp add: slot_ok_def)
  from step c d mid(2) cap obtain rules where r: "order_rules slot view m' decimals = Some rules"
    "order_ok slot rules (leverage_in (v_follower_positions view) m') mid decimals
       (size_in (d_positions desired) m') (size_in (v_follower_positions view) m') a"
    "n_market a = m'" "n_reduce_only a = needs_reduction (size_in (d_positions desired) m')
       (size_in (v_follower_positions view) m')"
    by (rule order_step_ok)
  show ?thesis
    using that [of pre post mid decimals rules] ms pre u mid dec r c d by (simp add: m_def d_def c_def)
qed


section \<open>A concrete decision\<close>

text \<open>
  The follower is long 0.003 ETH with a target of 0.002 and flat in BTC with a target of 0.05, both
  at 1000. Reducing ETH by 0.001 is below the venue minimum, closing it would overshoot.
\<close>

definition ex_pos :: "string \<Rightarrow> rat \<Rightarrow> rat position" where
  "ex_pos m x = \<lparr>pos_coin = m, pos_size = x, pos_entry_px = None, pos_leverage = None, pos_updated_ms = 0\<rparr>"

definition ex_goal :: DesiredPortfolio where
  "ex_goal = ex_desired\<lparr>d_positions := [(''BTC'', ex_pos ''BTC'' (1 / 20)), (''ETH'', ex_pos ''ETH'' (1 / 500))]\<rparr>"

definition ex_view :: engine_view where
  "ex_view = \<lparr>v_follower_positions = [(''ETH'', ex_pos ''ETH'' (3 / 1000))], v_unresolved = [],
     v_mids = [(''BTC'', Fin 1000), (''ETH'', Fin 1000)],
     v_size_decimals = [(''BTC'', 3), (''ETH'', 3)], v_market_rules = None\<rparr>"

definition ex_buy :: NextAction where
  "ex_buy = \<lparr>n_desired_id = ''id'', n_market = ''BTC'', n_side = ''buy'', n_size = 1 / 20,
     n_reduce_only = False, n_reason = MoveTowardTarget\<rparr>"

lemma ex_price: "quantize_price (Fin 1000) 3 False = Inr 1000"
proof -
  have "adjusted 1000 = 3" by (rule adjusted_unique) (simp_all add: pow10_def)
  then show ?thesis by (simp add: quantize_price_def five_sig_def PERP_MAX_DECIMALS_def dec_eval)
qed

lemma ex_preflight:
  assumes "side \<in> {''buy'', ''sell''}" and "0 < q" and "quantize_size (Fin q) 3 = Inr q"
  obtains r where "preflight_hyperliquid_perp_order (perp_rules_default m 3 5) (Fin q) (Fin 1000) side
      (Fin 100) reduce_only (Fin c) None None = Inr r"
    "placeable r \<longleftrightarrow> dmul (dmul q 1) 1000 \<le> 100 \<and>
      (10 \<le> dmul (dmul q 1) 1000 \<or> reduce_only \<and> c = (if side = ''buy'' then - q else q))"
  using preflight_decides [OF assms(1,2), of 1000 100 "perp_rules_default m 3 5" 1000 q reduce_only c None None]
    assms ex_price
  by (auto simp: perp_rules_default_def HYPERLIQUID_PERP_MIN_NOTIONAL_USD_def margin_ok_def simp del: if_split)

lemma ex_sizes:
  "quantize_size (Fin (1 / 1000)) 3 = Inr (1 / 1000)" "quantize_size (Fin (- 1 / 1000)) 3 = Inr (- 1 / 1000)"
  "quantize_size (Fin (3 / 1000)) 3 = Inr (3 / 1000)" "quantize_size (Fin (- 3 / 1000)) 3 = Inr (- 3 / 1000)"
  "quantize_size (Fin (1 / 20)) 3 = Inr (1 / 20)"
  by (simp_all add: quantize_size_def dec_eval Let_def ceiling_minus)

lemmas step_eval = market_step_of_def size_in_def dget_def ex_goal_def ex_view_def ex_pos_def order_step_def
  is_reversing_def is_reduce_only_def raw_action_size_def clip_size_def ex_slot_def order_rules_def
  leverage_in_def side_of_def nearest_step_def make_action_def ex_desired_def ex_buy_def dec_op_defs
  ctx_short Let_def

lemma ex_eth_step:
  "market_step_of ex_slot ex_goal ex_view ''ETH'' = Inr (Defer (CloseMovesAway ''ETH'') (- 1 / 1000))"
proof -
  obtain r where "preflight_hyperliquid_perp_order (perp_rules_default ''ETH'' 3 5) (Fin (1 / 1000)) (Fin 1000)
      ''sell'' (Fin 100) True (Fin (3 / 1000)) None None = Inr r" "\<not> placeable r"
    by (rule ex_preflight [of "''sell''" "1 / 1000" "''ETH''" True "3 / 1000"])
      (auto simp: ex_sizes dec_eval)
  moreover obtain r' where "preflight_hyperliquid_perp_order (perp_rules_default ''ETH'' 3 5) (Fin (3 / 1000))
      (Fin 1000) ''sell'' (Fin 100) True (Fin (3 / 1000)) None None = Inr r'"
    by (rule ex_preflight [of "''sell''" "3 / 1000" "''ETH''" True "3 / 1000"]) (auto simp: ex_sizes)
  ultimately show ?thesis using ex_sizes by (simp add: step_eval)
qed

lemma ex_btc_step: "market_step_of ex_slot ex_goal ex_view ''BTC'' = Inr (Act ex_buy (1 / 20))"
proof -
  obtain r where "preflight_hyperliquid_perp_order (perp_rules_default ''BTC'' 3 5) (Fin (1 / 20)) (Fin 1000)
      ''buy'' (Fin 100) False (Fin 0) None None = Inr r" "placeable r"
    by (rule ex_preflight [of "''buy''" "1 / 20" "''BTC''" False 0]) (auto simp: ex_sizes dec_eval)
  then show ?thesis using ex_sizes by (simp add: step_eval)
qed

lemma ex_markets: "action_markets ex_goal ex_view = [''ETH'', ''BTC'']"
proof -
  have "needs_reduction (1 / 500) (3 / 1000)" "\<not> needs_reduction (1 / 20) 0"
    by (simp_all add: needs_reduction_def dec_eval)
  moreover have "''BTC'' \<le> ''ETH''" "\<not> ''ETH'' \<le> ''BTC''" by code_simp+
  ultimately show ?thesis
    by (simp add: action_markets_def ex_goal_def ex_view_def size_in_def ex_pos_def less_eq_prod_def)
qed

lemma ex_choice: "\<exists>dcn. choose_next_action ex_slot ex_goal ex_view = Inr dcn \<and> dec_action dcn = Some ex_buy"
  by (simp add: choose_next_action_def ex_markets ex_eth_step ex_btc_step)

lemma ex_view_ok: "view_ok ex_goal ex_view"
  by (simp add: view_ok_def ex_goal_def ex_view_def ex_pos_def size_in_def lot_position_def on_grid_def
      ctx_rep_def dec_eval)


section \<open>Properties\<close>

text \<open>
  C4: an order the engine chooses has a positive size on the market's lot grid, is for a market
  with no unresolved attempt, moves the confirmed position strictly closer to the desired one, and
  when reduce-only it points against the position and is no larger than it, so it never flips it.
\<close>

theorem next_action_safe:
  assumes "choose_next_action slot desired view = Inr dcn" and "dec_action dcn = Some a"
    and "slot_ok slot" and "view_ok desired view"
  defines "d \<equiv> size_in (d_positions desired) (n_market a)"
    and "c \<equiv> size_in (v_follower_positions view) (n_market a)"
  shows "\<exists>decimals. map_of (v_size_decimals view) (n_market a) = Some decimals \<and>
    0 < n_size a \<and> on_grid (- decimals) (n_size a) \<and> dget (v_unresolved view) (n_market a) 0 = 0 \<and>
    \<bar>d - (c + signed_size a)\<bar> < \<bar>d - c\<bar> \<and>
    (n_reduce_only a \<longrightarrow> \<bar>signed_size a\<bar> \<le> \<bar>c\<bar> \<and> sgn (signed_size a) = - sgn c)"
  using chosen_order_ok [OF assms(1-4)] unfolding d_def c_def order_ok_def by metis

theorem next_action_safe_witness:
  "0 < n_size ex_buy \<and> \<bar>1 / 20 - (0 + signed_size ex_buy)\<bar> < \<bar>1 / 20 - (0 :: rat)\<bar>"
proof -
  obtain dcn where "choose_next_action ex_slot ex_goal ex_view = Inr dcn" "dec_action dcn = Some ex_buy"
    using ex_choice by blast
  from next_action_safe [OF this ex_slot_ok ex_view_ok] show ?thesis
    by (auto simp: ex_buy_def ex_goal_def ex_view_def ex_pos_def size_in_def)
qed

text \<open>
  the chosen order respects the venue and the slot: priced at the rounded mid, its notional is
  within the slot's order cap, and it reaches the venue minimum unless it closes the confirmed
  position exactly.
\<close>

theorem next_action_within_order_cap:
  assumes "choose_next_action slot desired view = Inr dcn" and "dec_action dcn = Some a"
    and "slot_ok slot" and "view_ok desired view"
    and "\<forall>rs r. v_market_rules view = Some rs \<longrightarrow> map_of rs (n_market a) = Some r \<longrightarrow>
           map_of (v_size_decimals view) (n_market a) = Some (rules_sz_decimals r)"
  defines "c \<equiv> size_in (v_follower_positions view) (n_market a)"
  shows "\<exists>mid rules price. map_of (v_mids view) (n_market a) = Some (Fin mid) \<and>
    order_rules slot view (n_market a) (rules_sz_decimals rules) = Some rules \<and>
    quantize_price (Fin mid) (rules_sz_decimals rules) (market_type rules = ''spot'') = Inr price \<and>
    dmul (dmul (n_size a) (contract_size rules)) price \<le> max_order_notional_usd slot \<and>
    (minimum_notional_usd rules \<le> dmul (dmul (n_size a) (contract_size rules)) price \<or>
     n_reduce_only a \<and> c = - signed_size a)"
proof -
  from chosen_order_ok [OF assms(1-4)] obtain mid decimals rules where
    mid: "map_of (v_mids view) (n_market a) = Some (Fin mid)" "0 < mid"
    and dec: "map_of (v_size_decimals view) (n_market a) = Some decimals"
    and rules: "order_rules slot view (n_market a) decimals = Some rules"
    and ok: "order_ok slot rules (leverage_in (v_follower_positions view) (n_market a)) mid decimals
       (size_in (d_positions desired) (n_market a)) c a"
    unfolding c_def by metis
  have decs: "rules_sz_decimals rules = decimals"
    using rules assms(5) dec by (auto simp: order_rules_def perp_rules_default_def split: option.splits)
  from ok obtain pre where pre: "preflight_hyperliquid_perp_order rules (Fin (n_size a)) (Fin mid) (n_side a)
        (Fin (max_order_notional_usd slot)) (n_reduce_only a) (Fin c)
        (leverage_in (v_follower_positions view) (n_market a)) None = Inr pre" "placeable pre"
    and a: "n_side a \<in> {''buy'', ''sell''}" "quantize_size (Fin (n_size a)) decimals = Inr (n_size a)"
    by (auto simp: order_ok_def)
  have cap: "0 < max_order_notional_usd slot" using assms(3) by (simp add: slot_ok_def)
  have neg: "dneg (n_size a) = - n_size a"
    using quantize_size_rep [OF a(2)] by (simp add: dneg_def ctx_uminus ctx_rep_def)
  have closes: "(if n_side a = ''buy'' then - n_size a else n_size a) = - signed_size a"
    using neg by (simp add: signed_size_def)
  from preflight_placeable [OF pre a(1) mid(2) cap] obtain rp z where
    z: "quantize_size (Fin (n_size a)) decimals = Inr z"
    and rp: "quantize_price (Fin mid) decimals (market_type rules = ''spot'') = Inr rp"
      "dmul (dmul z (contract_size rules)) rp \<le> max_order_notional_usd slot"
      "minimum_notional_usd rules \<le> dmul (dmul z (contract_size rules)) rp \<or>
       n_reduce_only a \<and> c = (if n_side a = ''buy'' then - z else z)"
    unfolding decs by metis
  have "z = n_size a" using z a(2) by simp
  with rp mid(1) rules show ?thesis unfolding decs [symmetric] closes [symmetric] by blast
qed

theorem next_action_within_order_cap_witness:
  "\<exists>(rules :: perp_rules) price. quantize_price (Fin 1000) (rules_sz_decimals rules) (market_type rules = ''spot'') = Inr price \<and>
     dmul (dmul (1 / 20) (contract_size rules)) price \<le> 100"
proof -
  obtain dcn where c: "choose_next_action ex_slot ex_goal ex_view = Inr dcn" "dec_action dcn = Some ex_buy"
    using ex_choice by blast
  have p: "\<forall>rs r. v_market_rules ex_view = Some rs \<longrightarrow> map_of rs (n_market ex_buy) = Some r \<longrightarrow>
      map_of (v_size_decimals ex_view) (n_market ex_buy) = Some (rules_sz_decimals r)"
    by (simp add: ex_view_def)
  from next_action_within_order_cap [OF c ex_slot_ok ex_view_ok p] obtain mid price and rules :: perp_rules where
    "map_of (v_mids ex_view) (n_market ex_buy) = Some (Fin mid)"
    and q: "quantize_price (Fin mid) (rules_sz_decimals rules) (market_type rules = ''spot'') = Inr price"
      "dmul (dmul (n_size ex_buy) (contract_size rules)) price \<le> max_order_notional_usd ex_slot"
    by blast
  then have "mid = 1000" by (simp add: ex_buy_def ex_view_def)
  with q show ?thesis
    by (intro exI [of _ rules] exI [of _ price]) (simp add: ex_buy_def ex_slot_def)
qed

text \<open>
  Reductions come first: an order that adds risk is chosen only when every market whose
  confirmed position must shrink was passed over, being at its target once unresolved attempts are
  counted or not executable by the venue's rules; none of them had an executable reduction.
\<close>

theorem increase_only_after_reductions:
  assumes "choose_next_action slot desired view = Inr dcn" and "dec_action dcn = Some a"
    and "slot_ok slot" and "view_ok desired view" and "\<not> n_reduce_only a"
    and "m' \<in> set (map fst (v_follower_positions view))"
    and "needs_reduction (size_in (d_positions desired) m') (size_in (v_follower_positions view) m')"
  shows "passed_over (market_step_of slot desired view) m'"
proof -
  let ?needs = "\<lambda>m. needs_reduction (size_in (d_positions desired) m) (size_in (v_follower_positions view) m)"
  from chosen_order_ok [OF assms(1-4)] obtain pre post where
    ms: "action_markets desired view = pre @ n_market a # post"
    and over: "\<forall>x \<in> set pre. passed_over (market_step_of slot desired view) x"
    and no: "\<not> ?needs (n_market a)" using assms(5) by metis
  have "sorted (map (\<lambda>m. (\<not> ?needs m, m)) (pre @ n_market a # post))"
    unfolding ms [symmetric] action_markets_def by (rule sorted_sort_key)
  then have "\<forall>x \<in> set post. \<not> ?needs x" using no by (auto simp: sorted_append less_eq_prod_def)
  moreover have "m' \<in> set (pre @ n_market a # post)"
    using assms(6) unfolding ms [symmetric] by (simp add: action_markets_def)
  ultimately show ?thesis using assms(7) no over by auto
qed


theorem increase_only_after_reductions_witness:
  "passed_over (market_step_of ex_slot ex_goal ex_view) ''ETH''"
proof -
  obtain dcn where "choose_next_action ex_slot ex_goal ex_view = Inr dcn" "dec_action dcn = Some ex_buy"
    using ex_choice by blast
  from increase_only_after_reductions [OF this ex_slot_ok ex_view_ok, of "''ETH''"] show ?thesis
    by (simp add: ex_buy_def ex_view_def ex_goal_def size_in_def ex_pos_def needs_reduction_def dec_eval)
qed

text \<open>
  a reduction the venue would refuse does not hold back an increase elsewhere: the engine opens
  BTC while the confirmed ETH position is still larger than its target.
\<close>

theorem increase_despite_pending_reduction:
  "\<exists>dcn. choose_next_action ex_slot ex_goal ex_view = Inr dcn \<and> dec_action dcn = Some ex_buy \<and>
     \<not> n_reduce_only ex_buy \<and>
     needs_reduction (size_in (d_positions ex_goal) ''ETH'') (size_in (v_follower_positions ex_view) ''ETH'')"
  using ex_choice
  by (auto simp: ex_buy_def ex_goal_def ex_view_def size_in_def ex_pos_def needs_reduction_def dec_eval)

end
