(* ===== verification/Action_Journal.thy ===== *)
theory Action_Journal
  imports Json
begin

text \<open>
  \<^verbatim>\<open>action_journal.py\<close> and \<^verbatim>\<open>cloid.py\<close>: the durable nonce and IOC action journal. The two SQLite
  tables are the fields of \<open>journal\<close>: \<open>signer_nonce\<close> a map from signer lane to last nonce and
  update time, \<open>actions\<close> the list of rows in insertion order. Every mutating method runs inside
  \<open>_transaction\<close>, which commits or rolls back as a whole, so an operation returns either an
  exception (the journal unchanged) or the new journal with its result. The wall clock
  \<open>_now_ms()\<close> is the argument \<open>now\<close>, and an optional time argument that is \<open>None\<close> falls back to it.
\<close>

section \<open>Data\<close>

datatype ActionState =
    PREPARED | SEND_ATTEMPTED | NOT_SENT | UNKNOWN | REJECTED | RESTING | PARTIALLY_FILLED
  | FILLED | CANCELED

definition TERMINAL_STATES :: "ActionState set" where
  "TERMINAL_STATES = {NOT_SENT, REJECTED, PARTIALLY_FILLED, FILLED, CANCELED}"

definition RECOVERY_STATES :: "ActionState set" where
  "RECOVERY_STATES = {PREPARED, SEND_ATTEMPTED, UNKNOWN, RESTING}"

definition AMBIGUOUS_STATES :: "ActionState set" where
  "AMBIGUOUS_STATES = {SEND_ATTEMPTED, UNKNOWN}"

record ActionRecord =
  a_cloid :: string
  a_follower_account :: string
  a_api_wallet :: string
  a_desired_id :: string
  a_market :: string
  a_attempt_no :: int
  a_nonce :: int
  a_requested_size :: rat
  a_cumulative_filled_size :: rat
  a_action_json :: string
  a_signed_payload_json :: string
  a_expires_after_ms :: int
  a_request_id :: string
  a_state :: ActionState
  a_outcome_detail :: "string option"
  a_created_ms :: int
  a_updated_ms :: int
  a_send_attempted_ms :: "int option"
  a_terminal_ms :: "int option"

definition terminal :: "ActionRecord \<Rightarrow> bool" where
  "terminal r \<longleftrightarrow> a_state r \<in> TERMINAL_STATES"

definition recovery_required :: "ActionRecord \<Rightarrow> bool" where
  "recovery_required r \<longleftrightarrow> a_state r \<in> RECOVERY_STATES"

definition ambiguous :: "ActionRecord \<Rightarrow> bool" where
  "ambiguous r \<longleftrightarrow> a_state r \<in> AMBIGUOUS_STATES"

definition provably_not_sent :: "ActionRecord \<Rightarrow> bool" where
  "provably_not_sent r \<longleftrightarrow> a_state r \<in> {PREPARED, NOT_SENT}"

definition remaining_size :: "ActionRecord \<Rightarrow> rat" where
  "remaining_size r = dsub (a_requested_size r) (a_cumulative_filled_size r)"

type_synonym lane = "string \<times> string"

record journal =
  signer_nonce :: "lane \<Rightarrow> (int \<times> int) option"
  actions :: "ActionRecord list"

definition empty_journal :: journal where
  "empty_journal = \<lparr>signer_nonce = (\<lambda>_. None), actions = []\<rparr>"

abbreviation a_lane :: "ActionRecord \<Rightarrow> lane" where
  "a_lane r \<equiv> (a_follower_account r, a_api_wallet r)"


section \<open>Argument validation\<close>

definition lower_hex :: "char \<Rightarrow> bool" where
  "lower_hex c = (let n = (of_char c :: nat) in 48 \<le> n \<and> n \<le> 57 \<or> 97 \<le> n \<and> n \<le> 102)"

definition validate_cloid :: "string \<Rightarrow> string result" where
  "validate_cloid c =
     (let lowered = py_lower c
      in if length lowered = 34 \<and> prefix ''0x'' lowered \<and> list_all lower_hex (drop 2 lowered)
         then Inr lowered else Inl (ValueError ''invalid Hyperliquid cloid''))"

definition nonempty :: "string \<Rightarrow> string \<Rightarrow> string result" where
  "nonempty v field =
     (if py_strip v = [] then Inl (ValueError (field @ '' must be a non-empty string''))
      else Inr (py_strip v))"

definition identity :: "string \<Rightarrow> string \<Rightarrow> string result" where
  "identity v field = rbind (nonempty v field) (\<lambda>s. Inr (py_lower s))"

definition positive_int :: "int \<Rightarrow> string \<Rightarrow> int result" where
  "positive_int v field =
     (if v \<le> 0 then Inl (ValueError (field @ '' must be a positive integer'')) else Inr v)"

definition nonnegative_decimal :: "dec_arg \<Rightarrow> string \<Rightarrow> rat result" where
  "nonnegative_decimal v field =
     (case decimal_of v of
        None \<Rightarrow> Inl (ValueError (field @ '' must be a decimal''))
      | Some d \<Rightarrow>
          if \<not> is_finite d \<or> dec_val d < 0
          then Inl (ValueError (field @ '' must be finite and non-negative''))
          else Inr (dec_val d))"

definition positive_decimal :: "dec_arg \<Rightarrow> string \<Rightarrow> rat result" where
  "positive_decimal v field = rbind (nonnegative_decimal v field) (\<lambda>x.
     if x = 0 then Inl (ValueError (field @ '' must be positive'')) else Inr x)"

definition json_object :: "string \<Rightarrow> string \<Rightarrow> string result" where
  "json_object v field =
     (if v = [] then Inl (ValueError (field @ '' must be a non-empty JSON string''))
      else case json_loads v of
        None \<Rightarrow> Inl (ValueError (field @ '' must contain valid JSON''))
      | Some (JObj _) \<Rightarrow> Inr v
      | Some _ \<Rightarrow> Inl (ValueError (field @ '' must contain a JSON object'')))"

text \<open>\<open>_now_ms() if wall_ms is None else wall_ms\<close>, validated.\<close>

definition time_arg :: "int \<Rightarrow> int option \<Rightarrow> string \<Rightarrow> int result" where
  "time_arg now t field = positive_int (case t of None \<Rightarrow> now | Some m \<Rightarrow> m) field"

text \<open>The identity of a signer lane.\<close>

definition lane_arg :: "string \<Rightarrow> string \<Rightarrow> lane result" where
  "lane_arg follower wallet =
     rbind (identity follower ''follower_account'') (\<lambda>f.
     rbind (identity wallet ''api_wallet'') (\<lambda>w. Inr (f, w)))"


section \<open>Operations\<close>

definition reserve_nonce ::
  "journal \<Rightarrow> string \<Rightarrow> string \<Rightarrow> int option \<Rightarrow> int \<Rightarrow> (journal \<times> int) result" where
  "reserve_nonce j follower wallet wall_ms now =
     rbind (lane_arg follower wallet) (\<lambda>l.
     rbind (time_arg now wall_ms ''wall_ms'') (\<lambda>candidate.
     let nonce = max candidate (case signer_nonce j l of
                   Some (prev, _) \<Rightarrow> prev + 1 | None \<Rightarrow> candidate)
     in rbind (require (0 < now) (IntegrityError ''CHECK constraint failed: updated_ms > 0'')) (\<lambda>_.
        Inr (j\<lparr>signer_nonce := (signer_nonce j)(l \<mapsto> (nonce, now))\<rparr>, nonce))))"

definition last_nonce :: "journal \<Rightarrow> string \<Rightarrow> string \<Rightarrow> int option result" where
  "last_nonce j follower wallet =
     rbind (lane_arg follower wallet) (\<lambda>l. Inr (map_option fst (signer_nonce j l)))"

text \<open>\<open>SELECT COALESCE(MAX(attempt_no), 0)\<close> over the rows of one desired portfolio and market.\<close>

definition attempt_key :: "ActionRecord \<Rightarrow> lane \<times> string \<times> string" where
  "attempt_key r = (a_lane r, a_desired_id r, a_market r)"

definition last_attempt :: "journal \<Rightarrow> lane \<times> string \<times> string \<Rightarrow> int" where
  "last_attempt j k =
     foldr max (map a_attempt_no (filter (\<lambda>r. attempt_key r = k) (actions j))) 0"

definition next_attempt_no ::
  "journal \<Rightarrow> string \<Rightarrow> string \<Rightarrow> string \<Rightarrow> string \<Rightarrow> int result" where
  "next_attempt_no j follower wallet desired_id market =
     rbind (lane_arg follower wallet) (\<lambda>l.
     rbind (nonempty desired_id ''desired_id'') (\<lambda>d.
     rbind (nonempty market ''market'') (\<lambda>m. Inr (last_attempt j (l, d, m) + 1))))"

text \<open>\<open>_require_action_locked\<close>: the row of a CLOID.\<close>

definition find_action :: "journal \<Rightarrow> string \<Rightarrow> ActionRecord option" where
  "find_action j c = find (\<lambda>r. a_cloid r = c) (actions j)"

definition require_action :: "journal \<Rightarrow> string \<Rightarrow> ActionRecord result" where
  "require_action j c =
     (case find_action j c of None \<Rightarrow> Inl (KeyError ''unknown action CLOID'') | Some r \<Rightarrow> Inr r)"

text \<open>The arguments of \<open>prepare_action\<close> as the caller passes them.\<close>

record prepare_args =
  p_follower_account :: string
  p_api_wallet :: string
  p_desired_id :: string
  p_market :: string
  p_attempt_no :: int
  p_cloid :: string
  p_nonce :: int
  p_requested_size :: dec_arg
  p_action_json :: string
  p_signed_payload_json :: string
  p_expires_after_ms :: int
  p_request_id :: string
  p_created_ms :: "int option"

text \<open>The row \<open>prepare_action\<close> inserts, once every argument is validated.\<close>

definition prepared_row :: "prepare_args \<Rightarrow> int \<Rightarrow> ActionRecord result" where
  "prepared_row p now =
     rbind (lane_arg (p_follower_account p) (p_api_wallet p)) (\<lambda>l.
     rbind (nonempty (p_desired_id p) ''desired_id'') (\<lambda>desired.
     rbind (nonempty (p_market p) ''market'') (\<lambda>market.
     rbind (validate_cloid (p_cloid p)) (\<lambda>cloid.
     rbind (positive_int (p_attempt_no p) ''attempt_no'') (\<lambda>attempt.
     rbind (positive_int (p_nonce p) ''nonce'') (\<lambda>nonce.
     rbind (positive_decimal (p_requested_size p) ''requested_size'') (\<lambda>sz.
     rbind (json_object (p_action_json p) ''action_json'') (\<lambda>action.
     rbind (json_object (p_signed_payload_json p) ''signed_payload_json'') (\<lambda>payload.
     rbind (nonempty (p_request_id p) ''request_id'') (\<lambda>request.
     rbind (time_arg now (p_created_ms p) ''created_ms'') (\<lambda>created.
     rbind (positive_int (p_expires_after_ms p) ''expires_after_ms'') (\<lambda>expires.
     if expires \<le> created then Inl (ValueError ''expires_after_ms must be later than created_ms'')
     else Inr \<lparr>a_cloid = cloid, a_follower_account = fst l, a_api_wallet = snd l,
               a_desired_id = desired, a_market = market, a_attempt_no = attempt,
               a_nonce = nonce, a_requested_size = sz, a_cumulative_filled_size = 0,
               a_action_json = action, a_signed_payload_json = payload,
               a_expires_after_ms = expires, a_request_id = request, a_state = PREPARED,
               a_outcome_detail = None, a_created_ms = created, a_updated_ms = created,
               a_send_attempted_ms = None, a_terminal_ms = None\<rparr>))))))))))))"

text \<open>The PRIMARY KEY and UNIQUE constraints of the \<open>actions\<close> table.\<close>

definition unique_violation :: "journal \<Rightarrow> ActionRecord \<Rightarrow> bool" where
  "unique_violation j r \<longleftrightarrow>
     list_ex (\<lambda>x. a_cloid x = a_cloid r \<or>
        a_lane x = a_lane r \<and> a_nonce x = a_nonce r \<or>
        attempt_key x = attempt_key r \<and> a_attempt_no x = a_attempt_no r) (actions j)"

definition prepare_action ::
  "journal \<Rightarrow> prepare_args \<Rightarrow> int \<Rightarrow> (journal \<times> ActionRecord) result" where
  "prepare_action j p now =
     rbind (prepared_row p now) (\<lambda>r.
     if (case signer_nonce j (a_lane r) of None \<Rightarrow> True | Some (prev, _) \<Rightarrow> a_nonce r \<noteq> prev)
     then Inl (ValueError ''nonce is not the latest durable reservation for this signer lane'')
     else if a_attempt_no r \<noteq> last_attempt j (attempt_key r) + 1
     then Inl (ValueError ''attempt_no must be the next durable attempt'')
     else if unique_violation j r
     then Inl (ValueError ''CLOID, signer nonce, or durable attempt is already journaled'')
     else let j' = j\<lparr>actions := actions j @ [r]\<rparr>
          in rbind (require_action j' (a_cloid r)) (\<lambda>r'. Inr (j', r')))"

definition get_action :: "journal \<Rightarrow> string \<Rightarrow> ActionRecord option result" where
  "get_action j cloid = rbind (validate_cloid cloid) (\<lambda>c. Inr (find_action j c))"

definition get_owned_action ::
  "journal \<Rightarrow> string \<Rightarrow> string \<Rightarrow> string \<Rightarrow> ActionRecord option result" where
  "get_owned_action j cloid follower wallet =
     rbind (validate_cloid cloid) (\<lambda>c.
     rbind (lane_arg follower wallet) (\<lambda>l.
     Inr (find (\<lambda>r. a_cloid r = c \<and> a_lane r = l) (actions j))))"

definition owns_cloid :: "journal \<Rightarrow> string \<Rightarrow> string \<Rightarrow> string \<Rightarrow> bool result" where
  "owns_cloid j cloid follower wallet =
     rbind (get_owned_action j cloid follower wallet) (\<lambda>r. Inr (r \<noteq> None))"

text \<open>\<open>UPDATE actions SET ... WHERE cloid=?\<close> followed by reading the row back.\<close>

definition update_action :: "journal \<Rightarrow> ActionRecord \<Rightarrow> (journal \<times> ActionRecord) result" where
  "update_action j r =
     (let j' = j\<lparr>actions := set_row (\<lambda>x. a_cloid x = a_cloid r) r (actions j)\<rparr>
      in rbind (require_action j' (a_cloid r)) (\<lambda>r'. Inr (j', r')))"

definition mark_send_attempted ::
  "journal \<Rightarrow> string \<Rightarrow> string option \<Rightarrow> int option \<Rightarrow> int \<Rightarrow> (journal \<times> ActionRecord) result" where
  "mark_send_attempted j cloid request_id observed_ms now =
     rbind (validate_cloid cloid) (\<lambda>c.
     rbind (time_arg now observed_ms ''observed_ms'') (\<lambda>observed.
     rbind (case request_id of
              None \<Rightarrow> Inr None
            | Some q \<Rightarrow> rbind (nonempty q ''request_id'') (\<lambda>s. Inr (Some s))) (\<lambda>correlated.
     rbind (require_action j c) (\<lambda>current.
     if a_state current \<noteq> PREPARED
     then Inl (ValueError ''send may be attempted only from PREPARED'')
     else update_action j (current\<lparr>a_state := SEND_ATTEMPTED,
            a_request_id := (case correlated of None \<Rightarrow> a_request_id current | Some q \<Rightarrow> q),
            a_updated_ms := observed, a_send_attempted_ms := Some observed\<rparr>)))))"

definition mark_not_sent ::
  "journal \<Rightarrow> string \<Rightarrow> int option \<Rightarrow> int \<Rightarrow> (journal \<times> ActionRecord) result" where
  "mark_not_sent j cloid observed_ms now =
     rbind (validate_cloid cloid) (\<lambda>c.
     rbind (time_arg now observed_ms ''observed_ms'') (\<lambda>observed.
     rbind (require_action j c) (\<lambda>current.
     if a_state current = NOT_SENT then Inr (j, current)
     else if a_state current \<noteq> PREPARED then Inl (ValueError ''NOT_SENT is valid only from PREPARED'')
     else update_action j (current\<lparr>a_state := NOT_SENT, a_updated_ms := observed,
            a_terminal_ms := Some observed\<rparr>))))"

definition validate_cumulative :: "ActionRecord \<Rightarrow> rat \<Rightarrow> unit result" where
  "validate_cumulative current cumulative =
     (if cumulative < a_cumulative_filled_size current
      then Inl (ValueError ''cumulative fill cannot decrease'')
      else if a_requested_size current < cumulative
      then Inl (ValueError ''cumulative fill cannot exceed requested size'')
      else Inr ())"

fun allowed_outcomes :: "ActionState \<Rightarrow> ActionState set" where
  "allowed_outcomes SEND_ATTEMPTED =
     {UNKNOWN, REJECTED, RESTING, PARTIALLY_FILLED, FILLED, CANCELED}"
| "allowed_outcomes UNKNOWN = {UNKNOWN, REJECTED, RESTING, PARTIALLY_FILLED, FILLED, CANCELED}"
| "allowed_outcomes RESTING = {UNKNOWN, RESTING, PARTIALLY_FILLED, FILLED, CANCELED}"
| "allowed_outcomes PARTIALLY_FILLED = {PARTIALLY_FILLED, FILLED}"
| "allowed_outcomes REJECTED = {REJECTED}"
| "allowed_outcomes FILLED = {FILLED}"
| "allowed_outcomes CANCELED = {CANCELED}"
| "allowed_outcomes PREPARED = {}"
| "allowed_outcomes NOT_SENT = {}"

definition validate_outcome :: "ActionRecord \<Rightarrow> ActionState \<Rightarrow> rat \<Rightarrow> unit result" where
  "validate_outcome current target cumulative =
     (if target \<notin> allowed_outcomes (a_state current)
      then Inl (ValueError ''invalid action transition'')
      else if target = FILLED \<and> cumulative \<noteq> a_requested_size current
      then Inl (ValueError ''FILLED requires cumulative fill equal to requested size'')
      else if target = PARTIALLY_FILLED \<and> \<not> (0 < cumulative \<and> cumulative < a_requested_size current)
      then Inl (ValueError ''PARTIALLY_FILLED requires a positive incomplete cumulative fill'')
      else if target \<in> {REJECTED, CANCELED} \<and> cumulative \<noteq> 0
      then Inl (ValueError ''a fill must be PARTIALLY_FILLED'')
      else if target \<in> {UNKNOWN, RESTING} \<and> cumulative = a_requested_size current
      then Inl (ValueError ''cannot retain a complete fill'')
      else Inr ())"

text \<open>\<open>None if detail is None else detail.strip() or None\<close>.\<close>

definition normalize_detail :: "string option \<Rightarrow> string option" where
  "normalize_detail d =
     (case d of None \<Rightarrow> None | Some s \<Rightarrow> if py_strip s = [] then None else Some (py_strip s))"

text \<open>The columns the \<open>UPDATE\<close> of \<open>record_outcome\<close> sets.\<close>

definition outcome_row ::
  "ActionRecord \<Rightarrow> ActionState \<Rightarrow> rat \<Rightarrow> string option \<Rightarrow> int \<Rightarrow> ActionRecord" where
  "outcome_row current target cumulative detail observed =
     current\<lparr>a_state := target, a_cumulative_filled_size := cumulative,
       a_outcome_detail := normalize_detail detail, a_updated_ms := observed,
       a_terminal_ms := (if target \<in> TERMINAL_STATES \<and> a_terminal_ms current = None
                         then Some observed else a_terminal_ms current)\<rparr>"

definition record_outcome ::
  "journal \<Rightarrow> string \<Rightarrow> ActionState \<Rightarrow> dec_arg option \<Rightarrow> string option \<Rightarrow> int option \<Rightarrow> int \<Rightarrow>
   (journal \<times> ActionRecord) result" where
  "record_outcome j cloid target cumulative_filled_size detail observed_ms now =
     rbind (validate_cloid cloid) (\<lambda>c.
     if target \<notin> {UNKNOWN, REJECTED, RESTING, PARTIALLY_FILLED, FILLED, CANCELED}
     then Inl (ValueError ''is not a venue outcome'')
     else
     rbind (time_arg now observed_ms ''observed_ms'') (\<lambda>observed.
     rbind (require_action j c) (\<lambda>current.
     rbind (case cumulative_filled_size of
              None \<Rightarrow> Inr (a_cumulative_filled_size current)
            | Some d \<Rightarrow> nonnegative_decimal d ''cumulative_filled_size'') (\<lambda>cumulative.
     rbind (validate_cumulative current cumulative) (\<lambda>_.
     rbind (validate_outcome current target cumulative) (\<lambda>_.
     if target = a_state current \<and> cumulative = a_cumulative_filled_size current \<and>
        normalize_detail detail = a_outcome_detail current
     then Inr (j, current)
     else update_action j (outcome_row current target cumulative detail observed)))))))"

definition mark_unknown ::
  "journal \<Rightarrow> string \<Rightarrow> string option \<Rightarrow> int option \<Rightarrow> int \<Rightarrow> (journal \<times> ActionRecord) result" where
  "mark_unknown j cloid detail observed_ms now =
     record_outcome j cloid UNKNOWN None detail observed_ms now"

text \<open>\<open>terminal_ms or observed\<close> (a stored time of 0 would be falsy).\<close>

definition or_time :: "int option \<Rightarrow> int \<Rightarrow> int option" where
  "or_time t observed = (case t of Some m \<Rightarrow> if m = 0 then Some observed else Some m | None \<Rightarrow> Some observed)"

text \<open>The columns the \<open>UPDATE\<close> of \<open>record_cumulative_fill\<close> sets.\<close>

definition fill_row :: "ActionRecord \<Rightarrow> rat \<Rightarrow> int \<Rightarrow> ActionRecord" where
  "fill_row current cumulative observed =
     (let (target, terminal_ms) =
        (if cumulative = a_requested_size current
         then (FILLED, or_time (a_terminal_ms current) observed)
         else if a_state current \<in> {REJECTED, CANCELED, PARTIALLY_FILLED}
         then (PARTIALLY_FILLED, or_time (a_terminal_ms current) observed)
         else (a_state current, a_terminal_ms current))
      in current\<lparr>a_state := target, a_cumulative_filled_size := cumulative,
           a_updated_ms := observed, a_terminal_ms := terminal_ms\<rparr>)"

definition record_cumulative_fill ::
  "journal \<Rightarrow> string \<Rightarrow> dec_arg \<Rightarrow> int option \<Rightarrow> int \<Rightarrow> (journal \<times> ActionRecord) result" where
  "record_cumulative_fill j cloid cumulative_filled_size observed_ms now =
     rbind (validate_cloid cloid) (\<lambda>c.
     rbind (nonnegative_decimal cumulative_filled_size ''cumulative_filled_size'') (\<lambda>cumulative.
     rbind (time_arg now observed_ms ''observed_ms'') (\<lambda>observed.
     rbind (require_action j c) (\<lambda>current.
     rbind (validate_cumulative current cumulative) (\<lambda>_.
     if cumulative = a_cumulative_filled_size current then Inr (j, current)
     else if a_send_attempted_ms current = None
     then Inl (ValueError ''a provably unsent action cannot have a fill'')
     else
       update_action j (fill_row current cumulative observed))))))"

text \<open>\<open>ORDER BY created_ms, cloid\<close>.\<close>

definition recovery_actions ::
  "journal \<Rightarrow> string option \<Rightarrow> string option \<Rightarrow> ActionRecord list result" where
  "recovery_actions j follower wallet =
     (let pending = filter recovery_required (actions j);
          order = sort_key (\<lambda>r. (a_created_ms r, a_cloid r))
      in case (follower, wallet) of
           (None, None) \<Rightarrow> Inr (order pending)
         | (Some f, Some w) \<Rightarrow>
             rbind (lane_arg f w) (\<lambda>l. Inr (order (filter (\<lambda>r. a_lane r = l) pending)))
         | _ \<Rightarrow> Inl (ValueError ''follower_account and api_wallet must be filtered together''))"

text \<open>\<open>ORDER BY send_attempted_ms, cloid\<close>.\<close>

definition recent_send_attempts ::
  "journal \<Rightarrow> string \<Rightarrow> string \<Rightarrow> int \<Rightarrow> int list result" where
  "recent_send_attempts j follower wallet after_ms =
     rbind (lane_arg follower wallet) (\<lambda>l.
     if after_ms < 0 then Inl (ValueError ''after_ms must be a non-negative integer'')
     else Inr (map (\<lambda>r. the (a_send_attempted_ms r))
       (sort_key (\<lambda>r. (the (a_send_attempted_ms r), a_cloid r))
         (filter (\<lambda>r. a_lane r = l \<and>
            (case a_send_attempted_ms r of None \<Rightarrow> False | Some t \<Rightarrow> after_ms < t)) (actions j)))))"


section \<open>Invariant and step relations\<close>

text \<open>What every stored row satisfies.\<close>

definition action_ok :: "ActionRecord \<Rightarrow> bool" where
  "action_ok r \<longleftrightarrow>
     0 < a_attempt_no r \<and> 0 < a_nonce r \<and>
     0 < a_created_ms r \<and> a_created_ms r < a_expires_after_ms r \<and>
     0 < a_requested_size r \<and>
     0 \<le> a_cumulative_filled_size r \<and> a_cumulative_filled_size r \<le> a_requested_size r \<and>
     (a_state r = FILLED \<longleftrightarrow> a_cumulative_filled_size r = a_requested_size r) \<and>
     (a_state r = PARTIALLY_FILLED \<longrightarrow> 0 < a_cumulative_filled_size r) \<and>
     (a_state r \<in> {PREPARED, NOT_SENT, REJECTED, CANCELED} \<longrightarrow> a_cumulative_filled_size r = 0) \<and>
     (a_send_attempted_ms r = None \<longleftrightarrow> provably_not_sent r) \<and>
     (a_terminal_ms r \<noteq> None \<longleftrightarrow> terminal r) \<and>
     (\<forall>t. a_terminal_ms r = Some t \<longrightarrow> 0 < t)"

definition journal_ok :: "journal \<Rightarrow> bool" where
  "journal_ok j \<longleftrightarrow>
     distinct (map a_cloid (actions j)) \<and>
     distinct (map (\<lambda>r. (a_lane r, a_nonce r)) (actions j)) \<and>
     distinct (map (\<lambda>r. (attempt_key r, a_attempt_no r)) (actions j)) \<and>
     (\<forall>r \<in> set (actions j). action_ok r \<and>
        (\<exists>prev ms. signer_nonce j (a_lane r) = Some (prev, ms) \<and> a_nonce r \<le> prev))"

text \<open>The columns no \<open>UPDATE\<close> of the module writes.\<close>

definition write_once ::
  "ActionRecord \<Rightarrow> string \<times> (lane \<times> string \<times> string) \<times> int \<times> int \<times> rat \<times> string \<times> string \<times> int \<times> int" where
  "write_once r = (a_cloid r, attempt_key r, a_attempt_no r, a_nonce r, a_requested_size r,
     a_action_json r, a_signed_payload_json r, a_expires_after_ms r, a_created_ms r)"

text \<open>The effect of one \<open>UPDATE\<close> on its row.\<close>

inductive row_step :: "ActionRecord \<Rightarrow> ActionRecord \<Rightarrow> bool" where
  row_send: "a_state r = PREPARED \<Longrightarrow>
    row_step r (r\<lparr>a_state := SEND_ATTEMPTED, a_request_id := q, a_updated_ms := t,
      a_send_attempted_ms := Some t\<rparr>)"
| row_not_sent: "a_state r = PREPARED \<Longrightarrow> 0 < t \<Longrightarrow>
    row_step r (r\<lparr>a_state := NOT_SENT, a_updated_ms := t, a_terminal_ms := Some t\<rparr>)"
| row_outcome: "validate_cumulative r x = Inr () \<Longrightarrow> validate_outcome r s x = Inr () \<Longrightarrow> 0 < t \<Longrightarrow>
    row_step r (outcome_row r s x d t)"
| row_fill: "validate_cumulative r x = Inr () \<Longrightarrow> x \<noteq> a_cumulative_filled_size r \<Longrightarrow>
    a_send_attempted_ms r \<noteq> None \<Longrightarrow> 0 < t \<Longrightarrow> row_step r (fill_row r x t)"

text \<open>One successful call of a mutating method.\<close>

inductive journal_step :: "journal \<Rightarrow> journal \<Rightarrow> bool" where
  step_reserve: "reserve_nonce j f w t now = Inr (j', n) \<Longrightarrow> journal_step j j'"
| step_prepare: "prepare_action j p now = Inr (j', r) \<Longrightarrow> journal_step j j'"
| step_send: "mark_send_attempted j c q t now = Inr (j', r) \<Longrightarrow> journal_step j j'"
| step_not_sent: "mark_not_sent j c t now = Inr (j', r) \<Longrightarrow> journal_step j j'"
| step_outcome: "record_outcome j c s x d t now = Inr (j', r) \<Longrightarrow> journal_step j j'"
| step_fill: "record_cumulative_fill j c y t now = Inr (j', r) \<Longrightarrow> journal_step j j'"

inductive_cases journal_stepE: "journal_step j j'"
inductive_cases row_stepE: "row_step r r'"

lemmas state_defs [journal_simps] =
  TERMINAL_STATES_def RECOVERY_STATES_def AMBIGUOUS_STATES_def terminal_def recovery_required_def
  provably_not_sent_def ambiguous_def

lemmas validate_defs [journal_simps] =
  validate_cumulative_def validate_outcome_def write_once_def attempt_key_def or_time_def
  outcome_row_def fill_row_def


section \<open>Lemmas on rows\<close>

lemma a_state_outcome_row [simp]: "a_state (outcome_row r s x d t) = s"
  by (simp add: outcome_row_def)

lemma row_step_write_once: "row_step r r' \<Longrightarrow> write_once r' = write_once r"
  by (erule row_stepE) (auto simp: journal_simps)

lemma row_step_ok:
  assumes "row_step r r'" and "action_ok r"
  shows "action_ok r'"
  using assms
proof cases
  case (row_outcome x s t d)
  then show ?thesis
    using assms(2)
    by (cases "a_state r"; cases s) (auto simp: action_ok_def journal_simps split: if_splits)
next
  case (row_fill x t)
  then show ?thesis
    using assms(2)
    by (cases "a_state r") (auto simp: action_ok_def journal_simps split: if_splits option.splits)
qed (auto simp: action_ok_def journal_simps)

lemma row_step_cumulative:
  "row_step r r' \<Longrightarrow> action_ok r \<Longrightarrow> a_cumulative_filled_size r \<le> a_cumulative_filled_size r'"
  by (erule row_stepE) (auto simp: validate_cumulative_def outcome_row_def fill_row_def split: if_splits)

lemma row_step_send_time:
  assumes "row_step r r'" and "action_ok r" and "a_send_attempted_ms r \<noteq> None"
  shows "a_send_attempted_ms r' = a_send_attempted_ms r"
proof -
  have "a_state r \<noteq> PREPARED" using assms(2,3) by (auto simp: action_ok_def provably_not_sent_def)
  with assms(1) show ?thesis by (auto elim!: row_stepE simp: outcome_row_def fill_row_def)
qed

lemma allowed_terminal:
  "s \<in> allowed_outcomes t \<Longrightarrow> t \<in> TERMINAL_STATES \<Longrightarrow> s \<in> TERMINAL_STATES"
  by (cases t) (auto simp: TERMINAL_STATES_def)

lemma row_step_terminal:
  assumes "row_step r r'" and "action_ok r" and "terminal r"
  shows "terminal r' \<and> a_terminal_ms r' = a_terminal_ms r"
proof -
  obtain m where m: "a_terminal_ms r = Some m" "0 < m"
    using assms(2,3) by (auto simp: action_ok_def)
  have "a_state r \<noteq> PREPARED" using assms(3) by (auto simp: terminal_def TERMINAL_STATES_def)
  with assms(1) show ?thesis
  proof cases
    case (row_outcome x s t d)
    then have "s \<in> TERMINAL_STATES"
      using assms(3) by (auto simp: validate_outcome_def terminal_def intro: allowed_terminal split: if_splits)
    with row_outcome m show ?thesis by (simp add: terminal_def outcome_row_def)
  qed (use assms(3) m in \<open>auto simp: terminal_def or_time_def TERMINAL_STATES_def fill_row_def\<close>)
qed

lemma time_arg_pos: "time_arg now t field = Inr m \<Longrightarrow> 0 < m"
  by (auto simp: time_arg_def positive_int_def split: if_splits)

lemma find_actionD: "find_action j c = Some r \<Longrightarrow> r \<in> set (actions j) \<and> a_cloid r = c"
  by (auto simp: find_action_def dest: find_SomeD)

lemma require_action_Inr [simp]: "require_action j c = Inr r \<longleftrightarrow> find_action j c = Some r"
  by (auto simp: require_action_def split: option.splits)

lemma find_action_iff:
  assumes "distinct (map a_cloid (actions j))"
  shows "find_action j c = Some r \<longleftrightarrow> r \<in> set (actions j) \<and> a_cloid r = c"
  using find_actionD [of j c r] find_distinct_key [OF assms, of r]
  by (auto simp: find_action_def)


section \<open>Lemmas on the tables\<close>

definition replace_row :: "journal \<Rightarrow> ActionRecord \<Rightarrow> journal" where
  "replace_row j r = j\<lparr>actions := set_row (\<lambda>x. a_cloid x = a_cloid r) r (actions j)\<rparr>"

lemma update_action_Inr:
  assumes "find_action j c = Some r" and "a_cloid r' = a_cloid r"
  shows "update_action j r' = Inr (replace_row j r', r')"
proof -
  have "find_action (replace_row j r') (a_cloid r') = Some r'"
    using assms find_actionD [OF assms(1)]
    by (simp add: find_action_def replace_row_def find_set_row)
  then show ?thesis by (simp add: update_action_def replace_row_def [symmetric] require_action_def)
qed

text \<open>The effect of each method that updates a row, when it does not raise.\<close>

definition row_op :: "journal \<Rightarrow> string \<Rightarrow> journal \<Rightarrow> ActionRecord \<Rightarrow> ActionRecord \<Rightarrow> bool" where
  "row_op j c j' r r' \<longleftrightarrow>
     (\<exists>c'. validate_cloid c = Inr c' \<and> find_action j c' = Some r) \<and>
     (j' = j \<and> r' = r \<or> row_step r r' \<and> j' = replace_row j r')"

lemma row_op_update:
  assumes "validate_cloid c = Inr c'" and "find_action j c' = Some r" and "row_step r r'"
    and "update_action j r' = Inr (j', q)"
  shows "row_op j c j' r q" and "q = r'"
proof -
  have "a_cloid r' = a_cloid r" using row_step_write_once [OF assms(3)] by (simp add: write_once_def)
  from update_action_Inr [OF assms(2) this] assms show "row_op j c j' r q" "q = r'"
    by (auto simp: row_op_def)
qed

lemma mark_send_attempted_Inr:
  assumes "mark_send_attempted j c q t now = Inr (j', r')"
  shows "\<exists>r. row_op j c j' r r' \<and> a_state r = PREPARED \<and> a_state r' = SEND_ATTEMPTED"
proof -
  from assms obtain c' r m q' where r: "validate_cloid c = Inr c'" "find_action j c' = Some r"
    "a_state r = PREPARED"
    and up: "update_action j (r\<lparr>a_state := SEND_ATTEMPTED, a_request_id := q',
       a_updated_ms := m, a_send_attempted_ms := Some m\<rparr>) = Inr (j', r')"
    unfolding mark_send_attempted_def by (simp split: if_splits) blast
  with row_op_update [OF r(1,2) row_send [OF r(3)] up] show ?thesis by auto
qed

lemma mark_not_sent_Inr:
  assumes "mark_not_sent j c t now = Inr (j', r')"
  shows "\<exists>r. row_op j c j' r r' \<and> a_state r' = NOT_SENT \<and> (a_state r = PREPARED \<or> j' = j)"
proof -
  from assms obtain c' r m where r: "validate_cloid c = Inr c'" "find_action j c' = Some r" "0 < m"
    and up: "a_state r = NOT_SENT \<and> j' = j \<and> r' = r \<or>
       a_state r = PREPARED \<and> update_action j (r\<lparr>a_state := NOT_SENT, a_updated_ms := m,
         a_terminal_ms := Some m\<rparr>) = Inr (j', r')"
    unfolding mark_not_sent_def by (simp split: if_splits) (blast dest: time_arg_pos)+
  from up show ?thesis
  proof
    assume "a_state r = NOT_SENT \<and> j' = j \<and> r' = r"
    with r show ?thesis by (auto simp: row_op_def)
  next
    assume u: "a_state r = PREPARED \<and> update_action j (r\<lparr>a_state := NOT_SENT, a_updated_ms := m,
         a_terminal_ms := Some m\<rparr>) = Inr (j', r')"
    then show ?thesis using row_op_update [OF r(1,2) row_not_sent, of m] r(3) by auto
  qed
qed

lemma record_outcome_Inr:
  assumes "record_outcome j c s x d t now = Inr (j', r')"
  shows "\<exists>r. row_op j c j' r r' \<and> a_state r' = s"
proof -
  from assms obtain c' r m y where r: "validate_cloid c = Inr c'" "find_action j c' = Some r"
      "time_arg now t ''observed_ms'' = Inr m"
    and v: "validate_cumulative r y = Inr ()" "validate_outcome r s y = Inr ()"
    and up: "s = a_state r \<and> j' = j \<and> r' = r \<or>
      update_action j (outcome_row r s y d m) = Inr (j', r')"
    unfolding record_outcome_def by (auto split: if_splits)
  have m: "0 < m" using r(3) by (rule time_arg_pos)
  from up show ?thesis
  proof
    assume "s = a_state r \<and> j' = j \<and> r' = r"
    with r show ?thesis by (auto simp: row_op_def)
  next
    assume "update_action j (outcome_row r s y d m) = Inr (j', r')"
    from row_op_update [OF r(1,2) row_outcome [OF v m] this] show ?thesis by auto
  qed
qed

lemma record_cumulative_fill_Inr:
  assumes "record_cumulative_fill j c y t now = Inr (j', r')"
  shows "\<exists>r. row_op j c j' r r'"
proof -
  from assms obtain c' r m x where r: "validate_cloid c = Inr c'" "find_action j c' = Some r"
      "time_arg now t ''observed_ms'' = Inr m"
    and v: "validate_cumulative r x = Inr ()"
    and up: "j' = j \<and> r' = r \<or> x \<noteq> a_cumulative_filled_size r \<and> a_send_attempted_ms r \<noteq> None \<and>
       update_action j (fill_row r x m) = Inr (j', r')"
    unfolding record_cumulative_fill_def by (auto split: if_splits)
  have m: "0 < m" using r(3) by (rule time_arg_pos)
  from up show ?thesis
  proof (elim disjE conjE)
    assume "j' = j" "r' = r"
    with r show ?thesis by (auto simp: row_op_def)
  next
    assume x: "x \<noteq> a_cumulative_filled_size r" "a_send_attempted_ms r \<noteq> None"
      and u: "update_action j (fill_row r x m) = Inr (j', r')"
    from row_op_update(1) [OF r(1,2) row_fill [OF v x m] u] show ?thesis by blast
  qed
qed

lemma find_action_snoc:
  assumes "\<not> unique_violation j r"
  shows "find_action (j\<lparr>actions := actions j @ [r]\<rparr>) (a_cloid r) = Some r"
proof -
  have "find (\<lambda>x. a_cloid x = a_cloid r) (xs @ [r]) = Some r"
    if "\<forall>x \<in> set xs. a_cloid x \<noteq> a_cloid r" for xs
    using that by (induction xs) auto
  then show ?thesis using assms by (auto simp: find_action_def unique_violation_def list_ex_iff)
qed

lemma prepare_action_Inr:
  assumes "prepare_action j p now = Inr (j', r)"
  obtains ms where "prepared_row p now = Inr r"
    "signer_nonce j (a_lane r) = Some (a_nonce r, ms)"
    "a_attempt_no r = last_attempt j (attempt_key r) + 1"
    "\<not> unique_violation j r" "j' = j\<lparr>actions := actions j @ [r]\<rparr>"
proof -
  from assms obtain r' where p: "prepared_row p now = Inr r'"
    "\<not> (case signer_nonce j (a_lane r') of None \<Rightarrow> True | Some (prev, _) \<Rightarrow> a_nonce r' \<noteq> prev)"
    "a_attempt_no r' = last_attempt j (attempt_key r') + 1" "\<not> unique_violation j r'"
    "j' = j\<lparr>actions := actions j @ [r']\<rparr>" "find_action j' (a_cloid r') = Some r"
    unfolding prepare_action_def Let_def by (simp split: if_splits) blast
  then have "r = r'" using find_action_snoc [OF p(4)] by simp
  with p that show ?thesis by (auto split: option.splits)
qed


section \<open>Every step keeps the invariant\<close>

lemma write_onceD:
  assumes "write_once r = write_once r'"
  shows "a_cloid r = a_cloid r'" "attempt_key r = attempt_key r'" "a_lane r = a_lane r'"
    "a_attempt_no r = a_attempt_no r'" "a_nonce r = a_nonce r'"
    "a_requested_size r = a_requested_size r'" "a_created_ms r = a_created_ms r'"
    "a_signed_payload_json r = a_signed_payload_json r'"
  using assms by (auto simp: write_once_def attempt_key_def)

text \<open>Replacing a row by one with the same write-once columns keeps every key column.\<close>

lemma replace_row_columns:
  assumes "distinct (map a_cloid (actions j))" and "r \<in> set (actions j)"
    and "write_once r' = write_once r"
    and "\<And>x y. write_once x = write_once y \<Longrightarrow> f x = f y"
  shows "map f (actions (replace_row j r')) = map f (actions j)"
proof -
  have "x = r" if "x \<in> set (actions j)" "a_cloid x = a_cloid r'" for x
    using distinct_map_eqD [OF assms(1) that(1) assms(2)] that(2) write_onceD(1) [OF assms(3)] by simp
  then have "f x = f r'" if "x \<in> set (actions j)" "a_cloid x = a_cloid r'" for x
    using that assms(4) [OF assms(3)] by metis
  then show ?thesis by (simp add: replace_row_def map_set_row)
qed

lemma replace_row_ok:
  assumes ok: "journal_ok j" and r: "r \<in> set (actions j)" and step: "row_step r r'"
  shows "journal_ok (replace_row j r')"
proof -
  have w: "write_once r' = write_once r" using step by (rule row_step_write_once)
  note cols = replace_row_columns [OF _ r w]
  have rows: "x = r' \<or> x \<in> set (actions j)" if "x \<in> set (actions (replace_row j r'))" for x
    using in_set_row_D that by (fastforce simp: replace_row_def)
  have "action_ok r'" using row_step_ok [OF step] ok r by (auto simp: journal_ok_def)
  moreover have "map a_cloid (actions (replace_row j r')) = map a_cloid (actions j)"
    and "map (\<lambda>r. (a_lane r, a_nonce r)) (actions (replace_row j r'))
       = map (\<lambda>r. (a_lane r, a_nonce r)) (actions j)"
    and "map (\<lambda>r. (attempt_key r, a_attempt_no r)) (actions (replace_row j r'))
       = map (\<lambda>r. (attempt_key r, a_attempt_no r)) (actions j)"
    using ok by (auto simp: journal_ok_def intro!: cols dest: write_onceD)
  moreover have "signer_nonce (replace_row j r') = signer_nonce j" by (simp add: replace_row_def)
  ultimately show ?thesis
    using ok rows r write_onceD(3,5) [OF w] unfolding journal_ok_def by fastforce
qed

lemma prepared_row_ok:
  assumes "prepared_row p now = Inr r"
  shows "action_ok r" and "a_state r = PREPARED" and "a_cumulative_filled_size r = 0"
  using assms
  by (auto simp: prepared_row_def action_ok_def state_defs positive_int_def positive_decimal_def
      nonnegative_decimal_def time_arg_def split: if_splits option.splits)

lemma append_row_ok:
  assumes "journal_ok j" and "action_ok r" and "signer_nonce j (a_lane r) = Some (a_nonce r, ms)"
    and "\<not> unique_violation j r"
  shows "journal_ok (j\<lparr>actions := actions j @ [r]\<rparr>)"
  using assms by (auto simp: journal_ok_def unique_violation_def list_ex_iff)

lemma reserve_nonce_Inr:
  assumes "reserve_nonce j f w t now = Inr (j', n)"
  obtains l where "lane_arg f w = Inr l" "j' = j\<lparr>signer_nonce := (signer_nonce j)(l \<mapsto> (n, now))\<rparr>"
    "0 < n" "\<And>prev ms. signer_nonce j l = Some (prev, ms) \<Longrightarrow> prev < n"
proof -
  from assms obtain l m where l: "lane_arg f w = Inr l" "time_arg now t ''wall_ms'' = Inr m"
    and n: "n = max m (case signer_nonce j l of Some (prev, _) \<Rightarrow> prev + 1 | None \<Rightarrow> m)"
    and j': "j' = j\<lparr>signer_nonce := (signer_nonce j)(l \<mapsto> (n, now))\<rparr>"
    by (auto simp: reserve_nonce_def Let_def)
  show ?thesis
  proof (rule that [OF l(1) j'])
    show "0 < n" using time_arg_pos [OF l(2)] n by simp
    show "prev < n" if "signer_nonce j l = Some (prev, ms)" for prev ms using n that by simp
  qed
qed

lemma reserve_ok:
  assumes "journal_ok j" and "reserve_nonce j f w t now = Inr (j', n)"
  shows "journal_ok j'"
proof -
  from assms(2) obtain l where j': "j' = j\<lparr>signer_nonce := (signer_nonce j)(l \<mapsto> (n, now))\<rparr>"
    and up: "\<And>prev ms. signer_nonce j l = Some (prev, ms) \<Longrightarrow> prev < n"
    by (rule reserve_nonce_Inr) blast
  show ?thesis using assms(1) up unfolding journal_ok_def j' by fastforce
qed

lemma row_op_ok:
  assumes "journal_ok j" and "row_op j c j' r r'"
  shows "journal_ok j'"
  using assms find_actionD [of j _ r] by (auto simp: row_op_def intro: replace_row_ok)

lemma journal_step_ok:
  assumes "journal_ok j" and "journal_step j j'"
  shows "journal_ok j'"
  using assms(2)
proof cases
  case (step_reserve f w t now n)
  with assms(1) show ?thesis by (blast intro: reserve_ok)
next
  case (step_prepare p now r)
  from this obtain ms where "prepared_row p now = Inr r"
    "signer_nonce j (a_lane r) = Some (a_nonce r, ms)"
    "\<not> unique_violation j r" "j' = j\<lparr>actions := actions j @ [r]\<rparr>"
    by (rule prepare_action_Inr) blast
  with assms(1) show ?thesis by (auto intro: append_row_ok prepared_row_ok)
qed (use assms(1) in \<open>blast dest: mark_send_attempted_Inr mark_not_sent_Inr record_outcome_Inr
    record_cumulative_fill_Inr intro: row_op_ok\<close>)+

end
