(* ===== verification/Json_Roundtrip.thy ===== *)
theory Json_Roundtrip
  imports Json
begin

text \<open>
  Text written by the compact \<open>json.dumps\<close> with sorted keys is read back by \<open>json.loads\<close> to the
  same value: what the journal stores and later decodes is the action that was signed.
\<close>

section \<open>Integers\<close>

lemma show_nat_nonempty [simp]: "show_nat n \<noteq> []"
  by (subst show_nat.simps) auto

lemma of_char_char_of_small: "n < 256 \<Longrightarrow> (of_char (char_of n :: char) :: nat) = n"
  by simp

lemma digit_char [simp]: "d < 10 \<Longrightarrow> is_digit (char_of (48 + d))" "d < 10 \<Longrightarrow> digit_val (char_of (48 + d)) = int d"
  by (simp_all add: is_digit_def digit_val_def)

lemma show_nat_digits: "list_all is_digit (show_nat n)"
proof (induction n rule: show_nat.induct)
  case (1 n)
  then show ?case by (subst show_nat.simps) auto
qed

lemma digits_val_snoc: "digits_val (ds @ [c]) = 10 * digits_val ds + digit_val c"
  by (simp add: digits_val_def)

lemma digits_val_show: "digits_val (show_nat n) = int n"
proof (induction n rule: show_nat.induct)
  case (1 n)
  show ?case
  proof (cases "n < 10")
    case True
    then show ?thesis by (subst show_nat.simps) (simp add: digits_val_def)
  next
    case False
    then have "digits_val (show_nat n) = 10 * digits_val (show_nat (n div 10)) + int (n mod 10)"
      by (subst show_nat.simps) (simp add: digits_val_snoc)
    with 1 False show ?thesis by simp presburger
  qed
qed

lemma show_nat_hd: "hd (show_nat n) = CHR ''0'' \<longleftrightarrow> n = 0"
proof (induction n rule: show_nat.induct)
  case (1 n)
  show ?case
  proof (cases "n < 10")
    case True
    have "char_of (48 + n) = CHR ''0'' \<Longrightarrow> n = 0"
      using digit_char(2) [OF True] by (auto simp: digit_val_def)
    moreover have "char_of 48 = CHR ''0''" by (simp add: char_of_eq_iff)
    ultimately show ?thesis using True by (subst show_nat.simps) auto
  next
    case False
    then have "hd (show_nat n) = hd (show_nat (n div 10))"
      by (subst show_nat.simps) (simp add: hd_append)
    with 1 False show ?thesis by simp
  qed
qed

lemma show_nat_0: "show_nat 0 = ''0''"
  by (subst show_nat.simps) (simp add: char_of_eq_iff)


section \<open>Values\<close>

text \<open>What may follow a value inside a document.\<close>

definition delim :: "string \<Rightarrow> bool" where
  "delim r \<longleftrightarrow> (case r of [] \<Rightarrow> True | c # _ \<Rightarrow> c \<in> {CHR '','', CHR '']'', CHR ''}''})"

lemma delim_not_digit: "delim (c # r) \<Longrightarrow> \<not> is_digit c \<and> \<not> json_ws c"
  by (auto simp: delim_def is_digit_def json_ws_def)

lemma take_digits:
  assumes "list_all is_digit ds" and "delim r"
  shows "takeWhile is_digit (ds @ r) = ds" and "dropWhile is_digit (ds @ r) = r"
proof -
  have "takeWhile is_digit r = []" "dropWhile is_digit r = r"
    using assms(2) by (cases r; auto dest: delim_not_digit)+
  with assms(1) show "takeWhile is_digit (ds @ r) = ds" "dropWhile is_digit (ds @ r) = r"
    by (simp_all add: list_all_iff)
qed

lemma json_number_tail: "delim r \<Longrightarrow> json_fraction r = ([], r) \<and> json_exponent r = ([], r)"
  by (cases r) (auto simp: json_fraction_def json_exponent_def delim_def)

lemma nat_number:
  assumes "delim r"
  shows "json_int_part (show_nat n @ r) = Some (show_nat n, r)"
proof (cases "n = 0")
  case True
  then show ?thesis by (simp add: show_nat_0 json_int_part_def)
next
  case False
  then obtain c t where ct: "show_nat n = c # t" "c \<noteq> CHR ''0''"
    using show_nat_hd [of n] by (cases "show_nat n") auto
  have "digits1 (show_nat n @ r) = Some (show_nat n, r)"
    using take_digits [OF show_nat_digits [of n] assms] by (simp add: digits1_def)
  with ct show ?thesis by (simp add: json_int_part_def)
qed

lemma json_unsigned_nat:
  assumes "delim r"
  shows "json_unsigned neg (show_nat n @ r) = Some (JInt (if neg then - int n else int n), r)"
  using nat_number [OF assms] json_number_tail [OF assms] by (simp add: json_unsigned_def digits_val_show)

lemma json_number_int:
  assumes "delim r"
  shows "json_number (show_int i @ r) = Some (JInt i, r)"
proof (cases "i < 0")
  case True
  then show ?thesis by (simp add: json_number_def show_int_def json_unsigned_nat [OF assms])
next
  case False
  obtain c t where ct: "show_nat (nat i) = c # t" by (cases "show_nat (nat i)") auto
  then have "c \<noteq> CHR ''-''" using show_nat_digits [of "nat i"] by (auto simp: is_digit_def)
  then have "take 1 (show_nat (nat i) @ r) \<noteq> ''-''" by (simp add: ct)
  then show ?thesis using False json_unsigned_nat [OF assms, of False "nat i"]
    by (simp add: json_number_def show_int_def)
qed

lemma digit_not_letter:
  assumes "is_digit c"
  shows "CHR ''n'' \<noteq> c" "CHR ''t'' \<noteq> c" "CHR ''f'' \<noteq> c" "CHR ''N'' \<noteq> c" "CHR ''I'' \<noteq> c" "CHR ''-'' \<noteq> c"
    "c \<noteq> CHR 0x22" "c \<noteq> CHR ''{''" "c \<noteq> CHR ''[''"
  using assms by (auto simp: is_digit_def)

lemma json_literal_int:
  assumes "delim r"
  shows "json_literal (show_int i @ r) = Some (JInt i, r)"
proof -
  obtain c t where ct: "show_int i = c # t" and c: "is_digit c \<or> c = CHR ''-'' \<and> (\<exists>d u. t = d # u \<and> is_digit d)"
  proof (cases "i < 0")
    case True
    obtain d u where "show_nat (nat (- i)) = d # u" by (cases "show_nat (nat (- i))") auto
    with True show ?thesis using show_nat_digits [of "nat (- i)"] that by (auto simp: show_int_def)
  next
    case False
    obtain d u where "show_nat (nat i) = d # u" by (cases "show_nat (nat i)") auto
    with False show ?thesis using show_nat_digits [of "nat i"] that by (auto simp: show_int_def)
  qed
  have "find (\<lambda>(l, _). prefix l (show_int i @ r))
             [(''null'', JNull), (''true'', JBool True), (''false'', JBool False),
              (''NaN'', JFloat ''nan''), (''Infinity'', JFloat ''inf''), (''-Infinity'', JFloat ''-inf'')] = None"
    using c
  proof
    assume "is_digit c"
    from digit_not_letter [OF this] show ?thesis by (simp add: ct)
  next
    assume "c = CHR ''-'' \<and> (\<exists>d u. t = d # u \<and> is_digit d)"
    then obtain d u where "c = CHR ''-''" "t = d # u" "is_digit d" by blast
    with digit_not_letter [of d] show ?thesis by (simp add: ct)
  qed
  then show ?thesis by (simp add: json_literal_def json_number_int [OF assms])
qed


section \<open>Strings\<close>

definition ascii :: "string \<Rightarrow> bool" where
  "ascii s \<longleftrightarrow> list_all (\<lambda>c. of_char c < (128 :: nat)) s"

lemma hex_digit_ok:
  assumes "k < 16"
  shows "is_hex (hex_digit k)" and "hex_val (hex_digit k) = k"
  using assms by (auto simp: hex_digit_def is_hex_def hex_val_def Let_def)

lemma unescape_u_control:
  assumes "n < 128"
  shows "unescape_u [CHR ''0'', CHR ''0'', hex_digit (n div 16), hex_digit (n mod 16)] = [char_of n]"
proof -
  have "hex_val (CHR ''0'') = 0" by (simp add: hex_val_def)
  moreover have "n div 16 < 16" using assms by simp
  ultimately show ?thesis using assms hex_digit_ok(2) [of "n div 16"] hex_digit_ok(2) [of "n mod 16"]
    by (simp add: unescape_u_def)
qed

lemma json_str_quote_char:
  assumes "of_char c < (128 :: nat)"
  shows "json_str (quote_char c @ t) = push [c] (json_str t)"
proof -
  let ?esc = "[(CHR 0x22, CHR 0x22), (CHR 0x5C, CHR 0x5C), (CHR 0x08, CHR ''b''), (CHR 0x0C, CHR ''f''),
                   (CHR 0x0A, CHR ''n''), (CHR 0x0D, CHR ''r''), (CHR 0x09, CHR ''t'')]"
  show ?thesis
  proof (cases "map_of ?esc c")
    case (Some e)
    then have "(c, e) \<in> set ?esc" by (rule map_of_SomeD)
    then have "e \<noteq> CHR ''u'' \<and> unescape e = Some c" by (auto simp: unescape_def)
    with Some show ?thesis by (simp add: quote_char_def)
  next
    case None
    then have nc: "c \<noteq> CHR 0x22" "c \<noteq> CHR 0x5C" by (auto split: if_splits)
    define n where "n = (of_char c :: nat)"
    show ?thesis
    proof (cases "32 \<le> n")
      case True
      then have "quote_char c = [c]" using None assms by (simp only: quote_char_def n_def) simp
      then show ?thesis using nc True by (simp add: n_def)
    next
      case False
      then have q: "quote_char c = [CHR 0x5C, CHR ''u'', CHR ''0'', CHR ''0'', hex_digit (n div 16), hex_digit (n mod 16)]"
        using None by (simp only: quote_char_def n_def) (simp add: Let_def)
      have "n div 16 < 16" using False by simp
      then have "is_hex (hex_digit (n div 16))" "is_hex (hex_digit (n mod 16))" "is_hex (CHR ''0'')"
        using hex_digit_ok(1) by (auto simp: is_hex_def)
      moreover have "unescape_u [CHR ''0'', CHR ''0'', hex_digit (n div 16), hex_digit (n mod 16)] = [c]"
        using unescape_u_control [of n] False by (simp add: n_def)
      ultimately show ?thesis by (simp add: q)
    qed
  qed
qed

lemma push_Some: "push cs (Some (s, r)) = Some (cs @ s, r)"
  by (simp add: push_def)

lemma json_str_quote:
  assumes "ascii s"
  shows "json_str (concat (map quote_char s) @ CHR 0x22 # r) = Some (s, r)"
  using assms
proof (induction s)
  case Nil
  then show ?case by simp
next
  case (Cons c s)
  then have "json_str (quote_char c @ concat (map quote_char s) @ CHR 0x22 # r)
      = push [c] (json_str (concat (map quote_char s) @ CHR 0x22 # r))"
    by (intro json_str_quote_char) (simp add: ascii_def)
  with Cons show ?case by (simp add: ascii_def push_Some)
qed


section \<open>The round trip\<close>

text \<open>Values without floats, with ASCII strings and keys in increasing order.\<close>

fun exact_json :: "json \<Rightarrow> bool" where
  "exact_json JNull = True"
| "exact_json (JBool b) = True"
| "exact_json (JInt n) = True"
| "exact_json (JFloat r) = False"
| "exact_json (JStr s) = ascii s"
| "exact_json (JArr xs) = list_all exact_json xs"
| "exact_json (JObj m) = (sorted_wrt (<) (map fst m) \<and> list_all (\<lambda>(k, v). ascii k \<and> exact_json v) m)"

lemma map_snd_sorted:
  assumes "sorted_wrt (<) (map fst m)"
  shows "map snd (sort_key fst (map (\<lambda>(k, v). (k, f k v)) m)) = map (\<lambda>(k, v). f k v) (m :: (string \<times> 'a) list)"
proof -
  have "map fst (map (\<lambda>(k, v). (k, f k v)) m) = map fst m" by auto
  moreover have "sorted (map fst m)" using assms by (rule strict_sorted_imp_sorted)
  ultimately have "sort_key fst (map (\<lambda>(k, v). (k, f k v)) m) = map (\<lambda>(k, v). (k, f k v)) m"
    by (metis sort_key_id_if_sorted)
  then show ?thesis by auto
qed

lemma make_obj_sorted:
  assumes "distinct (map fst m)"
  shows "make_obj m = JObj m"
proof -
  have "fold (\<lambda>(k, v). AList.update k v) m acc = acc @ m"
    if "distinct (map fst (acc @ m))" for acc
    using that
  proof (induction m arbitrary: acc)
    case (Cons e m)
    obtain k v where e: "e = (k, v)" by (cases e)
    have "AList.update k v acc = acc @ [(k, v)]" using Cons.prems by (simp add: update_new e)
    then show ?case using Cons.IH [of "acc @ [(k, v)]"] Cons.prems by (simp add: e)
  qed simp
  from this [of "[]"] assms show ?thesis by (simp add: make_obj_def)
qed


lemma show_int_hd: "\<exists>c t. show_int i = c # t \<and> (is_digit c \<or> c = CHR ''-'')"
proof -
  have "\<exists>c t. show_nat n = c # t \<and> is_digit c" for n
    using show_nat_digits [of n] by (cases "show_nat n") auto
  from this [of "nat i"] show ?thesis by (auto simp: show_int_def)
qed

lemma dumps_hd:
  assumes "exact_json j"
  shows "\<exists>c t. json_dumps j = c # t \<and> \<not> json_ws c \<and> c \<noteq> CHR '']'' \<and> c \<noteq> CHR ''}''"
proof (cases j)
  case (JInt i)
  then show ?thesis using show_int_hd [of i] by (auto simp: is_digit_def json_ws_def)
qed (use assms in \<open>auto simp: json_ws_def quote_def\<close>)

lemma skip_ws_keep: "\<not> json_ws c \<Longrightarrow> skip_ws (c # t) = c # t"
  by (simp add: skip_ws_def)

lemma skip_ws_dumps: "exact_json j \<Longrightarrow> skip_ws (json_dumps j @ r) = json_dumps j @ r"
  using dumps_hd [of j] by (auto simp: skip_ws_keep)

lemma ws_punctuation [simp]:
  "\<not> json_ws (CHR '','')" "\<not> json_ws (CHR '']'')" "\<not> json_ws (CHR ''}'')" "\<not> json_ws (CHR '':'')"
  "\<not> json_ws (CHR 0x22)"
  by (simp_all add: json_ws_def)

definition reads_back :: "json \<Rightarrow> bool" where
  "reads_back j \<longleftrightarrow> (\<forall>r n. delim r \<longrightarrow> 2 * length (json_dumps j @ r) \<le> n \<longrightarrow>
     json_value n (json_dumps j @ r) = Some (j, r))"

lemma elems_read_back:
  assumes "\<forall>x \<in> set xs. exact_json x \<and> reads_back x" and "xs \<noteq> []"
    and "2 * length (join_comma (map json_dumps xs) @ CHR '']'' # r) + 1 \<le> n"
  shows "json_elems n (join_comma (map json_dumps xs) @ CHR '']'' # r) = Some (xs, r)"
  using assms
proof (induction xs arbitrary: n)
  case (Cons x xs)
  from Cons.prems(3) obtain k where n: "n = Suc k" by (cases n) auto
  show ?case
  proof (cases xs)
    case Nil
    have "json_value k (json_dumps x @ CHR '']'' # r) = Some (x, CHR '']'' # r)"
      using Cons.prems(1,3) Nil n by (auto simp: reads_back_def delim_def)
    then show ?thesis by (simp add: n Nil skip_ws_keep)
  next
    case (Cons y ys)
    let ?rest = "join_comma (map json_dumps xs) @ CHR '']'' # r"
    have s: "join_comma (map json_dumps (x # xs)) @ CHR '']'' # r = json_dumps x @ CHR '','' # ?rest"
      by (simp add: Cons)
    have len: "2 * length (json_dumps x @ CHR '','' # ?rest) + 1 \<le> Suc k"
      using Cons.prems(3) unfolding s n .
    have "json_value k (json_dumps x @ CHR '','' # ?rest) = Some (x, CHR '','' # ?rest)"
      using Cons.prems(1) len by (auto simp: reads_back_def delim_def)
    moreover have "skip_ws ?rest = ?rest"
      using Cons.prems(1) Cons skip_ws_dumps [of y] by (cases ys) auto
    moreover have "json_elems k ?rest = Some (xs, r)"
      using Cons.prems(1) len Cons by (intro Cons.IH) auto
    ultimately show ?thesis unfolding s by (simp add: n skip_ws_keep)
  qed
qed simp

lemma members_read_back:
  assumes "\<forall>(k, v) \<in> set m. ascii k \<and> exact_json v \<and> reads_back v" and "m \<noteq> []"
    and "2 * length (join_comma (map (\<lambda>(k, v). quote k @ '':'' @ json_dumps v) m) @ CHR ''}'' # r) + 1 \<le> n"
  shows "json_members n (join_comma (map (\<lambda>(k, v). quote k @ '':'' @ json_dumps v) m) @ CHR ''}'' # r) = Some (m, r)"
  using assms
proof (induction m arbitrary: n)
  case (Cons e m)
  obtain k v where e: "e = (k, v)" by (cases e)
  from Cons.prems(3) obtain l where n: "n = Suc l" by (cases n) auto
  have kv: "ascii k" "exact_json v" "reads_back v" using Cons.prems(1) by (auto simp: e)
  let ?show = "\<lambda>(k, v). quote k @ '':'' @ json_dumps v"
  define rest where "rest = join_comma (map ?show m) @ CHR ''}'' # r"
  define tail where "tail = (if m = [] then CHR ''}'' # r else CHR '','' # rest)"
  have s: "join_comma (map ?show (e # m)) @ CHR ''}'' # r = quote k @ CHR '':'' # json_dumps v @ tail"
    by (cases m) (auto simp: e tail_def rest_def)
  have len: "2 * length (quote k @ CHR '':'' # json_dumps v @ tail) + 1 \<le> Suc l"
    using Cons.prems(3) unfolding s n .
  have "delim tail" by (simp add: tail_def delim_def)
  then have val: "json_value l (json_dumps v @ tail) = Some (v, tail)"
    using kv(3) len by (auto simp: reads_back_def)
  have key: "json_str (concat (map quote_char k) @ CHR 0x22 # CHR '':'' # json_dumps v @ tail)
      = Some (k, CHR '':'' # json_dumps v @ tail)" using kv(1) by (rule json_str_quote)
  note head = val key skip_ws_dumps [OF kv(2)] skip_ws_keep
  show ?case
  proof (cases m)
    case Nil
    then show ?thesis unfolding s by (simp add: n quote_def head) (simp add: tail_def skip_ws_keep e)
  next
    case (Cons e' m')
    then have "skip_ws rest = rest" unfolding rest_def
      by (cases m'; cases e') (auto simp: quote_def skip_ws_keep)
    moreover have "json_members l rest = Some (m, r)"
      using Cons.prems(1) len Cons unfolding rest_def by (intro Cons.IH) (auto simp: tail_def rest_def)
    ultimately show ?thesis
      unfolding s by (simp add: n quote_def head) (simp add: tail_def skip_ws_keep e Cons)
  qed
qed simp


lemma literal_reads:
  assumes "0 < n"
  shows "json_value n (CHR ''n'' # CHR ''u'' # CHR ''l'' # CHR ''l'' # r) = Some (JNull, r)"
    and "json_value n (CHR ''t'' # CHR ''r'' # CHR ''u'' # CHR ''e'' # r) = Some (JBool True, r)"
    and "json_value n (CHR ''f'' # CHR ''a'' # CHR ''l'' # CHR ''s'' # CHR ''e'' # r) = Some (JBool False, r)"
  using assms by (cases n; simp add: json_literal_def)+

lemma exact_reads_back: "exact_json j \<Longrightarrow> reads_back j"
proof (induction j)
  case (JInt i)
  show ?case unfolding reads_back_def
  proof (intro allI impI)
    fix r n assume r: "delim r" and n: "2 * length (json_dumps (JInt i) @ r) \<le> n"
    obtain c t where ct: "show_int i = c # t" "is_digit c \<or> c = CHR ''-''" using show_int_hd by blast
    then obtain k where k: "n = Suc k" using n by (cases n) auto
    have "c \<noteq> CHR 0x22" "c \<noteq> CHR ''{''" "c \<noteq> CHR ''[''" using ct(2) by (auto simp: is_digit_def)
    then show "json_value n (json_dumps (JInt i) @ r) = Some (JInt i, r)"
      using json_literal_int [OF r, of i] by (simp add: k ct(1))
  qed
next
  case (JStr s)
  show ?case unfolding reads_back_def
  proof (intro allI impI)
    fix r n assume "delim r" and n: "2 * length (json_dumps (JStr s) @ r) \<le> n"
    then obtain k where k: "n = Suc k" by (cases n) (auto simp: quote_def)
    show "json_value n (json_dumps (JStr s) @ r) = Some (JStr s, r)"
      using JStr json_str_quote [of s r] by (simp add: k quote_def)
  qed
next
  case (JArr xs)
  show ?case unfolding reads_back_def
  proof (intro allI impI)
    fix r n assume r: "delim r" and n: "2 * length (json_dumps (JArr xs) @ r) \<le> n"
    then obtain k where k: "n = Suc k" by (cases n) auto
    show "json_value n (json_dumps (JArr xs) @ r) = Some (JArr xs, r)"
    proof (cases xs)
      case Nil
      then show ?thesis by (simp add: k skip_ws_keep)
    next
      case (Cons y ys)
      let ?s = "join_comma (map json_dumps xs) @ CHR '']'' # r"
      have all: "\<forall>x \<in> set xs. exact_json x \<and> reads_back x" using JArr by (auto simp: list_all_iff)
      then have "json_elems k ?s = Some (xs, r)" using n k Cons by (intro elems_read_back) auto
      moreover obtain c t where ct: "json_dumps y = c # t" "\<not> json_ws c" "c \<noteq> CHR '']''"
        using dumps_hd [of y] all Cons by auto
      then obtain t' where "?s = c # t'" using Cons by (cases ys) auto
      ultimately show ?thesis using ct by (simp add: k skip_ws_keep)
    qed
  qed
next
  case (JObj m)
  show ?case unfolding reads_back_def
  proof (intro allI impI)
    fix r n assume r: "delim r" and n: "2 * length (json_dumps (JObj m) @ r) \<le> n"
    then obtain k where k: "n = Suc k" by (cases n) auto
    let ?show = "\<lambda>(k, v). quote k @ '':'' @ json_dumps v"
    have sorted: "sorted_wrt (<) (map fst m)" using JObj.prems by simp
    have dumps: "json_dumps (JObj m) = CHR ''{'' # join_comma (map ?show m) @ ''}''"
      using map_snd_sorted [OF sorted, of "\<lambda>k v. quote k @ '':'' @ json_dumps v"] by simp
    show "json_value n (json_dumps (JObj m) @ r) = Some (JObj m, r)"
    proof (cases m)
      case Nil
      then show ?thesis by (simp add: k skip_ws_keep)
    next
      case (Cons e m')
      let ?s = "join_comma (map ?show m) @ CHR ''}'' # r"
      have "\<forall>(k, v) \<in> set m. ascii k \<and> exact_json v \<and> reads_back v"
        using JObj by (fastforce simp: list_all_iff)
      moreover have "2 * length ?s + 1 \<le> k" using n unfolding dumps k by simp
      ultimately have "json_members k ?s = Some (m, r)" using Cons by (intro members_read_back) auto
      moreover obtain t' where "?s = CHR 0x22 # t'" using Cons by (cases m'; cases e) (auto simp: quote_def)
      moreover have "make_obj m = JObj m"
        using sorted by (intro make_obj_sorted) (auto simp: strict_sorted_iff)
      ultimately show ?thesis unfolding dumps by (simp add: k skip_ws_keep)
    qed
  qed
qed (auto simp: reads_back_def literal_reads)

lemma loads_dumps:
  assumes "exact_json j"
  shows "json_loads (json_dumps j) = Some j"
proof -
  have "json_value (2 * length (json_dumps j) + 2) (json_dumps j) = Some (j, [])"
    using exact_reads_back [OF assms] unfolding reads_back_def
    by (metis append_Nil2 delim_def le_add1 list.simps(4))
  then show ?thesis
    using skip_ws_dumps [OF assms, of "[]"] by (simp add: json_loads_def skip_ws_def)
qed


section \<open>Unsorted keys\<close>

text \<open>A dictionary is written with its keys sorted, and read back in that order.\<close>

lemma insort_key_map: "(\<And>x. g (h x) = f x) \<Longrightarrow> insort_key g (h x) (map h ys) = map h (insort_key f x ys)"
  by (induction ys) auto

lemma sort_key_map: "(\<And>x. g (h x) = f x) \<Longrightarrow> sort_key g (map h xs) = map h (sort_key f xs)"
  by (induction xs) (simp_all add: insort_key_map)

lemma distinct_keys_sort: "distinct (map f (sort_key f xs)) \<longleftrightarrow> distinct (map f xs)"
  by (simp add: distinct_map)

lemma map_of_sort_key: "distinct (map fst m) \<Longrightarrow> map_of (sort_key fst m) = map_of m"
  by (subst map_of_inject_set) (auto simp: distinct_map)

primrec sort_json :: "json \<Rightarrow> json" where
  "sort_json JNull = JNull"
| "sort_json (JBool b) = JBool b"
| "sort_json (JInt n) = JInt n"
| "sort_json (JFloat r) = JFloat r"
| "sort_json (JStr s) = JStr s"
| "sort_json (JArr xs) = JArr (map sort_json xs)"
| "sort_json (JObj m) = JObj (sort_key fst (map (map_prod id sort_json) m))"

text \<open>A value that is written: no floats, ASCII texts, no repeated keys.\<close>

fun storable :: "json \<Rightarrow> bool" where
  "storable (JFloat r) = False"
| "storable (JStr s) = ascii s"
| "storable (JArr xs) = list_all storable xs"
| "storable (JObj m) = (distinct (map fst m) \<and> list_all (\<lambda>(k, v). ascii k \<and> storable v) m)"
| "storable _ = True"

lemma dumps_sort_json: "json_dumps (sort_json j) = json_dumps j"
proof (induction j)
  case (JArr xs)
  then have "map json_dumps (map sort_json xs) = map json_dumps xs" by simp
  then show ?case by (simp only: sort_json.simps json_dumps.simps)
next
  case (JObj m)
  let ?show = "\<lambda>(k, v). (k, quote k @ '':'' @ json_dumps v)"
  have s: "map ?show (map (map_prod id sort_json) m) = map ?show m" using JObj by (fastforce simp: snds.simps)
  have swap: "sort_key fst (map ?show xs) = map ?show (sort_key fst xs)" for xs
    by (rule sort_key_map) auto
  have "sort_key fst (map ?show (sort_key fst (map (map_prod id sort_json) m))) = sort_key fst (map ?show m)"
    by (simp only: swap sort_key_id_if_sorted sorted_sort_key s [symmetric])
  then show ?case by simp
qed simp_all

lemma sort_json_exact: "storable j \<Longrightarrow> exact_json (sort_json j)"
proof (induction j)
  case (JObj m)
  let ?m = "sort_key fst (map (map_prod id sort_json) m)"
  have "map fst (map (map_prod id sort_json) m) = map fst m" by simp
  with JObj.prems have "distinct (map fst (map (map_prod id sort_json) m))" by simp
  then have "distinct (map fst ?m)" by (simp only: distinct_keys_sort)
  then have "sorted_wrt (<) (map fst ?m)" by (simp add: strict_sorted_iff)
  moreover have "ascii (fst x) \<and> exact_json (sort_json (snd x))" if "x \<in> set m" for x
    using JObj.IH [OF that, of "snd x"] JObj.prems that by (cases x) (auto simp: list_all_iff)
  ultimately show ?case by (auto simp: list_all_iff split: prod.splits)
qed (auto simp: list_all_iff)

lemma loads_sorted: "storable j \<Longrightarrow> json_loads (json_dumps j) = Some (sort_json j)"
  using loads_dumps [OF sort_json_exact] by (simp add: dumps_sort_json)

lemma jget_sorted:
  assumes "sort_json (JObj m) = JObj m'" and "distinct (map fst m)"
  shows "map_of m' k = map_option sort_json (map_of m k)"
proof -
  have "map fst (map (map_prod id sort_json) m) = map fst m" by simp
  then have "map_of m' = map_of (map (map_prod id sort_json) m)"
    using assms map_of_sort_key by (metis json.inject(6) sort_json.simps(7))
  then show ?thesis by (simp add: map_prod_def map_of_map)
qed


section \<open>Properties\<close>

text \<open>
  a JSON value without floats, with ASCII strings and increasing keys, is read back exactly by
  \<open>json.loads\<close> from the text the compact \<open>json.dumps\<close> with sorted keys writes for it.
\<close>

theorem json_loads_dumps:
  assumes "exact_json j"
  shows "json_loads (json_dumps j) = Some j"
  using assms by (rule loads_dumps)

theorem json_loads_dumps_witness:
  "json_loads (json_dumps (JObj [(''a'', JArr [JInt (- 12), JNull]), (''b'', JStr ''x y'')]))
     = Some (JObj [(''a'', JArr [JInt (- 12), JNull]), (''b'', JStr ''x y'')])"
proof -
  have "exact_json (JObj [(''a'', JArr [JInt (- 12), JNull]), (''b'', JStr ''x y'')])"
    by (simp add: ascii_def)
  then show ?thesis by (rule json_loads_dumps)
qed

end
