(* ===== verification/Ws_Actions.thy ===== *)
theory Ws_Actions
  imports Action_Journal Json_Roundtrip
begin

text \<open>
  \<^verbatim>\<open>ws_actions.py\<close>: building and validating the one-order IOC action, classifying the venue's
  response, and the WebSocket POST multiplexer that correlates responses with requests. Signing is
  the argument \<open>sign\<close>. The multiplexer's coroutines are split at their \<open>await\<close> points into the atomic
  operations between them; an awaited future is \<open>Waiting\<close>, \<open>Resolved\<close> or \<open>Failed\<close>. Reasons keep the
  fixed part of their text.
\<close>

section \<open>Results\<close>

datatype PostOutcome =
    PO_NOT_SENT | PO_UNKNOWN | PO_REJECTED | PO_FILLED | PO_PARTIALLY_FILLED | PO_CANCELLED | PO_INFO

record PostResult =
  pr_request_id :: int
  pr_outcome :: PostOutcome
  pr_response :: json
  pr_reason :: string
  pr_filled_size :: rat
  pr_average_fill_price :: "rat option"
  pr_order_id :: "int option"

definition post_terminal :: "PostResult \<Rightarrow> bool" where
  "post_terminal r \<longleftrightarrow> pr_outcome r \<noteq> PO_UNKNOWN"

text \<open>The dataclass constructor with its defaults.\<close>

definition post_result :: "int \<Rightarrow> PostOutcome \<Rightarrow> json \<Rightarrow> string \<Rightarrow> PostResult" where
  "post_result rid outcome response why =
     \<lparr>pr_request_id = rid, pr_outcome = outcome, pr_response = response, pr_reason = why,
      pr_filled_size = 0, pr_average_fill_price = None, pr_order_id = None\<rparr>"


section \<open>The IOC action\<close>

text \<open>\<open>format(v, "f")\<close> of a normalized value with at most eight decimals.\<close>

definition pad8 :: "string \<Rightarrow> string" where
  "pad8 s = replicate (8 - length s) (CHR ''0'') @ s"

definition fixed8 :: "rat \<Rightarrow> string" where
  "fixed8 v =
     (let n = nat \<lfloor>v * 10 ^ 8\<rfloor>;
          frac = rev (dropWhile (\<lambda>c. c = CHR ''0'') (rev (pad8 (show_nat (n mod 10 ^ 8)))))
      in show_nat (n div 10 ^ 8) @ (if frac = [] then [] else CHR ''.'' # frac))"

definition wire_decimal :: "dec \<Rightarrow> string result" where
  "wire_decimal v =
     (if \<not> is_finite v \<or> dec_val v \<le> 0 then Inl (ValueError ''wire decimal must be finite and positive'')
      else let normalized = ctx (dec_val v)
           in if \<not> on_grid (- 8) normalized then Inl (ValueError ''wire decimal exceeds eight decimal places'')
              else Inr (fixed8 normalized))"

record IocAction =
  ioc_cloid :: string
  ioc_expected_size :: rat
  ioc_action :: json

text \<open>\<open>isinstance(x, str) and validate_cloid(x) == x and x == outer\<close>, with the exception of \<open>validate_cloid\<close>.\<close>

definition check_wire_cloid :: "json \<Rightarrow> string \<Rightarrow> unit result" where
  "check_wire_cloid c outer =
     (let bad = Inl (ValueError ''outer CLOID does not match IOC wire order CLOID'')
      in case c of
           JStr w \<Rightarrow> rbind (validate_cloid w) (\<lambda>v. if v \<noteq> w \<or> w \<noteq> outer then bad else Inr ())
         | _ \<Rightarrow> bad)"

fun is_ioc_limit :: "json \<Rightarrow> bool" where
  "is_ioc_limit (JObj t) = (case jget t ''limit'' of JObj l \<Rightarrow> jget l ''tif'' = JStr ''Ioc'' | _ \<Rightarrow> False)"
| "is_ioc_limit _ = False"

definition validate_ioc_wire :: "json \<Rightarrow> string \<Rightarrow> unit result" where
  "validate_ioc_wire action outer =
     (case action of
        JObj a \<Rightarrow>
          if jget a ''type'' \<noteq> JStr ''order'' \<or> jget a ''grouping'' \<noteq> JStr ''na''
          then Inl (ValueError ''IOC action envelope is invalid'')
          else (case jget a ''orders'' of
             JArr [order] \<Rightarrow>
               (case order of
                  JObj ord \<Rightarrow>
                    rbind (check_wire_cloid (jget ord ''c'') outer) (\<lambda>_.
                    require (is_ioc_limit (jget ord ''t'')) (ValueError ''wire order is not IOC''))
                | _ \<Rightarrow> Inl (ValueError ''IOC wire order is invalid''))
           | _ \<Rightarrow> Inl (ValueError ''IOC action must contain exactly one order''))
      | _ \<Rightarrow> Inl (ValueError ''IOC action envelope is invalid''))"

text \<open>\<open>IocAction.__post_init__\<close>.\<close>

definition make_ioc_action :: "string \<Rightarrow> dec \<Rightarrow> json \<Rightarrow> IocAction result" where
  "make_ioc_action cloid expected action =
     rbind (validate_cloid cloid) (\<lambda>v.
     if v \<noteq> cloid then Inl (ValueError ''IOC CLOID must be lowercase'')
     else if \<not> is_finite expected \<or> dec_val expected \<le> 0
     then Inl (ValueError ''IOC expected size must be finite and positive'')
     else rbind (validate_ioc_wire action cloid) (\<lambda>_.
          Inr \<lparr>ioc_cloid = cloid, ioc_expected_size = dec_val expected, ioc_action = action\<rparr>))"

text \<open>The wire order; the keys in the order \<open>sort_keys\<close> prints them.\<close>

definition ioc_wire :: "int \<Rightarrow> bool \<Rightarrow> string \<Rightarrow> string \<Rightarrow> bool \<Rightarrow> string \<Rightarrow> json" where
  "ioc_wire asset is_buy px sz reduce_only cloid =
     JObj [(''grouping'', JStr ''na''),
           (''orders'', JArr [JObj [(''a'', JInt asset), (''b'', JBool is_buy), (''c'', JStr cloid),
              (''p'', JStr px), (''r'', JBool reduce_only), (''s'', JStr sz),
              (''t'', JObj [(''limit'', JObj [(''tif'', JStr ''Ioc'')])])]]),
           (''type'', JStr ''order'')]"

definition build_ioc_action ::
  "int \<Rightarrow> bool \<Rightarrow> rat \<Rightarrow> dec \<Rightarrow> bool \<Rightarrow> string \<Rightarrow> IocAction result" where
  "build_ioc_action asset_id is_buy sz limit_px reduce_only cloid =
     rbind (validate_cloid cloid) (\<lambda>c.
     if asset_id < 0 then Inl (ValueError ''asset ID must be a non-negative integer'')
     else
       let expected = dabs sz
       in rbind (wire_decimal limit_px) (\<lambda>p.
          rbind (wire_decimal (Fin expected)) (\<lambda>s.
          make_ioc_action c (Fin expected) (ioc_wire asset_id is_buy p s reduce_only c))))"

record SignedIocAction =
  s_ioc :: IocAction
  s_nonce :: int
  s_expires_after_ms :: int
  s_payload :: json

text \<open>The payload around a signature; \<open>__post_init__\<close> compares it with the fields it was built from.\<close>

definition signed_payload :: "json \<Rightarrow> int \<Rightarrow> json \<Rightarrow> string option \<Rightarrow> int \<Rightarrow> json" where
  "signed_payload action nonce signature vault expires =
     JObj [(''action'', action), (''expiresAfter'', JInt expires), (''nonce'', JInt nonce),
           (''signature'', signature),
           (''vaultAddress'', case vault of None \<Rightarrow> JNull | Some v \<Rightarrow> JStr v)]"

definition make_signed_ioc :: "IocAction \<Rightarrow> int \<Rightarrow> int \<Rightarrow> json \<Rightarrow> SignedIocAction result" where
  "make_signed_ioc ioc nonce expires payload =
     rbind (validate_ioc_wire (ioc_action ioc) (ioc_cloid ioc)) (\<lambda>_.
     if nonce < 0 then Inl (ValueError ''nonce must be a non-negative integer'')
     else if expires \<le> 0 then Inl (ValueError ''expiresAfter must be a positive millisecond timestamp'')
     else case payload of
       JObj p \<Rightarrow>
         if jget p ''action'' \<noteq> ioc_action ioc
         then Inl (ValueError ''signed payload action does not match IOC action'')
         else if jget p ''nonce'' \<noteq> JInt nonce
         then Inl (ValueError ''signed payload nonce does not match assigned nonce'')
         else if jget p ''expiresAfter'' \<noteq> JInt expires
         then Inl (ValueError ''signed payload expiresAfter does not match assigned expiry'')
         else Inr \<lparr>s_ioc = ioc, s_nonce = nonce, s_expires_after_ms = expires, s_payload = payload\<rparr>
     | _ \<Rightarrow> Inl (ValueError ''signed payload action does not match IOC action''))"

definition sign_ioc_action ::
  "(json \<Rightarrow> string option \<Rightarrow> int \<Rightarrow> int \<Rightarrow> bool \<Rightarrow> json) \<Rightarrow> IocAction \<Rightarrow> int \<Rightarrow> int \<Rightarrow> bool \<Rightarrow> string option \<Rightarrow>
   SignedIocAction result" where
  "sign_ioc_action sign ioc nonce expires is_mainnet vault =
     (if nonce < 0 then Inl (ValueError ''nonce must be a non-negative integer'')
      else if expires \<le> 0 then Inl (ValueError ''expiresAfter must be a positive millisecond timestamp'')
      else rbind (validate_ioc_wire (ioc_action ioc) (ioc_cloid ioc)) (\<lambda>_.
           make_signed_ioc ioc nonce expires
             (signed_payload (ioc_action ioc) nonce
                (sign (ioc_action ioc) vault nonce expires is_mainnet) vault expires)))"


section \<open>Classifying a response\<close>

definition objects_of :: "json list \<Rightarrow> (string \<times> json) list list" where
  "objects_of xs = concat (map (\<lambda>x. case x of JObj m \<Rightarrow> [m] | _ \<Rightarrow> []) xs)"

text \<open>\<open>_item_statuses\<close> and its loop over the values of a dictionary.\<close>

fun item_statuses :: "json \<Rightarrow> (string \<times> json) list list"
  and first_statuses :: "(string \<times> json) list \<Rightarrow> (string \<times> json) list list" where
  "item_statuses (JObj m) =
     (case jget m ''data'' of
        JObj d \<Rightarrow>
          (case jget d ''statuses'' of
             JArr xs \<Rightarrow> objects_of xs
           | _ \<Rightarrow> (case jget m ''statuses'' of JArr xs \<Rightarrow> objects_of xs | _ \<Rightarrow> first_statuses m))
      | _ \<Rightarrow> (case jget m ''statuses'' of JArr xs \<Rightarrow> objects_of xs | _ \<Rightarrow> first_statuses m))"
| "item_statuses _ = []"
| "first_statuses [] = []"
| "first_statuses ((_, v) # m) =
     (case item_statuses v of [] \<Rightarrow> first_statuses m | xs \<Rightarrow> xs)"

text \<open>The first key of a list whose value is not \<open>None\<close>.\<close>

fun first_present :: "(string \<times> json) list \<Rightarrow> string list \<Rightarrow> json option" where
  "first_present m [] = None"
| "first_present m (k # ks) = (if jget m k = JNull then first_present m ks else Some (jget m k))"

definition filled_size :: "(string \<times> json) list \<Rightarrow> rat option" where
  "filled_size status =
     (case jget status ''filled'' of
        JObj filled \<Rightarrow>
          (case first_present filled [''totalSz'', ''sz'', ''size''] of
             None \<Rightarrow> None
           | Some v \<Rightarrow>
               (case parse_decimal (py_str v) of
                  Some (Fin x) \<Rightarrow> Some (dabs x)
                | _ \<Rightarrow> None))
      | _ \<Rightarrow> None)"

text \<open>\<open>int(v)\<close>; \<open>None\<close> for an exception. Single underscores may separate digits.\<close>

definition underscores_ok :: "string \<Rightarrow> bool" where
  "underscores_ok s \<longleftrightarrow>
     \<not> prefix ''_'' s \<and> \<not> suffix ''_'' s \<and> \<not> sublist ''__'' s"

definition parse_int_text :: "string \<Rightarrow> int option" where
  "parse_int_text s =
     (let (neg, u) = split_sign (py_strip s);
          ds = filter (\<lambda>c. c \<noteq> CHR ''_'') u
      in if ds = [] \<or> \<not> list_all is_digit ds \<or> \<not> underscores_ok u then None
         else Some (if neg then - digits_val ds else digits_val ds))"

fun py_int :: "json \<Rightarrow> int option" where
  "py_int (JInt n) = Some n"
| "py_int (JBool b) = Some (if b then 1 else 0)"
| "py_int (JFloat r) =
     (case parse_decimal r of
        Some (Fin x) \<Rightarrow> Some (if 0 \<le> x then \<lfloor>x\<rfloor> else \<lceil>x\<rceil>)
      | _ \<Rightarrow> None)"
| "py_int (JStr s) = parse_int_text s"
| "py_int _ = None"

definition filled_price_and_oid :: "(string \<times> json) list \<Rightarrow> rat option \<times> int option" where
  "filled_price_and_oid status =
     (case jget status ''filled'' of
        JObj filled \<Rightarrow>
          (case first_present filled [''avgPx'', ''averagePx'', ''averagePrice''] of
             None \<Rightarrow> None
           | Some v \<Rightarrow>
               (case parse_decimal (py_str v) of
                  Some (Fin x) \<Rightarrow> if 0 < x then Some x else None
                | _ \<Rightarrow> None),
           if jget filled ''oid'' = JNull then None
           else case py_int (jget filled ''oid'') of
             Some n \<Rightarrow> if 0 \<le> n then Some n else None
           | None \<Rightarrow> None)
      | _ \<Rightarrow> (None, None))"

definition item_result :: "json \<Rightarrow> rat \<Rightarrow> (string \<times> json) list \<Rightarrow> PostResult" where
  "item_result response expected item =
     (if list_ex (\<lambda>(k, _). py_lower k \<in> {''error'', ''err''}) item
      then post_result 0 PO_REJECTED response ''item_error''
      else case filled_size item of
        Some filled \<Rightarrow>
          let (avg, oid) = filled_price_and_oid item
          in if filled \<le> 0 then post_result 0 PO_UNKNOWN response ''invalid_filled_size''
             else if expected < filled
             then post_result 0 PO_UNKNOWN response ''reported_fill_exceeds_submitted_size''
             else if filled < expected
             then (post_result 0 PO_PARTIALLY_FILLED response ''ioc_partial_fill_terminal'')
                    \<lparr>pr_filled_size := filled, pr_average_fill_price := avg, pr_order_id := oid\<rparr>
             else (post_result 0 PO_FILLED response ''filled'')
                    \<lparr>pr_filled_size := filled, pr_average_fill_price := avg, pr_order_id := oid\<rparr>
      | None \<Rightarrow>
          if list_ex (\<lambda>(k, _). k = ''resting'') item
          then post_result 0 PO_UNKNOWN response ''ioc_resting_protocol_error''
          else if list_ex (\<lambda>(k, _). py_lower k \<in> {''cancel'', ''cancelled'', ''canceled''}) item
          then post_result 0 PO_CANCELLED response ''ioc_cancelled''
          else post_result 0 PO_UNKNOWN response ''unclassified_item_status'')"

definition action_payload :: "json \<Rightarrow> json" where
  "action_payload response =
     (case response of
        JObj m \<Rightarrow> if jget m ''type'' = JStr ''action'' then jget m ''payload'' else response
      | _ \<Rightarrow> response)"

definition classify_ioc_response :: "json \<Rightarrow> dec \<Rightarrow> PostResult result" where
  "classify_ioc_response response expected =
     (if \<not> is_finite expected \<or> dec_val expected \<le> 0
      then Inl (ValueError ''expected size must be finite and positive'')
      else Inr (
        case action_payload response of
             JObj m \<Rightarrow>
               if jget m ''type'' = JStr ''error''
               then post_result 0 PO_REJECTED response ''server_error_response''
               else if py_lower (str_or_empty (jget m ''status'')) \<in> {''err'', ''error'', ''failed'', ''rejected''}
               then post_result 0 PO_REJECTED response ''top_level_error''
               else (case item_statuses (dget m ''response'' (JObj m)) of
                       [item] \<Rightarrow> item_result response (dec_val expected) item
                     | _ \<Rightarrow> post_result 0 PO_UNKNOWN response ''missing_or_ambiguous_item_status'')
           | _ \<Rightarrow> post_result 0 PO_UNKNOWN response ''malformed_action_response''))"


section \<open>The wire text of a number\<close>

lemma digits_val_append: "digits_val (a @ b) = digits_val a * 10 ^ length b + digits_val b"
proof (induction b rule: rev_induct)
  case Nil
  then show ?case by (simp add: digits_val_def)
next
  case (snoc c b)
  then show ?case
    by (simp add: digits_val_snoc algebra_simps flip: append_assoc)
qed

lemma digits_val_zeros: "digits_val (replicate k (CHR ''0'')) = 0"
  by (induction k) (simp_all add: digits_val_def digit_val_def)

lemma show_nat_length: "n < 10 ^ k \<Longrightarrow> 0 < k \<Longrightarrow> length (show_nat n) \<le> k"
proof (induction k arbitrary: n)
  case 0
  then show ?case by simp
next
  case (Suc k)
  show ?case
  proof (cases "n < 10")
    case True
    then show ?thesis by (simp add: show_nat.simps)
  next
    case False
    with Suc.prems have "n div 10 < 10 ^ k" and "0 < k"
      by (auto intro!: gr0I simp: less_mult_imp_div_less)
    with Suc.IH [of "n div 10"] False show ?thesis by (simp add: show_nat.simps [of n])
  qed
qed

lemma pad8_props:
  assumes "n < 10 ^ 8"
  shows "length (pad8 (show_nat n)) = 8" "list_all is_digit (pad8 (show_nat n))"
    "digits_val (pad8 (show_nat n)) = int n"
proof -
  have "is_digit (CHR ''0'')" by (simp add: is_digit_def)
  then show "list_all is_digit (pad8 (show_nat n))"
    using show_nat_digits [of n] by (auto simp: pad8_def list_all_iff)
qed (use show_nat_length [OF assms] in
    \<open>simp_all add: pad8_def digits_val_append digits_val_zeros digits_val_show\<close>)

text \<open>Plain decimal notation is read by the \<open>Decimal\<close> constructor digit by digit.\<close>

lemma plain_char:
  "is_digit c \<or> c = CHR ''.'' \<Longrightarrow> \<not> py_space c \<and> lower_char c = c \<and> c \<noteq> CHR ''_'' \<and>
     c \<noteq> CHR ''-'' \<and> c \<noteq> CHR ''+'' \<and> c \<noteq> CHR ''i'' \<and> c \<noteq> CHR ''n'' \<and> c \<noteq> CHR ''s''"
  by (auto simp: is_digit_def py_space_def lower_char_def Let_def)

lemma plain_text:
  assumes "\<forall>c \<in> set s. is_digit c \<or> c = CHR ''.''"
  shows "py_strip s = s" "py_lower s = s" "filter (\<lambda>c. c \<noteq> CHR ''_'') s = s"
proof -
  have "dropWhile py_space t = t" if "set t \<subseteq> set s" for t
    using that assms plain_char by (cases t) auto
  then show "py_strip s = s" by (simp add: py_strip_def)
  show "py_lower s = s" using assms plain_char by (simp add: py_lower_def map_idI)
  show "filter (\<lambda>c. c \<noteq> CHR ''_'') s = s" using assms plain_char by (simp add: filter_id_conv)
qed

lemma parse_plain:
  assumes "list_all is_digit ip" and "ip \<noteq> []" and "list_all is_digit fp"
  shows "parse_decimal (ip @ (if fp = [] then [] else CHR ''.'' # fp)) =
    Some (Fin (of_int (digits_val (ip @ fp)) * pow10 (- int (length fp))))"
proof -
  let ?tail = "if fp = [] then [] else CHR ''.'' # fp"
  have plain: "\<forall>c \<in> set (ip @ ?tail). is_digit c \<or> c = CHR ''.''"
    using assms by (auto simp: list_all_iff)
  obtain c t where ip: "ip = c # t" using assms(2) by (cases ip) auto
  have c: "is_digit c" using assms(1) ip by simp
  have dot: "\<not> is_digit (CHR ''.'')" by (simp add: is_digit_def)
  have "parse_finite False (ip @ ?tail) =
      Some (Fin (of_int (digits_val (ip @ fp)) * pow10 (- int (length fp))))"
  proof -
    have "takeWhile is_digit (ip @ ?tail) = ip" "dropWhile is_digit (ip @ ?tail) = ?tail"
      using assms(1) dot by (simp_all add: takeWhile_append dropWhile_append list_all_iff)
    moreover have "fraction_part ?tail = (fp, [])"
      using assms(3) by (simp add: list_all_iff takeWhile_eq_all_conv dropWhile_eq_Nil_conv)
    ultimately show ?thesis using assms(2) by (simp add: parse_finite_def Let_def)
  qed
  moreover have "parse_decimal s = parse_finite False s"
    if "\<forall>c \<in> set s. is_digit c \<or> c = CHR ''.''" and "s = c # u" for s u
    using plain_char [of c] c that(2)
    unfolding parse_decimal_def plain_text [OF that(1)] by (auto simp: Let_def)
  ultimately show ?thesis using plain ip by simp
qed

lemma strip_zeros:
  obtains k where "s = rev (dropWhile (\<lambda>c. c = CHR ''0'') (rev s)) @ replicate k (CHR ''0'')"
proof
  let ?z = "takeWhile (\<lambda>c. c = CHR ''0'') (rev s)"
  have "?z = replicate (length ?z) (CHR ''0'')"
    by (rule replicate_eqI) (auto dest: set_takeWhileD)
  moreover have "s = rev (dropWhile (\<lambda>c. c = CHR ''0'') (rev s)) @ rev ?z"
    by (metis rev_append rev_rev_ident takeWhile_dropWhile_id)
  ultimately show "s = rev (dropWhile (\<lambda>c. c = CHR ''0'') (rev s)) @ replicate (length ?z) (CHR ''0'')"
    by (metis rev_replicate)
qed

lemma parse_fixed8:
  assumes "0 < v" and "on_grid (- 8) v"
  shows "parse_decimal (fixed8 v) = Some (Fin v)"
proof -
  obtain m where m: "v = of_int m * pow10 (- 8)"
    using assms(2) by (auto simp: on_grid_def elim!: Ints_cases) (metis nonzero_eq_divide_eq pow10_nz)
  have "0 < m" using assms(1) m by (simp add: zero_less_mult_iff)
  define n where "n = nat m"
  have mn: "m = int n" using \<open>0 < m\<close> by (simp add: n_def)
  have v: "v = of_nat n / 10 ^ 8" using m mn by (simp add: pow10_def)
  then have nf: "nat \<lfloor>v * 10 ^ 8\<rfloor> = n" by simp
  define pad where "pad = pad8 (show_nat (n mod 10 ^ 8))"
  define fp where "fp = rev (dropWhile (\<lambda>c. c = CHR ''0'') (rev pad))"
  have pad: "length pad = 8" "list_all is_digit pad" "digits_val pad = int (n mod 10 ^ 8)"
    using pad8_props [of "n mod 10 ^ 8"] by (simp_all add: pad_def)
  obtain k where k: "pad = fp @ replicate k (CHR ''0'')"
    using strip_zeros unfolding fp_def by blast
  have len: "length fp + k = 8" using pad(1) k by simp
  have "list_all is_digit fp" using pad(2) k by simp
  have "fixed8 v = show_nat (n div 10 ^ 8) @ (if fp = [] then [] else CHR ''.'' # fp)"
    unfolding fixed8_def nf fp_def pad_def Let_def ..
  moreover have "of_int (digits_val (show_nat (n div 10 ^ 8) @ fp)) * pow10 (- int (length fp)) = v"
  proof -
    have "digits_val pad = digits_val fp * 10 ^ k"
      using k by (simp add: digits_val_append digits_val_zeros)
    then have "digits_val (show_nat (n div 10 ^ 8) @ fp) * 10 ^ k
        = int (n div 10 ^ 8) * 10 ^ (length fp + k) + int (n mod 10 ^ 8)"
      using pad(3) by (simp add: digits_val_append digits_val_show power_add algebra_simps)
    also have "\<dots> = int n"
      using len by (simp add: of_nat_div of_nat_mod)
    finally have e: "of_int (digits_val (show_nat (n div 10 ^ 8) @ fp)) * 10 ^ k = (of_nat n :: rat)"
      by (metis of_int_mult of_int_numeral of_int_of_nat_eq of_int_power)
    have "pow10 (- int (length fp)) = 10 ^ k * pow10 (- 8)"
    proof -
      have "- int (length fp) = int k + - 8" using len by simp
      then show ?thesis by (simp only: pow10_add pow10_of_nat)
    qed
    then show ?thesis using e m mn by (simp only: mult.assoc [symmetric] of_int_of_nat_eq)
  qed
  ultimately show ?thesis
    using parse_plain [OF show_nat_digits show_nat_nonempty \<open>list_all is_digit fp\<close>] by simp
qed


lemma wire_decimal_reads:
  assumes "wire_decimal v = Inr s"
  shows "\<exists>x. v = Fin x \<and> 0 < x \<and> parse_decimal s = Some (Fin (ctx x))"
proof -
  obtain x where v: "v = Fin x" and pos: "0 < x"
    using assms by (cases v) (auto simp: wire_decimal_def split: if_splits)
  with assms have "on_grid (- 8) (ctx x)" and "s = fixed8 (ctx x)"
    by (auto simp: wire_decimal_def Let_def split: if_splits)
  with v pos show ?thesis by (simp add: parse_fixed8)
qed


section \<open>Building and signing\<close>

lemma validate_cloid_Inr:
  "validate_cloid c = Inr v \<Longrightarrow> v = py_lower c \<and> validate_cloid v = Inr v"
  by (auto simp: validate_cloid_def Let_def split: if_splits)

lemma validate_ioc_wire_of:
  "validate_cloid c = Inr c \<Longrightarrow> validate_ioc_wire (ioc_wire asset is_buy px sz ro c) c = Inr ()"
  by (simp add: validate_ioc_wire_def ioc_wire_def jget_def dget_def check_wire_cloid_def)

lemma build_ioc_action_shape:
  assumes "build_ioc_action asset is_buy sz limit_px ro cloid = Inr a"
  shows "\<exists>x px s. limit_px = Fin x \<and> 0 < x \<and> 0 \<le> asset \<and> sz \<noteq> 0 \<and>
    ioc_cloid a = py_lower cloid \<and> validate_cloid (ioc_cloid a) = Inr (ioc_cloid a) \<and>
    ioc_expected_size a = dabs sz \<and>
    ioc_action a = ioc_wire asset is_buy px s ro (ioc_cloid a) \<and>
    validate_ioc_wire (ioc_action a) (ioc_cloid a) = Inr () \<and>
    parse_decimal px = Some (Fin (ctx x)) \<and> parse_decimal s = Some (Fin (ioc_expected_size a))"
proof -
  from assms obtain c px s where c: "validate_cloid cloid = Inr c" and pos: "0 \<le> asset"
    and px: "wire_decimal limit_px = Inr px" and s: "wire_decimal (Fin (dabs sz)) = Inr s"
    and a: "make_ioc_action c (Fin (dabs sz)) (ioc_wire asset is_buy px s ro c) = Inr a"
    by (auto simp: build_ioc_action_def Let_def split: if_splits)
  note c' = validate_cloid_Inr [OF c]
  from wire_decimal_reads [OF s] have "sz \<noteq> 0" and "parse_decimal s = Some (Fin (dabs sz))"
    by (auto simp: dabs_def)
  moreover from a c' have "a = \<lparr>ioc_cloid = c, ioc_expected_size = dabs sz,
      ioc_action = ioc_wire asset is_buy px s ro c\<rparr>"
    by (auto simp: make_ioc_action_def split: if_splits)
  ultimately show ?thesis
    using c' pos wire_decimal_reads [OF px] by (auto simp: validate_ioc_wire_of) blast
qed

lemma sign_ioc_action_total:
  assumes "validate_ioc_wire (ioc_action ioc) (ioc_cloid ioc) = Inr ()" and "0 \<le> nonce" and "0 < expires"
  shows "sign_ioc_action sign ioc nonce expires mainnet vault =
    Inr \<lparr>s_ioc = ioc, s_nonce = nonce, s_expires_after_ms = expires,
         s_payload = signed_payload (ioc_action ioc) nonce
           (sign (ioc_action ioc) vault nonce expires mainnet) vault expires\<rparr>"
  using assms by (simp add: sign_ioc_action_def make_signed_ioc_def signed_payload_def jget_def dget_def)


section \<open>Classification\<close>

lemma item_result_cases:
  "pr_request_id (item_result resp e item) = 0 \<and> pr_response (item_result resp e item) = resp \<and>
   (case pr_outcome (item_result resp e item) of
      PO_FILLED \<Rightarrow> filled_size item = Some e \<and> 0 < e \<and> pr_filled_size (item_result resp e item) = e
    | PO_PARTIALLY_FILLED \<Rightarrow> filled_size item = Some (pr_filled_size (item_result resp e item)) \<and>
        0 < pr_filled_size (item_result resp e item) \<and> pr_filled_size (item_result resp e item) < e
    | PO_NOT_SENT \<Rightarrow> False | PO_INFO \<Rightarrow> False
    | _ \<Rightarrow> pr_filled_size (item_result resp e item) = 0)"
  by (cases "filled_size item") (auto simp: item_result_def post_result_def Let_def split: prod.splits)


lemma classify_ioc_response_cases:
  assumes "classify_ioc_response resp expected = Inr r"
  shows "\<exists>e. expected = Fin e \<and> 0 < e \<and> pr_response r = resp \<and> pr_request_id r = 0 \<and>
    (case pr_outcome r of
       PO_FILLED \<Rightarrow> pr_filled_size r = e
     | PO_PARTIALLY_FILLED \<Rightarrow> 0 < pr_filled_size r \<and> pr_filled_size r < e
     | PO_NOT_SENT \<Rightarrow> False | PO_INFO \<Rightarrow> False
     | _ \<Rightarrow> pr_filled_size r = 0)"
proof -
  obtain e where e: "expected = Fin e" "0 < e"
    using assms by (cases expected) (auto simp: classify_ioc_response_def split: if_splits)
  have "(\<exists>out why. r = post_result 0 out resp why \<and> out \<in> {PO_REJECTED, PO_UNKNOWN}) \<or>
      (\<exists>item. r = item_result resp e item)"
    using assms e by (auto simp: classify_ioc_response_def split: if_splits json.splits list.splits)
  then show ?thesis
  proof (elim disjE exE conjE)
    fix item
    assume "r = item_result resp e item"
    with item_result_cases [of resp e item] e show ?thesis by (auto split: PostOutcome.splits)
  qed (use e in \<open>auto simp: post_result_def\<close>)
qed

lemma make_ioc_action_wire:
  "validate_cloid c = Inr c \<Longrightarrow> 0 < e \<Longrightarrow>
   make_ioc_action c (Fin e) (ioc_wire asset is_buy px s ro c) =
     Inr \<lparr>ioc_cloid = c, ioc_expected_size = e, ioc_action = ioc_wire asset is_buy px s ro c\<rparr>"
  by (simp add: make_ioc_action_def validate_ioc_wire_of)

lemma build_ioc_action_total:
  assumes c: "validate_cloid cloid = Inr c" and "0 \<le> asset" and "0 < x" and "on_grid (- 8) (ctx x)"
    and "sz \<noteq> 0" and "on_grid (- 8) (dabs sz)"
  shows "build_ioc_action asset is_buy sz (Fin x) ro cloid =
    Inr \<lparr>ioc_cloid = c, ioc_expected_size = dabs sz,
         ioc_action = ioc_wire asset is_buy (fixed8 (ctx x)) (fixed8 (dabs sz)) ro c\<rparr>"
proof -
  have "0 < dabs sz" "ctx (dabs sz) = dabs sz" using assms(5) by (simp_all add: dabs_def)
  moreover have "validate_cloid c = Inr c" using validate_cloid_Inr [OF c] by (rule conjunct2)
  ultimately show ?thesis
    using assms by (simp add: build_ioc_action_def wire_decimal_def make_ioc_action_wire Let_def)
qed


section \<open>Properties\<close>

text \<open>
  an IOC action that \<open>build_ioc_action\<close> returns carries the one order it was asked for. Its CLOID
  is the lower-cased identifier and is the CLOID inside the wire order; its wire form passes the
  validation repeated before signing and before sending; and the price and size texts on the wire
  read back as exactly the limit price and the positive size the caller holds as the expected size.
\<close>

theorem build_ioc_action_exact:
  assumes "build_ioc_action asset is_buy sz limit_px ro cloid = Inr a"
  shows "\<exists>x px s. limit_px = Fin x \<and> 0 < x \<and> 0 \<le> asset \<and> sz \<noteq> 0 \<and>
    ioc_cloid a = py_lower cloid \<and> validate_cloid (ioc_cloid a) = Inr (ioc_cloid a) \<and>
    ioc_expected_size a = dabs sz \<and>
    ioc_action a = ioc_wire asset is_buy px s ro (ioc_cloid a) \<and>
    validate_ioc_wire (ioc_action a) (ioc_cloid a) = Inr () \<and>
    parse_decimal px = Some (Fin (ctx x)) \<and> parse_decimal s = Some (Fin (ioc_expected_size a))"
  using assms by (rule build_ioc_action_shape)

theorem build_ioc_action_exact_witness:
  "\<exists>a x px s. build_ioc_action 3 True (- 1 / 4) (Fin 100) False (''0X'' @ replicate 32 (CHR ''a'')) = Inr a \<and>
     Fin 100 = Fin x \<and> ioc_cloid a = ''0x'' @ replicate 32 (CHR ''a'') \<and>
     ioc_action a = ioc_wire 3 True px s False (ioc_cloid a) \<and>
     parse_decimal px = Some (Fin (ctx x)) \<and> parse_decimal s = Some (Fin (1 / 4))"
proof -
  have c: "validate_cloid (''0X'' @ replicate 32 (CHR ''a'')) = Inr (''0x'' @ replicate 32 (CHR ''a''))"
    by code_simp
  have g: "on_grid (- 8) (ctx 100)" "dabs (- 1 / 4) = 1 / 4" "on_grid (- 8) (dabs (- 1 / 4))"
    by (simp_all add: dec_eval on_grid_def)
  obtain a where a: "build_ioc_action 3 True (- 1 / 4) (Fin 100) False (''0X'' @ replicate 32 (CHR ''a'')) = Inr a"
    using build_ioc_action_total [OF c, of 3 100 "- 1 / 4" True False] g by auto
  have "py_lower (''0X'' @ replicate 32 (CHR ''a'')) = ''0x'' @ replicate 32 (CHR ''a'')"
    by code_simp
  with build_ioc_action_exact [OF a] a g show ?thesis by metis
qed

text \<open>
  the classification of a venue response never reports a fill the response does not support.
  FILLED means the reported size is exactly the submitted size, PARTIALLY_FILLED a positive size
  below it; every other outcome carries no fill. A classified response is never NOT_SENT: once the
  request was written only a response that names the order can settle it.
\<close>

theorem classify_ioc_response_sound:
  assumes "classify_ioc_response resp expected = Inr r"
  shows "\<exists>e. expected = Fin e \<and> 0 < e \<and> pr_response r = resp \<and> pr_request_id r = 0 \<and>
    (case pr_outcome r of
       PO_FILLED \<Rightarrow> pr_filled_size r = e
     | PO_PARTIALLY_FILLED \<Rightarrow> 0 < pr_filled_size r \<and> pr_filled_size r < e
     | PO_NOT_SENT \<Rightarrow> False | PO_INFO \<Rightarrow> False
     | _ \<Rightarrow> pr_filled_size r = 0)"
  using assms by (rule classify_ioc_response_cases)

theorem classify_ioc_response_sound_witness:
  "\<exists>r e. classify_ioc_response (JObj [(''status'', JStr ''ok''), (''response'', JObj [(''data'',
        JObj [(''statuses'', JArr [JObj [(''filled'', JObj [(''totalSz'', JStr ''0.02'')])]])])])])
      (Fin (1 / 50)) = Inr r \<and> Fin (1 / 50) = Fin e \<and> pr_outcome r = PO_FILLED \<and> pr_filled_size r = e"
proof -
  have size: "filled_size [(''filled'', JObj [(''totalSz'', JStr ''0.02'')])] = Some (1 / 50)"
    by (simp add: filled_size_def jget_def dget_def py_str.simps parse_decimal_def py_strip_def py_space_def
        py_lower_def lower_char_def parse_finite_def is_digit_def digits_val_def digit_val_def dec_eval)
  have c: "classify_ioc_response (JObj [(''status'', JStr ''ok''), (''response'', JObj [(''data'',
        JObj [(''statuses'', JArr [JObj [(''filled'', JObj [(''totalSz'', JStr ''0.02'')])]])])])])
      (Fin (1 / 50)) = Inr (item_result (JObj [(''status'', JStr ''ok''), (''response'', JObj [(''data'',
        JObj [(''statuses'', JArr [JObj [(''filled'', JObj [(''totalSz'', JStr ''0.02'')])]])])])])
        (1 / 50) [(''filled'', JObj [(''totalSz'', JStr ''0.02'')])])"
    by (simp add: classify_ioc_response_def action_payload_def jget_def dget_def str_or_empty_def
        objects_of_def py_lower_def lower_char_def)
  from classify_ioc_response_sound [OF c] size c show ?thesis
    by (auto simp: item_result_def py_lower_def lower_char_def post_result_def split: prod.splits)
qed

end
