(* ===== verification/Order_Status.thy ===== *)
theory Order_Status
  imports Ws_Actions
begin

text \<open>
  \<^verbatim>\<open>reconciliation.py\<close>, \<open>classify_order_status\<close>: what an \<open>orderStatus\<close> reply proves about an order. The
  closure \<open>visit\<close> walks the whole reply in document order and collects status texts and quantities
  into the enclosing function's lists, which are the fields of \<open>visited\<close>.
\<close>

record OrderStatusResolution =
  os_resolved :: bool
  os_terminal :: bool
  os_state :: string
  os_cumulative_filled_abs :: rat
  os_oid :: "int option"
  os_raw :: json

record visited =
  v_statuses :: "string list"
  v_quantities :: "rat list"
  v_oid :: "int option"
  v_original_sizes :: "rat list"
  v_remaining_sizes :: "rat list"

definition decimal_value :: "json \<Rightarrow> rat option" where
  "decimal_value v =
     (case parse_decimal (py_str v) of
        Some (Fin x) \<Rightarrow> if 0 \<le> x then Some (dabs x) else None
      | _ \<Rightarrow> None)"

text \<open>The decimal values under those of the given keys that are present.\<close>

definition sizes_under :: "(string \<times> json) list \<Rightarrow> string list \<Rightarrow> rat list" where
  "sizes_under m keys =
     concat (map (\<lambda>k. if jget m k = JNull then []
                      else case decimal_value (jget m k) of None \<Rightarrow> [] | Some x \<Rightarrow> [x]) keys)"

definition visit_fields :: "(string \<times> json) list \<Rightarrow> visited \<Rightarrow> visited" where
  "visit_fields m v =
     v\<lparr>v_statuses := v_statuses v @ (case jget m ''status'' of JStr s \<Rightarrow> [s] | _ \<Rightarrow> []),
       v_quantities := v_quantities v @ sizes_under m [''totalSz'', ''filledSz'', ''filledSize'', ''executedSz''],
       v_oid := (if v_oid v = None \<and> jget m ''oid'' \<noteq> JNull then py_int (jget m ''oid'') else v_oid v),
       v_original_sizes := v_original_sizes v @ sizes_under m [''origSz'', ''originalSz''],
       v_remaining_sizes := v_remaining_sizes v @ sizes_under m [''sz'']\<rparr>"

fun visit :: "json \<Rightarrow> visited \<Rightarrow> visited"
  and visit_members :: "(string \<times> json) list \<Rightarrow> visited \<Rightarrow> visited"
  and visit_items :: "json list \<Rightarrow> visited \<Rightarrow> visited" where
  "visit (JObj m) v = visit_members m (visit_fields m v)"
| "visit (JArr xs) v = visit_items xs v"
| "visit _ v = v"
| "visit_members [] v = v"
| "visit_members ((_, x) # m) v = visit_members m (visit x v)"
| "visit_items [] v = v"
| "visit_items (x # xs) v = visit_items xs (visit x v)"

definition nothing_visited :: visited where
  "nothing_visited = \<lparr>v_statuses = [], v_quantities = [], v_oid = None, v_original_sizes = [], v_remaining_sizes = []\<rparr>"

definition alnum_char :: "char \<Rightarrow> bool" where
  "alnum_char c =
     (let n = (of_char c :: nat) in 48 \<le> n \<and> n \<le> 57 \<or> 65 \<le> n \<and> n \<le> 90 \<or> 97 \<le> n \<and> n \<le> 122)"

definition normalize_status :: "string \<Rightarrow> string" where
  "normalize_status s = filter alnum_char (py_lower s)"

text \<open>\<open>max(xs, default=0)\<close> over non-negative values.\<close>

definition max_or_zero :: "rat list \<Rightarrow> rat" where
  "max_or_zero xs = (case xs of [] \<Rightarrow> 0 | _ \<Rightarrow> Max (set xs))"

definition reported_cumulative :: "visited \<Rightarrow> rat" where
  "reported_cumulative v =
     (if v_original_sizes v \<noteq> [] \<and> v_remaining_sizes v \<noteq> []
      then max (max_or_zero (v_quantities v))
             (max 0 (dsub (Max (set (v_original_sizes v))) (Min (set (v_remaining_sizes v)))))
      else max_or_zero (v_quantities v))"

definition terminal_states :: "(string \<times> string) list" where
  "terminal_states =
     [(''filled'', ''filled''), (''canceled'', ''cancelled''), (''cancelled'', ''cancelled''),
      (''rejected'', ''rejected''), (''expired'', ''expired''),
      (''margincanceled'', ''cancelled''), (''margincancelled'', ''cancelled''),
      (''openinterestcapcanceled'', ''cancelled''), (''openinterestcapcancelled'', ''cancelled''),
      (''selftradecanceled'', ''cancelled''), (''selftradecancelled'', ''cancelled'')]"

definition terminal_state_of :: "string \<Rightarrow> string option" where
  "terminal_state_of status =
     (case map_of terminal_states status of
        Some s \<Rightarrow> Some s
      | None \<Rightarrow>
          if status = ''scheduledcancel'' \<or> suffix ''canceled'' status \<or> suffix ''cancelled'' status
          then Some ''cancelled''
          else if suffix ''rejected'' status then Some ''rejected''
          else None)"

definition open_state_of :: "string \<Rightarrow> string option" where
  "open_state_of status =
     (if status \<in> {''partiallyfilled'', ''partialfill''} then Some ''partially_filled''
      else if status \<in> {''open'', ''resting'', ''triggered'', ''pending''} then Some ''resting''
      else None)"

text \<open>The first status of the list that a classifier recognizes.\<close>

fun first_state :: "(string \<Rightarrow> string option) \<Rightarrow> string list \<Rightarrow> string option" where
  "first_state f [] = None"
| "first_state f (s # ss) = (case f s of None \<Rightarrow> first_state f ss | Some x \<Rightarrow> Some x)"

definition classify_order_status :: "json \<Rightarrow> dec \<Rightarrow> OrderStatusResolution result" where
  "classify_order_status payload expected =
     (if \<not> is_finite expected \<or> dec_val expected \<le> 0
      then Inl (ValueError ''expected order size must be finite and positive'')
      else Inr (
        let v = visit payload nothing_visited;
            normalized = map normalize_status (v_statuses v);
            cumulative = reported_cumulative v;
            resolution = (\<lambda>resolved terminal state size.
              \<lparr>os_resolved = resolved, os_terminal = terminal, os_state = state,
               os_cumulative_filled_abs = size, os_oid = v_oid v, os_raw = payload\<rparr>)
        in if dec_val expected < cumulative
           then resolution False False ''reported_fill_exceeds_submitted_size'' cumulative
           else case first_state terminal_state_of normalized of
             Some state \<Rightarrow>
               resolution True True state
                 (if state = ''filled'' \<and> cumulative = 0 then dec_val expected else cumulative)
           | None \<Rightarrow>
               (case first_state open_state_of normalized of
                  Some state \<Rightarrow> resolution True False state cumulative
                | None \<Rightarrow> resolution False False ''unknown_transport_outcome'' cumulative)))"


section \<open>What a resolution is\<close>

lemma decimal_value_nonneg: "decimal_value v = Some x \<Longrightarrow> 0 \<le> x"
  by (auto simp: decimal_value_def dabs_def split: option.splits dec.splits if_splits)

lemma sizes_under_nonneg: "x \<in> set (sizes_under m keys) \<Longrightarrow> 0 \<le> x"
  by (auto simp: sizes_under_def split: if_splits option.splits intro: decimal_value_nonneg [OF sym])

definition quantities_ok :: "visited \<Rightarrow> bool" where
  "quantities_ok v \<longleftrightarrow> (\<forall>x \<in> set (v_quantities v). 0 \<le> x)"

lemma visit_fields_nonneg: "quantities_ok v \<Longrightarrow> quantities_ok (visit_fields m v)"
  by (auto simp: visit_fields_def quantities_ok_def dest: sizes_under_nonneg)

lemma visit_quantities_nonneg:
  "quantities_ok v \<Longrightarrow> quantities_ok (visit j v)"
  "quantities_ok v \<Longrightarrow> quantities_ok (visit_members m v)"
  "quantities_ok v \<Longrightarrow> quantities_ok (visit_items xs v)"
  by (induction j v and m v and xs v rule: visit_visit_members_visit_items.induct)
    (simp_all add: visit_fields_nonneg)

lemma reported_cumulative_nonneg: "0 \<le> reported_cumulative (visit j nothing_visited)"
proof -
  have "quantities_ok (visit j nothing_visited)"
    by (rule visit_quantities_nonneg) (simp add: nothing_visited_def quantities_ok_def)
  then have "0 \<le> max_or_zero (v_quantities (visit j nothing_visited))"
    by (auto simp: max_or_zero_def Max_ge_iff quantities_ok_def split: list.splits)
  then show ?thesis by (auto simp: reported_cumulative_def le_max_iff_disj)
qed

lemma terminal_state_values:
  "terminal_state_of s = Some t \<Longrightarrow> t \<in> {''filled'', ''cancelled'', ''rejected'', ''expired''}"
  by (auto simp: terminal_state_of_def terminal_states_def split: option.splits if_splits)

lemma first_state_Some: "first_state f ss = Some x \<Longrightarrow> \<exists>s \<in> set ss. f s = Some x"
  by (induction ss) (auto split: option.splits)

lemma classify_order_status_cases:
  assumes "classify_order_status payload expected = Inr r"
  shows "\<exists>e. expected = Fin e \<and> 0 < e \<and> 0 \<le> os_cumulative_filled_abs r \<and> os_raw r = payload \<and>
    (os_resolved r \<longrightarrow> os_cumulative_filled_abs r \<le> e) \<and>
    (os_resolved r \<longrightarrow> (if os_terminal r then os_state r \<in> {''filled'', ''cancelled'', ''rejected'', ''expired''}
       else os_state r \<in> {''partially_filled'', ''resting''})) \<and>
    (os_resolved r \<and> os_state r = ''filled'' \<longrightarrow> 0 < os_cumulative_filled_abs r) \<and>
    (\<not> os_resolved r \<longrightarrow> \<not> os_terminal r \<and>
       os_state r \<in> {''reported_fill_exceeds_submitted_size'', ''unknown_transport_outcome''})"
proof -
  obtain e where e: "expected = Fin e" "0 < e"
    using assms by (cases expected) (auto simp: classify_order_status_def split: if_splits)
  let ?c = "reported_cumulative (visit payload nothing_visited)"
  have "0 \<le> ?c" by (rule reported_cumulative_nonneg)
  have o: "first_state open_state_of ss = Some t \<Longrightarrow> t \<in> {''partially_filled'', ''resting''}" for ss t
    by (auto dest!: first_state_Some simp: open_state_of_def split: if_splits)
  have t: "first_state terminal_state_of ss = Some t \<Longrightarrow>
      t \<in> {''filled'', ''cancelled'', ''rejected'', ''expired''}" for ss t
    by (blast dest: first_state_Some terminal_state_values)
  let ?ss = "map normalize_status (v_statuses (visit payload nothing_visited))"
  note d = assms [unfolded classify_order_status_def e(1), simplified, symmetric]
  show ?thesis
  proof (cases "e < ?c")
    case True
    with d e \<open>0 \<le> ?c\<close> show ?thesis by (simp add: Let_def)
  next
    case le: False
    show ?thesis
    proof (cases "first_state terminal_state_of ?ss")
      case (Some st)
      from t [OF Some] d e le \<open>0 \<le> ?c\<close> show ?thesis by (auto simp: Let_def Some)
    next
      case None
      show ?thesis
      proof (cases "first_state open_state_of ?ss")
        case (Some st)
        from o [OF Some] d e le \<open>0 \<le> ?c\<close> None show ?thesis by (auto simp: Let_def Some)
      qed (use d e le \<open>0 \<le> ?c\<close> None in \<open>simp add: Let_def\<close>)
    qed
  qed
qed

text \<open>A status read later in the reply cannot undo a terminal one: the first recognized status decides.\<close>

lemma classify_unresolved_iff:
  assumes "classify_order_status payload (Fin e) = Inr r"
  shows "os_resolved r \<longleftrightarrow> reported_cumulative (visit payload nothing_visited) \<le> e \<and>
    (\<exists>s \<in> set (v_statuses (visit payload nothing_visited)).
       terminal_state_of (normalize_status s) \<noteq> None \<or> open_state_of (normalize_status s) \<noteq> None)"
proof -
  have none: "first_state f ss = None \<longleftrightarrow> (\<forall>s \<in> set ss. f s = None)" for f ss
    by (induction ss) (auto split: option.splits)
  let ?ss = "map normalize_status (v_statuses (visit payload nothing_visited))"
  show ?thesis
    using assms none [of terminal_state_of ?ss] none [of open_state_of ?ss]
    by (cases "first_state terminal_state_of ?ss"; cases "first_state open_state_of ?ss")
      (auto simp: classify_order_status_def Let_def not_less split: if_splits)
qed


section \<open>Properties\<close>

text \<open>
  an \<open>orderStatus\<close> reply resolves an order exactly when the fill it reports does not exceed the
  submitted size and some status in it is a known terminal or open status. A resolution then carries
  a fill between zero and the submitted size, a terminal one names one of the four terminal
  outcomes, and \<open>filled\<close> always comes with a positive fill; an unresolved reply is never terminal.
\<close>

theorem classify_order_status_sound:
  assumes "classify_order_status payload (Fin e) = Inr r"
  shows "0 < e \<and> 0 \<le> os_cumulative_filled_abs r \<and>
    (os_resolved r \<longleftrightarrow> reported_cumulative (visit payload nothing_visited) \<le> e \<and>
      (\<exists>s \<in> set (v_statuses (visit payload nothing_visited)).
         terminal_state_of (normalize_status s) \<noteq> None \<or> open_state_of (normalize_status s) \<noteq> None)) \<and>
    (os_resolved r \<longrightarrow> os_cumulative_filled_abs r \<le> e) \<and>
    (os_terminal r \<longrightarrow> os_resolved r \<and> os_state r \<in> {''filled'', ''cancelled'', ''rejected'', ''expired''}) \<and>
    (os_resolved r \<and> os_state r = ''filled'' \<longrightarrow> 0 < os_cumulative_filled_abs r)"
  using classify_order_status_cases [OF assms] classify_unresolved_iff [OF assms]
  by (auto split: if_splits)

definition ex_status :: json where
  "ex_status = JObj [(''status'', JStr ''order''), (''order'', JObj [(''status'', JStr ''Filled'')])]"

theorem classify_order_status_sound_witness:
  "\<exists>r. classify_order_status ex_status (Fin 2) = Inr r \<and> os_resolved r \<and> os_state r = ''filled'' \<and>
     0 < os_cumulative_filled_abs r"
proof -
  have n: "normalize_status ''order'' = ''order''" "normalize_status ''Filled'' = ''filled''"
    by code_simp+
  have c: "classify_order_status ex_status (Fin 2) =
      Inr \<lparr>os_resolved = True, os_terminal = True, os_state = ''filled'', os_cumulative_filled_abs = 2,
           os_oid = None, os_raw = ex_status\<rparr>"
    by (simp add: classify_order_status_def ex_status_def nothing_visited_def visit_fields_def jget_def
        dget_def sizes_under_def n reported_cumulative_def max_or_zero_def terminal_state_of_def terminal_states_def suffix_def
        open_state_of_def)
  from classify_order_status_sound [OF c] c show ?thesis by simp
qed

end
