(* ===== verification/Journal_Ledger.thy ===== *)
theory Journal_Ledger
  imports Action_Journal
begin

text \<open>
  The contract of the action journal: an abstract ledger of order intents, the simulation that
  shows every method of the journal implements it, and the properties of nonces, sends, fills,
  outcomes and recovery that the executor relies on.
\<close>

section \<open>The abstract ledger the journal implements\<close>

text \<open>
  What the rest of the program may assume of the journal: an order intent is created unsent, is
  sent at most once or abandoned, and from then on only accumulates fills up to the requested
  size until it is closed for good.
\<close>

datatype phase = Unsent | Abandoned | Open | Closed

record intent =
  i_phase :: phase
  i_requested :: rat
  i_filled :: rat

inductive intent_step :: "intent \<Rightarrow> intent \<Rightarrow> bool" where
  intent_send: "i_phase i = Unsent \<Longrightarrow> intent_step i (i\<lparr>i_phase := Open\<rparr>)"
| intent_abandon: "i_phase i = Unsent \<Longrightarrow> intent_step i (i\<lparr>i_phase := Abandoned\<rparr>)"
| intent_observe: "i_phase i \<in> {Open, Closed} \<Longrightarrow> p \<in> {Open, Closed} \<Longrightarrow>
    (i_phase i = Closed \<longrightarrow> p = Closed) \<Longrightarrow> i_filled i \<le> y \<Longrightarrow> y \<le> i_requested i \<Longrightarrow>
    (y = i_requested i \<longrightarrow> p = Closed) \<Longrightarrow>
    intent_step i (i\<lparr>i_phase := p, i_filled := y\<rparr>)"

inductive ledger_step :: "(string \<rightharpoonup> intent) \<Rightarrow> (string \<rightharpoonup> intent) \<Rightarrow> bool" where
  ledger_place: "m c = None \<Longrightarrow> 0 < q \<Longrightarrow>
    ledger_step m (m(c \<mapsto> \<lparr>i_phase = Unsent, i_requested = q, i_filled = 0\<rparr>))"
| ledger_advance: "m c = Some i \<Longrightarrow> intent_step i i' \<Longrightarrow> ledger_step m (m(c \<mapsto> i'))"

fun phase_of :: "ActionState \<Rightarrow> phase" where
  "phase_of PREPARED = Unsent"
| "phase_of NOT_SENT = Abandoned"
| "phase_of SEND_ATTEMPTED = Open"
| "phase_of UNKNOWN = Open"
| "phase_of RESTING = Open"
| "phase_of _ = Closed"

definition intent_of :: "ActionRecord \<Rightarrow> intent" where
  "intent_of r = \<lparr>i_phase = phase_of (a_state r), i_requested = a_requested_size r,
                  i_filled = a_cumulative_filled_size r\<rparr>"

definition ledger_of :: "journal \<Rightarrow> string \<rightharpoonup> intent" where
  "ledger_of j c = map_option intent_of (find_action j c)"

lemma row_step_intent:
  assumes "row_step r r'" and "action_ok r"
  shows "intent_step (intent_of r) (intent_of r')"
  using assms(1)
proof cases
  case (row_send q t)
  then show ?thesis using intent_send [of "intent_of r"] by (simp add: intent_of_def)
next
  case (row_not_sent t)
  then show ?thesis using intent_abandon [of "intent_of r"] by (simp add: intent_of_def)
next
  case (row_outcome x s t d)
  then have "s \<in> allowed_outcomes (a_state r)" by (simp add: validate_outcome_def split: if_splits)
  then have "phase_of (a_state r) \<in> {Open, Closed}" "phase_of s \<in> {Open, Closed}"
    "phase_of (a_state r) = Closed \<longrightarrow> phase_of s = Closed"
    by (cases "a_state r"; auto)+
  moreover have "x = a_requested_size r \<longrightarrow> phase_of s = Closed"
    using row_outcome(3) by (cases "a_state r"; cases s) (auto simp: validate_outcome_def split: if_splits)
  ultimately show ?thesis
    using row_outcome intent_observe [of "intent_of r" "phase_of s" x]
    by (simp add: intent_of_def outcome_row_def validate_cumulative_def split: if_splits)
next
  case (row_fill x t)
  then have "phase_of (a_state r) \<in> {Open, Closed}"
    using assms(2) by (cases "a_state r") (auto simp: action_ok_def state_defs)
  then show ?thesis
    using row_fill assms(2)
      intent_observe [of "intent_of r" "phase_of (a_state (fill_row r x t))" x]
    by (cases "a_state r")
      (auto simp: intent_of_def fill_row_def validate_cumulative_def action_ok_def split: if_splits)
qed

lemma find_action_replace:
  assumes "find_action j (a_cloid r') \<noteq> None"
  shows "find_action (replace_row j r') c = (if c = a_cloid r' then Some r' else find_action j c)"
  using assms by (simp add: find_action_def replace_row_def find_set_row find_set_row_other)

lemma find_action_append:
  assumes "\<not> unique_violation j r"
  shows "find_action (j\<lparr>actions := actions j @ [r]\<rparr>) c =
    (if c = a_cloid r then Some r else find_action j c)"
proof -
  have "find (\<lambda>x. a_cloid x = c) (xs @ [r]) = find (\<lambda>x. a_cloid x = c) xs" if "c \<noteq> a_cloid r" for xs
    using that by (induction xs) auto
  then show ?thesis using find_action_snoc [OF assms] by (simp add: find_action_def)
qed

lemma row_op_sim:
  assumes "journal_ok j" and "row_op j c j' r r'"
  shows "ledger_step\<^sup>*\<^sup>* (ledger_of j) (ledger_of j')"
proof (cases "j' = j")
  case False
  with assms(2) obtain c' where r: "find_action j c' = Some r" "row_step r r'" "j' = replace_row j r'"
    by (auto simp: row_op_def)
  have c': "a_cloid r' = c'" "a_cloid r = c'"
    using row_step_write_once [OF r(2)] find_actionD [OF r(1)] by (auto simp: write_once_def)
  have "action_ok r" using assms(1) find_actionD [OF r(1)] by (auto simp: journal_ok_def)
  have "ledger_of j' = (ledger_of j)(c' \<mapsto> intent_of r')"
    using r c' by (auto simp: ledger_of_def find_action_replace)
  moreover have "ledger_of j c' = Some (intent_of r)" using r by (simp add: ledger_of_def)
  ultimately show ?thesis
    using row_step_intent [OF r(2) \<open>action_ok r\<close>] by (auto intro: ledger_advance)
qed simp

lemma find_action_fresh: "\<not> unique_violation j r \<Longrightarrow> find_action j (a_cloid r) = None"
  by (auto simp: find_action_def unique_violation_def list_ex_iff find_None_iff)

lemma journal_step_sim:
  assumes "journal_ok j" and "journal_step j j'"
  shows "ledger_step\<^sup>*\<^sup>* (ledger_of j) (ledger_of j')"
  using assms(2)
proof cases
  case (step_reserve f w t now n)
  then have "actions j' = actions j" by (auto elim: reserve_nonce_Inr)
  then have "ledger_of j' = ledger_of j" by (simp add: ledger_of_def find_action_def fun_eq_iff)
  then show ?thesis by simp
next
  case (step_prepare p now r)
  from this obtain ms where r: "prepared_row p now = Inr r" "\<not> unique_violation j r"
    "j' = j\<lparr>actions := actions j @ [r]\<rparr>" by (rule prepare_action_Inr) blast
  then have "ledger_of j' = (ledger_of j)(a_cloid r \<mapsto> intent_of r)"
    by (auto simp: ledger_of_def find_action_append)
  moreover have "ledger_of j (a_cloid r) = None"
    using r(2) by (simp add: ledger_of_def find_action_fresh)
  moreover have "intent_of r = \<lparr>i_phase = Unsent, i_requested = a_requested_size r, i_filled = 0\<rparr>"
    and "0 < a_requested_size r"
    using prepared_row_ok [OF r(1)] by (auto simp: intent_of_def action_ok_def)
  ultimately show ?thesis by (auto intro: ledger_place)
qed (use assms(1) in \<open>blast dest: mark_send_attempted_Inr mark_not_sent_Inr record_outcome_Inr
    record_cumulative_fill_Inr intro: row_op_sim\<close>)+

interpretation jl: simulation journal_ok journal_step ledger_of ledger_step
  by unfold_locales (auto intro: journal_step_ok journal_step_sim)


section \<open>Facts about runs\<close>

lemma intent_step_facts:
  assumes "intent_step i i'"
  shows "i_requested i' = i_requested i" and "i_filled i \<le> i_filled i'" and "i_phase i' \<noteq> Unsent"
    and "i_phase i = Closed \<Longrightarrow> i_phase i' = Closed"
  using assms by (auto elim!: intent_step.cases)

lemma ledger_not_unsent:
  "ledger_step m m' \<Longrightarrow> (\<exists>i. m c = Some i \<and> i_phase i \<noteq> Unsent) \<Longrightarrow>
   \<exists>i. m' c = Some i \<and> i_phase i \<noteq> Unsent"
  by (auto elim!: ledger_step.cases simp: intent_step_facts)

text \<open>Within one lane the last nonce only grows.\<close>

lemma journal_step_nonce:
  assumes "journal_step j j'" and "signer_nonce j l = Some (n, ms)"
  shows "\<exists>n' ms'. signer_nonce j' l = Some (n', ms') \<and> n \<le> n'"
  using assms(1)
proof cases
  case (step_reserve f w t now n')
  then show ?thesis using assms(2) by (elim reserve_nonce_Inr) (fastforce split: if_splits)
next
  case (step_prepare p now r)
  then show ?thesis using assms(2) by (elim prepare_action_Inr) auto
qed (use assms(2) in \<open>auto dest!: mark_send_attempted_Inr mark_not_sent_Inr record_outcome_Inr
    record_cumulative_fill_Inr simp: row_op_def replace_row_def\<close>)

lemma journal_run_nonce:
  assumes "journal_step\<^sup>*\<^sup>* j j'" and "signer_nonce j l = Some (n, ms)"
  shows "\<exists>n' ms'. signer_nonce j' l = Some (n', ms') \<and> n \<le> n'"
  using assms
proof (induction rule: rtranclp_induct)
  case (step j' j'')
  then show ?case by (meson journal_step_nonce order_trans)
qed auto

text \<open>What a row becomes: the write-once columns stay, fills and timestamps only advance.\<close>

definition row_advances :: "ActionRecord \<Rightarrow> ActionRecord \<Rightarrow> bool" where
  "row_advances r r' \<longleftrightarrow>
     write_once r' = write_once r \<and>
     a_cumulative_filled_size r \<le> a_cumulative_filled_size r' \<and>
     a_cumulative_filled_size r' \<le> a_requested_size r \<and>
     (a_send_attempted_ms r \<noteq> None \<longrightarrow> a_send_attempted_ms r' = a_send_attempted_ms r) \<and>
     (terminal r \<longrightarrow> terminal r' \<and> a_terminal_ms r' = a_terminal_ms r)"

lemma row_step_advances:
  assumes "row_step r r'" and "action_ok r"
  shows "row_advances r r'"
proof -
  have "action_ok r'" and w: "write_once r' = write_once r"
    using assms row_step_ok row_step_write_once by blast+
  then have "a_cumulative_filled_size r' \<le> a_requested_size r"
    using write_onceD(6) [OF w] by (simp add: action_ok_def)
  then show ?thesis
    using w row_step_cumulative [OF assms] row_step_send_time [OF assms] row_step_terminal [OF assms]
    by (simp add: row_advances_def)
qed

lemma row_advances_refl: "action_ok r \<Longrightarrow> row_advances r r"
  by (simp add: row_advances_def action_ok_def)

lemma row_advances_trans: "row_advances r s \<Longrightarrow> row_advances s t \<Longrightarrow> row_advances r t"
  using write_onceD(6) [of s r] by (auto simp: row_advances_def)

lemma row_op_row:
  assumes ok: "journal_ok j" and op: "row_op j c j' r r'" and x: "x \<in> set (actions j)"
  shows "\<exists>y \<in> set (actions j'). row_advances x y"
proof (cases "j' = j")
  case True
  with ok x show ?thesis by (auto simp: journal_ok_def intro: row_advances_refl)
next
  case False
  with op obtain c' where r: "find_action j c' = Some r" "row_step r r'" "j' = replace_row j r'"
    by (auto simp: row_op_def)
  have w: "a_cloid r' = a_cloid r" using row_step_write_once [OF r(2)] by (simp add: write_once_def)
  have rin: "r \<in> set (actions j)" using find_actionD [OF r(1)] by simp
  show ?thesis
  proof (cases "a_cloid x = a_cloid r")
    case True
    then have "x = r" using ok x rin by (auto simp: journal_ok_def intro: distinct_map_eqD)
    moreover have "r' \<in> set (actions j')" using rin w r(3) by (force simp: replace_row_def set_row_def)
    ultimately show ?thesis using row_step_advances [OF r(2)] ok rin by (auto simp: journal_ok_def)
  next
    case False
    then have "x \<in> set (actions j')" using x w r(3) by (force simp: replace_row_def set_row_def)
    then show ?thesis using ok x by (auto simp: journal_ok_def intro: row_advances_refl)
  qed
qed

lemma journal_step_row:
  assumes "journal_step j j'" and "journal_ok j" and "x \<in> set (actions j)"
  shows "\<exists>y \<in> set (actions j'). row_advances x y"
proof -
  have ok: "action_ok x" using assms(2,3) by (simp add: journal_ok_def)
  from assms(1) show ?thesis
  proof cases
    case (step_reserve f w t now n)
    then have "actions j' = actions j" by (auto elim: reserve_nonce_Inr)
    then show ?thesis using ok assms(3) by (auto intro: row_advances_refl)
  next
    case (step_prepare p now r)
    then have "actions j' = actions j @ [r]" by (auto elim: prepare_action_Inr)
    then show ?thesis using ok assms(3) by (auto intro: row_advances_refl)
  qed (use assms(2,3) in \<open>blast dest: mark_send_attempted_Inr mark_not_sent_Inr record_outcome_Inr
      record_cumulative_fill_Inr intro: row_op_row\<close>)+
qed

lemma journal_run_row:
  assumes "journal_step\<^sup>*\<^sup>* j j'" and "journal_ok j" and "x \<in> set (actions j)"
  shows "\<exists>y \<in> set (actions j'). row_advances x y"
  using assms
proof (induction rule: rtranclp_induct)
  case base
  then show ?case by (auto simp: journal_ok_def intro: row_advances_refl)
next
  case (step j' j'')
  then obtain y where "y \<in> set (actions j')" "row_advances x y" by blast
  moreover have "journal_ok j'" using step by (blast intro: jl.inv_run)
  ultimately show ?case using step journal_step_row row_advances_trans by blast
qed

lemma empty_journal_ok [simp]: "journal_ok empty_journal"
  by (simp add: journal_ok_def empty_journal_def)

lemma validate_cloid_lower:
  "py_lower c = py_lower c' \<Longrightarrow> validate_cloid c = validate_cloid c'"
  by (simp add: validate_cloid_def)


section \<open>A concrete run\<close>

text \<open>A nonce is reserved, an order of size 2 prepared and its send attempted.\<close>

definition ex_cloid :: string where
  "ex_cloid = ''0x'' @ replicate 32 (CHR ''a'')"

definition ex_args :: prepare_args where
  "ex_args = \<lparr>p_follower_account = ''0xF'', p_api_wallet = ''0xA'', p_desired_id = ''d1'',
     p_market = ''BTC'', p_attempt_no = 1, p_cloid = ex_cloid, p_nonce = 5,
     p_requested_size = IntArg 2, p_action_json = ''{}'', p_signed_payload_json = ''{}'',
     p_expires_after_ms = 100, p_request_id = ''r1'', p_created_ms = Some 7\<rparr>"

definition ex_row :: ActionRecord where
  "ex_row = \<lparr>a_cloid = ex_cloid, a_follower_account = ''0xf'', a_api_wallet = ''0xa'',
     a_desired_id = ''d1'', a_market = ''BTC'', a_attempt_no = 1, a_nonce = 5,
     a_requested_size = 2, a_cumulative_filled_size = 0, a_action_json = ''{}'',
     a_signed_payload_json = ''{}'', a_expires_after_ms = 100, a_request_id = ''r1'',
     a_state = PREPARED, a_outcome_detail = None, a_created_ms = 7, a_updated_ms = 7,
     a_send_attempted_ms = None, a_terminal_ms = None\<rparr>"

definition ex_reserved :: journal where
  "ex_reserved = \<lparr>signer_nonce = [(''0xf'', ''0xa'') \<mapsto> (5, 7)], actions = []\<rparr>"

definition ex_prepared :: journal where
  "ex_prepared = ex_reserved\<lparr>actions := [ex_row]\<rparr>"

definition ex_sent_row :: ActionRecord where
  "ex_sent_row = ex_row\<lparr>a_state := SEND_ATTEMPTED, a_updated_ms := 9, a_send_attempted_ms := Some 9\<rparr>"

definition ex_sent :: journal where
  "ex_sent = ex_reserved\<lparr>actions := [ex_sent_row]\<rparr>"

lemma ex_values [simp]:
  "validate_cloid ex_cloid = Inr ex_cloid"
  "lane_arg ''0xF'' ''0xA'' = Inr (''0xf'', ''0xa'')"
  "nonempty ''d1'' f = Inr ''d1''" "nonempty ''BTC'' f = Inr ''BTC''" "nonempty ''r1'' f = Inr ''r1''"
  "json_object ''{}'' f = Inr ''{}''"
proof -
  have "json_loads ''{}'' = Some (JObj [])" by code_simp
  then show "json_object ''{}'' f = Inr ''{}''" by (simp add: json_object_def)
qed (simp_all add: nonempty_def, code_simp+)

lemma ex_reserve: "reserve_nonce empty_journal ''0xF'' ''0xA'' (Some 5) 7 = Inr (ex_reserved, 5)"
  by (simp add: reserve_nonce_def time_arg_def positive_int_def empty_journal_def ex_reserved_def)

lemma ex_prepare: "prepare_action ex_reserved ex_args 7 = Inr (ex_prepared, ex_row)"
  by (simp add: prepare_action_def prepared_row_def ex_args_def time_arg_def positive_int_def
      positive_decimal_def nonnegative_decimal_def ex_reserved_def ex_prepared_def ex_row_def
      last_attempt_def unique_violation_def attempt_key_def require_action_def find_action_def)

lemma ex_send: "mark_send_attempted ex_prepared ex_cloid None (Some 9) 9 = Inr (ex_sent, ex_sent_row)"
  by (simp add: mark_send_attempted_def time_arg_def positive_int_def ex_prepared_def ex_row_def
      ex_sent_def ex_sent_row_def ex_reserved_def require_action_def find_action_def update_action_def
      Let_def)

lemma ex_run: "journal_step\<^sup>*\<^sup>* empty_journal ex_sent"
  using step_reserve [OF ex_reserve] step_prepare [OF ex_prepare] step_send [OF ex_send]
  by (meson rtranclp.rtrancl_into_rtrancl rtranclp.rtrancl_refl)


section \<open>Properties\<close>

text \<open>
  C10: every journal reachable from the empty database satisfies the invariant: CLOIDs, lane nonces
  and attempt numbers are unique, every nonce was reserved, and every row is consistent (fills
  between 0 and the requested size, FILLED exactly when complete, nothing filled that was never
  sent, a send time exactly for the rows that left PREPARED, a terminal time exactly for the
  terminal ones).
\<close>

theorem journal_reachable_ok:
  assumes "journal_step\<^sup>*\<^sup>* empty_journal j"
  shows "journal_ok j"
  using assms by (rule jl.inv_run) simp

theorem journal_reachable_ok_witness: "journal_ok ex_sent"
  using journal_reachable_ok [OF ex_run] .



text \<open>
  C12: a nonce handed out for a signer lane is larger than every nonce handed out before it, whatever
  the wall clocks say and whatever happened to the journal in between.
\<close>

theorem reserve_nonce_strictly_increases:
  assumes "reserve_nonce j f w t now = Inr (j1, n)" and "journal_step\<^sup>*\<^sup>* j1 j2"
    and "reserve_nonce j2 f' w' t' now' = Inr (j3, n')" and "lane_arg f w = lane_arg f' w'"
  shows "n < n'"
proof -
  from assms(1) obtain l where l: "lane_arg f w = Inr l" "signer_nonce j1 l = Some (n, now)"
    by (elim reserve_nonce_Inr) auto
  from journal_run_nonce [OF assms(2) l(2)] obtain m ms where "signer_nonce j2 l = Some (m, ms)" "n \<le> m"
    by blast
  with assms(3,4) l(1) show ?thesis by (elim reserve_nonce_Inr) force
qed

text \<open>The clock goes back from 7 to 3 between the two reservations.\<close>

theorem reserve_nonce_strictly_increases_witness:
  "\<exists>j n. reserve_nonce ex_sent ''0xF'' ''0xA'' None 3 = Inr (j, n) \<and> 5 < n"
proof -
  have "\<exists>j n. reserve_nonce ex_sent ''0xF'' ''0xA'' None 3 = Inr (j, n)"
    by (simp add: reserve_nonce_def time_arg_def positive_int_def Let_def)
  moreover have "journal_step\<^sup>*\<^sup>* ex_reserved ex_sent"
    using step_prepare [OF ex_prepare] step_send [OF ex_send]
    by (meson rtranclp.rtrancl_into_rtrancl rtranclp.rtrancl_refl)
  ultimately show ?thesis using reserve_nonce_strictly_increases [OF ex_reserve] by blast
qed

text \<open>
  Once a send of an action was recorded, no later call can record another one for that CLOID
  (in any spelling of its hex digits): the signed payload is sent at most once.
\<close>

theorem send_attempted_at_most_once:
  assumes "journal_ok j" and "mark_send_attempted j c q t now = Inr (j1, r)"
    and "journal_step\<^sup>*\<^sup>* j1 j2" and "py_lower c' = py_lower c"
  shows "\<nexists>j3 r'. mark_send_attempted j2 c' q' t' now' = Inr (j3, r')"
proof -
  from mark_send_attempted_Inr [OF assms(2)] obtain r0 where op: "row_op j c j1 r0 r"
    "a_state r0 = PREPARED" "a_state r = SEND_ATTEMPTED" by blast
  then obtain k where k: "validate_cloid c = Inr k" "find_action j k = Some r0" "row_step r0 r"
    "j1 = replace_row j r" by (auto simp: row_op_def)
  have "a_cloid r = k"
    using row_step_write_once [OF k(3)] find_actionD [OF k(2)] by (simp add: write_once_def)
  then have "ledger_of j1 k = Some (intent_of r)" using k by (simp add: ledger_of_def find_action_replace)
  then have "\<exists>i. ledger_of j1 k = Some i \<and> i_phase i \<noteq> Unsent" using op(3) by (simp add: intent_of_def)
  moreover have "journal_ok j1" using assms(1) op(1) by (rule row_op_ok)
  ultimately have sent: "\<exists>i. ledger_of j2 k = Some i \<and> i_phase i \<noteq> Unsent"
    using jl.transfer_run [OF assms(3), of "\<lambda>m. \<exists>i. m k = Some i \<and> i_phase i \<noteq> Unsent"]
      ledger_not_unsent by blast
  show ?thesis
  proof
    assume "\<exists>j3 r'. mark_send_attempted j2 c' q' t' now' = Inr (j3, r')"
    then obtain x where "row_op j2 c' j2 x x \<or> (\<exists>j3 y. row_op j2 c' j3 x y)" "a_state x = PREPARED"
      using mark_send_attempted_Inr by blast
    then have "find_action j2 k = Some x"
      using k(1) validate_cloid_lower [OF assms(4)] by (auto simp: row_op_def)
    with sent \<open>a_state x = PREPARED\<close> show False by (simp add: ledger_of_def intent_of_def)
  qed
qed

theorem send_attempted_at_most_once_witness:
  "\<nexists>j3 r'. mark_send_attempted ex_sent ex_cloid None (Some 11) 11 = Inr (j3, r')"
proof -
  have "journal_step\<^sup>*\<^sup>* empty_journal ex_prepared"
    using step_reserve [OF ex_reserve] step_prepare [OF ex_prepare]
    by (meson rtranclp.rtrancl_into_rtrancl rtranclp.rtrancl_refl)
  then have "journal_ok ex_prepared" by (rule jl.inv_run) simp
  then show ?thesis using send_attempted_at_most_once [OF _ ex_send] by blast
qed

text \<open>
  C19: nothing the journal stored is lost or rewound: after any later calls a row is still there
  with its identity, signed payload and requested size unchanged, its cumulative fill not smaller
  and never above the requested size, its send time unchanged once set, and a terminal row still
  terminal with its original terminal time.
\<close>

theorem journal_rows_only_advance:
  assumes "journal_ok j" and "journal_step\<^sup>*\<^sup>* j j'" and "r \<in> set (actions j)"
  shows "\<exists>r' \<in> set (actions j'). row_advances r r'"
  using assms(2,1,3) by (rule journal_run_row)

theorem journal_rows_only_advance_witness:
  "\<exists>r' \<in> set (actions ex_sent). row_advances ex_row r'"
proof -
  have "journal_step\<^sup>*\<^sup>* empty_journal ex_prepared"
    using step_reserve [OF ex_reserve] step_prepare [OF ex_prepare]
    by (meson rtranclp.rtrancl_into_rtrancl rtranclp.rtrancl_refl)
  then have "journal_ok ex_prepared" by (rule jl.inv_run) simp
  moreover have "journal_step\<^sup>*\<^sup>* ex_prepared ex_sent" using step_send [OF ex_send] by blast
  moreover have "ex_row \<in> set (actions ex_prepared)" by (simp add: ex_prepared_def)
  ultimately show ?thesis by (rule journal_rows_only_advance)
qed


text \<open>
  replaying a venue observation is a no-op: recording the outcome that was just recorded, with
  any clock, leaves the journal as it is and returns the same row.
\<close>

theorem record_outcome_idempotent:
  assumes "record_outcome j c s x d t now = Inr (j', r)"
    and "0 < (case t' of None \<Rightarrow> now' | Some m \<Rightarrow> m)"
  shows "record_outcome j' c s x d t' now' = Inr (j', r)"
proof -
  from assms(1) obtain k r0 m y where k: "validate_cloid c = Inr k" "find_action j k = Some r0"
      "time_arg now t ''observed_ms'' = Inr m"
    and s: "s \<in> {UNKNOWN, REJECTED, RESTING, PARTIALLY_FILLED, FILLED, CANCELED}"
    and y: "(case x of None \<Rightarrow> Inr (a_cumulative_filled_size r0)
       | Some e \<Rightarrow> nonnegative_decimal e ''cumulative_filled_size'') = Inr y"
    and v: "validate_cumulative r0 y = Inr ()" "validate_outcome r0 s y = Inr ()"
    and up: "s = a_state r0 \<and> y = a_cumulative_filled_size r0 \<and>
        normalize_detail d = a_outcome_detail r0 \<and> j' = j \<and> r = r0 \<or>
      update_action j (outcome_row r0 s y d m) = Inr (j', r)"
    unfolding record_outcome_def by (auto simp del: insert_iff split: if_splits)
  have ck: "a_cloid (outcome_row r0 s y d m) = a_cloid r0" "a_cloid r0 = k"
    using find_actionD [OF k(2)] by (auto simp: outcome_row_def)
  have "find_action j' k = Some r \<and> a_state r = s \<and> a_cumulative_filled_size r = y \<and>
      a_outcome_detail r = normalize_detail d \<and> a_requested_size r = a_requested_size r0"
    using up
  proof (elim disjE conjE)
    assume "update_action j (outcome_row r0 s y d m) = Inr (j', r)"
    then have "j' = replace_row j r" "r = outcome_row r0 s y d m"
      using update_action_Inr [OF k(2) ck(1)] by auto
    then show ?thesis using find_action_replace [of j r k] k(2) ck by (simp add: outcome_row_def)
  qed (use k in auto)
  moreover from this have "(case x of None \<Rightarrow> Inr (a_cumulative_filled_size r)
       | Some e \<Rightarrow> nonnegative_decimal e ''cumulative_filled_size'') = Inr y"
    using y by (auto split: option.splits)
  moreover have "validate_cumulative r y = Inr ()" "validate_outcome r s y = Inr ()"
    using calculation(1) v s
    by (auto simp: validate_cumulative_def validate_outcome_def split: if_splits)
  moreover have "\<exists>m'. time_arg now' t' ''observed_ms'' = Inr m'"
    using assms(2) by (auto simp: time_arg_def positive_int_def)
  ultimately show ?thesis using k(1) s by (auto simp: record_outcome_def)
qed

definition ex_filled_row :: ActionRecord where
  "ex_filled_row = ex_sent_row\<lparr>a_state := FILLED, a_cumulative_filled_size := 2,
     a_updated_ms := 12, a_terminal_ms := Some 12\<rparr>"

lemma ex_fill: "record_outcome ex_sent ex_cloid FILLED (Some (TextArg ''2.0'')) None (Some 12) 12 =
    Inr (ex_reserved\<lparr>actions := [ex_filled_row]\<rparr>, ex_filled_row)"
proof -
  have "parse_decimal ''2.0'' = Some (Fin 2)" by code_simp
  then show ?thesis
    by (simp add: record_outcome_def ex_sent_def ex_sent_row_def ex_row_def require_action_def
        find_action_def time_arg_def positive_int_def nonnegative_decimal_def normalize_detail_def
        validate_cumulative_def validate_outcome_def update_action_def outcome_row_def
        TERMINAL_STATES_def ex_filled_row_def ex_reserved_def)
qed

theorem record_outcome_idempotent_witness:
  "\<exists>j r. record_outcome ex_sent ex_cloid FILLED (Some (TextArg ''2.0'')) None (Some 12) 12 = Inr (j, r) \<and>
         record_outcome j ex_cloid FILLED (Some (TextArg ''2.0'')) None (Some 40) 40 = Inr (j, r)"
  using record_outcome_idempotent [OF ex_fill, where t' = "Some 40" and now' = 40] ex_fill by simp

text \<open>
  Recovery is complete and only about unresolved actions: for a valid lane the result lists, in
  the order of creation and without duplicates, exactly the lane's rows that are not terminal.
\<close>

theorem recovery_actions_complete:
  assumes "journal_ok j" and "lane_arg f w = Inr l"
  shows "\<exists>rs. recovery_actions j (Some f) (Some w) = Inr rs \<and> distinct rs \<and>
           sorted (map a_created_ms rs) \<and>
           set rs = {r \<in> set (actions j). a_lane r = l \<and> \<not> terminal r}"
proof -
  let ?rs = "sort_key (\<lambda>r. (a_created_ms r, a_cloid r))
    (filter (\<lambda>r. a_lane r = l) (filter recovery_required (actions j)))"
  have rec: "recovery_required r \<longleftrightarrow> \<not> terminal r" for r
    by (cases "a_state r") (auto simp: state_defs)
  have "sorted (map (\<lambda>r. (a_created_ms r, a_cloid r)) ?rs)" by (rule sorted_sort_key)
  then have "sorted (map a_created_ms ?rs)"
    by (auto simp: sorted_wrt_map less_eq_prod_def elim!: sorted_wrt_mono_rel [rotated])
  moreover have "distinct ?rs"
    using assms(1) by (auto simp: journal_ok_def distinct_map)
  moreover have "recovery_actions j (Some f) (Some w) = Inr ?rs"
    using assms(2) by (simp add: recovery_actions_def)
  ultimately show ?thesis by (auto simp: rec)
qed

theorem recovery_actions_complete_witness:
  "\<exists>rs. recovery_actions ex_sent (Some ''0xF'') (Some ''0xA'') = Inr rs \<and> set rs = {ex_sent_row}"
proof -
  have "journal_ok ex_sent" using ex_run by (rule jl.inv_run) simp
  from recovery_actions_complete [OF this, of "''0xF''" "''0xA''" "(''0xf'', ''0xa'')"]
  have "\<exists>rs. recovery_actions ex_sent (Some ''0xF'') (Some ''0xA'') = Inr rs \<and>
    set rs = {r \<in> set (actions ex_sent). a_lane r = (''0xf'', ''0xa'') \<and> \<not> terminal r}" by auto
  moreover have "{r \<in> set (actions ex_sent). a_lane r = (''0xf'', ''0xa'') \<and> \<not> terminal r}
      = {ex_sent_row}"
    by (auto simp: ex_sent_def ex_sent_row_def ex_row_def state_defs)
  ultimately show ?thesis by simp
qed

end
