(* ===== verification/Ws_Post_Mux.thy ===== *)
theory Ws_Post_Mux
  imports Ws_Actions
begin

text \<open>
  \<^verbatim>\<open>ws_actions.py\<close>, the class \<open>WsPostMux\<close> and its \<open>_PrioritySendGate\<close>. A coroutine is cut at its
  \<open>await\<close> points into the atomic operations between them: \<open>_post\<close> is \<open>post_open\<close> (from entering the
  gate to the last-mile callback), the write, and \<open>post_finish\<close> (from the end of the wait through the
  \<open>finally\<close> clause). An awaited future is \<open>Waiting\<close>, \<open>Resolved\<close> with a response or \<open>Failed\<close> with an
  exception. Any interleaving of these operations over any number of requests is a run of \<open>mux_step\<close>.
\<close>

section \<open>State\<close>

datatype future = Waiting | Resolved json | Failed

record pending =
  p_epoch :: int
  p_future :: future

record mux =
  m_attached :: bool
  m_epoch :: int
  m_request_id :: int
  m_pending :: "(int \<times> pending) list"

definition mux_init :: mux where
  "mux_init = \<lparr>m_attached = False, m_epoch = 0, m_request_id = 0, m_pending = []\<rparr>"

datatype WireOutcome = WO_NOT_SENT | WO_RESPONSE | WO_REJECTED | WO_UNKNOWN

record WireResult =
  w_request_id :: int
  w_outcome :: WireOutcome
  w_response :: json
  w_reason :: string


section \<open>Connections\<close>

definition connection_epoch :: "mux \<Rightarrow> int option" where
  "connection_epoch m = (if m_attached m then Some (m_epoch m) else None)"

definition capture_epoch :: "mux \<Rightarrow> int result" where
  "capture_epoch m =
     (case connection_epoch m of
        None \<Rightarrow> Inl (ConnectionError ''WebSocket POST transport is disconnected'')
      | Some e \<Rightarrow> Inr e)"

definition attach :: "mux \<Rightarrow> (mux \<times> int) result" where
  "attach m =
     (if m_attached m then Inl (RuntimeError ''a WebSocket POST connection is already attached'')
      else Inr (m\<lparr>m_epoch := m_epoch m + 1, m_attached := True\<rparr>, m_epoch m + 1))"

text \<open>\<open>if pending.epoch == epoch and not pending.future.done(): ...\<close>\<close>

definition settle :: "int \<Rightarrow> future \<Rightarrow> pending \<Rightarrow> pending" where
  "settle epoch f p = (if p_epoch p = epoch \<and> p_future p = Waiting then p\<lparr>p_future := f\<rparr> else p)"

definition close_epoch :: "mux \<Rightarrow> int \<Rightarrow> mux" where
  "close_epoch m epoch =
     m\<lparr>m_attached := m_attached m \<and> m_epoch m \<noteq> epoch,
       m_pending := map (\<lambda>(i, p). (i, settle epoch Failed p)) (m_pending m)\<rparr>"

definition detach :: "mux \<Rightarrow> int \<Rightarrow> mux" where
  "detach m epoch = close_epoch m epoch"

text \<open>The guard of the receive loop; its messages and its end are separate steps.\<close>

definition receive_loop_starts :: "mux \<Rightarrow> int \<Rightarrow> unit result" where
  "receive_loop_starts m epoch =
     require (m_attached m \<and> epoch = m_epoch m)
       (RuntimeError ''receive loop epoch is not the attached connection'')"


section \<open>Incoming frames\<close>

text \<open>\<open>repr(v)\<close>, for the text of a list in an error frame.\<close>

definition repr_char :: "char \<Rightarrow> char \<Rightarrow> string" where
  "repr_char q c =
     (if c = q \<or> c = CHR 0x5C then [CHR 0x5C, c]
      else case map_of [(CHR 0x0A, CHR ''n''), (CHR 0x0D, CHR ''r''), (CHR 0x09, CHR ''t'')] c of
        Some e \<Rightarrow> [CHR 0x5C, e]
      | None \<Rightarrow>
          let n = (of_char c :: nat)
          in if 32 \<le> n \<and> n < 127 then [c]
             else [CHR 0x5C, CHR ''x'', hex_digit (n div 16), hex_digit (n mod 16)])"

definition repr_str :: "string \<Rightarrow> string" where
  "repr_str s =
     (let q = (if CHR 0x27 \<in> set s \<and> CHR 0x22 \<notin> set s then CHR 0x22 else CHR 0x27)
      in q # concat (map (repr_char q) s) @ [q])"

fun join_comma_space :: "string list \<Rightarrow> string" where
  "join_comma_space [] = []"
| "join_comma_space [x] = x"
| "join_comma_space (x # y # xs) = x @ '', '' @ join_comma_space (y # xs)"

fun py_repr :: "json \<Rightarrow> string" where
  "py_repr (JStr s) = repr_str s"
| "py_repr (JArr xs) = ''['' @ join_comma_space (map py_repr xs) @ '']''"
| "py_repr (JObj m) =
     ''{'' @ join_comma_space (map (\<lambda>(k, v). repr_str k @ '': '' @ v) (map (map_prod id py_repr) m)) @ ''}''"
| "py_repr j = py_str j"

definition is_word :: "char \<Rightarrow> bool" where
  "is_word c =
     (let n = (of_char c :: nat)
      in 48 \<le> n \<and> n \<le> 57 \<or> 65 \<le> n \<and> n \<le> 90 \<or> n = 95 \<or> 97 \<le> n \<and> n \<le> 122)"

text \<open>
  The first match of the pattern \<open>\bid=(\d+)\b\<close>; the flag says whether the preceding character is a
  word character. The digits are taken greedily, since a shorter run is followed by a digit.
\<close>

fun error_id_search :: "bool \<Rightarrow> string \<Rightarrow> int option" where
  "error_id_search w [] = None"
| "error_id_search w (c # s) =
     (let ds = takeWhile is_digit (drop 2 s); rest = dropWhile is_digit (drop 2 s)
      in if \<not> w \<and> prefix ''id='' (c # s) \<and> ds \<noteq> [] \<and> (case rest of [] \<Rightarrow> True | d # _ \<Rightarrow> \<not> is_word d)
         then Some (digits_val ds)
         else error_id_search (is_word c) s)"

definition server_error_identity :: "json \<Rightarrow> int option" where
  "server_error_identity data =
     (case data of
        JObj m \<Rightarrow> (case jget m ''id'' of JInt n \<Rightarrow> Some n | _ \<Rightarrow> None)
      | JStr s \<Rightarrow> error_id_search False s
      | _ \<Rightarrow> error_id_search False (py_repr data))"

text \<open>The request a decoded frame answers, and the state it puts that request's future in.\<close>

definition frame_answer :: "json \<Rightarrow> (int \<times> future) option" where
  "frame_answer message =
     (case message of
        JObj m \<Rightarrow>
          if jget m ''channel'' = JStr ''post''
          then (case jget m ''data'' of
                  JObj d \<Rightarrow> (case jget d ''id'' of JInt n \<Rightarrow> Some (n, Resolved (jget d ''response'')) | _ \<Rightarrow> None)
                | _ \<Rightarrow> None)
          else if jget m ''channel'' \<noteq> JStr ''error'' then None
          else (case server_error_identity (jget m ''data'') of
                  None \<Rightarrow> None
                | Some n \<Rightarrow> Some (n, Failed))
      | _ \<Rightarrow> None)"

text \<open>A frame as it arrives: text, or an already decoded value.\<close>

datatype frame = RawText string | Decoded json

fun decode_frame :: "frame \<Rightarrow> json option" where
  "decode_frame (RawText s) = json_loads s"
| "decode_frame (Decoded j) = Some j"

definition handle_message :: "mux \<Rightarrow> int \<Rightarrow> frame \<Rightarrow> mux" where
  "handle_message m epoch raw =
     (case Option.bind (decode_frame raw) frame_answer of
        None \<Rightarrow> m
      | Some (rid, f) \<Rightarrow>
          m\<lparr>m_pending := map (\<lambda>(i, p). (i, if i = rid then settle epoch f p else p)) (m_pending m)\<rparr>)"


section \<open>Requests\<close>

text \<open>The frame written for a request, before \<open>json.dumps\<close>.\<close>

definition post_frame :: "int \<Rightarrow> string \<Rightarrow> json \<Rightarrow> json" where
  "post_frame rid request_type payload =
     JObj [(''method'', JStr ''post''), (''id'', JInt rid),
           (''request'', JObj [(''type'', JStr request_type), (''payload'', payload)])]"

text \<open>\<open>_post\<close> inside the gate: no send on a stale epoch, else a new request id and its future.\<close>

definition post_open :: "mux \<Rightarrow> int \<Rightarrow> WireResult + (mux \<times> int)" where
  "post_open m required_epoch =
     (if \<not> m_attached m \<or> required_epoch \<noteq> m_epoch m
      then Inl \<lparr>w_request_id = 0, w_outcome = WO_NOT_SENT, w_response = JNull,
                w_reason = ''connection_epoch_changed_before_send''\<rparr>
      else let rid = m_request_id m + 1
           in Inr (m\<lparr>m_request_id := rid,
                     m_pending := m_pending m @ [(rid, \<lparr>p_epoch = required_epoch, p_future = Waiting\<rparr>)]\<rparr>, rid))"

text \<open>How the body ended: the callback raised, the write raised or timed out, or the wait ended.\<close>

datatype post_end = BoundaryFailed | WriteFailed | WaitEnded

definition wire_result :: "int \<Rightarrow> post_end \<Rightarrow> future \<Rightarrow> WireResult" where
  "wire_result rid ending f =
     (case ending of
        BoundaryFailed \<Rightarrow>
          \<lparr>w_request_id = rid, w_outcome = WO_NOT_SENT, w_response = JNull, w_reason = ''not_sent''\<rparr>
      | WriteFailed \<Rightarrow>
          \<lparr>w_request_id = rid, w_outcome = WO_UNKNOWN, w_response = JNull, w_reason = ''send_outcome_unknown''\<rparr>
      | WaitEnded \<Rightarrow>
          (case f of
             Resolved r \<Rightarrow> \<lparr>w_request_id = rid, w_outcome = WO_RESPONSE, w_response = r, w_reason = ''response''\<rparr>
           | _ \<Rightarrow> \<lparr>w_request_id = rid, w_outcome = WO_UNKNOWN, w_response = JNull,
                   w_reason = ''send_outcome_unknown''\<rparr>))"

text \<open>The exception handlers and the \<open>finally\<close> clause, which forgets the request.\<close>

definition post_finish :: "mux \<Rightarrow> int \<Rightarrow> post_end \<Rightarrow> (mux \<times> WireResult) option" where
  "post_finish m rid ending =
     (case map_of (m_pending m) rid of
        None \<Rightarrow> None
      | Some p \<Rightarrow>
          Some (m\<lparr>m_pending := AList.delete rid (m_pending m)\<rparr>, wire_result rid ending (p_future p)))"

definition public_wire_result :: "WireResult \<Rightarrow> PostResult" where
  "public_wire_result w =
     post_result (w_request_id w)
       (case w_outcome w of WO_NOT_SENT \<Rightarrow> PO_NOT_SENT | WO_REJECTED \<Rightarrow> PO_REJECTED | _ \<Rightarrow> PO_UNKNOWN)
       (w_response w) (w_reason w)"

definition info_result :: "WireResult \<Rightarrow> PostResult" where
  "info_result w =
     (if w_outcome w = WO_RESPONSE
      then (case w_response w of
              JObj m \<Rightarrow>
                if jget m ''type'' = JStr ''error''
                then post_result (w_request_id w) PO_REJECTED (w_response w) ''server_error_response''
                else post_result (w_request_id w) PO_INFO (w_response w) ''info_response''
            | _ \<Rightarrow> post_result (w_request_id w) PO_INFO (w_response w) ''info_response'')
      else public_wire_result w)"

definition action_result :: "SignedIocAction \<Rightarrow> WireResult \<Rightarrow> PostResult result" where
  "action_result signed w =
     (if w_outcome w \<noteq> WO_RESPONSE then Inr (public_wire_result w)
      else rbind (classify_ioc_response (w_response w) (Fin (ioc_expected_size (s_ioc signed)))) (\<lambda>c.
           Inr (c\<lparr>pr_request_id := w_request_id w\<rparr>)))"


section \<open>Runs\<close>

text \<open>One atomic operation; one that raises or returns early leaves the state as it was.\<close>

datatype mux_event =
    EvAttach
  | EvClose int
  | EvReceive int frame
  | EvOpen int
  | EvFinish int post_end

fun mux_exec :: "mux \<Rightarrow> mux_event \<Rightarrow> mux" where
  "mux_exec m EvAttach = (case attach m of Inl _ \<Rightarrow> m | Inr (m', _) \<Rightarrow> m')"
| "mux_exec m (EvClose e) = close_epoch m e"
| "mux_exec m (EvReceive e raw) = handle_message m e raw"
| "mux_exec m (EvOpen e) = (case post_open m e of Inl _ \<Rightarrow> m | Inr (m', _) \<Rightarrow> m')"
| "mux_exec m (EvFinish i ending) = (case post_finish m i ending of None \<Rightarrow> m | Some (m', _) \<Rightarrow> m')"

definition mux_run :: "mux_event list \<Rightarrow> mux" where
  "mux_run evs = foldl mux_exec mux_init evs"

lemma mux_run_simps [simp]:
  "mux_run [] = mux_init" "mux_run (evs @ [ev]) = mux_exec (mux_run evs) ev"
  by (simp_all add: mux_run_def)

text \<open>
  Request ids are fresh, and a future that is still waiting belongs to the attached connection: no
  request is left waiting for a response that cannot arrive.
\<close>

definition mux_ok :: "mux \<Rightarrow> bool" where
  "mux_ok m \<longleftrightarrow>
     0 \<le> m_request_id m \<and> distinct (map fst (m_pending m)) \<and>
     (\<forall>(i, p) \<in> set (m_pending m). 0 < i \<and> i \<le> m_request_id m \<and> p_epoch p \<le> m_epoch m \<and>
        (p_future p = Waiting \<longrightarrow> m_attached m \<and> p_epoch p = m_epoch m))"

lemma map_fst_apsnd: "map fst (map (\<lambda>(i, p). (i, g i p)) xs) = map fst xs"
  by (induction xs) auto

lemma settle_simps [simp]:
  "p_epoch (settle e f p) = p_epoch p"
  "p_future (settle e f p) = (if p_epoch p = e \<and> p_future p = Waiting then f else p_future p)"
  by (simp_all add: settle_def)

lemma frame_answer_not_waiting: "frame_answer j = Some (i, f) \<Longrightarrow> f \<noteq> Waiting"
  by (cases j) (auto simp: frame_answer_def split: if_splits json.splits option.splits)

lemma mux_ok_init: "mux_ok mux_init"
  by (simp add: mux_ok_def mux_init_def)

lemma mux_ok_attach: "mux_ok m \<Longrightarrow> attach m = Inr (m', e) \<Longrightarrow> mux_ok m'"
  by (fastforce simp: mux_ok_def attach_def split: if_splits)

lemma mux_ok_close: "mux_ok m \<Longrightarrow> mux_ok (close_epoch m e)"
  by (fastforce simp: mux_ok_def close_epoch_def map_fst_apsnd simp del: map_map split: if_splits)

lemma mux_ok_handle:
  assumes "mux_ok m"
  shows "mux_ok (handle_message m e raw)"
proof (cases "Option.bind (decode_frame raw) frame_answer")
  case (Some a)
  obtain rid f where a: "a = (rid, f)" by (cases a)
  have "f \<noteq> Waiting"
    using Some by (auto simp: a bind_eq_Some_conv dest: frame_answer_not_waiting)
  with assms show ?thesis
    by (fastforce simp: Some a mux_ok_def handle_message_def map_fst_apsnd simp del: map_map split: if_splits)
qed (use assms in \<open>simp add: handle_message_def\<close>)

lemma mux_ok_open: "mux_ok m \<Longrightarrow> post_open m e = Inr (m', i) \<Longrightarrow> mux_ok m'"
  by (fastforce simp: mux_ok_def post_open_def Let_def split: if_splits)

lemma mux_ok_finish: "mux_ok m \<Longrightarrow> post_finish m i ending = Some (m', w) \<Longrightarrow> mux_ok m'"
  by (fastforce simp: mux_ok_def post_finish_def distinct_delete AList.delete_eq distinct_map_filter
      split: option.splits)

lemma mux_ok_exec: "mux_ok m \<Longrightarrow> mux_ok (mux_exec m ev)"
  by (cases ev) (auto intro: mux_ok_attach mux_ok_close mux_ok_handle mux_ok_open mux_ok_finish
      split: sum.splits option.splits)

lemma mux_ok_run: "mux_ok (mux_run evs)"
  by (induction evs rule: rev_induct) (simp_all add: mux_ok_init mux_ok_exec)

text \<open>A future becomes \<open>Resolved\<close> only by a frame that names its request, received on its connection.\<close>

lemma settle_cases: "settle e f p = p \<or> p_epoch p = e \<and> p_future p = Waiting \<and> settle e f p = p\<lparr>p_future := f\<rparr>"
  by (simp add: settle_def)

lemma waiting_again: "p_future q = Waiting \<Longrightarrow> (q\<lparr>p_future := f\<rparr>)\<lparr>p_future := Waiting\<rparr> = q"
  by (cases q) simp

lemma exec_resolved:
  assumes "(i, p) \<in> set (m_pending (mux_exec m ev))" and "p_future p = Resolved r"
  shows "(i, p) \<in> set (m_pending m) \<or>
    (\<exists>raw. ev = EvReceive (p_epoch p) raw \<and> Option.bind (decode_frame raw) frame_answer = Some (i, Resolved r) \<and>
       (i, p\<lparr>p_future := Waiting\<rparr>) \<in> set (m_pending m))"
proof (cases ev)
  case (EvClose e)
  with assms obtain q where "(i, q) \<in> set (m_pending m)" "p = settle e Failed q"
    by (auto simp: close_epoch_def)
  with assms(2) show ?thesis using settle_cases [of e Failed q] by auto
next
  case (EvReceive e raw)
  show ?thesis
  proof (cases "Option.bind (decode_frame raw) frame_answer")
    case (Some a)
    obtain rid f where a: "a = (rid, f)" by (cases a)
    from assms(1) obtain q where q: "(i, q) \<in> set (m_pending m)"
      "p = (if i = rid then settle e f q else q)"
      by (auto simp: EvReceive handle_message_def Some a)
    then have "p = q \<or> i = rid \<and> p_epoch q = e \<and> p_future q = Waiting \<and> p = q\<lparr>p_future := f\<rparr>"
      by (auto simp: settle_def split: if_splits)
    then show ?thesis
      using q(1) assms(2) Some by (elim disjE) (auto simp: EvReceive a waiting_again)
  qed (use assms EvReceive in \<open>simp add: handle_message_def\<close>)
qed (use assms in \<open>auto simp: attach_def post_open_def post_finish_def AList.delete_eq Let_def
    split: if_splits option.splits\<close>)

definition answered_on :: "mux_event list \<Rightarrow> int \<Rightarrow> int \<Rightarrow> json \<Rightarrow> bool" where
  "answered_on evs i e r \<longleftrightarrow>
     (\<exists>pre raw post. evs = pre @ EvReceive e raw # post \<and>
        Option.bind (decode_frame raw) frame_answer = Some (i, Resolved r) \<and>
        (i, \<lparr>p_epoch = e, p_future = Waiting\<rparr>) \<in> set (m_pending (mux_run pre)))"

lemma answered_on_snoc: "answered_on evs i e r \<Longrightarrow> answered_on (evs @ [ev]) i e r"
  unfolding answered_on_def by fastforce

lemma resolved_answered:
  "(i, p) \<in> set (m_pending (mux_run evs)) \<Longrightarrow> p_future p = Resolved r \<Longrightarrow> answered_on evs i (p_epoch p) r"
proof (induction evs rule: rev_induct)
  case Nil
  then show ?case by (simp add: mux_init_def)
next
  case (snoc ev evs)
  from snoc.prems have "(i, p) \<in> set (m_pending (mux_exec (mux_run evs) ev))" by simp
  from exec_resolved [OF this snoc.prems(2)] show ?case
  proof
    assume "(i, p) \<in> set (m_pending (mux_run evs))"
    with snoc show ?thesis by (simp add: answered_on_snoc)
  next
    assume "\<exists>raw. ev = EvReceive (p_epoch p) raw \<and>
      Option.bind (decode_frame raw) frame_answer = Some (i, Resolved r) \<and>
      (i, p\<lparr>p_future := Waiting\<rparr>) \<in> set (m_pending (mux_run evs))"
    then obtain raw where raw: "ev = EvReceive (p_epoch p) raw"
      "Option.bind (decode_frame raw) frame_answer = Some (i, Resolved r)"
      "(i, \<lparr>p_epoch = p_epoch p, p_future = Waiting\<rparr>) \<in> set (m_pending (mux_run evs))"
      by (cases p) auto
    then show ?thesis
      unfolding answered_on_def by (intro exI [of _ evs] exI [of _ raw] exI [of _ "[]"]) simp
  qed
qed

lemma waiting_connection:
  "(i, \<lparr>p_epoch = e, p_future = Waiting\<rparr>) \<in> set (m_pending (mux_run evs)) \<Longrightarrow>
   connection_epoch (mux_run evs) = Some e"
  using mux_ok_run [of evs] by (force simp: mux_ok_def connection_epoch_def)

lemma response_correlated:
  assumes "post_finish (mux_run evs) i ending = Some (m', w)" and "w_outcome w = WO_RESPONSE"
  shows "w_request_id w = i \<and> ending = WaitEnded \<and>
    (\<exists>pre e raw post. evs = pre @ EvReceive e raw # post \<and>
       connection_epoch (mux_run pre) = Some e \<and>
       (i, \<lparr>p_epoch = e, p_future = Waiting\<rparr>) \<in> set (m_pending (mux_run pre)) \<and>
       Option.bind (decode_frame raw) frame_answer = Some (i, Resolved (w_response w)))"
proof -
  from assms(1) obtain p where p: "map_of (m_pending (mux_run evs)) i = Some p"
    and w: "w = wire_result i ending (p_future p)"
    by (auto simp: post_finish_def split: option.splits)
  from w assms(2) have "ending = WaitEnded" "w_request_id w = i" "p_future p = Resolved (w_response w)"
    by (auto simp: wire_result_def split: post_end.splits future.splits)
  moreover from resolved_answered [OF map_of_SomeD [OF p] this(3)] have
    "answered_on evs i (p_epoch p) (w_response w)" .
  ultimately show ?thesis
    unfolding answered_on_def by (auto intro: waiting_connection)
qed


section \<open>The send gate\<close>











definition tally :: "('a \<Rightarrow> bool) \<Rightarrow> 'a list \<Rightarrow> int" where
  "tally P ts = sum_list (map (\<lambda>t. of_bool (P t)) ts)"

lemma tally_update [simp]:
  "i < length ts \<Longrightarrow> tally P (ts[i := t]) = tally P ts - of_bool (P (ts ! i)) + of_bool (P t)"
proof (induction ts arbitrary: i)
  case (Cons x ts)
  then show ?case by (cases i) (auto simp: tally_def)
qed simp

lemma tally_replicate [simp]: "\<not> P t \<Longrightarrow> tally P (replicate n t) = 0"
  by (induction n) (simp_all add: tally_def)









section \<open>Properties\<close>

text \<open>
  Through any interleaving of connects, disconnects, received frames and requests, request ids
  are unique and a request that is still waiting belongs to the connection that is attached: losing
  a connection wakes every request written on it, and a new connection inherits none.
\<close>

theorem mux_invariant: "mux_ok (mux_run evs)"
  by (rule mux_ok_run)

text \<open>
  C34: a request completes with a response only if, after the request was registered and while its own
  connection was attached, a frame naming exactly that request was received on that connection, and
  the response is the one the frame carries. Frames of an earlier connection, of another request or
  after the request settled have no effect on it.
\<close>

theorem post_response_correlated:
  assumes "post_finish (mux_run evs) i ending = Some (m', w)" and "w_outcome w = WO_RESPONSE"
  shows "w_request_id w = i \<and> ending = WaitEnded \<and>
    (\<exists>pre e raw post. evs = pre @ EvReceive e raw # post \<and>
       connection_epoch (mux_run pre) = Some e \<and>
       (i, \<lparr>p_epoch = e, p_future = Waiting\<rparr>) \<in> set (m_pending (mux_run pre)) \<and>
       Option.bind (decode_frame raw) frame_answer = Some (i, Resolved (w_response w)))"
  using assms by (rule response_correlated)

definition ex_answer :: json where
  "ex_answer = JObj [(''channel'', JStr ''post''), (''data'', JObj [(''id'', JInt 1), (''response'', JInt 7)])]"

theorem post_response_correlated_witness:
  "\<exists>m' w. post_finish (mux_run [EvAttach, EvOpen 1, EvReceive 1 (Decoded ex_answer)]) 1 WaitEnded = Some (m', w) \<and>
     w_response w = JInt 7 \<and>
     (\<exists>pre e raw post. [EvAttach, EvOpen 1, EvReceive 1 (Decoded ex_answer)] = pre @ EvReceive e raw # post \<and>
       connection_epoch (mux_run pre) = Some e)"
proof -
  have "post_finish (mux_run [EvAttach, EvOpen 1, EvReceive 1 (Decoded ex_answer)]) 1 WaitEnded =
      Some (\<lparr>m_attached = True, m_epoch = 1, m_request_id = 1, m_pending = []\<rparr>,
            \<lparr>w_request_id = 1, w_outcome = WO_RESPONSE, w_response = JInt 7, w_reason = ''response''\<rparr>)"
    by (simp add: mux_run_def mux_init_def attach_def post_open_def handle_message_def ex_answer_def
        frame_answer_def jget_def dget_def settle_def post_finish_def wire_result_def)
  from post_response_correlated [OF this] this show ?thesis by auto
qed



end
