(* ===== verification/Continuous_Executor.thy ===== *)
theory Continuous_Executor
  imports Journal_Ledger Ws_Post_Mux Order_Status Desired_Engine
begin

text \<open>
  \<^verbatim>\<open>continuous_executor.py\<close>: the signer lane that prepares, journals, sends and settles IOC orders. An
  operation runs on the \<open>world\<close>: the durable journal, the WebSocket multiplexer, and the frames
  written to the socket so far. It returns the changed world together with its result or exception,
  because an exception does not undo journal transactions that were committed before it.

  \<open>w_commits\<close> is the number of journal transactions after which the task ends, by cancellation or by
  the death of the process; quantifying over it covers every crash point. The two parameters are
  \<open>sign\<close>, the wallet signature, and \<open>digest\<close>, the hexadecimal BLAKE2s digest of the parts of a CLOID.
\<close>

section \<open>State\<close>

record world =
  w_journal :: journal
  w_mux :: mux
  w_sent :: "json list"
  w_commits :: nat

type_synonym 'a act = "world \<Rightarrow> world \<times> 'a result"

definition act_of :: "'a result \<Rightarrow> 'a act" where
  "act_of r w = (w, r)"

definition act_bind :: "'a act \<Rightarrow> ('a \<Rightarrow> 'b act) \<Rightarrow> 'b act" where
  "act_bind m f w = (case m w of (w', Inl e) \<Rightarrow> (w', Inl e) | (w', Inr x) \<Rightarrow> f x w')"

definition journal_read :: "(journal \<Rightarrow> 'a result) \<Rightarrow> 'a act" where
  "journal_read f w = (w, f (w_journal w))"

definition journal_write :: "(journal \<Rightarrow> (journal \<times> 'a) result) \<Rightarrow> 'a act" where
  "journal_write f w =
     (if w_commits w = 0 then (w, Inl Killed)
      else case f (w_journal w) of
        Inl e \<Rightarrow> (w, Inl e)
      | Inr (j, x) \<Rightarrow> (w\<lparr>w_journal := j, w_commits := w_commits w - 1\<rparr>, Inr x))"

record ContinuousSignerLane =
  sl_follower_account :: string
  sl_api_wallet_address :: string
  sl_vault_address :: "string option"
  sl_is_mainnet :: bool
  sl_expires_window_ms :: int
  sl_wallet :: bool

text \<open>\<open>_initialize\<close>, and the two constructors; \<open>derived\<close> is the address of the key that was read.\<close>

definition initialize_lane :: "string \<Rightarrow> string \<Rightarrow> string option \<Rightarrow> bool \<Rightarrow> int \<Rightarrow> bool \<Rightarrow> ContinuousSignerLane" where
  "initialize_lane follower api_wallet vault is_mainnet window wallet =
     \<lparr>sl_follower_account = py_lower follower, sl_api_wallet_address = py_lower api_wallet,
      sl_vault_address = map_option py_lower vault, sl_is_mainnet = is_mainnet,
      sl_expires_window_ms = window, sl_wallet = wallet\<rparr>"

definition make_lane :: "string \<Rightarrow> string \<Rightarrow> string \<Rightarrow> string option \<Rightarrow> bool \<Rightarrow> int \<Rightarrow> ContinuousSignerLane result" where
  "make_lane derived follower api_wallet vault is_mainnet window =
     (if window \<le> 0 then Inl (ValueError ''expires window must be positive'')
      else if py_lower derived \<noteq> py_lower api_wallet
      then Inl (ValueError ''API-wallet key does not match the bound credential profile'')
      else Inr (initialize_lane follower (py_lower derived) vault is_mainnet window True))"

definition monitor_only :: "string \<Rightarrow> string \<Rightarrow> string option \<Rightarrow> bool \<Rightarrow> ContinuousSignerLane" where
  "monitor_only follower api_wallet vault is_mainnet =
     initialize_lane follower api_wallet vault is_mainnet 5000 False"

definition lane_recovery :: "ContinuousSignerLane \<Rightarrow> journal \<Rightarrow> ActionRecord list result" where
  "lane_recovery lane j =
     recovery_actions j (Some (sl_follower_account lane)) (Some (sl_api_wallet_address lane))"


section \<open>Recovery\<close>

text \<open>\<open>clock k\<close> is the \<open>k\<close>-th reading of the journal's wall clock during the operation.\<close>

fun recover_loop :: "(nat \<Rightarrow> int) \<Rightarrow> nat \<Rightarrow> ActionRecord list \<Rightarrow> ActionRecord list act" where
  "recover_loop clock k [] = act_of (Inr [])"
| "recover_loop clock k (r # rs) =
     (if a_state r = PREPARED
      then act_bind (journal_write (\<lambda>j. mark_not_sent j (a_cloid r) None (clock k))) (\<lambda>r'.
           act_bind (recover_loop clock (Suc k) rs) (\<lambda>rs'. act_of (Inr (r' # rs'))))
      else recover_loop clock k rs)"

definition recover_provably_unsent :: "ContinuousSignerLane \<Rightarrow> (nat \<Rightarrow> int) \<Rightarrow> ActionRecord list act" where
  "recover_provably_unsent lane clock = act_bind (journal_read (lane_recovery lane)) (recover_loop clock 0)"

text \<open>\<open>bool(json.loads(record.action_json)["orders"][0]["b"])\<close>\<close>

definition dict_item :: "json \<Rightarrow> string \<Rightarrow> json result" where
  "dict_item j k =
     (case j of
        JObj m \<Rightarrow> (case map_of m k of None \<Rightarrow> Inl (KeyError k) | Some v \<Rightarrow> Inr v)
      | _ \<Rightarrow> Inl (TypeError ''indices must be integers or slices''))"

definition first_item :: "json \<Rightarrow> json result" where
  "first_item j =
     (case j of
        JArr (x # _) \<Rightarrow> Inr x
      | JArr [] \<Rightarrow> Inl (IndexError ''list index out of range'')
      | _ \<Rightarrow> Inl (TypeError ''not subscriptable''))"

definition order_is_buy :: "string \<Rightarrow> bool result" where
  "order_is_buy action_json =
     (case json_loads action_json of
        None \<Rightarrow> Inl (ValueError ''JSONDecodeError'')
      | Some action \<Rightarrow>
          rbind (dict_item action ''orders'') (\<lambda>orders.
          rbind (first_item orders) (\<lambda>order.
          rbind (dict_item order ''b'') (\<lambda>b. Inr (py_truthy b)))))"

definition add_remaining :: "ActionRecord \<Rightarrow> (string \<times> rat) list \<Rightarrow> (string \<times> rat) list result" where
  "add_remaining r acc =
     (if a_state r = PREPARED then Inr acc
      else rbind (order_is_buy (a_action_json r)) (\<lambda>buy.
           let signed = (if buy then remaining_size r else dneg (remaining_size r))
           in Inr (AList.update (a_market r) (dadd (dget acc (a_market r) 0) signed) acc)))"

definition unresolved_signed_remaining :: "ContinuousSignerLane \<Rightarrow> journal \<Rightarrow> (string \<times> rat) list result" where
  "unresolved_signed_remaining lane j = rbind (lane_recovery lane j) (\<lambda>rs. rfold add_remaining rs [])"


section \<open>Posting over the multiplexer\<close>

text \<open>
  What the environment does during one request: the multiplexer events while the request queues at
  the gate, whether the write raised (and then whether its bytes went out nevertheless), and the
  events until the wait ends, by a response, a connection loss or the timeout.
\<close>

datatype write_end = Written | WriteRaised bool

record exec_env =
  x_gate :: "mux_event list"
  x_write :: write_end
  x_wait :: "mux_event list"
  x_now_ms :: int
  x_clock :: "nat \<Rightarrow> int"
  x_sent_ns :: int
  x_response_ns :: int

fun other_request :: "int \<Rightarrow> mux_event \<Rightarrow> bool" where
  "other_request i (EvFinish k _) = (k \<noteq> i)"
| "other_request i _ = True"

definition end_request :: "int \<Rightarrow> post_end \<Rightarrow> WireResult act" where
  "end_request i ending w =
     (case post_finish (w_mux w) i ending of
        None \<Rightarrow> (w, Inr (wire_result i ending Waiting))
      | Some (m, r) \<Rightarrow> (w\<lparr>w_mux := m\<rparr>, Inr r))"

definition write_frame :: "write_end \<Rightarrow> json \<Rightarrow> world \<Rightarrow> world" where
  "write_frame e frame w = (if e = WriteRaised False then w else w\<lparr>w_sent := w_sent w @ [frame]\<rparr>)"

definition run_mux :: "mux_event list \<Rightarrow> world \<Rightarrow> world" where
  "run_mux evs w = w\<lparr>w_mux := foldl mux_exec (w_mux w) evs\<rparr>"

text \<open>\<open>_post\<close>; an exception of the last-mile callback that is not fatal counts as not sent.\<close>

definition post_wire :: "exec_env \<Rightarrow> string \<Rightarrow> json \<Rightarrow> int \<Rightarrow> (int \<Rightarrow> unit act) \<Rightarrow> WireResult act" where
  "post_wire env request_type payload required_epoch before_send w =
     (let w0 = run_mux (x_gate env) w
      in case post_open (w_mux w0) required_epoch of
           Inl r \<Rightarrow> (w0, Inr r)
         | Inr (m, i) \<Rightarrow>
             (case before_send i (w0\<lparr>w_mux := m\<rparr>) of
                (w1, Inl e) \<Rightarrow>
                  if e = Killed then (fst (end_request i BoundaryFailed w1), Inl Killed)
                  else end_request i BoundaryFailed w1
              | (w1, Inr _) \<Rightarrow>
                  (let w2 = write_frame (x_write env) (post_frame i request_type payload) w1
                   in if x_write env = Written
                      then end_request i WaitEnded (run_mux (filter (other_request i) (x_wait env)) w2)
                      else end_request i WriteFailed w2)))"

definition post_action ::
  "exec_env \<Rightarrow> SignedIocAction \<Rightarrow> int \<Rightarrow> (int \<Rightarrow> unit act) \<Rightarrow> PostResult act" where
  "post_action env signed required_epoch before_send =
     act_bind (act_of (validate_ioc_wire (ioc_action (s_ioc signed)) (ioc_cloid (s_ioc signed)))) (\<lambda>_.
     act_bind (post_wire env ''action'' (s_payload signed) required_epoch before_send) (\<lambda>wire.
     act_of (action_result signed wire)))"

definition post_info :: "exec_env \<Rightarrow> json \<Rightarrow> int \<Rightarrow> PostResult act" where
  "post_info env payload required_epoch =
     (case payload of
        JObj m \<Rightarrow>
          (case jget m ''type'' of
             JStr (_ # _) \<Rightarrow>
               act_bind (post_wire env ''info'' payload required_epoch (\<lambda>_. act_of (Inr ()))) (\<lambda>wire.
               act_of (Inr (info_result wire)))
           | _ \<Rightarrow> act_of (Inl (ValueError ''info payload requires a request type'')))
      | _ \<Rightarrow> act_of (Inl (ValueError ''info payload requires a request type'')))"


section \<open>Executing an order\<close>

record ExecutionAttempt =
  ea_record :: ActionRecord
  ea_result :: PostResult
  ea_received_to_send_ms :: "rat option"
  ea_send_to_response_ms :: "rat option"

definition duration_ms :: "int \<Rightarrow> rat" where
  "duration_ms ns = ddiv (of_int (max 0 ns)) 1000000"

type_synonym cloid_parts = "string \<times> string \<times> string \<times> int \<times> string \<times> rat \<times> dec \<times> bool"

definition deterministic_cloid :: "(cloid_parts \<Rightarrow> string) \<Rightarrow> cloid_parts \<Rightarrow> string" where
  "deterministic_cloid digest parts = ''0x'' @ digest parts"

fun outcome_state :: "PostOutcome \<Rightarrow> ActionState option" where
  "outcome_state PO_UNKNOWN = Some UNKNOWN"
| "outcome_state PO_REJECTED = Some REJECTED"
| "outcome_state PO_FILLED = Some FILLED"
| "outcome_state PO_PARTIALLY_FILLED = Some PARTIALLY_FILLED"
| "outcome_state PO_CANCELLED = Some CANCELED"
| "outcome_state _ = None"

definition record_result :: "string \<Rightarrow> PostResult \<Rightarrow> int \<Rightarrow> ActionRecord act" where
  "record_result cloid r now =
     act_bind (journal_read (\<lambda>j. get_action j cloid)) (\<lambda>current.
     case current of
       None \<Rightarrow> act_of (Inl (RuntimeError ''prepared action disappeared from its journal''))
     | Some row \<Rightarrow>
         if pr_outcome r = PO_NOT_SENT
         then if a_state row \<noteq> PREPARED
              then journal_write (\<lambda>j. mark_unknown j cloid (Some ''transport_not_sent_after_boundary'') None now)
              else journal_write (\<lambda>j. mark_not_sent j cloid None now)
         else case outcome_state (pr_outcome r) of
           None \<Rightarrow> journal_write (\<lambda>j. mark_unknown j cloid (Some ''unexpected'') None now)
         | Some s \<Rightarrow> journal_write (\<lambda>j. record_outcome j cloid s (Some (DecimalArg (Fin (pr_filled_size r))))
                       (Some (pr_reason r)) None now))"

definition prepare_request ::
  "ContinuousSignerLane \<Rightarrow> NextAction \<Rightarrow> int \<Rightarrow> string \<Rightarrow> int \<Rightarrow> int \<Rightarrow> IocAction \<Rightarrow> SignedIocAction \<Rightarrow> prepare_args" where
  "prepare_request lane action attempt_no cloid nonce now_ms ioc signed =
     \<lparr>p_follower_account = sl_follower_account lane, p_api_wallet = sl_api_wallet_address lane,
      p_desired_id = n_desired_id action, p_market = n_market action, p_attempt_no = attempt_no,
      p_cloid = cloid, p_nonce = nonce, p_requested_size = DecimalArg (Fin (n_size action)),
      p_action_json = json_dumps (ioc_action ioc), p_signed_payload_json = json_dumps (s_payload signed),
      p_expires_after_ms = s_expires_after_ms signed, p_request_id = ''pending:'' @ cloid,
      p_created_ms = Some now_ms\<rparr>"

text \<open>From the post of the prepared order to the recorded outcome.\<close>

definition send_prepared ::
  "exec_env \<Rightarrow> SignedIocAction \<Rightarrow> string \<Rightarrow> int \<Rightarrow> int option \<Rightarrow> ExecutionAttempt act" where
  "send_prepared env signed cloid required_epoch received_ns =
     act_bind (post_action env signed required_epoch (\<lambda>i.
        act_bind (journal_write (\<lambda>j. mark_send_attempted j cloid (Some (show_int i)) None (x_clock env 2)))
          (\<lambda>_. act_of (Inr ())))) (\<lambda>r.
     act_bind (record_result cloid r (x_clock env 3)) (\<lambda>row.
     let sent = (if a_send_attempted_ms row = None then None else Some (x_sent_ns env))
     in act_of (Inr \<lparr>ea_record = row, ea_result = r,
          ea_received_to_send_ms = (case (received_ns, sent) of
             (Some b, Some s) \<Rightarrow> Some (duration_ms (s - b)) | _ \<Rightarrow> None),
          ea_send_to_response_ms = map_option (\<lambda>s. duration_ms (x_response_ns env - s)) sent\<rparr>)))"

definition execute_ioc ::
  "(json \<Rightarrow> string option \<Rightarrow> int \<Rightarrow> int \<Rightarrow> bool \<Rightarrow> json) \<Rightarrow> (cloid_parts \<Rightarrow> string) \<Rightarrow> ContinuousSignerLane \<Rightarrow>
   exec_env \<Rightarrow> NextAction \<Rightarrow> int \<Rightarrow> dec \<Rightarrow> int \<Rightarrow> int option \<Rightarrow> ExecutionAttempt act" where
  "execute_ioc sign digest lane env action asset_id limit_px required_epoch received_ns =
     (if \<not> sl_wallet lane then act_of (Inl (RuntimeError ''monitor-only signer lane cannot execute an action''))
      else
        act_bind (journal_read (lane_recovery lane)) (\<lambda>unresolved.
        if unresolved \<noteq> [] then act_of (Inl (RuntimeError ''signer lane has unresolved durable actions''))
        else
        act_bind (journal_read (\<lambda>j. next_attempt_no j (sl_follower_account lane) (sl_api_wallet_address lane)
             (n_desired_id action) (n_market action))) (\<lambda>attempt_no.
        let cloid = deterministic_cloid digest (sl_follower_account lane, n_market action,
              n_desired_id action, attempt_no, n_side action, n_size action, limit_px, n_reduce_only action);
            now_ms = x_now_ms env
        in
        act_bind (act_of (build_ioc_action asset_id (n_side action = ''buy'') (n_size action) limit_px
             (n_reduce_only action) cloid)) (\<lambda>ioc.
        act_bind (journal_write (\<lambda>j. reserve_nonce j (sl_follower_account lane) (sl_api_wallet_address lane)
             (Some now_ms) (x_clock env 0))) (\<lambda>nonce.
        act_bind (act_of (sign_ioc_action sign ioc nonce (now_ms + sl_expires_window_ms lane)
             (sl_is_mainnet lane) (sl_vault_address lane))) (\<lambda>signed.
        act_bind (journal_write (\<lambda>j. prepare_action j
             (prepare_request lane action attempt_no cloid nonce now_ms ioc signed) (x_clock env 1))) (\<lambda>_.
        send_prepared env signed cloid required_epoch received_ns)))))))"


section \<open>Resolving an unsettled order\<close>

definition info_payload :: "json \<Rightarrow> json" where
  "info_payload response =
     (case response of
        JObj m \<Rightarrow> if jget m ''type'' = JStr ''info'' then jget m ''payload'' else response
      | _ \<Rightarrow> response)"

definition resolution_state :: "OrderStatusResolution \<Rightarrow> ActionState option" where
  "resolution_state s =
     (if os_state s \<in> {''cancelled'', ''expired''}
      then Some (if 0 < os_cumulative_filled_abs s then PARTIALLY_FILLED else CANCELED)
      else map_of [(''filled'', FILLED), (''partially_filled'', PARTIALLY_FILLED),
                   (''rejected'', REJECTED), (''resting'', RESTING)] (os_state s))"

definition resolve_by_cloid ::
  "ContinuousSignerLane \<Rightarrow> exec_env \<Rightarrow> string \<Rightarrow> int \<Rightarrow> ActionRecord act" where
  "resolve_by_cloid lane env cloid required_epoch =
     act_bind (journal_read (\<lambda>j. get_owned_action j cloid (sl_follower_account lane) (sl_api_wallet_address lane)))
     (\<lambda>found. case found of
        None \<Rightarrow> act_of (Inl (ValueError ''cannot resolve a CLOID not owned by this signer lane''))
      | Some row \<Rightarrow>
          if terminal row then act_of (Inr row)
          else act_bind (post_info env (JObj [(''oid'', JStr (a_cloid row)), (''type'', JStr ''orderStatus''),
                  (''user'', JStr (sl_follower_account lane))]) required_epoch) (\<lambda>r.
               if pr_outcome r \<noteq> PO_INFO
               then journal_write (\<lambda>j. mark_unknown j (a_cloid row) (Some (pr_reason r)) None (x_clock env 0))
               else act_bind (act_of (classify_order_status (info_payload (pr_response r))
                       (Fin (a_requested_size row)))) (\<lambda>s.
                 if \<not> os_resolved s
                 then journal_write (\<lambda>j. mark_unknown j (a_cloid row) (Some (os_state s)) None (x_clock env 0))
                 else case resolution_state s of
                   None \<Rightarrow> journal_write (\<lambda>j. mark_unknown j (a_cloid row) (Some (os_state s)) None (x_clock env 0))
                 | Some st \<Rightarrow>
                     journal_write (\<lambda>j. record_outcome j (a_cloid row) st
                       (Some (DecimalArg (Fin (os_cumulative_filled_abs s))))
                       (Some (''ws_order_status:'' @ os_state s)) None (x_clock env 0)))))"

end
