(* ===== verification/Executor_Run.thy ===== *)
theory Executor_Run
  imports Continuous_Executor
begin

text \<open>
  That the signer lane does what it is asked: given sane arguments, \<open>execute_ioc\<close> returns, whatever the
  connection does, and the journal row it returns says what the result says.
\<close>

section \<open>Texts the journal accepts\<close>

lemma ascii_append [simp]: "ascii (a @ b) = (ascii a \<and> ascii b)"
  by (auto simp: ascii_def)

lemma ascii_Cons [simp]: "ascii (c # s) = ((of_char c :: nat) < 128 \<and> ascii s)"
  by (auto simp: ascii_def)

lemma ascii_Nil [simp]: "ascii []"
  by (simp add: ascii_def)

lemma ascii_digits: "list_all is_digit s \<Longrightarrow> ascii s"
  by (auto simp: ascii_def list_all_iff is_digit_def Let_def)

lemma ascii_fixed8: "ascii (fixed8 v)"
proof -
  let ?n = "nat \<lfloor>v * 10 ^ 8\<rfloor> mod 10 ^ 8"
  let ?frac = "rev (dropWhile (\<lambda>c. c = CHR ''0'') (rev (pad8 (show_nat ?n))))"
  have "list_all is_digit (pad8 (show_nat ?n))" by (rule pad8_props) simp
  then have "list_all is_digit ?frac"
    by (auto simp: list_all_iff dest: set_dropWhileD)
  then show ?thesis
    using show_nat_digits by (simp add: fixed8_def Let_def ascii_digits del: rev_is_Nil_conv)
qed

lemma ascii_cloid:
  assumes "validate_cloid c = Inr d"
  shows "ascii d"
proof -
  from assms have "prefix ''0x'' d" and hex: "list_all lower_hex (drop 2 d)"
    by (auto simp: validate_cloid_def Let_def split: if_splits)
  then obtain t where "d = ''0x'' @ t" by (auto simp: prefix_def)
  moreover have "ascii t" using hex calculation by (auto simp: ascii_def list_all_iff lower_hex_def Let_def)
  ultimately show ?thesis by simp
qed

lemma exact_ioc_wire: "ascii px \<Longrightarrow> ascii sz \<Longrightarrow> ascii c \<Longrightarrow> exact_json (ioc_wire asset is_buy px sz ro c)"
  by (simp add: ioc_wire_def)

lemma exact_signed_payload:
  assumes "exact_json action" and "exact_json signature" and "\<forall>v. vault = Some v \<longrightarrow> ascii v"
  shows "exact_json (signed_payload action nonce signature vault expires)"
  using assms by (simp add: signed_payload_def split: option.split)

lemma json_object_dumps:
  assumes "exact_json j" and "j = JObj m"
  shows "json_object (json_dumps j) field = Inr (json_dumps j)"
proof -
  have "json_dumps j \<noteq> []" using assms(2) by simp
  then show ?thesis using loads_dumps [OF assms(1)] assms(2) by (simp add: json_object_def)
qed

lemma py_strip_Nil_iff: "py_strip s = [] \<longleftrightarrow> list_all py_space s"
proof -
  have "list_all py_space (dropWhile py_space s) \<longleftrightarrow> list_all py_space s"
    by (induction s) auto
  then show ?thesis by (simp add: py_strip_def dropWhile_eq_Nil_conv list_all_iff)
qed

lemma nonempty_visible: "c \<in> set s \<Longrightarrow> \<not> py_space c \<Longrightarrow> \<exists>t. nonempty s field = Inr t"
  by (auto simp: nonempty_def py_strip_Nil_iff list_all_iff)

lemma nonempty_show_int: "\<exists>t. nonempty (show_int i) field = Inr t"
proof -
  obtain c t where c: "show_int i = c # t" "is_digit c \<or> c = CHR ''-''" using show_int_hd [of i] by blast
  then have "\<not> py_space c" by (auto simp: is_digit_def py_space_def Let_def)
  with c show ?thesis by (intro nonempty_visible [of c]) auto
qed


section \<open>Journal calls that succeed\<close>

lemma reserve_nonce_total:
  assumes "lane_arg f w = Inr l" and "0 < t" and "0 < now"
  obtains n where "reserve_nonce j f w (Some t) now = Inr (j\<lparr>signer_nonce := (signer_nonce j)(l \<mapsto> (n, now))\<rparr>, n)"
    "0 < n" "\<And>prev ms. signer_nonce j l = Some (prev, ms) \<Longrightarrow> prev < n"
proof -
  let ?n = "max t (case signer_nonce j l of Some (prev, _) \<Rightarrow> prev + 1 | None \<Rightarrow> t)"
  show ?thesis
    by (rule that [of ?n])
      (use assms in \<open>auto simp: reserve_nonce_def time_arg_def positive_int_def Let_def\<close>)
qed

lemma last_attempt_ge:
  "r \<in> set (actions j) \<Longrightarrow> a_attempt_no r \<le> last_attempt j (attempt_key r)"
proof -
  have "x \<in> set xs \<Longrightarrow> x \<le> foldr max xs (0::int)" for x xs by (induction xs) auto
  then show "r \<in> set (actions j) \<Longrightarrow> a_attempt_no r \<le> last_attempt j (attempt_key r)"
    by (auto simp: last_attempt_def)
qed

lemma last_attempt_nonneg: "0 \<le> last_attempt j k"
proof -
  have "0 \<le> foldr max xs (0::int)" for xs by (induction xs) auto
  then show ?thesis by (simp add: last_attempt_def)
qed

lemma prepare_action_total:
  assumes row: "prepared_row p now = Inr r" and "signer_nonce j (a_lane r) = Some (a_nonce r, ms)"
    and "a_attempt_no r = last_attempt j (attempt_key r) + 1"
    and "find_action j (a_cloid r) = None"
    and older: "\<And>x. x \<in> set (actions j) \<Longrightarrow> a_lane x = a_lane r \<Longrightarrow> a_nonce x < a_nonce r"
  shows "prepare_action j p now = Inr (j\<lparr>actions := actions j @ [r]\<rparr>, r)"
proof -
  have "\<not> unique_violation j r"
    using assms(3,4) older last_attempt_ge [of _ j]
    by (fastforce simp: unique_violation_def list_ex_iff find_action_def find_None_iff)
  then show ?thesis
    using assms(1-3) find_action_snoc [of j r]
    by (simp add: prepare_action_def require_action_def Let_def)
qed

lemma mark_send_attempted_total:
  assumes "find_action j c = Some r" and "a_state r = PREPARED" and "validate_cloid cloid = Inr c" and "0 < now"
  shows "\<exists>r' q. mark_send_attempted j cloid (Some (show_int i)) None now = Inr (replace_row j r', r') \<and>
    r' = r\<lparr>a_state := SEND_ATTEMPTED, a_request_id := q, a_updated_ms := now, a_send_attempted_ms := Some now\<rparr>"
proof -
  obtain q where q: "nonempty (show_int i) ''request_id'' = Inr q" using nonempty_show_int by blast
  let ?r = "r\<lparr>a_state := SEND_ATTEMPTED, a_request_id := q, a_updated_ms := now, a_send_attempted_ms := Some now\<rparr>"
  have "update_action j ?r = Inr (replace_row j ?r, ?r)" using assms(1) by (rule update_action_Inr) simp
  then show ?thesis
    using assms q by (auto simp: mark_send_attempted_def time_arg_def positive_int_def)
qed

lemma mark_not_sent_total:
  assumes "find_action j c = Some r" and "a_state r = PREPARED" and "validate_cloid cloid = Inr c" and "0 < now"
  shows "\<exists>r'. mark_not_sent j cloid None now = Inr (replace_row j r', r') \<and>
    r' = r\<lparr>a_state := NOT_SENT, a_updated_ms := now, a_terminal_ms := Some now\<rparr>"
proof -
  let ?r = "r\<lparr>a_state := NOT_SENT, a_updated_ms := now, a_terminal_ms := Some now\<rparr>"
  have "update_action j ?r = Inr (replace_row j ?r, ?r)" using assms(1) by (rule update_action_Inr) simp
  then show ?thesis using assms by (simp add: mark_not_sent_def time_arg_def positive_int_def)
qed

lemma record_outcome_total:
  assumes "find_action j c = Some r" and "validate_cloid cloid = Inr c" and "0 < now"
    and "s \<in> {UNKNOWN, REJECTED, RESTING, PARTIALLY_FILLED, FILLED, CANCELED}"
    and "validate_cumulative r x = Inr ()" and "validate_outcome r s x = Inr ()" and "0 \<le> x"
    and "a_state r \<noteq> s"
  shows "record_outcome j cloid s (Some (DecimalArg (Fin x))) d None now =
    Inr (replace_row j (outcome_row r s x d now), outcome_row r s x d now)"
proof -
  have "update_action j (outcome_row r s x d now) = Inr (replace_row j (outcome_row r s x d now), outcome_row r s x d now)"
    using assms(1) by (rule update_action_Inr) (simp add: outcome_row_def)
  then show ?thesis
    using assms by (simp add: record_outcome_def time_arg_def positive_int_def nonnegative_decimal_def)
qed


section \<open>Settling a sent order\<close>

text \<open>The results that can follow a write, for a submitted size \<open>e\<close>.\<close>

definition result_fits :: "rat \<Rightarrow> PostResult \<Rightarrow> bool" where
  "result_fits e r \<longleftrightarrow>
     (case pr_outcome r of
        PO_FILLED \<Rightarrow> pr_filled_size r = e
      | PO_PARTIALLY_FILLED \<Rightarrow> 0 < pr_filled_size r \<and> pr_filled_size r < e
      | PO_NOT_SENT \<Rightarrow> False | PO_INFO \<Rightarrow> False
      | _ \<Rightarrow> pr_filled_size r = 0)"

lemma action_result_fits:
  assumes "0 < ioc_expected_size (s_ioc signed)" and "w_outcome wire \<in> {WO_RESPONSE, WO_UNKNOWN}"
  obtains r where "action_result signed wire = Inr r" "result_fits (ioc_expected_size (s_ioc signed)) r"
proof (cases "w_outcome wire = WO_RESPONSE")
  case True
  have "\<exists>c. classify_ioc_response (w_response wire) (Fin (ioc_expected_size (s_ioc signed))) = Inr c"
    using assms(1) by (simp add: classify_ioc_response_def)
  then obtain c where c: "classify_ioc_response (w_response wire) (Fin (ioc_expected_size (s_ioc signed))) = Inr c" ..
  from classify_ioc_response_cases [OF c] have "result_fits (ioc_expected_size (s_ioc signed)) (c\<lparr>pr_request_id := i\<rparr>)" for i
    by (auto simp: result_fits_def split: PostOutcome.splits)
  with c True that show ?thesis by (simp add: action_result_def)
next
  case False
  with assms(2) that [of "public_wire_result wire"] show ?thesis
    by (simp add: action_result_def result_fits_def public_wire_result_def post_result_def)
qed

lemma record_result_sent:
  assumes row: "find_action (w_journal w) c = Some r" and c: "validate_cloid cloid = Inr c"
    and r: "a_state r = SEND_ATTEMPTED" "a_cumulative_filled_size r = 0" "0 < a_requested_size r"
    and "0 < now" and "0 < w_commits w" and fits: "result_fits (a_requested_size r) res"
  shows "\<exists>s row'. outcome_state (pr_outcome res) = Some s \<and>
    row' = outcome_row r s (pr_filled_size res) (Some (pr_reason res)) now \<and>
    record_result cloid res now w = (w\<lparr>w_journal := replace_row (w_journal w) row', w_commits := w_commits w - 1\<rparr>, Inr row')"
proof -
  obtain s where s: "outcome_state (pr_outcome res) = Some s" "pr_outcome res \<noteq> PO_NOT_SENT"
    using fits by (cases "pr_outcome res") (auto simp: result_fits_def)
  have "validate_cumulative r (pr_filled_size res) = Inr ()" "0 \<le> pr_filled_size res"
    "validate_outcome r s (pr_filled_size res) = Inr ()" "a_state r \<noteq> s"
    "s \<in> {UNKNOWN, REJECTED, RESTING, PARTIALLY_FILLED, FILLED, CANCELED}"
    using fits s r
    by (cases "pr_outcome res"; auto simp: result_fits_def validate_cumulative_def validate_outcome_def)+
  from record_outcome_total [OF row c \<open>0 < now\<close> this(5,1,3,2,4)] s row c \<open>0 < w_commits w\<close>
  show ?thesis
    by (auto simp: record_result_def act_bind_def journal_read_def get_action_def journal_write_def)
qed

lemma record_result_not_sent:
  assumes row: "find_action (w_journal w) c = Some r" and c: "validate_cloid cloid = Inr c"
    and r: "a_state r = PREPARED" and "0 < now" and "0 < w_commits w" and "pr_outcome res = PO_NOT_SENT"
  shows "\<exists>row'. row' = r\<lparr>a_state := NOT_SENT, a_updated_ms := now, a_terminal_ms := Some now\<rparr> \<and>
    record_result cloid res now w = (w\<lparr>w_journal := replace_row (w_journal w) row', w_commits := w_commits w - 1\<rparr>, Inr row')"
  using mark_not_sent_total [OF row r c \<open>0 < now\<close>] row c r \<open>0 < w_commits w\<close> assms(6)
  by (auto simp: record_result_def act_bind_def journal_read_def get_action_def journal_write_def)

text \<open>Posting a prepared order: nothing was written and nothing recorded, or the attempt is recorded.\<close>

lemma post_wire_mark:
  assumes row: "find_action (w_journal w) c = Some r" and st: "a_state r = PREPARED"
    and c: "validate_cloid cloid = Inr c" and now: "0 < now" and commits: "0 < w_commits w"
  shows "\<exists>w' wire. post_wire env kind payload epoch (\<lambda>i.
      act_bind (journal_write (\<lambda>j. mark_send_attempted j cloid (Some (show_int i)) None now))
        (\<lambda>_. act_of (Inr ()))) w = (w', Inr wire) \<and>
    (w_outcome wire = WO_NOT_SENT \<and> w_journal w' = w_journal w \<and> w_commits w' = w_commits w \<and> w_sent w' = w_sent w \<or>
     w_outcome wire \<in> {WO_RESPONSE, WO_UNKNOWN} \<and> w_commits w' = w_commits w - 1 \<and>
     (\<exists>q. w_journal w' = replace_row (w_journal w) (r\<lparr>a_state := SEND_ATTEMPTED, a_request_id := q,
        a_updated_ms := now, a_send_attempted_ms := Some now\<rparr>)))"
proof (cases "post_open (w_mux (run_mux (x_gate env) w)) epoch")
  case (Inl wire)
  then have "w_outcome wire = WO_NOT_SENT" by (auto simp: post_open_def Let_def split: if_splits)
  with Inl show ?thesis by (simp add: post_wire_def run_mux_def)
next
  case (Inr mi)
  obtain m i where mi: "mi = (m, i)" by (cases mi)
  obtain r' q where mark: "mark_send_attempted (w_journal w) cloid (Some (show_int i)) None now = Inr (replace_row (w_journal w) r', r')"
    and r': "r' = r\<lparr>a_state := SEND_ATTEMPTED, a_request_id := q, a_updated_ms := now, a_send_attempted_ms := Some now\<rparr>"
    using mark_send_attempted_total [OF row st c now, of i] by blast
  have fin: "\<exists>wire v'. end_request i ending v = (v', Inr wire) \<and> w_outcome wire \<in> {WO_RESPONSE, WO_UNKNOWN} \<and>
      w_journal v' = w_journal v \<and> w_commits v' = w_commits v" if "ending \<noteq> BoundaryFailed" for ending v
    using that
    by (cases ending) (auto simp: end_request_def post_finish_def wire_result_def split: option.split future.split)
  let ?v = "write_frame (x_write env) (post_frame i kind payload)
    (run_mux (x_gate env) w\<lparr>w_mux := m, w_journal := replace_row (w_journal w) r', w_commits := w_commits w - 1\<rparr>)"
  let ?e = "if x_write env = Written
    then (WaitEnded, run_mux (filter (other_request i) (x_wait env)) ?v) else (WriteFailed, ?v)"
  have v: "w_journal ?v = replace_row (w_journal w) r'" "w_commits ?v = w_commits w - 1"
    by (simp_all add: write_frame_def run_mux_def)
  have "post_wire env kind payload epoch (\<lambda>i.
      act_bind (journal_write (\<lambda>j. mark_send_attempted j cloid (Some (show_int i)) None now))
        (\<lambda>_. act_of (Inr ()))) w = end_request i (fst ?e) (snd ?e)"
    using Inr mark commits
    by (simp add: mi post_wire_def act_bind_def journal_write_def act_of_def run_mux_def Let_def)
  moreover have "fst ?e \<noteq> BoundaryFailed" "w_journal (snd ?e) = w_journal ?v" "w_commits (snd ?e) = w_commits ?v"
    by (simp_all add: run_mux_def)
  ultimately show ?thesis using fin [of "fst ?e" "snd ?e"] v r' by auto
qed


section \<open>The whole execution\<close>

text \<open>What an attempt must say about the journal it leaves and the frames it adds.\<close>

definition attempt_settled :: "string \<Rightarrow> rat \<Rightarrow> world \<Rightarrow> world \<Rightarrow> ExecutionAttempt \<Rightarrow> bool" where
  "attempt_settled c e w w' a \<longleftrightarrow>
     find_action (w_journal w') c = Some (ea_record a) \<and>
     a_requested_size (ea_record a) = e \<and>
     a_cumulative_filled_size (ea_record a) = pr_filled_size (ea_result a) \<and>
     (if pr_outcome (ea_result a) = PO_NOT_SENT
      then a_state (ea_record a) = NOT_SENT \<and> a_send_attempted_ms (ea_record a) = None \<and> w_sent w' = w_sent w
      else outcome_state (pr_outcome (ea_result a)) = Some (a_state (ea_record a)) \<and>
        a_send_attempted_ms (ea_record a) \<noteq> None \<and> result_fits e (ea_result a))"

lemma send_prepared_total:
  assumes row: "find_action (w_journal w) c = Some r" and c: "validate_cloid cloid = Inr c"
    and r: "a_state r = PREPARED" "a_cumulative_filled_size r = 0" "a_send_attempted_ms r = None"
      "0 < a_requested_size r" "a_requested_size r = ioc_expected_size (s_ioc signed)"
    and valid: "validate_ioc_wire (ioc_action (s_ioc signed)) (ioc_cloid (s_ioc signed)) = Inr ()"
    and clock: "0 < x_clock env 2" "0 < x_clock env 3" and commits: "2 \<le> w_commits w"
  shows "\<exists>w' a. send_prepared env signed cloid epoch received w = (w', Inr a) \<and>
    attempt_settled c (a_requested_size r) w w' a"
proof -
  have cr: "a_cloid r = c" using find_actionD [OF row] by simp
  obtain w1 wire where wire: "post_wire env ''action'' (s_payload signed) epoch (\<lambda>i.
      act_bind (journal_write (\<lambda>j. mark_send_attempted j cloid (Some (show_int i)) None (x_clock env 2)))
        (\<lambda>_. act_of (Inr ()))) w = (w1, Inr wire)"
    and case_w: "w_outcome wire = WO_NOT_SENT \<and> w_journal w1 = w_journal w \<and> w_commits w1 = w_commits w \<and> w_sent w1 = w_sent w \<or>
     w_outcome wire \<in> {WO_RESPONSE, WO_UNKNOWN} \<and> w_commits w1 = w_commits w - 1 \<and>
     (\<exists>q. w_journal w1 = replace_row (w_journal w) (r\<lparr>a_state := SEND_ATTEMPTED, a_request_id := q,
        a_updated_ms := x_clock env 2, a_send_attempted_ms := Some (x_clock env 2)\<rparr>))"
    using post_wire_mark [OF row r(1) c clock(1), of env "''action''" "s_payload signed" epoch] commits by auto
  have post: "send_prepared env signed cloid epoch received w =
      (case action_result signed wire of
         Inl e \<Rightarrow> (w1, Inl e)
       | Inr res \<Rightarrow> act_bind (record_result cloid res (x_clock env 3)) (\<lambda>row.
           let sent = (if a_send_attempted_ms row = None then None else Some (x_sent_ns env))
           in act_of (Inr \<lparr>ea_record = row, ea_result = res,
                ea_received_to_send_ms = (case (received, sent) of
                   (Some b, Some s) \<Rightarrow> Some (duration_ms (s - b)) | _ \<Rightarrow> None),
                ea_send_to_response_ms = map_option (\<lambda>s. duration_ms (x_response_ns env - s)) sent\<rparr>)) w1)"
    using wire valid by (simp add: send_prepared_def post_action_def act_bind_def act_of_def split: sum.split)
  from case_w show ?thesis
  proof (elim disjE conjE exE)
    assume ns: "w_outcome wire = WO_NOT_SENT" and j: "w_journal w1 = w_journal w"
      "w_commits w1 = w_commits w" "w_sent w1 = w_sent w"
    have res: "action_result signed wire = Inr (public_wire_result wire)"
      "pr_outcome (public_wire_result wire) = PO_NOT_SENT" "pr_filled_size (public_wire_result wire) = 0"
      using ns by (simp_all add: action_result_def public_wire_result_def post_result_def)
    obtain row' where row': "row' = r\<lparr>a_state := NOT_SENT, a_updated_ms := x_clock env 3, a_terminal_ms := Some (x_clock env 3)\<rparr>"
      "record_result cloid (public_wire_result wire) (x_clock env 3) w1 =
        (w1\<lparr>w_journal := replace_row (w_journal w1) row', w_commits := w_commits w1 - 1\<rparr>, Inr row')"
      using record_result_not_sent [of w1 c r cloid "x_clock env 3"] row c r(1) clock(2) commits j res(2) by auto
    have "find_action (replace_row (w_journal w1) row') c = Some row'"
      using row cr by (simp add: j row'(1) find_action_replace)
    then show ?thesis
      using res row' j r cr by (auto simp: post act_bind_def act_of_def Let_def attempt_settled_def)
  next
    fix q
    assume out: "w_outcome wire \<in> {WO_RESPONSE, WO_UNKNOWN}" and com: "w_commits w1 = w_commits w - 1"
      and j: "w_journal w1 = replace_row (w_journal w) (r\<lparr>a_state := SEND_ATTEMPTED, a_request_id := q,
        a_updated_ms := x_clock env 2, a_send_attempted_ms := Some (x_clock env 2)\<rparr>)" (is "_ = replace_row _ ?r")
    obtain res where res: "action_result signed wire = Inr res" "result_fits (a_requested_size r) res"
      using action_result_fits [of signed wire] r(4,5) out by auto
    have found: "find_action (w_journal w1) c = Some ?r"
      using row cr by (simp add: j find_action_replace)
    obtain s row' where row': "outcome_state (pr_outcome res) = Some s"
      "row' = outcome_row ?r s (pr_filled_size res) (Some (pr_reason res)) (x_clock env 3)"
      "record_result cloid res (x_clock env 3) w1 =
        (w1\<lparr>w_journal := replace_row (w_journal w1) row', w_commits := w_commits w1 - 1\<rparr>, Inr row')"
      using record_result_sent [OF found c _ _ _ clock(2), of res] r res(2) com commits by auto
    have "find_action (replace_row (w_journal w1) row') c = Some row'"
      using found cr by (simp add: row'(2) outcome_row_def find_action_replace)
    moreover have "pr_outcome res \<noteq> PO_NOT_SENT" using row'(1) by auto
    ultimately show ?thesis
      using res row' by (auto simp: post act_bind_def act_of_def Let_def attempt_settled_def outcome_row_def)
  qed
qed

text \<open>The CLOID of the next attempt of a lane, as \<open>execute_ioc\<close> computes it.\<close>

definition next_cloid ::
  "(cloid_parts \<Rightarrow> string) \<Rightarrow> ContinuousSignerLane \<Rightarrow> lane \<Rightarrow> journal \<Rightarrow> NextAction \<Rightarrow> dec \<Rightarrow> string" where
  "next_cloid digest lane l j action px =
     deterministic_cloid digest (sl_follower_account lane, n_market action, n_desired_id action,
       last_attempt j (l, py_strip (n_desired_id action), py_strip (n_market action)) + 1,
       n_side action, n_size action, px, n_reduce_only action)"

lemma prepared_row_request:
  assumes l: "lane_arg (sl_follower_account lane) (sl_api_wallet_address lane) = Inr l"
    and ids: "py_strip (n_desired_id action) \<noteq> []" "py_strip (n_market action) \<noteq> []"
    and c: "validate_cloid cloid = Inr c" and pos: "0 < attempt" "0 < nonce" "0 < n_size action" "0 < t"
    and expires: "t < s_expires_after_ms signed"
    and act: "exact_json (ioc_action ioc)" "ioc_action ioc = JObj m"
    and pay: "exact_json (s_payload signed)" "s_payload signed = JObj m'"
  shows "\<exists>r. prepared_row (prepare_request lane action attempt cloid nonce t ioc signed) now = Inr r \<and>
    a_cloid r = c \<and> a_lane r = l \<and> a_nonce r = nonce \<and> a_attempt_no r = attempt \<and>
    attempt_key r = (l, py_strip (n_desired_id action), py_strip (n_market action)) \<and>
    a_state r = PREPARED \<and> a_cumulative_filled_size r = 0 \<and> a_send_attempted_ms r = None \<and>
    a_requested_size r = n_size action"
proof -
  have "\<exists>q. nonempty (''pending:'' @ cloid) ''request_id'' = Inr q"
    by (rule nonempty_visible [of "CHR ''p''"]) (simp_all add: py_space_def)
  then obtain q where q: "nonempty (''pending:'' @ cloid) ''request_id'' = Inr q" ..
  have d: "nonempty (n_desired_id action) ''desired_id'' = Inr (py_strip (n_desired_id action))"
    "nonempty (n_market action) ''market'' = Inr (py_strip (n_market action))"
    using ids by (simp_all add: nonempty_def)
  have n: "positive_int attempt ''attempt_no'' = Inr attempt" "positive_int nonce ''nonce'' = Inr nonce"
    "positive_decimal (DecimalArg (Fin (n_size action))) ''requested_size'' = Inr (n_size action)"
    "time_arg now (Some t) ''created_ms'' = Inr t"
    "positive_int (s_expires_after_ms signed) ''expires_after_ms'' = Inr (s_expires_after_ms signed)"
    using pos expires by (simp_all add: positive_int_def positive_decimal_def nonnegative_decimal_def time_arg_def)
  show ?thesis
    using l c q d n expires json_object_dumps [OF act] json_object_dumps [OF pay]
    by (simp add: prepared_row_def prepare_request_def attempt_key_def)
qed

lemma execute_ioc_prepares:
  assumes wallet: "sl_wallet lane" and free: "lane_recovery lane (w_journal w) = Inr []"
    and l: "lane_arg (sl_follower_account lane) (sl_api_wallet_address lane) = Inr l"
    and ok: "journal_ok (w_journal w)"
    and ids: "py_strip (n_desired_id action) \<noteq> []" "py_strip (n_market action) \<noteq> []"
    and cloid: "validate_cloid (next_cloid digest lane l (w_journal w) action (Fin x)) = Inr c"
    and fresh: "find_action (w_journal w) c = None"
    and sz: "0 < n_size action" "ctx (n_size action) = n_size action" "on_grid (- 8) (n_size action)"
    and px: "0 < x" "on_grid (- 8) (ctx x)" and asset: "0 \<le> asset"
    and time: "0 < x_now_ms env" "0 < sl_expires_window_ms lane" "\<forall>k. 0 < x_clock env k"
    and commits: "2 \<le> w_commits w"
    and sign: "\<And>a v n e m. exact_json (sign a v n e m)"
    and vault: "\<forall>v. sl_vault_address lane = Some v \<longrightarrow> ascii v"
  obtains signed r w2 where
    "execute_ioc sign digest lane env action asset (Fin x) epoch received w =
       send_prepared env signed (next_cloid digest lane l (w_journal w) action (Fin x)) epoch received w2"
    "find_action (w_journal w2) c = Some r" "a_lane r = l" "a_state r = PREPARED" "a_cumulative_filled_size r = 0"
    "a_send_attempted_ms r = None" "a_requested_size r = n_size action"
    "ioc_expected_size (s_ioc signed) = n_size action"
    "validate_ioc_wire (ioc_action (s_ioc signed)) (ioc_cloid (s_ioc signed)) = Inr ()"
    "w_sent w2 = w_sent w" "w_mux w2 = w_mux w" "w_commits w2 = w_commits w - 2"
proof -
  let ?j = "w_journal w"
  let ?d = "py_strip (n_desired_id action)" and ?m = "py_strip (n_market action)"
  let ?a = "last_attempt ?j (l, ?d, ?m) + 1"
  let ?cloid = "next_cloid digest lane l ?j action (Fin x)"
  let ?t = "x_now_ms env" and ?exp = "x_now_ms env + sl_expires_window_ms lane"
  have attempt: "next_attempt_no ?j (sl_follower_account lane) (sl_api_wallet_address lane)
      (n_desired_id action) (n_market action) = Inr ?a"
    using l ids by (simp add: next_attempt_no_def nonempty_def)
  have dsz: "dabs (n_size action) = n_size action" using sz by (simp add: dabs_def)
  define ioc where "ioc = \<lparr>ioc_cloid = c, ioc_expected_size = n_size action,
    ioc_action = ioc_wire asset (n_side action = ''buy'') (fixed8 (ctx x)) (fixed8 (n_size action)) (n_reduce_only action) c\<rparr>"
  have build: "build_ioc_action asset (n_side action = ''buy'') (n_size action) (Fin x) (n_reduce_only action) ?cloid = Inr ioc"
    using build_ioc_action_total [OF cloid asset px, of "n_size action"] sz dsz by (simp add: ioc_def)
  have cc: "validate_cloid c = Inr c" using validate_cloid_Inr [OF cloid] by (rule conjunct2)
  have valid: "validate_ioc_wire (ioc_action ioc) (ioc_cloid ioc) = Inr ()"
    using cc by (simp add: ioc_def validate_ioc_wire_of)
  obtain n where n: "reserve_nonce ?j (sl_follower_account lane) (sl_api_wallet_address lane) (Some ?t) (x_clock env 0) =
      Inr (?j\<lparr>signer_nonce := (signer_nonce ?j)(l \<mapsto> (n, x_clock env 0))\<rparr>, n)"
    "0 < n" "\<And>prev ms. signer_nonce ?j l = Some (prev, ms) \<Longrightarrow> prev < n"
    using reserve_nonce_total [OF l time(1)] time(3) by metis
  let ?j1 = "?j\<lparr>signer_nonce := (signer_nonce ?j)(l \<mapsto> (n, x_clock env 0))\<rparr>"
  define signed where "signed = \<lparr>s_ioc = ioc, s_nonce = n, s_expires_after_ms = ?exp,
    s_payload = signed_payload (ioc_action ioc) n
      (sign (ioc_action ioc) (sl_vault_address lane) n ?exp (sl_is_mainnet lane)) (sl_vault_address lane) ?exp\<rparr>"
  have signed: "sign_ioc_action sign ioc n ?exp (sl_is_mainnet lane) (sl_vault_address lane) = Inr signed"
    using sign_ioc_action_total [OF valid, of n ?exp] n(2) time by (simp add: signed_def)
  have exact: "exact_json (ioc_action ioc)"
    using ascii_cloid [OF cloid] by (simp add: ioc_def exact_ioc_wire ascii_fixed8)
  then have pay: "exact_json (s_payload signed)"
    using sign vault by (simp add: signed_def exact_signed_payload)
  let ?p = "prepare_request lane action ?a ?cloid n ?t ioc signed"
  obtain r where r: "prepared_row ?p (x_clock env 1) = Inr r" "a_cloid r = c" "a_lane r = l" "a_nonce r = n"
    "a_attempt_no r = ?a" "attempt_key r = (l, ?d, ?m)" "a_state r = PREPARED" "a_cumulative_filled_size r = 0"
    "a_send_attempted_ms r = None" "a_requested_size r = n_size action"
    using prepared_row_request [OF l ids cloid _ n(2) sz(1) time(1) _ exact _ pay, of ?a _ _ "x_clock env 1"]
      last_attempt_nonneg [of ?j "(l, ?d, ?m)"] time(2)
    by (auto simp: signed_def signed_payload_def ioc_def ioc_wire_def)
  have "prepare_action ?j1 ?p (x_clock env 1) = Inr (?j1\<lparr>actions := actions ?j1 @ [r]\<rparr>, r)"
  proof (rule prepare_action_total [OF r(1)])
    fix y
    assume "y \<in> set (actions ?j1)" "a_lane y = a_lane r"
    then show "a_nonce y < a_nonce r" using ok n(3) r(3,4) by (fastforce simp: journal_ok_def)
  qed (use r fresh in \<open>simp_all add: last_attempt_def find_action_def\<close>)
  note prep = this
  let ?w2 = "w\<lparr>w_journal := ?j1\<lparr>actions := actions ?j1 @ [r]\<rparr>, w_commits := w_commits w - 2\<rparr>"
  have row: "find_action (w_journal ?w2) c = Some r"
    using prep r(2) by (auto elim!: prepare_action_Inr dest: find_action_snoc)
  show ?thesis
  proof (rule that [OF _ row r(3,7,8,9,10)])
    show "execute_ioc sign digest lane env action asset (Fin x) epoch received w =
        send_prepared env signed ?cloid epoch received ?w2"
      using wallet free attempt build n(1) signed prep commits
      by (simp add: execute_ioc_def act_bind_def journal_read_def journal_write_def act_of_def next_cloid_def
          Let_def numeral_2_eq_2)
  qed (use valid in \<open>simp_all add: signed_def ioc_def\<close>)
qed

lemma execute_ioc_settles:
  assumes wallet: "sl_wallet lane" and free: "lane_recovery lane (w_journal w) = Inr []"
    and l: "lane_arg (sl_follower_account lane) (sl_api_wallet_address lane) = Inr l"
    and ok: "journal_ok (w_journal w)"
    and ids: "py_strip (n_desired_id action) \<noteq> []" "py_strip (n_market action) \<noteq> []"
    and cloid: "validate_cloid (next_cloid digest lane l (w_journal w) action (Fin x)) = Inr c"
    and fresh: "find_action (w_journal w) c = None"
    and sz: "0 < n_size action" "ctx (n_size action) = n_size action" "on_grid (- 8) (n_size action)"
    and px: "0 < x" "on_grid (- 8) (ctx x)" and asset: "0 \<le> asset"
    and time: "0 < x_now_ms env" "0 < sl_expires_window_ms lane" "\<forall>k. 0 < x_clock env k"
    and commits: "4 \<le> w_commits w"
    and sign: "\<And>a v n e m. exact_json (sign a v n e m)"
    and vault: "\<forall>v. sl_vault_address lane = Some v \<longrightarrow> ascii v"
  shows "\<exists>w' a. execute_ioc sign digest lane env action asset (Fin x) epoch received w = (w', Inr a) \<and>
    attempt_settled c (n_size action) w w' a"
proof -
  have two: "2 \<le> w_commits w" using commits by simp
  let ?cloid = "next_cloid digest lane l (w_journal w) action (Fin x)"
  show ?thesis
  proof (rule execute_ioc_prepares [OF wallet free l ok ids cloid fresh sz px asset time two sign vault])
    fix signed r and w2 :: world
    assume run: "execute_ioc sign digest lane env action asset (Fin x) epoch received w =
        send_prepared env signed ?cloid epoch received w2"
      and r: "find_action (w_journal w2) c = Some r" "a_lane r = l" "a_state r = PREPARED"
        "a_cumulative_filled_size r = 0" "a_send_attempted_ms r = None" "a_requested_size r = n_size action"
      and signed: "ioc_expected_size (s_ioc signed) = n_size action"
        "validate_ioc_wire (ioc_action (s_ioc signed)) (ioc_cloid (s_ioc signed)) = Inr ()"
      and w2: "w_sent w2 = w_sent w" "w_mux w2 = w_mux w" "w_commits w2 = w_commits w - 2"
    have "\<exists>w' a. send_prepared env signed ?cloid epoch received w2 = (w', Inr a) \<and>
        attempt_settled c (a_requested_size r) w2 w' a"
      by (rule send_prepared_total [OF r(1) cloid]) (use r sz signed time(3) commits w2 in simp_all)
    moreover have "attempt_settled c e w2 w' a = attempt_settled c e w w' a" for e w' a
      by (simp add: attempt_settled_def w2)
    ultimately show ?thesis using r(6) run by simp
  qed
qed

text \<open>The side of an order survives the journal.\<close>

lemma order_is_buy_wire:
  assumes "ascii px" and "ascii sz" and "ascii c"
  shows "order_is_buy (json_dumps (ioc_wire asset is_buy px sz ro c)) = Inr is_buy"
  using loads_dumps [OF exact_ioc_wire [OF assms]]
  by (simp add: order_is_buy_def ioc_wire_def dict_item_def first_item_def)


text \<open>A task that dies after the prepare transaction leaves the journal as that transaction left it.\<close>

lemma journal_write_dead: "w_commits w = 0 \<Longrightarrow> journal_write f w = (w, Inl Killed)"
  by (simp add: journal_write_def)

lemma dead_mux [simp]:
  "w_journal (run_mux evs w) = w_journal w" "w_commits (run_mux evs w) = w_commits w"
  "w_journal (fst (end_request i ending w)) = w_journal w" "w_commits (fst (end_request i ending w)) = w_commits w"
  by (auto simp: run_mux_def end_request_def split: option.splits)

lemma send_prepared_dead:
  assumes "w_commits w = 0"
  shows "w_journal (fst (send_prepared env signed cloid epoch received w)) = w_journal w"
proof -
  let ?before = "\<lambda>i. act_bind (journal_write (\<lambda>j. mark_send_attempted j cloid (Some (show_int i)) None (x_clock env 2)))
    (\<lambda>_. act_of (Inr ()))"
  have wire: "w_journal (fst (post_wire env k p epoch ?before w)) = w_journal w \<and>
      w_commits (fst (post_wire env k p epoch ?before w)) = 0" for k p
    using assms by (auto simp: post_wire_def act_bind_def journal_write_dead Let_def split: sum.split)
  have rec: "w_journal (fst (record_result cloid res now v)) = w_journal v" if "w_commits v = 0" for v res now
    using that by (auto simp: record_result_def act_bind_def journal_read_def act_of_def journal_write_dead
        split: sum.split option.split prod.split)
  have post: "w_journal (fst (post_action env signed epoch ?before w)) = w_journal w \<and>
      w_commits (fst (post_action env signed epoch ?before w)) = 0"
    using wire [of "''action''" "s_payload signed"] assms
    by (auto simp: post_action_def act_bind_def act_of_def split: sum.splits prod.splits)
  obtain w1 res where p: "post_action env signed epoch ?before w = (w1, res)"
    by (cases "post_action env signed epoch ?before w")
  then have w1: "w_journal w1 = w_journal w" "w_commits w1 = 0" using post by simp_all
  then show ?thesis
    using p rec [OF w1(2)]
    by (cases res) (auto simp: send_prepared_def act_bind_def [of "post_action env signed epoch ?before"]
        act_bind_def [of "record_result cloid _ _"] act_of_def Let_def split: sum.splits prod.splits,
        metis fst_conv, metis fst_conv)
qed


section \<open>A concrete lane\<close>

definition ex_lane :: ContinuousSignerLane where
  "ex_lane = initialize_lane ''0xF'' ''0xA'' None True 5000 True"

definition ex_digest :: "cloid_parts \<Rightarrow> string" where
  "ex_digest parts = replicate 32 (CHR ''a'')"

definition ex_sign :: "json \<Rightarrow> string option \<Rightarrow> int \<Rightarrow> int \<Rightarrow> bool \<Rightarrow> json" where
  "ex_sign action vault nonce expires mainnet = JObj [(''r'', JStr ''0x1''), (''s'', JStr ''0x2''), (''v'', JInt 27)]"

definition ex_order :: NextAction where
  "ex_order = \<lparr>n_desired_id = ''d1'', n_market = ''BTC'', n_side = ''buy'', n_size = 1 / 4,
     n_reduce_only = False, n_reason = MoveTowardTarget\<rparr>"

definition ex_env :: exec_env where
  "ex_env = \<lparr>x_gate = [EvAttach], x_write = Written, x_wait = [], x_now_ms = 1000, x_clock = (\<lambda>_. 1000),
     x_sent_ns = 0, x_response_ns = 0\<rparr>"

definition ex_world :: "nat \<Rightarrow> world" where
  "ex_world n = \<lparr>w_journal = empty_journal, w_mux = mux_init, w_sent = [], w_commits = n\<rparr>"

lemma ex_lane_facts:
  "sl_wallet ex_lane" "lane_recovery ex_lane (w_journal (ex_world n)) = Inr []"
  "lane_arg (sl_follower_account ex_lane) (sl_api_wallet_address ex_lane) = Inr (''0xf'', ''0xa'')"
  "sl_expires_window_ms ex_lane = 5000" "sl_vault_address ex_lane = None"
proof -
  have low: "py_lower ''0xF'' = ''0xf''" "py_lower ''0xA'' = ''0xa''" by code_simp+
  then show arg: "lane_arg (sl_follower_account ex_lane) (sl_api_wallet_address ex_lane) = Inr (''0xf'', ''0xa'')"
    by (simp add: ex_lane_def initialize_lane_def) code_simp
  show "lane_recovery ex_lane (w_journal (ex_world n)) = Inr []"
    by (simp add: lane_recovery_def recovery_actions_def arg ex_world_def empty_journal_def)
qed (simp_all add: ex_lane_def initialize_lane_def)

lemma ex_order_facts:
  "py_strip (n_desired_id ex_order) \<noteq> []" "py_strip (n_market ex_order) \<noteq> []"
  "validate_cloid (next_cloid ex_digest ex_lane l j ex_order px) = Inr (''0x'' @ replicate 32 (CHR ''a''))"
  "0 < n_size ex_order" "ctx (n_size ex_order) = n_size ex_order" "on_grid (- 8) (n_size ex_order)"
  "on_grid (- 8) (ctx 100)" "exact_json (ex_sign a v n e m)" "find_action (w_journal (ex_world k)) c = None"
  "journal_ok (w_journal (ex_world k))"
proof -
  show "validate_cloid (next_cloid ex_digest ex_lane l j ex_order px) = Inr (''0x'' @ replicate 32 (CHR ''a''))"
    unfolding next_cloid_def deterministic_cloid_def ex_digest_def by code_simp
qed (simp_all add: ex_order_def py_strip_def py_space_def on_grid_def dec_eval ex_sign_def ascii_def
    find_action_def ex_world_def empty_journal_def journal_ok_def)

lemma ex_env_facts: "0 < x_now_ms ex_env" "\<forall>k. 0 < x_clock ex_env k"
  by (simp_all add: ex_env_def)


section \<open>Properties\<close>

text \<open>
  C8: executing an order always comes to a result. On a lane with no unsettled order, with valid
  arguments and a journal that accepts transactions, \<open>execute_ioc\<close> returns whatever the connection
  does. The row it returns is the one in the journal; a result that was not sent leaves no frame and
  a NOT_SENT row, and every other result leaves a recorded attempt, the state that the result maps
  to, and exactly the fill the result reports, within the submitted size.
\<close>

theorem execute_ioc_returns:
  assumes "sl_wallet lane" and "lane_recovery lane (w_journal w) = Inr []"
    and "lane_arg (sl_follower_account lane) (sl_api_wallet_address lane) = Inr l"
    and "journal_ok (w_journal w)"
    and "py_strip (n_desired_id action) \<noteq> []" and "py_strip (n_market action) \<noteq> []"
    and "validate_cloid (next_cloid digest lane l (w_journal w) action (Fin x)) = Inr c"
    and "find_action (w_journal w) c = None"
    and "0 < n_size action" and "ctx (n_size action) = n_size action" and "on_grid (- 8) (n_size action)"
    and "0 < x" and "on_grid (- 8) (ctx x)" and "0 \<le> asset"
    and "0 < x_now_ms env" and "0 < sl_expires_window_ms lane" and "\<forall>k. 0 < x_clock env k"
    and "4 \<le> w_commits w"
    and "\<And>a v n e m. exact_json (sign a v n e m)"
    and "\<forall>v. sl_vault_address lane = Some v \<longrightarrow> ascii v"
  shows "\<exists>w' a. execute_ioc sign digest lane env action asset (Fin x) epoch received w = (w', Inr a) \<and>
    attempt_settled c (n_size action) w w' a"
  using assms by (rule execute_ioc_settles)

theorem execute_ioc_returns_witness:
  "\<exists>w' a. execute_ioc ex_sign ex_digest ex_lane ex_env ex_order 3 (Fin 100) 1 None (ex_world 4) = (w', Inr a) \<and>
     attempt_settled (''0x'' @ replicate 32 (CHR ''a'')) (n_size ex_order) (ex_world 4) w' a"
  by (rule execute_ioc_returns [OF ex_lane_facts(1-3) ex_order_facts(10,1-3) ex_order_facts(9,4-6) _ ex_order_facts(7)
        _ ex_env_facts(1) _ ex_env_facts(2)])
    (simp_all add: ex_lane_facts ex_order_facts ex_world_def)

text \<open>
  The open risk of an ambiguous order is reported in full. When the one unsettled order of a lane
  may have been sent, \<open>unresolved_signed_remaining\<close> reads the side back from the journaled action and
  reports the remaining size of that market, positive for a buy and negative for a sell.
\<close>

theorem unresolved_remaining_reported:
  assumes "lane_recovery lane j = Inr [r]" and "a_state r \<noteq> PREPARED"
    and "a_action_json r = json_dumps (ioc_wire asset is_buy px sz ro c)"
    and "ascii px" and "ascii sz" and "ascii c"
  shows "unresolved_signed_remaining lane j =
    Inr [(a_market r, if is_buy then remaining_size r else - remaining_size r)]"
proof -
  have "ctx (remaining_size r) = remaining_size r" by (simp add: remaining_size_def dsub_def)
  then show ?thesis
    using assms order_is_buy_wire [OF assms(4-6)]
    by (simp add: unresolved_signed_remaining_def add_remaining_def dadd_def dneg_def ctx_uminus)
qed

definition ex_unknown_row :: ActionRecord where
  "ex_unknown_row = ex_row\<lparr>a_state := UNKNOWN, a_send_attempted_ms := Some 9,
     a_action_json := json_dumps (ioc_wire 3 False ''100'' ''2'' False ex_cloid)\<rparr>"

theorem unresolved_remaining_reported_witness:
  "unresolved_signed_remaining ex_lane (empty_journal\<lparr>actions := [ex_unknown_row]\<rparr>) =
     Inr [(''BTC'', - remaining_size ex_unknown_row)]"
proof -
  have "lane_recovery ex_lane (empty_journal\<lparr>actions := [ex_unknown_row]\<rparr>) = Inr [ex_unknown_row]"
    by (simp add: lane_recovery_def recovery_actions_def ex_lane_facts ex_unknown_row_def ex_row_def state_defs)
  moreover have "ascii ex_cloid" by (rule ascii_cloid [OF ex_values(1)])
  ultimately have "unresolved_signed_remaining ex_lane (empty_journal\<lparr>actions := [ex_unknown_row]\<rparr>) =
      Inr [(a_market ex_unknown_row, if False then remaining_size ex_unknown_row else - remaining_size ex_unknown_row)]"
    by (intro unresolved_remaining_reported [where asset = 3 and px = "''100''" and sz = "''2''" and ro = False
          and c = ex_cloid]) (simp_all add: ex_unknown_row_def)
  then show ?thesis by (simp add: ex_unknown_row_def ex_row_def)
qed

end
