(* ===== verification/Executor_Safety.thy ===== *)
theory Executor_Safety
  imports Executor_Run
begin

text \<open>
  What the signer lanes guarantee about the orders that reach the wire. The specification is the
  \<open>courier\<close>: a journal and the list of frames written so far, changed by one journal transaction or
  one write at a time. Its steps interleave the transactions of any number of lanes in any order and
  may stop anywhere, so it also covers concurrent lanes and crashes; what it fixes is the order of
  recording and sending. The operations of \<open>ContinuousSignerLane\<close> refine it.
\<close>

section \<open>The courier\<close>

text \<open>The CLOID an action frame carries; \<open>None\<close> for other frames.\<close>

definition frame_cloid :: "json \<Rightarrow> string option" where
  "frame_cloid f =
     (case f of
        JObj m \<Rightarrow>
          (case jget m ''request'' of
             JObj q \<Rightarrow>
               if jget q ''type'' \<noteq> JStr ''action'' then None
               else (case jget q ''payload'' of
                 JObj p \<Rightarrow>
                   (case jget p ''action'' of
                      JObj a \<Rightarrow>
                        (case jget a ''orders'' of
                           JArr [JObj ord] \<Rightarrow> (case jget ord ''c'' of JStr c \<Rightarrow> Some c | _ \<Rightarrow> None)
                         | _ \<Rightarrow> None)
                    | _ \<Rightarrow> None)
               | _ \<Rightarrow> None)
           | _ \<Rightarrow> None)
      | _ \<Rightarrow> None)"

definition unresolved :: "journal \<Rightarrow> lane \<Rightarrow> ActionRecord list" where
  "unresolved j l = filter (\<lambda>r. recovery_required r \<and> a_lane r = l) (actions j)"

record courier =
  c_journal :: journal
  c_sent :: "json list"

inductive courier_step :: "courier \<Rightarrow> courier \<Rightarrow> bool" where
  cs_reserve: "reserve_nonce (c_journal s) f w t now = Inr (j, n) \<Longrightarrow> courier_step s (s\<lparr>c_journal := j\<rparr>)"
| cs_prepare: "prepare_action (c_journal s) p now = Inr (j, r) \<Longrightarrow> unresolved (c_journal s) (a_lane r) = [] \<Longrightarrow>
    courier_step s (s\<lparr>c_journal := j\<rparr>)"
| cs_mark: "mark_send_attempted (c_journal s) c q t now = Inr (j, r) \<Longrightarrow> courier_step s (s\<lparr>c_journal := j\<rparr>)"
| cs_send: "mark_send_attempted (c_journal s) c q t now = Inr (j, r) \<Longrightarrow>
    frame_cloid (post_frame i ''action'' p) = Some (a_cloid r) \<Longrightarrow> a_signed_payload_json r = json_dumps p \<Longrightarrow>
    courier_step s (s\<lparr>c_journal := j, c_sent := c_sent s @ [post_frame i ''action'' p]\<rparr>)"
| cs_info: "frame_cloid f = None \<Longrightarrow> courier_step s (s\<lparr>c_sent := c_sent s @ [f]\<rparr>)"
| cs_not_sent: "mark_not_sent (c_journal s) c t now = Inr (j, r) \<Longrightarrow> courier_step s (s\<lparr>c_journal := j\<rparr>)"
| cs_outcome: "record_outcome (c_journal s) c st x d t now = Inr (j, r) \<Longrightarrow> courier_step s (s\<lparr>c_journal := j\<rparr>)"

text \<open>
  At most one unsettled order per lane; at most one frame per order; and a frame only for an order
  whose row already records the attempt and holds exactly the payload that was written.
\<close>

definition frames_of :: "string \<Rightarrow> json list \<Rightarrow> json list" where
  "frames_of c fs = filter (\<lambda>f. frame_cloid f = Some c) fs"

definition recorded :: "journal \<Rightarrow> json \<Rightarrow> bool" where
  "recorded j f \<longleftrightarrow>
     (case frame_cloid f of
        None \<Rightarrow> True
      | Some c \<Rightarrow>
          (case find_action j c of
             None \<Rightarrow> False
           | Some r \<Rightarrow> a_send_attempted_ms r \<noteq> None \<and>
               (\<exists>i p. f = post_frame i ''action'' p \<and> a_signed_payload_json r = json_dumps p)))"

definition courier_ok :: "courier \<Rightarrow> bool" where
  "courier_ok s \<longleftrightarrow>
     journal_ok (c_journal s) \<and>
     (\<forall>l. length (unresolved (c_journal s) l) \<le> 1) \<and>
     (\<forall>c. length (frames_of c (c_sent s)) \<le> 1) \<and>
     (\<forall>f \<in> set (c_sent s). recorded (c_journal s) f)"


section \<open>The courier keeps its promises\<close>

text \<open>No update reopens a settled row.\<close>

lemma row_step_recovery:
  assumes "row_step r r'" and "action_ok r" and "recovery_required r'"
  shows "recovery_required r"
  using assms row_step_terminal [OF assms(1)]
  by (cases "a_state r") (auto simp: state_defs)

lemma length_filter_map_le:
  "(\<And>x. x \<in> set xs \<Longrightarrow> P (g x) \<Longrightarrow> P x) \<Longrightarrow> length (filter P (map g xs)) \<le> length (filter P xs)"
  by (induction xs) (auto simp: le_SucI)

lemma unresolved_row_op:
  assumes ok: "journal_ok j" and op: "row_op j c j' r r'"
  shows "length (unresolved j' l) \<le> length (unresolved j l)"
proof (cases "j' = j")
  case False
  with op obtain c' where r: "find_action j c' = Some r" "row_step r r'" and j': "j' = replace_row j r'"
    by (auto simp: row_op_def)
  have rin: "r \<in> set (actions j)" and "action_ok r"
    using find_actionD [OF r(1)] ok by (auto simp: journal_ok_def)
  note w = write_onceD [OF row_step_write_once [OF r(2)]]
  have "x = r" if "x \<in> set (actions j)" "a_cloid x = a_cloid r'" for x
    using distinct_map_eqD [of a_cloid "actions j" x r] that rin ok w(1) by (simp add: journal_ok_def)
  then have "length (filter (\<lambda>r. recovery_required r \<and> a_lane r = l)
      (map (\<lambda>x. if a_cloid x = a_cloid r' then r' else x) (actions j))) \<le> length (unresolved j l)"
    unfolding unresolved_def using row_step_recovery [OF r(2) \<open>action_ok r\<close>] w(3)
    by (intro length_filter_map_le) (auto split: if_splits)
  then show ?thesis by (simp add: unresolved_def j' replace_row_def set_row_def)
qed simp

lemma recorded_row_op:
  assumes ok: "journal_ok j" and op: "row_op j c j' r r'" and rec: "recorded j f"
  shows "recorded j' f"
proof (cases "j' = j")
  case False
  with op obtain c' where r: "find_action j c' = Some r" "row_step r r'" and j': "j' = replace_row j r'"
    by (auto simp: row_op_def)
  have "action_ok r" using find_actionD [OF r(1)] ok by (auto simp: journal_ok_def)
  note w = write_onceD [OF row_step_write_once [OF r(2)]]
  have "a_send_attempted_ms r' \<noteq> None" if "a_send_attempted_ms r \<noteq> None"
    using row_step_send_time [OF r(2) \<open>action_ok r\<close> that] that by simp
  then show ?thesis
    using rec w(1,8) find_actionD [OF r(1)] r(1)
    by (auto simp: recorded_def j' find_action_replace split: option.splits if_splits) blast+
qed (use rec in simp)

lemma courier_ok_row_op:
  assumes ok: "courier_ok s" and op: "row_op (c_journal s) c j r r'"
  shows "courier_ok (s\<lparr>c_journal := j\<rparr>)"
proof -
  have j: "journal_ok (c_journal s)" using ok by (simp add: courier_ok_def)
  show ?thesis
    using ok row_op_ok [OF j op] le_trans [OF unresolved_row_op [OF j op]] recorded_row_op [OF j op]
    by (simp add: courier_ok_def)
qed

lemma reserve_actions: "reserve_nonce j f w t now = Inr (j', n) \<Longrightarrow> actions j' = actions j"
  by (auto elim: reserve_nonce_Inr)

lemma courier_ok_reserve:
  assumes ok: "courier_ok s" and step: "reserve_nonce (c_journal s) f w t now = Inr (j, n)"
  shows "courier_ok (s\<lparr>c_journal := j\<rparr>)"
proof -
  have same: "actions j = actions (c_journal s)" using step by (rule reserve_actions)
  moreover have "journal_ok j" using ok step by (auto simp: courier_ok_def intro: reserve_ok)
  moreover have "unresolved j = unresolved (c_journal s)" "recorded j = recorded (c_journal s)"
  proof -
    have "find_action j = find_action (c_journal s)" by (simp add: fun_eq_iff find_action_def same)
    then show "recorded j = recorded (c_journal s)" by (intro ext) (simp only: recorded_def)
  qed (simp add: fun_eq_iff unresolved_def same)
  ultimately show ?thesis using ok by (simp add: courier_ok_def)
qed

lemma courier_ok_prepare:
  assumes ok: "courier_ok s" and step: "prepare_action (c_journal s) p now = Inr (j, r)"
    and idle: "unresolved (c_journal s) (a_lane r) = []"
  shows "courier_ok (s\<lparr>c_journal := j\<rparr>)"
proof -
  from step have new: "\<not> unique_violation (c_journal s) r"
    and j: "j = (c_journal s)\<lparr>actions := actions (c_journal s) @ [r]\<rparr>"
    by (auto elim: prepare_action_Inr)
  have "journal_ok j" using ok step by (auto simp: courier_ok_def intro: journal_step_ok step_prepare)
  moreover have "length (unresolved j l) \<le> 1" for l
  proof -
    have "unresolved j l = unresolved (c_journal s) l @ (if recovery_required r \<and> a_lane r = l then [r] else [])"
      by (simp add: unresolved_def j)
    then show ?thesis using ok idle by (cases l) (auto simp: courier_ok_def)
  qed
  moreover have "recorded j f" if "recorded (c_journal s) f" for f
    using that find_action_fresh [OF new]
    by (auto simp: recorded_def j find_action_append [OF new] split: option.splits) blast
  ultimately show ?thesis using ok by (simp add: courier_ok_def)
qed

lemma courier_ok_send:
  assumes ok: "courier_ok s" and mark: "mark_send_attempted (c_journal s) c q t now = Inr (j, r)"
    and frame: "frame_cloid (post_frame i ''action'' p) = Some (a_cloid r)"
    and same: "a_signed_payload_json r = json_dumps p"
  shows "courier_ok (s\<lparr>c_journal := j, c_sent := c_sent s @ [post_frame i ''action'' p]\<rparr>)"
proof -
  from mark_send_attempted_Inr [OF mark] obtain r0 where op: "row_op (c_journal s) c j r0 r"
    and r0: "a_state r0 = PREPARED" and r: "a_state r = SEND_ATTEMPTED" by blast
  from op r0 r obtain c' where find: "find_action (c_journal s) c' = Some r0"
    and step: "row_step r0 r" and j: "j = replace_row (c_journal s) r" by (auto simp: row_op_def)
  have ok': "courier_ok (s\<lparr>c_journal := j\<rparr>)" using ok op by (rule courier_ok_row_op)
  have c: "a_cloid r = c'" "a_cloid r0 = c'"
    using write_onceD(1) [OF row_step_write_once [OF step]] find_actionD [OF find] by auto
  have "action_ok r0" using ok find_actionD [OF find] by (auto simp: courier_ok_def journal_ok_def)
  then have "a_send_attempted_ms r0 = None" using r0 by (simp add: action_ok_def provably_not_sent_def)
  then have fresh: "frames_of c' (c_sent s) = []"
    using ok find by (auto simp: frames_of_def filter_empty_conv courier_ok_def recorded_def)
  have found: "find_action j c' = Some r" using find c by (simp add: j find_action_replace)
  have "action_ok r" using step \<open>action_ok r0\<close> by (rule row_step_ok)
  then have "a_send_attempted_ms r \<noteq> None" using r by (auto simp: action_ok_def provably_not_sent_def)
  then have "recorded j (post_frame i ''action'' p)"
    using found frame same c by (auto simp: recorded_def)
  then show ?thesis
    using ok' fresh frame c by (auto simp: courier_ok_def frames_of_def)
qed

lemma courier_ok_step: "courier_step s s' \<Longrightarrow> courier_ok s \<Longrightarrow> courier_ok s'"
proof (induction rule: courier_step.induct)
  case (cs_info f s)
  then show ?case by (auto simp: courier_ok_def frames_of_def recorded_def)
qed (blast intro: courier_ok_reserve courier_ok_prepare courier_ok_send courier_ok_row_op
    dest: mark_send_attempted_Inr mark_not_sent_Inr record_outcome_Inr)+


section \<open>The signer lane refines the courier\<close>

definition courier_of :: "world \<Rightarrow> courier" where
  "courier_of w = \<lparr>c_journal = w_journal w, c_sent = w_sent w\<rparr>"

text \<open>An action that is a run of the courier from every world, whatever its result.\<close>

definition act_refines :: "'a act \<Rightarrow> bool" where
  "act_refines m \<longleftrightarrow> (\<forall>w. courier_step\<^sup>*\<^sup>* (courier_of w) (courier_of (fst (m w))))"

lemma act_refinesD: "act_refines m \<Longrightarrow> courier_step\<^sup>*\<^sup>* (courier_of w) (courier_of (fst (m w)))"
  by (simp add: act_refines_def)

lemma act_refines_of [intro, simp]: "act_refines (act_of r)"
  by (simp add: act_refines_def act_of_def)

lemma act_refines_read [intro, simp]: "act_refines (journal_read f)"
  by (simp add: act_refines_def journal_read_def)

lemma run_bind:
  assumes "courier_step\<^sup>*\<^sup>* (courier_of w) (courier_of (fst (m w)))"
    and "\<And>w' x. m w = (w', Inr x) \<Longrightarrow> courier_step\<^sup>*\<^sup>* (courier_of w') (courier_of (fst (f x w')))"
  shows "courier_step\<^sup>*\<^sup>* (courier_of w) (courier_of (fst (act_bind m f w)))"
proof (cases "m w")
  case (Pair w' r)
  show ?thesis
  proof (cases r)
    case (Inl e)
    with assms(1) Pair show ?thesis by (simp add: act_bind_def)
  next
    case (Inr x)
    have "courier_step\<^sup>*\<^sup>* (courier_of w') (courier_of (fst (f x w')))" using assms(2) Pair Inr by simp
    with assms(1) Inr Pair show ?thesis by (simp add: act_bind_def)
  qed
qed

lemma act_refines_bind [intro]:
  assumes "act_refines m" and "\<And>x. act_refines (f x)"
  shows "act_refines (act_bind m f)"
  using assms unfolding act_refines_def by (blast intro: run_bind)

lemma act_refines_write:
  assumes "\<And>s j x. f (c_journal s) = Inr (j, x) \<Longrightarrow> courier_step s (s\<lparr>c_journal := j\<rparr>)"
  shows "act_refines (journal_write f)"
proof -
  have "courier_step\<^sup>*\<^sup>* (courier_of w) (courier_of (fst (journal_write f w)))" for w
    using assms [of "courier_of w"]
    by (auto simp: journal_write_def courier_of_def split: sum.splits)
  then show ?thesis by (simp add: act_refines_def)
qed

lemma act_refines_ops:
  "act_refines (journal_write (\<lambda>j. reserve_nonce j f w t now))"
  "act_refines (journal_write (\<lambda>j. mark_not_sent j c t now))"
  "act_refines (journal_write (\<lambda>j. record_outcome j c st x d t now))"
  "act_refines (journal_write (\<lambda>j. mark_unknown j c d t now))"
  by (auto intro!: act_refines_write intro: cs_reserve cs_not_sent cs_outcome simp: mark_unknown_def)

lemma courier_of_mux [simp]:
  "courier_of (run_mux evs w) = courier_of w" "courier_of (w\<lparr>w_mux := m\<rparr>) = courier_of w"
  "courier_of (w\<lparr>w_commits := n\<rparr>) = courier_of w"
  "courier_of (fst (end_request i ending w)) = courier_of w"
  by (auto simp: courier_of_def run_mux_def end_request_def split: option.splits)

lemma act_refines_recover_loop: "act_refines (recover_loop clock k rs)"
proof (induction rs arbitrary: k)
  case (Cons r rs)
  then show ?case by (auto intro: act_refines_ops)
qed simp

lemma act_refines_recover: "act_refines (recover_provably_unsent lane clock)"
  unfolding recover_provably_unsent_def by (auto intro: act_refines_recover_loop)

lemma frame_cloid_info: "frame_cloid (post_frame i ''info'' p) = None"
  by (simp add: frame_cloid_def post_frame_def jget_def dget_def)

lemma write_info:
  assumes "courier_of w = s"
  shows "courier_step\<^sup>*\<^sup>* s (courier_of (write_frame e (post_frame i ''info'' p) w))"
  using cs_info [OF frame_cloid_info, of "courier_of w" i p] assms
  by (auto simp: write_frame_def courier_of_def)

lemma act_refines_option:
  "act_refines m \<Longrightarrow> (\<And>x. act_refines (f x)) \<Longrightarrow> act_refines (case v of None \<Rightarrow> m | Some x \<Rightarrow> f x)"
  by (cases v) auto

lemma act_refines_if: "act_refines m \<Longrightarrow> act_refines m' \<Longrightarrow> act_refines (if b then m else m')"
  by simp

lemmas act_refines_rules =
  act_refines_bind act_refines_option act_refines_if act_refines_of act_refines_read act_refines_ops

lemma act_refines_record_result: "act_refines (record_result cloid r now)"
  unfolding record_result_def by (intro act_refines_rules)

lemma act_refines_post_info: "act_refines (post_info env payload epoch)"
proof -
  have "act_refines (post_wire env ''info'' p epoch (\<lambda>_. act_of (Inr ())))" for p
    by (auto simp: act_refines_def post_wire_def act_of_def Let_def intro!: write_info split: sum.splits)
  then show ?thesis
    unfolding post_info_def by (auto split: json.split list.split)
qed

lemma act_refines_resolve: "act_refines (resolve_by_cloid lane env cloid epoch)"
  unfolding resolve_by_cloid_def by (intro act_refines_rules act_refines_post_info)

text \<open>Posting a prepared order: the attempt is recorded in the same step that the frame leaves.\<close>

lemma post_action_refines:
  assumes row: "find_action (w_journal w) c = Some row" and valid: "validate_cloid cloid = Inr c"
    and same: "a_signed_payload_json row = json_dumps (s_payload signed)"
    and frame: "\<And>i. frame_cloid (post_frame i ''action'' (s_payload signed)) = Some c"
  shows "courier_step\<^sup>*\<^sup>* (courier_of w) (courier_of (fst (post_action env signed epoch (\<lambda>i.
     act_bind (journal_write (\<lambda>j. mark_send_attempted j cloid (Some (show_int i)) None now))
       (\<lambda>_. act_of (Inr ()))) w)))"
proof -
  let ?before = "\<lambda>i. act_bind (journal_write (\<lambda>j. mark_send_attempted j cloid (Some (show_int i)) None now))
    (\<lambda>_. act_of (Inr ()))"
  have step: "courier_step (courier_of w) (courier_of (write_frame e (post_frame i ''action'' (s_payload signed))
      (v\<lparr>w_journal := j, w_commits := n\<rparr>)))"
    if mark: "mark_send_attempted (w_journal v) cloid q None now = Inr (j, r)" and v: "courier_of v = courier_of w"
    for e i v n j r q
  proof -
    have wj: "w_journal v = w_journal w" "w_sent v = w_sent w" using v by (simp_all add: courier_of_def)
    from mark_send_attempted_Inr [OF mark] obtain r0 where op: "row_op (w_journal w) cloid j r0 r"
      and "a_state r0 \<noteq> a_state r" by (auto simp: wj)
    then have "r0 = row" "row_step row r" using row valid by (auto simp: row_op_def)
    then have "a_cloid r = c" "a_signed_payload_json r = json_dumps (s_payload signed)"
      using write_onceD(1,8) [OF row_step_write_once] find_actionD [OF row] same by metis+
    with frame mark show ?thesis
      using cs_mark [of "courier_of w" cloid q None now j r] cs_send [of "courier_of w" cloid q None now j r i]
      by (auto simp: write_frame_def courier_of_def wj)
  qed
  show ?thesis
  proof -
    have "courier_step\<^sup>*\<^sup>* (courier_of w) (courier_of (fst (post_wire env ''action'' (s_payload signed) epoch ?before w)))"
      using step
      by (auto simp: post_wire_def act_bind_def act_of_def journal_write_def Let_def split: sum.splits
          intro!: r_into_rtranclp)
    then show ?thesis
      by (auto simp: post_action_def act_bind_def act_of_def split: sum.splits prod.splits)
  qed
qed

lemma send_prepared_refines:
  assumes "find_action (w_journal w) c = Some row" and "validate_cloid cloid = Inr c"
    and "a_signed_payload_json row = json_dumps (s_payload signed)"
    and "\<And>i. frame_cloid (post_frame i ''action'' (s_payload signed)) = Some c"
  shows "courier_step\<^sup>*\<^sup>* (courier_of w) (courier_of (fst (send_prepared env signed cloid epoch received w)))"
  unfolding send_prepared_def Let_def
  by (rule run_bind, rule post_action_refines [OF assms])
    (intro act_refinesD act_refines_rules act_refines_record_result)

text \<open>What the executor signs is the wire order under its own CLOID.\<close>

lemma signed_frame_cloid:
  assumes "build_ioc_action asset is_buy sz px ro cloid = Inr ioc"
    and "sign_ioc_action sign ioc nonce expires mainnet vault = Inr signed"
  shows "frame_cloid (post_frame i ''action'' (s_payload signed)) = Some (ioc_cloid ioc)"
    "validate_cloid (ioc_cloid ioc) = Inr (ioc_cloid ioc)" "ioc_cloid ioc = py_lower cloid"
proof -
  from build_ioc_action_shape [OF assms(1)] obtain p s where
    w: "ioc_action ioc = ioc_wire asset is_buy p s ro (ioc_cloid ioc)"
    "validate_ioc_wire (ioc_action ioc) (ioc_cloid ioc) = Inr ()" and
    c: "validate_cloid (ioc_cloid ioc) = Inr (ioc_cloid ioc)" "ioc_cloid ioc = py_lower cloid" by blast
  have nn: "0 \<le> nonce" "0 < expires"
    using assms(2) by (auto simp: sign_ioc_action_def not_less split: if_splits)
  have "s_payload signed = signed_payload (ioc_action ioc) nonce
      (sign (ioc_action ioc) vault nonce expires mainnet) vault expires"
    using sign_ioc_action_total [OF w(2) nn, of sign mainnet vault] assms(2) by simp
  then show "frame_cloid (post_frame i ''action'' (s_payload signed)) = Some (ioc_cloid ioc)"
    by (simp add: w(1) frame_cloid_def post_frame_def signed_payload_def ioc_wire_def jget_def dget_def)
  show "validate_cloid (ioc_cloid ioc) = Inr (ioc_cloid ioc)" "ioc_cloid ioc = py_lower cloid" by fact+
qed

lemma sort_key_Nil_iff [simp]: "sort_key f xs = [] \<longleftrightarrow> xs = []"
  by (metis length_0_conv length_sort)

lemma lane_recovery_empty:
  assumes "lane_recovery lane j = Inr []"
  shows "\<exists>l. lane_arg (sl_follower_account lane) (sl_api_wallet_address lane) = Inr l \<and> unresolved j l = []"
proof -
  from assms obtain l where l: "lane_arg (sl_follower_account lane) (sl_api_wallet_address lane) = Inr l"
    and "filter (\<lambda>r. a_lane r = l) (filter recovery_required (actions j)) = []"
    by (auto simp: lane_recovery_def recovery_actions_def Let_def)
  then have "unresolved j l = []" by (auto simp: unresolved_def filter_empty_conv)
  with l show ?thesis by blast
qed

lemma json_object_same: "json_object v field = Inr x \<Longrightarrow> x = v"
  by (auto simp: json_object_def split: if_splits option.splits json.splits)

lemma prepared_row_fields:
  assumes "prepared_row p now = Inr r"
  shows "lane_arg (p_follower_account p) (p_api_wallet p) = Inr (a_lane r)"
    "validate_cloid (p_cloid p) = Inr (a_cloid r)"
    "a_signed_payload_json r = p_signed_payload_json p" "a_action_json r = p_action_json p"
    "positive_decimal (p_requested_size p) ''requested_size'' = Inr (a_requested_size r)"
  using assms by (auto simp: prepared_row_def dest: json_object_same split: if_splits)

lemma execute_refines: "act_refines (execute_ioc sign digest lane env action asset px epoch received)"
  unfolding act_refines_def
proof
  fix w :: world
  have prep: "courier_step\<^sup>*\<^sup>* (courier_of v)
      (courier_of (fst (act_bind (journal_write (\<lambda>j. prepare_action j
         (prepare_request lane action attempt cloid nonce t ioc signed) now)) (\<lambda>_.
         send_prepared env signed cloid epoch received) v)))"
    if empty: "lane_recovery lane (w_journal w) = Inr []" and acts: "actions (w_journal v) = actions (w_journal w)"
      and build: "build_ioc_action asset is_buy sz px ro cloid = Inr ioc"
      and sign: "sign_ioc_action sign ioc nonce expires mainnet vault = Inr signed"
    for v attempt cloid nonce t ioc signed now is_buy sz ro expires mainnet vault
  proof (rule run_bind)
    from lane_recovery_empty [OF empty] obtain l where
      l: "lane_arg (sl_follower_account lane) (sl_api_wallet_address lane) = Inr l"
      and idle: "unresolved (w_journal v) l = []" by (auto simp: unresolved_def acts)
    let ?p = "prepare_request lane action attempt cloid nonce t ioc signed"
    have row: "a_lane r = l \<and> validate_cloid cloid = Inr (a_cloid r) \<and>
        a_signed_payload_json r = json_dumps (s_payload signed) \<and> find_action j (a_cloid r) = Some r"
      if "prepare_action (w_journal v) ?p now = Inr (j, r)" for j r
    proof -
      from that have "prepared_row ?p now = Inr r" and "\<not> unique_violation (w_journal v) r"
        and "j = (w_journal v)\<lparr>actions := actions (w_journal v) @ [r]\<rparr>"
        by (auto elim: prepare_action_Inr)
      then show ?thesis
        using l prepared_row_fields [of ?p now r] by (simp add: prepare_request_def find_action_snoc)
    qed
    show "courier_step\<^sup>*\<^sup>* (courier_of v) (courier_of (fst (journal_write (\<lambda>j. prepare_action j ?p now) v)))"
      using row idle cs_prepare [of "courier_of v" ?p now]
      by (auto simp: journal_write_def courier_of_def split: sum.splits)
    fix v' r
    assume "journal_write (\<lambda>j. prepare_action j ?p now) v = (v', Inr r)"
    then obtain j where "prepare_action (w_journal v) ?p now = Inr (j, r)" and "w_journal v' = j"
      by (auto simp: journal_write_def split: if_splits sum.splits)
    with row have r: "find_action (w_journal v') (a_cloid r) = Some r" "validate_cloid cloid = Inr (a_cloid r)"
      "a_signed_payload_json r = json_dumps (s_payload signed)" by auto
    have "a_cloid r = ioc_cloid ioc"
      using validate_cloid_Inr [OF r(2)] signed_frame_cloid(3) [OF build sign] by simp
    then show "courier_step\<^sup>*\<^sup>* (courier_of v') (courier_of (fst (send_prepared env signed cloid epoch received v')))"
      using signed_frame_cloid(1) [OF build sign] by (intro send_prepared_refines [OF r]) simp
  qed
  show "courier_step\<^sup>*\<^sup>* (courier_of w) (courier_of (fst (execute_ioc sign digest lane env action asset px epoch received w)))"
  proof (cases "sl_wallet lane")
    case True
    then show ?thesis
      unfolding execute_ioc_def Let_def
    proof (simp, intro run_bind act_refinesD [OF act_refines_read], goal_cases)
      case (1 w1 u)
      have w1: "w1 = w" and u: "lane_recovery lane (w_journal w) = Inr u"
        using 1 by (auto simp: journal_read_def)
      show ?case
      proof (cases "u = []")
        case True
        note empty = u [unfolded True]
        show ?thesis
          unfolding True w1
          by (simp, rule run_bind, rule act_refinesD [OF act_refines_read],
              rule run_bind, rule act_refinesD [OF act_refines_of],
              rule run_bind, rule act_refinesD [OF act_refines_ops(1)],
              rule run_bind, rule act_refinesD [OF act_refines_of], rule prep [OF empty])
            (auto simp: journal_read_def act_of_def journal_write_def reserve_actions
              split: if_splits sum.splits)
      qed (simp add: act_of_def)
    qed
  qed (simp add: execute_ioc_def act_of_def)
qed


section \<open>Runs of the program\<close>

text \<open>
  One operation of some lane, ending after any number of journal transactions; events on the
  connection; or a restart of the process, which loses the multiplexer and keeps the journal.
\<close>

inductive world_step ::
  "(json \<Rightarrow> string option \<Rightarrow> int \<Rightarrow> int \<Rightarrow> bool \<Rightarrow> json) \<Rightarrow> (cloid_parts \<Rightarrow> string) \<Rightarrow> world \<Rightarrow> world \<Rightarrow> bool"
  for sign digest where
  ws_execute: "execute_ioc sign digest lane env action asset px epoch received (w\<lparr>w_commits := n\<rparr>) = (w', r) \<Longrightarrow>
    world_step sign digest w w'"
| ws_resolve: "resolve_by_cloid lane env cloid epoch (w\<lparr>w_commits := n\<rparr>) = (w', r') \<Longrightarrow> world_step sign digest w w'"
| ws_recover: "recover_provably_unsent lane clock (w\<lparr>w_commits := n\<rparr>) = (w', r'') \<Longrightarrow> world_step sign digest w w'"
| ws_network: "world_step sign digest w (run_mux evs w)"
| ws_restart: "world_step sign digest w (w\<lparr>w_mux := mux_init\<rparr>)"

definition new_world :: world where
  "new_world = \<lparr>w_journal = empty_journal, w_mux = mux_init, w_sent = [], w_commits = 0\<rparr>"

lemma act_refines_run:
  "act_refines m \<Longrightarrow> m (w\<lparr>w_commits := n\<rparr>) = (w', r) \<Longrightarrow> courier_step\<^sup>*\<^sup>* (courier_of w) (courier_of w')"
  by (drule act_refinesD [of m "w\<lparr>w_commits := n\<rparr>"]) simp

lemma world_step_refines: "world_step sign digest w w' \<Longrightarrow> courier_step\<^sup>*\<^sup>* (courier_of w) (courier_of w')"
  by (induction rule: world_step.induct)
    (simp_all add: act_refines_run [OF execute_refines] act_refines_run [OF act_refines_resolve]
      act_refines_run [OF act_refines_recover])

lemma courier_ok_run: "courier_step\<^sup>*\<^sup>* s s' \<Longrightarrow> courier_ok s \<Longrightarrow> courier_ok s'"
  by (induction rule: rtranclp_induct) (auto intro: courier_ok_step)

interpretation lw: simulation "\<lambda>w. courier_ok (courier_of w)" "world_step sign digest" courier_of courier_step
  for sign digest
  by unfold_locales (auto dest: world_step_refines intro: courier_ok_run)

lemma new_world_ok: "courier_ok (courier_of new_world)"
  by (simp add: courier_ok_def courier_of_def new_world_def unresolved_def frames_of_def empty_journal_def
      journal_ok_def)

lemma reachable_world_ok:
  "(world_step sign digest)\<^sup>*\<^sup>* new_world w \<Longrightarrow> courier_ok (courier_of w)"
  using lw.inv_run new_world_ok by blast


section \<open>A reachable world\<close>

text \<open>A run that completes an order, and one that dies right after preparing it.\<close>

abbreviation ex_run_cloid :: string where
  "ex_run_cloid \<equiv> ''0x'' @ replicate 32 (CHR ''a'')"

lemma new_world_ex: "new_world\<lparr>w_commits := n\<rparr> = ex_world n"
  by (simp add: new_world_def ex_world_def)

lemma ex_step:
  "execute_ioc sign digest lane env action asset px epoch received (ex_world n) = (w', r) \<Longrightarrow>
   world_step sign digest new_world w'"
  unfolding new_world_ex [symmetric] by (rule ws_execute)

lemma ex_complete:
  obtains w r where "world_step ex_sign ex_digest new_world w"
    "find_action (w_journal w) ex_run_cloid = Some r"
proof -
  have "\<exists>w a. execute_ioc ex_sign ex_digest ex_lane ex_env ex_order 3 (Fin 100) 1 None (ex_world 4) = (w, Inr a) \<and>
      attempt_settled ex_run_cloid (n_size ex_order) (ex_world 4) w a"
    by (rule execute_ioc_settles [OF ex_lane_facts(1-3) ex_order_facts(10,1-3) ex_order_facts(9,4-6) _ ex_order_facts(7)
          _ ex_env_facts(1) _ ex_env_facts(2)])
      (simp_all add: ex_lane_facts ex_order_facts ex_world_def)
  then obtain w a where run: "execute_ioc ex_sign ex_digest ex_lane ex_env ex_order 3 (Fin 100) 1 None (ex_world 4) = (w, Inr a)"
    and "attempt_settled ex_run_cloid (n_size ex_order) (ex_world 4) w a" by blast
  then show ?thesis
    by (intro that [OF ex_step [OF run], of "ea_record a"]) (simp add: attempt_settled_def)
qed

lemma ex_dead:
  obtains w r where "world_step ex_sign ex_digest new_world w" "r \<in> set (actions (w_journal w))" "recovery_required r"
proof (rule execute_ioc_prepares [where w = "ex_world 2" and x = 100 and asset = 3,
      OF ex_lane_facts(1-3) ex_order_facts(10,1-3) ex_order_facts(9,4-6) _ ex_order_facts(7)
      _ ex_env_facts(1) _ ex_env_facts(2)])
  fix signed r and w2 :: world
  let ?run = "execute_ioc ex_sign ex_digest ex_lane ex_env ex_order 3 (Fin 100) 1 None (ex_world 2)"
  assume run: "?run = send_prepared ex_env signed
      (next_cloid ex_digest ex_lane (''0xf'', ''0xa'') (w_journal (ex_world 2)) ex_order (Fin 100)) 1 None w2"
    and r: "find_action (w_journal w2) ex_run_cloid = Some r" "a_state r = PREPARED"
    and "w_commits w2 = w_commits (ex_world 2) - 2"
  then have dead: "w_commits w2 = 0" by (simp add: ex_world_def)
  obtain w' res where w': "?run = (w', res)" by (cases ?run)
  have "w_journal w' = w_journal w2" using send_prepared_dead [OF dead] run w' by (metis fst_conv)
  then have "r \<in> set (actions (w_journal w'))" using find_actionD [OF r(1)] by simp
  moreover have "world_step ex_sign ex_digest new_world w'"
    using w' by (rule ex_step)
  ultimately show ?thesis using r(2) that by (auto simp: state_defs)
qed (simp_all add: ex_lane_facts ex_order_facts ex_world_def)


section \<open>Properties\<close>

text \<open>
  C9: every run of the signer lanes' operations, with any crashes, cancellations, restarts and network
  behaviour, is a run of the courier, whose only ways to write an order are those that record the
  attempt of a prepared row first and write exactly the payload that row holds.
\<close>

theorem signer_lanes_refine_courier:
  assumes "(world_step sign digest)\<^sup>*\<^sup>* new_world w"
  shows "courier_step\<^sup>*\<^sup>* (courier_of new_world) (courier_of w)"
  using lw.sim_run [OF assms new_world_ok] .

theorem signer_lanes_refine_courier_witness:
  "\<exists>w. (world_step ex_sign ex_digest)\<^sup>*\<^sup>* new_world w \<and> actions (w_journal w) \<noteq> [] \<and>
     courier_step\<^sup>*\<^sup>* (courier_of new_world) (courier_of w)"
proof (rule ex_dead)
  fix w r
  assume w: "world_step ex_sign ex_digest new_world w" "r \<in> set (actions (w_journal w))"
  from w(1) have run: "(world_step ex_sign ex_digest)\<^sup>*\<^sup>* new_world w" by (rule r_into_rtranclp)
  from signer_lanes_refine_courier [OF run] run w(2) show ?thesis by (metis empty_iff empty_set)
qed

text \<open>
  C1: at most one frame is ever written for an order, across retries, crashes and restarts, and every
  order frame on the wire has a row in the journal that records the send attempt and holds exactly
  the signed payload in the frame.
\<close>

theorem order_sent_at_most_once:
  assumes "(world_step sign digest)\<^sup>*\<^sup>* new_world w"
  shows "length (filter (\<lambda>f. frame_cloid f = Some c) (w_sent w)) \<le> 1 \<and>
    (\<forall>f. f \<in> set (w_sent w) \<and> frame_cloid f = Some c \<longrightarrow>
       (\<exists>r i p. find_action (w_journal w) c = Some r \<and> a_send_attempted_ms r \<noteq> None \<and>
          f = post_frame i ''action'' p \<and> a_signed_payload_json r = json_dumps p))"
  using reachable_world_ok [OF assms]
  by (auto simp: courier_ok_def courier_of_def frames_of_def recorded_def split: option.splits dest!: bspec)

theorem order_sent_at_most_once_witness:
  "\<exists>w r. (world_step ex_sign ex_digest)\<^sup>*\<^sup>* new_world w \<and> find_action (w_journal w) ex_run_cloid = Some r \<and>
     length (filter (\<lambda>f. frame_cloid f = Some ex_run_cloid) (w_sent w)) \<le> 1"
proof (rule ex_complete)
  fix w r
  assume w: "world_step ex_sign ex_digest new_world w" "find_action (w_journal w) ex_run_cloid = Some r"
  from w(1) have run: "(world_step ex_sign ex_digest)\<^sup>*\<^sup>* new_world w" by (rule r_into_rtranclp)
  from order_sent_at_most_once [OF run, of ex_run_cloid] run w(2) show ?thesis by blast
qed

text \<open>
  C2: a signer lane never has two unsettled orders: in every reachable state at most one row of a lane
  is PREPARED, SEND_ATTEMPTED, UNKNOWN or RESTING, even when operations crash between transactions.
\<close>

theorem one_unsettled_order_per_lane:
  assumes "(world_step sign digest)\<^sup>*\<^sup>* new_world w"
    and "r \<in> set (actions (w_journal w))" and "recovery_required r"
    and "r' \<in> set (actions (w_journal w))" and "recovery_required r'" and "a_lane r = a_lane r'"
  shows "r = r'"
proof -
  have "length (unresolved (w_journal w) (a_lane r)) \<le> 1"
    using reachable_world_ok [OF assms(1)] by (simp add: courier_ok_def courier_of_def)
  moreover have "r \<in> set (unresolved (w_journal w) (a_lane r))" "r' \<in> set (unresolved (w_journal w) (a_lane r))"
    using assms by (simp_all add: unresolved_def)
  ultimately show ?thesis
    by (cases "unresolved (w_journal w) (a_lane r)") auto
qed

theorem one_unsettled_order_per_lane_witness:
  "\<exists>w r. (world_step ex_sign ex_digest)\<^sup>*\<^sup>* new_world w \<and> recovery_required r \<and>
     {x \<in> set (actions (w_journal w)). recovery_required x \<and> a_lane x = a_lane r} = {r}"
proof (rule ex_dead)
  fix w r
  assume w: "world_step ex_sign ex_digest new_world w" "r \<in> set (actions (w_journal w))" "recovery_required r"
  from w(1) have run: "(world_step ex_sign ex_digest)\<^sup>*\<^sup>* new_world w" by (rule r_into_rtranclp)
  have "{x \<in> set (actions (w_journal w)). recovery_required x \<and> a_lane x = a_lane r} = {r}"
    using one_unsettled_order_per_lane [OF run _ _ w(2,3)] w(2,3) by blast
  with run w(3) show ?thesis by blast
qed

end
