(* ===== verification/Account_Frames.thy ===== *)
theory Account_Frames
  imports Ws_Actions Markets Desired_Engine
begin

text \<open>
  Parsing of account payloads: \<open>parse_decimal\<close> and the records of \<^verbatim>\<open>models.py\<close>, the position and
  open-order parsers of \<^verbatim>\<open>observer.py\<close>, and the aggregate all-DEX message of \<^verbatim>\<open>unified_account.py\<close>.
  Payloads are JSON values; messages keep the fixed part of their text.
\<close>

section \<open>Numbers and names\<close>

text \<open>\<open>parse_decimal\<close>: \<open>None\<close> counts as zero, anything else is \<open>Decimal(str(value))\<close> and must be finite.\<close>

definition parse_number :: "json \<Rightarrow> rat result" where
  "parse_number v =
     (if v = JNull then Inr 0
      else case parse_decimal (py_str v) of
        None \<Rightarrow> Inl (ArithmeticError ''InvalidOperation'')
      | Some d \<Rightarrow> if is_finite d then Inr (dec_val d) else Inl (ValueError ''decimal value must be finite''))"

text \<open>Present and not \<open>""\<close>.\<close>

definition given :: "json \<Rightarrow> bool" where
  "given v \<longleftrightarrow> v \<noteq> JNull \<and> v \<noteq> JStr []"

fun is_jbool :: "json \<Rightarrow> bool" where
  "is_jbool (JBool _) = True"
| "is_jbool _ = False"

text \<open>\<open>x is not None and not P(x)\<close> as a guard.\<close>

definition none_or :: "('a \<Rightarrow> bool) \<Rightarrow> 'a option \<Rightarrow> bool" where
  "none_or P v = (case v of None \<Rightarrow> True | Some x \<Rightarrow> P x)"

definition optional_number :: "json \<Rightarrow> rat option result" where
  "optional_number v = (if given v then rbind (parse_number v) (\<lambda>x. Inr (Some x)) else Inr None)"

definition has_key :: "(string \<times> json) list \<Rightarrow> string \<Rightarrow> bool" where
  "has_key m k \<longleftrightarrow> map_of m k \<noteq> None"

text \<open>A market argument that must be a string.\<close>

definition market_text :: "json \<Rightarrow> string result" where
  "market_text v = (case v of JStr s \<Rightarrow> Inr s | _ \<Rightarrow> Inl (MarketIdentityError ''market must be a string''))"

text \<open>\<open>int(str(v))\<close>\<close>

definition int_text :: "json \<Rightarrow> int option" where
  "int_text v = parse_int_text (py_str v)"

record OpenOrder =
  oo_coin :: string
  oo_side :: string
  oo_size :: rat
  oo_price :: "rat option"
  oo_oid :: "int option"
  oo_cloid :: "string option"
  oo_reduce_only :: bool
  oo_updated_ms :: int


section \<open>Positions\<close>

definition parse_position_leverage :: "json \<Rightarrow> int option result" where
  "parse_position_leverage raw =
     (let v = (case raw of JObj m \<Rightarrow> jget m ''value'' | _ \<Rightarrow> raw);
          bad = Inl (ValueError ''leverage must be a positive integer'')
      in if \<not> given v then Inr None
         else if is_jbool v then bad
         else case parse_number v of
           Inl _ \<Rightarrow> bad
         | Inr x \<Rightarrow> if x \<le> 0 \<or> x \<noteq> of_int \<lfloor>x\<rfloor> then bad else Inr (Some \<lfloor>x\<rfloor>))"

text \<open>One row: its market, and its position unless it is flat.\<close>

definition parse_position_row :: "string list \<Rightarrow> string \<Rightarrow> int \<Rightarrow> json \<Rightarrow> (string \<times> rat position option) result" where
  "parse_position_row seen dex observed item =
     (case item of
        JObj row \<Rightarrow>
          (case dget row ''position'' item of
             JObj p \<Rightarrow>
               (case jget p ''coin'' of
                  JStr raw \<Rightarrow>
                    if py_strip raw = [] then Inl (ValueError ''missing a valid coin'')
                    else rbind (qualify_market_symbol dex raw) (\<lambda>coin.
                         rbind (require (coin \<notin> set seen)
                                  (ValueError ''clearinghouse state contains duplicate position coin'')) (\<lambda>_.
                         rbind (require (has_key p ''szi'') (ValueError ''missing szi'')) (\<lambda>_.
                         rbind (parse_number (jget p ''szi'')) (\<lambda>size.
                         rbind (parse_position_leverage (jget p ''leverage'')) (\<lambda>leverage.
                         if size = 0 then Inr (coin, None)
                         else rbind (optional_number (jget p ''entryPx'')) (\<lambda>entry.
                              rbind (require (none_or (\<lambda>x. 0 < x) entry) (ValueError ''entryPx must be positive'')) (\<lambda>_.
                              Inr (coin, Some \<lparr>pos_coin = coin, pos_size = size, pos_entry_px = map_option Fin entry,
                                               pos_leverage = leverage, pos_updated_ms = observed\<rparr>))))))))
                | _ \<Rightarrow> Inl (ValueError ''missing a valid coin''))
           | _ \<Rightarrow> Inl (ValueError ''position must be an object''))
      | _ \<Rightarrow> Inl (ValueError ''assetPositions row must be an object''))"

text \<open>The loop; \<open>seen\<close> are the markets met so far, flat ones included.\<close>

definition add_position_row ::
  "string \<Rightarrow> int \<Rightarrow> json \<Rightarrow> string list \<times> (string \<times> rat position) list \<Rightarrow>
   (string list \<times> (string \<times> rat position) list) result" where
  "add_position_row dex observed item = (\<lambda>(seen, acc).
     rbind (parse_position_row seen dex observed item) (\<lambda>(coin, p).
     Inr (seen @ [coin], case p of None \<Rightarrow> acc | Some q \<Rightarrow> acc @ [(coin, q)])))"

definition parse_clearinghouse_positions ::
  "(string \<times> json) list \<Rightarrow> int \<Rightarrow> string \<Rightarrow> (string \<times> rat position) list result" where
  "parse_clearinghouse_positions payload observed dex =
     (if \<not> has_key payload ''assetPositions'' then Inl (ValueError ''clearinghouse state is missing assetPositions'')
      else case jget payload ''assetPositions'' of
        JArr rows \<Rightarrow> rbind (rfold (add_position_row dex observed) rows ([], [])) (\<lambda>(_, acc). Inr acc)
      | _ \<Rightarrow> Inl (ValueError ''clearinghouse state assetPositions must be a list''))"


section \<open>Open orders\<close>

definition normalize_order_side :: "json \<Rightarrow> string" where
  "normalize_order_side raw =
     (let side = py_lower (py_strip (str_or_empty raw))
      in if side \<in> {''b'', ''bid'', ''buy'', ''open long'', ''close short''} then ''buy''
         else if side \<in> {''a'', ''ask'', ''sell'', ''open short'', ''close long''} then ''sell''
         else side)"

text \<open>The side signals of an order, in the order of the fields.\<close>

definition side_signal :: "(string \<times> json) list \<Rightarrow> string \<Rightarrow> string list \<Rightarrow> string list result" where
  "side_signal order field acc =
     (if \<not> given (jget order field) then Inr acc
      else if normalize_order_side (jget order field) \<notin> {''buy'', ''sell''}
      then Inl (ValueError ''open order has invalid side'')
      else Inr (acc @ [normalize_order_side (jget order field)]))"

definition order_side :: "(string \<times> json) list \<Rightarrow> string result" where
  "order_side order =
     rbind (rfold (side_signal order) [''side'', ''dir''] []) (\<lambda>acc.
     rbind (if has_key order ''isBuy''
            then (case jget order ''isBuy'' of
                    JBool b \<Rightarrow> Inr (acc @ [if b then ''buy'' else ''sell''])
                  | _ \<Rightarrow> Inl (ValueError ''open order isBuy must be boolean''))
            else Inr acc) (\<lambda>signals.
     if signals = [] then Inl (ValueError ''open order has invalid side'')
     else if \<exists>s \<in> set signals. s \<noteq> hd signals then Inl (ValueError ''open order has conflicting side signals'')
     else Inr (hd signals)))"

definition order_oid :: "json \<Rightarrow> int option result" where
  "order_oid raw =
     (if \<not> given raw then Inr None
      else if is_jbool raw then Inl (ValueError ''open order has invalid oid'')
      else case int_text raw of
        None \<Rightarrow> Inl (ValueError ''open order has invalid oid'')
      | Some n \<Rightarrow> if n \<le> 0 then Inl (ValueError ''open order oid must be positive'') else Inr (Some n))"

definition order_cloid :: "json \<Rightarrow> string option result" where
  "order_cloid raw =
     (if \<not> given raw then Inr None
      else case raw of
        JStr s \<Rightarrow> rbind (validate_cloid s) (\<lambda>c. Inr (Some c))
      | _ \<Rightarrow> Inl (ValueError ''open order has invalid cloid''))"

definition order_size_field :: "(string \<times> json) list \<Rightarrow> json result" where
  "order_size_field order =
     (if has_key order ''sz'' then Inr (jget order ''sz'')
      else if has_key order ''origSz'' then Inr (jget order ''origSz'')
      else Inl (ValueError ''open order is missing sz/origSz''))"

definition parse_open_order :: "int \<Rightarrow> string \<Rightarrow> json \<Rightarrow> OpenOrder list \<Rightarrow> OpenOrder list result" where
  "parse_open_order updated dex item acc =
     (case item of
        JObj order \<Rightarrow>
          (case jget order ''coin'' of
             JStr raw \<Rightarrow>
               if py_strip raw = [] then Inl (ValueError ''open order is missing a valid coin'')
               else rbind (qualify_market_symbol dex raw) (\<lambda>coin.
                    rbind (order_side order) (\<lambda>side.
                    rbind (order_size_field order) (\<lambda>raw_size.
                    rbind (parse_number raw_size) (\<lambda>size.
                    rbind (require (0 < size) (ValueError ''open order size must be positive'')) (\<lambda>_.
                    rbind (optional_number (dget order ''limitPx'' (jget order ''px''))) (\<lambda>price.
                    rbind (require (none_or (\<lambda>x. 0 < x) price) (ValueError ''open order price must be positive'')) (\<lambda>_.
                    rbind (order_oid (jget order ''oid'')) (\<lambda>oid.
                    rbind (require (none_or (\<lambda>n. Some n \<notin> set (map oo_oid acc)) oid)
                             (ValueError ''open-orders response contains duplicate oid'')) (\<lambda>_.
                    rbind (order_cloid (jget order ''cloid'')) (\<lambda>cloid.
                    rbind (require (none_or (\<lambda>c. Some c \<notin> set (map oo_cloid acc)) cloid)
                             (ValueError ''open-orders response contains duplicate cloid'')) (\<lambda>_.
                    rbind (require (oid \<noteq> None \<or> cloid \<noteq> None) (ValueError ''open order is missing oid and cloid'')) (\<lambda>_.
                    case dget order ''reduceOnly'' (JBool False) of
                      JBool ro \<Rightarrow>
                        Inr (acc @ [\<lparr>oo_coin = coin, oo_side = side, oo_size = size, oo_price = price, oo_oid = oid,
                                     oo_cloid = cloid, oo_reduce_only = ro, oo_updated_ms = updated\<rparr>])
                    | _ \<Rightarrow> Inl (ValueError ''open order reduceOnly must be boolean'')))))))))))))
           | _ \<Rightarrow> Inl (ValueError ''open order is missing a valid coin''))
      | _ \<Rightarrow> Inl (ValueError ''open order must be an object''))"

definition parse_open_orders :: "json \<Rightarrow> int \<Rightarrow> string \<Rightarrow> OpenOrder list result" where
  "parse_open_orders payload updated dex =
     rbind (case payload of
              JObj m \<Rightarrow> if has_key m ''orders'' then Inr (jget m ''orders'')
                        else Inl (ValueError ''open-orders response is missing orders'')
            | JArr _ \<Rightarrow> Inr payload
            | _ \<Rightarrow> Inl (ValueError ''open-orders response must be a list or an orders wrapper'')) (\<lambda>raw.
     case raw of
       JArr rows \<Rightarrow> rfold (parse_open_order updated dex) rows []
     | _ \<Rightarrow> Inl (ValueError ''open-orders orders must be a list''))"


section \<open>The aggregate message\<close>

record UnifiedAccountSnapshot =
  us_account :: string
  us_states :: "(string \<times> (string \<times> json) list) list"
  us_observed_ms :: int
  us_received_ms :: int

definition state_entries :: "json \<Rightarrow> (json \<times> json) list result" where
  "state_entries v =
     (case v of
        JObj m \<Rightarrow> Inr (map (\<lambda>(k, s). (JStr k, s)) m)
      | JArr xs \<Rightarrow>
          rmap (\<lambda>x. case x of
                  JArr [a, b] \<Rightarrow> Inr (a, b)
                | _ \<Rightarrow> Inl (UnifiedAccountStateError ''clearinghouseStates must contain [dex, state] pairs'')) xs
      | _ \<Rightarrow> Inl (UnifiedAccountStateError ''clearinghouseStates must be an object or pair list''))"

definition add_dex_state ::
  "json \<times> json \<Rightarrow> (string \<times> (string \<times> json) list) list \<Rightarrow> (string \<times> (string \<times> json) list) list result" where
  "add_dex_state entry acc =
     (case entry of
        (JStr raw, JObj state) \<Rightarrow>
          rbind (if raw = [] then Inr []
                 else case rbind (qualify_market_symbol raw ''X'') market_dex of
                   Inl _ \<Rightarrow> Inl (UnifiedAccountStateError ''DEX is invalid'')
                 | Inr d \<Rightarrow> Inr d) (\<lambda>dex.
          if map_of acc dex \<noteq> None then Inl (UnifiedAccountStateError ''DEX is duplicated'')
          else Inr (acc @ [(dex, state)]))
      | _ \<Rightarrow> Inl (UnifiedAccountStateError ''DEX entries must be string/object pairs''))"

definition clearinghouse_states :: "json \<Rightarrow> (string \<times> (string \<times> json) list) list result" where
  "clearinghouse_states v =
     rbind (state_entries v) (\<lambda>entries.
     rbind (rfold add_dex_state entries []) (\<lambda>states.
     if states = [] then Inl (UnifiedAccountStateError ''clearinghouseStates is empty'') else Inr states))"

definition dex_observed :: "string \<times> (string \<times> json) list \<Rightarrow> int result" where
  "dex_observed = (\<lambda>(dex, state).
     case jget state ''assetPositions'' of
       JArr _ \<Rightarrow>
         (case int_text (jget state ''time'') of
            None \<Rightarrow> Inl (UnifiedAccountStateError ''DEX has invalid time'')
          | Some t \<Rightarrow> if t \<le> 0 then Inl (UnifiedAccountStateError ''DEX has non-positive time'') else Inr t)
     | _ \<Rightarrow> Inl (UnifiedAccountStateError ''DEX is missing assetPositions''))"

definition parse_all_dexs_message ::
  "(string \<times> json) list \<Rightarrow> string \<Rightarrow> int \<Rightarrow> UnifiedAccountSnapshot result" where
  "parse_all_dexs_message payload expected_account received =
     (if jget payload ''channel'' \<noteq> JStr ''allDexsClearinghouseState''
      then Inl (UnifiedAccountStateError ''unexpected aggregate follower channel'')
      else case jget payload ''data'' of
        JObj data \<Rightarrow>
          let account = py_lower (py_strip (str_or_empty (jget data ''user'')))
          in if account \<noteq> py_lower (py_strip expected_account)
             then Inl (UnifiedAccountStateError ''aggregate follower account mismatch'')
             else rbind (clearinghouse_states (jget data ''clearinghouseStates'')) (\<lambda>states.
                  rbind (require (map_of states [] \<noteq> None)
                           (UnifiedAccountStateError ''payload is missing the default perp DEX'')) (\<lambda>_.
                  rbind (rmap dex_observed states) (\<lambda>times.
                  Inr \<lparr>us_account = account, us_states = states,
                       us_observed_ms = Min (set times), us_received_ms = received\<rparr>)))
      | _ \<Rightarrow> Inl (UnifiedAccountStateError ''aggregate follower payload data must be an object''))"


section \<open>Account abstraction\<close>

datatype HyperliquidUserAbstraction = STANDARD | UNIFIED | PORTFOLIO_MARGIN | DEX_ABSTRACTION

definition normalized_abstraction_mode :: "json \<Rightarrow> string option" where
  "normalized_abstraction_mode v =
     (let raw = (case v of
            JBool _ \<Rightarrow> Some (py_str v)
          | JStr s \<Rightarrow> Some s
          | JObj m \<Rightarrow>
              (case first_present m [''userAbstraction'', ''userDexAbstraction'', ''accountAbstraction'',
                 ''abstraction'', ''mode'', ''state'', ''type'', ''enabled'', ''isEnabled'', ''value''] of
                 None \<Rightarrow> None
               | Some x \<Rightarrow> if py_str x = [] then None else Some (py_str x))
          | _ \<Rightarrow> None)
      in map_option (\<lambda>s. py_lower (filter (\<lambda>c. c \<noteq> CHR ''_'' \<and> c \<noteq> CHR ''-'') (py_strip s))) raw)"

definition classify_user_abstraction :: "json \<Rightarrow> HyperliquidUserAbstraction option" where
  "classify_user_abstraction v =
     (case normalized_abstraction_mode v of
        None \<Rightarrow> None
      | Some mode \<Rightarrow>
          if mode \<in> {''disabled'', ''standard''} then Some STANDARD
          else if mode \<in> {''default'', ''unified'', ''unifiedaccount''} then Some UNIFIED
          else if mode = ''portfoliomargin'' then Some PORTFOLIO_MARGIN
          else if mode = ''dexabstraction'' then Some DEX_ABSTRACTION
          else None)"

text \<open>Whether a DEX other than the default one shows positions or margin use.\<close>

fun any_nonzero :: "(unit \<Rightarrow> json result) list \<Rightarrow> error \<Rightarrow> bool result" where
  "any_nonzero [] e = Inr False"
| "any_nonzero (f # fs) e =
     rbind (f ()) (\<lambda>v. case parse_number v of
       Inl _ \<Rightarrow> Inl e
     | Inr x \<Rightarrow> if x \<noteq> 0 then Inr True else any_nonzero fs e)"

definition position_size_field :: "json \<Rightarrow> json result" where
  "position_size_field item =
     (case item of
        JObj row \<Rightarrow>
          (case jget row ''position'' of
             JObj p \<Rightarrow> Inr (jget p ''szi'')
           | _ \<Rightarrow> Inl (UnifiedAccountStateError ''position is malformed''))
      | _ \<Rightarrow> Inl (UnifiedAccountStateError ''position is malformed''))"

definition summary_value :: "(string \<times> json) list \<Rightarrow> string \<Rightarrow> string \<Rightarrow> json result" where
  "summary_value state summary_key value_key =
     (case jget state summary_key of
        JObj s \<Rightarrow> if jget s value_key = JNull
                  then Inl (UnifiedAccountStateError ''state is missing a summary value'')
                  else Inr (jget s value_key)
      | _ \<Rightarrow> Inl (UnifiedAccountStateError ''state is missing a summary value''))"

definition risk_fields :: "(string \<times> json) list \<Rightarrow> json list result" where
  "risk_fields state =
     rbind (summary_value state ''marginSummary'' ''totalMarginUsed'') (\<lambda>a.
     rbind (summary_value state ''marginSummary'' ''totalNtlPos'') (\<lambda>b.
     rbind (summary_value state ''crossMarginSummary'' ''totalMarginUsed'') (\<lambda>c.
     rbind (summary_value state ''crossMarginSummary'' ''totalNtlPos'') (\<lambda>d.
     Inr [jget state ''crossMaintenanceMarginUsed'', a, b, c, d]))))"

definition state_has_activity :: "(string \<times> json) list \<Rightarrow> bool result" where
  "state_has_activity state =
     (case jget state ''assetPositions'' of
        JArr items \<Rightarrow>
          rbind (any_nonzero (map (\<lambda>x _. position_size_field x) items)
                   (UnifiedAccountStateError ''position size is invalid'')) (\<lambda>active.
          if active then Inr True
          else rbind (risk_fields state) (\<lambda>vs.
               any_nonzero (map (\<lambda>v _. Inr v) vs) (UnifiedAccountStateError ''risk summary is invalid'')))
      | _ \<Rightarrow> Inl (UnifiedAccountStateError ''positions are malformed''))"

definition non_default_dex_activity :: "UnifiedAccountSnapshot \<Rightarrow> string list result" where
  "non_default_dex_activity snapshot =
     rbind (rmap (\<lambda>(dex, state).
        if dex = [] then Inr [] else rbind (state_has_activity state) (\<lambda>b. Inr (if b then [dex] else [])))
        (us_states snapshot)) (\<lambda>xss. Inr (sort (concat xss)))"


section \<open>What the parsers guarantee\<close>

text \<open>Parsed positions have distinct canonical markets of their DEX, and each is keyed by its own market.\<close>

definition positions_ok :: "string \<Rightarrow> (string \<times> rat position) list \<Rightarrow> bool" where
  "positions_ok dex ps \<longleftrightarrow> distinct (map fst ps) \<and>
     (\<forall>(m, p) \<in> set ps. pos_coin p = m \<and> pos_size p \<noteq> 0 \<and> (\<exists>raw. qualify_market_symbol dex raw = Inr m))"

lemma parse_position_row_Inr:
  assumes "parse_position_row seen dex observed item = Inr (coin, p)"
  shows "coin \<notin> set seen \<and> (\<exists>raw. qualify_market_symbol dex raw = Inr coin) \<and>
    (case p of None \<Rightarrow> True | Some q \<Rightarrow> pos_coin q = coin \<and> pos_size q \<noteq> 0)"
  using assms
  by (auto simp: parse_position_row_def split: json.splits if_splits)

lemma add_position_row_ok:
  assumes "add_position_row dex observed item (seen, acc) = Inr (seen', acc')"
    and "positions_ok dex acc" and "set (map fst acc) \<subseteq> set seen"
  shows "positions_ok dex acc' \<and> set (map fst acc') \<subseteq> set seen'"
proof -
  from assms(1) obtain coin p where row: "parse_position_row seen dex observed item = Inr (coin, p)"
    and n: "seen' = seen @ [coin]" "acc' = (case p of None \<Rightarrow> acc | Some q \<Rightarrow> acc @ [(coin, q)])"
    by (auto simp: add_position_row_def)
  from parse_position_row_Inr [OF row] assms(2,3) show ?thesis
    by (cases p) (auto simp: n positions_ok_def)
qed

lemma parse_clearinghouse_positions_ok:
  assumes "parse_clearinghouse_positions payload observed dex = Inr ps"
  shows "positions_ok dex ps"
proof -
  from assms obtain rows seen where r: "rfold (add_position_row dex observed) rows ([], []) = Inr (seen, ps)"
    by (auto simp: parse_clearinghouse_positions_def split: if_splits json.splits)
  let ?P = "\<lambda>x. positions_ok dex (snd x) \<and> set (map fst (snd x)) \<subseteq> set (fst x)"
  have "?P (seen, ps)"
    using r
  proof (rule rfold_invariant)
    show "?P ([], [])" by (simp add: positions_ok_def)
    show "?P t" if "?P s" "add_position_row dex observed x s = Inr t" for x s t
      using add_position_row_ok [of dex observed x "fst s" "snd s" "fst t" "snd t"] that by simp
  qed
  then show ?thesis by simp
qed

text \<open>Parsed orders have a positive size, a side, and pairwise different identities.\<close>

definition orders_ok :: "OpenOrder list \<Rightarrow> bool" where
  "orders_ok os \<longleftrightarrow>
     distinct (filter (\<lambda>i. i \<noteq> None) (map oo_oid os)) \<and> distinct (filter (\<lambda>c. c \<noteq> None) (map oo_cloid os)) \<and>
     (\<forall>o' \<in> set os. 0 < oo_size o' \<and> oo_side o' \<in> {''buy'', ''sell''} \<and> (oo_oid o' \<noteq> None \<or> oo_cloid o' \<noteq> None))"

lemma side_signal_ok:
  "rfold (side_signal order) fs acc = Inr acc' \<Longrightarrow> set acc \<subseteq> {''buy'', ''sell''} \<Longrightarrow> set acc' \<subseteq> {''buy'', ''sell''}"
proof (induction fs arbitrary: acc)
  case (Cons f fs)
  from Cons.prems(1) obtain a where a: "side_signal order f acc = Inr a" "rfold (side_signal order) fs a = Inr acc'"
    by auto
  from a(1) Cons.prems(2) have "set a \<subseteq> {''buy'', ''sell''}" by (auto simp: side_signal_def split: if_splits)
  with a(2) Cons.IH show ?case by blast
qed simp

lemma order_side_ok:
  assumes "order_side order = Inr s"
  shows "s \<in> {''buy'', ''sell''}"
proof -
  obtain acc signals where acc: "rfold (side_signal order) [''side'', ''dir''] [] = Inr acc"
    and sig: "(if has_key order ''isBuy''
            then (case jget order ''isBuy'' of
                    JBool b \<Rightarrow> Inr (acc @ [if b then ''buy'' else ''sell''])
                  | _ \<Rightarrow> Inl (ValueError ''open order isBuy must be boolean''))
            else Inr acc) = Inr signals"
    and s': "(if signals = [] then Inl (ValueError ''open order has invalid side'')
     else if \<exists>s \<in> set signals. s \<noteq> hd signals then Inl (ValueError ''open order has conflicting side signals'')
     else Inr (hd signals)) = Inr s"
    using assms unfolding order_side_def rbind_Inr_iff by (elim exE conjE)
  from s' have s: "signals \<noteq> []" "s = hd signals" by (auto simp del: hd_in_set split: if_split_asm)
  from sig have sig: "signals = acc \<or> (\<exists>b. signals = acc @ [if b then ''buy'' else ''sell''])"
    by (cases "jget order ''isBuy''") (auto split: if_splits)
  have "set acc \<subseteq> {''buy'', ''sell''}" using side_signal_ok [OF acc] by simp
  with sig have "set signals \<subseteq> {''buy'', ''sell''}" by (elim disjE exE) (simp_all split: if_split)
  with s show ?thesis by (meson hd_in_set subsetD)
qed

lemma parse_open_order_ok:
  assumes "parse_open_order updated dex item acc = Inr os" and "orders_ok acc"
  shows "orders_ok os"
proof -
  from assms(1) obtain order where item: "item = JObj order" by (cases item) (auto simp: parse_open_order_def)
  with assms(1) obtain raw where coin: "jget order ''coin'' = JStr raw"
    by (cases "jget order ''coin''") (simp_all add: parse_open_order_def)
  define ro where "ro = dget order ''reduceOnly'' (JBool False)"
  from assms(1) obtain o' where os: "os = acc @ [o']" and o': "0 < oo_size o'" "\<exists>m. order_side m = Inr (oo_side o')"
    "none_or (\<lambda>n. Some n \<notin> set (map oo_oid acc)) (oo_oid o')" "none_or (\<lambda>c. Some c \<notin> set (map oo_cloid acc)) (oo_cloid o')"
    "oo_oid o' \<noteq> None \<or> oo_cloid o' \<noteq> None"
  proof -
    note u = assms(1) [unfolded parse_open_order_def item json.case coin ro_def [symmetric]]
    then have "py_strip raw \<noteq> []" by (auto split: if_splits)
    note u [unfolded if_not_P [OF this] rbind_Inr_iff require_Inr]
    then show thesis by (elim exE conjE, cases ro) (auto intro!: that)
  qed
  from o'(2) have "oo_side o' \<in> {''buy'', ''sell''}" using order_side_ok by blast
  with assms(2) o' show ?thesis
    by (auto simp: os orders_ok_def none_or_def split: option.splits)
qed

lemma parse_open_orders_ok: "parse_open_orders payload updated dex = Inr os \<Longrightarrow> orders_ok os"
proof -
  assume "parse_open_orders payload updated dex = Inr os"
  then obtain raw where "(case raw of JArr rows \<Rightarrow> rfold (parse_open_order updated dex) rows []
      | _ \<Rightarrow> Inl (ValueError ''open-orders orders must be a list'')) = Inr os"
    unfolding parse_open_orders_def rbind_Inr_iff by (elim exE conjE)
  then obtain rows where "rfold (parse_open_order updated dex) rows [] = Inr os"
    by (cases raw) auto
  then show ?thesis
  proof (rule rfold_invariant [where P = orders_ok])
    show "orders_ok []" by (simp add: orders_ok_def)
  qed (rule parse_open_order_ok)
qed

text \<open>The aggregate message: distinct DEXes, the default one among them, each with a positive time.\<close>

lemma add_dex_state_ok:
  "add_dex_state entry acc = Inr acc' \<Longrightarrow> distinct (map fst acc) \<Longrightarrow> distinct (map fst acc')"
  by (cases entry) (auto simp: add_dex_state_def map_of_eq_None_iff split: json.splits if_splits)

lemma parse_all_dexs_message_ok:
  assumes "parse_all_dexs_message payload account received = Inr s"
  shows "distinct (map fst (us_states s)) \<and> [] \<in> set (map fst (us_states s)) \<and> 0 < us_observed_ms s \<and>
    us_account s = py_lower (py_strip account)"
proof -
  from assms obtain states times v where st: "clearinghouse_states v = Inr states" and d: "map_of states [] \<noteq> None"
    and t: "rmap dex_observed states = Inr times" and s: "us_states s = states" "us_observed_ms s = Min (set times)"
      "us_account s = py_lower (py_strip account)"
    by (auto simp: parse_all_dexs_message_def Let_def split: if_splits json.splits)
  from st obtain entries where e: "rfold add_dex_state entries [] = Inr states"
    by (auto simp: clearinghouse_states_def split: if_splits)
  have "distinct (map fst states)"
    using e by (rule rfold_invariant [where P = "\<lambda>x. distinct (map fst x)"]) (auto intro: add_dex_state_ok)
  moreover have "\<forall>x \<in> set times. 0 < x"
  proof
    fix x
    assume "x \<in> set times"
    then obtain i where "i < length times" "x = times ! i" by (auto simp: in_set_conv_nth)
    with t have "dex_observed (states ! i) = Inr x"
      by (simp add: rmap_Inr_iff list_all2_conv_all_nth)
    then obtain y where "dex_observed y = Inr x" ..
    then show "0 < x" by (auto simp: dex_observed_def split: prod.splits json.splits option.splits if_splits)
  qed
  moreover have "times \<noteq> []" using t d by (auto simp: rmap_Inr_iff)
  moreover have "[] \<in> set (map fst states)" using d by (simp add: map_of_eq_None_iff image_iff)
  ultimately show ?thesis by (simp add: s)
qed

end
