(* ===== verification/Account_Stream.thy ===== *)
theory Account_Stream
  imports Account_Frames Ws_Post_Mux
begin

text \<open>
  \<^verbatim>\<open>account_stream.py\<close>: the reducer that turns the WebSocket frames of one source and one follower
  account into positions, collateral, open orders and live fills.

  A \<open>dict\<close> is an association list in insertion order; a \<open>frozenset\<close> is a list without repetitions, in
  the order it is iterated. The reducer checks a frame completely before it changes anything, so an
  operation returns either an exception, the stream being left as it was, or the update together
  with the next stream.
\<close>

section \<open>Records\<close>

datatype stream_role = SourceRole | FollowerRole

record UsdcCollateral =
  uc_total :: rat
  uc_hold :: rat
  uc_available :: rat
  uc_observed_ms :: int
  uc_received_ms :: int

record FillRecord =
  fr_account :: string
  fr_market :: string
  fr_tx_hash :: string
  fr_tid :: string
  fr_time_ms :: int
  fr_side :: string
  fr_size :: rat
  fr_price :: rat
  fr_start_position :: "rat option"
  fr_oid :: "int option"
  fr_received_ms :: int
  fr_connection_epoch :: int
  fr_is_snapshot :: bool

type_synonym fill_identity = "string \<times> string \<times> string"

definition fill_identity_of :: "FillRecord \<Rightarrow> fill_identity" where
  "fill_identity_of f = (fr_account f, fr_tx_hash f, fr_tid f)"

definition fill_signed_size :: "FillRecord \<Rightarrow> rat" where
  "fill_signed_size f = (if fr_side f = ''buy'' then fr_size f else dneg (fr_size f))"

record AccountSnapshot =
  sn_account :: string
  sn_connection_epoch :: int
  sn_positions :: "(string \<times> rat position) list"
  sn_collateral :: "UsdcCollateral option"
  sn_perp_equity_by_dex :: "(string \<times> rat) list"
  sn_open_orders :: "OpenOrder list"
  sn_fills :: "FillRecord list"
  sn_component_received_ms :: "(string \<times> int) list"
  sn_required_components :: "string list"
  sn_last_connection_activity_ms :: int

definition baseline_complete :: "AccountSnapshot \<Rightarrow> bool" where
  "baseline_complete s \<longleftrightarrow> set (sn_required_components s) \<subseteq> fst ` set (sn_component_received_ms s)"

definition perp_equity_total :: "AccountSnapshot \<Rightarrow> rat" where
  "perp_equity_total s = dsum (map snd (sn_perp_equity_by_dex s))"

definition snapshot_is_fresh :: "AccountSnapshot \<Rightarrow> int \<Rightarrow> int \<Rightarrow> bool result" where
  "snapshot_is_fresh s now max_age =
     (if max_age \<le> 0 then Inl (ValueError ''freshness max age must be positive'')
      else let age = now - sn_last_connection_activity_ms s
           in Inr (baseline_complete s \<and> 0 \<le> age \<and> age \<le> max_age))"

record AccountStreamUpdate =
  au_channel :: string
  au_account :: string
  au_role :: stream_role
  au_connection_epoch :: int
  au_initial_snapshot :: bool
  au_baseline_ready :: bool
  au_new_fills :: "FillRecord list"
  au_duplicate_fills :: nat

record MutableAccount =
  ma_positions :: "(string \<times> rat position) list"
  ma_collateral :: "UsdcCollateral option"
  ma_perp_equity :: "(string \<times> rat) list"
  ma_open_orders :: "OpenOrder list"
  ma_fills :: "FillRecord list"
  ma_received :: "(string \<times> int) list"
  ma_observed :: "(string \<times> int) list"
  ma_dex_observed :: "(string \<times> int) list"

definition empty_account :: MutableAccount where
  "empty_account = \<lparr>ma_positions = [], ma_collateral = None, ma_perp_equity = [], ma_open_orders = [],
     ma_fills = [], ma_received = [], ma_observed = [], ma_dex_observed = []\<rparr>"

type_synonym fill_fingerprint = "string \<times> int \<times> string \<times> rat \<times> rat \<times> rat option \<times> int option"

definition fill_fingerprint_of :: "FillRecord \<Rightarrow> fill_fingerprint" where
  "fill_fingerprint_of f =
     (fr_market f, fr_time_ms f, fr_side f, fr_size f, fr_price f, fr_start_position f, fr_oid f)"

record AccountStream =
  as_source_address :: string
  as_follower_address :: string
  as_capacity :: int
  as_mode :: string
  as_source_markets :: "string list option"
  as_follower_markets :: "string list option"
  as_accept_outside :: bool
  as_source_dexes :: "string list"
  as_epoch :: int
  as_activity_ms :: int
  as_source :: MutableAccount
  as_follower :: MutableAccount
  as_fingerprints :: "(fill_identity \<times> fill_fingerprint) list"

definition account_state :: "AccountStream \<Rightarrow> stream_role \<Rightarrow> MutableAccount" where
  "account_state st role = (case role of SourceRole \<Rightarrow> as_source st | FollowerRole \<Rightarrow> as_follower st)"

definition set_account :: "stream_role \<Rightarrow> MutableAccount \<Rightarrow> AccountStream \<Rightarrow> AccountStream" where
  "set_account role m st =
     (case role of SourceRole \<Rightarrow> st\<lparr>as_source := m\<rparr> | FollowerRole \<Rightarrow> st\<lparr>as_follower := m\<rparr>)"


section \<open>Validators\<close>

definition stream_account :: "string \<Rightarrow> string result" where
  "stream_account v =
     (let account = py_lower (py_strip v)
      in if address_re account then Inr account else Inl (AccountStreamError ''invalid account address''))"

definition source_subscription_specs :: "string \<Rightarrow> string \<Rightarrow> json list result" where
  "source_subscription_specs source account_mode =
     rbind (stream_account source) (\<lambda>user.
     let mode = py_lower (py_strip account_mode)
     in if mode \<notin> {''standard'', ''unified''}
        then Inl (AccountStreamError ''source account mode must be standard or unified'')
        else Inr ([JObj [(''type'', JStr ''allDexsClearinghouseState''), (''user'', JStr user)]] @
                  (if mode = ''unified'' then [JObj [(''type'', JStr ''spotState''), (''user'', JStr user)]] else []) @
                  [JObj [(''type'', JStr ''userFills''), (''user'', JStr user), (''aggregateByTime'', JBool False)],
                   JObj [(''type'', JStr ''userTwapSliceFills''), (''user'', JStr user)]]))"

definition follower_subscription_specs :: "string \<Rightarrow> json list result" where
  "follower_subscription_specs follower =
     rbind (stream_account follower) (\<lambda>user.
     Inr [JObj [(''type'', JStr ''allDexsClearinghouseState''), (''user'', JStr user)],
          JObj [(''type'', JStr ''spotState''), (''user'', JStr user)],
          JObj [(''type'', JStr ''openOrders''), (''user'', JStr user)],
          JObj [(''type'', JStr ''orderUpdates''), (''user'', JStr user)],
          JObj [(''type'', JStr ''userFills''), (''user'', JStr user), (''aggregateByTime'', JBool False)]])"

definition frame_int :: "json \<Rightarrow> int result" where
  "frame_int v =
     (let bad = Inl (AccountStreamError ''must be a positive integer'')
      in if is_jbool v then bad
         else case int_text v of None \<Rightarrow> bad | Some n \<Rightarrow> if n \<le> 0 then bad else Inr n)"

definition market_scope :: "string list option \<Rightarrow> string list option result" where
  "market_scope markets =
     (case markets of
        None \<Rightarrow> Inr None
      | Some ms \<Rightarrow> rbind (rmap canonical_market_symbol ms) (\<lambda>cs. Inr (Some (remdups cs))))"

text \<open>The DEXes of a scope; no scope has none.\<close>

definition scope_dexes :: "string list option \<Rightarrow> string list result" where
  "scope_dexes scope =
     rbind (rmap market_dex (case scope of None \<Rightarrow> [] | Some ms \<Rightarrow> ms)) (\<lambda>ds. Inr (remdups ds))"

definition order_identity :: "(string \<times> json) list \<Rightarrow> (int option \<times> string option) result" where
  "order_identity order =
     rbind (if given (jget order ''oid'') then rbind (frame_int (jget order ''oid'')) (\<lambda>n. Inr (Some n))
            else Inr None) (\<lambda>oid.
     rbind (if given (jget order ''cloid'')
            then (case jget order ''cloid'' of
                    JStr raw \<Rightarrow>
                      let cloid = py_lower (py_strip raw)
                      in if length cloid = 34 \<and> prefix ''0x'' cloid \<and>
                            list_all (\<lambda>c. is_digit c \<or> c \<in> set ''abcdef'') (drop 2 cloid)
                         then Inr (Some cloid) else Inl (AccountStreamError ''order update has invalid cloid'')
                  | _ \<Rightarrow> Inl (AccountStreamError ''order update cloid must be a string''))
            else Inr None) (\<lambda>cloid.
     if oid = None \<and> cloid = None then Inl (AccountStreamError ''order update is missing oid and cloid'')
     else Inr (oid, cloid)))"

definition identity_available :: "OpenOrder list \<Rightarrow> OpenOrder \<Rightarrow> unit result" where
  "identity_available orders candidate =
     require (list_all (\<lambda>prior. \<not> (oo_oid candidate \<noteq> None \<and> oo_oid candidate = oo_oid prior) \<and>
                                \<not> (oo_cloid candidate \<noteq> None \<and> oo_cloid candidate = oo_cloid prior)) orders)
       (AccountStreamError ''duplicate open-order identity'')"

definition parse_order_row :: "(string \<times> json) list \<Rightarrow> int \<Rightarrow> json \<Rightarrow> OpenOrder result" where
  "parse_order_row outer observed raw =
     (case raw of
        JObj row \<Rightarrow>
          rbind (case dget row ''dex'' (dget outer ''dex'' (JStr [])) of
                   JNull \<Rightarrow> Inr []
                 | JStr d \<Rightarrow> Inr d
                 | _ \<Rightarrow> Inl (AccountStreamError ''open order DEX must be a string'')) (\<lambda>dex.
          rbind (market_text (jget row ''coin'')) (\<lambda>coin.
          rbind (qualify_market_symbol dex coin) (\<lambda>q.
          rbind (parse_open_orders (JArr [JObj (AList.update ''coin'' (JStr q) row)]) observed []) (\<lambda>os.
          case os of [] \<Rightarrow> Inl (IndexError ''list index out of range'') | o' # _ \<Rightarrow> Inr o'))))
      | _ \<Rightarrow> Inl (AccountStreamError ''open order must be an object''))"

definition add_order_row :: "(string \<times> json) list \<Rightarrow> int \<Rightarrow> json \<Rightarrow> OpenOrder list \<Rightarrow> OpenOrder list result" where
  "add_order_row outer observed raw acc =
     rbind (parse_order_row outer observed raw) (\<lambda>parsed.
     rbind (identity_available acc parsed) (\<lambda>_. Inr (acc @ [parsed])))"

definition parse_order_rows :: "json list \<Rightarrow> (string \<times> json) list \<Rightarrow> int \<Rightarrow> OpenOrder list result" where
  "parse_order_rows rows outer observed = rfold (add_order_row outer observed) rows []"

definition terminal_order_status :: "string \<Rightarrow> bool" where
  "terminal_order_status status \<longleftrightarrow>
     status \<in> {''filled'', ''canceled'', ''cancelled'', ''triggered'', ''scheduledcancel''} \<or>
     suffix ''canceled'' status \<or> suffix ''cancelled'' status \<or> suffix ''rejected'' status"

text \<open>\<open>str(v)\<close> with the full text of containers.\<close>

definition full_text :: "json \<Rightarrow> string" where
  "full_text v = (case v of JArr _ \<Rightarrow> py_repr v | JObj _ \<Rightarrow> py_repr v | _ \<Rightarrow> py_str v)"

definition fill_side :: "json \<Rightarrow> string result" where
  "fill_side v =
     (let raw = py_lower (py_strip (str_or_empty v))
      in if raw \<in> {''b'', ''buy''} then Inr ''buy''
         else if raw \<in> {''a'', ''s'', ''sell''} then Inr ''sell''
         else Inl (AccountStreamError ''fill has invalid side''))"

definition parse_fill :: "json \<Rightarrow> string \<Rightarrow> int \<Rightarrow> int \<Rightarrow> bool \<Rightarrow> FillRecord result" where
  "parse_fill raw account received epoch is_snapshot =
     (case raw of
        JObj row \<Rightarrow>
          rbind (market_text (jget row ''coin'')) (\<lambda>coin.
          rbind (canonical_market_symbol coin) (\<lambda>market.
          rbind (case jget row ''hash'' of
                   JStr h \<Rightarrow> if py_strip h = [] then Inl (AccountStreamError ''missing transaction hash'')
                             else Inr (py_lower (py_strip h))
                 | _ \<Rightarrow> Inl (AccountStreamError ''missing transaction hash'')) (\<lambda>tx_hash.
          rbind (require (given (jget row ''tid'') \<and> \<not> is_jbool (jget row ''tid''))
                   (AccountStreamError ''missing trade id'')) (\<lambda>_.
          let tid = py_strip (full_text (jget row ''tid'')) in
          rbind (require (tid \<noteq> []) (AccountStreamError ''missing trade id'')) (\<lambda>_.
          rbind (fill_side (jget row ''side'')) (\<lambda>side.
          rbind (require (has_key row ''sz'' \<and> has_key row ''px'')
                   (AccountStreamError ''missing size or price'')) (\<lambda>_.
          rbind (parse_number (jget row ''sz'')) (\<lambda>size.
          rbind (parse_number (jget row ''px'')) (\<lambda>price.
          rbind (require (0 < size \<and> 0 < price) (AccountStreamError ''size and price must be positive'')) (\<lambda>_.
          rbind (optional_number (jget row ''startPosition'')) (\<lambda>start.
          rbind (if given (jget row ''oid'') then rbind (frame_int (jget row ''oid'')) (\<lambda>n. Inr (Some n))
                 else Inr None) (\<lambda>oid.
          rbind (frame_int (jget row ''time'')) (\<lambda>time.
          Inr \<lparr>fr_account = account, fr_market = market, fr_tx_hash = tx_hash, fr_tid = tid, fr_time_ms = time,
               fr_side = side, fr_size = size, fr_price = price, fr_start_position = start, fr_oid = oid,
               fr_received_ms = received, fr_connection_epoch = epoch, fr_is_snapshot = is_snapshot\<rparr>)))))))))))))
      | _ \<Rightarrow> Inl (AccountStreamError ''fill must be an object''))"


section \<open>The stream's own operations\<close>

definition make_account_stream ::
  "string \<Rightarrow> string \<Rightarrow> string \<Rightarrow> string list option \<Rightarrow> string list option \<Rightarrow> bool \<Rightarrow> int \<Rightarrow> AccountStream result" where
  "make_account_stream source follower mode source_markets follower_markets accept_outside capacity =
     rbind (stream_account source) (\<lambda>src.
     rbind (stream_account follower) (\<lambda>fol.
     rbind (require (src \<noteq> fol) (AccountStreamError ''source and follower accounts must be different'')) (\<lambda>_.
     rbind (require (1 \<le> capacity) (AccountStreamError ''fill dedupe capacity must be positive'')) (\<lambda>_.
     let m = py_lower (py_strip mode) in
     rbind (require (m \<in> {''standard'', ''unified''})
              (AccountStreamError ''source account mode must be standard or unified'')) (\<lambda>_.
     rbind (market_scope source_markets) (\<lambda>sscope.
     rbind (market_scope follower_markets) (\<lambda>fscope.
     rbind (require (\<not> (m = ''standard'' \<and> (sscope = None \<or> sscope = Some [])))
              (AccountStreamError ''standard source requires explicit perp markets'')) (\<lambda>_.
     rbind (scope_dexes sscope) (\<lambda>dexes.
     Inr \<lparr>as_source_address = src, as_follower_address = fol, as_capacity = capacity, as_mode = m,
          as_source_markets = sscope, as_follower_markets = fscope, as_accept_outside = accept_outside,
          as_source_dexes = dexes, as_epoch = 0, as_activity_ms = 0, as_source = empty_account,
          as_follower = empty_account, as_fingerprints = []\<rparr>)))))))))"

definition set_market_scope ::
  "string list option \<Rightarrow> string list option \<Rightarrow> AccountStream \<Rightarrow> AccountStream result" where
  "set_market_scope source_markets follower_markets st =
     rbind (market_scope source_markets) (\<lambda>sscope.
     rbind (require (\<not> (as_mode st = ''standard'' \<and> (sscope = None \<or> sscope = Some [])))
              (AccountStreamError ''standard source requires explicit perp markets'')) (\<lambda>_.
     rbind (scope_dexes sscope) (\<lambda>dexes.
     rbind (market_scope follower_markets) (\<lambda>fscope.
     let st1 = st\<lparr>as_source_markets := sscope, as_follower_markets := fscope, as_source_dexes := dexes\<rparr>;
         src = as_source st
     in Inr (if as_mode st = ''standard'' \<and> set dexes \<noteq> set (as_source_dexes st)
             then st1\<lparr>as_source := src\<lparr>ma_perp_equity := [],
                                      ma_received := AList.delete ''perp_equity'' (ma_received src),
                                      ma_observed := AList.delete ''perp_equity'' (ma_observed src)\<rparr>\<rparr>
             else st1)))))"

definition source_components :: "AccountStream \<Rightarrow> string list" where
  "source_components st =
     (if as_mode st = ''standard'' then [''positions'', ''perp_equity'', ''fills'', ''twap_fills'']
      else [''positions'', ''collateral'', ''fills'', ''twap_fills''])"

definition follower_components :: "string list" where
  "follower_components = [''positions'', ''collateral'', ''open_orders'', ''fills'']"

definition account_snapshot :: "AccountStream \<Rightarrow> string \<Rightarrow> MutableAccount \<Rightarrow> string list \<Rightarrow> AccountSnapshot" where
  "account_snapshot st account m required =
     \<lparr>sn_account = account, sn_connection_epoch = as_epoch st, sn_positions = ma_positions m,
      sn_collateral = ma_collateral m, sn_perp_equity_by_dex = ma_perp_equity m,
      sn_open_orders = ma_open_orders m, sn_fills = ma_fills m, sn_component_received_ms = ma_received m,
      sn_required_components = required, sn_last_connection_activity_ms = as_activity_ms st\<rparr>"

definition source_snapshot :: "AccountStream \<Rightarrow> AccountSnapshot" where
  "source_snapshot st = account_snapshot st (as_source_address st) (as_source st) (source_components st)"

definition follower_snapshot :: "AccountStream \<Rightarrow> AccountSnapshot" where
  "follower_snapshot st = account_snapshot st (as_follower_address st) (as_follower st) follower_components"

definition baseline_ready :: "AccountStream \<Rightarrow> bool" where
  "baseline_ready st \<longleftrightarrow> baseline_complete (source_snapshot st) \<and> baseline_complete (follower_snapshot st)"

definition begin_connection :: "int \<Rightarrow> AccountStream \<Rightarrow> (int \<times> AccountStream) result" where
  "begin_connection received st =
     (if received < 0 then Inl (AccountStreamError ''connection timestamp cannot be negative'')
      else Inr (as_epoch st + 1,
                st\<lparr>as_epoch := as_epoch st + 1, as_activity_ms := received,
                   as_source := empty_account, as_follower := empty_account\<rparr>))"

definition validate_frame :: "int \<Rightarrow> int \<Rightarrow> AccountStream \<Rightarrow> unit result" where
  "validate_frame epoch received st =
     (if as_epoch st = 0
      then Inl (AccountStreamError ''begin_connection must be called before applying frames'')
      else if epoch \<noteq> as_epoch st then Inl (AccountStreamError ''stale connection epoch'')
      else if received \<le> 0 then Inl (AccountStreamError ''frame receive timestamp must be positive'')
      else Inr ())"

definition note_activity :: "int \<Rightarrow> AccountStream \<Rightarrow> AccountStream" where
  "note_activity received st = st\<lparr>as_activity_ms := max (as_activity_ms st) received\<rparr>"

definition note_connection_activity :: "int \<Rightarrow> int \<Rightarrow> AccountStream \<Rightarrow> AccountStream result" where
  "note_connection_activity epoch received st =
     rbind (validate_frame epoch received st) (\<lambda>_. Inr (note_activity received st))"

definition stream_is_fresh :: "AccountStream \<Rightarrow> int \<Rightarrow> int \<Rightarrow> bool result" where
  "stream_is_fresh st now max_age =
     (if max_age \<le> 0 then Inl (ValueError ''freshness max age must be positive'')
      else let age = now - as_activity_ms st in Inr (baseline_ready st \<and> 0 \<le> age \<and> age \<le> max_age))"

definition role_for_data :: "json \<Rightarrow> AccountStream \<Rightarrow> (string \<times> stream_role \<times> (string \<times> json) list) result" where
  "role_for_data data st =
     (case data of
        JObj m \<Rightarrow>
          rbind (stream_account (if py_truthy (jget m ''user'') then py_str (jget m ''user'')
                                 else str_or_empty (jget m ''userAddress''))) (\<lambda>account.
          if account = as_source_address st then Inr (account, SourceRole, m)
          else if account = as_follower_address st then Inr (account, FollowerRole, m)
          else Inl (AccountStreamError ''frame belongs to unconfigured account''))
      | _ \<Rightarrow> Inl (AccountStreamError ''account frame data must be an object''))"

definition base_update ::
  "string \<Rightarrow> string \<Rightarrow> stream_role \<Rightarrow> bool \<Rightarrow> FillRecord list \<Rightarrow> nat \<Rightarrow> AccountStream \<Rightarrow> AccountStreamUpdate" where
  "base_update channel account role initial new_fills duplicates st =
     \<lparr>au_channel = channel, au_account = account, au_role = role, au_connection_epoch = as_epoch st,
      au_initial_snapshot = initial, au_baseline_ready = baseline_ready st,
      au_new_fills = new_fills, au_duplicate_fills = duplicates\<rparr>"


section \<open>Positions frames\<close>

definition add_unique_position ::
  "string \<times> rat position \<Rightarrow> (string \<times> rat position) list \<Rightarrow> (string \<times> rat position) list result" where
  "add_unique_position mp acc =
     (if map_of acc (fst mp) \<noteq> None
      then Inl (AccountStreamError ''duplicate canonical position across DEX states'')
      else Inr (acc @ [mp]))"

text \<open>One DEX of the message; the accumulator holds all positions, the positions per DEX and the times per DEX.\<close>

type_synonym dex_frame =
  "(string \<times> rat position) list \<times> (string \<times> (string \<times> rat position) list) list \<times> (string \<times> int) list"

definition add_dex_positions :: "string \<times> (string \<times> json) list \<Rightarrow> dex_frame \<Rightarrow> dex_frame result" where
  "add_dex_positions entry acc =
     (case entry of (dex, state) \<Rightarrow> case acc of (positions, by_dex, observed) \<Rightarrow>
        rbind (frame_int (jget state ''time'')) (\<lambda>time.
        rbind (parse_clearinghouse_positions state time dex) (\<lambda>ps.
        rbind (rfold add_unique_position ps positions) (\<lambda>all.
        Inr (all, by_dex @ [(dex, ps)], observed @ [(dex, time)])))))"

text \<open>The nonzero sizes of the positions of one DEX.\<close>

definition sizes_in_dex :: "string \<Rightarrow> (string \<times> rat position) list \<Rightarrow> (string \<times> rat) list result" where
  "sizes_in_dex dex ps =
     rbind (rmap (\<lambda>(m, p). rbind (market_dex m) (\<lambda>d. Inr (d, m, pos_size p))) ps) (\<lambda>rows.
     Inr (map snd (filter (\<lambda>(d, m, x). d = dex \<and> x \<noteq> 0) rows)))"

definition nonzero_sizes :: "(string \<times> rat position) list \<Rightarrow> (string \<times> rat) list" where
  "nonzero_sizes ps = filter (\<lambda>(m, x). x \<noteq> 0) (map (\<lambda>(m, p). (m, pos_size p)) ps)"

definition check_dex_frame ::
  "MutableAccount \<Rightarrow> (string \<times> int) list \<Rightarrow> string \<times> (string \<times> rat position) list \<Rightarrow> unit \<Rightarrow> unit result" where
  "check_dex_frame m observed entry u =
     (case entry of (dex, ps) \<Rightarrow>
        let time = dget observed dex 0; prior = dget (ma_dex_observed m) dex 0
        in if time < prior then Inl (AccountStreamError ''positions snapshot moved backwards in exchange time'')
           else rbind (sizes_in_dex dex (ma_positions m)) (\<lambda>prior_sizes.
                if prior \<noteq> 0 \<and> time = prior \<and> set (nonzero_sizes ps) \<noteq> set prior_sizes
                then Inl (AccountStreamError ''same-time positions snapshot contradicts current fill truth'')
                else Inr ()))"

definition add_dex_equity ::
  "(string \<times> (string \<times> json) list) list \<Rightarrow> (string \<times> rat position) list \<Rightarrow> string \<Rightarrow> (string \<times> rat) list \<Rightarrow>
   (string \<times> rat) list result" where
  "add_dex_equity states positions dex acc =
     (case map_of states dex of
        None \<Rightarrow> Inl (AccountStreamError ''standard source is missing relevant DEX'')
      | Some state \<Rightarrow>
          (case jget state ''marginSummary'' of
             JObj summary \<Rightarrow>
               if jget summary ''accountValue'' = JNull
               then Inl (AccountStreamError ''standard source DEX is missing accountValue'')
               else rbind (parse_number (jget summary ''accountValue'')) (\<lambda>equity.
                    rbind (require (0 \<le> equity)
                             (AccountStreamError ''standard source DEX has negative accountValue'')) (\<lambda>_.
                    rbind (sizes_in_dex dex positions) (\<lambda>sizes.
                    rbind (require (\<not> (sizes \<noteq> [] \<and> equity \<le> 0))
                             (AccountStreamError ''standard source DEX is nonflat with no equity'')) (\<lambda>_.
                    Inr (AList.update dex equity acc)))))
           | _ \<Rightarrow> Inl (AccountStreamError ''standard source DEX is missing accountValue'')))"

definition standard_equity ::
  "string list \<Rightarrow> (string \<times> (string \<times> json) list) list \<Rightarrow> (string \<times> rat position) list \<Rightarrow> (string \<times> rat) list result" where
  "standard_equity dexes states positions =
     rbind (rfold (add_dex_equity states positions) dexes []) (\<lambda>equity.
     rbind (require (0 < dsum (map snd equity))
              (AccountStreamError ''standard source relevant DEX equity is not positive'')) (\<lambda>_.
     Inr equity))"

text \<open>The DEX states in the order of \<open>sorted(..., key=lambda item: (item != "", item))\<close>.\<close>

definition sorted_states :: "(string \<times> (string \<times> json) list) list \<Rightarrow> (string \<times> (string \<times> json) list) list" where
  "sorted_states states = sort_key (\<lambda>(dex, _). (dex \<noteq> [], dex)) states"

definition apply_positions ::
  "(string \<times> json) list \<Rightarrow> int \<Rightarrow> AccountStream \<Rightarrow> (AccountStreamUpdate \<times> AccountStream) result" where
  "apply_positions message received st =
     rbind (role_for_data (jget message ''data'') st) (\<lambda>(account, role, _).
     let m = account_state st role; standard = (role = SourceRole \<and> as_mode st = ''standard'') in
     rbind (parse_all_dexs_message message account received) (\<lambda>snapshot.
     rbind (rfold add_dex_positions (sorted_states (us_states snapshot)) ([], [], [])) (\<lambda>(positions, by_dex, observed).
     rbind (rfold (check_dex_frame m observed) by_dex ()) (\<lambda>_.
     rbind (if standard then standard_equity (as_source_dexes st) (us_states snapshot) positions else Inr []) (\<lambda>equity.
     let m1 = m\<lparr>ma_positions := positions\<rparr>;
         m2 = (if standard
               then m1\<lparr>ma_perp_equity := equity,
                       ma_received := AList.update ''perp_equity'' received (ma_received m1),
                       ma_observed := AList.update ''perp_equity''
                         (Min (set (map (\<lambda>d. dget observed d 0) (as_source_dexes st)))) (ma_observed m1)\<rparr>
               else m1);
         m3 = m2\<lparr>ma_received := AList.update ''positions'' received (ma_received m2),
                 ma_observed := AList.update ''positions'' (Max (set (map snd observed))) (ma_observed m2),
                 ma_dex_observed := foldl (\<lambda>d (k, v). AList.update k v d) (ma_dex_observed m2) observed\<rparr>;
         st' = set_account role m3 st
     in Inr (base_update ''allDexsClearinghouseState'' account role (map_of (ma_received m) ''positions'' = None) [] 0 st',
             st'))))))"


section \<open>Collateral frames\<close>

definition add_token_zero :: "json \<Rightarrow> (string \<times> json) list list \<Rightarrow> (string \<times> json) list list result" where
  "add_token_zero raw acc =
     (case raw of
        JObj row \<Rightarrow>
          let token = jget row ''token'' in
          if token = JNull then Inr acc
          else if is_jbool token then Inl (AccountStreamError ''spotState balance has invalid token'')
          else (case int_text token of
                  None \<Rightarrow> Inl (AccountStreamError ''spotState balance has invalid token'')
                | Some n \<Rightarrow> Inr (if n = 0 then acc @ [row] else acc))
      | _ \<Rightarrow> Inl (AccountStreamError ''spotState balance must be an object''))"

definition usdc_amounts :: "(string \<times> json) list \<Rightarrow> (rat \<times> rat) result" where
  "usdc_amounts usdc =
     rbind (require (py_upper (py_strip (str_or_empty (jget usdc ''coin''))) = ''USDC'')
              (AccountStreamError ''spot token 0 is not identified as USDC'')) (\<lambda>_.
     rbind (require (has_key usdc ''total'') (AccountStreamError ''spot token-0 USDC balance is missing total'')) (\<lambda>_.
     rbind (parse_number (jget usdc ''total'')) (\<lambda>total.
     rbind (parse_number (dget usdc ''hold'' (JStr ''0''))) (\<lambda>hold.
     rbind (require (\<not> (total < 0 \<or> hold < 0 \<or> hold > total))
              (AccountStreamError ''spot token-0 USDC total/hold values are inconsistent'')) (\<lambda>_.
     Inr (total, hold))))))"

definition spot_balances :: "(string \<times> json) list \<Rightarrow> ((string \<times> json) list \<times> json list) result" where
  "spot_balances data =
     (case dget data ''spotState'' (JObj data) of
        JObj payload \<Rightarrow>
          (case jget payload ''balances'' of
             JArr rows \<Rightarrow> Inr (payload, rows)
           | _ \<Rightarrow> Inl (AccountStreamError ''spotState balances must be a list''))
      | _ \<Rightarrow> Inl (AccountStreamError ''spotState payload must be an object''))"

definition apply_spot ::
  "(string \<times> json) list \<Rightarrow> int \<Rightarrow> AccountStream \<Rightarrow> (AccountStreamUpdate \<times> AccountStream) result" where
  "apply_spot message received st =
     rbind (role_for_data (jget message ''data'') st) (\<lambda>(account, role, data).
     let m = account_state st role in
     rbind (spot_balances data) (\<lambda>(payload, balances).
     rbind (rfold add_token_zero balances []) (\<lambda>token_zero.
     rbind (require (length token_zero = 1)
              (AccountStreamError ''spotState must contain exactly one token-0 balance'')) (\<lambda>_.
     rbind (usdc_amounts (hd token_zero)) (\<lambda>(total, hold).
     rbind (frame_int (dget payload ''time'' (dget data ''time'' (JInt received)))) (\<lambda>observed.
     rbind (require (dget (ma_observed m) ''collateral'' 0 \<le> observed)
              (AccountStreamError ''collateral snapshot moved backwards in exchange time'')) (\<lambda>_.
     let m' = m\<lparr>ma_collateral := Some \<lparr>uc_total = total, uc_hold = hold, uc_available = dsub total hold,
                                       uc_observed_ms = observed, uc_received_ms = received\<rparr>,
                ma_received := AList.update ''collateral'' received (ma_received m),
                ma_observed := AList.update ''collateral'' observed (ma_observed m)\<rparr>;
         st' = set_account role m' st
     in Inr (base_update ''spotState'' account role (map_of (ma_received m) ''collateral'' = None) [] 0 st', st'))))))))"


section \<open>Open-order frames\<close>

definition apply_open_orders ::
  "(string \<times> json) list \<Rightarrow> int \<Rightarrow> AccountStream \<Rightarrow> (AccountStreamUpdate \<times> AccountStream) result" where
  "apply_open_orders message received st =
     rbind (role_for_data (jget message ''data'') st) (\<lambda>(account, role, data).
     let m = account_state st role in
     if role \<noteq> FollowerRole then Inl (AccountStreamError ''openOrders is only subscribed for the follower'')
     else case jget data ''orders'' of
       JArr rows \<Rightarrow>
         rbind (parse_order_rows rows data received) (\<lambda>orders.
         let m' = m\<lparr>ma_open_orders := orders,
                    ma_received := AList.update ''open_orders'' received (ma_received m),
                    ma_observed := AList.update ''open_orders'' received (ma_observed m)\<rparr>;
             st' = set_account role m' st
         in Inr (base_update ''openOrders'' account role (map_of (ma_received m) ''open_orders'' = None) [] 0 st', st'))
     | _ \<Rightarrow> Inl (AccountStreamError ''openOrders payload must contain an orders list''))"

text \<open>\<open>raw_user and _account(str(raw_user)) != self.follower_address\<close> raises.\<close>

definition check_follower_user :: "(string \<times> json) list \<Rightarrow> AccountStream \<Rightarrow> unit result" where
  "check_follower_user m st =
     (let raw = (if py_truthy (jget m ''user'') then jget m ''user'' else jget m ''userAddress'')
      in if py_truthy raw
         then rbind (stream_account (py_str raw)) (\<lambda>a.
              require (a = as_follower_address st) (AccountStreamError ''orderUpdates belongs to a non-follower account''))
         else Inr ())"

definition matches_order :: "int option \<times> string option \<Rightarrow> OpenOrder \<Rightarrow> bool" where
  "matches_order ident o' =
     (fst ident \<noteq> None \<and> oo_oid o' = fst ident \<or> snd ident \<noteq> None \<and> oo_cloid o' = snd ident)"

definition apply_order_update ::
  "AccountStream \<Rightarrow> json \<Rightarrow> OpenOrder list \<times> int \<Rightarrow> (OpenOrder list \<times> int) result" where
  "apply_order_update st raw = (\<lambda>(orders, latest).
     case raw of
       JObj upd \<Rightarrow>
         rbind (check_follower_user upd st) (\<lambda>_.
         case jget upd ''order'' of
           JObj order \<Rightarrow>
             let status = py_lower (py_strip (str_or_empty (jget upd ''status''))) in
             rbind (require (status \<noteq> []) (AccountStreamError ''order update is missing status'')) (\<lambda>_.
             rbind (frame_int (jget upd ''statusTimestamp'')) (\<lambda>status_ms.
             rbind (order_identity order) (\<lambda>ident.
             let matching = filter (matches_order ident) orders in
             rbind (require (length matching \<le> 1)
                      (AccountStreamError ''oid/cloid identify different open orders'')) (\<lambda>_.
             let rest = filter (\<lambda>c. c \<notin> set matching) orders in
             if status = ''open'' then
               rbind (parse_order_rows [JObj order] upd status_ms) (\<lambda>parsed.
               rbind (identity_available rest (hd parsed)) (\<lambda>_.
               Inr (rest @ [hd parsed], max latest status_ms)))
             else if terminal_order_status status then Inr (rest, max latest status_ms)
             else Inl (AccountStreamError ''order update has unknown lifecycle status'')))))
         | _ \<Rightarrow> Inl (AccountStreamError ''order update is missing order''))
     | _ \<Rightarrow> Inl (AccountStreamError ''order update must be an object''))"

definition apply_order_updates ::
  "(string \<times> json) list \<Rightarrow> int \<Rightarrow> AccountStream \<Rightarrow> (AccountStreamUpdate \<times> AccountStream) result" where
  "apply_order_updates message received st =
     rbind (case jget message ''data'' of
              JObj m \<Rightarrow> rbind (check_follower_user m st) (\<lambda>_. Inr (dget m ''updates'' (jget m ''orders'')))
            | d \<Rightarrow> Inr d) (\<lambda>raw.
     case raw of
       JArr updates \<Rightarrow>
         let m = as_follower st in
         rbind (rfold (apply_order_update st) updates (ma_open_orders m, received)) (\<lambda>(orders, latest).
         let m1 = m\<lparr>ma_open_orders := orders\<rparr>;
             m2 = (if map_of (ma_received m) ''open_orders'' \<noteq> None
                   then m1\<lparr>ma_received := AList.update ''open_orders'' received (ma_received m),
                           ma_observed := AList.update ''open_orders'' latest (ma_observed m)\<rparr>
                   else m1);
             st' = st\<lparr>as_follower := m2\<rparr>
         in Inr (base_update ''orderUpdates'' (as_follower_address st) FollowerRole False [] 0 st', st'))
     | _ \<Rightarrow> Inl (AccountStreamError ''orderUpdates data must be a list''))"


section \<open>Fill frames\<close>

text \<open>\<open>xs[-n:]\<close> for positive \<open>n\<close>.\<close>

definition last_n :: "nat \<Rightarrow> 'a list \<Rightarrow> 'a list" where
  "last_n n xs = drop (length xs - n) xs"

definition fill_is_snapshot :: "(string \<times> json) list \<Rightarrow> bool \<Rightarrow> bool result" where
  "fill_is_snapshot data has_baseline =
     rbind (case jget data ''isSnapshot'' of
              JBool b \<Rightarrow> Inr b
            | JNull \<Rightarrow> if has_baseline then Inr False
                       else Inl (AccountStreamError ''userFills must declare boolean isSnapshot before the initial snapshot'')
            | _ \<Rightarrow> Inl (AccountStreamError ''userFills must declare boolean isSnapshot before the initial snapshot'')) (\<lambda>b.
     rbind (require (b \<or> has_baseline)
              (AccountStreamError ''live fills arrived before the initial fill snapshot'')) (\<lambda>_.
     Inr b))"

definition fill_scope :: "AccountStream \<Rightarrow> stream_role \<Rightarrow> string list option" where
  "fill_scope st role = (case role of SourceRole \<Rightarrow> as_source_markets st | FollowerRole \<Rightarrow> as_follower_markets st)"

definition in_fill_scope :: "AccountStream \<Rightarrow> stream_role \<Rightarrow> string \<Rightarrow> bool" where
  "in_fill_scope st role market \<longleftrightarrow>
     (case fill_scope st role of None \<Rightarrow> True | Some ms \<Rightarrow> market \<in> set ms) \<or>
     role = SourceRole \<and> as_accept_outside st"

definition spot_coin :: "json \<Rightarrow> bool" where
  "spot_coin v = (case v of JStr s \<Rightarrow> prefix ''@'' (py_strip s) | _ \<Rightarrow> False)"

definition add_fill_row ::
  "AccountStream \<Rightarrow> string \<Rightarrow> stream_role \<Rightarrow> int \<Rightarrow> bool \<Rightarrow> json \<Rightarrow> FillRecord list \<Rightarrow> FillRecord list result" where
  "add_fill_row st account role received is_snapshot raw acc =
     (case raw of
        JObj row \<Rightarrow>
          if spot_coin (jget row ''coin'') then Inr acc
          else rbind (market_text (jget row ''coin'')) (\<lambda>coin.
               rbind (canonical_market_symbol coin) (\<lambda>market.
               if \<not> in_fill_scope st role market then Inr acc
               else rbind (parse_fill raw account received (as_epoch st) is_snapshot) (\<lambda>f. Inr (acc @ [f]))))
      | _ \<Rightarrow> Inl (AccountStreamError ''fill must be an object''))"

text \<open>\<open>payload_unique\<close>: the first record of each identity; a second one must carry the same fingerprint.\<close>

definition add_unique_fill :: "FillRecord \<Rightarrow> (fill_identity \<times> FillRecord) list \<Rightarrow> (fill_identity \<times> FillRecord) list result" where
  "add_unique_fill f acc =
     (case map_of acc (fill_identity_of f) of
        Some prior \<Rightarrow>
          if fill_fingerprint_of prior \<noteq> fill_fingerprint_of f
          then Inl (AccountStreamError ''conflicting duplicate fill identity in frame'')
          else Inr acc
      | None \<Rightarrow> Inr (acc @ [(fill_identity_of f, f)]))"

definition add_new_fill ::
  "(fill_identity \<times> fill_fingerprint) list \<Rightarrow> fill_identity \<times> FillRecord \<Rightarrow> FillRecord list \<times> nat \<Rightarrow>
   (FillRecord list \<times> nat) result" where
  "add_new_fill fps entry acc =
     (case map_of fps (fst entry) of
        Some fp \<Rightarrow>
          if fp \<noteq> fill_fingerprint_of (snd entry) then Inl (AccountStreamError ''fill identity changed payload'')
          else Inr (fst acc, snd acc + 1)
      | None \<Rightarrow> Inr (fst acc @ [snd entry], snd acc))"

definition add_fill_position ::
  "FillRecord \<Rightarrow> (string \<times> rat position) list \<Rightarrow> (string \<times> rat position) list result" where
  "add_fill_position f positions =
     (case fr_start_position f of
        None \<Rightarrow> Inl (AccountStreamError ''live fill is missing startPosition continuity'')
      | Some start \<Rightarrow>
          let end' = dadd start (fill_signed_size f);
              prior = map_of positions (fr_market f);
              current = (case prior of None \<Rightarrow> 0 | Some p \<Rightarrow> pos_size p)
          in if current = end' then Inr positions
             else if current \<noteq> start
             then Inl (AccountStreamError ''live fill startPosition does not match current'')
             else Inr (AList.update (fr_market f)
                   \<lparr>pos_coin = fr_market f, pos_size = end',
                    pos_entry_px = (case prior of None \<Rightarrow> Some (Fin (fr_price f)) | Some p \<Rightarrow> pos_entry_px p),
                    pos_leverage = (case prior of None \<Rightarrow> None | Some p \<Rightarrow> pos_leverage p),
                    pos_updated_ms = fr_time_ms f\<rparr> positions))"

definition validated_fill_positions ::
  "(string \<times> rat position) list \<Rightarrow> FillRecord list \<Rightarrow> (string \<times> rat position) list result" where
  "validated_fill_positions positions fills = rfold add_fill_position fills positions"

text \<open>The dedupe table: \<open>d[k] = v; d.move_to_end(k)\<close>, \<open>move_to_end\<close> of a present key, and the trimming loop.\<close>

definition put_end :: "'k \<Rightarrow> 'v \<Rightarrow> ('k \<times> 'v) list \<Rightarrow> ('k \<times> 'v) list" where
  "put_end k v d = AList.delete k d @ [(k, v)]"

definition touch_end :: "'k \<Rightarrow> ('k \<times> 'v) list \<Rightarrow> ('k \<times> 'v) list" where
  "touch_end k d = (case map_of d k of None \<Rightarrow> d | Some v \<Rightarrow> put_end k v d)"

definition remember_fills ::
  "int \<Rightarrow> FillRecord list \<Rightarrow> fill_identity list \<Rightarrow> (fill_identity \<times> fill_fingerprint) list \<Rightarrow>
   (fill_identity \<times> fill_fingerprint) list" where
  "remember_fills capacity new_records ids fps =
     last_n (nat capacity)
       (fold touch_end ids
         (fold (\<lambda>f. put_end (fill_identity_of f) (fill_fingerprint_of f)) new_records fps))"

text \<open>The position times after live fills.\<close>

definition advance_dex_time :: "FillRecord \<Rightarrow> (string \<times> int) list \<Rightarrow> (string \<times> int) list result" where
  "advance_dex_time f d =
     rbind (market_dex (fr_market f)) (\<lambda>dex. Inr (AList.update dex (max (dget d dex 0) (fr_time_ms f)) d))"

definition commit_positions ::
  "int \<Rightarrow> FillRecord list \<Rightarrow> (string \<times> rat position) list \<Rightarrow> MutableAccount \<Rightarrow> MutableAccount result" where
  "commit_positions received new_records positions m =
     (let m1 = m\<lparr>ma_positions := positions\<rparr>
      in if new_records = [] then Inr m1
         else rbind (rfold advance_dex_time new_records (ma_dex_observed m1)) (\<lambda>d.
              Inr (m1\<lparr>ma_received := AList.update ''positions'' received (ma_received m1),
                      ma_observed := AList.update ''positions''
                        (foldl max (dget (ma_observed m1) ''positions'' 0) (map fr_time_ms new_records)) (ma_observed m1),
                      ma_dex_observed := d\<rparr>)))"

text \<open>The retained fills: a first snapshot replaces them, every later frame extends them.\<close>

definition retained_fills ::
  "int \<Rightarrow> bool \<Rightarrow> FillRecord list \<Rightarrow> FillRecord list \<Rightarrow> MutableAccount \<Rightarrow> FillRecord list" where
  "retained_fills capacity is_snapshot unique new_records m =
     (if is_snapshot \<and> map_of (ma_received m) ''fills'' = None \<and> map_of (ma_received m) ''twap_fills'' = None
      then last_n (nat capacity) unique
      else last_n (nat capacity) (ma_fills m @ new_records))"

definition apply_fills ::
  "(string \<times> json) list \<Rightarrow> int \<Rightarrow> string \<Rightarrow> string \<Rightarrow> AccountStream \<Rightarrow> (AccountStreamUpdate \<times> AccountStream) result" where
  "apply_fills message received part channel st =
     rbind (role_for_data (jget message ''data'') st) (\<lambda>(account, role, data).
     let m = account_state st role in
     rbind (require (part \<in> {''fills'', ''twap_fills''}) (AssertionError ''unsupported internal fill component'')) (\<lambda>_.
     rbind (fill_is_snapshot data (map_of (ma_received m) part \<noteq> None)) (\<lambda>is_snapshot.
     case jget data ''fills'' of
       JArr rows \<Rightarrow>
         rbind (rfold (add_fill_row st account role received is_snapshot) rows []) (\<lambda>records.
         rbind (rfold add_unique_fill records []) (\<lambda>unique.
         rbind (rfold (add_new_fill (as_fingerprints st)) unique ([], length records - length unique)) (\<lambda>(new_records, duplicates).
         rbind (if is_snapshot then Inr m
                else rbind (validated_fill_positions (ma_positions m) new_records) (\<lambda>positions.
                     commit_positions received new_records positions m)) (\<lambda>m1.
         let m2 = m1\<lparr>ma_fills := retained_fills (as_capacity st) is_snapshot (map snd unique) new_records m1,
                     ma_received := AList.update part received (ma_received m1),
                     ma_observed := AList.update part
                       (if records = [] then received else Max (set (map fr_time_ms records))) (ma_observed m1)\<rparr>;
             st' = set_account role m2
                     (st\<lparr>as_fingerprints := remember_fills (as_capacity st) new_records (map fst unique) (as_fingerprints st)\<rparr>)
         in Inr (base_update channel account role is_snapshot (if is_snapshot then [] else new_records) duplicates st', st')))))
     | _ \<Rightarrow> Inl (AccountStreamError ''userFills fills must be a list''))))"

definition twap_fill :: "json \<Rightarrow> json result" where
  "twap_fill wrapper =
     (let bad = Inl (AccountStreamError ''userTwapSliceFills must wrap one fill object'')
      in case wrapper of
        JObj w \<Rightarrow> (case jget w ''fill'' of JObj f \<Rightarrow> Inr (JObj f) | _ \<Rightarrow> bad)
      | _ \<Rightarrow> bad)"

definition apply_twap_fills ::
  "(string \<times> json) list \<Rightarrow> int \<Rightarrow> AccountStream \<Rightarrow> (AccountStreamUpdate \<times> AccountStream) result" where
  "apply_twap_fills message received st =
     (case jget message ''data'' of
        JObj data \<Rightarrow>
          (case jget data ''twapSliceFills'' of
             JArr rows \<Rightarrow>
               rbind (rmap twap_fill rows) (\<lambda>fills.
               let normalized = [(''channel'', JStr ''userFills''),
                     (''data'', JObj [(''user'', jget data ''user''), (''isSnapshot'', jget data ''isSnapshot''),
                                      (''fills'', JArr fills)])]
               in rbind (apply_fills normalized received ''twap_fills'' ''userTwapSliceFills'' st) (\<lambda>(u, st').
                  Inr (u\<lparr>au_channel := ''userTwapSliceFills''\<rparr>, st')))
           | _ \<Rightarrow> Inl (AccountStreamError ''userTwapSliceFills payload must be a list''))
      | _ \<Rightarrow> Inl (AccountStreamError ''userTwapSliceFills data must be an object''))"


section \<open>Frames\<close>

text \<open>The \<open>except\<close> clauses of \<open>apply\<close>; a \<open>MarketIdentityError\<close> is a \<open>ValueError\<close>.\<close>

definition as_stream_error :: "'a result \<Rightarrow> 'a result" where
  "as_stream_error r =
     (case r of
        Inr x \<Rightarrow> Inr x
      | Inl e \<Rightarrow>
          (case e of
             ArithmeticError _ \<Rightarrow> Inl (AccountStreamError ''invalid account frame'')
           | TypeError _ \<Rightarrow> Inl (AccountStreamError ''invalid account frame'')
           | UnifiedAccountStateError _ \<Rightarrow> Inl (AccountStreamError ''invalid account frame'')
           | ValueError _ \<Rightarrow> Inl (AccountStreamError ''invalid account frame'')
           | MarketIdentityError _ \<Rightarrow> Inl (AccountStreamError ''invalid account frame'')
           | _ \<Rightarrow> Inl e))"

definition apply_channel ::
  "(string \<times> json) list \<Rightarrow> int \<Rightarrow> AccountStream \<Rightarrow> (AccountStreamUpdate \<times> AccountStream) result" where
  "apply_channel message received st =
     (let channel = str_or_empty (jget message ''channel'')
      in if channel = ''allDexsClearinghouseState'' then apply_positions message received st
         else if channel = ''spotState'' then apply_spot message received st
         else if channel = ''openOrders'' then apply_open_orders message received st
         else if channel = ''orderUpdates'' then apply_order_updates message received st
         else if channel = ''userFills'' then apply_fills message received ''fills'' ''userFills'' st
         else if channel = ''userTwapSliceFills'' then apply_twap_fills message received st
         else Inl (AccountStreamError ''unsupported account stream channel''))"

definition apply_frame ::
  "json \<Rightarrow> int \<Rightarrow> int \<Rightarrow> AccountStream \<Rightarrow> (AccountStreamUpdate \<times> AccountStream) result" where
  "apply_frame message epoch received st =
     rbind (validate_frame epoch received st) (\<lambda>_.
     case message of
       JObj m \<Rightarrow>
         rbind (as_stream_error (apply_channel m received st)) (\<lambda>(u, st').
         Inr (u, note_activity received st'))
     | _ \<Rightarrow> Inl (AccountStreamError ''account stream message must be an object''))"

end
