(* ===== verification/Raises.thy ===== *)
theory Raises
  imports Json
begin

text \<open>Which exceptions a computation can raise: rules that follow the shape of the code.\<close>

text \<open>\<open>raises P r\<close>: if \<open>r\<close> is an exception, it satisfies \<open>P\<close>. The rules follow the shape of the code.\<close>

definition raises :: "(error \<Rightarrow> bool) \<Rightarrow> 'a result \<Rightarrow> bool" where
  "raises P r \<longleftrightarrow> (case r of Inl e \<Rightarrow> P e | Inr _ \<Rightarrow> True)"

named_theorems raises_rules \<open>which exceptions a computation raises\<close>

lemma raises_Inr [raises_rules]: "raises P (Inr x)"
  by (simp add: raises_def)

lemma raises_Inl [raises_rules]: "P e \<Longrightarrow> raises P (Inl e)"
  by (simp add: raises_def)

lemma raises_require [raises_rules]: "P e \<Longrightarrow> raises P (require b e)"
  by (simp add: raises_def require_def)

lemma raises_rbind [raises_rules]:
  "raises P m \<Longrightarrow> (\<And>x. m = Inr x \<Longrightarrow> raises P (f x)) \<Longrightarrow> raises P (rbind m f)"
  by (cases m) (auto simp: raises_def)

lemma raises_rfold [raises_rules]: "(\<And>x s. raises P (f x s)) \<Longrightarrow> raises P (rfold f xs s)"
  by (induction xs arbitrary: s) (auto intro!: raises_rules)

lemma raises_rmap [raises_rules]: "(\<And>x. raises P (f x)) \<Longrightarrow> raises P (rmap f xs)"
  by (induction xs) (auto intro!: raises_rules)

lemma raises_if [raises_rules]:
  "(b \<Longrightarrow> raises P x) \<Longrightarrow> (\<not> b \<Longrightarrow> raises P y) \<Longrightarrow> raises P (if b then x else y)"
  by simp

lemma raises_option [raises_rules]:
  "(v = None \<Longrightarrow> raises P x) \<Longrightarrow> (\<And>a. v = Some a \<Longrightarrow> raises P (f a)) \<Longrightarrow> raises P (case v of None \<Rightarrow> x | Some a \<Rightarrow> f a)"
  by (cases v) simp_all

lemma raises_prod [raises_rules]: "(\<And>a b. p = (a, b) \<Longrightarrow> raises P (f a b)) \<Longrightarrow> raises P (case p of (a, b) \<Rightarrow> f a b)"
  by (cases p) simp

lemma raises_sum [raises_rules]:
  "(\<And>e. raises P (f e)) \<Longrightarrow> (\<And>a. raises P (g a)) \<Longrightarrow> raises P (case r of Inl e \<Rightarrow> f e | Inr a \<Rightarrow> g a)"
  by (cases r) simp_all

lemma raises_list [raises_rules]:
  "(xs = [] \<Longrightarrow> raises P x) \<Longrightarrow> (\<And>a as. xs = a # as \<Longrightarrow> raises P (f a as)) \<Longrightarrow> raises P (case xs of [] \<Rightarrow> x | a # as \<Rightarrow> f a as)"
  by (cases xs) simp_all

lemma raises_json [raises_rules]:
  assumes "raises P a" "\<And>x. raises P (b x)" "\<And>x. raises P (c x)" "\<And>x. raises P (d x)" "\<And>x. raises P (e x)"
    "\<And>x. raises P (f x)" "\<And>x. raises P (g x)"
  shows "raises P (case v of JNull \<Rightarrow> a | JBool x \<Rightarrow> b x | JInt x \<Rightarrow> c x | JFloat x \<Rightarrow> d x | JStr x \<Rightarrow> e x | JArr x \<Rightarrow> f x | JObj x \<Rightarrow> g x)"
  using assms by (cases v) simp_all


end
