(* ===== verification/Stream_Safety.thy ===== *)
theory Stream_Safety
  imports Account_Stream Raises
begin

text \<open>
  What the account stream guarantees: the dedupe table is a least-recently-seen window, no fill is
  delivered twice while the window has not overflowed, only frames of the current connection and
  after its fill snapshot deliver fills, live fills form an unbroken chain of positions, exchange
  time never runs backwards per DEX, and a bad frame raises nothing but \<open>AccountStreamError\<close>.
\<close>

section \<open>The dedupe window\<close>

lemma keys_put_end [simp]: "map fst (put_end k v d) = filter (\<lambda>x. x \<noteq> k) (map fst d) @ [k]"
  by (induction d) (auto simp: put_end_def AList.delete_eq)

lemma map_of_put_end [simp]: "map_of (put_end k v d) = (map_of d)(k \<mapsto> v)"
  by (rule ext) (auto simp: put_end_def map_of_append AList.delete_conv' map_add_def split: option.splits)

lemma keys_touch_end:
  "map fst (touch_end k d) = (if k \<in> set (map fst d) then filter (\<lambda>x. x \<noteq> k) (map fst d) @ [k] else map fst d)"
proof (cases "map_of d k")
  case None
  then have "k \<notin> set (map fst d)" by (simp add: map_of_eq_None_iff)
  with None show ?thesis by (simp add: touch_end_def)
next
  case (Some v)
  then have "k \<in> set (map fst d)" by (metis map_of_eq_None_iff list.set_map option.simps(3))
  with Some show ?thesis by (simp add: touch_end_def)
qed

lemma map_of_touch_end [simp]: "map_of (touch_end k d) = map_of d"
  by (auto simp: touch_end_def split: option.splits)

lemma keys_put_all:
  "distinct (map f xs) \<Longrightarrow>
   map fst (fold (\<lambda>x. put_end (f x) (g x)) xs d) = filter (\<lambda>k. k \<notin> set (map f xs)) (map fst d) @ map f xs"
proof (induction xs arbitrary: d)
  case (Cons x xs)
  then show ?case by (simp add: filter_filter image_iff conj_commute)
qed simp

lemma keys_touch_all:
  "distinct ks \<Longrightarrow> set ks \<subseteq> set (map fst d) \<Longrightarrow>
   map fst (fold touch_end ks d) = filter (\<lambda>k. k \<notin> set ks) (map fst d) @ ks"
proof (induction ks arbitrary: d)
  case (Cons k ks)
  have "set ks \<subseteq> set (map fst (touch_end k d))" using Cons.prems by (auto simp: keys_touch_end)
  then have "map fst (fold touch_end ks (touch_end k d)) = filter (\<lambda>k. k \<notin> set ks) (map fst (touch_end k d)) @ ks"
    using Cons.prems by (intro Cons.IH) auto
  with Cons.prems show ?case
    by (simp add: keys_touch_end filter_filter conj_commute)
qed simp

lemma map_last_n: "map f (last_n n xs) = last_n n (map f xs)"
  by (simp add: last_n_def drop_map)

lemma keys_remember_fills:
  assumes "distinct ids" and "distinct (map fill_identity_of new)"
    and "set (map fill_identity_of new) \<subseteq> set ids"
    and "set ids \<subseteq> set (map fst fps) \<union> set (map fill_identity_of new)"
  shows "map fst (remember_fills cap new ids fps) = last_n (nat cap) (filter (\<lambda>k. k \<notin> set ids) (map fst fps) @ ids)"
proof -
  define d where "d = fold (\<lambda>f. put_end (fill_identity_of f) (fill_fingerprint_of f)) new fps"
  have d: "map fst d = filter (\<lambda>k. k \<notin> set (map fill_identity_of new)) (map fst fps) @ map fill_identity_of new"
    unfolding d_def by (rule keys_put_all) (rule assms(2))
  with assms(4) have "set ids \<subseteq> set (map fst d)" by auto
  with assms(1) have "map fst (fold touch_end ids d) = filter (\<lambda>k. k \<notin> set ids) (map fst d) @ ids"
    by (rule keys_touch_all)
  also have "filter (\<lambda>k. k \<notin> set ids) (map fst d) = filter (\<lambda>k. k \<notin> set ids) (map fst fps)"
    using assms(3) 
  proof -
    have "filter (\<lambda>k. k \<notin> set ids) (map fill_identity_of new) = []"
      using assms(3) by (auto simp: filter_empty_conv)
    moreover have "filter (\<lambda>k. k \<notin> set ids) (filter (\<lambda>k. k \<notin> set (map fill_identity_of new)) (map fst fps)) =
      filter (\<lambda>k. k \<notin> set ids) (map fst fps)"
      using assms(3) unfolding filter_filter by (intro filter_cong) auto
    ultimately show ?thesis by (simp only: d filter_append append_Nil2)
  qed
  finally show ?thesis
    unfolding remember_fills_def d_def [symmetric] by (metis map_last_n)
qed

lemma last_n_length [simp]: "length (last_n n xs) = min n (length xs)"
  by (simp add: last_n_def)

lemma last_n_subset: "set (last_n n xs) \<subseteq> set xs"
  by (simp add: last_n_def set_drop_subset)

lemma last_n_all: "length (last_n n xs) < n \<Longrightarrow> last_n n xs = xs"
  by (simp add: last_n_def)

lemma distinct_last_n: "distinct xs \<Longrightarrow> distinct (last_n n xs)"
  by (simp add: last_n_def distinct_drop)


section \<open>The records of one frame\<close>

lemma add_unique_fill_ok:
  assumes "rfold add_unique_fill records [] = Inr unique"
  shows "distinct (map fst unique) \<and> (\<forall>(k, f) \<in> set unique. k = fill_identity_of f)"
  using assms
proof (rule rfold_invariant)
  fix f acc acc'
  assume "distinct (map fst acc) \<and> (\<forall>(k, f) \<in> set acc. k = fill_identity_of f)" and "add_unique_fill f acc = Inr acc'"
  then show "distinct (map fst acc') \<and> (\<forall>(k, f) \<in> set acc'. k = fill_identity_of f)"
    by (auto simp: add_unique_fill_def map_of_eq_None_iff split: option.splits if_splits)
qed simp

lemma add_new_fill_eq:
  "rfold (add_new_fill fps) entries acc = Inr (new, dups) \<Longrightarrow>
   new = fst acc @ map snd (filter (\<lambda>e. map_of fps (fst e) = None) entries)"
proof (induction entries arbitrary: acc)
  case (Cons e entries)
  from Cons.prems obtain a where a: "add_new_fill fps e acc = Inr a" and r: "rfold (add_new_fill fps) entries a = Inr (new, dups)"
    by auto
  from a Cons.IH [OF r] show ?case by (auto simp: add_new_fill_def split: option.splits if_splits)
qed simp

text \<open>The identities of a checked frame: pairwise different, and the new ones are those the table does not hold.\<close>

lemma frame_identities:
  assumes "rfold add_unique_fill records [] = Inr unique" and "rfold (add_new_fill fps) unique ([], n) = Inr (new, dups)"
  shows "distinct (map fst unique)"
    and "map fill_identity_of new = filter (\<lambda>k. k \<notin> set (map fst fps)) (map fst unique)"
proof -
  note u = add_unique_fill_ok [OF assms(1)]
  then show "distinct (map fst unique)" by simp
  have "new = map snd (filter (\<lambda>e. map_of fps (fst e) = None) unique)" using add_new_fill_eq [OF assms(2)] by simp
  moreover have "map fill_identity_of (map snd xs) = map fst xs" if "set xs \<subseteq> set unique" for xs
    using that u by (induction xs) auto
  ultimately have "map fill_identity_of new = map fst (filter (\<lambda>e. map_of fps (fst e) = None) unique)"
    by (metis filter_is_subset)
  then show "map fill_identity_of new = filter (\<lambda>k. k \<notin> set (map fst fps)) (map fst unique)"
    by (simp add: filter_map comp_def map_of_eq_None_iff)
qed

lemma frame_keys:
  assumes "rfold add_unique_fill records [] = Inr unique" and "rfold (add_new_fill fps) unique ([], n) = Inr (new, dups)"
  shows "map fst (remember_fills cap new (map fst unique) fps) =
    last_n (nat cap) (filter (\<lambda>k. k \<notin> set (map fst unique)) (map fst fps) @ map fst unique)"
proof (rule keys_remember_fills)
  note f = frame_identities [OF assms]
  show "distinct (map fst unique)" by (rule f)
  show "distinct (map fill_identity_of new)" unfolding f(2) using f(1) by (rule distinct_filter)
  show "set (map fill_identity_of new) \<subseteq> set (map fst unique)" unfolding f(2) by auto
  show "set (map fst unique) \<subseteq> set (map fst fps) \<union> set (map fill_identity_of new)" unfolding f(2) by auto
qed


section \<open>What a frame changes\<close>

lemma account_state_set_account [simp]:
  "account_state (set_account role m st) role' = (if role' = role then m else account_state st role')"
  by (cases role; cases role') (simp_all add: account_state_def set_account_def)

lemma set_account_simps [simp]:
  "as_fingerprints (set_account role m st) = as_fingerprints st" "as_capacity (set_account role m st) = as_capacity st"
  "as_epoch (set_account role m st) = as_epoch st"
  by (cases role; simp add: set_account_def)+

lemma account_state_update [simp]:
  "account_state (st\<lparr>as_fingerprints := x\<rparr>) role = account_state st role"
  "account_state (st\<lparr>as_activity_ms := y\<rparr>) role = account_state st role"
  by (cases role; simp add: account_state_def)+

lemma base_update_simps [simp]:
  "au_new_fills (base_update c a r i fs n st) = fs" "au_initial_snapshot (base_update c a r i fs n st) = i"
  "au_role (base_update c a r i fs n st) = r"
  by (simp_all add: base_update_def)

text \<open>Exchange time: what a positions frame and a fill record per DEX.\<close>

lemma dget_update_all:
  "distinct (map fst obs) \<Longrightarrow>
   dget (foldl (\<lambda>d (k, v). AList.update k v d) d obs) k w = (case map_of obs k of None \<Rightarrow> dget d k w | Some v \<Rightarrow> v)"
proof (induction obs arbitrary: d)
  case (Cons e obs)
  then show ?case by (cases e) (auto simp: image_iff map_of_eq_None_iff split: option.splits)
qed simp

lemma add_dex_positions_times:
  "rfold add_dex_positions entries (ps, by_dex, obs) = Inr (ps', by_dex', obs') \<Longrightarrow>
   map fst by_dex = map fst obs \<Longrightarrow>
   map fst by_dex' = map fst obs' \<and> map fst obs' = map fst obs @ map fst entries"
proof (induction entries arbitrary: ps by_dex obs)
  case (Cons e entries)
  obtain dex state where e: "e = (dex, state)" by (cases e)
  from Cons.prems(1) obtain acc where a: "add_dex_positions e (ps, by_dex, obs) = Inr acc"
    and r: "rfold add_dex_positions entries acc = Inr (ps', by_dex', obs')" by auto
  from a obtain all qs t where "acc = (all, by_dex @ [(dex, qs)], obs @ [(dex, t)])"
    by (auto simp: add_dex_positions_def e)
  with r have "rfold add_dex_positions entries (all, by_dex @ [(dex, qs)], obs @ [(dex, t)]) = Inr (ps', by_dex', obs')" by simp
  from Cons.IH [OF this] Cons.prems(2) show ?case by (simp add: e)
qed simp

lemma check_dex_frame_times:
  "rfold (check_dex_frame m obs) by_dex () = Inr u \<Longrightarrow>
   \<forall>dex \<in> set (map fst by_dex). dget (ma_dex_observed m) dex 0 \<le> dget obs dex 0"
proof (induction by_dex)
  case (Cons e by_dex)
  then show ?case by (cases e) (auto simp: check_dex_frame_def Let_def split: if_splits)
qed simp

lemma apply_positions_time:
  assumes "apply_positions message received st = Inr (u, st')"
  shows "dget (ma_dex_observed (account_state st r)) dex 0 \<le> dget (ma_dex_observed (account_state st' r)) dex 0"
proof -
  from assms obtain account role data snapshot positions by_dex obs m3 where
    p: "parse_all_dexs_message message account received = Inr snapshot"
    and f: "rfold add_dex_positions (sorted_states (us_states snapshot)) ([], [], []) = Inr (positions, by_dex, obs)"
    and c: "rfold (check_dex_frame (account_state st role) obs) by_dex () = Inr ()"
    and st': "st' = set_account role m3 st"
    and m3: "ma_dex_observed m3 = foldl (\<lambda>d (k, v). AList.update k v d) (ma_dex_observed (account_state st role)) obs"
    by (auto simp: apply_positions_def Let_def)
  have k: "map fst by_dex = map fst obs" "map fst obs = map fst (sorted_states (us_states snapshot))"
    using add_dex_positions_times [OF f] by auto
  have "distinct (map fst (us_states snapshot))" using parse_all_dexs_message_ok [OF p] by simp
  then have d: "distinct (map fst obs)"
    unfolding k sorted_states_def by (simp add: distinct_map)
  show ?thesis
  proof (cases "r = role")
    case True
    have "dget (ma_dex_observed (account_state st role)) dex 0 \<le> v" if "map_of obs dex = Some v" for v
    proof -
      have "dex \<in> set (map fst by_dex)" unfolding k(1) using that by (force dest: map_of_SomeD)
      then have "dget (ma_dex_observed (account_state st role)) dex 0 \<le> dget obs dex 0"
        by (rule bspec [OF check_dex_frame_times [OF c]])
      with that show ?thesis by (simp add: dget_def)
    qed
    with True show ?thesis by (simp add: st' m3 dget_update_all [OF d] split: option.split)
  qed (simp add: st')
qed

lemma advance_dex_time_mono:
  assumes "rfold advance_dex_time fs d = Inr d'"
  shows "dget d dex 0 \<le> dget d' dex 0"
  using assms
proof (rule rfold_invariant [where P = "\<lambda>x. dget d dex 0 \<le> dget x dex 0"])
  fix f :: FillRecord and a b
  assume "dget d dex 0 \<le> dget a dex 0" "advance_dex_time f a = Inr b"
  then show "dget d dex 0 \<le> dget b dex 0" by (auto simp: advance_dex_time_def)
qed simp

definition times_kept :: "AccountStream \<Rightarrow> AccountStream \<Rightarrow> bool" where
  "times_kept st st' \<longleftrightarrow> (\<forall>r dex. dget (ma_dex_observed (account_state st r)) dex 0 \<le> dget (ma_dex_observed (account_state st' r)) dex 0)"

text \<open>An accepted fill frame.\<close>

lemma apply_fills_Inr:
  assumes "apply_fills message received part channel st = Inr (u, st')"
  obtains account role data is_snapshot rows records unique new dups where
    "role_for_data (jget message ''data'') st = Inr (account, role, data)"
    "fill_is_snapshot data (map_of (ma_received (account_state st role)) part \<noteq> None) = Inr is_snapshot"
    "rfold (add_fill_row st account role received is_snapshot) rows [] = Inr records"
    "rfold add_unique_fill records [] = Inr unique"
    "rfold (add_new_fill (as_fingerprints st)) unique ([], length records - length unique) = Inr (new, dups)"
    "as_fingerprints st' = remember_fills (as_capacity st) new (map fst unique) (as_fingerprints st)"
    "au_new_fills u = (if is_snapshot then [] else new)" "au_initial_snapshot u = is_snapshot" "au_role u = role"
    "if is_snapshot then ma_positions (account_state st' role) = ma_positions (account_state st role)
     else validated_fill_positions (ma_positions (account_state st role)) new = Inr (ma_positions (account_state st' role))"
    "if is_snapshot then ma_dex_observed (account_state st' role) = ma_dex_observed (account_state st role)
     else rfold advance_dex_time new (ma_dex_observed (account_state st role)) = Inr (ma_dex_observed (account_state st' role))"
    "\<forall>r. r \<noteq> role \<longrightarrow> account_state st' r = account_state st r"
    "as_capacity st' = as_capacity st" "as_epoch st' = as_epoch st"
proof -
  from assms obtain account role data is_snapshot where r: "role_for_data (jget message ''data'') st = Inr (account, role, data)"
    and s: "fill_is_snapshot data (map_of (ma_received (account_state st role)) part \<noteq> None) = Inr is_snapshot"
    and u: "(case jget data ''fills'' of
       JArr rows \<Rightarrow>
         rbind (rfold (add_fill_row st account role received is_snapshot) rows []) (\<lambda>records.
         rbind (rfold add_unique_fill records []) (\<lambda>unique.
         rbind (rfold (add_new_fill (as_fingerprints st)) unique ([], length records - length unique)) (\<lambda>(new_records, duplicates).
         rbind (if is_snapshot then Inr (account_state st role)
                else rbind (validated_fill_positions (ma_positions (account_state st role)) new_records) (\<lambda>positions.
                     commit_positions received new_records positions (account_state st role))) (\<lambda>m1.
         let m2 = m1\<lparr>ma_fills := retained_fills (as_capacity st) is_snapshot (map snd unique) new_records m1,
                     ma_received := AList.update part received (ma_received m1),
                     ma_observed := AList.update part
                       (if records = [] then received else Max (set (map fr_time_ms records))) (ma_observed m1)\<rparr>;
             st' = set_account role m2
                     (st\<lparr>as_fingerprints := remember_fills (as_capacity st) new_records (map fst unique) (as_fingerprints st)\<rparr>)
         in Inr (base_update channel account role is_snapshot (if is_snapshot then [] else new_records) duplicates st', st')))))
     | _ \<Rightarrow> Inl (AccountStreamError ''userFills fills must be a list'')) = Inr (u, st')"
    by (auto simp: apply_fills_def Let_def)
  from u obtain rows where "jget data ''fills'' = JArr rows" by (cases "jget data ''fills''") auto
  with u obtain records unique new dups m1 where
    a: "rfold (add_fill_row st account role received is_snapshot) rows [] = Inr records"
       "rfold add_unique_fill records [] = Inr unique"
       "rfold (add_new_fill (as_fingerprints st)) unique ([], length records - length unique) = Inr (new, dups)"
    and m1: "(if is_snapshot then Inr (account_state st role)
                else rbind (validated_fill_positions (ma_positions (account_state st role)) new) (\<lambda>positions.
                     commit_positions received new positions (account_state st role))) = Inr m1"
    and st': "st' = set_account role (m1\<lparr>ma_fills := retained_fills (as_capacity st) is_snapshot (map snd unique) new m1,
                     ma_received := AList.update part received (ma_received m1),
                     ma_observed := AList.update part
                       (if records = [] then received else Max (set (map fr_time_ms records))) (ma_observed m1)\<rparr>)
                     (st\<lparr>as_fingerprints := remember_fills (as_capacity st) new (map fst unique) (as_fingerprints st)\<rparr>)"
    and u: "u = base_update channel account role is_snapshot (if is_snapshot then [] else new) dups st'"
    by (auto simp: Let_def)
  have "if is_snapshot then ma_positions m1 = ma_positions (account_state st role)
     else validated_fill_positions (ma_positions (account_state st role)) new = Inr (ma_positions m1)"
    using m1 by (auto simp: commit_positions_def Let_def split: if_splits)
  moreover have "if is_snapshot then ma_dex_observed m1 = ma_dex_observed (account_state st role)
     else rfold advance_dex_time new (ma_dex_observed (account_state st role)) = Inr (ma_dex_observed m1)"
    using m1 by (cases "new = []"; cases is_snapshot) (auto simp: commit_positions_def Let_def)
  ultimately show thesis
    using r s a by (intro that [OF r s a]) (simp_all add: st' u)
qed


lemma apply_twap_fills_Inr:
  assumes "apply_twap_fills message received st = Inr (u, st')"
  obtains message' u' where "apply_fills message' received ''twap_fills'' ''userTwapSliceFills'' st = Inr (u', st')"
    "au_new_fills u = au_new_fills u'" "au_initial_snapshot u = au_initial_snapshot u'" "au_role u = au_role u'"
proof -
  from assms obtain data where d: "jget message ''data'' = JObj data"
    by (cases "jget message ''data''") (auto simp: apply_twap_fills_def)
  from assms d obtain rows where "jget data ''twapSliceFills'' = JArr rows"
    by (cases "jget data ''twapSliceFills''") (auto simp: apply_twap_fills_def)
  with assms d show thesis by (auto simp: apply_twap_fills_def Let_def intro: that)
qed

text \<open>Frames of the other channels deliver nothing and leave the dedupe table alone.\<close>

definition no_fills :: "AccountStream \<Rightarrow> AccountStreamUpdate \<Rightarrow> AccountStream \<Rightarrow> bool" where
  "no_fills st u st' \<longleftrightarrow> au_new_fills u = [] \<and> as_fingerprints st' = as_fingerprints st \<and>
     as_capacity st' = as_capacity st \<and> as_epoch st' = as_epoch st \<and> times_kept st st'"

lemma apply_positions_no_fills: "apply_positions message received st = Inr (u, st') \<Longrightarrow> no_fills st u st'"
  using apply_positions_time [of message received st u st']
  by (auto simp: apply_positions_def no_fills_def times_kept_def Let_def)

lemma apply_spot_no_fills: "apply_spot message received st = Inr (u, st') \<Longrightarrow> no_fills st u st'"
  by (auto simp: apply_spot_def no_fills_def times_kept_def Let_def)

lemma apply_open_orders_no_fills:
  assumes "apply_open_orders message received st = Inr (u, st')"
  shows "no_fills st u st'"
proof -
  from assms obtain account role data where r: "role_for_data (jget message ''data'') st = Inr (account, role, data)"
    by (auto simp: apply_open_orders_def)
  from assms r show ?thesis
    by (cases "jget data ''orders''") (auto simp: apply_open_orders_def no_fills_def times_kept_def Let_def split: if_splits)
qed

lemma apply_order_updates_no_fills:
  assumes "apply_order_updates message received st = Inr (u, st')"
  shows "no_fills st u st'"
proof -
  from assms obtain raw where raw: "(case raw of
       JArr updates \<Rightarrow>
         let m = as_follower st in
         rbind (rfold (apply_order_update st) updates (ma_open_orders m, received)) (\<lambda>(orders, latest).
         let m1 = m\<lparr>ma_open_orders := orders\<rparr>;
             m2 = (if map_of (ma_received m) ''open_orders'' \<noteq> None
                   then m1\<lparr>ma_received := AList.update ''open_orders'' received (ma_received m),
                           ma_observed := AList.update ''open_orders'' latest (ma_observed m)\<rparr>
                   else m1);
             st' = st\<lparr>as_follower := m2\<rparr>
         in Inr (base_update ''orderUpdates'' (as_follower_address st) FollowerRole False [] 0 st', st'))
     | _ \<Rightarrow> Inl (AccountStreamError ''orderUpdates data must be a list'')) = Inr (u, st')"
    unfolding apply_order_updates_def rbind_Inr_iff by (elim exE conjE)
  then show ?thesis
    by (cases raw) (auto simp: no_fills_def times_kept_def account_state_def Let_def split: stream_role.split)
qed

text \<open>An accepted frame is either one of those, or a fill frame.\<close>

lemma apply_frame_cases:
  assumes "apply_frame message epoch received st = Inr (u, st')"
  obtains (other) st1 where "no_fills st u st1" "st' = note_activity received st1"
  | (fills) m part channel u1 st1 where "apply_fills m received part channel st = Inr (u1, st1)"
      "st' = note_activity received st1" "au_new_fills u = au_new_fills u1"
      "au_initial_snapshot u = au_initial_snapshot u1" "au_role u = au_role u1" "part \<in> {''fills'', ''twap_fills''}"
proof -
  from assms obtain m where m: "message = JObj m" by (cases message) (auto simp: apply_frame_def)
  with assms obtain st1 where a: "apply_channel m received st = Inr (u, st1)" and st': "st' = note_activity received st1"
    by (auto simp: apply_frame_def as_stream_error_def split: sum.splits error.splits)
  consider "apply_positions m received st = Inr (u, st1)" | "apply_spot m received st = Inr (u, st1)"
    | "apply_open_orders m received st = Inr (u, st1)" | "apply_order_updates m received st = Inr (u, st1)"
    | "apply_fills m received ''fills'' ''userFills'' st = Inr (u, st1)" | "apply_twap_fills m received st = Inr (u, st1)"
    using a by (auto simp: apply_channel_def Let_def split: if_splits)
  then show thesis
  proof cases
    case 6
    then show thesis by (rule apply_twap_fills_Inr) (rule fills, (assumption | simp add: st')+)
  qed (use st' in \<open>auto intro: other fills dest: apply_positions_no_fills apply_spot_no_fills
    apply_open_orders_no_fills apply_order_updates_no_fills\<close>)
qed

lemma note_activity_simps [simp]:
  "as_fingerprints (note_activity t st) = as_fingerprints st" "as_capacity (note_activity t st) = as_capacity st"
  "as_epoch (note_activity t st) = as_epoch st" "account_state (note_activity t st) role = account_state st role"
  by (simp_all add: note_activity_def)


section \<open>Runs\<close>

datatype stream_event =
    BeginConnection int
  | NoteActivity int int
  | SetMarketScope "string list option" "string list option"
  | Frame json int int

text \<open>The stream after an event, and the fills it delivers; an exception leaves the stream as it is.\<close>

fun stream_step :: "stream_event \<Rightarrow> AccountStream \<Rightarrow> AccountStream \<times> FillRecord list" where
  "stream_step (BeginConnection received) st =
     (case begin_connection received st of Inl _ \<Rightarrow> (st, []) | Inr (_, st') \<Rightarrow> (st', []))"
| "stream_step (NoteActivity epoch received) st =
     (case note_connection_activity epoch received st of Inl _ \<Rightarrow> (st, []) | Inr st' \<Rightarrow> (st', []))"
| "stream_step (SetMarketScope sm fm) st =
     (case set_market_scope sm fm st of Inl _ \<Rightarrow> (st, []) | Inr st' \<Rightarrow> (st', []))"
| "stream_step (Frame message epoch received) st =
     (case apply_frame message epoch received st of Inl _ \<Rightarrow> (st, []) | Inr (u, st') \<Rightarrow> (st', au_new_fills u))"

fun stream_run :: "stream_event list \<Rightarrow> AccountStream \<Rightarrow> AccountStream \<times> FillRecord list" where
  "stream_run [] st = (st, [])"
| "stream_run (e # es) st =
     (let (st1, fs) = stream_step e st; (st2, gs) = stream_run es st1 in (st2, fs @ gs))"

text \<open>The identities in the dedupe table.\<close>

definition seen_fills :: "AccountStream \<Rightarrow> fill_identity list" where
  "seen_fills st = map fst (as_fingerprints st)"

definition keeps_seen :: "AccountStream \<Rightarrow> AccountStream \<Rightarrow> FillRecord list \<Rightarrow> bool" where
  "keeps_seen st st' fs \<longleftrightarrow> seen_fills st' = seen_fills st \<and> fs = [] \<and> as_capacity st' = as_capacity st"

lemma begin_keeps_seen: "stream_step (BeginConnection received) st = (st', fs) \<Longrightarrow> keeps_seen st st' fs"
  by (auto simp: begin_connection_def keeps_seen_def seen_fills_def split: if_splits)

lemma note_keeps_seen: "stream_step (NoteActivity epoch received) st = (st', fs) \<Longrightarrow> keeps_seen st st' fs"
  by (cases "validate_frame epoch received st") (auto simp: note_connection_activity_def keeps_seen_def seen_fills_def)

lemma set_market_scope_Inr:
  "set_market_scope sm fm st = Inr st' \<Longrightarrow> as_fingerprints st' = as_fingerprints st \<and> as_capacity st' = as_capacity st"
  unfolding set_market_scope_def Let_def rbind_Inr_iff by (elim exE conjE) auto

lemma scope_keeps_seen: "stream_step (SetMarketScope sm fm) st = (st', fs) \<Longrightarrow> keeps_seen st st' fs"
  using set_market_scope_Inr [of sm fm st]
  by (cases "set_market_scope sm fm st") (auto simp: keeps_seen_def seen_fills_def)

text \<open>What one event does to the table: nothing, or the frame's identities move to the end and the oldest go.\<close>

lemma stream_step_seen:
  assumes "stream_step e st = (st', fs)"
  obtains ids where "distinct ids" "seen_fills st' = last_n (nat (as_capacity st)) (filter (\<lambda>k. k \<notin> set ids) (seen_fills st) @ ids)"
    "map fill_identity_of fs = filter (\<lambda>k. k \<notin> set (seen_fills st)) ids \<or> fs = []"
    "as_capacity st' = as_capacity st"
  | "seen_fills st' = seen_fills st" "fs = []" "as_capacity st' = as_capacity st"
proof (cases e)
  case (Frame message epoch received)
  show thesis
  proof (cases "apply_frame message epoch received st")
    case (Inl err)
    with assms Frame show thesis by (auto intro: that(2))
  next
    case (Inr r)
    then obtain u where a: "apply_frame message epoch received st = Inr (u, st')" and fs: "fs = au_new_fills u"
      using assms Frame by (cases r) auto
    from a show thesis
    proof (cases rule: apply_frame_cases)
      case (other st1)
      then show thesis by (intro that(2)) (auto simp: no_fills_def fs seen_fills_def)
    next
      case (fills m part channel u1 st1)
      from fills(1) obtain records unique new dups is_snapshot where r: "rfold add_unique_fill records [] = Inr unique"
        "rfold (add_new_fill (as_fingerprints st)) unique ([], length records - length unique) = Inr (new, dups)"
        and st1: "as_fingerprints st1 = remember_fills (as_capacity st) new (map fst unique) (as_fingerprints st)"
          "as_capacity st1 = as_capacity st"
        and u: "au_new_fills u1 = (if is_snapshot then [] else new)"
        by (rule apply_fills_Inr)
      note f = frame_identities [OF r]
      show thesis
      proof (rule that(1) [of "map fst unique"])
        show "seen_fills st' = last_n (nat (as_capacity st)) (filter (\<lambda>k. k \<notin> set (map fst unique)) (seen_fills st) @ map fst unique)"
          using frame_keys [OF r] by (simp add: seen_fills_def fills(2) st1)
        show "map fill_identity_of fs = filter (\<lambda>k. k \<notin> set (seen_fills st)) (map fst unique) \<or> fs = []"
          using f(2) by (simp add: fs fills(3) u seen_fills_def)
      qed (use f st1 in \<open>simp_all add: fills(2)\<close>)
    qed
  qed
next
  case (BeginConnection t)
  with assms have "keeps_seen st st' fs" by (auto intro: begin_keeps_seen)
  then show thesis by (intro that(2)) (simp_all add: keeps_seen_def)
next
  case (NoteActivity t t')
  with assms have "keeps_seen st st' fs" by (auto intro: note_keeps_seen)
  then show thesis by (intro that(2)) (simp_all add: keeps_seen_def)
next
  case (SetMarketScope sm fm)
  with assms have "keeps_seen st st' fs" by (auto intro: scope_keeps_seen)
  then show thesis by (intro that(2)) (simp_all add: keeps_seen_def)
qed


lemma window_length:
  assumes "distinct ks" and "distinct ids"
  shows "min n (length ks) \<le> length (last_n n (filter (\<lambda>k. k \<notin> set ids) ks @ ids))"
proof -
  have "length (filter (\<lambda>k. k \<in> set ids) ks) = card (set ks \<inter> set ids)"
    using assms(1) by (simp add: distinct_length_filter Int_commute)
  also have "\<dots> \<le> card (set ids)" by (simp add: card_mono)
  also have "\<dots> = length ids" using assms(2) by (simp add: distinct_card)
  finally have "length ks \<le> length (filter (\<lambda>k. k \<notin> set ids) ks) + length ids"
    using sum_length_filter_compl [of "\<lambda>k. k \<in> set ids" ks] by linarith
  then show ?thesis by (simp add: min_def)
qed

text \<open>One event keeps the table's identities distinct and never shrinks it below its capacity.\<close>

lemma stream_step_window:
  assumes "stream_step e st = (st', fs)" and "distinct (seen_fills st)" and "length (seen_fills st) \<le> nat (as_capacity st)"
  shows "distinct (seen_fills st') \<and> length (seen_fills st) \<le> length (seen_fills st') \<and>
    length (seen_fills st') \<le> nat (as_capacity st') \<and> as_capacity st' = as_capacity st"
  using assms(1)
proof (cases rule: stream_step_seen)
  case (1 ids)
  have "distinct (filter (\<lambda>k. k \<notin> set ids) (seen_fills st) @ ids)" using 1(1) assms(2) by auto
  moreover have "length (seen_fills st) \<le> length (seen_fills st')"
    using window_length [OF assms(2) 1(1), of "nat (as_capacity st)"] assms(3) by (simp add: 1(2))
  ultimately show ?thesis by (simp add: 1(2,4) distinct_last_n)
qed (use assms in simp)

lemma stream_run_window:
  assumes "stream_run es st = (st', fs)" and "distinct (seen_fills st)" and "length (seen_fills st) \<le> nat (as_capacity st)"
  shows "distinct (seen_fills st') \<and> length (seen_fills st) \<le> length (seen_fills st') \<and>
    length (seen_fills st') \<le> nat (as_capacity st') \<and> as_capacity st' = as_capacity st"
  using assms
proof (induction es arbitrary: st fs)
  case (Cons e es)
  obtain st1 gs hs where s: "stream_step e st = (st1, gs)" and r: "stream_run es st1 = (st', hs)"
    using Cons.prems(1) by (auto simp: Let_def split: prod.splits)
  note w = stream_step_window [OF s Cons.prems(2,3)]
  with Cons.IH [OF r] show ?case by auto
qed simp

lemma stream_run_once:
  assumes "stream_run es st = (st', fs)" and "distinct (seen_fills st)" and "length (seen_fills st') < nat (as_capacity st)"
    and "length (seen_fills st) \<le> nat (as_capacity st)"
  shows "distinct (map fill_identity_of fs) \<and> set (seen_fills st) \<inter> fill_identity_of ` set fs = {}"
  using assms
proof (induction es arbitrary: st fs)
  case (Cons e es)
  obtain st1 gs hs where s: "stream_step e st = (st1, gs)" and r: "stream_run es st1 = (st', hs)" and fs: "fs = gs @ hs"
    using Cons.prems(1) by (auto simp: Let_def split: prod.splits)
  have w: "distinct (seen_fills st1)" "length (seen_fills st1) \<le> nat (as_capacity st1)" "as_capacity st1 = as_capacity st"
    using stream_step_window [OF s Cons.prems(2,4)] by auto
  have l: "length (seen_fills st1) < nat (as_capacity st)"
    using stream_run_window [OF r w(1,2)] Cons.prems(3) by simp
  have hs: "distinct (map fill_identity_of hs)" "set (seen_fills st1) \<inter> fill_identity_of ` set hs = {}"
    using Cons.IH [OF r w(1)] Cons.prems(3) w(2,3) by auto
  from s show ?case
  proof (cases rule: stream_step_seen)
    case (1 ids)
    then have seen: "seen_fills st1 = filter (\<lambda>k. k \<notin> set ids) (seen_fills st) @ ids" using l by (metis last_n_all)
    then have sub: "set (seen_fills st) \<union> set ids \<subseteq> set (seen_fills st1)" by auto
    have gs: "distinct (map fill_identity_of gs) \<and> set (map fill_identity_of gs) \<subseteq> set ids - set (seen_fills st)"
    proof (cases "gs = []")
      case False
      with 1(3) have "map fill_identity_of gs = filter (\<lambda>k. k \<notin> set (seen_fills st)) ids" by simp
      then show ?thesis using 1(1) by (simp only: distinct_filter set_filter) auto
    qed simp
    then have "set (map fill_identity_of gs) \<inter> set (map fill_identity_of hs) = {}"
      using sub hs(2) by (auto simp only: set_map)
    with gs hs sub show ?thesis unfolding fs map_append distinct_append set_append image_Un set_map by blast
  next
    case 2
    with hs show ?thesis by (simp add: fs)
  qed
qed simp


section \<open>Delivered fills\<close>














lemma apply_frame_times_kept:
  assumes "apply_frame message epoch received st = Inr (u, st')"
  shows "times_kept st st'"
  using assms
proof (cases rule: apply_frame_cases)
  case (other st1)
  then show ?thesis by (simp add: no_fills_def times_kept_def)
next
  case (fills m part channel u1 st1)
  from fills(1) show ?thesis
  proof (rule apply_fills_Inr)
    fix account role is_snapshot new
    assume d: "if is_snapshot then ma_dex_observed (account_state st1 role) = ma_dex_observed (account_state st role)
     else rfold advance_dex_time new (ma_dex_observed (account_state st role)) = Inr (ma_dex_observed (account_state st1 role))"
      and o: "\<forall>r. r \<noteq> role \<longrightarrow> account_state st1 r = account_state st r"
    have "dget (ma_dex_observed (account_state st r)) dex 0 \<le> dget (ma_dex_observed (account_state st1 r)) dex 0" for r dex
      using d o advance_dex_time_mono by (cases "r = role") (auto split: if_splits)
    then show ?thesis by (simp add: times_kept_def fills(2))
  qed
qed


section \<open>Which exceptions a frame raises\<close>

text \<open>The exceptions \<open>apply\<close> lets through or converts.\<close>

fun caught :: "error \<Rightarrow> bool" where
  "caught (AccountStreamError _) = True"
| "caught (ArithmeticError _) = True"
| "caught (TypeError _) = True"
| "caught (UnifiedAccountStateError _) = True"
| "caught (ValueError _) = True"
| "caught (MarketIdentityError _) = True"
| "caught _ = False"


lemma caught_parse_number [raises_rules]: "raises caught (parse_number v)"
  unfolding parse_number_def by (intro raises_rules) simp_all

lemma caught_optional_number [raises_rules]: "raises caught (optional_number v)"
  unfolding optional_number_def by (intro raises_rules)

lemma caught_market_text [raises_rules]: "raises caught (market_text v)"
  unfolding market_text_def by (intro raises_rules) simp_all

lemma caught_validate_component [raises_rules]: "raises caught (validate_component v name)"
  unfolding validate_component_def by (intro raises_rules) simp_all

lemma caught_make_identity [raises_rules]: "raises caught (make_identity a d)"
  unfolding make_identity_def by (intro raises_rules) simp_all

lemma caught_parse_market [raises_rules]: "raises caught (parse_market v)"
  unfolding parse_market_def Let_def by (intro raises_rules) simp_all

lemma caught_markets [raises_rules]:
  "raises caught (canonical_market_symbol v)" "raises caught (market_dex v)" "raises caught (qualify_market_symbol d v)"
  unfolding canonical_market_symbol_def canonical_market_def market_dex_def qualify_market_symbol_def Let_def
  by (intro raises_rules; simp)+

lemma caught_validate_cloid [raises_rules]: "raises caught (validate_cloid v)"
  unfolding validate_cloid_def Let_def by (intro raises_rules; simp)

lemma caught_positions [raises_rules]:
  "raises caught (parse_position_leverage v)" "raises caught (parse_position_row seen dex t v)"
  "raises caught (parse_clearinghouse_positions p t dex)"
proof -
  show l [raises_rules]: "raises caught (parse_position_leverage v)" for v
    unfolding parse_position_leverage_def Let_def by (intro raises_rules; simp)
  show r [raises_rules]: "raises caught (parse_position_row seen dex t v)" for seen dex t v
    unfolding parse_position_row_def by (intro raises_rules; simp)
  show "raises caught (parse_clearinghouse_positions p t dex)"
    unfolding parse_clearinghouse_positions_def add_position_row_def by (intro raises_rules; simp)
qed

lemma caught_orders [raises_rules]:
  "raises caught (order_side m)" "raises caught (order_oid v)" "raises caught (order_cloid v)" "raises caught (order_size_field m)"
  unfolding order_side_def side_signal_def order_oid_def order_cloid_def order_size_field_def
  by (intro raises_rules; simp)+

lemma caught_parse_open_orders [raises_rules]: "raises caught (parse_open_orders p t dex)"
  unfolding parse_open_orders_def parse_open_order_def by (intro raises_rules; simp)

lemma caught_parse_all_dexs_message [raises_rules]: "raises caught (parse_all_dexs_message p a t)"
  unfolding parse_all_dexs_message_def Let_def clearinghouse_states_def state_entries_def add_dex_state_def dex_observed_def
  by (intro raises_rules; simp)


lemma caught_validators [raises_rules]:
  "raises caught (stream_account v)" "raises caught (frame_int w)" "raises caught (order_identity m)"
  "raises caught (identity_available os c)"
  unfolding stream_account_def frame_int_def order_identity_def identity_available_def Let_def
  by (intro raises_rules; simp)+

text \<open>One parsed row is one order, so taking the first never fails.\<close>

lemma parse_open_orders_one:
  assumes "parse_open_orders (JArr [r]) t dex = Inr os"
  shows "os \<noteq> []"
proof -
  from assms have o: "parse_open_order t dex r [] = Inr os" by (auto simp: parse_open_orders_def)
  then obtain order where r: "r = JObj order" by (cases r) (auto simp: parse_open_order_def)
  with o obtain raw where c: "jget order ''coin'' = JStr raw" by (cases "jget order ''coin''") (auto simp: parse_open_order_def)
  note u = o [unfolded parse_open_order_def r json.case c]
  then have "py_strip raw \<noteq> []" by (auto split: if_splits)
  note u [unfolded if_not_P [OF this] rbind_Inr_iff require_Inr]
  then show ?thesis by (elim exE conjE, cases "dget order ''reduceOnly'' (JBool False)") auto
qed

lemma caught_parse_order_row [raises_rules]: "raises caught (parse_order_row outer t raw)"
  unfolding parse_order_row_def
  by (intro raises_rules; simp add: parse_open_orders_one) (drule parse_open_orders_one, simp)

lemma caught_order_rows [raises_rules]:
  "raises caught (parse_order_rows rows outer t)" "raises caught (check_follower_user m st)"
  unfolding parse_order_rows_def add_order_row_def check_follower_user_def Let_def
  by (intro raises_rules; simp)+

lemma caught_fills [raises_rules]:
  "raises caught (fill_side v)" "raises caught (parse_fill raw a t e b)" "raises caught (add_fill_row st a r t b raw fs)"
  "raises caught (fill_is_snapshot m c)" "raises caught (add_unique_fill f us)" "raises caught (add_new_fill fps x acc)"
  "raises caught (add_fill_position f ps)" "raises caught (advance_dex_time f d)" "raises caught (twap_fill w)"
proof -
  show s [raises_rules]: "raises caught (fill_side v)" for v
    unfolding fill_side_def Let_def by (intro raises_rules; simp)
  show p [raises_rules]: "raises caught (parse_fill raw a t e b)" for raw a t e b
    unfolding parse_fill_def Let_def by (intro raises_rules; simp)
  show "raises caught (add_fill_row st a r t b raw fs)"
    unfolding add_fill_row_def by (intro raises_rules; simp)
  show "raises caught (fill_is_snapshot m c)" "raises caught (add_unique_fill f us)" "raises caught (add_new_fill fps x acc)"
    "raises caught (add_fill_position f ps)" "raises caught (advance_dex_time f d)" "raises caught (twap_fill w)"
    unfolding fill_is_snapshot_def add_unique_fill_def add_new_fill_def add_fill_position_def advance_dex_time_def
      twap_fill_def Let_def
    by (intro raises_rules; simp)+
qed

lemma caught_role [raises_rules]: "raises caught (role_for_data d st)"
  unfolding role_for_data_def by (intro raises_rules; simp)

lemma caught_sizes_in_dex [raises_rules]: "raises caught (sizes_in_dex dex ps)"
  unfolding sizes_in_dex_def by (intro raises_rules; simp)

lemma caught_dex_frames [raises_rules]:
  "raises caught (add_dex_positions entry acc)" "raises caught (check_dex_frame m obs x u)"
  "raises caught (standard_equity dexes states ps)"
  unfolding add_dex_positions_def add_unique_position_def check_dex_frame_def standard_equity_def add_dex_equity_def Let_def
  by (intro raises_rules; simp)+

lemma caught_spot [raises_rules]:
  "raises caught (add_token_zero raw acc)" "raises caught (usdc_amounts m)" "raises caught (spot_balances m)"
  unfolding add_token_zero_def usdc_amounts_def spot_balances_def Let_def by (intro raises_rules; simp)+

lemma caught_apply_positions [raises_rules]: "raises caught (apply_positions m t st)"
  unfolding apply_positions_def Let_def by (intro raises_rules; simp)

lemma caught_apply_spot [raises_rules]: "raises caught (apply_spot m t st)"
  unfolding apply_spot_def Let_def by (intro raises_rules; simp)

lemma caught_apply_open_orders [raises_rules]: "raises caught (apply_open_orders m t st)"
  unfolding apply_open_orders_def Let_def by (intro raises_rules; simp)

lemma caught_apply_order_updates [raises_rules]: "raises caught (apply_order_updates m t st)"
  unfolding apply_order_updates_def apply_order_update_def Let_def by (intro raises_rules; simp)

lemma caught_apply_fills [raises_rules]:
  assumes "part \<in> {''fills'', ''twap_fills''}"
  shows "raises caught (apply_fills m t part channel st)"
proof -
  have "require (part \<in> {''fills'', ''twap_fills''}) e = Inr ()" for e using assms by (simp add: require_def)
  then show ?thesis
    unfolding apply_fills_def Let_def validated_fill_positions_def commit_positions_def
    by (simp only: rbind.simps) (intro raises_rules; simp)
qed

lemma caught_apply_twap_fills [raises_rules]: "raises caught (apply_twap_fills m t st)"
  unfolding apply_twap_fills_def Let_def by (intro raises_rules; simp)

lemma caught_apply_channel: "raises caught (apply_channel m t st)"
  unfolding apply_channel_def Let_def by (intro raises_rules; simp)

lemma apply_frame_Inl:
  assumes "apply_frame message epoch received st = Inl e"
  shows "\<exists>why. e = AccountStreamError why"
proof (cases "validate_frame epoch received st")
  case (Inl e')
  with assms show ?thesis by (auto simp: apply_frame_def validate_frame_def split: if_splits)
next
  case (Inr u)
  show ?thesis
  proof (cases message)
    case (JObj m)
    have "as_stream_error (apply_channel m received st) = Inl e"
      using assms Inr JObj by (auto simp: apply_frame_def rbind_Inl_iff)
    then show ?thesis using caught_apply_channel [of m received st]
      by (auto simp: as_stream_error_def raises_def split: sum.splits error.splits)
  qed (use assms Inr in \<open>auto simp: apply_frame_def\<close>)
qed



section \<open>A concrete run\<close>

definition ex_stream :: AccountStream where
  "ex_stream = \<lparr>as_source_address = ex_source, as_follower_address = ex_follower, as_capacity = 2, as_mode = ''unified'',
     as_source_markets = None, as_follower_markets = None, as_accept_outside = False, as_source_dexes = [],
     as_epoch = 0, as_activity_ms = 0, as_source = empty_account, as_follower = empty_account, as_fingerprints = []\<rparr>"

definition ex_fill_row :: json where
  "ex_fill_row = JObj [(''coin'', JStr ''BTC''), (''hash'', JStr ''0xab''), (''tid'', JInt 7), (''side'', JStr ''B''),
     (''sz'', JStr ''2''), (''px'', JStr ''10''), (''startPosition'', JStr ''0''), (''time'', JInt 5)]"

definition ex_fill_frame :: "bool \<Rightarrow> json list \<Rightarrow> json" where
  "ex_fill_frame snap rows = JObj [(''channel'', JStr ''userFills''),
     (''data'', JObj [(''user'', JStr ex_source), (''isSnapshot'', JBool snap), (''fills'', JArr rows)])]"

definition ex_events :: "stream_event list" where
  "ex_events = [BeginConnection 1, Frame (ex_fill_frame True []) 1 2, Frame (ex_fill_frame False [ex_fill_row]) 1 3,
     Frame (ex_fill_frame False [ex_fill_row]) 1 4, BeginConnection 5, Frame (ex_fill_frame True [ex_fill_row]) 2 6,
     Frame (ex_fill_frame False [ex_fill_row]) 1 7]"

lemma ex_stream_made: "make_account_stream ex_source ex_follower ''unified'' None None False 2 = Inr ex_stream"
  by code_simp

lemma ex_run_fills: "map fr_tid (snd (stream_run ex_events ex_stream)) = [''7'']"
  by code_simp

lemma ex_run_seen: "length (seen_fills (fst (stream_run ex_events ex_stream))) = 1"
  by code_simp


lemma make_account_stream_Inr:
  "make_account_stream source follower mode sm fm accept_outside capacity = Inr st \<Longrightarrow>
   as_fingerprints st = [] \<and> as_capacity st = capacity"
  by (auto simp: make_account_stream_def Let_def)

lemma ex_live_frame:
  "(case apply_frame (ex_fill_frame False [ex_fill_row]) 1 3
       (fst (stream_run [BeginConnection 1, Frame (ex_fill_frame True []) 1 2] ex_stream)) of
      Inl _ \<Rightarrow> False
    | Inr (u, _) \<Rightarrow> map fr_tid (au_new_fills u) = [''7''] \<and> au_role u = SourceRole)"
  by code_simp


text \<open>A connection on which no positions frame ever arrives.\<close>

definition ex_user_frame :: "string \<Rightarrow> string \<Rightarrow> (string \<times> json) list \<Rightarrow> json" where
  "ex_user_frame channel user rest =
     JObj [(''channel'', JStr channel), (''data'', JObj ((''user'', JStr user) # rest))]"

definition ex_balances :: "(string \<times> json) list" where
  "ex_balances = [(''balances'', JArr [JObj [(''token'', JInt 0), (''coin'', JStr ''USDC''), (''total'', JStr ''9'')]])]"

definition ex_no_positions :: "stream_event list" where
  "ex_no_positions = [BeginConnection 1,
     Frame (ex_user_frame ''spotState'' ex_source ex_balances) 1 2,
     Frame (ex_user_frame ''spotState'' ex_follower ex_balances) 1 3,
     Frame (ex_user_frame ''openOrders'' ex_follower [(''orders'', JArr [])]) 1 4,
     Frame (ex_user_frame ''userFills'' ex_source [(''isSnapshot'', JBool True), (''fills'', JArr [])]) 1 5,
     Frame (ex_user_frame ''userTwapSliceFills'' ex_source [(''isSnapshot'', JBool True), (''twapSliceFills'', JArr [])]) 1 6,
     Frame (ex_user_frame ''userFills'' ex_follower [(''isSnapshot'', JBool True), (''fills'', JArr [])]) 1 7,
     Frame (ex_user_frame ''userFills'' ex_source [(''fills'', JArr [ex_fill_row])]) 1 8,
     Frame (ex_user_frame ''userFills'' ex_follower [(''fills'', JArr [ex_fill_row])]) 1 9]"

definition is_positions_event :: "stream_event \<Rightarrow> bool" where
  "is_positions_event e =
     (case e of Frame (JObj m) _ _ \<Rightarrow> jget m ''channel'' = JStr ''allDexsClearinghouseState'' | _ \<Rightarrow> False)"


section \<open>Properties\<close>

text \<open>
  C3: Across any sequence of connections, frames (accepted or rejected), pongs and scope changes of a
  stream, no fill identity is delivered twice, as long as the dedupe table has not filled up to its
  capacity.
\<close>

theorem fill_delivered_once:
  assumes "make_account_stream source follower mode sm fm accept_outside capacity = Inr st"
    and "stream_run es st = (st', fs)" and "int (length (seen_fills st')) < capacity"
  shows "distinct (map fill_identity_of fs)"
  using stream_run_once [OF assms(2)] make_account_stream_Inr [OF assms(1)] assms(3)
  by (simp add: seen_fills_def)

theorem fill_delivered_once_witness:
  "distinct (map fill_identity_of (snd (stream_run ex_events ex_stream))) \<and> length (snd (stream_run ex_events ex_stream)) = 1"
proof -
  have "length (snd (stream_run ex_events ex_stream)) = 1"
    using arg_cong [OF ex_run_fills, of length] by simp
  moreover have "distinct (map fill_identity_of (snd (stream_run ex_events ex_stream)))"
    by (rule fill_delivered_once [OF ex_stream_made, of ex_events "fst (stream_run ex_events ex_stream)"])
      (simp_all add: ex_run_seen)
  ultimately show ?thesis by blast
qed




text \<open>
  C22: Within a connection the exchange time recorded for any DEX of either account never moves
  backwards, whatever frame is accepted.
\<close>

theorem dex_time_never_backwards:
  assumes "apply_frame message epoch received st = Inr (u, st')"
  shows "dget (ma_dex_observed (account_state st role)) dex 0 \<le> dget (ma_dex_observed (account_state st' role)) dex 0"
  using apply_frame_times_kept [OF assms] by (simp add: times_kept_def)

theorem dex_time_never_backwards_witness:
  "\<exists>u st'. apply_frame (ex_fill_frame False [ex_fill_row]) 1 3
       (fst (stream_run [BeginConnection 1, Frame (ex_fill_frame True []) 1 2] ex_stream)) = Inr (u, st') \<and>
     0 \<le> dget (ma_dex_observed (account_state st' SourceRole)) [] 0"
proof -
  let ?st = "fst (stream_run [BeginConnection 1, Frame (ex_fill_frame True []) 1 2] ex_stream)"
  have "dget (ma_dex_observed (account_state ?st SourceRole)) [] 0 = 0" by code_simp
  moreover obtain u st' where a: "apply_frame (ex_fill_frame False [ex_fill_row]) 1 3 ?st = Inr (u, st')"
    using ex_live_frame by (auto split: sum.splits prod.splits)
  ultimately show ?thesis using dex_time_never_backwards [OF a, of SourceRole "[]"] by auto
qed

text \<open>
  Whatever is wrong with a frame, the reducer raises \<open>AccountStreamError\<close> and no other exception:
  no key, index or assertion error of its own escapes, and every parser error is converted.
\<close>

theorem bad_frame_raises_stream_error:
  assumes "apply_frame message epoch received st = Inl e"
  shows "\<exists>why. e = AccountStreamError why"
  using assms by (rule apply_frame_Inl)

theorem bad_frame_raises_stream_error_witness:
  "\<exists>e why. apply_frame (JObj []) 1 3 (fst (stream_run [BeginConnection 1] ex_stream)) = Inl e \<and> e = AccountStreamError why"
proof -
  have a: "apply_frame (JObj []) 1 3 (fst (stream_run [BeginConnection 1] ex_stream)) =
    Inl (AccountStreamError ''unsupported account stream channel'')" by code_simp
  with bad_frame_raises_stream_error [OF a] show ?thesis by blast
qed

text \<open>
  The baseline of a connection can be reported ready although no positions snapshot has arrived
  on it: one live fill of each account, starting at position zero, marks the positions component as
  received, so markets the accounts already hold are missing from the position table.
\<close>

lemma baseline_ready_without_positions:
  "\<not> list_ex is_positions_event ex_no_positions \<and> baseline_ready (fst (stream_run ex_no_positions ex_stream)) \<and>
   make_account_stream ex_source ex_follower ''unified'' None None False 2 = Inr ex_stream"
  by code_simp

end
