(* ===== verification/Market_Stream.thy ===== *)
theory Market_Stream
  imports Account_Frames Precision Raises
begin

text \<open>
  \<^verbatim>\<open>market_stream.py\<close>: the reducer for context, order-book and best-quote frames of the active markets,
  and the planner of one immediate-or-cancel order against the visible book; with the catalog
  records of \<^verbatim>\<open>market_catalog.py\<close> it is pinned to.

  \<open>apply\<close> stores a checked frame before it assembles the market's snapshot, so its model returns the
  outcome and the next stream side by side.
\<close>

section \<open>Catalog\<close>

datatype MarketReadiness = READY | NO_CONTEXT | HALTED | DELISTED | UNTRUSTED

record CatalogMarket =
  cm_symbol :: string
  cm_dex :: string
  cm_asset_id :: int
  cm_dex_index :: int
  cm_universe_index :: int
  cm_sz_decimals :: int
  cm_max_leverage :: int
  cm_readiness :: MarketReadiness
  cm_margin_mode :: string
  cm_collateral_token :: int
  cm_margin_table_id :: "int option"
  cm_is_delisted :: bool
  cm_context_observed_ms :: int
  cm_oracle_px :: "dec option"
  cm_mark_px :: "dec option"
  cm_book_revision :: int
  cm_book_observed_ms :: int
  cm_tombstoned_from_revision :: string
  cm_removal_tombstone :: bool
  cm_pending_asset_id :: "int option"
  cm_pending_universe_index :: "int option"
  cm_pending_sz_decimals :: "int option"
  cm_pending_max_leverage :: "int option"
  cm_pending_margin_mode :: "string option"
  cm_pending_collateral_token :: "int option"
  cm_pending_margin_table_id :: "int option"
  cm_pending_identity_revision :: string

definition margin_modes :: "string list" where
  "margin_modes = [''cross'', ''noCross'', ''strictIsolated'']"

text \<open>The pending identity of a market: complete and valid when a revision announces it, absent otherwise.\<close>

definition check_pending :: "CatalogMarket \<Rightarrow> unit result" where
  "check_pending m =
     (let values = [cm_pending_asset_id m, cm_pending_universe_index m, cm_pending_sz_decimals m, cm_pending_max_leverage m]
      in if cm_pending_identity_revision m \<noteq> [] then
           rbind (require (None \<notin> set values) (MarketIdentityError ''pending catalog identity is incomplete'')) (\<lambda>_.
           rbind (require (list_all (\<lambda>v. 0 \<le> the v) values) (MarketIdentityError ''pending catalog identity is invalid'')) (\<lambda>_.
           rbind (require (0 \<le> the (cm_pending_sz_decimals m) \<and> the (cm_pending_sz_decimals m) \<le> 18)
                    (MarketIdentityError ''pending catalog precision is invalid'')) (\<lambda>_.
           rbind (require (1 \<le> the (cm_pending_max_leverage m))
                    (MarketIdentityError ''pending catalog leverage is invalid'')) (\<lambda>_.
           rbind (require (cm_pending_margin_mode m \<in> Some ` set margin_modes)
                    (MarketIdentityError ''pending catalog marginMode is unsupported'')) (\<lambda>_.
           rbind (require (case cm_pending_collateral_token m of None \<Rightarrow> False | Some t \<Rightarrow> 0 \<le> t)
                    (MarketIdentityError ''pending catalog collateralToken is invalid'')) (\<lambda>_.
           require (none_or (\<lambda>t. 0 \<le> t) (cm_pending_margin_table_id m))
                    (MarketIdentityError ''pending catalog marginTableId is invalid'')))))))
         else require (list_all (\<lambda>v. v = None) values \<and> cm_pending_margin_mode m = None \<and>
                       cm_pending_collateral_token m = None \<and> cm_pending_margin_table_id m = None)
                (MarketIdentityError ''pending catalog identity has no revision''))"

definition make_catalog_market :: "CatalogMarket \<Rightarrow> CatalogMarket result" where
  "make_catalog_market m =
     rbind (canonical_market (cm_symbol m)) (\<lambda>c.
     rbind (require (c = cm_symbol m) (MarketIdentityError ''catalog market identity is not canonical'')) (\<lambda>_.
     rbind (market_dex (cm_symbol m)) (\<lambda>d.
     rbind (require (d = cm_dex m) (MarketIdentityError ''catalog market identity is not canonical'')) (\<lambda>_.
     rbind (require (0 \<le> cm_asset_id m \<and> 0 \<le> cm_dex_index m \<and> 0 \<le> cm_universe_index m)
              (MarketIdentityError ''catalog market indices must be non-negative'')) (\<lambda>_.
     rbind (require (0 \<le> cm_sz_decimals m \<and> cm_sz_decimals m \<le> 18)
              (MarketIdentityError ''catalog szDecimals must be between 0 and 18'')) (\<lambda>_.
     rbind (require (1 \<le> cm_max_leverage m) (MarketIdentityError ''catalog maxLeverage must be positive'')) (\<lambda>_.
     rbind (require (cm_margin_mode m \<in> set margin_modes) (MarketIdentityError ''catalog marginMode is unsupported'')) (\<lambda>_.
     rbind (require (0 \<le> cm_collateral_token m)
              (MarketIdentityError ''catalog collateralToken must be non-negative'')) (\<lambda>_.
     rbind (require (none_or (\<lambda>t. 0 \<le> t) (cm_margin_table_id m))
              (MarketIdentityError ''catalog marginTableId must be non-negative'')) (\<lambda>_.
     rbind (check_pending m) (\<lambda>_.
     rbind (require (list_all (none_or (\<lambda>p. is_finite p \<and> 0 < dec_val p)) [cm_oracle_px m, cm_mark_px m])
              (MarketIdentityError ''catalog context price must be finite and positive'')) (\<lambda>_.
     Inr m))))))))))))"

record CatalogRevision =
  cr_sequence :: int
  cr_revision_id :: string
  cr_policy_version :: string
  cr_network :: string
  cr_observed_ms :: int
  cr_wire_dexes :: "string list"
  cr_markets :: "CatalogMarket list"
  cr_snapshot_sha256 :: string
  cr_dex_bracket_before_sha256 :: string
  cr_dex_bracket_after_sha256 :: string

definition make_catalog_revision :: "CatalogRevision \<Rightarrow> CatalogRevision result" where
  "make_catalog_revision r =
     rbind (require (1 \<le> cr_sequence r \<and> cr_revision_id r \<noteq> [] \<and> cr_policy_version r \<noteq> [])
              (MarketIdentityError ''catalog revision identity is invalid'')) (\<lambda>_.
     rbind (require (distinct (map cm_symbol (cr_markets r)))
              (MarketIdentityError ''catalog revision contains duplicate symbols'')) (\<lambda>_.
     rbind (require (distinct (map cm_asset_id
                       (filter (\<lambda>m. \<not> cm_is_delisted m \<and> cm_readiness m \<noteq> UNTRUSTED) (cr_markets r))))
              (MarketIdentityError ''catalog revision contains duplicate active asset IDs'')) (\<lambda>_.
     Inr r)))"

definition revision_market :: "CatalogRevision \<Rightarrow> string \<Rightarrow> CatalogMarket option result" where
  "revision_market r symbol =
     rbind (canonical_market symbol) (\<lambda>c. Inr (find (\<lambda>m. cm_symbol m = c) (cr_markets r)))"


section \<open>Records of the stream\<close>

record MarketSubscriptionChange =
  sc_added :: "string list"
  sc_removed :: "string list"

record DepthLevel =
  dl_price :: rat
  dl_size :: rat
  dl_order_count :: "int option"

record MarketSnapshot =
  sm_market :: string
  sm_catalog_revision :: string
  sm_asset_id :: int
  sm_sz_decimals :: int
  sm_max_leverage :: int
  sm_oracle_px :: rat
  sm_mark_px :: rat
  sm_bids :: "DepthLevel list"
  sm_asks :: "DepthLevel list"
  sm_book_time_ms :: int
  sm_context_received_ms :: int
  sm_book_received_ms :: int
  sm_bbo_time_ms :: int
  sm_bbo_received_ms :: int
  sm_connection_epoch :: int

definition market_subscription_specs :: "string list \<Rightarrow> json list" where
  "market_subscription_specs markets =
     concat (map (\<lambda>m. map (\<lambda>t. JObj [(''type'', JStr t), (''coin'', JStr m)]) [''activeAssetCtx'', ''l2Book'', ''bbo''])
       (sort markets))"

definition best_price :: "DepthLevel list \<Rightarrow> string \<Rightarrow> rat result" where
  "best_price levels why = (case levels of [] \<Rightarrow> Inl (MarketStreamError why) | l # _ \<Rightarrow> Inr (dl_price l))"

definition best_bid :: "MarketSnapshot \<Rightarrow> rat result" where
  "best_bid s = best_price (sm_bids s) ''no executable bid''"

definition best_ask :: "MarketSnapshot \<Rightarrow> rat result" where
  "best_ask s = best_price (sm_asks s) ''no executable ask''"

definition within_age :: "int \<Rightarrow> int \<Rightarrow> bool" where
  "within_age age max_age \<longleftrightarrow> 0 \<le> age \<and> age \<le> max_age"

definition market_is_fresh :: "MarketSnapshot \<Rightarrow> int \<Rightarrow> int \<Rightarrow> int \<Rightarrow> int option \<Rightarrow> bool result" where
  "market_is_fresh s now max_age epoch activity =
     (if max_age \<le> 0 then Inl (ValueError ''freshness max age must be positive'')
      else if epoch \<noteq> sm_connection_epoch s then Inr False
      else case activity of
        None \<Rightarrow>
          Inr (within_age (now - sm_context_received_ms s) max_age \<and> within_age (now - sm_book_received_ms s) max_age \<and>
               within_age (now - sm_bbo_received_ms s) max_age \<and> within_age (now - sm_book_time_ms s) max_age \<and>
               within_age (now - sm_bbo_time_ms s) max_age)
      | Some a \<Rightarrow>
          Inr (within_age (now - a) max_age \<and> within_age (now - sm_context_received_ms s) max_age \<and>
               within_age (now - sm_book_received_ms s) max_age \<and> within_age (now - sm_bbo_received_ms s) max_age \<and>
               sm_book_time_ms s \<le> now \<and> sm_bbo_time_ms s \<le> now \<and>
               \<bar>sm_book_received_ms s - sm_book_time_ms s\<bar> \<le> max_age \<and>
               \<bar>sm_bbo_received_ms s - sm_bbo_time_ms s\<bar> \<le> max_age))"


section \<open>Planning one order\<close>

record ExecutableIoc =
  ei_size :: rat
  ei_visible_size :: rat
  ei_limit_px :: rat
  ei_estimated_vwap :: rat
  ei_estimated_notional :: rat

text \<open>The hard limit price, or \<open>None\<close> when the side the order would take is empty.\<close>

definition ioc_limit ::
  "MarketSnapshot \<Rightarrow> bool \<Rightarrow> dec option \<Rightarrow> dec option \<Rightarrow> rat option result" where
  "ioc_limit s is_buy max_slippage_bps hard_limit =
     (case max_slippage_bps of
        None \<Rightarrow>
          (case hard_limit of
             None \<Rightarrow> Inl (ValueError ''IOC requires a BBO buffer or a hard economic limit'')
           | Some h \<Rightarrow> Inr (Some (dec_val h)))
      | Some bps \<Rightarrow>
          (case (if is_buy then sm_asks s else sm_bids s) of
             [] \<Rightarrow> Inr None
           | l # _ \<Rightarrow>
               rbind (aggressive_ioc_price (Fin (dl_price l)) is_buy bps (sm_sz_decimals s)) (\<lambda>p.
               Inr (Some (case hard_limit of
                            None \<Rightarrow> p
                          | Some h \<Rightarrow> if is_buy then min p (dec_val h) else max p (dec_val h))))))"

text \<open>The loop that consumes levels until nothing remains; the result is the remaining size and the notional.\<close>

fun consume_levels :: "DepthLevel list \<Rightarrow> rat \<Rightarrow> rat \<Rightarrow> rat \<times> rat" where
  "consume_levels [] remaining notional = (remaining, notional)"
| "consume_levels (l # ls) remaining notional =
     (let consumed = min remaining (dl_size l);
          notional' = dadd notional (dmul consumed (dl_price l));
          remaining' = dsub remaining consumed
      in if remaining' = 0 then (remaining', notional') else consume_levels ls remaining' notional')"

definition eligible_levels :: "MarketSnapshot \<Rightarrow> bool \<Rightarrow> rat \<Rightarrow> DepthLevel list" where
  "eligible_levels s is_buy limit =
     filter (\<lambda>l. if is_buy then dl_price l \<le> limit else limit \<le> dl_price l) (if is_buy then sm_asks s else sm_bids s)"

definition executable_ioc ::
  "MarketSnapshot \<Rightarrow> bool \<Rightarrow> dec \<Rightarrow> dec option \<Rightarrow> dec option \<Rightarrow> ExecutableIoc option result" where
  "executable_ioc s is_buy requested max_slippage_bps hard_limit =
     rbind (require (is_finite requested \<and> 0 < dec_val requested)
              (ValueError ''requested IOC size must be finite and positive'')) (\<lambda>_.
     rbind (require (none_or (\<lambda>b. is_finite b \<and> 0 \<le> dec_val b \<and> dec_val b < 10000) max_slippage_bps)
              (ValueError ''IOC slippage must be finite and between 0 and 10000 bps'')) (\<lambda>_.
     rbind (require (none_or (\<lambda>h. is_finite h \<and> 0 < dec_val h) hard_limit)
              (ValueError ''IOC hard limit must be finite and positive'')) (\<lambda>_.
     rbind (ioc_limit s is_buy max_slippage_bps hard_limit) (\<lambda>lim.
     case lim of
       None \<Rightarrow> Inr None
     | Some limit \<Rightarrow>
         let eligible = eligible_levels s is_buy limit;
             available = dsum (map dl_size eligible) in
         rbind (quantize_size requested (sm_sz_decimals s)) (\<lambda>submitted.
         rbind (quantize_size (Fin (min submitted available)) (sm_sz_decimals s)) (\<lambda>visible.
         if submitted \<le> 0 \<or> visible \<le> 0 then Inr None
         else let (remaining, notional) = consume_levels eligible visible 0
              in if remaining \<noteq> 0
                 then Inl (MarketStreamError ''eligible depth changed during pure IOC calculation'')
                 else Inr (Some \<lparr>ei_size = submitted, ei_visible_size = visible, ei_limit_px = limit,
                                ei_estimated_vwap = ddiv notional visible, ei_estimated_notional = notional\<rparr>)))))))"


section \<open>Frames\<close>

record market_context =
  mc_oracle_px :: rat
  mc_mark_px :: rat
  mc_received_ms :: int

record market_book =
  mb_bids :: "DepthLevel list"
  mb_asks :: "DepthLevel list"
  mb_exchange_time_ms :: int
  mb_received_ms :: int

record market_bbo =
  bb_bid :: "DepthLevel option"
  bb_ask :: "DepthLevel option"
  bb_exchange_time_ms :: int
  bb_received_ms :: int

record MarketStream =
  ms_catalog :: CatalogRevision
  ms_epoch :: int
  ms_activity_ms :: int
  ms_active :: "string list"
  ms_contexts :: "(string \<times> market_context) list"
  ms_books :: "(string \<times> market_book) list"
  ms_bbos :: "(string \<times> market_bbo) list"

definition market_int :: "json \<Rightarrow> int result" where
  "market_int v =
     (let bad = Inl (MarketStreamError ''must be a positive integer'')
      in if is_jbool v then bad
         else case int_text v of None \<Rightarrow> bad | Some n \<Rightarrow> if n \<le> 0 then bad else Inr n)"

definition parse_context :: "(string \<times> json) list \<Rightarrow> int \<Rightarrow> market_context result" where
  "parse_context data received =
     (case dget data ''ctx'' (JObj data) of
        JObj c \<Rightarrow>
          rbind (require (has_key c ''oraclePx'' \<and> has_key c ''markPx'')
                   (MarketStreamError ''activeAssetCtx is missing oraclePx or markPx'')) (\<lambda>_.
          rbind (parse_number (jget c ''oraclePx'')) (\<lambda>oracle.
          rbind (parse_number (jget c ''markPx'')) (\<lambda>mark.
          rbind (require (0 < oracle \<and> 0 < mark) (MarketStreamError ''context prices must be positive'')) (\<lambda>_.
          Inr \<lparr>mc_oracle_px = oracle, mc_mark_px = mark, mc_received_ms = received\<rparr>))))
      | _ \<Rightarrow> Inl (MarketStreamError ''activeAssetCtx ctx must be an object''))"

definition parse_level :: "json \<Rightarrow> DepthLevel result" where
  "parse_level raw =
     (case raw of
        JObj row \<Rightarrow>
          rbind (require (has_key row ''px'' \<and> has_key row ''sz'') (MarketStreamError ''level is missing px or sz'')) (\<lambda>_.
          rbind (parse_number (jget row ''px'')) (\<lambda>price.
          rbind (parse_number (jget row ''sz'')) (\<lambda>size.
          rbind (require (0 < price \<and> 0 < size) (MarketStreamError ''level must be finite and positive'')) (\<lambda>_.
          rbind (if jget row ''n'' = JNull then Inr None else rbind (market_int (jget row ''n'')) (\<lambda>n. Inr (Some n))) (\<lambda>n.
          Inr \<lparr>dl_price = price, dl_size = size, dl_order_count = n\<rparr>)))))
      | _ \<Rightarrow> Inl (MarketStreamError ''level must be an object''))"

definition parse_levels :: "json \<Rightarrow> bool \<Rightarrow> DepthLevel list result" where
  "parse_levels v is_bid =
     (case v of
        JArr rows \<Rightarrow>
          rbind (rmap parse_level rows) (\<lambda>levels.
          let prices = map dl_price levels in
          rbind (require (if is_bid then successively (\<lambda>l r. l > r) prices else successively (\<lambda>l r. l < r) prices)
                   (MarketStreamError ''l2Book levels are not strictly sorted'')) (\<lambda>_.
          Inr levels))
      | _ \<Rightarrow> Inl (MarketStreamError ''l2Book levels must be a list''))"

definition crossed :: "DepthLevel list \<Rightarrow> DepthLevel list \<Rightarrow> bool" where
  "crossed bids asks \<longleftrightarrow> bids \<noteq> [] \<and> asks \<noteq> [] \<and> dl_price (hd bids) \<ge> dl_price (hd asks)"

definition pair_of :: "json \<Rightarrow> string \<Rightarrow> (json \<times> json) result" where
  "pair_of v why = (case v of JArr [a, b] \<Rightarrow> Inr (a, b) | _ \<Rightarrow> Inl (MarketStreamError why))"

definition parse_book :: "(string \<times> json) list \<Rightarrow> int \<Rightarrow> market_book result" where
  "parse_book data received =
     rbind (pair_of (jget data ''levels'') ''l2Book levels must contain exactly bid and ask arrays'') (\<lambda>(b, a).
     rbind (parse_levels b True) (\<lambda>bids.
     rbind (parse_levels a False) (\<lambda>asks.
     rbind (require (\<not> crossed bids asks) (MarketStreamError ''l2Book is locked or crossed'')) (\<lambda>_.
     rbind (market_int (jget data ''time'')) (\<lambda>time.
     Inr \<lparr>mb_bids = bids, mb_asks = asks, mb_exchange_time_ms = time, mb_received_ms = received\<rparr>)))))"

definition parse_bbo_level :: "json \<Rightarrow> bool \<Rightarrow> DepthLevel option result" where
  "parse_bbo_level v is_bid =
     (if v = JNull then Inr None else rbind (parse_levels (JArr [v]) is_bid) (\<lambda>ls. Inr (Some (hd ls))))"

definition parse_bbo :: "(string \<times> json) list \<Rightarrow> int \<Rightarrow> market_bbo result" where
  "parse_bbo data received =
     rbind (pair_of (jget data ''bbo'') ''bbo must contain exactly bid and ask levels'') (\<lambda>(b, a).
     rbind (parse_bbo_level b True) (\<lambda>bid.
     rbind (parse_bbo_level a False) (\<lambda>ask.
     rbind (require (case (bid, ask) of (Some x, Some y) \<Rightarrow> dl_price x < dl_price y | _ \<Rightarrow> True)
              (MarketStreamError ''BBO is locked or crossed'')) (\<lambda>_.
     rbind (market_int (jget data ''time'')) (\<lambda>time.
     Inr \<lparr>bb_bid = bid, bb_ask = ask, bb_exchange_time_ms = time, bb_received_ms = received\<rparr>)))))"

definition merge_bbo :: "DepthLevel list \<Rightarrow> DepthLevel option \<Rightarrow> bool \<Rightarrow> DepthLevel list" where
  "merge_bbo levels bbo is_bid =
     (case bbo of
        None \<Rightarrow> []
      | Some b \<Rightarrow> b # filter (\<lambda>l. if is_bid then dl_price l < dl_price b else dl_price l > dl_price b) levels)"


section \<open>The stream's operations\<close>

text \<open>Whether the catalog lets a market be used.\<close>

definition executable_spec :: "CatalogMarket \<Rightarrow> bool" where
  "executable_spec c \<longleftrightarrow> \<not> cm_is_delisted c \<and> cm_readiness c \<notin> {DELISTED, UNTRUSTED}"

definition catalog_market :: "MarketStream \<Rightarrow> string \<Rightarrow> CatalogMarket result" where
  "catalog_market st market =
     rbind (canonical_market_symbol market) (\<lambda>c.
     rbind (revision_market (ms_catalog st) c) (\<lambda>spec.
     case spec of
       None \<Rightarrow> Inl (MarketStreamError ''market is absent from the pinned catalog'')
     | Some x \<Rightarrow>
         if cm_is_delisted x \<or> cm_readiness x = DELISTED then Inl (MarketStreamError ''market is delisted'')
         else if cm_readiness x = UNTRUSTED then Inl (MarketStreamError ''market has untrusted catalog identity'')
         else Inr x))"

text \<open>Dropping the feeds of removed markets.\<close>

definition drop_feeds :: "string list \<Rightarrow> MarketStream \<Rightarrow> MarketStream" where
  "drop_feeds removed st =
     st\<lparr>ms_contexts := fold AList.delete removed (ms_contexts st), ms_books := fold AList.delete removed (ms_books st),
        ms_bbos := fold AList.delete removed (ms_bbos st)\<rparr>"

definition replace_catalog :: "CatalogRevision \<Rightarrow> MarketStream \<Rightarrow> (MarketSubscriptionChange \<times> MarketStream) result" where
  "replace_catalog catalog st =
     rbind (rmap (\<lambda>m. rbind (revision_market catalog m) (\<lambda>spec.
              Inr (m, case spec of None \<Rightarrow> False | Some c \<Rightarrow> executable_spec c))) (ms_active st)) (\<lambda>rows.
     let kept = map fst (filter snd rows);
         removed = sort (map fst (filter (\<lambda>r. \<not> snd r) rows))
     in Inr (\<lparr>sc_added = [], sc_removed = removed\<rparr>,
             drop_feeds removed (st\<lparr>ms_catalog := catalog, ms_active := kept\<rparr>)))"

definition add_requested :: "MarketStream \<Rightarrow> string \<Rightarrow> string list \<Rightarrow> string list result" where
  "add_requested st market acc =
     rbind (canonical_market_symbol market) (\<lambda>c.
     rbind (catalog_market st c) (\<lambda>_. Inr (if c \<in> set acc then acc else acc @ [c])))"

definition set_active_markets :: "string list \<Rightarrow> MarketStream \<Rightarrow> (MarketSubscriptionChange \<times> MarketStream) result" where
  "set_active_markets markets st =
     rbind (rfold (add_requested st) markets []) (\<lambda>requested.
     let added = sort (filter (\<lambda>m. m \<notin> set (ms_active st)) requested);
         removed = sort (filter (\<lambda>m. m \<notin> set requested) (ms_active st))
     in Inr (\<lparr>sc_added = added, sc_removed = removed\<rparr>, drop_feeds removed (st\<lparr>ms_active := requested\<rparr>)))"

definition make_market_stream :: "CatalogRevision \<Rightarrow> string list \<Rightarrow> MarketStream result" where
  "make_market_stream catalog markets =
     rbind (set_active_markets markets
              \<lparr>ms_catalog = catalog, ms_epoch = 0, ms_activity_ms = 0, ms_active = [],
               ms_contexts = [], ms_books = [], ms_bbos = []\<rparr>) (\<lambda>(_, st). Inr st)"

definition market_begin_connection :: "int \<Rightarrow> MarketStream \<Rightarrow> (int \<times> MarketStream) result" where
  "market_begin_connection received st =
     (if received < 0 then Inl (MarketStreamError ''connection timestamp cannot be negative'')
      else Inr (ms_epoch st + 1,
                st\<lparr>ms_epoch := ms_epoch st + 1, ms_activity_ms := received, ms_contexts := [], ms_books := [], ms_bbos := []\<rparr>))"

definition market_validate_frame :: "int \<Rightarrow> int \<Rightarrow> MarketStream \<Rightarrow> unit result" where
  "market_validate_frame epoch received st =
     (if ms_epoch st = 0 then Inl (MarketStreamError ''begin_connection must be called before applying frames'')
      else if epoch \<noteq> ms_epoch st then Inl (MarketStreamError ''stale connection epoch'')
      else if received \<le> 0 then Inl (MarketStreamError ''frame receive timestamp must be positive'')
      else if received < ms_activity_ms st then Inl (MarketStreamError ''frame receive timestamp moved backwards'')
      else Inr ())"

definition market_note_activity :: "int \<Rightarrow> int \<Rightarrow> MarketStream \<Rightarrow> MarketStream result" where
  "market_note_activity epoch received st =
     rbind (market_validate_frame epoch received st) (\<lambda>_. Inr (st\<lparr>ms_activity_ms := received\<rparr>))"

definition market_snapshot :: "MarketStream \<Rightarrow> string \<Rightarrow> MarketSnapshot option result" where
  "market_snapshot st market =
     rbind (canonical_market_symbol market) (\<lambda>c.
     rbind (require (c \<in> set (ms_active st)) (MarketStreamError ''market is not active'')) (\<lambda>_.
     rbind (catalog_market st c) (\<lambda>spec.
     case (map_of (ms_contexts st) c, map_of (ms_books st) c, map_of (ms_bbos st) c) of
       (Some c0, Some book, Some bbo) \<Rightarrow>
         let bids = merge_bbo (mb_bids book) (bb_bid bbo) True;
             asks = merge_bbo (mb_asks book) (bb_ask bbo) False
         in if crossed bids asks then Inl (MarketStreamError ''latest BBO is locked or crossed'')
            else Inr (Some \<lparr>sm_market = c, sm_catalog_revision = cr_revision_id (ms_catalog st),
                   sm_asset_id = cm_asset_id spec, sm_sz_decimals = cm_sz_decimals spec,
                   sm_max_leverage = cm_max_leverage spec, sm_oracle_px = mc_oracle_px c0, sm_mark_px = mc_mark_px c0,
                   sm_bids = bids, sm_asks = asks, sm_book_time_ms = mb_exchange_time_ms book,
                   sm_context_received_ms = mc_received_ms c0, sm_book_received_ms = mb_received_ms book,
                   sm_bbo_time_ms = bb_exchange_time_ms bbo, sm_bbo_received_ms = bb_received_ms bbo,
                   sm_connection_epoch = ms_epoch st\<rparr>)
     | _ \<Rightarrow> Inr None)))"

definition fresh_snapshot :: "MarketStream \<Rightarrow> string \<Rightarrow> int \<Rightarrow> int \<Rightarrow> MarketSnapshot option result" where
  "fresh_snapshot st market now max_age =
     rbind (market_snapshot st market) (\<lambda>snap.
     case snap of
       None \<Rightarrow> Inr None
     | Some s \<Rightarrow>
         rbind (market_is_fresh s now max_age (ms_epoch st) (Some (ms_activity_ms st))) (\<lambda>ok.
         Inr (if ok then Some s else None)))"

text \<open>The quote of a book, stored unless a later best quote is known.\<close>

definition bbo_of_book :: "market_book \<Rightarrow> int \<Rightarrow> market_bbo" where
  "bbo_of_book book received =
     \<lparr>bb_bid = (case mb_bids book of [] \<Rightarrow> None | l # _ \<Rightarrow> Some l),
      bb_ask = (case mb_asks book of [] \<Rightarrow> None | l # _ \<Rightarrow> Some l),
      bb_exchange_time_ms = mb_exchange_time_ms book, bb_received_ms = received\<rparr>"

definition store_market_frame ::
  "string \<Rightarrow> string \<Rightarrow> (string \<times> json) list \<Rightarrow> int \<Rightarrow> MarketStream \<Rightarrow> MarketStream result" where
  "store_market_frame channel market data received st =
     (if channel = ''activeAssetCtx'' then
        rbind (parse_context data received) (\<lambda>c0.
        Inr (st\<lparr>ms_contexts := AList.update market c0 (ms_contexts st)\<rparr>))
      else if channel = ''l2Book'' then
        rbind (parse_book data received) (\<lambda>book.
        rbind (require (none_or (\<lambda>prior. mb_exchange_time_ms prior \<le> mb_exchange_time_ms book) (map_of (ms_books st) market))
                 (MarketStreamError ''L2 book moved backwards in exchange time'')) (\<lambda>_.
        let st1 = st\<lparr>ms_books := AList.update market book (ms_books st)\<rparr>
        in Inr (if none_or (\<lambda>prior. bb_exchange_time_ms prior \<le> mb_exchange_time_ms book) (map_of (ms_bbos st) market)
                then st1\<lparr>ms_bbos := AList.update market (bbo_of_book book received) (ms_bbos st)\<rparr>
                else st1)))
      else if channel = ''bbo'' then
        rbind (parse_bbo data received) (\<lambda>bbo.
        rbind (require (none_or (\<lambda>prior. bb_exchange_time_ms prior \<le> bb_exchange_time_ms bbo) (map_of (ms_bbos st) market))
                 (MarketStreamError ''BBO moved backwards in exchange time'')) (\<lambda>_.
        Inr (st\<lparr>ms_bbos := AList.update market bbo (ms_bbos st)\<rparr>)))
      else Inl (MarketStreamError ''unsupported market stream channel''))"

text \<open>The \<open>except\<close> clauses around the two parts of \<open>apply\<close>; a \<open>MarketIdentityError\<close> is a \<open>ValueError\<close>.\<close>

definition as_market_error :: "'a result \<Rightarrow> 'a result" where
  "as_market_error r =
     (case r of
        Inr x \<Rightarrow> Inr x
      | Inl e \<Rightarrow>
          (case e of
             ArithmeticError _ \<Rightarrow> Inl (MarketStreamError ''invalid market frame'')
           | TypeError _ \<Rightarrow> Inl (MarketStreamError ''invalid market frame'')
           | ValueError _ \<Rightarrow> Inl (MarketStreamError ''invalid market frame'')
           | MarketIdentityError _ \<Rightarrow> Inl (MarketStreamError ''invalid market frame'')
           | _ \<Rightarrow> Inl e))"

definition market_frame_data :: "json \<Rightarrow> MarketStream \<Rightarrow> (string \<times> string \<times> (string \<times> json) list) result" where
  "market_frame_data message st =
     (case message of
        JObj m \<Rightarrow>
          (case jget m ''data'' of
             JObj data \<Rightarrow>
               rbind (as_market_error (rbind (market_text (jget data ''coin'')) canonical_market_symbol)) (\<lambda>market.
               rbind (require (market \<in> set (ms_active st)) (MarketStreamError ''received frame for inactive market'')) (\<lambda>_.
               rbind (catalog_market st market) (\<lambda>_.
               Inr (str_or_empty (jget m ''channel''), market, data))))
           | _ \<Rightarrow> Inl (MarketStreamError ''market stream data must be an object''))
      | _ \<Rightarrow> Inl (MarketStreamError ''market stream message must be an object''))"

definition market_apply :: "json \<Rightarrow> int \<Rightarrow> int \<Rightarrow> MarketStream \<Rightarrow> MarketSnapshot option result \<times> MarketStream" where
  "market_apply message epoch received st =
     (case rbind (market_validate_frame epoch received st) (\<lambda>_.
           rbind (market_frame_data message st) (\<lambda>(channel, market, data).
           rbind (as_market_error (store_market_frame channel market data received st)) (\<lambda>st1.
           Inr (market, st1\<lparr>ms_activity_ms := received\<rparr>)))) of
        Inl e \<Rightarrow> (Inl e, st)
      | Inr (market, st') \<Rightarrow> (market_snapshot st' market, st'))"

end
