(* ===== verification/Market_Safety.thy ===== *)
theory Market_Safety
  imports Market_Stream Continuous_Config
begin

text \<open>
  What the market stream guarantees: the stored books and quotes are sorted, positive and uncrossed,
  so a snapshot can always be assembled; a rejected frame leaves the stream as it was; and a planned
  order stays within the requested size, the visible depth and every price limit.
\<close>

section \<open>Books and quotes\<close>

definition level_ok :: "DepthLevel \<Rightarrow> bool" where
  "level_ok l \<longleftrightarrow> 0 < dl_price l \<and> 0 < dl_size l"

definition side_ok :: "bool \<Rightarrow> DepthLevel list \<Rightarrow> bool" where
  "side_ok is_bid ls \<longleftrightarrow> list_all level_ok ls \<and>
     sorted_wrt (if is_bid then (\<lambda>a b. dl_price a > dl_price b) else (\<lambda>a b. dl_price a < dl_price b)) ls"

definition book_ok :: "market_book \<Rightarrow> bool" where
  "book_ok b \<longleftrightarrow> side_ok True (mb_bids b) \<and> side_ok False (mb_asks b) \<and> \<not> crossed (mb_bids b) (mb_asks b)"

definition bbo_ok :: "market_bbo \<Rightarrow> bool" where
  "bbo_ok b \<longleftrightarrow> none_or level_ok (bb_bid b) \<and> none_or level_ok (bb_ask b) \<and>
     (case (bb_bid b, bb_ask b) of (Some x, Some y) \<Rightarrow> dl_price x < dl_price y | _ \<Rightarrow> True)"

definition context_ok :: "market_context \<Rightarrow> bool" where
  "context_ok c \<longleftrightarrow> 0 < mc_oracle_px c \<and> 0 < mc_mark_px c"

definition market_stream_ok :: "MarketStream \<Rightarrow> bool" where
  "market_stream_ok st \<longleftrightarrow> list_all is_canonical_market (ms_active st) \<and>
     list_all book_ok (map snd (ms_books st)) \<and> list_all bbo_ok (map snd (ms_bbos st)) \<and>
     list_all context_ok (map snd (ms_contexts st))"

lemma parse_level_ok: "parse_level raw = Inr l \<Longrightarrow> level_ok l"
  by (cases raw) (auto simp: parse_level_def level_ok_def)

lemma parse_levels_ok:
  assumes "parse_levels v is_bid = Inr ls"
  shows "side_ok is_bid ls"
proof -
  from assms obtain rows where v: "v = JArr rows" by (cases v) (auto simp: parse_levels_def)
  with assms have r: "rmap parse_level rows = Inr ls"
    and s: "if is_bid then successively (\<lambda>l r. l > r) (map dl_price ls) else successively (\<lambda>l r. l < r) (map dl_price ls)"
    by (auto simp: parse_levels_def Let_def)
  from r have "list_all level_ok ls"
    unfolding rmap_Inr_iff by (induction rule: list_all2_induct) (auto intro: parse_level_ok)
  moreover have "sorted_wrt (if is_bid then (\<lambda>a b. dl_price a > dl_price b) else (\<lambda>a b. dl_price a < dl_price b)) ls"
    using s by (cases is_bid)
      (simp_all add: successively_conv_sorted_wrt sorted_wrt_map transp_on_def)
  ultimately show ?thesis by (simp add: side_ok_def)
qed

lemma parse_book_ok: "parse_book data received = Inr b \<Longrightarrow> book_ok b"
  by (auto simp: parse_book_def book_ok_def dest: parse_levels_ok split: prod.splits)

lemma parse_bbo_level_ok: "parse_bbo_level v is_bid = Inr b \<Longrightarrow> none_or level_ok b"
proof -
  assume b: "parse_bbo_level v is_bid = Inr b"
  show ?thesis
  proof (cases "v = JNull")
    case False
    with b obtain ls where ls: "parse_levels (JArr [v]) is_bid = Inr ls" "b = Some (hd ls)"
      by (auto simp: parse_bbo_level_def)
    then have "ls \<noteq> []" by (auto simp: parse_levels_def Let_def)
    moreover have "list_all level_ok ls" using parse_levels_ok [OF ls(1)] by (simp add: side_ok_def)
    ultimately show ?thesis by (cases ls) (simp_all add: ls(2) none_or_def)
  qed (use b in \<open>simp add: parse_bbo_level_def none_or_def\<close>)
qed

lemma parse_bbo_ok:
  assumes "parse_bbo data received = Inr b"
  shows "bbo_ok b"
proof -
  from assms obtain x y bid ask where l: "parse_bbo_level x True = Inr bid" "parse_bbo_level y False = Inr ask"
    and o: "case (bid, ask) of (Some x, Some y) \<Rightarrow> dl_price x < dl_price y | _ \<Rightarrow> True"
    and b: "bb_bid b = bid" "bb_ask b = ask"
    unfolding parse_bbo_def rbind_Inr_iff require_Inr by (elim exE conjE) (auto simp: rbind_Inr_iff)
  from l o show ?thesis by (simp add: bbo_ok_def b parse_bbo_level_ok)
qed

lemma parse_context_ok: "parse_context data received = Inr c \<Longrightarrow> context_ok c"
  by (cases "dget data ''ctx'' (JObj data)") (auto simp: parse_context_def context_ok_def)

lemma bbo_of_book_ok: "book_ok b \<Longrightarrow> bbo_ok (bbo_of_book b received)"
  by (cases "mb_bids b"; cases "mb_asks b") (auto simp: book_ok_def side_ok_def bbo_ok_def bbo_of_book_def none_or_def crossed_def)

lemma merge_bbo_ok:
  assumes "side_ok is_bid ls" and "none_or level_ok b"
  shows "side_ok is_bid (merge_bbo ls b is_bid)"
  using assms
  by (cases b) (auto simp: side_ok_def merge_bbo_def none_or_def list_all_iff sorted_wrt_filter split: if_splits)

lemma merge_bbo_uncrossed: "bbo_ok b \<Longrightarrow> \<not> crossed (merge_bbo bs (bb_bid b) True) (merge_bbo as (bb_ask b) False)"
  by (cases "bb_bid b"; cases "bb_ask b") (auto simp: bbo_ok_def crossed_def merge_bbo_def)

lemma list_all_update: "list_all P (map snd d) \<Longrightarrow> P v \<Longrightarrow> list_all P (map snd (AList.update k v d))"
  by (induction d) auto

lemma list_all_delete: "list_all P (map snd d) \<Longrightarrow> list_all P (map snd (fold AList.delete ks d))"
proof (induction ks arbitrary: d)
  case (Cons k ks)
  have "list_all P (map snd (AList.delete k d))" using Cons.prems by (auto simp: list_all_iff AList.delete_eq)
  then show ?case by (simp add: Cons.IH)
qed simp


section \<open>The invariant\<close>

lemma store_market_frame_ok:
  assumes "store_market_frame channel market data received st = Inr st'" and "market_stream_ok st"
  shows "market_stream_ok st' \<and> ms_active st' = ms_active st \<and> ms_catalog st' = ms_catalog st"
  using assms
  by (auto simp: store_market_frame_def market_stream_ok_def Let_def
      intro!: list_all_update bbo_of_book_ok dest: parse_context_ok parse_book_ok parse_bbo_ok split: if_splits)

lemma as_market_error_Inr [simp]: "as_market_error r = Inr x \<longleftrightarrow> r = Inr x"
  by (cases r) (auto simp: as_market_error_def split: error.splits)

lemma market_frame_data_Inr:
  assumes "market_frame_data message st = Inr (channel, market, data)"
  shows "market \<in> set (ms_active st) \<and> (\<exists>spec. catalog_market st market = Inr spec)"
proof -
  from assms obtain m where m: "message = JObj m" by (cases message) (auto simp: market_frame_data_def)
  from assms m obtain d where "jget m ''data'' = JObj d" by (cases "jget m ''data''") (auto simp: market_frame_data_def)
  with assms m show ?thesis by (auto simp: market_frame_data_def)
qed

lemma canonical_symbol_id: "is_canonical_market m \<Longrightarrow> canonical_market_symbol m = Inr m"
  by (auto simp: is_canonical_market_def canonical_market_symbol_def split: sum.splits)

text \<open>A snapshot of an active, usable market can always be assembled.\<close>

lemma market_snapshot_total:
  assumes "market_stream_ok st" and "market \<in> set (ms_active st)" and "catalog_market st market = Inr spec"
  shows "\<exists>r. market_snapshot st market = Inr r"
proof -
  have c: "canonical_market_symbol market = Inr market"
    using assms(1,2) by (auto simp: market_stream_ok_def list_all_iff intro: canonical_symbol_id)
  have "bbo_ok b" if "map_of (ms_bbos st) market = Some b" for b
    using assms(1) that by (force simp: market_stream_ok_def list_all_iff dest: map_of_SomeD)
  then show ?thesis
    using assms(2,3) by (auto simp: market_snapshot_def c merge_bbo_uncrossed Let_def split: option.splits)
qed

lemma market_snapshot_ok:
  assumes "market_stream_ok st" and "market_snapshot st market = Inr (Some s)"
  shows "side_ok True (sm_bids s) \<and> side_ok False (sm_asks s) \<and> \<not> crossed (sm_bids s) (sm_asks s)" and "0 < sm_mark_px s"
proof -
  from assms(2) obtain c c0 book bbo where b: "map_of (ms_books st) c = Some book" "map_of (ms_bbos st) c = Some bbo"
      "map_of (ms_contexts st) c = Some c0"
    and s: "sm_bids s = merge_bbo (mb_bids book) (bb_bid bbo) True" "sm_asks s = merge_bbo (mb_asks book) (bb_ask bbo) False"
      "sm_mark_px s = mc_mark_px c0"
  proof -
    from assms(2) obtain c spec where u: "canonical_market_symbol market = Inr c" "c \<in> set (ms_active st)" "catalog_market st c = Inr spec"
      by (auto simp: market_snapshot_def)
    show thesis
      using assms(2) u that [of c]
      by (cases "map_of (ms_contexts st) c"; cases "map_of (ms_books st) c"; cases "map_of (ms_bbos st) c")
        (auto simp: market_snapshot_def Let_def split: if_splits)
  qed
  have "book_ok book" "bbo_ok bbo" and c0: "context_ok c0"
    using assms(1) b by (force simp: market_stream_ok_def list_all_iff dest: map_of_SomeD)+
  then show "side_ok True (sm_bids s) \<and> side_ok False (sm_asks s) \<and> \<not> crossed (sm_bids s) (sm_asks s)"
    unfolding s using merge_bbo_uncrossed [of bbo "mb_bids book" "mb_asks book"]
    by (auto simp: book_ok_def bbo_ok_def intro: merge_bbo_ok)
  show "0 < sm_mark_px s" using c0 by (simp add: s context_ok_def)
qed

lemma catalog_market_cong:
  "ms_catalog st' = ms_catalog st \<Longrightarrow> catalog_market st' m = catalog_market st m"
  by (simp add: catalog_market_def)

lemma market_apply_cases:
  assumes "market_apply message epoch received st = (r, st')" and "market_stream_ok st"
  shows "market_stream_ok st' \<and> (\<forall>e. r = Inl e \<longrightarrow> st' = st)"
proof (cases "rbind (market_validate_frame epoch received st) (\<lambda>_.
           rbind (market_frame_data message st) (\<lambda>(channel, market, data).
           rbind (as_market_error (store_market_frame channel market data received st)) (\<lambda>st1.
           Inr (market, st1\<lparr>ms_activity_ms := received\<rparr>))))")
  case (Inl e)
  with assms show ?thesis by (auto simp: market_apply_def)
next
  case (Inr p)
  then obtain channel market data st1 where d: "market_frame_data message st = Inr (channel, market, data)"
    and s: "store_market_frame channel market data received st = Inr st1" and p: "p = (market, st1\<lparr>ms_activity_ms := received\<rparr>)"
    by auto
  have r: "r = market_snapshot st' market" "st' = st1\<lparr>ms_activity_ms := received\<rparr>"
    using assms(1) unfolding market_apply_def Inr p by auto
  note o = store_market_frame_ok [OF s assms(2)]
  then have ok: "market_stream_ok st'" by (auto simp: r(2) market_stream_ok_def)
  from market_frame_data_Inr [OF d] obtain spec where "market \<in> set (ms_active st)" "catalog_market st market = Inr spec" by blast
  with o have "market \<in> set (ms_active st')" "catalog_market st' market = Inr spec"
    by (simp_all add: r(2) catalog_market_def)
  with ok have "\<exists>x. r = Inr x" unfolding r(1) by (intro market_snapshot_total)
  with ok show ?thesis by auto
qed



section \<open>Runs\<close>

datatype market_event =
    MarketBegin int
  | MarketNote int int
  | MarketCatalog CatalogRevision
  | MarketActive "string list"
  | MarketFrame json int int

fun market_step_stream :: "market_event \<Rightarrow> MarketStream \<Rightarrow> MarketStream" where
  "market_step_stream (MarketBegin t) st = (case market_begin_connection t st of Inl _ \<Rightarrow> st | Inr (_, st') \<Rightarrow> st')"
| "market_step_stream (MarketNote epoch t) st = (case market_note_activity epoch t st of Inl _ \<Rightarrow> st | Inr st' \<Rightarrow> st')"
| "market_step_stream (MarketCatalog c) st = (case replace_catalog c st of Inl _ \<Rightarrow> st | Inr (_, st') \<Rightarrow> st')"
| "market_step_stream (MarketActive ms) st = (case set_active_markets ms st of Inl _ \<Rightarrow> st | Inr (_, st') \<Rightarrow> st')"
| "market_step_stream (MarketFrame message epoch t) st = snd (market_apply message epoch t st)"

lemma drop_feeds_ok: "market_stream_ok st \<Longrightarrow> market_stream_ok (drop_feeds removed st)"
  by (simp add: market_stream_ok_def drop_feeds_def list_all_delete)

lemma add_requested_ok:
  "rfold (add_requested st) ms acc = Inr acc' \<Longrightarrow> list_all is_canonical_market acc \<Longrightarrow> list_all is_canonical_market acc'"
  by (erule rfold_invariant) (auto simp: add_requested_def dest: canonical_symbol_canonical split: if_splits)

lemma set_active_markets_ok:
  assumes "set_active_markets ms st = Inr (change, st')"
    and "list_all book_ok (map snd (ms_books st))" and "list_all bbo_ok (map snd (ms_bbos st))"
    and "list_all context_ok (map snd (ms_contexts st))"
  shows "market_stream_ok st'"
proof -
  from assms(1) obtain requested removed where r: "rfold (add_requested st) ms [] = Inr requested"
    and st': "st' = drop_feeds removed (st\<lparr>ms_active := requested\<rparr>)"
    by (auto simp: set_active_markets_def Let_def)
  have "list_all is_canonical_market requested" using add_requested_ok [OF r] by simp
  with assms(2-4) show ?thesis unfolding st' by (intro drop_feeds_ok) (simp add: market_stream_ok_def)
qed

lemma replace_catalog_ok:
  assumes "replace_catalog c st = Inr (change, st')" and "market_stream_ok st"
  shows "market_stream_ok st'"
proof -
  from assms(1) obtain rows removed where r: "rmap (\<lambda>m. rbind (revision_market c m) (\<lambda>spec.
              Inr (m, case spec of None \<Rightarrow> False | Some c \<Rightarrow> executable_spec c))) (ms_active st) = Inr rows"
    and st': "st' = drop_feeds removed (st\<lparr>ms_catalog := c, ms_active := map fst (filter snd rows)\<rparr>)"
    by (auto simp: replace_catalog_def Let_def)
  from r have "map fst rows = ms_active st"
    unfolding rmap_Inr_iff by (induction rule: list_all2_induct) auto
  then have "set (map fst (filter snd rows)) \<subseteq> set (ms_active st)" by (metis filter_is_subset image_mono set_map)
  then have "list_all is_canonical_market (map fst (filter snd rows))"
    using assms(2) unfolding market_stream_ok_def list_all_iff by blast
  with assms(2) show ?thesis unfolding st' by (intro drop_feeds_ok) (simp add: market_stream_ok_def)
qed

lemma market_step_stream_ok: "market_stream_ok st \<Longrightarrow> market_stream_ok (market_step_stream e st)"
proof (cases e)
  case (MarketFrame message epoch t)
  assume "market_stream_ok st"
  then show ?thesis using market_apply_cases [of message epoch t st] MarketFrame
    by (cases "market_apply message epoch t st") auto
next
  case (MarketCatalog c)
  assume "market_stream_ok st"
  then show ?thesis using replace_catalog_ok [of c st] MarketCatalog by (auto split: sum.split)
next
  case (MarketActive ms)
  assume "market_stream_ok st"
  then show ?thesis using set_active_markets_ok [of ms st] MarketActive
    by (auto simp: market_stream_ok_def split: sum.split)
next
  case (MarketBegin t)
  assume "market_stream_ok st"
  then show ?thesis using MarketBegin by (auto simp: market_begin_connection_def market_stream_ok_def split: sum.split if_splits)
next
  case (MarketNote epoch t)
  assume "market_stream_ok st"
  then show ?thesis using MarketNote
    by (cases "market_validate_frame epoch t st") (auto simp: market_note_activity_def market_stream_ok_def)
qed

lemma market_run_ok: "market_stream_ok st \<Longrightarrow> market_stream_ok (fold market_step_stream es st)"
  by (induction es arbitrary: st) (auto intro: market_step_stream_ok)

lemma make_market_stream_ok: "make_market_stream catalog ms = Inr st \<Longrightarrow> market_stream_ok st"
  by (auto simp: make_market_stream_def intro: set_active_markets_ok)


section \<open>One order\<close>

lemma ioc_limit_Some:
  assumes "ioc_limit s is_buy slippage hard = Inr (Some limit)"
    and "none_or (\<lambda>h. is_finite h \<and> 0 < dec_val h) hard"
  shows "none_or (\<lambda>h. if is_buy then limit \<le> dec_val h else dec_val h \<le> limit) hard \<and>
    (\<forall>bps. slippage = Some bps \<longrightarrow> (\<exists>l ls y. (if is_buy then sm_asks s else sm_bids s) = l # ls \<and>
       aggressive_ioc_price (Fin (dl_price l)) is_buy bps (sm_sz_decimals s) = Inr y \<and>
       (if is_buy then limit \<le> y else y \<le> limit)))"
proof (cases slippage)
  case None
  with assms show ?thesis by (auto simp: ioc_limit_def none_or_def split: option.splits)
next
  case (Some bps)
  with assms(1) obtain l ls where l: "(if is_buy then sm_asks s else sm_bids s) = l # ls"
    by (cases "if is_buy then sm_asks s else sm_bids s") (auto simp: ioc_limit_def)
  with assms(1) Some obtain y where y: "aggressive_ioc_price (Fin (dl_price l)) is_buy bps (sm_sz_decimals s) = Inr y"
    and lim: "limit = (case hard of None \<Rightarrow> y | Some h \<Rightarrow> if is_buy then min y (dec_val h) else max y (dec_val h))"
    by (auto simp: ioc_limit_def)
  have "none_or (\<lambda>h. if is_buy then limit \<le> dec_val h else dec_val h \<le> limit) hard"
    by (cases hard) (auto simp: none_or_def lim)
  moreover have "if is_buy then limit \<le> y else y \<le> limit" by (cases hard) (auto simp: lim)
  ultimately show ?thesis using l y Some by auto
qed

lemma executable_ioc_Some:
  assumes "executable_ioc s is_buy (Fin requested) slippage hard = Inr (Some i)"
  shows "0 < ei_visible_size i \<and> ei_visible_size i \<le> ei_size i \<and> ei_size i \<le> requested \<and>
    requested < ei_size i + pow10 (- sm_sz_decimals s) \<and>
    ei_visible_size i \<le> dsum (map dl_size (eligible_levels s is_buy (ei_limit_px i))) \<and>
    ioc_limit s is_buy slippage hard = Inr (Some (ei_limit_px i)) \<and> none_or (\<lambda>h. is_finite h \<and> 0 < dec_val h) hard"
proof -
  from assms have pos: "0 < requested" and hard: "none_or (\<lambda>h. is_finite h \<and> 0 < dec_val h) hard"
    by (auto simp: executable_ioc_def)
  from assms obtain limit where lim: "ioc_limit s is_buy slippage hard = Inr (Some limit)"
    by (cases "ioc_limit s is_buy slippage hard") (auto simp: executable_ioc_def split: option.splits)
  from assms lim obtain submitted visible where
    q: "quantize_size (Fin requested) (sm_sz_decimals s) = Inr submitted"
      "quantize_size (Fin (min submitted (dsum (map dl_size (eligible_levels s is_buy limit))))) (sm_sz_decimals s) = Inr visible"
    and v: "0 < submitted" "0 < visible"
    and i: "ei_size i = submitted" "ei_visible_size i = visible" "ei_limit_px i = limit"
    by (auto simp: executable_ioc_def Let_def split: if_splits prod.splits)
  have "0 < min submitted (dsum (map dl_size (eligible_levels s is_buy limit)))"
    using quantize_size_sign(1) [OF q(2)] v(2) by simp
  then have "visible \<le> min submitted (dsum (map dl_size (eligible_levels s is_buy limit)))"
    using quantize_size_nonneg(2) [OF q(2)] by simp
  with quantize_size_nonneg(2,3) [OF q(1)] pos v lim hard show ?thesis by (simp add: i)
qed



text \<open>On the venue's lot grid the sums are exact, so the visible size is always found on the eligible levels.\<close>

lemma ctx_on_grid:
  assumes "on_grid e x" and "\<bar>x\<bar> \<le> 10 ^ 28 * pow10 e"
  shows "ctx x = x"
proof -
  obtain n where n: "x / pow10 e = of_int n" using assms(1) by (auto simp: on_grid_def elim: Ints_cases)
  then have x: "x = of_int n * pow10 e" by (simp add: divide_eq_eq)
  from assms(2) have "\<bar>of_int n :: rat\<bar> \<le> 10 ^ 28" by (simp add: x abs_mult)
  then have "\<bar>n\<bar> \<le> 10 ^ 28" by (metis of_int_abs of_int_le_iff of_int_numeral of_int_power)
  from ctx_mantissa_rep [OF this, of e] show ?thesis by (simp add: ctx_rep_def x)
qed

lemma on_grid_add_diff: "on_grid e x \<Longrightarrow> on_grid e y \<Longrightarrow> on_grid e (x + y)" "on_grid e x \<Longrightarrow> on_grid e y \<Longrightarrow> on_grid e (x - y)"
  by (simp_all add: on_grid_def add_divide_distrib diff_divide_distrib)

definition lots :: "int \<Rightarrow> DepthLevel list \<Rightarrow> bool" where
  "lots e ls \<longleftrightarrow> list_all (\<lambda>l. 0 < dl_size l \<and> on_grid e (dl_size l)) ls \<and> sum_list (map dl_size ls) \<le> 10 ^ 28 * pow10 e"

lemma lots_Cons: "lots e (l # ls) \<Longrightarrow> lots e ls \<and> 0 < dl_size l \<and> on_grid e (dl_size l)"
  by (auto simp: lots_def)

lemma lots_sum_nonneg: "lots e ls \<Longrightarrow> 0 \<le> sum_list (map dl_size ls)"
  by (auto simp: lots_def list_all_iff less_imp_le intro!: sum_list_nonneg)

lemma dsum_lots:
  "list_all (\<lambda>l. 0 < dl_size l \<and> on_grid e (dl_size l)) ls \<Longrightarrow> on_grid e a \<Longrightarrow> 0 \<le> a \<Longrightarrow>
   a + sum_list (map dl_size ls) \<le> 10 ^ 28 * pow10 e \<Longrightarrow> foldl dadd a (map dl_size ls) = a + sum_list (map dl_size ls)"
proof (induction ls arbitrary: a)
  case (Cons l ls)
  have nn: "0 \<le> sum_list (map dl_size ls)" using Cons.prems(1) by (auto simp: list_all_iff less_imp_le intro!: sum_list_nonneg)
  have g: "on_grid e (a + dl_size l)" using Cons.prems by (simp add: on_grid_add_diff)
  have "dadd a (dl_size l) = a + dl_size l"
    unfolding dadd_def using Cons.prems nn by (intro ctx_on_grid [OF g]) (simp add: abs_of_nonneg)
  with Cons g show ?case by (simp add: add.assoc)
qed simp

lemma consume_levels_all:
  "lots e ls \<Longrightarrow> on_grid e r \<Longrightarrow> 0 \<le> r \<Longrightarrow> r \<le> sum_list (map dl_size ls) \<Longrightarrow> fst (consume_levels ls r n) = 0"
proof (induction ls arbitrary: r n)
  case (Cons l ls)
  note l = lots_Cons [OF Cons.prems(1)]
  have g: "on_grid e (r - min r (dl_size l))" using Cons.prems(2) l by (auto simp: min_def on_grid_def diff_divide_distrib)
  have "\<bar>r - min r (dl_size l)\<bar> \<le> 10 ^ 28 * pow10 e"
    using Cons.prems(1,3,4) l unfolding lots_def by (auto simp: min_def abs_if)
  then have d: "dsub r (min r (dl_size l)) = r - min r (dl_size l)" unfolding dsub_def by (rule ctx_on_grid [OF g])
  show ?case
  proof (cases "r \<le> dl_size l")
    case False
    with Cons.prems(4) have "fst (consume_levels ls (r - dl_size l) n') = 0" for n'
      using l g by (intro Cons.IH) (simp_all add: min_def)
    moreover from False have "min r (dl_size l) = dl_size l" by simp
    ultimately show ?thesis using d by (auto simp: Let_def dsub_def)
  next
    case True
    then have "min r (dl_size l) = r" by simp
    with d show ?thesis by (simp add: Let_def)
  qed
qed simp

lemma lots_eligible:
  assumes "lots e (if is_buy then sm_asks s else sm_bids s)"
  shows "lots e (eligible_levels s is_buy limit)"
proof -
  let ?ls = "if is_buy then sm_asks s else sm_bids s"
  have "sum_list (map dl_size (filter P ls)) \<le> sum_list (map dl_size ls)" if "list_all (\<lambda>l. 0 < dl_size l) ls" for P ls
    using that by (induction ls) auto
  moreover have "list_all (\<lambda>l. 0 < dl_size l) ?ls" using assms by (auto simp: lots_def list_all_iff)
  ultimately have "sum_list (map dl_size (eligible_levels s is_buy limit)) \<le> sum_list (map dl_size ?ls)"
    unfolding eligible_levels_def by blast
  moreover have "list_all (\<lambda>l. 0 < dl_size l \<and> on_grid e (dl_size l)) (eligible_levels s is_buy limit)"
    using assms by (auto simp: lots_def list_all_iff eligible_levels_def)
  ultimately show ?thesis using assms by (simp add: lots_def)
qed

definition not_stream_error :: "error \<Rightarrow> bool" where
  "not_stream_error e \<longleftrightarrow> (case e of MarketStreamError _ \<Rightarrow> False | _ \<Rightarrow> True)"

lemma raises_quantize [raises_rules]: "raises not_stream_error (quantize m x e)"
  unfolding quantize_def quantize_in_def Let_def by (intro raises_rules; simp add: not_stream_error_def)

lemma raises_quantize_size [raises_rules]: "raises not_stream_error (quantize_size v d)"
  by (cases v) (auto simp: quantize_size_def not_stream_error_def intro!: raises_rules)

lemma raises_ioc_price [raises_rules]: "raises not_stream_error (aggressive_ioc_price v b w d)"
  unfolding aggressive_ioc_price_def quantize_price_inside_limit_def Let_def
  by (intro raises_rules; simp add: not_stream_error_def)

lemma raises_ioc_limit [raises_rules]: "raises not_stream_error (ioc_limit s b x h)"
  unfolding ioc_limit_def by (intro raises_rules; simp add: not_stream_error_def)

lemma executable_ioc_no_depth_error:
  assumes "lots (- sm_sz_decimals s) (if is_buy then sm_asks s else sm_bids s)"
  shows "executable_ioc s is_buy requested slippage hard \<noteq> Inl (MarketStreamError why)"
proof -
  have "fst (consume_levels (eligible_levels s is_buy limit) visible 0) = 0"
    if "quantize_size (Fin (min x (dsum (map dl_size (eligible_levels s is_buy limit))))) (sm_sz_decimals s) = Inr visible" "0 < visible"
    for x limit visible
  proof (rule consume_levels_all [OF lots_eligible [OF assms]])
    show "on_grid (- sm_sz_decimals s) visible" using that(1) by (rule quantize_size_grid)
    let ?ls = "eligible_levels s is_buy limit"
    have "dsum (map dl_size ?ls) = sum_list (map dl_size ?ls)"
      using dsum_lots [of "- sm_sz_decimals s" ?ls 0] lots_eligible [OF assms, of limit] by (simp add: dsum_def lots_def on_grid_def)
    then show "visible \<le> sum_list (map dl_size ?ls)"
      using quantize_size_nonneg(2) [OF that(1)] quantize_size_sign(1) [OF that] by simp
  qed (use that in simp)
  then have "raises not_stream_error (executable_ioc s is_buy requested slippage hard)"
    unfolding executable_ioc_def Let_def
    by (intro raises_rules) (auto simp: not_stream_error_def not_le dest: arg_cong [of _ _ fst])
  then show ?thesis by (auto simp: raises_def not_stream_error_def)
qed


section \<open>A concrete run\<close>

definition ex_catalog_market :: CatalogMarket where
  "ex_catalog_market = \<lparr>cm_symbol = ''BTC'', cm_dex = [], cm_asset_id = 0, cm_dex_index = 0, cm_universe_index = 0,
     cm_sz_decimals = 2, cm_max_leverage = 40, cm_readiness = READY, cm_margin_mode = ''cross'', cm_collateral_token = 0,
     cm_margin_table_id = None, cm_is_delisted = False, cm_context_observed_ms = 0, cm_oracle_px = None, cm_mark_px = None,
     cm_book_revision = 0, cm_book_observed_ms = 0, cm_tombstoned_from_revision = [], cm_removal_tombstone = False,
     cm_pending_asset_id = None, cm_pending_universe_index = None, cm_pending_sz_decimals = None,
     cm_pending_max_leverage = None, cm_pending_margin_mode = None, cm_pending_collateral_token = None,
     cm_pending_margin_table_id = None, cm_pending_identity_revision = []\<rparr>"

definition ex_revision :: CatalogRevision where
  "ex_revision = \<lparr>cr_sequence = 1, cr_revision_id = ''r1'', cr_policy_version = ''p'', cr_network = ''mainnet'',
     cr_observed_ms = 1, cr_wire_dexes = [], cr_markets = [ex_catalog_market], cr_snapshot_sha256 = [],
     cr_dex_bracket_before_sha256 = [], cr_dex_bracket_after_sha256 = []\<rparr>"

definition ex_market_stream :: MarketStream where
  "ex_market_stream = \<lparr>ms_catalog = ex_revision, ms_epoch = 0, ms_activity_ms = 0, ms_active = [''BTC''],
     ms_contexts = [], ms_books = [], ms_bbos = []\<rparr>"

definition ex_level :: "string \<Rightarrow> json" where
  "ex_level px = JObj [(''px'', JStr px), (''sz'', JStr ''1'')]"

definition ex_market_frame :: "string \<Rightarrow> (string \<times> json) list \<Rightarrow> json" where
  "ex_market_frame channel rest =
     JObj [(''channel'', JStr channel), (''data'', JObj ((''coin'', JStr ''btc'') # rest))]"

definition ex_market_events :: "market_event list" where
  "ex_market_events = [MarketBegin 1,
     MarketFrame (ex_market_frame ''activeAssetCtx'' [(''ctx'', JObj [(''oraclePx'', JStr ''10''), (''markPx'', JStr ''10'')])]) 1 2,
     MarketFrame (ex_market_frame ''l2Book'' [(''levels'', JArr [JArr [ex_level ''9'', ex_level ''8''], JArr [ex_level ''11'']]),
       (''time'', JInt 5)]) 1 3]"

definition ex_bbo_frame :: json where
  "ex_bbo_frame = ex_market_frame ''bbo'' [(''bbo'', JArr [ex_level ''10'', ex_level ''11'']), (''time'', JInt 6)]"

lemma ex_market_made: "make_market_stream ex_revision [''btc''] = Inr ex_market_stream"
  by code_simp

lemma ex_market_quote:
  "(case fst (market_apply ex_bbo_frame 1 4 (fold market_step_stream ex_market_events ex_market_stream)) of
      Inr (Some s) \<Rightarrow> map dl_price (sm_bids s) = [10, 9, 8] \<and> map dl_price (sm_asks s) = [11]
    | _ \<Rightarrow> False)"
  by code_simp

lemma ex_market_crossed:
  "fst (market_apply (ex_market_frame ''bbo'' [(''bbo'', JArr [ex_level ''12'', ex_level ''11'']), (''time'', JInt 6)]) 1 4
     (fold market_step_stream ex_market_events ex_market_stream)) = Inl (MarketStreamError ''BBO is locked or crossed'')"
  by code_simp

definition ex_snapshot :: MarketSnapshot where
  "ex_snapshot = \<lparr>sm_market = ''BTC'', sm_catalog_revision = ''r1'', sm_asset_id = 0, sm_sz_decimals = 2, sm_max_leverage = 40,
     sm_oracle_px = 10, sm_mark_px = 10, sm_bids = [],
     sm_asks = [\<lparr>dl_price = 10, dl_size = 1, dl_order_count = None\<rparr>, \<lparr>dl_price = 12, dl_size = 5, dl_order_count = None\<rparr>],
     sm_book_time_ms = 1, sm_context_received_ms = 1, sm_book_received_ms = 1, sm_bbo_time_ms = 1, sm_bbo_received_ms = 1,
     sm_connection_epoch = 1\<rparr>"

lemma ex_ioc:
  "executable_ioc ex_snapshot True (Fin 3) None (Some (Fin 11)) =
     Inr (Some \<lparr>ei_size = 3, ei_visible_size = 1, ei_limit_px = 11, ei_estimated_vwap = 10, ei_estimated_notional = 10\<rparr>)"
  by (simp add: executable_ioc_def ex_snapshot_def ioc_limit_def eligible_levels_def none_or_def quantize_size_def dsum_def dec_eval Let_def)



section \<open>Properties\<close>

text \<open>
  C36: In every stream reachable by connections, scope and catalog changes and frames, a frame that is
  answered with an exception has changed nothing: although a frame is stored before the snapshot is
  assembled, assembling it cannot fail.
\<close>

theorem market_frame_atomic:
  assumes "make_market_stream catalog markets = Inr st0" and "st = fold market_step_stream es st0"
    and "market_apply message epoch received st = (Inl e, st')"
  shows "st' = st"
proof -
  have "market_stream_ok st" unfolding assms(2) using make_market_stream_ok [OF assms(1)] by (rule market_run_ok)
  with assms(3) show ?thesis using market_apply_cases by blast
qed

theorem market_frame_atomic_witness:
  "snd (market_apply (ex_market_frame ''bbo'' [(''bbo'', JArr [ex_level ''12'', ex_level ''11'']), (''time'', JInt 6)]) 1 4
     (fold market_step_stream ex_market_events ex_market_stream)) = fold market_step_stream ex_market_events ex_market_stream"
  by (rule market_frame_atomic [OF ex_market_made refl]) (rule prod_eqI, simp_all add: ex_market_crossed)

text \<open>
  C35: Every snapshot such a stream hands out has positive levels, bids in strictly descending and
  asks in strictly ascending order, is neither locked nor crossed, and has a positive mark price.
\<close>

theorem market_snapshot_well_formed:
  assumes "make_market_stream catalog markets = Inr st0" and "st = fold market_step_stream es st0"
    and "market_apply message epoch received st = (Inr (Some s), st')"
  shows "list_all level_ok (sm_bids s @ sm_asks s) \<and>
    sorted_wrt (\<lambda>a b. dl_price a > dl_price b) (sm_bids s) \<and> sorted_wrt (\<lambda>a b. dl_price a < dl_price b) (sm_asks s) \<and>
    \<not> crossed (sm_bids s) (sm_asks s) \<and> 0 < sm_mark_px s"
proof -
  have "market_stream_ok st" unfolding assms(2) using make_market_stream_ok [OF assms(1)] by (rule market_run_ok)
  then have "market_stream_ok st'" using market_apply_cases [OF assms(3)] by blast
  moreover obtain market where "market_snapshot st' market = Inr (Some s)"
    using assms(3) by (auto simp: market_apply_def split: sum.splits)
  ultimately have "side_ok True (sm_bids s) \<and> side_ok False (sm_asks s) \<and> \<not> crossed (sm_bids s) (sm_asks s)" "0 < sm_mark_px s"
    by (rule market_snapshot_ok)+
  then show ?thesis by (simp add: side_ok_def)
qed

theorem market_snapshot_well_formed_witness:
  "\<exists>s st'. market_apply ex_bbo_frame 1 4 (fold market_step_stream ex_market_events ex_market_stream) = (Inr (Some s), st') \<and>
     map dl_price (sm_bids s) = [10, 9, 8] \<and> \<not> crossed (sm_bids s) (sm_asks s)"
proof -
  let ?st = "fold market_step_stream ex_market_events ex_market_stream"
  obtain r st' where a: "market_apply ex_bbo_frame 1 4 ?st = (r, st')" by fastforce
  then obtain s where r: "r = Inr (Some s)" "map dl_price (sm_bids s) = [10, 9, 8]"
    using ex_market_quote by (auto split: sum.splits option.splits)
  then show ?thesis using a market_snapshot_well_formed [OF ex_market_made refl, of ex_bbo_frame 1 4 ex_market_events s st'] by auto
qed

text \<open>
  A planned order submits the requested size cut to the lot grid, counts as visible no more than
  that and than the depth at or inside its limit, and its limit is never worse than the caller's
  hard limit nor than the slippage price at the best quote.
\<close>

theorem executable_ioc_within_limits:
  assumes "executable_ioc s is_buy (Fin requested) slippage hard = Inr (Some i)"
  shows "0 < ei_visible_size i \<and> ei_visible_size i \<le> ei_size i \<and> ei_size i \<le> requested \<and>
    requested < ei_size i + pow10 (- sm_sz_decimals s) \<and>
    ei_visible_size i \<le> dsum (map dl_size (eligible_levels s is_buy (ei_limit_px i))) \<and>
    none_or (\<lambda>h. if is_buy then ei_limit_px i \<le> dec_val h else dec_val h \<le> ei_limit_px i) hard \<and>
    none_or (\<lambda>bps. \<exists>l ls y. (if is_buy then sm_asks s else sm_bids s) = l # ls \<and>
       aggressive_ioc_price (Fin (dl_price l)) is_buy bps (sm_sz_decimals s) = Inr y \<and>
       (if is_buy then ei_limit_px i \<le> y else y \<le> ei_limit_px i)) slippage"
proof -
  note i = executable_ioc_Some [OF assms]
  then have "ioc_limit s is_buy slippage hard = Inr (Some (ei_limit_px i))" "none_or (\<lambda>h. is_finite h \<and> 0 < dec_val h) hard" by simp_all
  from ioc_limit_Some [OF this] i show ?thesis by (cases slippage) (auto simp: none_or_def)
qed

theorem executable_ioc_within_limits_witness:
  "\<exists>i. executable_ioc ex_snapshot True (Fin 3) None (Some (Fin 11)) = Inr (Some i) \<and> ei_size i = 3 \<and>
     ei_visible_size i \<le> ei_size i \<and> ei_size i \<le> 3"
  using executable_ioc_within_limits [OF ex_ioc] ex_ioc by auto

text \<open>
  On a book whose sizes are whole lots (at most \<open>10^28\<close> of them) the planner's internal
  consistency check cannot fail: the visible size is always consumed exactly by the eligible levels,
  whatever the request, the slippage and the limit.
\<close>

theorem executable_ioc_consistent:
  assumes "lots (- sm_sz_decimals s) (if is_buy then sm_asks s else sm_bids s)"
  shows "executable_ioc s is_buy requested slippage hard \<noteq> Inl (MarketStreamError why)"
  using assms by (rule executable_ioc_no_depth_error)

theorem executable_ioc_consistent_witness:
  "executable_ioc ex_snapshot True (Fin 3) (Some (Fin 50)) None \<noteq> Inl (MarketStreamError ''eligible depth changed during pure IOC calculation'')"
proof (rule executable_ioc_consistent)
  show "lots (- sm_sz_decimals ex_snapshot) (if True then sm_asks ex_snapshot else sm_bids ex_snapshot)"
    by (simp add: ex_snapshot_def lots_def on_grid_def pow10_def)
qed

end
