(* ===== verification/Runtime_Slot.thy ===== *)
theory Runtime_Slot
  imports Account_Stream Market_Stream Continuous_Executor
begin

text \<open>
  \<^verbatim>\<open>continuous_runtime.py\<close>, the state of one slot: its source baseline, which source fills count as
  copied, whether the slot may act, and the operator's commands.

  Each definition is one section that the event loop runs without suspending. Clock readings, the
  digests and the result of the gap-repair hook are arguments. A Decimal inside a fingerprint or a
  digest is represented by its value in place of its text, and sets are iterated in list order.
\<close>

section \<open>Records\<close>

text \<open>A status text: fixed text with names in it, or a text made from a value of another component.\<close>

datatype slot_reason =
    Text string
  | FrameFailed error
  | EngineBlocker blocker
  | PreflightRejected preflight_reason

datatype RuntimeState = RUNNING | PAUSE_ENTRIES | RECOVERING | OPERATOR_STOP

record 'n FollowerTruth =
  ft_positions :: "(string \<times> 'n position) list"
  ft_equity :: 'n
  ft_observed_ms :: int
  ft_dex_observed_ms :: "(string \<times> int) list"
  ft_available :: "dec option"

record Trigger =
  tr_price :: rat
  tr_time_ms :: int
  tr_accepted_ms :: int

type_synonym follower_print = "rat \<times> int option \<times> rat \<times> string"
type_synonym liquidity_print = "string \<times> rat \<times> (rat \<times> rat) option \<times> (rat \<times> rat) list"

record RejectedTarget =
  rj_desired_id :: string
  rj_follower_fingerprint :: follower_print
  rj_market_identity_sha256 :: string
  rj_reason :: string

record LiquidityRetry =
  lr_desired_id :: string
  lr_source_revision :: int
  lr_not_before_ms :: int
  lr_after_observed_ms :: int
  lr_liquidity_fingerprint :: liquidity_print
  lr_retry_count :: int
  lr_require_market_observation :: bool
  lr_observe_context :: bool
  lr_reason :: string

record RuntimeSlot =
  rs_bound :: BoundContinuousSlot
  rs_account :: AccountStream
  rs_lane :: ContinuousSignerLane
  rs_journal :: journal
  rs_state :: RuntimeState
  rs_reason :: slot_reason
  rs_source_ready :: bool
  rs_ever_baselined :: bool
  rs_expected_source :: "(string \<times> rat) list option"
  rs_unattributed :: "(string \<times> rat) list"
  rs_attributable :: "(string \<times> rat) list"
  rs_pending_catalog :: "string list"
  rs_applied_fills :: "fill_identity list"
  rs_triggers :: "(string \<times> Trigger) list"
  rs_source_revisions :: "(string \<times> int) list"
  rs_follower :: "rat FollowerTruth option"
  rs_restored_positions :: "(string \<times> rat) list option"
  rs_initial_nonflat :: bool
  rs_operator_paused :: bool
  rs_fail_close_reason :: "string option"
  rs_startup_blocker :: "string option"
  rs_action_times :: "int list"
  rs_liquidity_retries :: "(string \<times> LiquidityRetry) list"
  rs_rejected_targets :: "(string \<times> RejectedTarget) list"
  rs_truth_revision :: int

record PreparedIoc =
  pi_action :: NextAction
  pi_snapshot :: MarketSnapshot
  pi_executable :: ExecutableIoc
  pi_required_epoch :: int
  pi_gate_clock :: int
  pi_retry_count :: int
  pi_source_revision :: int

record ContinuousRuntime =
  rt_plan :: BoundContinuousPlan
  rt_slots :: "(string \<times> RuntimeSlot) list"
  rt_market :: MarketStream
  rt_mux :: mux
  rt_catalog :: CatalogRevision
  rt_allowed_markets :: "(string \<times> string list) list"
  rt_reservations :: "(string \<times> (string \<times> rat) list) list"
  rt_locks :: "bool list"
  rt_execution_enabled :: bool
  rt_max_tracking_bps :: rat
  rt_reduction_slippage_bps :: rat
  rt_emergency_slippage_bps :: rat
  rt_max_source_fill_age_ms :: int
  rt_source_age_ms :: int
  rt_market_age_ms :: int
  rt_follower_age_ms :: int
  rt_source_open_epoch :: "int option"


section \<open>Helpers\<close>

definition given_text :: "string option \<Rightarrow> bool" where
  "given_text s = (case s of None \<Rightarrow> False | Some t \<Rightarrow> t \<noteq> [])"

definition sizes :: "(string \<times> rat position) list \<Rightarrow> (string \<times> rat) list result" where
  "sizes ps =
     rfold (\<lambda>(m, p) acc. if pos_size p = 0 then Inr acc
                        else rbind (canonical_market_symbol m) (\<lambda>c. Inr (AList.update c (pos_size p) acc))) ps []"

definition source_sizes :: "RuntimeSlot \<Rightarrow> (string \<times> rat) list result" where
  "source_sizes s = sizes (sn_positions (source_snapshot (rs_account s)))"

definition nz :: "(string \<times> rat) list \<Rightarrow> (string \<times> rat) list" where
  "nz values = filter (\<lambda>(m, v). v \<noteq> 0) values"

definition opposite :: "rat \<Rightarrow> rat \<Rightarrow> bool" where
  "opposite l r \<longleftrightarrow> l \<noteq> 0 \<and> r \<noteq> 0 \<and> (0 < l) \<noteq> (0 < r)"

definition put_nz :: "(string \<times> rat) list \<Rightarrow> string \<Rightarrow> rat \<Rightarrow> (string \<times> rat) list" where
  "put_nz values m v = (if v \<noteq> 0 then AList.update m v values else AList.delete m values)"

definition block_slot :: "slot_reason \<Rightarrow> RuntimeSlot \<Rightarrow> RuntimeSlot" where
  "block_slot why s = (if rs_state s = OPERATOR_STOP then s else s\<lparr>rs_state := RECOVERING, rs_reason := why\<rparr>)"

definition unresolved_of :: "RuntimeSlot \<Rightarrow> (string \<times> rat) list result" where
  "unresolved_of s = unresolved_signed_remaining (rs_lane s) (rs_journal s)"

definition config_of :: "RuntimeSlot \<Rightarrow> ContinuousSlotConfig" where
  "config_of s = b_config (rs_bound s)"

definition allowed_of :: "ContinuousRuntime \<Rightarrow> RuntimeSlot \<Rightarrow> string list" where
  "allowed_of rt s = dget (rt_allowed_markets rt) (slot_id (config_of s)) []"

text \<open>\<open>dict\<close> addition of pending sizes.\<close>

definition add_sizes :: "(string \<times> rat) list \<Rightarrow> (string \<times> rat) list \<Rightarrow> (string \<times> rat) list" where
  "add_sizes pending base = fold (\<lambda>(m, v) acc. AList.update m (dadd (dget acc m 0) v) acc) pending base"

definition liquidity_retry_delay_ms :: "int \<Rightarrow> int result" where
  "liquidity_retry_delay_ms n =
     (if n \<le> 0 then Inl (ValueError ''liquidity retry count must be positive'')
      else Inr ([1000, 2000, 5000] ! nat (min (n - 1) 2)))"

definition liquidity_fingerprint :: "MarketSnapshot \<Rightarrow> string \<Rightarrow> rat \<Rightarrow> bool \<Rightarrow> liquidity_print" where
  "liquidity_fingerprint s side limit include_context =
     (side, limit, if include_context then Some (sm_oracle_px s, sm_mark_px s) else None,
      map (\<lambda>l. (dl_price l, dl_size l)) (eligible_levels s (side = ''buy'') limit))"

definition rejection_follower_fingerprint ::
  "((string \<times> rat \<times> int option) list \<Rightarrow> string) \<Rightarrow> rat FollowerTruth \<Rightarrow> string \<Rightarrow> follower_print" where
  "rejection_follower_fingerprint digest f market =
     (size_in (ft_positions f) market, leverage_in (ft_positions f) market, ft_equity f,
      digest (map (\<lambda>(m, p). (m, pos_size p, pos_leverage p)) (sort_key fst (ft_positions f))))"

text \<open>The catalog identity of some markets; the digest is over the specification of each, if there is one.\<close>

definition catalog_markets_sha256 ::
  "((string \<times> CatalogMarket option) list \<Rightarrow> string) \<Rightarrow> CatalogRevision \<Rightarrow> string list \<Rightarrow> string result" where
  "catalog_markets_sha256 digest catalog markets =
     rbind (rmap (\<lambda>m. rbind (revision_market catalog m) (\<lambda>spec. Inr (m, spec))) (sort markets)) (\<lambda>rows.
     Inr (digest rows))"

definition effective_allowed_markets :: "BoundContinuousSlot \<Rightarrow> CatalogRevision \<Rightarrow> string list" where
  "effective_allowed_markets b catalog =
     (if \<not> b_dynamic_market_eligibility b then allowed_markets (b_config b)
      else sort (map cm_symbol (filter (\<lambda>m. cm_symbol m \<notin> set (b_denied_markets b) \<and> executable_spec m \<and>
             \<not> cm_removal_tombstone m \<and> cm_collateral_token m = 0) (cr_markets catalog))))"


section \<open>Attribution of source fills\<close>

record attribution =
  at_unattributed :: "(string \<times> rat) list"
  at_attributable :: "(string \<times> rat) list"
  at_applied :: "fill_identity list"
  at_triggers :: "(string \<times> Trigger) list"
  at_revisions :: "(string \<times> int) list"
  at_pending :: "string list"
  at_refresh :: bool
  at_changed :: "string list"

text \<open>A fill against an existing part of the position consumes it first; the rest of the fill remains.\<close>

definition consume :: "rat \<Rightarrow> rat \<Rightarrow> rat \<times> rat" where
  "consume part delta =
     (if opposite delta part
      then let amount = copy_sign (min (dabs delta) (dabs part)) delta in (dadd part amount, dsub delta amount)
      else (part, delta))"

definition fresh_fill :: "ContinuousRuntime \<Rightarrow> int option \<Rightarrow> FillRecord \<Rightarrow> bool" where
  "fresh_fill rt recovered f =
     (case recovered of None \<Rightarrow> True
      | Some t \<Rightarrow> 0 \<le> t - fr_time_ms f \<and> t - fr_time_ms f \<le> rt_max_source_fill_age_ms rt)"

definition denied_market :: "RuntimeSlot \<Rightarrow> string \<Rightarrow> bool" where
  "denied_market s m \<longleftrightarrow> b_dynamic_market_eligibility (rs_bound s) \<and> m \<in> set (b_denied_markets (rs_bound s))"

definition attribute_fill ::
  "ContinuousRuntime \<Rightarrow> RuntimeSlot \<Rightarrow> int option \<Rightarrow> FillRecord \<Rightarrow> attribution \<Rightarrow> attribution result" where
  "attribute_fill rt s recovered f a =
     (if fill_identity_of f \<in> set (at_applied a) then Inr a
      else
        let market = fr_market f;
            (copied, delta1) = consume (dget (at_attributable a) market 0) (fill_signed_size f);
            (old, delta2) = consume (dget (at_unattributed a) market 0) delta1;
            accept = fresh_fill rt recovered f \<and> \<not> denied_market s market;
            copied' = (if accept then dadd copied delta2 else copied);
            old' = (if accept then old else dadd old delta2);
            applied = at_applied a @ [fill_identity_of f];
            a1 = a\<lparr>at_unattributed := put_nz (at_unattributed a) market old',
                   at_attributable := put_nz (at_attributable a) market copied',
                   at_applied := (if length applied > 4096 then tl applied else applied),
                   at_revisions := AList.update market (dget (at_revisions a) market 0 + 1) (at_revisions a),
                   at_changed := (if market \<in> set (at_changed a) then at_changed a else at_changed a @ [market])\<rparr>;
            a2 = (if accept
                  then a1\<lparr>at_triggers := AList.update market
                            \<lparr>tr_price = fr_price f, tr_time_ms = fr_time_ms f,
                             tr_accepted_ms = (case recovered of None \<Rightarrow> fr_received_ms f | Some t \<Rightarrow> t)\<rparr> (at_triggers a1)\<rparr>
                  else a1)
        in if accept \<and> b_dynamic_market_eligibility (rs_bound s)
           then rbind (revision_market (rt_catalog rt) market) (\<lambda>spec.
                Inr (if spec = None
                     then a2\<lparr>at_pending := (if market \<in> set (at_pending a2) then at_pending a2 else at_pending a2 @ [market]),
                             at_refresh := True\<rparr>
                     else a2))
           else Inr a2)"

definition attribution_of :: "RuntimeSlot \<Rightarrow> attribution" where
  "attribution_of s = \<lparr>at_unattributed = rs_unattributed s, at_attributable = rs_attributable s,
     at_applied = rs_applied_fills s, at_triggers = rs_triggers s, at_revisions = rs_source_revisions s,
     at_pending = rs_pending_catalog s, at_refresh = False, at_changed = []\<rparr>"

definition attributed_size :: "(string \<times> rat) list \<Rightarrow> (string \<times> rat) list \<Rightarrow> string \<Rightarrow> rat" where
  "attributed_size unattributed attributable m = dadd (dget unattributed m 0) (dget attributable m 0)"

text \<open>\<open>_attribute\<close>; the flag says whether a catalog refresh is requested.\<close>

definition attribute ::
  "ContinuousRuntime \<Rightarrow> RuntimeSlot \<Rightarrow> FillRecord list \<Rightarrow> int option \<Rightarrow> (RuntimeSlot \<times> bool) result" where
  "attribute rt s fills recovered =
     rbind (rfold (attribute_fill rt s recovered) fills (attribution_of s)) (\<lambda>a.
     if at_changed a = [] then Inr (s, False)
     else rbind (source_sizes s) (\<lambda>current.
          if \<exists>m \<in> set (at_changed a). attributed_size (at_unattributed a) (at_attributable a) m \<noteq> dget current m 0
          then Inl (ValueError ''post-baseline fill attribution does not match source truth'')
          else Inr (s\<lparr>rs_unattributed := at_unattributed a, rs_attributable := at_attributable a,
                     rs_applied_fills := at_applied a, rs_triggers := at_triggers a,
                     rs_source_revisions := at_revisions a, rs_pending_catalog := at_pending a,
                     rs_liquidity_retries := fold AList.delete (at_changed a) (rs_liquidity_retries s)\<rparr>,
                    at_refresh a)))"

definition attribution_matches :: "RuntimeSlot \<Rightarrow> bool result" where
  "attribution_matches s =
     rbind (source_sizes s) (\<lambda>current.
     Inr (list_all (\<lambda>m. attributed_size (rs_unattributed s) (rs_attributable s) m = dget current m 0)
            (map fst current @ map fst (rs_unattributed s) @ map fst (rs_attributable s))))"


text \<open>
  \<open>_baseline\<close>; \<open>repair\<close> is the gap-repair hook, if one is configured. It returns its
  exception, if one was raised, beside the slot, which may have changed before it.
\<close>

definition repair_step :: "FillRecord \<Rightarrow> (string \<times> rat) list \<Rightarrow> (string \<times> rat) list result" where
  "repair_step f working =
     (if fr_start_position f \<noteq> Some (dget working (fr_market f) 0)
      then Inl (ValueError ''gap repair fill chain does not start at checkpoint truth'')
      else Inr (AList.update (fr_market f) (dadd (dget working (fr_market f) 0) (fill_signed_size f)) working))"

definition same_sizes :: "(string \<times> rat) list \<Rightarrow> (string \<times> rat) list \<Rightarrow> bool" where
  "same_sizes a b \<longleftrightarrow> set (nz a) = set (nz b)"

definition baseline ::
  "ContinuousRuntime \<Rightarrow> RuntimeSlot \<Rightarrow> ((string \<times> rat) list \<Rightarrow> (string \<times> rat) list \<Rightarrow> FillRecord list result) option \<Rightarrow> int \<Rightarrow>
   unit result \<times> RuntimeSlot" where
  "baseline rt s repair now =
     (case source_sizes s of
        Inl e \<Rightarrow> (Inl e, s)
      | Inr current \<Rightarrow>
          let expected = (case rs_expected_source s of None \<Rightarrow> [] | Some e \<Rightarrow> e)
          in if \<not> rs_ever_baselined s
             then (Inr (), s\<lparr>rs_unattributed := current, rs_attributable := [], rs_ever_baselined := True,
                             rs_source_ready := True, rs_expected_source := Some current\<rparr>)
             else if same_sizes expected current
             then (Inr (), s\<lparr>rs_source_ready := True, rs_expected_source := Some current\<rparr>)
             else case repair of
               None \<Rightarrow> (Inr (), block_slot (Text ''source changed across gap and no repair hook is configured'') s)
             | Some hook \<Rightarrow>
                 (case rbind (hook expected current) (\<lambda>fills.
                       rbind (rfold repair_step fills expected) (\<lambda>working.
                       rbind (require (same_sizes working current)
                                (ValueError ''gap repair fill chain does not reach reconnect truth'')) (\<lambda>_.
                       attribute rt s fills (Some now)))) of
                    Inl e \<Rightarrow> (Inl e, s)
                  | Inr (s1, _) \<Rightarrow>
                      (case rbind (attribution_matches s1) (\<lambda>ok.
                            require ok (ValueError ''gap repair did not converge to the source baseline'')) of
                         Inl e \<Rightarrow> (Inl e, s1)
                       | Inr _ \<Rightarrow> (Inr (), s1\<lparr>rs_source_ready := True, rs_expected_source := Some current\<rparr>))))"


section \<open>Readiness\<close>

definition prune_rate :: "int \<Rightarrow> RuntimeSlot \<Rightarrow> RuntimeSlot" where
  "prune_rate clock s = s\<lparr>rs_action_times := dropWhile (\<lambda>t. t \<le> clock - 60000) (rs_action_times s)\<rparr>"

definition follower_fresh :: "ContinuousRuntime \<Rightarrow> RuntimeSlot \<Rightarrow> int \<Rightarrow> bool" where
  "follower_fresh rt s now =
     (case rs_follower s of None \<Rightarrow> False
      | Some f \<Rightarrow> 0 \<le> now - ft_observed_ms f \<and> now - ft_observed_ms f \<le> rt_follower_age_ms rt)"

text \<open>\<open>_ready\<close>; \<open>clock\<close> is the action clock.\<close>

definition ready :: "ContinuousRuntime \<Rightarrow> int \<Rightarrow> int \<Rightarrow> RuntimeSlot \<Rightarrow> RuntimeSlot result" where
  "ready rt clock now s =
     (if rs_state s = OPERATOR_STOP then Inr s
      else if given_text (rs_startup_blocker s) then Inr (block_slot (Text (the (rs_startup_blocker s))) s)
      else if given_text (rs_fail_close_reason s)
      then Inr (s\<lparr>rs_state := PAUSE_ENTRIES, rs_reason := Text (''fail-close: '' @ the (rs_fail_close_reason s))\<rparr>)
      else rbind (if rs_source_ready s
                  then snapshot_is_fresh (source_snapshot (rs_account s)) now (rt_source_age_ms rt) else Inr False) (\<lambda>fresh.
      if \<not> fresh then Inr (block_slot (Text ''source truth is unavailable or stale'') s)
      else if \<not> follower_fresh rt s now then Inr (block_slot (Text ''follower WS truth is unavailable or stale'') s)
      else if rs_initial_nonflat s then Inr (block_slot (Text ''startup follower exposure has no runtime attribution'') s)
      else rbind (unresolved_of s) (\<lambda>unresolved.
      if unresolved \<noteq> [] then Inr (block_slot (Text ''signer lane has unresolved action outcome'') s)
      else let s1 = prune_rate clock s
           in if rs_operator_paused s1 \<or> action_limit_per_minute (config_of s1) \<le> int (length (rs_action_times s1))
              then Inr (s1\<lparr>rs_state := PAUSE_ENTRIES,
                          rs_reason := Text (if rs_operator_paused s1 then ''operator pause'' else ''slot action limit reached'')\<rparr>)
              else Inr (s1\<lparr>rs_state := RUNNING, rs_reason := Text ''ready''\<rparr>))))"


section \<open>The operator and the connections\<close>

definition request_fail_close :: "string \<Rightarrow> RuntimeSlot \<Rightarrow> RuntimeSlot result" where
  "request_fail_close why s =
     (if py_strip why = [] then Inl (ValueError ''fail-close reason cannot be empty'')
      else if rs_state s = OPERATOR_STOP then Inr s
      else let latched = (if given_text (rs_fail_close_reason s) then the (rs_fail_close_reason s) else py_strip why)
           in Inr (s\<lparr>rs_fail_close_reason := Some latched, rs_operator_paused := True, rs_state := PAUSE_ENTRIES,
                     rs_reason := Text (''fail-close: '' @ latched)\<rparr>))"

definition operator_rearm :: "ContinuousRuntime \<Rightarrow> RuntimeSlot \<Rightarrow> RuntimeSlot result" where
  "operator_rearm rt s =
     (if \<not> rt_execution_enabled rt then Inl (RuntimeError ''operator re-arm requires execution to be armed'')
      else case rs_follower s of
        None \<Rightarrow> Inl (RuntimeError ''operator re-arm requires authoritative flat slot'')
      | Some f \<Rightarrow>
          if ft_positions f \<noteq> [] then Inl (RuntimeError ''operator re-arm requires authoritative flat slot'')
          else rbind (unresolved_of s) (\<lambda>u.
               if u \<noteq> [] then Inl (RuntimeError ''operator re-arm requires terminal actions'')
               else rbind (case rs_expected_source s of
                             Some e \<Rightarrow> if e \<noteq> [] then Inr e else source_sizes s
                           | None \<Rightarrow> source_sizes s) (\<lambda>observed.
                    Inr (s\<lparr>rs_unattributed := observed, rs_attributable := [], rs_triggers := [], rs_pending_catalog := [],
                           rs_rejected_targets := [], rs_liquidity_retries := [], rs_initial_nonflat := False,
                           rs_fail_close_reason := None, rs_operator_paused := False, rs_state := RECOVERING,
                           rs_reason := Text ''operator re-arm awaiting live reconciliation''\<rparr>))))"

definition set_operator_state :: "ContinuousRuntime \<Rightarrow> RuntimeState \<Rightarrow> int \<Rightarrow> int \<Rightarrow> RuntimeSlot \<Rightarrow> RuntimeSlot result" where
  "set_operator_state rt state clock now s =
     (if state = OPERATOR_STOP then Inr (s\<lparr>rs_state := OPERATOR_STOP, rs_reason := Text ''operator stop''\<rparr>)
      else if state = PAUSE_ENTRIES
      then Inr (s\<lparr>rs_operator_paused := True, rs_state := PAUSE_ENTRIES, rs_reason := Text ''operator pause''\<rparr>)
      else if state = RUNNING \<and> rs_state s \<noteq> OPERATOR_STOP then ready rt clock now (s\<lparr>rs_operator_paused := False\<rparr>)
      else Inl (ValueError ''operator may only stop, pause entries, or request resume''))"

definition slot_begin_connection :: "int \<Rightarrow> RuntimeSlot \<Rightarrow> (int \<times> RuntimeSlot) result" where
  "slot_begin_connection received s =
     rbind (if rs_ever_baselined s \<and> baseline_complete (source_snapshot (rs_account s))
            then rbind (source_sizes s) (\<lambda>c. Inr (s\<lparr>rs_expected_source := Some c\<rparr>)) else Inr s) (\<lambda>s1.
     let s2 = block_slot (Text ''source connection is rebuilding'') (s1\<lparr>rs_source_ready := False\<rparr>) in
     rbind (begin_connection received (rs_account s2)) (\<lambda>(epoch, account).
     Inr (epoch, s2\<lparr>rs_account := account\<rparr>)))"

definition slot_source_gap :: "int \<Rightarrow> string \<Rightarrow> RuntimeSlot \<Rightarrow> RuntimeSlot" where
  "slot_source_gap epoch why s =
     (if epoch = as_epoch (rs_account s) then block_slot (Text (''source gap: '' @ why)) (s\<lparr>rs_source_ready := False\<rparr>) else s)"

text \<open>The part of \<open>apply_source\<close> under the slot's lock, once the frame belongs to the slot.\<close>

definition slot_apply_source ::
  "ContinuousRuntime \<Rightarrow> ((string \<times> rat) list \<Rightarrow> (string \<times> rat) list \<Rightarrow> FillRecord list result) option \<Rightarrow> json \<Rightarrow> int \<Rightarrow> int \<Rightarrow>
   RuntimeSlot \<Rightarrow> RuntimeSlot" where
  "slot_apply_source rt repair message epoch received s =
     (if Some epoch \<noteq> rt_source_open_epoch rt then s
      else case apply_frame message epoch received (rs_account s) of
        Inl e \<Rightarrow> block_slot (FrameFailed e) s
      | Inr (update, account) \<Rightarrow>
          let s1 = s\<lparr>rs_account := account\<rparr>
          in if baseline_complete (source_snapshot account) \<and> \<not> rs_source_ready s1
             then (case baseline rt s1 repair received of
                     (Inl e, s2) \<Rightarrow> block_slot (FrameFailed e) s2 | (Inr _, s2) \<Rightarrow> s2)
             else if au_new_fills update \<noteq> [] \<and> rs_source_ready s1
             then (case rbind (attribute rt s1 (filter (\<lambda>f. fill_identity_of f \<notin> set (rs_applied_fills s1)) (au_new_fills update))
                          (Some received)) (\<lambda>(s2, _).
                        rbind (source_sizes s2) (\<lambda>c. Inr (s2\<lparr>rs_expected_source := Some c\<rparr>))) of
                     Inl e \<Rightarrow> block_slot (FrameFailed e) s1 | Inr s2 \<Rightarrow> s2)
             else if au_new_fills update \<noteq> []
             then block_slot (Text ''live source fill arrived before trusted baseline'') s1
             else s1)"

end
