(* ===== verification/Runtime_Drive.thy ===== *)
theory Runtime_Drive
  imports Runtime_Slot
begin

text \<open>
  \<^verbatim>\<open>continuous_runtime.py\<close>, driving one slot: the choice of the next order, the gates it passes, the
  reservation of its exposure, the folding of its outcome, and the reconciliation with the exchange.

  \<open>_plan_drive\<close> runs without suspending: no holder of the exposure lock awaits anything. The model
  keeps the slot as it is when an exception leaves the function, since \<open>_safe_drive\<close> goes on with it.
  The evidence dictionary of a prepared order, which is only logged, is left out.
\<close>

section \<open>Steps on a slot\<close>

text \<open>A step goes on with a value, stops the drive with the action at hand and a reason, or raises.\<close>

datatype 'a drive = Go 'a | Stop "NextAction option" slot_reason | Raised error

type_synonym 'a step = "RuntimeSlot \<Rightarrow> 'a drive \<times> RuntimeSlot"

definition dbind :: "'a step \<Rightarrow> ('a \<Rightarrow> 'b step) \<Rightarrow> 'b step" where
  "dbind m f s =
     (case m s of
        (Go x, s') \<Rightarrow> f x s'
      | (Stop a r, s') \<Rightarrow> (Stop a r, s')
      | (Raised e, s') \<Rightarrow> (Raised e, s'))"

definition dgo :: "'a \<Rightarrow> 'a step" where
  "dgo x s = (Go x, s)"

definition dlift :: "'a result \<Rightarrow> 'a step" where
  "dlift r s = (case r of Inl e \<Rightarrow> (Raised e, s) | Inr x \<Rightarrow> (Go x, s))"

definition dget_slot :: "RuntimeSlot step" where
  "dget_slot s = (Go s, s)"

definition dupdate :: "(RuntimeSlot \<Rightarrow> RuntimeSlot) \<Rightarrow> unit step" where
  "dupdate f s = (Go (), f s)"

definition stop_with :: "NextAction option \<Rightarrow> slot_reason \<Rightarrow> 'a step" where
  "stop_with a r s = (Stop a r, s)"

definition stop_block :: "NextAction option \<Rightarrow> slot_reason \<Rightarrow> 'a step" where
  "stop_block a why s = (let s' = block_slot why s in (Stop a (rs_reason s'), s'))"

definition stop_pause :: "NextAction option \<Rightarrow> slot_reason \<Rightarrow> 'a step" where
  "stop_pause a why s = (Stop a why, s\<lparr>rs_state := PAUSE_ENTRIES, rs_reason := why\<rparr>)"


section \<open>The slot's world\<close>

record digests =
  dg_portfolio :: "string \<Rightarrow> rat \<Rightarrow> (string \<times> rat) list \<Rightarrow> string"
  dg_close :: "string \<Rightarrow> string \<Rightarrow> string \<Rightarrow> rat list \<Rightarrow> string"
  dg_follower :: "(string \<times> rat \<times> int option) list \<Rightarrow> string"
  dg_catalog :: "(string \<times> CatalogMarket option) list \<Rightarrow> string"

text \<open>The clock readings of one drive: the action clock when the rate is checked, and the gate's clock.\<close>

record drive_clock =
  dk_ready :: int
  dk_rate :: int
  dk_gate :: int
  dk_locked :: int

definition effective_config :: "ContinuousRuntime \<Rightarrow> RuntimeSlot \<Rightarrow> ContinuousSlotConfig" where
  "effective_config rt s = (config_of s)\<lparr>allowed_markets := allowed_of rt s\<rparr>"

definition order_rules_of :: "ContinuousRuntime \<Rightarrow> string \<Rightarrow> perp_rules result" where
  "order_rules_of rt market =
     rbind (revision_market (rt_catalog rt) market) (\<lambda>spec.
     case spec of
       None \<Rightarrow> Inl (ValueError ''market has no catalog order rules'')
     | Some c \<Rightarrow> Inr ((perp_rules_default (cm_symbol c) (cm_sz_decimals c) (cm_max_leverage c))
                       \<lparr>margin_mode := cm_margin_mode c\<rparr>))"

definition follower_positions_of :: "RuntimeSlot \<Rightarrow> (string \<times> rat position) list" where
  "follower_positions_of s = (case rs_follower s of None \<Rightarrow> [] | Some f \<Rightarrow> ft_positions f)"

definition needed :: "ContinuousRuntime \<Rightarrow> RuntimeSlot \<Rightarrow> string list result" where
  "needed rt s =
     rbind (unresolved_of s) (\<lambda>unresolved.
     let held = follower_positions_of s;
         values = fold (\<lambda>(m, v). AList.update m v) unresolved
                    (fold (\<lambda>(m, p). AList.update m (pos_size p)) held (rs_attributable s))
     in Inr (sort (map fst (filter (\<lambda>(m, v). v \<noteq> 0 \<and>
           (m \<in> set (allowed_of rt s) \<or> m \<in> fst ` set held \<or> m \<in> fst ` set unresolved)) values))))"

definition attributable_positions :: "ContinuousRuntime \<Rightarrow> RuntimeSlot \<Rightarrow> (string \<times> dec position) list" where
  "attributable_positions rt s =
     (let allowed = allowed_of rt s; source = sn_positions (source_snapshot (rs_account s))
      in map (\<lambda>(m, v). (m, case map_of source m of
             None \<Rightarrow> \<lparr>pos_coin = m, pos_size = Fin v, pos_entry_px = None, pos_leverage = None, pos_updated_ms = 0\<rparr>
           | Some p \<Rightarrow> \<lparr>pos_coin = pos_coin p, pos_size = Fin v, pos_entry_px = pos_entry_px p,
                        pos_leverage = pos_leverage p, pos_updated_ms = pos_updated_ms p\<rparr>))
         (filter (\<lambda>(m, v). m \<notin> set (rs_pending_catalog s) \<and> v \<noteq> 0 \<and> (allowed = [] \<or> m \<in> set allowed))
            (rs_attributable s)))"


section \<open>Closing actions\<close>

definition close_action :: "string \<Rightarrow> string \<Rightarrow> rat \<Rightarrow> action_reason \<Rightarrow> NextAction" where
  "close_action desired_id market projected why =
     \<lparr>n_desired_id = desired_id, n_market = market, n_side = (if 0 < projected then ''sell'' else ''buy''),
      n_size = dabs projected, n_reduce_only = True, n_reason = why\<rparr>"

definition fail_close_text :: "RuntimeSlot \<Rightarrow> string" where
  "fail_close_text s = (if given_text (rs_fail_close_reason s) then the (rs_fail_close_reason s) else ''requested'')"

definition forced_close_action :: "digests \<Rightarrow> RuntimeSlot \<Rightarrow> NextAction option result" where
  "forced_close_action dg s =
     rbind (unresolved_of s) (\<lambda>unresolved.
     Inr (map_option (\<lambda>(m, p).
            let projected = dadd (pos_size p) (dget unresolved m 0)
            in close_action (dg_close dg ''fail-close-v1'' (slot_id (config_of s)) m [projected]) m projected
                 (FailClose (fail_close_text s)))
          (find (\<lambda>(m, p). dget unresolved m 0 = 0 \<and> dadd (pos_size p) (dget unresolved m 0) \<noteq> 0)
             (sort_key fst (follower_positions_of s)))))"

fun first_fresh :: "(string \<Rightarrow> MarketSnapshot option result) \<Rightarrow> (string \<times> rat \<times> rat) list \<Rightarrow> (string \<times> rat \<times> rat) option result" where
  "first_fresh snap [] = Inr None"
| "first_fresh snap (c # cs) =
     rbind (snap (fst c)) (\<lambda>found. if found \<noteq> None then Inr (Some c) else first_fresh snap cs)"

definition reduction_candidates :: "RuntimeSlot \<Rightarrow> (string \<times> rat) list \<Rightarrow> (string \<times> rat \<times> rat) list" where
  "reduction_candidates s unresolved =
     filter (\<lambda>(m, projected, source). projected \<noteq> 0 \<and> dget unresolved m 0 = 0 \<and> (source = 0 \<or> opposite source projected))
       (map (\<lambda>(m, p). (m, dadd (pos_size p) (dget unresolved m 0), dget (rs_attributable s) m 0))
          (sort_key fst (follower_positions_of s)))"

definition market_now :: "ContinuousRuntime \<Rightarrow> int \<Rightarrow> string \<Rightarrow> MarketSnapshot option result" where
  "market_now rt now market = fresh_snapshot (rt_market rt) market now (rt_market_age_ms rt)"

definition provable_reduction ::
  "digests \<Rightarrow> ContinuousRuntime \<Rightarrow> RuntimeSlot \<Rightarrow> (string \<times> rat) list \<Rightarrow> int \<Rightarrow> NextAction option result" where
  "provable_reduction dg rt s unresolved now =
     (case reduction_candidates s unresolved of
        [] \<Rightarrow> Inr None
      | c # cs \<Rightarrow>
          rbind (first_fresh (market_now rt now) (c # cs)) (\<lambda>found.
          let (m, projected, source) = (case found of Some x \<Rightarrow> x | None \<Rightarrow> c)
          in Inr (Some (close_action (dg_close dg ''provable-close-v1'' (slot_id (config_of s)) m [projected, source])
                    m projected CloseBeforeReplan))))"


section \<open>Exposure\<close>

definition pending_of :: "ContinuousRuntime \<Rightarrow> string \<Rightarrow> RuntimeSlot \<Rightarrow> (string \<times> rat) list result" where
  "pending_of rt i s = (let r = dget (rt_reservations rt) i [] in if r \<noteq> [] then Inr r else unresolved_of s)"

type_synonym exposure_row = "string \<times> (string \<times> rat) list \<times> (string \<times> rat) list"

text \<open>The confirmed and the projected sizes of every slot, or \<open>None\<close> when the truth of one is stale.\<close>

fun exposure_rows :: "ContinuousRuntime \<Rightarrow> int \<Rightarrow> (string \<times> RuntimeSlot) list \<Rightarrow> exposure_row list option result" where
  "exposure_rows rt now [] = Inr (Some [])"
| "exposure_rows rt now ((i, s) # rest) =
     (if \<not> follower_fresh rt s now then Inr None
      else rbind (sizes (follower_positions_of s)) (\<lambda>base.
           rbind (pending_of rt i s) (\<lambda>pending.
           rbind (exposure_rows rt now rest) (\<lambda>rows.
           Inr (map_option (Cons (i, nz base, nz (add_sizes pending base))) rows)))))"

text \<open>The markets of one row; the notional of the larger of its confirmed and projected size in each.\<close>

definition row_markets :: "exposure_row \<Rightarrow> string list" where
  "row_markets row = (case row of (_, base, projected) \<Rightarrow> remdups (map fst base @ map fst projected))"

definition row_size :: "exposure_row \<Rightarrow> string \<Rightarrow> rat" where
  "row_size row m = (case row of (_, base, projected) \<Rightarrow> max (dabs (dget base m 0)) (dabs (dget projected m 0)))"

fun gross_of :: "(string \<Rightarrow> rat option result) \<Rightarrow> (string \<Rightarrow> rat) \<Rightarrow> string list \<Rightarrow> rat \<Rightarrow> (string + rat) result" where
  "gross_of mark size_of [] acc = Inr (Inr acc)"
| "gross_of mark size_of (m # ms) acc =
     rbind (mark m) (\<lambda>px. case px of
       None \<Rightarrow> Inr (Inl m)
     | Some p \<Rightarrow> gross_of mark size_of ms (dadd acc (dmul (size_of m) p)))"

definition mark_of :: "ContinuousRuntime \<Rightarrow> int \<Rightarrow> (string \<times> string) \<Rightarrow> rat \<Rightarrow> string \<Rightarrow> string \<Rightarrow> rat option result" where
  "mark_of rt now own price i m =
     (if (i, m) = own then Inr (Some price)
      else rbind (market_now rt now m) (\<lambda>snap. Inr (map_option sm_mark_px snap)))"

fun gross_rows ::
  "(string \<Rightarrow> string \<Rightarrow> rat option result) \<Rightarrow> exposure_row list \<Rightarrow> (string + (string \<times> rat) list) result" where
  "gross_rows mark [] = Inr (Inr [])"
| "gross_rows mark (row # rows) =
     rbind (gross_of (mark (fst row)) (row_size row) (row_markets row) 0) (\<lambda>g. case g of
       Inl m \<Rightarrow> Inr (Inl m)
     | Inr subtotal \<Rightarrow> rbind (gross_rows mark rows) (\<lambda>rest. case rest of
           Inl m \<Rightarrow> Inr (Inl m)
         | Inr gs \<Rightarrow> Inr (Inr ((fst row, subtotal) # gs))))"

definition own_row :: "string \<Rightarrow> string \<Rightarrow> rat \<Rightarrow> exposure_row list \<Rightarrow> exposure_row list" where
  "own_row i market after rows =
     map (\<lambda>(j, base, projected). if j = i then (j, base, AList.update market after projected) else (j, base, projected)) rows"

definition slot_cap :: "RuntimeSlot \<Rightarrow> rat \<Rightarrow> rat" where
  "slot_cap s equity =
     min (max_gross_exposure_usd (config_of s)) (dmul equity (of_int (ContinuousSlotConfig.max_leverage (config_of s))))"

definition all_slots :: "ContinuousRuntime \<Rightarrow> RuntimeSlot \<Rightarrow> (string \<times> RuntimeSlot) list" where
  "all_slots rt s = AList.update (slot_id (config_of s)) s (rt_slots rt)"

definition caps_blocker :: "ContinuousRuntime \<Rightarrow> RuntimeSlot \<Rightarrow> rat \<Rightarrow> (string \<times> rat) list \<Rightarrow> string option" where
  "caps_blocker rt s equity gross =
     (if slot_cap s equity < dget gross (slot_id (config_of s)) 0
      then Some ''projected slot gross exceeds collateral/config cap''
      else if max_combined_gross_usd (bound_plan (rt_plan rt)) < dsum (map snd gross)
      then Some ''projected combined gross exceeds the plan cap''
      else None)"

definition exposure :: "ContinuousRuntime \<Rightarrow> RuntimeSlot \<Rightarrow> NextAction \<Rightarrow> rat \<Rightarrow> int \<Rightarrow> string option result" where
  "exposure rt s action price now =
     (case rs_follower s of
        None \<Rightarrow> Inl (AssertionError ''follower is not None'')
      | Some f \<Rightarrow>
          let i = slot_id (config_of s); market = n_market action in
          rbind (sizes (ft_positions f)) (\<lambda>base.
          rbind (pending_of rt i s) (\<lambda>pending.
          let held_size = dget (add_sizes pending base) market 0;
              after = dadd held_size (signed_size action)
          in if dabs after \<le> dabs held_size then Inr None
             else rbind (exposure_rows rt now (all_slots rt s)) (\<lambda>found. case found of
               None \<Rightarrow> Inr (Some ''combined exposure is unknown or stale for another slot'')
             | Some rows0 \<Rightarrow>
                 let rows = own_row i market after rows0
                 in if max_open_positions (config_of s) <
                       int (length (concat (map row_markets (filter (\<lambda>r. fst r = i) rows))))
                    then Inr (Some ''projected position count exceeds the slot cap'')
                    else rbind (gross_rows (mark_of rt now (i, market) price) rows) (\<lambda>g. case g of
                      Inl m \<Rightarrow> Inr (Some (''combined exposure lacks fresh '' @ m @ '' price''))
                    | Inr gross \<Rightarrow> Inr (caps_blocker rt s (ft_equity f) gross))))))"


section \<open>Choosing the order\<close>

datatype execution_class = Emergency_Reduction | Entry | Normal_Reduction

record drive_choice =
  dc_action :: NextAction
  dc_projected_before :: rat
  dc_increasing :: bool
  dc_class :: execution_class

text \<open>The entry of \<open>_plan_drive\<close>: a forced drive looks for a position to close, any other must be ready.\<close>

definition plan_entry :: "digests \<Rightarrow> ContinuousRuntime \<Rightarrow> drive_clock \<Rightarrow> int \<Rightarrow> bool \<Rightarrow> NextAction option step" where
  "plan_entry dg rt clock now force =
     dbind dget_slot (\<lambda>s.
     if force then
       if rs_state s = OPERATOR_STOP then stop_with None (rs_reason s)
       else if \<not> follower_fresh rt s now then stop_block None (Text ''fail-close requires fresh follower truth'')
       else dbind (dlift (unresolved_of s)) (\<lambda>unresolved.
            if unresolved \<noteq> [] then stop_block None (Text ''fail-close is resolving an earlier action'')
            else dbind (dlift (forced_close_action dg s)) (\<lambda>action. case action of
                   None \<Rightarrow> stop_pause None (Text (''fail-close complete: '' @ fail_close_text s))
                 | Some a \<Rightarrow> dgo (Some a)))
     else
       dbind (dlift (ready rt (dk_ready clock) now s)) (\<lambda>s1.
       dbind (dupdate (\<lambda>_. s1)) (\<lambda>_.
       if rs_state s1 \<in> {RECOVERING, OPERATOR_STOP} then stop_with None (rs_reason s1) else dgo None)))"

definition source_equity_of :: "RuntimeSlot \<Rightarrow> rat option" where
  "source_equity_of s =
     (let source = source_snapshot (rs_account s)
      in if as_mode (rs_account s) = ''standard'' then Some (perp_equity_total source)
         else map_option uc_total (sn_collateral source))"

text \<open>The loop that collects the mark price and the size precision of every needed market.\<close>

fun market_inputs ::
  "ContinuousRuntime \<Rightarrow> int \<Rightarrow> string list \<Rightarrow> (string + (string \<times> dec) list \<times> (string \<times> int) list) result" where
  "market_inputs rt now [] = Inr (Inr ([], []))"
| "market_inputs rt now (m # ms) =
     rbind (market_now rt now m) (\<lambda>snap. case snap of
       None \<Rightarrow> Inr (Inl m)
     | Some x \<Rightarrow> rbind (market_inputs rt now ms) (\<lambda>rest. case rest of
           Inl n \<Rightarrow> Inr (Inl n)
         | Inr (mids, decimals) \<Rightarrow> Inr (Inr ((m, Fin (sm_mark_px x)) # mids, (m, sm_sz_decimals x) # decimals))))"

definition decide_action ::
  "digests \<Rightarrow> ContinuousRuntime \<Rightarrow> RuntimeSlot \<Rightarrow> rat FollowerTruth \<Rightarrow> (string \<times> rat) list \<Rightarrow> rat \<Rightarrow> string list \<Rightarrow>
   (string \<times> dec) list \<Rightarrow> (string \<times> int) list \<Rightarrow> ActionDecision result" where
  "decide_action dg rt s f unresolved equity markets mids decimals =
     rbind (build_desired_portfolio (dg_portfolio dg) (effective_config rt s) (attributable_positions rt s)
              (Fin equity) (Fin (ft_equity f)) mids) (\<lambda>desired.
     rbind (rmap (\<lambda>m. rbind (order_rules_of rt m) (\<lambda>r. Inr (m, r))) markets) (\<lambda>rules.
     choose_next_action (effective_config rt s) desired
       \<lparr>v_follower_positions = ft_positions f, v_unresolved = unresolved, v_mids = mids,
        v_size_decimals = decimals, v_market_rules = Some rules\<rparr>))"

definition is_unresolved_blocker :: "blocker option \<Rightarrow> bool" where
  "is_unresolved_blocker b = (case b of Some (UnresolvedAction _) \<Rightarrow> True | _ \<Rightarrow> False)"

text \<open>The order toward the desired portfolio.\<close>

definition replan :: "digests \<Rightarrow> ContinuousRuntime \<Rightarrow> int \<Rightarrow> rat FollowerTruth \<Rightarrow> (string \<times> rat) list \<Rightarrow> NextAction step" where
  "replan dg rt now f unresolved =
     dbind dget_slot (\<lambda>s. case source_equity_of s of
       None \<Rightarrow> stop_block None (Text ''Unified source collateral truth is unavailable'')
     | Some equity \<Rightarrow>
         if equity \<le> 0 then stop_block None (Text ''source sizing equity is not positive and finite'')
         else dbind (dlift (needed rt s)) (\<lambda>markets.
              dbind (dlift (market_inputs rt now markets)) (\<lambda>inputs. case inputs of
                Inl m \<Rightarrow> stop_block None (Text (''market '' @ m @ '' is not executable''))
              | Inr (mids, decimals) \<Rightarrow>
                  dbind (dlift (decide_action dg rt s f unresolved equity markets mids decimals)) (\<lambda>decision.
                  case dec_action decision of
                    Some a \<Rightarrow> dgo a
                  | None \<Rightarrow>
                      (let why = (case dec_blocker decision of
                                    None \<Rightarrow> Text ''desired and follower state agree'' | Some b \<Rightarrow> EngineBlocker b)
                       in if is_unresolved_blocker (dec_blocker decision)
                          then dbind (dupdate (block_slot why)) (\<lambda>_. stop_with None why)
                          else stop_with None why)))))"

definition choose_action ::
  "digests \<Rightarrow> ContinuousRuntime \<Rightarrow> int \<Rightarrow> bool \<Rightarrow> NextAction option \<Rightarrow> drive_choice step" where
  "choose_action dg rt now force start =
     dbind dget_slot (\<lambda>s. case rs_follower s of
       None \<Rightarrow> dlift (Inl (AssertionError ''follower is not None''))
     | Some f \<Rightarrow>
         dbind (dlift (unresolved_of s)) (\<lambda>unresolved.
         dbind (case start of Some a \<Rightarrow> dgo (Some a) | None \<Rightarrow> dlift (provable_reduction dg rt s unresolved now)) (\<lambda>first.
         dbind (case first of Some a \<Rightarrow> dgo a | None \<Rightarrow> replan dg rt now f unresolved) (\<lambda>a.
         let held_size = dadd (size_in (ft_positions f) (n_market a)) (dget unresolved (n_market a) 0);
             increasing = dabs held_size < dabs (dadd held_size (signed_size a))
         in dgo \<lparr>dc_action = a, dc_projected_before = held_size, dc_increasing = increasing,
                 dc_class = (if force then Emergency_Reduction else if increasing then Entry else Normal_Reduction)\<rparr>))))"


section \<open>The gates\<close>

definition check_rejected :: "digests \<Rightarrow> ContinuousRuntime \<Rightarrow> NextAction \<Rightarrow> unit step" where
  "check_rejected dg rt a =
     dbind dget_slot (\<lambda>s. case map_of (rs_rejected_targets s) (n_market a) of
       None \<Rightarrow> dgo ()
     | Some r \<Rightarrow>
         dbind (if rj_desired_id r = n_desired_id a \<and>
                   Some (rj_follower_fingerprint r) =
                     map_option (\<lambda>f. rejection_follower_fingerprint (dg_follower dg) f (n_market a)) (rs_follower s)
                then dlift (rbind (catalog_markets_sha256 (dg_catalog dg) (rt_catalog rt) [n_market a]) (\<lambda>h.
                            Inr (rj_market_identity_sha256 r = h)))
                else dgo False) (\<lambda>unchanged.
         if unchanged then stop_with (Some a) (Text (''unchanged target remains blocked after rejection: '' @ rj_reason r))
         else dupdate (\<lambda>t. t\<lparr>rs_rejected_targets := AList.delete (n_market a) (rs_rejected_targets t)\<rparr>)))"

definition check_rate :: "drive_clock \<Rightarrow> bool \<Rightarrow> drive_choice \<Rightarrow> unit step" where
  "check_rate clock force c =
     dbind dget_slot (\<lambda>s.
     if rs_state s = PAUSE_ENTRIES \<and> dc_increasing c then stop_with (Some (dc_action c)) (rs_reason s)
     else dbind (dupdate (prune_rate (dk_rate clock))) (\<lambda>_.
          dbind dget_slot (\<lambda>s1.
          let entry_limit = action_limit_per_minute (config_of s1);
              reduction_limit = entry_limit + max 2 (entry_limit div 2)
          in if \<not> force \<and> (if dc_increasing c then entry_limit else reduction_limit) \<le> int (length (rs_action_times s1))
             then stop_pause (Some (dc_action c)) (Text ''slot action limit reached'')
             else dgo ())))"

text \<open>The retry that still applies to the order; one of an older target or source revision is dropped.\<close>

definition current_retry :: "NextAction \<Rightarrow> LiquidityRetry option step" where
  "current_retry a =
     dbind dget_slot (\<lambda>s. case map_of (rs_liquidity_retries s) (n_market a) of
       None \<Rightarrow> dgo None
     | Some r \<Rightarrow>
         if lr_desired_id r \<noteq> n_desired_id a \<or> lr_source_revision r \<noteq> dget (rs_source_revisions s) (n_market a) 0
         then dbind (dupdate (\<lambda>t. t\<lparr>rs_liquidity_retries := AList.delete (n_market a) (rs_liquidity_retries t)\<rparr>)) (\<lambda>_. dgo None)
         else dgo (Some r))"

text \<open>The hard price limit and the allowance over the best quote, by the class of the order.\<close>

definition price_policy ::
  "ContinuousRuntime \<Rightarrow> MarketSnapshot \<Rightarrow> drive_choice \<Rightarrow> Trigger option \<Rightarrow> (dec option \<times> dec option) result" where
  "price_policy rt snap c trigger =
     (case dc_class c of
        Entry \<Rightarrow>
          (case trigger of
             None \<Rightarrow> Inl (AssertionError ''trigger is not None'')
           | Some t \<Rightarrow>
               rbind (aggressive_ioc_price (Fin (tr_price t)) (n_side (dc_action c) = ''buy'')
                        (Fin (rt_max_tracking_bps rt)) (sm_sz_decimals snap)) (\<lambda>p.
               Inr (None, Some (Fin p))))
      | Emergency_Reduction \<Rightarrow> Inr (Some (Fin (rt_emergency_slippage_bps rt)), None)
      | Normal_Reduction \<Rightarrow> Inr (Some (Fin (rt_reduction_slippage_bps rt)), None))"

text \<open>The order the book allows, cut to the notional cap of one order.\<close>

definition size_order ::
  "rat \<Rightarrow> MarketSnapshot \<Rightarrow> NextAction \<Rightarrow> dec option \<Rightarrow> dec option \<Rightarrow> ExecutableIoc option result" where
  "size_order max_notional snap a buffer hard =
     rbind (executable_ioc snap (n_side a = ''buy'') (Fin (n_size a)) buffer hard) (\<lambda>found. case found of
       None \<Rightarrow> Inr None
     | Some e \<Rightarrow>
         if dmul (ei_size e) (ei_limit_px e) \<le> max_notional then Inr (Some e)
         else rbind (py_div max_notional (ei_limit_px e)) (\<lambda>q.
              rbind (quantize_size (Fin q) (sm_sz_decimals snap)) (\<lambda>cap.
              if 0 < cap
              then executable_ioc snap (n_side a = ''buy'') (Fin (min (n_size a) (dabs cap))) buffer hard
              else Inr None)))"

text \<open>Waiting after an order that found no liquidity: new market data, then a change or the end of the delay.\<close>

definition check_retry :: "int \<Rightarrow> NextAction \<Rightarrow> MarketSnapshot \<Rightarrow> rat \<Rightarrow> LiquidityRetry \<Rightarrow> unit step" where
  "check_retry now a snap limit r =
     (if \<not> lr_require_market_observation r then dgo ()
      else let observed = (if lr_observe_context r then sm_context_received_ms snap
                           else max (sm_bbo_received_ms snap) (sm_book_received_ms snap))
           in if observed \<le> lr_after_observed_ms r
              then stop_with (Some a) (Text (''waiting for post-result market data after '' @ lr_reason r))
              else if liquidity_fingerprint snap (n_side a) limit (lr_observe_context r) = lr_liquidity_fingerprint r \<and>
                      now < lr_not_before_ms r
              then stop_with (Some a) (Text (''waiting before unchanged-liquidity retry after '' @ lr_reason r))
              else dgo ())"

text \<open>The sized order at the head of the gate: a fresh book, no pending wait, a trigger, a price.\<close>

definition gate_order ::
  "ContinuousRuntime \<Rightarrow> int \<Rightarrow> drive_choice \<Rightarrow> (MarketSnapshot \<times> ExecutableIoc \<times> int \<times> int) step" where
  "gate_order rt now c =
     (let a = dc_action c; m = n_market a in
     dbind (dlift (market_now rt now m)) (\<lambda>found. case found of
       None \<Rightarrow> stop_block (Some a) (Text (''market '' @ m @ '' became stale before send''))
     | Some snap \<Rightarrow>
         dbind (current_retry a) (\<lambda>retry.
         dbind (case retry of
                  Some r \<Rightarrow> if \<not> lr_require_market_observation r \<and> now < lr_not_before_ms r
                            then stop_with (Some a) (Text (''waiting after '' @ lr_reason r)) else dgo ()
                | None \<Rightarrow> dgo ()) (\<lambda>_.
         dbind dget_slot (\<lambda>s.
         let trigger = (if dc_increasing c then map_of (rs_triggers s) m else None)
         in if dc_increasing c \<and> trigger = None
            then stop_pause (Some a) (Text ''entry has no accepted post-baseline source fill'')
            else
              dbind (dlift (price_policy rt snap c trigger)) (\<lambda>(buffer, hard).
              dbind (dlift (size_order (max_order_notional_usd (config_of s)) snap a buffer hard)) (\<lambda>sized. case sized of
                None \<Rightarrow>
                  if dc_increasing c
                  then stop_pause (Some a) (Text ''latest target is waiting: current BBO is outside the source-fill price cap or has no executable liquidity'')
                  else stop_block (Some a) (Text ''reduction has no executable liquidity inside its price envelope'')
              | Some e \<Rightarrow>
                  dbind (case retry of None \<Rightarrow> dgo 0
                         | Some r \<Rightarrow>
                             dbind (check_retry now a snap (ei_limit_px e) r) (\<lambda>_.
                             dbind (dupdate (\<lambda>t. t\<lparr>rs_liquidity_retries := AList.delete m (rs_liquidity_retries t)\<rparr>)) (\<lambda>_.
                             dgo (lr_retry_count r)))) (\<lambda>count.
                  dgo (snap, e, count, dget (rs_source_revisions s) m 0)))))))))"

text \<open>The checks on the sized order; the result is the action with its final size.\<close>

definition approve_order :: "ContinuousRuntime \<Rightarrow> int \<Rightarrow> drive_choice \<Rightarrow> ExecutableIoc \<Rightarrow> NextAction step" where
  "approve_order rt now c e =
     (let a = dc_action c; a' = a\<lparr>n_size := ei_size e\<rparr> in
     dbind (dlift (order_rules_of rt (n_market a))) (\<lambda>rules.
     dbind dget_slot (\<lambda>s.
     dbind (dlift (preflight_hyperliquid_perp_order rules (Fin (ei_size e)) (Fin (ei_limit_px e)) (n_side a)
              (Fin (max_order_notional_usd (config_of s))) (n_reduce_only a) (Fin (dc_projected_before c))
              (leverage_in (follower_positions_of s) (n_market a)) None)) (\<lambda>pre.
     if \<not> placeable pre then stop_pause (Some a) (PreflightRejected (reason pre))
     else if rt_locks rt = [] \<or> \<not> list_all id (rt_locks rt)
     then stop_block (Some a') (Text ''exclusive account/signer ownership was lost'')
     else dbind (dlift (exposure rt s a' (ei_limit_px e) now)) (\<lambda>blocked. case blocked of
            Some why \<Rightarrow> stop_pause (Some a') (Text why)
          | None \<Rightarrow> if \<not> rt_execution_enabled rt then stop_with (Some a') (Text ''execution disarmed'') else dgo a')))))"

definition select_order ::
  "digests \<Rightarrow> ContinuousRuntime \<Rightarrow> drive_clock \<Rightarrow> int \<Rightarrow> bool \<Rightarrow> (NextAction \<times> MarketSnapshot \<times> ExecutableIoc \<times> int \<times> int) step" where
  "select_order dg rt clock now force =
     dbind (plan_entry dg rt clock now force) (\<lambda>start.
     dbind (choose_action dg rt now force start) (\<lambda>c.
     dbind (check_rejected dg rt (dc_action c)) (\<lambda>_.
     dbind (check_rate clock force c) (\<lambda>_.
     let gate_now = now + max 0 (dk_locked clock - dk_gate clock) in
     dbind (gate_order rt gate_now c) (\<lambda>(snap, e, count, revision).
     dbind (approve_order rt gate_now c e) (\<lambda>a.
     dgo (a, snap, e, count, revision)))))))"

text \<open>The reservation is stored before the epoch is read, so it stays when there is no connection.\<close>

definition plan_drive ::
  "digests \<Rightarrow> ContinuousRuntime \<Rightarrow> drive_clock \<Rightarrow> int \<Rightarrow> bool \<Rightarrow> RuntimeSlot \<Rightarrow>
   PreparedIoc drive \<times> ContinuousRuntime \<times> RuntimeSlot" where
  "plan_drive dg rt clock now force s =
     (case select_order dg rt clock now force s of
        (Stop a r, s1) \<Rightarrow> (Stop a r, rt, s1)
      | (Raised e, s1) \<Rightarrow> (Raised e, rt, s1)
      | (Go (a, snap, ex, count, revision), s1) \<Rightarrow>
          (let rt1 = rt\<lparr>rt_reservations := AList.update (slot_id (config_of s)) [(n_market a, signed_size a)]
                          (rt_reservations rt)\<rparr>
           in case capture_epoch (rt_mux rt) of
                Inl e \<Rightarrow> (Raised e, rt1, s1)
              | Inr epoch \<Rightarrow>
                  (Go \<lparr>pi_action = a, pi_snapshot = snap, pi_executable = ex, pi_required_epoch = epoch,
                       pi_gate_clock = dk_gate clock, pi_retry_count = count, pi_source_revision = revision\<rparr>,
                   rt1, s1\<lparr>rs_truth_revision := rs_truth_revision s1 + 1\<rparr>)))"

end
