(* ===== verification/Runtime_Outcome.thy ===== *)
theory Runtime_Outcome
  imports Runtime_Drive
begin

text \<open>
  \<^verbatim>\<open>continuous_runtime.py\<close>, after the order: folding the outcome of an execution into the slot, the
  drive as a whole, the adoption of follower truth read back from the exchange, and of a new
  catalog revision.
\<close>

section \<open>Folding an outcome\<close>

text \<open>Whether one of some fragments occurs in a text.\<close>

definition has_fragment :: "string list \<Rightarrow> string \<Rightarrow> bool" where
  "has_fragment fragments text \<longleftrightarrow> list_ex (\<lambda>f. sublist f text) fragments"

definition no_liquidity_fragments :: "string list" where
  "no_liquidity_fragments =
     [''could not immediately match against any resting orders'', ''no liquidity'', ''ioc cancel'']"

definition transient_fragments :: "string list" where
  "transient_fragments = [''rate limit'', ''temporar'', ''overload'', ''unavailable'', ''try again'', ''timeout'']"

definition market_state_fragments :: "string list" where
  "market_state_fragments =
     [''positionincreaseatopeninterestcap'', ''positionflipatopeninterestcap'', ''tooaggressiveatopeninterestcap'',
      ''openinterestincrease'', ''order would increase open interest while open interest is capped'',
      ''order rejected due to price more aggressive than oracle while at open interest cap'',
      ''order would increase open interest too quickly'', ''order price too far from oracle'']"

text \<open>The text after the first colon, if there is one.\<close>

definition reason_detail :: "string \<Rightarrow> string" where
  "reason_detail t =
     (if CHR '':'' \<in> set t then py_strip (tl (dropWhile (\<lambda>c. c \<noteq> CHR '':'') t)) else t)"

datatype outcome_class = NoLiquidity | Transient | MarketState | Refused | Executed | Unsettled | Nothing

definition classify_outcome :: "PostResult \<Rightarrow> outcome_class" where
  "classify_outcome r =
     (let lowered = py_lower (pr_reason r); detail = reason_detail lowered
      in if pr_outcome r = PO_UNKNOWN then Unsettled
         else if pr_outcome r = PO_CANCELLED \<or> pr_outcome r = PO_REJECTED \<and> has_fragment no_liquidity_fragments lowered
         then NoLiquidity
         else if pr_outcome r = PO_REJECTED
         then if has_fragment transient_fragments detail then Transient
              else if has_fragment market_state_fragments detail then MarketState
              else Refused
         else if pr_outcome r \<in> {PO_FILLED, PO_PARTIALLY_FILLED} then Executed
         else Nothing)"

definition TRANSIENT_REJECTION_RETRY_MS :: int where
  "TRANSIENT_REJECTION_RETRY_MS = 5000"

text \<open>The retry entry of an order; \<open>clock\<close> is the action clock when the outcome was seen.\<close>

definition retry_entry ::
  "PreparedIoc \<Rightarrow> int \<Rightarrow> int \<Rightarrow> bool \<Rightarrow> bool \<Rightarrow> string \<Rightarrow> LiquidityRetry" where
  "retry_entry planned clock delay observe use_context why =
     (let snap = pi_snapshot planned; a = pi_action planned;
          floor = max clock (max (sm_bbo_received_ms snap) (sm_book_received_ms snap))
      in \<lparr>lr_desired_id = n_desired_id a, lr_source_revision = pi_source_revision planned,
          lr_not_before_ms = clock + delay,
          lr_after_observed_ms = (if use_context then max floor (sm_context_received_ms snap) else floor),
          lr_liquidity_fingerprint = liquidity_fingerprint snap (n_side a) (ei_limit_px (pi_executable planned)) use_context,
          lr_retry_count = pi_retry_count planned + 1, lr_require_market_observation = observe,
          lr_observe_context = use_context, lr_reason = why\<rparr>)"

definition put_retry :: "string \<Rightarrow> LiquidityRetry \<Rightarrow> RuntimeSlot \<Rightarrow> RuntimeSlot" where
  "put_retry m r s = s\<lparr>rs_liquidity_retries := AList.update m r (rs_liquidity_retries s)\<rparr>"

definition put_delayed_retry :: "PreparedIoc \<Rightarrow> int \<Rightarrow> bool \<Rightarrow> string \<Rightarrow> unit step" where
  "put_delayed_retry planned clock use_context why =
     dbind (dlift (liquidity_retry_delay_ms (pi_retry_count planned + 1))) (\<lambda>delay.
     dupdate (put_retry (n_market (pi_action planned)) (retry_entry planned clock delay True use_context why)))"

definition same_revision :: "PreparedIoc \<Rightarrow> RuntimeSlot \<Rightarrow> bool" where
  "same_revision planned s \<longleftrightarrow> dget (rs_source_revisions s) (n_market (pi_action planned)) 0 = pi_source_revision planned"

text \<open>The confirmed size after a fill; \<open>None\<close> when a reduce-only fill would have crossed zero.\<close>

definition filled_positions ::
  "NextAction \<Rightarrow> rat \<Rightarrow> (string \<times> rat position) list \<Rightarrow> (string \<times> rat position) list option" where
  "filled_positions a filled positions =
     (let m = n_market a;
          prior = (case map_of positions m of
                     Some p \<Rightarrow> p
                   | None \<Rightarrow> \<lparr>pos_coin = m, pos_size = 0, pos_entry_px = None, pos_leverage = None, pos_updated_ms = 0\<rparr>);
          signed = (if n_side a = ''buy'' then filled else dneg filled);
          sz = dadd (pos_size prior) signed
      in if n_reduce_only a \<and> opposite sz (pos_size prior) then None
         else if sz \<noteq> 0 then Some (AList.update m (prior\<lparr>pos_coin := m, pos_size := sz\<rparr>) positions)
         else Some (AList.delete m positions))"

definition fold_fill :: "NextAction \<Rightarrow> PostResult \<Rightarrow> PreparedIoc \<Rightarrow> int \<Rightarrow> unit step" where
  "fold_fill a r planned clock =
     dbind (dupdate (\<lambda>t. t\<lparr>rs_liquidity_retries := AList.delete (n_market a) (rs_liquidity_retries t),
                           rs_rejected_targets := AList.delete (n_market a) (rs_rejected_targets t)\<rparr>)) (\<lambda>_.
     dbind dget_slot (\<lambda>s. case rs_follower s of
       None \<Rightarrow> dlift (Inl (AssertionError ''slot.follower is not None''))
     | Some f \<Rightarrow>
         (case filled_positions a (pr_filled_size r) (ft_positions f) of
            None \<Rightarrow> dupdate (block_slot (Text ''reduce-only fill crossed confirmed follower truth''))
          | Some ps \<Rightarrow>
              dbind (dupdate (\<lambda>t. t\<lparr>rs_follower := Some (f\<lparr>ft_positions := ps\<rparr>)\<rparr>)) (\<lambda>_.
              if pr_outcome r = PO_PARTIALLY_FILLED \<and> same_revision planned s
              then put_delayed_retry planned clock False ''terminal IOC partial fill''
              else dgo ()))))"

definition fold_outcome ::
  "digests \<Rightarrow> ContinuousRuntime \<Rightarrow> PostResult \<Rightarrow> PreparedIoc \<Rightarrow> int \<Rightarrow> unit step" where
  "fold_outcome dg rt r planned clock =
     (let a = pi_action planned; m = n_market a in
     dbind dget_slot (\<lambda>s. case classify_outcome r of
       Unsettled \<Rightarrow> dupdate (block_slot (Text ''IOC outcome is unknown''))
     | NoLiquidity \<Rightarrow>
         if same_revision planned s then put_delayed_retry planned clock False ''terminal IOC no-fill'' else dgo ()
     | Transient \<Rightarrow>
         if same_revision planned s
         then dupdate (put_retry m (retry_entry planned clock TRANSIENT_REJECTION_RETRY_MS False False
                         ''transient exchange rejection''))
         else dgo ()
     | MarketState \<Rightarrow>
         if same_revision planned s then put_delayed_retry planned clock True ''venue market-state rejection'' else dgo ()
     | Refused \<Rightarrow>
         if \<not> same_revision planned s then dgo ()
         else (case rs_follower s of
                 None \<Rightarrow> dlift (Inl (AssertionError ''slot.follower is not None''))
               | Some f \<Rightarrow>
                   dbind (dlift (catalog_markets_sha256 (dg_catalog dg) (rt_catalog rt) [m])) (\<lambda>h.
                   dupdate (\<lambda>t. t\<lparr>rs_rejected_targets := AList.update m
                     \<lparr>rj_desired_id = n_desired_id a,
                      rj_follower_fingerprint = rejection_follower_fingerprint (dg_follower dg) f m,
                      rj_market_identity_sha256 = h, rj_reason = pr_reason r\<rparr> (rs_rejected_targets t)\<rparr>)))
     | Executed \<Rightarrow> fold_fill a r planned clock
     | Nothing \<Rightarrow> dgo ()))"


section \<open>One drive\<close>

definition release_reservation :: "string \<Rightarrow> ContinuousRuntime \<Rightarrow> ContinuousRuntime" where
  "release_reservation i rt = rt\<lparr>rt_reservations := AList.delete i (rt_reservations rt)\<rparr>"

definition attempted_at :: "ExecutionAttempt \<Rightarrow> int \<Rightarrow> int option" where
  "attempted_at attempt clock =
     (case a_send_attempted_ms (ea_record attempt) of
        Some t \<Rightarrow> Some t
      | None \<Rightarrow> if pr_outcome (ea_result attempt) \<noteq> PO_NOT_SENT then Some clock else None)"

text \<open>The section after \<open>execute_ioc\<close> returned; \<open>c1\<close> and \<open>c2\<close> are readings of the action clock.\<close>

definition finish_drive ::
  "digests \<Rightarrow> ContinuousRuntime \<Rightarrow> ExecutionAttempt \<Rightarrow> PreparedIoc \<Rightarrow> int \<Rightarrow> int \<Rightarrow> RuntimeSlot \<Rightarrow>
   unit drive \<times> ContinuousRuntime \<times> RuntimeSlot" where
  "finish_drive dg rt attempt planned c1 c2 s =
     (let rt1 = release_reservation (slot_id (config_of s)) rt;
          s1 = (case attempted_at attempt c1 of
                  None \<Rightarrow> s | Some t \<Rightarrow> s\<lparr>rs_action_times := rs_action_times s @ [t]\<rparr>)
      in case fold_outcome dg rt (ea_result attempt) planned c2 s1 of
           (Go _, s2) \<Rightarrow> (Go (), rt1, s2\<lparr>rs_truth_revision := rs_truth_revision s2 + 1\<rparr>)
         | (Stop a r, s2) \<Rightarrow> (Stop a r, rt1, s2)
         | (Raised e, s2) \<Rightarrow> (Raised e, rt1, s2))"

text \<open>The section after \<open>execute_ioc\<close> raised; a cancelled task leaves its own reason.\<close>

definition fail_drive :: "ContinuousRuntime \<Rightarrow> error \<Rightarrow> RuntimeSlot \<Rightarrow> ContinuousRuntime \<times> RuntimeSlot" where
  "fail_drive rt e s =
     (release_reservation (slot_id (config_of s)) rt,
      block_slot (if e = Killed then Text ''IOC task was cancelled; reconciliation is required'' else FrameFailed e) s)"

text \<open>\<open>_safe_drive\<close>'s handler.\<close>

definition safe_drive :: "error \<Rightarrow> RuntimeSlot \<Rightarrow> RuntimeSlot" where
  "safe_drive e s = block_slot (FrameFailed e) s"

definition start_drive ::
  "digests \<Rightarrow> ContinuousRuntime \<Rightarrow> drive_clock \<Rightarrow> int \<Rightarrow> bool \<Rightarrow> RuntimeSlot \<Rightarrow>
   PreparedIoc option \<times> ContinuousRuntime \<times> RuntimeSlot" where
  "start_drive dg rt clock now force s =
     (case plan_drive dg rt clock now force s of
        (Go p, rt1, s1) \<Rightarrow> (Some p, rt1, s1)
      | (Stop _ _, rt1, s1) \<Rightarrow> (None, rt1, s1)
      | (Raised e, rt1, s1) \<Rightarrow> (None, rt1, safe_drive e s1))"


section \<open>Follower truth\<close>

definition truth_of :: "ContinuousRuntime \<Rightarrow> RuntimeSlot \<Rightarrow> dec FollowerTruth \<Rightarrow> int \<Rightarrow> rat FollowerTruth result" where
  "truth_of rt s truth now =
     (let allowed = allowed_of rt s in
      rbind (require (is_finite (ft_equity truth) \<and> 0 < dec_val (ft_equity truth) \<and>
                      0 < ft_observed_ms truth \<and> ft_observed_ms truth \<le> now)
               (ValueError ''follower WS truth has invalid equity/time'')) (\<lambda>_.
      rbind (rfold (\<lambda>(market, p) acc.
               rbind (canonical_market_symbol market) (\<lambda>name.
               rbind (require (is_finite (pos_size p)) (ValueError ''follower position is non-finite'')) (\<lambda>_.
               rbind (if b_dynamic_market_eligibility (rs_bound s)
                      then rbind (revision_market (rt_catalog rt) name) (\<lambda>spec.
                           Inr (case spec of None \<Rightarrow> False | Some c \<Rightarrow> cm_is_delisted c \<or> cm_removal_tombstone c))
                      else Inr False) (\<lambda>managed_tombstone.
               let v = dec_val (pos_size p) in
               rbind (require (\<not> (v \<noteq> 0 \<and> allowed \<noteq> [] \<and> name \<notin> set allowed \<and> \<not> managed_tombstone))
                        (ValueError ''follower has unmanaged exposure'')) (\<lambda>_.
               Inr (if v = 0 then acc
                    else AList.update name \<lparr>pos_coin = name, pos_size = v, pos_entry_px = pos_entry_px p,
                           pos_leverage = pos_leverage p, pos_updated_ms = pos_updated_ms p\<rparr> acc)))))) (ft_positions truth) []) (\<lambda>positions.
      Inr \<lparr>ft_positions = positions, ft_equity = dec_val (ft_equity truth), ft_observed_ms = ft_observed_ms truth,
           ft_dex_observed_ms = ft_dex_observed_ms truth, ft_available = ft_available truth\<rparr>)))"

text \<open>The guard at the start of \<open>reconcile_follower\<close>; \<open>None\<close> when the reconciliation goes on.\<close>

definition reconcile_blocked :: "ContinuousRuntime \<Rightarrow> RuntimeSlot \<Rightarrow> slot_reason option" where
  "reconcile_blocked rt s =
     (if rs_state s = OPERATOR_STOP then Some (rs_reason s)
      else if dget (rt_reservations rt) (slot_id (config_of s)) [] \<noteq> []
      then Some (Text ''follower refresh deferred during in-flight action'')
      else None)"

text \<open>
  The last section of \<open>reconcile_follower\<close>: the truth is adopted unless the connection or the slot
  moved on while it was read.
\<close>

definition adopt_truth ::
  "ContinuousRuntime \<Rightarrow> int \<Rightarrow> int \<Rightarrow> dec FollowerTruth \<Rightarrow> int \<Rightarrow> RuntimeSlot \<Rightarrow> RuntimeSlot" where
  "adopt_truth rt epoch revision truth now s =
     (case capture_epoch (rt_mux rt) of
        Inl e \<Rightarrow> block_slot (FrameFailed e) s
      | Inr current \<Rightarrow>
          if current \<noteq> epoch then block_slot (Text ''follower WS reconciliation crossed a connection epoch'') s
          else if rs_truth_revision s \<noteq> revision then s
          else case truth_of rt s truth now of
            Inl e \<Rightarrow> block_slot (FrameFailed e) s
          | Inr f \<Rightarrow>
              let s1 = s\<lparr>rs_follower := Some f, rs_truth_revision := rs_truth_revision s + 1\<rparr>;
                  first = (rs_follower s = None);
                  s2 = (if first \<and> ft_positions f \<noteq> [] \<and> rs_attributable s = []
                        then case sizes (ft_positions f) of
                               Inl _ \<Rightarrow> s1
                             | Inr observed \<Rightarrow>
                                 if (case rs_restored_positions s of None \<Rightarrow> True | Some r \<Rightarrow> set r \<noteq> set observed)
                                 then s1\<lparr>rs_initial_nonflat := True\<rparr> else s1
                        else if rs_initial_nonflat s \<and> ft_positions f = [] then s1\<lparr>rs_initial_nonflat := False\<rparr>
                        else s1)
              in if first then s2\<lparr>rs_restored_positions := None\<rparr> else s2)"

text \<open>
  The section of \<open>_ensure_needed_dex_truth\<close> that merges the positions of one exchange into the truth.
\<close>

definition merge_dex_truth ::
  "ContinuousRuntime \<Rightarrow> string \<Rightarrow> int \<Rightarrow> int \<Rightarrow> (string \<times> rat position) list \<Rightarrow> int \<Rightarrow> RuntimeSlot \<Rightarrow> RuntimeSlot result" where
  "merge_dex_truth rt dex epoch revision parsed now s =
     rbind (capture_epoch (rt_mux rt)) (\<lambda>current.
     if current \<noteq> epoch \<or> rs_truth_revision s \<noteq> revision then Inr s
     else case rs_follower s of
       None \<Rightarrow> Inl (TypeError ''follower is None'')
     | Some f \<Rightarrow>
         rbind (rmap (\<lambda>(m, p). rbind (market_dex m) (\<lambda>d. Inr (d, (m, p)))) (ft_positions f)) (\<lambda>rows.
         let kept = map snd (filter (\<lambda>(d, _). d \<noteq> dex) rows)
         in Inr (s\<lparr>rs_follower := Some (f\<lparr>
                     ft_positions := sort_key fst (fold (\<lambda>(m, p). AList.update m p) parsed kept),
                     ft_dex_observed_ms := AList.update dex now (ft_dex_observed_ms f)\<rparr>),
                   rs_truth_revision := rs_truth_revision s + 1\<rparr>)))"


section \<open>A new catalog revision\<close>

text \<open>A pending market that the catalog now knows: copied exposure in a market that is not allowed becomes observation.\<close>

definition settle_pending :: "CatalogRevision \<Rightarrow> string list \<Rightarrow> string \<Rightarrow> RuntimeSlot \<Rightarrow> RuntimeSlot result" where
  "settle_pending catalog allowed market s =
     rbind (revision_market catalog market) (\<lambda>spec.
     if spec = None then Inr s
     else let s1 = s\<lparr>rs_pending_catalog := filter (\<lambda>m. m \<noteq> market) (rs_pending_catalog s)\<rparr>
          in if market \<in> set allowed then Inr s1
             else let size = dget (rs_attributable s) market 0
                  in Inr (s1\<lparr>rs_attributable := AList.delete market (rs_attributable s),
                            rs_unattributed := put_nz (rs_unattributed s) market
                              (dadd (dget (rs_unattributed s) market 0) size),
                            rs_triggers := AList.delete market (rs_triggers s)\<rparr>))"

definition catalog_slot :: "CatalogRevision \<Rightarrow> RuntimeSlot \<Rightarrow> (string list \<times> RuntimeSlot) result" where
  "catalog_slot catalog s =
     (let allowed = effective_allowed_markets (rs_bound s) catalog;
          scope = (if allowed = [] then None else Some allowed) in
      rbind (set_market_scope scope scope (rs_account s)) (\<lambda>account.
      rbind (rfold (settle_pending catalog allowed) (rs_pending_catalog s) (s\<lparr>rs_account := account\<rparr>)) (\<lambda>s1.
      Inr (allowed, s1))))"

end
