(* ===== verification/Runtime_Frame.thy ===== *)
theory Runtime_Frame
  imports Runtime_Outcome
begin

text \<open>
  What the operations on a slot leave alone. A view of a slot is a function of it; the locales state
  which fields it must not depend on for which operations, and their interpretations give the frame
  facts of the planning steps, of the source operations and of the execution of orders. The step
  relation \<open>slot_step\<close> collects every operation on a slot.
\<close>

section \<open>Inverting steps\<close>

named_theorems step_inv

lemma dbind_Go [step_inv]: "dbind m f s = (Go y, t) \<longleftrightarrow> (\<exists>x u. m s = (Go x, u) \<and> f x u = (Go y, t))"
  by (auto simp: dbind_def split: prod.splits drive.splits)

lemma dgo_Go [step_inv]: "dgo x s = (Go y, t) \<longleftrightarrow> y = x \<and> t = s"
  by (auto simp: dgo_def)

lemma dlift_Go [step_inv]: "dlift r s = (Go y, t) \<longleftrightarrow> r = Inr y \<and> t = s"
  by (auto simp: dlift_def split: sum.splits)

lemma dget_slot_Go [step_inv]: "dget_slot s = (Go y, t) \<longleftrightarrow> y = s \<and> t = s"
  by (auto simp: dget_slot_def)

lemma dupdate_Go [step_inv]: "dupdate f s = (Go y, t) \<longleftrightarrow> t = f s"
  by (auto simp: dupdate_def)

lemma stop_Go [step_inv]:
  "stop_with a r s = (Go y, t) \<longleftrightarrow> False" "stop_block a r s = (Go y, t) \<longleftrightarrow> False" "stop_pause a r s = (Go y, t) \<longleftrightarrow> False"
  by (auto simp: stop_with_def stop_block_def stop_pause_def Let_def)

lemma case_Go [step_inv]:
  "(if P then m else n) s = (Go z, t) \<longleftrightarrow> P \<and> m s = (Go z, t) \<or> \<not> P \<and> n s = (Go z, t)"
  "(case x of None \<Rightarrow> m | Some y \<Rightarrow> f y) s = (Go z, t) \<longleftrightarrow> x = None \<and> m s = (Go z, t) \<or> (\<exists>y. x = Some y \<and> f y s = (Go z, t))"
  "(case q of Inl l \<Rightarrow> g l | Inr r \<Rightarrow> h r) s = (Go z, t) \<longleftrightarrow> (\<exists>l. q = Inl l \<and> g l s = (Go z, t)) \<or> (\<exists>r. q = Inr r \<and> h r s = (Go z, t))"
  by (auto split: option.splits sum.splits)


section \<open>What planning leaves alone\<close>

text \<open>
  A view of a slot that does not depend on its state, its reason, its rate window, its rejections,
  its retries and its truth revision: no planning step changes it.
\<close>

definition keeps :: "(RuntimeSlot \<Rightarrow> 'v) \<Rightarrow> 'a step \<Rightarrow> bool" where
  "keeps g m \<longleftrightarrow> (\<forall>s. g (snd (m s)) = g s)"

named_theorems keeps_rules

lemma keeps_bind [keeps_rules]: "keeps g m \<Longrightarrow> (\<And>x. keeps g (f x)) \<Longrightarrow> keeps g (dbind m f)"
  by (auto simp: keeps_def dbind_def split: prod.splits drive.splits) (metis snd_conv)+

lemma keeps_pure [keeps_rules]: "keeps g (dgo x)" "keeps g (dlift r)" "keeps g dget_slot" "keeps g (stop_with a why)"
  by (auto simp: keeps_def dgo_def dlift_def dget_slot_def stop_with_def split: sum.splits)

lemma keeps_update [keeps_rules]: "(\<And>s. g (f s) = g s) \<Longrightarrow> keeps g (dupdate f)"
  by (auto simp: keeps_def dupdate_def)

lemma keeps_cases [keeps_rules]:
  "(P \<Longrightarrow> keeps g a) \<Longrightarrow> (\<not> P \<Longrightarrow> keeps g b) \<Longrightarrow> keeps g (if P then a else b)"
  "(x = None \<Longrightarrow> keeps g c) \<Longrightarrow> (\<And>y. x = Some y \<Longrightarrow> keeps g (d y)) \<Longrightarrow> keeps g (case x of None \<Rightarrow> c | Some y \<Rightarrow> d y)"
  "(\<And>l. q = Inl l \<Longrightarrow> keeps g (u l)) \<Longrightarrow> (\<And>r. q = Inr r \<Longrightarrow> keeps g (v r)) \<Longrightarrow> keeps g (case q of Inl l \<Rightarrow> u l | Inr r \<Rightarrow> v r)"
  "(\<And>i j. p = (i, j) \<Longrightarrow> keeps g (w i j)) \<Longrightarrow> keeps g (case p of (i, j) \<Rightarrow> w i j)"
  by (auto split: option.splits sum.splits prod.splits)

locale slot_view =
  fixes g :: "RuntimeSlot \<Rightarrow> 'v"
  assumes view_status: "g (s\<lparr>rs_state := st, rs_reason := why\<rparr>) = g s"
    and view_rate: "g (s\<lparr>rs_action_times := ts\<rparr>) = g s"
    and view_rejected: "g (s\<lparr>rs_rejected_targets := rj\<rparr>) = g s"
    and view_retries: "g (s\<lparr>rs_liquidity_retries := lr\<rparr>) = g s"
    and view_revision: "g (s\<lparr>rs_truth_revision := n\<rparr>) = g s"
begin

lemma view_block: "g (block_slot why s) = g s"
  by (simp add: block_slot_def view_status)

lemma view_prune: "g (prune_rate clock s) = g s"
  by (simp add: prune_rate_def view_rate)

lemma view_ready: "ready rt clock now s = Inr t \<Longrightarrow> g t = g s"
  by (auto simp: ready_def Let_def view_block view_status view_prune split: if_splits)

lemma keeps_stop: "keeps g (stop_block a why)" "keeps g (stop_pause a why)"
  by (auto simp: keeps_def stop_block_def stop_pause_def Let_def view_block view_status)

lemma keeps_entry: "keeps g (plan_entry dg rt clock now force)"
proof -
  have "g (snd (plan_entry dg rt clock now force s)) = g s" for s
  proof (cases force)
    case True
    have "keeps g (plan_entry dg rt clock now force)"
      unfolding plan_entry_def using True
      by (intro keeps_rules keeps_stop) auto
    then show ?thesis by (simp add: keeps_def)
  next
    case False
    then show ?thesis
      by (cases "ready rt (dk_ready clock) now s")
        (auto simp: plan_entry_def dbind_def dget_slot_def dlift_def dupdate_def stop_with_def dgo_def
          dest: view_ready)
  qed
  then show ?thesis by (simp add: keeps_def)
qed

lemma keeps_choose: "keeps g (choose_action dg rt now force start)"
  unfolding choose_action_def replan_def Let_def
  by (intro keeps_rules keeps_stop view_block)

lemma keeps_gates:
  "keeps g (check_rejected dg rt a)" "keeps g (check_rate clock force c)" "keeps g (current_retry a)"
  "keeps g (check_retry now a snap limit r)"
  unfolding check_rejected_def check_rate_def current_retry_def check_retry_def Let_def
  by (intro keeps_rules keeps_stop view_rejected view_prune view_retries)+

lemma keeps_order: "keeps g (gate_order rt now c)" "keeps g (approve_order rt now c e)"
  unfolding gate_order_def approve_order_def Let_def
  by (intro keeps_rules keeps_stop keeps_gates view_retries)+

lemma keeps_select: "keeps g (select_order dg rt clock now force)"
  unfolding select_order_def Let_def
  by (intro keeps_rules keeps_entry keeps_choose keeps_gates keeps_order)

lemma view_plan: "plan_drive dg rt clock now force s = (out, rt', t) \<Longrightarrow> g t = g s"
  using keeps_select [of dg rt clock now force]
  by (auto simp: plan_drive_def keeps_def Let_def view_revision dest: arg_cong [where f = snd]
      split: prod.splits drive.splits sum.splits) (metis snd_conv view_revision)+

end


interpretation plan_view: slot_view
  "\<lambda>s. (rs_bound s, rs_account s, rs_lane s, rs_journal s, rs_attributable s, rs_triggers s, rs_source_revisions s,
        rs_follower s, rs_fail_close_reason s)"
  by unfold_locales simp_all

lemma keeps_outcome: "keeps g m \<Longrightarrow> m s = (x, t) \<Longrightarrow> g t = g s"
  by (metis keeps_def snd_conv)


section \<open>All operations on a slot\<close>

text \<open>One step of a slot: any section the event loop can run on it, except the operator's re-arm.\<close>

inductive slot_step :: "RuntimeSlot \<Rightarrow> RuntimeSlot \<Rightarrow> bool" where
  source_frame: "slot_step s (slot_apply_source rt repair message epoch received s)"
| source_open: "slot_begin_connection received s = Inr (epoch, t) \<Longrightarrow> slot_step s t"
| source_gap: "slot_step s (slot_source_gap epoch why s)"
| evaluated: "ready rt clock now s = Inr t \<Longrightarrow> slot_step s t"
| planned: "plan_drive dg rt clock now force s = (outcome, rt', t) \<Longrightarrow> slot_step s t"
| finished: "finish_drive dg rt attempt prepared c1 c2 s = (outcome', rt', t) \<Longrightarrow> slot_step s t"
| failed: "slot_step s (snd (fail_drive rt e s))"
| raised: "slot_step s (safe_drive e s)"
| blocked: "slot_step s (block_slot status s)"
| truth_read: "slot_step s (adopt_truth rt epoch revision truth now s)"
| dex_read: "merge_dex_truth rt dex epoch revision parsed now s = Inr t \<Longrightarrow> slot_step s t"
| catalog_read: "catalog_slot catalog s = Inr (allowed, t) \<Longrightarrow> slot_step s t"
| close_requested: "request_fail_close why s = Inr t \<Longrightarrow> slot_step s t"
| operator: "set_operator_state rt state clock now s = Inr t \<Longrightarrow> slot_step s t"
| lane_wrote: "slot_step s (s\<lparr>rs_journal := j\<rparr>)"

text \<open>A view that the source operations leave alone too.\<close>

locale slot_source_view = slot_view +
  assumes view_account: "g (s\<lparr>rs_account := x1\<rparr>) = g s"
    and view_baseline: "g (s\<lparr>rs_source_ready := x2\<rparr>) = g s" "g (s\<lparr>rs_ever_baselined := x3\<rparr>) = g s"
      "g (s\<lparr>rs_expected_source := x4\<rparr>) = g s"
    and view_attribution: "g (s\<lparr>rs_unattributed := x5\<rparr>) = g s" "g (s\<lparr>rs_attributable := x6\<rparr>) = g s"
      "g (s\<lparr>rs_applied_fills := x7\<rparr>) = g s" "g (s\<lparr>rs_triggers := x8\<rparr>) = g s" "g (s\<lparr>rs_source_revisions := x9\<rparr>) = g s"
      "g (s\<lparr>rs_pending_catalog := x10\<rparr>) = g s"
begin

lemmas view_rules = view_status view_rate view_rejected view_retries view_revision view_account view_baseline
  view_attribution view_block

lemma view_attribute: "attribute rt s fills recovered = Inr (t, refresh) \<Longrightarrow> g t = g s"
proof -
  assume at: "attribute rt s fills recovered = Inr (t, refresh)"
  then obtain a where "rfold (attribute_fill rt s recovered) fills (attribution_of s) = Inr a" by (auto simp: attribute_def)
  with at have "t = s \<or> (\<exists>lr. t = s\<lparr>rs_unattributed := at_unattributed a, rs_attributable := at_attributable a,
       rs_applied_fills := at_applied a, rs_triggers := at_triggers a, rs_source_revisions := at_revisions a,
       rs_pending_catalog := at_pending a, rs_liquidity_retries := lr\<rparr>)"
    unfolding attribute_def by (auto split: if_splits)
  then show "g t = g s"
  proof (elim disjE exE)
    fix lr
    assume t: "t = s\<lparr>rs_unattributed := at_unattributed a, rs_attributable := at_attributable a,
       rs_applied_fills := at_applied a, rs_triggers := at_triggers a, rs_source_revisions := at_revisions a,
       rs_pending_catalog := at_pending a, rs_liquidity_retries := lr\<rparr>"
    show ?thesis unfolding t by (simp only: view_rules)
  qed simp
qed

lemma view_baselined: "g (snd (baseline rt s repair now)) = g s"
  by (auto simp: baseline_def Let_def view_rules split: sum.splits option.splits prod.splits
      dest!: view_attribute simp: rbind_Inr_iff)

lemma view_source_frame: "g (slot_apply_source rt repair message epoch received s) = g s"
proof -
  have b: "baseline rt s1 repair received = (r, s2) \<Longrightarrow> g s2 = g s1" for s1 r s2
    using view_baselined [of rt s1 repair received] by simp
  show ?thesis
    by (auto simp: slot_apply_source_def Let_def view_rules rbind_Inr_iff dest!: b view_attribute
        split: sum.splits prod.splits)
qed

lemma view_source_connection:
  "slot_begin_connection received s = Inr (epoch, t) \<Longrightarrow> g t = g s" "g (slot_source_gap epoch' why s) = g s"
  by (auto simp: slot_begin_connection_def slot_source_gap_def rbind_Inr_iff Let_def view_rules split: if_splits)

lemma view_catalog: "catalog_slot catalog s = Inr (allowed, t) \<Longrightarrow> g t = g s"
proof -
  have "rfold (settle_pending catalog al) ms v = Inr w \<Longrightarrow> g w = g v" for al ms v w
  proof (induction ms arbitrary: v)
    case (Cons m ms)
    from Cons.prems obtain v1 where v1: "settle_pending catalog al m v = Inr v1" "rfold (settle_pending catalog al) ms v1 = Inr w"
      by auto
    have "g v1 = g v"
      using v1(1) unfolding settle_pending_def by (auto simp: Let_def view_rules split: if_splits)
    with Cons.IH [OF v1(2)] show ?case by simp
  qed simp
  then show "catalog_slot catalog s = Inr (allowed, t) \<Longrightarrow> g t = g s"
    by (auto simp: catalog_slot_def Let_def rbind_Inr_iff view_rules)
qed

end

text \<open>A view that the execution of orders and the reading of truth leave alone.\<close>

locale slot_exec_view = slot_view +
  assumes view_follower: "g (s\<lparr>rs_follower := y1\<rparr>) = g s"
    and view_startup: "g (s\<lparr>rs_initial_nonflat := y2\<rparr>) = g s" "g (s\<lparr>rs_restored_positions := y3\<rparr>) = g s"
    and view_journal: "g (s\<lparr>rs_journal := y4\<rparr>) = g s"
begin

lemmas exec_rules = view_status view_rate view_rejected view_retries view_revision view_block view_follower view_startup view_journal

lemma keeps_fold: "keeps g (fold_outcome dg rt r planned clock)"
proof -
  have m: "keeps g (put_delayed_retry planned clock observe why)" for observe why
    unfolding put_delayed_retry_def put_retry_def by (intro keeps_rules) (rule view_retries)
  have u: "g (t\<lparr>rs_liquidity_retries := x, rs_rejected_targets := y\<rparr>) = g t" for t x y
    by (simp only: view_retries view_rejected)
  show ?thesis
    unfolding fold_outcome_def fold_fill_def put_retry_def Let_def
    by (cases "classify_outcome r") (auto intro!: keeps_rules m u exec_rules)
qed

lemma view_finish: "finish_drive dg rt attempt planned c1 c2 s = (out, rt', t) \<Longrightarrow> g t = g s"
  using keeps_fold [of dg rt "ea_result attempt" planned c2]
  by (auto simp: finish_drive_def Let_def keeps_def exec_rules split: option.splits prod.splits drive.splits)
    (metis snd_conv exec_rules)+

lemma view_truth: "g (adopt_truth rt epoch revision truth now s) = g s"
  by (auto simp: adopt_truth_def Let_def exec_rules split: sum.splits)

lemma view_dex: "merge_dex_truth rt dex epoch revision parsed now s = Inr t \<Longrightarrow> g t = g s"
  by (auto simp: merge_dex_truth_def rbind_Inr_iff Let_def exec_rules split: if_splits option.splits)

end

text \<open>A view that only the operator's commands can change.\<close>

locale slot_latch = slot_source_view g + slot_exec_view g for g :: "RuntimeSlot \<Rightarrow> 'v"
begin

lemma view_step:
  assumes "slot_step s t"
    and "\<And>why. request_fail_close why s = Inr t \<Longrightarrow> g t = g s"
    and "\<And>rt state clock now. set_operator_state rt state clock now s = Inr t \<Longrightarrow> g t = g s"
  shows "g t = g s"
  using assms
  by (cases rule: slot_step.cases)
    (auto simp: view_source_frame view_source_connection(2) view_block view_truth view_journal fail_drive_def safe_drive_def
      dest: view_source_connection(1) view_ready view_plan view_finish view_dex view_catalog)

end

interpretation latch: slot_latch "\<lambda>s. (rs_bound s, rs_startup_blocker s, rs_fail_close_reason s)"
  by unfold_locales simp_all

interpretation follower_view: slot_source_view rs_follower
  by unfold_locales simp_all

lemma slot_step_latched:
  assumes "slot_step s t" and "given_text (rs_fail_close_reason s)"
  shows "rs_fail_close_reason t = rs_fail_close_reason s"
proof -
  have "(rs_bound t, rs_startup_blocker t, rs_fail_close_reason t) = (rs_bound s, rs_startup_blocker s, rs_fail_close_reason s)"
  proof (rule latch.view_step [OF assms(1)])
    show "request_fail_close why s = Inr t \<Longrightarrow> (rs_bound t, rs_startup_blocker t, rs_fail_close_reason t) =
        (rs_bound s, rs_startup_blocker s, rs_fail_close_reason s)" for why
      using assms(2) by (cases "rs_fail_close_reason s") (auto simp: request_fail_close_def Let_def given_text_def split: if_splits)
    show "set_operator_state rt state clock now s = Inr t \<Longrightarrow> (rs_bound t, rs_startup_blocker t, rs_fail_close_reason t) =
        (rs_bound s, rs_startup_blocker s, rs_fail_close_reason s)" for rt state clock now
      by (auto simp: set_operator_state_def dest: latch.view_ready split: if_splits)
  qed
  then show ?thesis by simp
qed


text \<open>The confirmed positions stay a dictionary.\<close>

definition truth_ok :: "RuntimeSlot \<Rightarrow> bool" where
  "truth_ok s \<longleftrightarrow> distinct (map fst (follower_positions_of s))"

lemma truth_ok_view: "rs_follower t = rs_follower s \<Longrightarrow> truth_ok s \<Longrightarrow> truth_ok t"
  by (simp add: truth_ok_def follower_positions_of_def)

lemma filled_positions_distinct:
  "filled_positions a filled ps = Some qs \<Longrightarrow> distinct (map fst ps) \<Longrightarrow> distinct (map fst qs)"
  by (auto simp: filled_positions_def Let_def distinct_update distinct_delete split: if_splits)

lemma fold_outcome_follower:
  assumes "fold_outcome dg rt r planned clock s = (out, t)"
  shows "rs_follower t = rs_follower s \<or>
    (\<exists>f ps. rs_follower s = Some f \<and> filled_positions (pi_action planned) (pr_filled_size r) (ft_positions f) = Some ps \<and>
       rs_follower t = Some (f\<lparr>ft_positions := ps\<rparr>))"
proof (cases "classify_outcome r = Executed")
  case True
  have k: "keeps rs_follower (put_delayed_retry planned clock observe why)" for observe why
    unfolding put_delayed_retry_def put_retry_def by (intro keeps_rules) simp
  note k = keeps_outcome [OF this]
  from assms have t: "fold_fill (pi_action planned) r planned clock s = (out, t)"
    by (simp add: fold_outcome_def True dbind_def dget_slot_def)
  show ?thesis
  proof (cases "rs_follower s")
    case None
    with t show ?thesis by (auto simp: fold_fill_def dbind_def dupdate_def dget_slot_def dlift_def)
  next
    case (Some f)
    show ?thesis
    proof (cases "filled_positions (pi_action planned) (pr_filled_size r) (ft_positions f)")
      case None
      with Some t show ?thesis by (auto simp: fold_fill_def dbind_def dupdate_def dget_slot_def block_slot_def)
    next
      case (Some ps)
      with \<open>rs_follower s = Some f\<close> t k show ?thesis
        by (auto simp: fold_fill_def dbind_def dupdate_def dget_slot_def dgo_def dest: k split: if_splits)
    qed
  qed
next
  case False
  have "keeps rs_follower (fold_outcome dg rt r planned clock)"
    unfolding fold_outcome_def put_delayed_retry_def put_retry_def Let_def using False
    by (cases "classify_outcome r") (auto intro!: keeps_rules simp: follower_view.view_block)
  then show ?thesis using assms keeps_outcome by metis
qed

lemma truth_of_distinct: "truth_of rt s truth now = Inr f \<Longrightarrow> distinct (map fst (ft_positions f))"
proof -
  have step: "rfold F xs acc = Inr ps \<Longrightarrow> distinct (map fst acc) \<Longrightarrow>
      (\<And>x acc' qs. F x acc' = Inr qs \<Longrightarrow> distinct (map fst acc') \<Longrightarrow> distinct (map fst qs)) \<Longrightarrow> distinct (map fst ps)"
    for F :: "string \<times> dec position \<Rightarrow> (string \<times> rat position) list \<Rightarrow> (string \<times> rat position) list result" and xs acc ps
    by (induction xs arbitrary: acc) auto
  assume "truth_of rt s truth now = Inr f"
  then show ?thesis
    by (auto simp: truth_of_def Let_def distinct_update elim!: step split: if_splits prod.splits)
qed

lemma adopt_truth_ok: "truth_ok s \<Longrightarrow> truth_ok (adopt_truth rt epoch revision truth now s)"
proof (cases "capture_epoch (rt_mux rt) = Inr epoch \<and> rs_truth_revision s = revision \<and> (\<exists>f. truth_of rt s truth now = Inr f)")
  case True
  then obtain f where f: "truth_of rt s truth now = Inr f" by blast
  with True have "rs_follower (adopt_truth rt epoch revision truth now s) = Some f"
    by (auto simp: adopt_truth_def Let_def split: sum.splits)
  then show ?thesis using truth_of_distinct [OF f] by (simp add: truth_ok_def follower_positions_of_def)
next
  case False
  then have "rs_follower (adopt_truth rt epoch revision truth now s) = rs_follower s"
    by (auto simp: adopt_truth_def block_slot_def split: sum.splits)
  then show "truth_ok s \<Longrightarrow> ?thesis" by (rule truth_ok_view)
qed

lemma merge_dex_ok: "merge_dex_truth rt dex epoch revision parsed now s = Inr t \<Longrightarrow> truth_ok s \<Longrightarrow> truth_ok t"
proof -
  assume m: "merge_dex_truth rt dex epoch revision parsed now s = Inr t" and ok: "truth_ok s"
  have rows: "map snd rows = xs" if "rmap (\<lambda>(m, p). rbind (market_dex m) (\<lambda>d. Inr (d, (m, p)))) xs = Inr rows"
    for xs :: "(string \<times> rat position) list" and rows
    using that by (induction xs arbitrary: rows) auto
  have upd: "distinct (map fst d) \<Longrightarrow> distinct (map fst (fold (\<lambda>(m, p). AList.update m p) us d))"
    for d us :: "(string \<times> rat position) list"
    by (induction us arbitrary: d) (auto simp: distinct_update)
  have kept: "distinct (map fst (map snd (filter P rows)))" if "distinct (map fst (map snd rows))"
    for P and rows :: "(string \<times> string \<times> rat position) list"
    using that by (induction rows) auto
  show "truth_ok t"
  proof (cases "rs_follower t = rs_follower s")
    case True
    then show ?thesis using ok by (rule truth_ok_view)
  next
    case False
    with m obtain f where "rs_follower s = Some f" by (auto simp: merge_dex_truth_def split: if_splits option.splits)
    with m False obtain rows where r: "rmap (\<lambda>(m, p). rbind (market_dex m) (\<lambda>d. Inr (d, (m, p)))) (ft_positions f) = Inr rows"
      and t: "follower_positions_of t = sort_key fst (fold (\<lambda>(m, p). AList.update m p) parsed (map snd (filter (\<lambda>(d, _). d \<noteq> dex) rows)))"
      by (auto simp: merge_dex_truth_def follower_positions_of_def Let_def split: if_splits)
    have "distinct (map fst (map snd rows))"
      using ok \<open>rs_follower s = Some f\<close> rows [OF r] by (simp add: truth_ok_def follower_positions_of_def)
    then have "distinct (map fst (fold (\<lambda>(m, p). AList.update m p) parsed (map snd (filter (\<lambda>(d, _). d \<noteq> dex) rows))))"
      by (intro upd kept)
    then show ?thesis unfolding truth_ok_def t distinct_map by simp
  qed
qed

lemma slot_step_truth_ok:
  assumes "slot_step s t" and "truth_ok s"
  shows "truth_ok t"
  using assms
proof (cases rule: slot_step.cases)
  case (finished dg rt attempt prepared c1 c2 out rt')
  define s1 where "s1 = (case attempted_at attempt c1 of
      None \<Rightarrow> s | Some ms \<Rightarrow> s\<lparr>rs_action_times := rs_action_times s @ [ms]\<rparr>)"
  obtain o2 u where u: "fold_outcome dg rt (ea_result attempt) prepared c2 s1 = (o2, u)"
    by (cases "fold_outcome dg rt (ea_result attempt) prepared c2 s1")
  have "rs_follower s1 = rs_follower s" by (simp add: s1_def split: option.split)
  moreover have "rs_follower t = rs_follower u"
    using finished(1) u unfolding finish_drive_def s1_def [symmetric] Let_def by (cases o2) auto
  ultimately show ?thesis using u
    using assms(2) fold_outcome_follower [of dg rt "ea_result attempt" prepared c2 s1 o2 u]
    by (auto simp: truth_ok_def follower_positions_of_def dest: filled_positions_distinct)
next
  case (close_requested why)
  then have "rs_follower t = rs_follower s" by (auto simp: request_fail_close_def Let_def split: if_splits)
  then show ?thesis using assms(2) by (rule truth_ok_view)
next
  case (operator rt state clock now)
  then have "rs_follower t = rs_follower s"
    by (auto simp: set_operator_state_def dest: follower_view.view_ready split: if_splits)
  then show ?thesis using assms(2) by (rule truth_ok_view)
next
  case (truth_read rt epoch revision truth now)
  with assms(2) show ?thesis by (simp add: adopt_truth_ok)
next
  case (dex_read rt dex epoch revision parsed now)
  then show ?thesis using merge_dex_ok assms(2) by blast
qed (use assms(2) in \<open>auto simp: fail_drive_def safe_drive_def follower_view.view_source_frame follower_view.view_block
    follower_view.view_source_connection(2) intro: truth_ok_view
    dest: follower_view.view_source_connection(1) follower_view.view_ready follower_view.view_plan follower_view.view_catalog\<close>)

lemma slot_steps_latched:
  assumes "slot_step\<^sup>*\<^sup>* s t" and "given_text (rs_fail_close_reason s)" and "truth_ok s"
  shows "rs_fail_close_reason t = rs_fail_close_reason s \<and> truth_ok t"
  using assms by (induction rule: rtranclp_induct) (auto dest: slot_step_latched slot_step_truth_ok)

end
