(* ===== verification/Runtime_Example.thy ===== *)
theory Runtime_Example
  imports Runtime_Outcome Market_Safety
begin

text \<open>
  A concrete slot, its market and its runtime, used to show that the properties of the runtime apply:
  the source has just bought 2 BTC at 10 and the follower, with the same balance, holds nothing.
\<close>

section \<open>A concrete slot\<close>

definition ex_digests :: digests where
  "ex_digests = \<lparr>dg_portfolio = (\<lambda>_ _ _. ''d''), dg_close = (\<lambda>v _ m _. v @ m), dg_follower = (\<lambda>_. ''f''), dg_catalog = (\<lambda>_. ''c'')\<rparr>"

definition ex_bound :: BoundContinuousSlot where
  "ex_bound = \<lparr>b_config = ex_slot, b_api_wallet_address = ''0x'' @ replicate 40 (CHR ''3''), b_api_private_key_file = ''key'',
     b_global_account_address = ex_follower, b_expected_account_mode = ''unified'', b_dynamic_market_eligibility = False,
     b_denied_markets = [], b_external_writers_allowed = False\<rparr>"

text \<open>A source with a balance of 1000 that holds some BTC.\<close>

definition ex_account_at :: "int \<Rightarrow> rat \<Rightarrow> AccountStream" where
  "ex_account_at t held = \<lparr>as_source_address = ex_source, as_follower_address = ex_follower, as_capacity = 100, as_mode = ''unified'',
     as_source_markets = Some [''BTC''], as_follower_markets = Some [''BTC''], as_accept_outside = False, as_source_dexes = [[]],
     as_epoch = 1, as_activity_ms = t,
     as_source = empty_account\<lparr>ma_positions := [(''BTC'', \<lparr>pos_coin = ''BTC'', pos_size = held, pos_entry_px = None, pos_leverage = None, pos_updated_ms = t\<rparr>)],
       ma_collateral := Some \<lparr>uc_total = 1000, uc_hold = 0, uc_available = 1000, uc_observed_ms = t, uc_received_ms = t\<rparr>,
       ma_received := [(''positions'', t), (''collateral'', t), (''fills'', t), (''twap_fills'', t)]\<rparr>,
     as_follower = empty_account, as_fingerprints = []\<rparr>"

definition ex_depth :: "rat \<Rightarrow> rat \<Rightarrow> DepthLevel" where
  "ex_depth px sz = \<lparr>dl_price = px, dl_size = sz, dl_order_count = None\<rparr>"

definition ex_market_at :: "int \<Rightarrow> MarketStream" where
  "ex_market_at t = ex_market_stream\<lparr>ms_epoch := 1, ms_activity_ms := t,
     ms_contexts := [(''BTC'', \<lparr>mc_oracle_px = 10, mc_mark_px = 10, mc_received_ms = t\<rparr>)],
     ms_books := [(''BTC'', \<lparr>mb_bids = [ex_depth 9 5], mb_asks = [ex_depth 10 5], mb_exchange_time_ms = t, mb_received_ms = t\<rparr>)],
     ms_bbos := [(''BTC'', \<lparr>bb_bid = Some (ex_depth 9 5), bb_ask = Some (ex_depth 10 5), bb_exchange_time_ms = t, bb_received_ms = t\<rparr>)]\<rparr>"

definition ex_runtime :: "int \<Rightarrow> bool \<Rightarrow> ContinuousRuntime" where
  "ex_runtime t online = \<lparr>rt_plan = \<lparr>bound_plan = ex_plan, bound_slots = [ex_bound]\<rparr>, rt_slots = [], rt_market = ex_market_at t,
     rt_mux = mux_init\<lparr>m_attached := online, m_epoch := 1\<rparr>, rt_catalog = ex_revision, rt_allowed_markets = [(''s1'', [''BTC''])],
     rt_reservations = [], rt_locks = [True, True], rt_execution_enabled = True, rt_max_tracking_bps = 50,
     rt_reduction_slippage_bps = 100, rt_emergency_slippage_bps = 300, rt_max_source_fill_age_ms = 5000,
     rt_source_age_ms = 30000, rt_market_age_ms = 45000, rt_follower_age_ms = 90000, rt_source_open_epoch = Some 1\<rparr>"

definition ex_runtime_slot :: "int \<Rightarrow> RuntimeSlot" where
  "ex_runtime_slot t = \<lparr>rs_bound = ex_bound, rs_account = ex_account_at t 2,
     rs_lane = initialize_lane ex_follower (''0x'' @ replicate 40 (CHR ''3'')) None False 5000 True, rs_journal = empty_journal,
     rs_state = RECOVERING, rs_reason = Text ''startup reconciliation required'', rs_source_ready = True, rs_ever_baselined = True,
     rs_expected_source = Some [(''BTC'', 2)], rs_unattributed = [], rs_attributable = [(''BTC'', 2)], rs_pending_catalog = [],
     rs_applied_fills = [], rs_triggers = [(''BTC'', \<lparr>tr_price = 10, tr_time_ms = t, tr_accepted_ms = t\<rparr>)],
     rs_source_revisions = [(''BTC'', 1)],
     rs_follower = Some \<lparr>ft_positions = [], ft_equity = 1000, ft_observed_ms = t, ft_dex_observed_ms = [], ft_available = None\<rparr>,
     rs_restored_positions = None, rs_initial_nonflat = False, rs_operator_paused = False, rs_fail_close_reason = None,
     rs_startup_blocker = None, rs_action_times = [], rs_liquidity_retries = [], rs_rejected_targets = [], rs_truth_revision = 0\<rparr>"

definition ex_clock :: "int \<Rightarrow> drive_clock" where
  "ex_clock t = \<lparr>dk_ready = t, dk_rate = t, dk_gate = 0, dk_locked = 0\<rparr>"

definition ex_action :: NextAction where
  "ex_action = \<lparr>n_desired_id = ''d'', n_market = ''BTC'', n_side = ''buy'', n_size = 2, n_reduce_only = False,
     n_reason = MoveTowardTarget\<rparr>"

text \<open>The same slot holding 2 BTC that the source no longer holds, latched for fail-close.\<close>

definition ex_closing_slot :: "int \<Rightarrow> RuntimeSlot" where
  "ex_closing_slot t = (ex_runtime_slot t)\<lparr>rs_fail_close_reason := Some ''stop'', rs_state := PAUSE_ENTRIES,
     rs_follower := Some \<lparr>ft_positions = [(''BTC'', \<lparr>pos_coin = ''BTC'', pos_size = 2, pos_entry_px = None, pos_leverage = None, pos_updated_ms = t\<rparr>)],
       ft_equity = 1000, ft_observed_ms = t, ft_dex_observed_ms = [], ft_available = None\<rparr>\<rparr>"

lemma ex_drive_prepares:
  "(case plan_drive ex_digests (ex_runtime 100 True) (ex_clock 100) 100 False (ex_runtime_slot 100) of
      (Go p, _, _) \<Rightarrow> pi_action p = ex_action \<and> ei_limit_px (pi_executable p) = 201 / 20
    | _ \<Rightarrow> False)"
  by code_simp

lemma ex_forced_close:
  "(case plan_drive ex_digests (ex_runtime 100 True) (ex_clock 100) 100 True (ex_closing_slot 100) of
      (Go p, _, _) \<Rightarrow> n_side (pi_action p) = ''sell'' \<and> n_size (pi_action p) = 2
    | _ \<Rightarrow> False)"
  by code_simp

lemma ex_drive_offline:
  "(case select_order ex_digests (ex_runtime 100 False) (ex_clock 100) 100 False (ex_runtime_slot 100) of (Go _, _) \<Rightarrow> True | _ \<Rightarrow> False)"
  by code_simp

lemma ex_unresolved: "unresolved_of (ex_runtime_slot t) = Inr []" "unresolved_of (ex_closing_slot t) = Inr []"
  by code_simp+

end
