(* ===== verification/Runtime_Attribution.thy ===== *)
theory Runtime_Attribution
  imports Runtime_Frame Runtime_Example
begin

text \<open>
  Which source fills a slot copies: the well-formedness of a slot's books under every operation,
  and the rule that a fill which is too old or in a denied market never adds to the copied book.
\<close>

section \<open>Books\<close>

definition book_keys_ok :: "(string \<times> rat) list \<Rightarrow> bool" where
  "book_keys_ok b \<longleftrightarrow> distinct (map fst b) \<and> 0 \<notin> snd ` set b"

lemma set_update_subset: "set (AList.update k v d) \<subseteq> insert (k, v) (set d)"
  using in_set_update_D by fastforce

lemma set_delete_subset: "set (AList.delete k d) \<subseteq> set d"
  by (induction d) auto

lemma put_nz_ok: "book_keys_ok b \<Longrightarrow> book_keys_ok (put_nz b m v)"
  using set_update_subset [of m v b] set_delete_subset [of m b]
  by (fastforce simp: put_nz_def book_keys_ok_def distinct_update distinct_delete)

lemma put_nz_all: "(\<And>x. x \<in> snd ` set b \<Longrightarrow> P x) \<Longrightarrow> P v \<Longrightarrow> x \<in> snd ` set (put_nz b m v) \<Longrightarrow> P x"
  using set_update_subset [of m v b] set_delete_subset [of m b] by (fastforce simp: put_nz_def split: if_splits)

lemma dget_put_nz [simp]: "dget (put_nz b m v) k 0 = (if k = m then v else dget b k 0)"
  by (simp add: put_nz_def)

lemma dget_rep: "(\<And>x. x \<in> snd ` set b \<Longrightarrow> ctx_rep x) \<Longrightarrow> ctx_rep (dget b m 0)"
  by (force simp: dget_def ctx_rep_def dest: map_of_SomeD split: option.split)



section \<open>One fill\<close>

text \<open>Part of \<open>y\<close>: on the same side and not larger.\<close>

definition toward_zero :: "rat \<Rightarrow> rat \<Rightarrow> bool" where
  "toward_zero x y \<longleftrightarrow> 0 \<le> x \<and> x \<le> y \<or> y \<le> x \<and> x \<le> 0"

lemma toward_zero_refl [simp]: "toward_zero x x"
  by (auto simp: toward_zero_def)

lemma toward_zero_trans: "toward_zero x y \<Longrightarrow> toward_zero y z \<Longrightarrow> toward_zero x z"
  by (auto simp: toward_zero_def)

lemma ctx_toward_zero: "ctx_rep y \<Longrightarrow> toward_zero x y \<Longrightarrow> toward_zero (ctx x) y"
  by (auto simp: toward_zero_def ctx_rep_def dc.rnd_le_rep dc.rnd_ge_rep)

lemma consume_part:
  assumes "consume part delta = (p, d)" and "ctx_rep part"
  shows "toward_zero p part \<and> ctx_rep p"
proof (cases "opposite delta part")
  case True
  define amount where "amount = copy_sign (min (dabs delta) (dabs part)) delta"
  have p: "p = ctx (part + amount)" using assms(1) True by (simp add: consume_def Let_def amount_def dadd_def)
  have "dabs part = \<bar>part\<bar>" using assms(2) by (simp add: dabs_def ctx_abs ctx_rep_def)
  then have "\<bar>amount\<bar> \<le> \<bar>part\<bar>" by (auto simp: amount_def copy_sign_def dabs_def)
  moreover have "amount \<le> 0 \<longleftrightarrow> delta < 0 \<or> amount = 0" "0 \<le> amount \<longleftrightarrow> 0 \<le> delta \<or> amount = 0"
    by (auto simp: amount_def copy_sign_def)
  ultimately have "toward_zero (part + amount) part"
    using True by (auto simp: toward_zero_def opposite_def)
  with assms(2) show ?thesis by (simp add: p ctx_toward_zero)
qed (use assms in \<open>auto simp: consume_def\<close>)

definition attribution_ok :: "attribution \<Rightarrow> bool" where
  "attribution_ok a \<longleftrightarrow> book_keys_ok (at_unattributed a) \<and> book_keys_ok (at_attributable a) \<and>
     (\<forall>v \<in> snd ` set (at_attributable a). ctx_rep v) \<and> distinct (at_applied a) \<and> length (at_applied a) \<le> 4096"

text \<open>What one fill does to the books, the rest of the attribution aside.\<close>

lemma attribute_fill_Inr:
  assumes "attribute_fill rt s recovered f a = Inr b" and "fill_identity_of f \<notin> set (at_applied a)"
  obtains copied delta1 old delta2 where
    "consume (dget (at_attributable a) (fr_market f) 0) (fill_signed_size f) = (copied, delta1)"
    "consume (dget (at_unattributed a) (fr_market f) 0) delta1 = (old, delta2)"
    "at_attributable b = put_nz (at_attributable a) (fr_market f)
       (if fresh_fill rt recovered f \<and> \<not> denied_market s (fr_market f) then dadd copied delta2 else copied)"
    "at_unattributed b = put_nz (at_unattributed a) (fr_market f)
       (if fresh_fill rt recovered f \<and> \<not> denied_market s (fr_market f) then old else dadd old delta2)"
    "at_applied b = (if length (at_applied a) < 4096 then at_applied a @ [fill_identity_of f]
       else tl (at_applied a @ [fill_identity_of f]))"
    "\<not> (fresh_fill rt recovered f \<and> \<not> denied_market s (fr_market f)) \<Longrightarrow> at_triggers b = at_triggers a"
proof -
  obtain copied delta1 where c1: "consume (dget (at_attributable a) (fr_market f) 0) (fill_signed_size f) = (copied, delta1)"
    by fastforce
  obtain old delta2 where c2: "consume (dget (at_unattributed a) (fr_market f) 0) delta1 = (old, delta2)"
    by fastforce
  let ?m = "fr_market f" and ?acc = "fresh_fill rt recovered f \<and> \<not> denied_market s (fr_market f)"
  have b: "at_attributable b = put_nz (at_attributable a) ?m (if ?acc then dadd copied delta2 else copied) \<and>
      at_unattributed b = put_nz (at_unattributed a) ?m (if ?acc then old else dadd old delta2) \<and>
      at_applied b = (if length (at_applied a @ [fill_identity_of f]) > 4096 then tl (at_applied a @ [fill_identity_of f])
        else at_applied a @ [fill_identity_of f]) \<and> (\<not> ?acc \<longrightarrow> at_triggers b = at_triggers a)"
  proof (cases ?acc)
    case True
    with assms c1 c2 show ?thesis
      by (cases "b_dynamic_market_eligibility (rs_bound s)") (auto simp: attribute_fill_def Let_def)
  next
    case False
    then have "(fresh_fill rt recovered f \<and> \<not> denied_market s ?m) = False" by simp
    with assms c1 c2 show ?thesis by (simp add: attribute_fill_def Let_def) auto
  qed
  show ?thesis by (rule that [OF c1 c2]) (use b in auto)
qed

lemma attribute_fill_ok:
  assumes "attribute_fill rt s recovered f a = Inr b" and "attribution_ok a"
  shows "attribution_ok b"
proof (cases "fill_identity_of f \<in> set (at_applied a)")
  case True
  then show ?thesis using assms by (simp add: attribute_fill_def)
next
  case False
  obtain copied delta1 old delta2 where b:
    "consume (dget (at_attributable a) (fr_market f) 0) (fill_signed_size f) = (copied, delta1)"
    "at_attributable b = put_nz (at_attributable a) (fr_market f)
       (if fresh_fill rt recovered f \<and> \<not> denied_market s (fr_market f) then dadd copied delta2 else copied)"
    "at_unattributed b = put_nz (at_unattributed a) (fr_market f)
       (if fresh_fill rt recovered f \<and> \<not> denied_market s (fr_market f) then old else dadd old delta2)"
    "at_applied b = (if length (at_applied a) < 4096 then at_applied a @ [fill_identity_of f]
       else tl (at_applied a @ [fill_identity_of f]))"
    by (rule attribute_fill_Inr [OF assms(1) False]) blast
  have rep: "ctx_rep v" if "v \<in> snd ` set (at_attributable a)" for v using assms(2) that by (auto simp: attribution_ok_def)
  have "ctx_rep copied" using consume_part [OF b(1) dget_rep [OF rep]] by simp
  then have new: "ctx_rep (if fresh_fill rt recovered f \<and> \<not> denied_market s (fr_market f) then dadd copied delta2 else copied)"
    by (simp add: dadd_def)
  have "ctx_rep v" if v: "v \<in> snd ` set (at_attributable b)" for v
    using put_nz_all [where P = ctx_rep, OF rep new] v unfolding b(2) by blast
  moreover have "distinct (at_applied b) \<and> length (at_applied b) \<le> 4096"
    using False assms(2) by (cases "length (at_applied a) < 4096"; cases "at_applied a")
      (auto simp: b(4) attribution_ok_def)
  ultimately show ?thesis
    using assms(2) by (auto simp: attribution_ok_def b(2,3) intro: put_nz_ok)
qed

lemma attribute_fill_stale:
  assumes "attribute_fill rt s recovered f a = Inr b" and "attribution_ok a"
    and "\<not> fresh_fill rt recovered f \<or> denied_market s (fr_market f)"
  shows "toward_zero (dget (at_attributable b) m 0) (dget (at_attributable a) m 0) \<and> at_triggers b = at_triggers a"
proof (cases "fill_identity_of f \<in> set (at_applied a)")
  case True
  then show ?thesis using assms(1) by (simp add: attribute_fill_def)
next
  case False
  obtain copied delta1 old delta2 where b:
    "consume (dget (at_attributable a) (fr_market f) 0) (fill_signed_size f) = (copied, delta1)"
    "at_attributable b = put_nz (at_attributable a) (fr_market f)
       (if fresh_fill rt recovered f \<and> \<not> denied_market s (fr_market f) then dadd copied delta2 else copied)"
    "\<not> (fresh_fill rt recovered f \<and> \<not> denied_market s (fr_market f)) \<Longrightarrow> at_triggers b = at_triggers a"
    by (rule attribute_fill_Inr [OF assms(1) False]) blast
  have "ctx_rep (dget (at_attributable a) (fr_market f) 0)"
    using assms(2) by (auto simp: attribution_ok_def intro: dget_rep)
  then show ?thesis using consume_part [OF b(1)] b(3) assms(3) by (auto simp: b(2))
qed


section \<open>Every operation keeps the books\<close>

definition books_ok :: "RuntimeSlot \<Rightarrow> bool" where
  "books_ok s \<longleftrightarrow> attribution_ok (attribution_of s)"





text \<open>The slot after an attribution: unchanged, or with the books of the folded fills.\<close>

lemma attribute_Inr:
  assumes "attribute rt s fills recovered = Inr (t, refresh)"
  obtains a where "rfold (attribute_fill rt s recovered) fills (attribution_of s) = Inr a"
    "t = s \<and> at_changed a = [] \<or> rs_unattributed t = at_unattributed a \<and> rs_attributable t = at_attributable a \<and>
       rs_applied_fills t = at_applied a \<and> rs_triggers t = at_triggers a"
proof -
  obtain a where a: "rfold (attribute_fill rt s recovered) fills (attribution_of s) = Inr a"
    using assms by (auto simp: attribute_def)
  with assms show ?thesis
    by (intro that [OF a]) (unfold attribute_def, auto split: if_splits)
qed









section \<open>Properties\<close>



text \<open>
  C14: fills that are older than the allowed age when they are attributed, or in a denied market, never
  add to the copied book: every copied size moves toward zero or stays, on the same side, and no
  entry trigger changes.
\<close>

theorem stale_fills_never_copied:
  assumes "attribute rt s fills recovered = Inr (t, refresh)" and "books_ok s"
    and "\<forall>f \<in> set fills. \<not> fresh_fill rt recovered f \<or> denied_market s (fr_market f)"
  shows "toward_zero (dget (rs_attributable t) m 0) (dget (rs_attributable s) m 0) \<and> rs_triggers t = rs_triggers s"
proof -
  obtain a where a: "rfold (attribute_fill rt s recovered) fills (attribution_of s) = Inr a"
    and t: "t = s \<and> at_changed a = [] \<or> rs_unattributed t = at_unattributed a \<and> rs_attributable t = at_attributable a \<and>
       rs_applied_fills t = at_applied a \<and> rs_triggers t = at_triggers a"
    by (rule attribute_Inr [OF assms(1)])
  define P where "P b \<longleftrightarrow> attribution_ok b \<and> toward_zero (dget (at_attributable b) m 0) (dget (rs_attributable s) m 0) \<and>
    at_triggers b = rs_triggers s" for b
  have "P a"
  proof (rule rfold_invariant [OF a])
    show "P (attribution_of s)" using assms(2) by (simp add: P_def books_ok_def attribution_of_def)
    show "P c" if "f \<in> set fills" "P b" "attribute_fill rt s recovered f b = Inr c" for f b c
      using that assms(3) attribute_fill_stale [OF that(3), of m] attribute_fill_ok [OF that(3)]
      by (auto simp: P_def intro: toward_zero_trans)
  qed
  with t show ?thesis by (auto simp: P_def)
qed


text \<open>A sale of 1 BTC that is attributed ten seconds late reduces the copied 2 BTC to 1.\<close>

definition ex_late_fill :: FillRecord where
  "ex_late_fill = \<lparr>fr_account = ex_source, fr_market = ''BTC'', fr_tx_hash = ''h'', fr_tid = ''1'', fr_time_ms = 100, fr_side = ''sell'',
     fr_size = 1, fr_price = 10, fr_start_position = Some 2, fr_oid = None, fr_received_ms = 100, fr_connection_epoch = 1,
     fr_is_snapshot = False\<rparr>"

definition ex_late_slot :: RuntimeSlot where
  "ex_late_slot = (ex_runtime_slot 100)\<lparr>rs_account := ex_account_at 100 1\<rparr>"

lemma ex_late_attributed:
  "(case attribute (ex_runtime 100 True) ex_late_slot [ex_late_fill] (Some 10100) of
      Inr (t, _) \<Rightarrow> dget (rs_attributable t) ''BTC'' 0 = 1 | _ \<Rightarrow> False)"
  by code_simp

theorem stale_fills_never_copied_witness:
  "\<exists>t refresh. attribute (ex_runtime 100 True) ex_late_slot [ex_late_fill] (Some 10100) = Inr (t, refresh) \<and>
     dget (rs_attributable t) ''BTC'' 0 = 1 \<and> toward_zero (dget (rs_attributable t) ''BTC'' 0) (dget (rs_attributable ex_late_slot) ''BTC'' 0) \<and>
     rs_triggers t = rs_triggers ex_late_slot"
proof -
  obtain t refresh where t: "attribute (ex_runtime 100 True) ex_late_slot [ex_late_fill] (Some 10100) = Inr (t, refresh)"
    "dget (rs_attributable t) ''BTC'' 0 = 1"
    using ex_late_attributed by (auto split: sum.splits prod.splits)
  have ok: "books_ok ex_late_slot" by code_simp
  have late: "\<not> fresh_fill (ex_runtime 100 True) (Some 10100) ex_late_fill" by code_simp
  show ?thesis using stale_fills_never_copied [OF t(1) ok, of "''BTC''"] late t by auto
qed

end
