(* ===== verification/Runtime_Safety.thy ===== *)
theory Runtime_Safety
  imports Runtime_Frame Runtime_Example
begin

text \<open>
  What a driven slot may do: the conditions under which an order is prepared, the fail-close latch
  over any interleaving of slot operations, the retry of an order that found no liquidity, and the
  life of a reservation.
\<close>

section \<open>The way to a prepared order\<close>

text \<open>The conditions common to the two ends of \<open>ready\<close> that leave a slot able to act.\<close>

definition may_act :: "ContinuousRuntime \<Rightarrow> int \<Rightarrow> RuntimeSlot \<Rightarrow> bool" where
  "may_act rt now s \<longleftrightarrow>
     \<not> given_text (rs_startup_blocker s) \<and> \<not> given_text (rs_fail_close_reason s) \<and> rs_source_ready s \<and>
     snapshot_is_fresh (source_snapshot (rs_account s)) now (rt_source_age_ms rt) = Inr True \<and>
     follower_fresh rt s now \<and> \<not> rs_initial_nonflat s \<and> unresolved_of s = Inr []"

lemma ready_cases:
  assumes "ready rt clock now s = Inr t"
  obtains "rs_state s = OPERATOR_STOP" "t = s"
  | why where "rs_state s \<noteq> OPERATOR_STOP" "t = block_slot why s"
  | why where "rs_state s \<noteq> OPERATOR_STOP" "given_text (rs_fail_close_reason s)" "t = s\<lparr>rs_state := PAUSE_ENTRIES, rs_reason := why\<rparr>"
  | why where "rs_state s \<noteq> OPERATOR_STOP" "may_act rt now s" "t = (prune_rate clock s)\<lparr>rs_state := PAUSE_ENTRIES, rs_reason := why\<rparr>"
  | why where "rs_state s \<noteq> OPERATOR_STOP" "may_act rt now s" "\<not> rs_operator_paused s"
      "int (length (rs_action_times (prune_rate clock s))) < action_limit_per_minute (config_of s)"
      "t = (prune_rate clock s)\<lparr>rs_state := RUNNING, rs_reason := why\<rparr>"
proof (cases "rs_state s = OPERATOR_STOP \<or> given_text (rs_startup_blocker s) \<or> given_text (rs_fail_close_reason s)")
  case True
  then consider (stop) "rs_state s = OPERATOR_STOP" | (start) "rs_state s \<noteq> OPERATOR_STOP" "given_text (rs_startup_blocker s)"
    | (latch) "rs_state s \<noteq> OPERATOR_STOP" "\<not> given_text (rs_startup_blocker s)" "given_text (rs_fail_close_reason s)" by blast
  then show ?thesis
  proof cases
    case stop
    then have "t = s" using assms by (simp add: ready_def)
    with stop show ?thesis by (rule that(1))
  next
    case start
    then have "t = block_slot (Text (the (rs_startup_blocker s))) s" using assms by (simp add: ready_def)
    with start show ?thesis using that(2) by blast
  next
    case latch
    then have "t = s\<lparr>rs_state := PAUSE_ENTRIES, rs_reason := Text (''fail-close: '' @ the (rs_fail_close_reason s))\<rparr>"
      using assms by (simp add: ready_def)
    with latch show ?thesis using that(3) by blast
  qed
next
  case a: False
  then have r: "ready rt clock now s = rbind (if rs_source_ready s
      then snapshot_is_fresh (source_snapshot (rs_account s)) now (rt_source_age_ms rt) else Inr False) (\<lambda>fresh.
      if \<not> fresh then Inr (block_slot (Text ''source truth is unavailable or stale'') s)
      else if \<not> follower_fresh rt s now then Inr (block_slot (Text ''follower WS truth is unavailable or stale'') s)
      else if rs_initial_nonflat s then Inr (block_slot (Text ''startup follower exposure has no runtime attribution'') s)
      else rbind (unresolved_of s) (\<lambda>unresolved.
      if unresolved \<noteq> [] then Inr (block_slot (Text ''signer lane has unresolved action outcome'') s)
      else let s1 = prune_rate clock s
           in if rs_operator_paused s1 \<or> action_limit_per_minute (config_of s1) \<le> int (length (rs_action_times s1))
              then Inr (s1\<lparr>rs_state := PAUSE_ENTRIES,
                          rs_reason := Text (if rs_operator_paused s1 then ''operator pause'' else ''slot action limit reached'')\<rparr>)
              else Inr (s1\<lparr>rs_state := RUNNING, rs_reason := Text ''ready''\<rparr>)))"
    by (simp add: ready_def)
  show ?thesis
  proof (cases "may_act rt now s")
    case True
    then have "ready rt clock now s = (let s1 = prune_rate clock s
           in if rs_operator_paused s1 \<or> action_limit_per_minute (config_of s1) \<le> int (length (rs_action_times s1))
              then Inr (s1\<lparr>rs_state := PAUSE_ENTRIES,
                          rs_reason := Text (if rs_operator_paused s1 then ''operator pause'' else ''slot action limit reached'')\<rparr>)
              else Inr (s1\<lparr>rs_state := RUNNING, rs_reason := Text ''ready''\<rparr>))"
      by (simp add: r may_act_def)
    with assms have t: "t = (let s1 = prune_rate clock s
           in if rs_operator_paused s1 \<or> action_limit_per_minute (config_of s1) \<le> int (length (rs_action_times s1))
              then s1\<lparr>rs_state := PAUSE_ENTRIES,
                      rs_reason := Text (if rs_operator_paused s1 then ''operator pause'' else ''slot action limit reached'')\<rparr>
              else s1\<lparr>rs_state := RUNNING, rs_reason := Text ''ready''\<rparr>)"
      by (simp add: Let_def split: if_splits)
    show ?thesis
    proof (cases "rs_operator_paused s \<or> action_limit_per_minute (config_of s) \<le> int (length (rs_action_times (prune_rate clock s)))")
      case p: True
      then have "\<exists>why. t = (prune_rate clock s)\<lparr>rs_state := PAUSE_ENTRIES, rs_reason := why\<rparr>"
        unfolding t Let_def by (auto simp: config_of_def prune_rate_def)
      with a True show ?thesis using that(4) by blast
    next
      case p: False
      then have "\<exists>why. t = (prune_rate clock s)\<lparr>rs_state := RUNNING, rs_reason := why\<rparr>"
        unfolding t Let_def by (auto simp: config_of_def prune_rate_def)
      with a True p show ?thesis using that(5) by (metis linorder_not_le)
    qed
  next
    case False
    have "\<exists>why. t = block_slot why s"
      using assms a False by (cases "rs_source_ready s") (auto simp: r may_act_def rbind_Inr_iff split: if_splits)
    with a show ?thesis using that(2) by blast
  qed
qed

lemma ready_running:
  assumes "ready rt clock now s = Inr t" and "rs_state t = RUNNING"
  shows "may_act rt now s" "\<not> rs_operator_paused s"
    "int (length (rs_action_times (prune_rate clock s))) < action_limit_per_minute (config_of s)"
  using assms(2) by (auto intro: ready_cases [OF assms(1)] simp: block_slot_def split: if_splits)

lemma plan_entry_Go:
  assumes "plan_entry dg rt clock now force s = (Go start, t)"
  shows "rs_state s \<noteq> OPERATOR_STOP"
    and "force \<Longrightarrow> t = s \<and> follower_fresh rt s now \<and> unresolved_of s = Inr [] \<and>
           (\<exists>a. start = Some a \<and> forced_close_action dg s = Inr (Some a))"
    and "\<not> force \<Longrightarrow> ready rt (dk_ready clock) now s = Inr t \<and> rs_state t \<in> {RUNNING, PAUSE_ENTRIES} \<and> start = None"
proof -
  show "force \<Longrightarrow> t = s \<and> follower_fresh rt s now \<and> unresolved_of s = Inr [] \<and>
           (\<exists>a. start = Some a \<and> forced_close_action dg s = Inr (Some a))"
    using assms by (auto simp: plan_entry_def step_inv)
  show n: "\<not> force \<Longrightarrow> ready rt (dk_ready clock) now s = Inr t \<and> rs_state t \<in> {RUNNING, PAUSE_ENTRIES} \<and> start = None"
    using assms by (cases "rs_state t") (auto simp: plan_entry_def step_inv)
  show "rs_state s \<noteq> OPERATOR_STOP"
  proof (cases force)
    case True
    with assms show ?thesis by (auto simp: plan_entry_def step_inv)
  next
    case False
    with n show ?thesis by (auto simp: ready_def)
  qed
qed

text \<open>The action at hand would add to the projected position.\<close>

definition adds_exposure :: "RuntimeSlot \<Rightarrow> (string \<times> rat) list \<Rightarrow> NextAction \<Rightarrow> bool" where
  "adds_exposure s unresolved a \<longleftrightarrow>
     (let before = dadd (size_in (follower_positions_of s) (n_market a)) (dget unresolved (n_market a) 0)
      in dabs before < dabs (dadd before (signed_size a)))"

lemma choose_action_Go:
  assumes "choose_action dg rt now force start s = (Go c, t)"
  shows "t = s" "start = Some a \<Longrightarrow> dc_action c = a" "dc_class c = Entry \<longleftrightarrow> \<not> force \<and> dc_increasing c"
    "\<exists>u. unresolved_of s = Inr u \<and> (dc_increasing c \<longleftrightarrow> adds_exposure s u (dc_action c)) \<and>
         dc_projected_before c = dadd (size_in (follower_positions_of s) (n_market (dc_action c)))
           (dget u (n_market (dc_action c)) 0)"
proof -
  obtain f where f: "rs_follower s = Some f"
    using assms by (cases "rs_follower s") (auto simp: choose_action_def step_inv)
  have r: "replan dg rt now f u s = (Go b, v) \<Longrightarrow> v = s" for u b v
    by (auto simp: replan_def step_inv Let_def split: prod.splits)
  from assms f r show "t = s" "start = Some a \<Longrightarrow> dc_action c = a" "dc_class c = Entry \<longleftrightarrow> \<not> force \<and> dc_increasing c"
    by (auto simp: choose_action_def step_inv Let_def split: if_splits)
  from assms f r show "\<exists>u. unresolved_of s = Inr u \<and> (dc_increasing c \<longleftrightarrow> adds_exposure s u (dc_action c)) \<and>
         dc_projected_before c = dadd (size_in (follower_positions_of s) (n_market (dc_action c)))
           (dget u (n_market (dc_action c)) 0)"
    by (fastforce simp: choose_action_def step_inv Let_def adds_exposure_def follower_positions_of_def)
qed

lemma check_rejected_Go: "check_rejected dg rt a s = (Go x, t) \<Longrightarrow> rs_state t = rs_state s \<and> rs_action_times t = rs_action_times s"
  by (auto simp: check_rejected_def step_inv)

lemma check_rate_Go:
  assumes "check_rate clock force c s = (Go x, t)"
  shows "t = prune_rate (dk_rate clock) s" "rs_state s = PAUSE_ENTRIES \<Longrightarrow> \<not> dc_increasing c"
    "\<not> force \<Longrightarrow> dc_increasing c \<Longrightarrow> int (length (rs_action_times t)) < action_limit_per_minute (config_of s)"
  using assms by (auto simp: check_rate_def step_inv Let_def config_of_def prune_rate_def)

lemma executable_size:
  assumes "executable_ioc snap is_buy (Fin q) buffer hard = Inr (Some e)"
  shows "0 < ei_size e \<and> ei_size e \<le> q \<and> ioc_limit snap is_buy buffer hard = Inr (Some (ei_limit_px e))"
  using executable_ioc_Some [OF assms] by auto

lemma size_order_Some:
  assumes "size_order cap snap a buffer hard = Inr (Some e)"
  shows "0 < ei_size e \<and> ei_size e \<le> n_size a \<and> ioc_limit snap (n_side a = ''buy'') buffer hard = Inr (Some (ei_limit_px e))"
  using assms by (auto simp: size_order_def dest!: executable_size split: option.splits if_splits)

lemma gate_order_Go:
  assumes "gate_order rt now c s = (Go (snap, e, count, revision), t)"
  shows "market_now rt now (n_market (dc_action c)) = Inr (Some snap)"
    "0 < ei_size e \<and> ei_size e \<le> n_size (dc_action c)"
    "dc_class c = Entry \<Longrightarrow> dc_increasing c \<Longrightarrow> \<exists>tr. map_of (rs_triggers s) (n_market (dc_action c)) = Some tr \<and>
       aggressive_ioc_price (Fin (tr_price tr)) (n_side (dc_action c) = ''buy'') (Fin (rt_max_tracking_bps rt))
         (sm_sz_decimals snap) = Inr (ei_limit_px e)"
proof -
  from assms obtain retry s1 s2 buffer hard where g:
    "market_now rt now (n_market (dc_action c)) = Inr (Some snap)" "current_retry (dc_action c) s = (Go retry, s1)"
    "rs_triggers s2 = rs_triggers s1"
    "dc_increasing c \<longrightarrow> map_of (rs_triggers s2) (n_market (dc_action c)) \<noteq> None"
    "price_policy rt snap c (if dc_increasing c then map_of (rs_triggers s2) (n_market (dc_action c)) else None) = Inr (buffer, hard)"
    "size_order (max_order_notional_usd (config_of s2)) snap (dc_action c) buffer hard = Inr (Some e)"
    by (auto simp: gate_order_def Let_def step_inv split: prod.splits)
  have tr: "rs_triggers s2 = rs_triggers s"
    using keeps_outcome [OF plan_view.keeps_gates(3) g(2)] g(3) by simp
  show "market_now rt now (n_market (dc_action c)) = Inr (Some snap)" by (fact g(1))
  show "0 < ei_size e \<and> ei_size e \<le> n_size (dc_action c)" using size_order_Some [OF g(6)] by simp
  show "\<exists>tr. map_of (rs_triggers s) (n_market (dc_action c)) = Some tr \<and>
       aggressive_ioc_price (Fin (tr_price tr)) (n_side (dc_action c) = ''buy'') (Fin (rt_max_tracking_bps rt))
         (sm_sz_decimals snap) = Inr (ei_limit_px e)" if "dc_class c = Entry" "dc_increasing c"
    using that g(4,5) size_order_Some [OF g(6)] by (auto simp: tr price_policy_def ioc_limit_def)
qed

lemma approve_order_Go:
  assumes "approve_order rt now c e s = (Go a, t)"
  shows "t = s" "a = (dc_action c)\<lparr>n_size := ei_size e\<rparr>" "rt_execution_enabled rt" "rt_locks rt \<noteq> []" "list_all id (rt_locks rt)"
    "exposure rt s a (ei_limit_px e) now = Inr None"
    "\<exists>rules pre. order_rules_of rt (n_market a) = Inr rules \<and>
       preflight_hyperliquid_perp_order rules (Fin (n_size a)) (Fin (ei_limit_px e)) (n_side a)
         (Fin (max_order_notional_usd (config_of s))) (n_reduce_only a) (Fin (dc_projected_before c))
         (leverage_in (follower_positions_of s) (n_market a)) None = Inr pre \<and> placeable pre"
  using assms by (auto simp: approve_order_def Let_def step_inv)


lemma select_order_Go:
  assumes "select_order dg rt clock now force s = (Go (a, snap, e, count, revision), t)"
  obtains start s1 c s3 s4 where
    "plan_entry dg rt clock now force s = (Go start, s1)" "choose_action dg rt now force start s1 = (Go c, s1)"
    "check_rejected dg rt (dc_action c) s1 = (Go (), s3)" "check_rate clock force c s3 = (Go (), s4)"
    "gate_order rt (now + max 0 (dk_locked clock - dk_gate clock)) c s4 = (Go (snap, e, count, revision), t)"
    "approve_order rt (now + max 0 (dk_locked clock - dk_gate clock)) c e t = (Go a, t)"
  using assms by (auto simp: select_order_def step_inv Let_def) (metis choose_action_Go(1) approve_order_Go(1))

lemma plan_drive_Go:
  assumes "plan_drive dg rt clock now force s = (Go p, rt', s')"
  obtains t where "select_order dg rt clock now force s =
      (Go (pi_action p, pi_snapshot p, pi_executable p, pi_retry_count p, pi_source_revision p), t)"
    "s' = t\<lparr>rs_truth_revision := rs_truth_revision t + 1\<rparr>"
    "rt' = rt\<lparr>rt_reservations := AList.update (slot_id (config_of s)) [(n_market (pi_action p), signed_size (pi_action p))]
                (rt_reservations rt)\<rparr>"
    "capture_epoch (rt_mux rt) = Inr (pi_required_epoch p)"
  using assms by (auto simp: plan_drive_def Let_def split: prod.splits drive.splits sum.splits)

lemma adds_mono:
  assumes "0 \<le> x" "x \<le> y" "n_side a = n_side b" "n_market a = n_market b" "n_size a = x" "n_size b = y"
    and "adds_exposure s u a"
  shows "adds_exposure s u b"
proof -
  define before where "before = dadd (size_in (follower_positions_of s) (n_market a)) (dget u (n_market a) 0)"
  have far: "\<bar>ctx before\<bar> < \<bar>ctx (before + w)\<bar>"
    if "\<bar>ctx before\<bar> < \<bar>ctx (before + v)\<bar>" "\<bar>v\<bar> \<le> \<bar>w\<bar>" "0 \<le> v \<and> 0 \<le> w \<or> v \<le> 0 \<and> w \<le> 0" for v w
  proof -
    have "\<not> \<bar>before + v\<bar> \<le> \<bar>before\<bar>"
      using that(1) ctx_mono [of "\<bar>before + v\<bar>" "\<bar>before\<bar>"] by (auto simp: ctx_abs)
    with that(2,3) have "\<bar>before + v\<bar> \<le> \<bar>before + w\<bar>" by arith
    then show ?thesis using that(1) ctx_mono [of "\<bar>before + v\<bar>" "\<bar>before + w\<bar>"] by (simp add: ctx_abs)
  qed
  have "dabs before < dabs (dadd before (signed_size a))"
    using assms(7) by (simp add: adds_exposure_def before_def Let_def)
  then have 1: "\<bar>ctx before\<bar> < \<bar>ctx (before + signed_size a)\<bar>" by (simp add: dabs_def dadd_def ctx_abs)
  have 2: "\<bar>signed_size a\<bar> \<le> \<bar>signed_size b\<bar>" "0 \<le> signed_size a \<and> 0 \<le> signed_size b \<or> signed_size a \<le> 0 \<and> signed_size b \<le> 0"
    using assms(1-6) ctx_mono [of x y] by (auto simp: signed_size_def dneg_def ctx_uminus)
  from far [OF 1 2] have "dabs before < dabs (dadd before (signed_size b))" by (simp add: dabs_def dadd_def ctx_abs)
  then show ?thesis by (simp add: adds_exposure_def before_def Let_def assms(4))
qed

lemma adds_exposure_view: "rs_follower t = rs_follower s \<Longrightarrow> adds_exposure t u a = adds_exposure s u a"
  by (simp add: adds_exposure_def follower_positions_of_def)

lemma unresolved_view: "rs_lane t = rs_lane s \<Longrightarrow> rs_journal t = rs_journal s \<Longrightarrow> unresolved_of t = unresolved_of s"
  by (simp add: unresolved_of_def)

lemma close_never_adds: "\<not> adds_exposure s [] (close_action i m (dadd (size_in (follower_positions_of s) m) 0) why)"
proof -
  define z where "z = ctx (size_in (follower_positions_of s) m)"
  have z: "ctx z = z" by (simp add: z_def)
  have "signed_size (close_action i m z why) = - z"
    by (simp add: signed_size_def close_action_def dabs_def dneg_def ctx_uminus ctx_abs z)
  then show ?thesis
    by (simp add: adds_exposure_def dadd_def z_def [symmetric] Let_def close_action_def z dabs_def)
qed

lemma forced_close_Some:
  assumes "forced_close_action dg s = Inr (Some a)" "unresolved_of s = Inr []" "distinct (map fst (follower_positions_of s))"
  obtains i m why where "a = close_action i m (dadd (size_in (follower_positions_of s) m) 0) why" "n_market a = m"
proof -
  from assms(1,2) obtain m p i why where mp: "(m, p) \<in> set (follower_positions_of s)"
    and a: "a = close_action i m (dadd (pos_size p) 0) why"
    by (auto simp: forced_close_action_def Let_def dest!: find_Some_iff [THEN iffD1] nth_mem)
  have "size_in (follower_positions_of s) m = pos_size p"
    using mp assms(3) by (simp add: size_in_def map_of_is_SomeI)
  with a show ?thesis using that [of i m why] by (simp add: close_action_def)
qed


lemma filter_le_dropWhile: "(\<And>x. P x \<Longrightarrow> \<not> Q x) \<Longrightarrow> length (filter P xs) \<le> length (filter P (dropWhile Q xs))"
  by (induction xs) auto

lemma window_bound:
  assumes "b \<le> m" "c \<le> m"
  shows "length (filter (\<lambda>t. m - 60000 < t) ts) \<le>
    length (dropWhile (\<lambda>t. t \<le> c - 60000) (dropWhile (\<lambda>t. t \<le> b - 60000) (ts :: int list)))"
proof -
  have "length (filter (\<lambda>t. m - 60000 < t) ts) \<le>
    length (filter (\<lambda>t. m - 60000 < t) (dropWhile (\<lambda>t. t \<le> c - 60000) (dropWhile (\<lambda>t. t \<le> b - 60000) ts)))"
    by (rule order.trans [OF filter_le_dropWhile filter_le_dropWhile]) (use assms in auto)
  then show ?thesis using length_filter_le order.trans by blast
qed

text \<open>A prepared order that adds exposure came through a slot that was ready to run.\<close>

lemma prepared_entry:
  assumes plan: "plan_drive dg rt clock now force s = (Go p, rt', s')"
    and u: "unresolved_of s = Inr u" and adds: "adds_exposure s u (pi_action p)"
    and d: "distinct (map fst (follower_positions_of s))"
  obtains s1 c s4 where "\<not> force" "ready rt (dk_ready clock) now s = Inr s1" "rs_state s1 = RUNNING"
    "dc_class c = Entry" "dc_increasing c" "pi_action p = (dc_action c)\<lparr>n_size := ei_size (pi_executable p)\<rparr>"
    "rs_triggers s4 = rs_triggers s" "rs_action_times s4 = rs_action_times (prune_rate (dk_rate clock) s1)"
    "int (length (rs_action_times s4)) < action_limit_per_minute (config_of s)"
    "gate_order rt (now + max 0 (dk_locked clock - dk_gate clock)) c s4 =
       (Go (pi_snapshot p, pi_executable p, pi_retry_count p, pi_source_revision p),
        s'\<lparr>rs_truth_revision := rs_truth_revision s' - 1\<rparr>)"
    "rs_state s \<noteq> OPERATOR_STOP" "rt_execution_enabled rt"
proof -
  obtain t where sel: "select_order dg rt clock now force s =
      (Go (pi_action p, pi_snapshot p, pi_executable p, pi_retry_count p, pi_source_revision p), t)"
    and s': "s' = t\<lparr>rs_truth_revision := rs_truth_revision t + 1\<rparr>"
    by (rule plan_drive_Go [OF plan])
  obtain start s1 c s3 s4 where steps:
    "plan_entry dg rt clock now force s = (Go start, s1)" "choose_action dg rt now force start s1 = (Go c, s1)"
    "check_rejected dg rt (dc_action c) s1 = (Go (), s3)" "check_rate clock force c s3 = (Go (), s4)"
    and gate: "gate_order rt (now + max 0 (dk_locked clock - dk_gate clock)) c s4 =
      (Go (pi_snapshot p, pi_executable p, pi_retry_count p, pi_source_revision p), t)"
    and app: "approve_order rt (now + max 0 (dk_locked clock - dk_gate clock)) c (pi_executable p) t = (Go (pi_action p), t)"
    by (rule select_order_Go [OF sel])
  note v1 = keeps_outcome [OF plan_view.keeps_entry steps(1)]
    and v3 = keeps_outcome [OF plan_view.keeps_gates(1) steps(3)]
    and v4 = keeps_outcome [OF plan_view.keeps_gates(2) steps(4)]
  have cfg: "config_of s3 = config_of s" using v1 v3 by (simp add: config_of_def)
  have a: "pi_action p = (dc_action c)\<lparr>n_size := ei_size (pi_executable p)\<rparr>" by (rule approve_order_Go(2) [OF app])
  have "adds_exposure s u (dc_action c)"
    using adds gate_order_Go(2) [OF gate] by (intro adds_mono [OF _ _ _ _ _ _ adds]) (auto simp: a)
  then have inc: "dc_increasing c"
    using choose_action_Go(4) [OF steps(2)] v1 u
    by (auto simp: adds_exposure_view [of s1 s] unresolved_view [of s1 s])
  have "\<not> force"
  proof
    assume force
    then obtain a where start: "start = Some a" "forced_close_action dg s = Inr (Some a)" "unresolved_of s = Inr []" "s1 = s"
      using plan_entry_Go(2) [OF steps(1)] by blast
    obtain i m why where "a = close_action i m (dadd (size_in (follower_positions_of s) m) 0) why"
      using forced_close_Some [OF start(2,3) d] by blast
    moreover have "adds_exposure s [] a"
      using inc choose_action_Go(2,4) [OF steps(2)] start by auto
    ultimately show False using close_never_adds by simp
  qed
  moreover have ready: "ready rt (dk_ready clock) now s = Inr s1" "rs_state s1 \<in> {RUNNING, PAUSE_ENTRIES}"
    using plan_entry_Go(3) [OF steps(1)] \<open>\<not> force\<close> by auto
  moreover have "rs_state s1 \<noteq> PAUSE_ENTRIES"
    using inc check_rate_Go(2) [OF steps(4)] check_rejected_Go [OF steps(3)] by auto
  moreover have "dc_class c = Entry" using choose_action_Go(3) [OF steps(2)] inc \<open>\<not> force\<close> by simp
  moreover have "rs_action_times s4 = rs_action_times (prune_rate (dk_rate clock) s1)"
    using check_rate_Go(1) [OF steps(4)] check_rejected_Go [OF steps(3)] by (simp add: prune_rate_def)
  moreover have "int (length (rs_action_times s4)) < action_limit_per_minute (config_of s)"
    using check_rate_Go(3) [OF steps(4)] inc \<open>\<not> force\<close> cfg by simp
  moreover have "rs_triggers s4 = rs_triggers s" using v1 v3 v4 by simp
  moreover have "t = s'\<lparr>rs_truth_revision := rs_truth_revision s' - 1\<rparr>" by (simp add: s')
  ultimately show ?thesis
    using that inc a gate plan_entry_Go(1) [OF steps(1)] approve_order_Go(3) [OF app] by blast
qed

section \<open>Waiting after an order that found no liquidity\<close>

definition observed_ms :: "LiquidityRetry \<Rightarrow> MarketSnapshot \<Rightarrow> int" where
  "observed_ms r snap = (if lr_observe_context r then sm_context_received_ms snap
     else max (sm_bbo_received_ms snap) (sm_book_received_ms snap))"

lemma check_retry_Go:
  assumes "check_retry now a snap limit r s = (Go x, t)" and "lr_require_market_observation r"
  shows "lr_after_observed_ms r < observed_ms r snap \<and>
    (liquidity_fingerprint snap (n_side a) limit (lr_observe_context r) \<noteq> lr_liquidity_fingerprint r \<or> lr_not_before_ms r \<le> now)"
  using assms by (auto simp: check_retry_def observed_ms_def Let_def step_inv split: if_splits)

lemma gate_order_retry:
  assumes "gate_order rt now c s = (Go (snap, e, count, revision), t)"
    and "map_of (rs_liquidity_retries s) (n_market (dc_action c)) = Some r"
    and "lr_desired_id r = n_desired_id (dc_action c)"
    and "lr_source_revision r = dget (rs_source_revisions s) (n_market (dc_action c)) 0"
    and "lr_require_market_observation r"
  shows "count = lr_retry_count r \<and> lr_after_observed_ms r < observed_ms r snap \<and>
    (liquidity_fingerprint snap (n_side (dc_action c)) (ei_limit_px e) (lr_observe_context r) \<noteq> lr_liquidity_fingerprint r \<or>
     lr_not_before_ms r \<le> now)"
proof -
  have cr: "current_retry (dc_action c) s = (Go (Some r), s)"
    using assms(2-4) by (simp add: current_retry_def dbind_def dget_slot_def dgo_def)
  from assms(1) obtain s2 s3 where "check_retry now (dc_action c) snap (ei_limit_px e) r s2 = (Go (), s3)" "count = lr_retry_count r"
    by (auto simp: gate_order_def Let_def step_inv cr split: prod.splits)
  then show ?thesis using check_retry_Go [OF _ assms(5)] by blast
qed


section \<open>A reservation without an order\<close>












section \<open>Properties\<close>

text \<open>
  C6: once a slot is latched for fail-close, no sequence of operations other than the operator's
  re-arm removes the latch, and no drive, forced or not, prepares an order that adds exposure.
\<close>

theorem fail_close_is_latched:
  assumes "slot_step\<^sup>*\<^sup>* s t" and "given_text (rs_fail_close_reason s)" and "truth_ok s"
  shows "rs_fail_close_reason t = rs_fail_close_reason s \<and>
    (\<forall>dg rt clock now force p rt' t' u. plan_drive dg rt clock now force t = (Go p, rt', t') \<and> unresolved_of t = Inr u \<longrightarrow>
       \<not> adds_exposure t u (pi_action p))"
proof -
  have t: "rs_fail_close_reason t = rs_fail_close_reason s" "truth_ok t" using slot_steps_latched [OF assms] by auto
  have "\<not> adds_exposure t u (pi_action p)"
    if plan: "plan_drive dg rt clock now force t = (Go p, rt', t')" "unresolved_of t = Inr u" for dg rt clock now force p rt' t' u
  proof
    assume "adds_exposure t u (pi_action p)"
    then obtain s1 where "ready rt (dk_ready clock) now t = Inr s1" "rs_state s1 = RUNNING"
      using prepared_entry [OF plan] t(2) unfolding truth_ok_def by blast
    then have "may_act rt now t" by (rule ready_running)
    then show False using assms(2) t(1) by (simp add: may_act_def)
  qed
  with t(1) show ?thesis by blast
qed

text \<open>A forced drive of the latched slot sells what it holds.\<close>

theorem fail_close_is_latched_witness:
  "\<exists>p rt' t'. plan_drive ex_digests (ex_runtime 100 True) (ex_clock 100) 100 True (ex_closing_slot 100) = (Go p, rt', t') \<and>
     n_side (pi_action p) = ''sell'' \<and> \<not> adds_exposure (ex_closing_slot 100) [] (pi_action p)"
proof -
  obtain p rt' t' where p: "plan_drive ex_digests (ex_runtime 100 True) (ex_clock 100) 100 True (ex_closing_slot 100) = (Go p, rt', t')"
    "n_side (pi_action p) = ''sell''"
    using ex_forced_close by (auto split: prod.splits drive.splits)
  have "truth_ok (ex_closing_slot 100)" "given_text (rs_fail_close_reason (ex_closing_slot 100))" by code_simp+
  then show ?thesis using fail_close_is_latched [of "ex_closing_slot 100" "ex_closing_slot 100"] p ex_unresolved(2) by blast
qed

text \<open>
  C5: an order that adds to the slot's position is prepared only by an unforced drive of a slot that
  is neither stopped, paused nor latched for fail-close, whose source and follower truth are fresh,
  with no unresolved order, fewer recent attempts than its limit per minute, and an accepted source
  fill in the market whose price the limit price follows within the tracking allowance.
\<close>

theorem entry_order_gated:
  assumes "plan_drive dg rt clock now force s = (Go p, rt', s')" and "unresolved_of s = Inr u"
    and "adds_exposure s u (pi_action p)" and "distinct (map fst (follower_positions_of s))"
  shows "\<not> force \<and> rs_state s \<noteq> OPERATOR_STOP \<and> \<not> rs_operator_paused s \<and> may_act rt now s \<and> rt_execution_enabled rt \<and>
    int (length (filter (\<lambda>t. max (dk_ready clock) (dk_rate clock) - 60000 < t) (rs_action_times s))) <
      action_limit_per_minute (config_of s) \<and>
    (\<exists>tr. map_of (rs_triggers s) (n_market (pi_action p)) = Some tr \<and>
      (if n_side (pi_action p) = ''buy''
       then ei_limit_px (pi_executable p) \<le> dmul (tr_price tr) (dadd 1 (ddiv (rt_max_tracking_bps rt) 10000))
       else dmul (tr_price tr) (dsub 1 (ddiv (rt_max_tracking_bps rt) 10000)) \<le> ei_limit_px (pi_executable p)))"
proof -
  obtain s1 c s4 where e: "\<not> force" "ready rt (dk_ready clock) now s = Inr s1" "rs_state s1 = RUNNING"
    "dc_class c = Entry" "dc_increasing c" "pi_action p = (dc_action c)\<lparr>n_size := ei_size (pi_executable p)\<rparr>"
    "rs_triggers s4 = rs_triggers s" "rs_action_times s4 = rs_action_times (prune_rate (dk_rate clock) s1)"
    "int (length (rs_action_times s4)) < action_limit_per_minute (config_of s)"
    and gate: "gate_order rt (now + max 0 (dk_locked clock - dk_gate clock)) c s4 =
       (Go (pi_snapshot p, pi_executable p, pi_retry_count p, pi_source_revision p),
        s'\<lparr>rs_truth_revision := rs_truth_revision s' - 1\<rparr>)"
    and on: "rs_state s \<noteq> OPERATOR_STOP" "rt_execution_enabled rt"
    by (rule prepared_entry [OF assms])
  obtain tr where tr: "map_of (rs_triggers s) (n_market (pi_action p)) = Some tr"
    and px: "aggressive_ioc_price (Fin (tr_price tr)) (n_side (pi_action p) = ''buy'') (Fin (rt_max_tracking_bps rt))
         (sm_sz_decimals (pi_snapshot p)) = Inr (ei_limit_px (pi_executable p))"
    using gate_order_Go(3) [OF gate e(4,5)] e(6,7) by auto
  have times: "rs_action_times s1 = dropWhile (\<lambda>t. t \<le> dk_ready clock - 60000) (rs_action_times s)"
    using e(3) by (auto intro: ready_cases [OF e(2)] simp: block_slot_def prune_rate_def split: if_splits)
  have "length (filter (\<lambda>t. max (dk_ready clock) (dk_rate clock) - 60000 < t) (rs_action_times s)) \<le> length (rs_action_times s4)"
    using window_bound [of "dk_ready clock" "max (dk_ready clock) (dk_rate clock)" "dk_rate clock" "rs_action_times s"]
    by (simp add: e(8) prune_rate_def times)
  moreover have "if n_side (pi_action p) = ''buy''
       then ei_limit_px (pi_executable p) \<le> dmul (tr_price tr) (dadd 1 (ddiv (rt_max_tracking_bps rt) 10000))
       else dmul (tr_price tr) (dsub 1 (ddiv (rt_max_tracking_bps rt) 10000)) \<le> ei_limit_px (pi_executable p)"
    using px by (auto simp: aggressive_ioc_price_def ioc_multiplier_def split: if_splits dest: inside_limit_spec)
  ultimately show ?thesis using e(1,9) on tr ready_running [OF e(2,3)] by auto
qed

theorem entry_order_gated_witness:
  "\<exists>p rt' s'. plan_drive ex_digests (ex_runtime 100 True) (ex_clock 100) 100 False (ex_runtime_slot 100) = (Go p, rt', s') \<and>
     may_act (ex_runtime 100 True) 100 (ex_runtime_slot 100) \<and>
     ei_limit_px (pi_executable p) \<le> dmul 10 (dadd 1 (ddiv 50 10000))"
proof -
  obtain p rt' s' where p: "plan_drive ex_digests (ex_runtime 100 True) (ex_clock 100) 100 False (ex_runtime_slot 100) = (Go p, rt', s')"
    "pi_action p = ex_action"
    using ex_drive_prepares by (auto split: prod.splits drive.splits)
  have "adds_exposure (ex_runtime_slot 100) [] ex_action" "distinct (map fst (follower_positions_of (ex_runtime_slot 100)))"
    by code_simp+
  from entry_order_gated [OF p(1) ex_unresolved(1) _ this(2)] this(1) p show ?thesis
    by (auto simp: ex_action_def ex_runtime_slot_def ex_runtime_def)
qed


text \<open>
  after an order of which nothing was filled, an order toward the same target in the same source
  revision leaves the gate only on a book or quote received after the outcome, and then only if the
  liquidity inside its limit changed or the backoff of one, two or five seconds has passed.
\<close>

theorem no_fill_retry_waits:
  assumes "classify_outcome r = NoLiquidity" and "same_revision planned s"
    and "fold_outcome dg rt r planned clock s = (Go (), t)"
    and "gate_order rt' now c u = (Go (snap, e, count, revision), v)"
    and "rs_liquidity_retries u = rs_liquidity_retries t" and "rs_source_revisions u = rs_source_revisions s"
    and "n_market (dc_action c) = n_market (pi_action planned)" and "n_desired_id (dc_action c) = n_desired_id (pi_action planned)"
  shows "count = pi_retry_count planned + 1 \<and>
    max clock (max (sm_bbo_received_ms (pi_snapshot planned)) (sm_book_received_ms (pi_snapshot planned))) <
      max (sm_bbo_received_ms snap) (sm_book_received_ms snap) \<and>
    (liquidity_fingerprint snap (n_side (dc_action c)) (ei_limit_px e) False \<noteq>
       liquidity_fingerprint (pi_snapshot planned) (n_side (pi_action planned)) (ei_limit_px (pi_executable planned)) False \<or>
     (\<exists>delay \<in> {1000, 2000, 5000}. liquidity_retry_delay_ms count = Inr delay \<and> clock + delay \<le> now))"
proof -
  let ?m = "n_market (pi_action planned)"
  obtain delay where d: "liquidity_retry_delay_ms (pi_retry_count planned + 1) = Inr delay"
    and t: "t = put_retry ?m (retry_entry planned clock delay True False ''terminal IOC no-fill'') s"
    using assms(1-3) by (auto simp: fold_outcome_def put_delayed_retry_def step_inv)
  define q where "q = retry_entry planned clock delay True False ''terminal IOC no-fill''"
  have q: "map_of (rs_liquidity_retries u) (n_market (dc_action c)) = Some q"
    using assms(5,7) by (simp add: t put_retry_def q_def update_Some_unfold)
  have "lr_desired_id q = n_desired_id (dc_action c)" "lr_source_revision q = dget (rs_source_revisions u) (n_market (dc_action c)) 0"
    "lr_require_market_observation q"
    using assms(2,6,7,8) by (simp_all add: q_def retry_entry_def Let_def same_revision_def)
  from gate_order_retry [OF assms(4) q this]
  have g: "count = lr_retry_count q" "lr_after_observed_ms q < observed_ms q snap"
    "liquidity_fingerprint snap (n_side (dc_action c)) (ei_limit_px e) (lr_observe_context q) \<noteq> lr_liquidity_fingerprint q \<or>
     lr_not_before_ms q \<le> now"
    by blast+
  have "delay \<in> {1000, 2000, 5000}"
  proof -
    have "nat (min (pi_retry_count planned) 2) \<in> {0, 1, 2}" by auto
    then show ?thesis using d by (auto simp: liquidity_retry_delay_ms_def nth_Cons' split: if_splits)
  qed
  with g d show ?thesis by (auto simp: q_def retry_entry_def Let_def observed_ms_def)
qed

text \<open>The order of the concrete slot was cancelled at 100; at 1200, on a book of 1150, it may be sent again.\<close>

definition ex_planned :: PreparedIoc where
  "ex_planned = \<lparr>pi_action = ex_action, pi_snapshot = ex_snapshot,
     pi_executable = \<lparr>ei_size = 2, ei_visible_size = 2, ei_limit_px = 201 / 20, ei_estimated_vwap = 10, ei_estimated_notional = 20\<rparr>,
     pi_required_epoch = 1, pi_gate_clock = 0, pi_retry_count = 0, pi_source_revision = 1\<rparr>"

definition ex_cancelled :: PostResult where
  "ex_cancelled = \<lparr>pr_request_id = 1, pr_outcome = PO_CANCELLED, pr_response = JNull, pr_reason = ''cancelled'', pr_filled_size = 0,
     pr_average_fill_price = None, pr_order_id = None\<rparr>"

definition ex_choice :: drive_choice where
  "ex_choice = \<lparr>dc_action = ex_action, dc_projected_before = 0, dc_increasing = True, dc_class = Entry\<rparr>"

lemma ex_retry_runs:
  "(case fold_outcome ex_digests (ex_runtime 100 True) ex_cancelled ex_planned 100 (ex_runtime_slot 100) of
      (Go _, t) \<Rightarrow> (case gate_order (ex_runtime 1150 True) 1200 ex_choice t of (Go _, _) \<Rightarrow> True | _ \<Rightarrow> False)
    | _ \<Rightarrow> False)"
  by code_simp

theorem no_fill_retry_waits_witness:
  "\<exists>t u snap e revision. fold_outcome ex_digests (ex_runtime 100 True) ex_cancelled ex_planned 100 (ex_runtime_slot 100) = (Go (), t) \<and>
     gate_order (ex_runtime 1150 True) 1200 ex_choice t = (Go (snap, e, 1, revision), u) \<and>
     100 < max (sm_bbo_received_ms snap) (sm_book_received_ms snap)"
proof -
  obtain t snap e count revision u where g:
    "fold_outcome ex_digests (ex_runtime 100 True) ex_cancelled ex_planned 100 (ex_runtime_slot 100) = (Go (), t)"
    "gate_order (ex_runtime 1150 True) 1200 ex_choice t = (Go (snap, e, count, revision), u)"
    using ex_retry_runs by (auto split: prod.splits drive.splits)
  have c: "classify_outcome ex_cancelled = NoLiquidity" by code_simp
  have r: "same_revision ex_planned (ex_runtime_slot 100)" by code_simp
  have m: "rs_source_revisions t = rs_source_revisions (ex_runtime_slot 100)"
    using g(1) c r by (auto simp: fold_outcome_def put_delayed_retry_def put_retry_def step_inv)
  show ?thesis
    using no_fill_retry_waits [OF c r g refl m] g by (auto simp: ex_choice_def ex_planned_def ex_snapshot_def)
qed



end
