(* ===== verification/Runtime_Exposure.thy ===== *)
theory Runtime_Exposure
  imports Runtime_Example
begin

text \<open>
  The exposure check: what it approves keeps the exact gross notional within the slot's and the
  plan's caps for every part of the pending orders that may fill, up to decimal rounding.
\<close>

section \<open>The gross notional of one slot\<close>









section \<open>All slots\<close>






section \<open>Properties\<close>





end
