(* ===== verification/Runtime_Store.thy ===== *)
theory Runtime_Store
  imports Runtime_Outcome
begin

text \<open>
  \<^verbatim>\<open>continuous_runtime.py\<close>, the durable state of a slot: \<open>_StateStore\<close> with its one table, the payload it
  writes, and the start of a slot from it.

  \<open>dstr\<close> is \<open>str\<close> of a Decimal. The text keeps trailing zeros, which the value does not determine, so it
  is an argument; a property asks that the texts of the stored values read back as these values.
  Books hold finite sizes: a stored text that is not a finite number is an error of \<open>restore\<close>, where
  the program fails for text that is no number and would carry on with a NaN.
\<close>

section \<open>The table\<close>

record state_row =
  sr_version :: int
  sr_payload :: string

type_synonym state_store = "(string \<times> state_row) list"

definition store_load :: "state_store \<Rightarrow> string \<Rightarrow> (string \<times> json) list option result" where
  "store_load st slot =
     (case map_of st slot of
        None \<Rightarrow> Inr None
      | Some row \<Rightarrow>
          if sr_version row \<noteq> 1 then Inl (ValueError ''unsupported continuous state version'')
          else case json_loads (sr_payload row) of
            None \<Rightarrow> Inl (ValueError ''JSONDecodeError'')
          | Some (JObj m) \<Rightarrow> Inr (Some m)
          | Some _ \<Rightarrow> Inl (ValueError ''malformed continuous state''))"

fun state_value :: "RuntimeState \<Rightarrow> string" where
  "state_value RUNNING = ''RUNNING''"
| "state_value PAUSE_ENTRIES = ''PAUSE_ENTRIES''"
| "state_value RECOVERING = ''RECOVERING''"
| "state_value OPERATOR_STOP = ''OPERATOR_STOP''"

definition wire_decimals :: "(rat \<Rightarrow> string) \<Rightarrow> (string \<times> rat) list \<Rightarrow> json" where
  "wire_decimals dstr values = JObj (map (\<lambda>(m, v). (m, JStr (dstr v))) (filter (\<lambda>(m, v). v \<noteq> 0) values))"

definition wire_trigger :: "(rat \<Rightarrow> string) \<Rightarrow> Trigger \<Rightarrow> json" where
  "wire_trigger dstr t =
     JObj [(''price'', JStr (dstr (tr_price t))), (''time_ms'', JInt (tr_time_ms t)), (''accepted_ms'', JInt (tr_accepted_ms t))]"

definition wire_follower :: "(rat \<Rightarrow> string) \<Rightarrow> rat FollowerTruth \<Rightarrow> json result" where
  "wire_follower dstr f =
     rbind (sizes (ft_positions f)) (\<lambda>positions.
     Inr (JObj [(''positions'', wire_decimals dstr positions), (''equity'', JStr (dstr (ft_equity f))),
                (''observed_ms'', JInt (ft_observed_ms f))]))"

text \<open>The last 512 applied fills are kept.\<close>

definition wire_fills :: "fill_identity list \<Rightarrow> json" where
  "wire_fills fills = JArr (map (\<lambda>(a, h, t). JArr [JStr a, JStr h, JStr t]) (drop (length fills - 512) fills))"

definition payload_fields :: "(rat \<Rightarrow> string) \<Rightarrow> (string \<times> string) list \<Rightarrow> json \<Rightarrow> RuntimeSlot \<Rightarrow> (string \<times> json) list" where
  "payload_fields dstr ident follower s =
     [(''identity'', JObj (map (\<lambda>(k, v). (k, JStr v)) ident)),
      (''state'', JStr (state_value (rs_state s))),
      (''source'', wire_decimals dstr (case rs_expected_source s of None \<Rightarrow> [] | Some e \<Rightarrow> e)),
      (''unattributed'', wire_decimals dstr (rs_unattributed s)),
      (''attributable'', wire_decimals dstr (rs_attributable s)),
      (''pending_catalog_markets'', JArr (map JStr (sort (rs_pending_catalog s)))),
      (''fills'', wire_fills (rs_applied_fills s)),
      (''triggers'', JObj (map (\<lambda>(m, t). (m, wire_trigger dstr t)) (sort_key fst (rs_triggers s)))),
      (''source_revisions'', JObj (map (\<lambda>(m, n). (m, JInt n)) (sort_key fst (rs_source_revisions s)))),
      (''initial_follower_nonflat'', JBool (rs_initial_nonflat s)),
      (''fail_close_reason'', case rs_fail_close_reason s of None \<Rightarrow> JNull | Some r \<Rightarrow> JStr r),
      (''follower'', follower)]"

definition state_payload :: "(rat \<Rightarrow> string) \<Rightarrow> (string \<times> string) list \<Rightarrow> RuntimeSlot \<Rightarrow> json result" where
  "state_payload dstr ident s =
     rbind (case rs_follower s of None \<Rightarrow> Inr JNull | Some f \<Rightarrow> wire_follower dstr f) (\<lambda>follower.
     Inr (JObj (payload_fields dstr ident follower s)))"

definition store_save :: "(rat \<Rightarrow> string) \<Rightarrow> (string \<times> string) list \<Rightarrow> RuntimeSlot \<Rightarrow> state_store \<Rightarrow> state_store result" where
  "store_save dstr ident s st =
     rbind (state_payload dstr ident s) (\<lambda>payload.
     Inr (AList.update (slot_id (config_of s)) \<lparr>sr_version = 1, sr_payload = json_dumps payload\<rparr> st))"

definition upgrade_identity ::
  "string \<Rightarrow> (string \<times> json) list \<Rightarrow> (string \<times> string) list \<Rightarrow> state_store \<Rightarrow> state_store" where
  "upgrade_identity slot payload ident st =
     map (\<lambda>(k, row). if k = slot \<and> sr_version row = 1
       then (k, row\<lparr>sr_payload := json_dumps (JObj (AList.update ''identity'' (JObj (map (\<lambda>(k, v). (k, JStr v)) ident)) payload))\<rparr>)
       else (k, row)) st"


section \<open>Restoring a slot\<close>

definition read_decimal :: "json \<Rightarrow> rat result" where
  "read_decimal v =
     (case parse_decimal (py_str v) of
        Some (Fin x) \<Rightarrow> Inr x
      | _ \<Rightarrow> Inl (ArithmeticError ''InvalidOperation''))"

fun read_decimals :: "json \<Rightarrow> (string \<times> rat) list result" where
  "read_decimals (JObj m) = rmap (\<lambda>(k, v). rbind (read_decimal v) (\<lambda>x. Inr (k, x))) m"
| "read_decimals _ = Inr []"

text \<open>Equality of a JSON object with a dictionary of strings.\<close>

definition same_identity :: "json \<Rightarrow> (string \<times> string) list \<Rightarrow> bool" where
  "same_identity stored ident =
     (case stored of
        JObj m \<Rightarrow> list_all (\<lambda>k. map_of m k = map_option JStr (map_of ident k)) (map fst m @ map fst ident)
      | _ \<Rightarrow> False)"

definition check_identity :: "(string \<times> json) list \<Rightarrow> (string \<times> string) list \<Rightarrow> bool result" where
  "check_identity payload ident =
     (let stored = jget payload ''identity''
      in if same_identity stored ident then Inr False
         else if same_identity stored (filter (\<lambda>(k, v). k \<noteq> ''denied_markets_sha256'') ident) then Inr True
         else Inl (ValueError ''continuous state identity mismatch''))"

definition read_pending :: "(string \<times> json) list \<Rightarrow> string list result" where
  "read_pending payload =
     (case dget payload ''pending_catalog_markets'' (JArr []) of
        JArr items \<Rightarrow>
          if list_all (\<lambda>v. case v of JStr _ \<Rightarrow> True | _ \<Rightarrow> False) items
          then rbind (rmap (\<lambda>v. canonical_market_symbol (py_str v)) items) (\<lambda>ms. Inr (remdups ms))
          else Inl (ValueError ''malformed pending catalog state'')
      | _ \<Rightarrow> Inl (ValueError ''malformed pending catalog state''))"

text \<open>With dynamic eligibility, a copied market that the catalog does not know is pending as well.\<close>

definition unknown_markets :: "CatalogRevision \<Rightarrow> (string \<times> rat) list \<Rightarrow> string list result" where
  "unknown_markets catalog book =
     rbind (rmap (\<lambda>(m, v). rbind (revision_market catalog m) (\<lambda>spec. Inr (m, spec = None))) (nz book)) (\<lambda>rows.
     Inr (map fst (filter snd rows)))"

text \<open>The items of \<open>for item in v\<close>.\<close>

fun json_items :: "json \<Rightarrow> json list result" where
  "json_items (JArr xs) = Inr xs"
| "json_items (JObj m) = Inr (map (\<lambda>(k, _). JStr k) m)"
| "json_items (JStr t) = Inr (map (\<lambda>c. JStr [c]) t)"
| "json_items _ = Inl (TypeError ''object is not iterable'')"

fun read_fill :: "json \<Rightarrow> fill_identity list" where
  "read_fill (JArr [a, h, t]) = [(py_str a, py_str h, py_str t)]"
| "read_fill _ = []"

definition dict_keys :: "'a list \<Rightarrow> 'a list" where
  "dict_keys xs = rev (remdups (rev xs))"

definition read_fills :: "(string \<times> json) list \<Rightarrow> fill_identity list result" where
  "read_fills payload =
     rbind (json_items (dget payload ''fills'' (JArr []))) (\<lambda>items. Inr (dict_keys (concat (map read_fill items))))"

definition need_int :: "json option \<Rightarrow> int result" where
  "need_int v =
     (case v of
        None \<Rightarrow> Inl (KeyError ''time_ms'')
      | Some j \<Rightarrow> (case py_int j of None \<Rightarrow> Inl (ValueError ''invalid literal for int()'') | Some n \<Rightarrow> Inr n))"

definition read_trigger :: "(string \<times> json) list \<Rightarrow> Trigger result" where
  "read_trigger m =
     rbind (case map_of m ''price'' of None \<Rightarrow> Inl (KeyError ''price'') | Some p \<Rightarrow> read_decimal p) (\<lambda>price.
     rbind (need_int (map_of m ''time_ms'')) (\<lambda>time.
     rbind (need_int (case map_of m ''accepted_ms'' of None \<Rightarrow> map_of m ''time_ms'' | Some a \<Rightarrow> Some a)) (\<lambda>accepted.
     Inr \<lparr>tr_price = price, tr_time_ms = time, tr_accepted_ms = accepted\<rparr>)))"

fun read_triggers :: "json \<Rightarrow> (string \<times> Trigger) list result" where
  "read_triggers (JObj m) =
     rbind (rmap (\<lambda>(k, v). case v of
              JObj f \<Rightarrow> rbind (read_trigger f) (\<lambda>t. Inr [(k, t)])
            | _ \<Rightarrow> Inr []) m) (\<lambda>rows. Inr (concat rows))"
| "read_triggers _ = Inr []"

fun read_revisions :: "json \<Rightarrow> (string \<times> int) list result" where
  "read_revisions (JObj m) = rmap (\<lambda>(k, v). rbind (need_int (Some v)) (\<lambda>n. Inr (k, max 0 n))) m"
| "read_revisions _ = Inr []"

text \<open>The loop over the pending markets; the flag says whether a catalog refresh is requested.\<close>

definition restore_pending ::
  "CatalogRevision \<Rightarrow> string list \<Rightarrow> string \<Rightarrow> bool \<times> RuntimeSlot \<Rightarrow> (bool \<times> RuntimeSlot) result" where
  "restore_pending catalog allowed market r =
     (case r of (refresh, s) \<Rightarrow>
       rbind (revision_market catalog market) (\<lambda>spec.
       if spec = None then
         if dget (rs_attributable s) market 0 \<noteq> 0
         then Inr (True, s\<lparr>rs_pending_catalog := List.insert market (rs_pending_catalog s)\<rparr>)
         else Inr (refresh, s)
       else if market \<in> set allowed then Inr (refresh, s)
       else let size = dget (rs_attributable s) market 0
            in Inr (refresh, s\<lparr>rs_attributable := AList.delete market (rs_attributable s),
                 rs_unattributed := put_nz (rs_unattributed s) market (dadd (dget (rs_unattributed s) market 0) size),
                 rs_triggers := AList.delete market (rs_triggers s)\<rparr>)))"

definition read_latch :: "(string \<times> json) list \<Rightarrow> string option" where
  "read_latch payload =
     (case jget payload ''fail_close_reason'' of
        JStr t \<Rightarrow> if py_strip t \<noteq> [] then Some (py_strip t) else None
      | _ \<Rightarrow> None)"

definition restored_state :: "string \<Rightarrow> RuntimeSlot \<Rightarrow> RuntimeSlot" where
  "restored_state stored s =
     (if stored = state_value OPERATOR_STOP then s\<lparr>rs_state := OPERATOR_STOP, rs_reason := Text ''restored operator stop''\<rparr>
      else if stored = state_value PAUSE_ENTRIES then s\<lparr>rs_operator_paused := True\<rparr>
      else s)"

definition restore_fields ::
  "(string \<times> json) list \<Rightarrow> (string \<times> rat) list \<Rightarrow> (string \<times> rat) list \<Rightarrow> (string \<times> rat) list \<Rightarrow> (string \<times> rat) list option \<Rightarrow>
   fill_identity list \<Rightarrow> (string \<times> Trigger) list \<Rightarrow> (string \<times> int) list \<Rightarrow> RuntimeSlot \<Rightarrow> RuntimeSlot" where
  "restore_fields payload source unattributed attributable positions fills triggers revisions s =
     (let latch = read_latch payload
      in s\<lparr>rs_ever_baselined := True, rs_expected_source := Some source, rs_unattributed := unattributed,
           rs_attributable := attributable, rs_initial_nonflat := (jget payload ''initial_follower_nonflat'' = JBool True),
           rs_fail_close_reason := (if latch = None then rs_fail_close_reason s else latch),
           rs_operator_paused := (latch \<noteq> None \<or> rs_operator_paused s),
           rs_restored_positions := positions, rs_applied_fills := fills,
           rs_triggers := fold (\<lambda>(m, t). AList.update m t) triggers (rs_triggers s),
           rs_source_revisions := revisions\<rparr>)"

text \<open>
  \<open>_restore\<close> of a fresh slot: whether the stored ident is of the older form, whether a catalog
  refresh is requested, and the slot.
\<close>

definition restore ::
  "CatalogRevision \<Rightarrow> string list \<Rightarrow> (string \<times> string) list \<Rightarrow> (string \<times> json) list option \<Rightarrow> RuntimeSlot \<Rightarrow>
   (bool \<times> bool \<times> RuntimeSlot) result" where
  "restore catalog allowed ident stored s =
     (case stored of
        None \<Rightarrow> Inr (False, False, s)
      | Some payload \<Rightarrow>
          rbind (check_identity payload ident) (\<lambda>upgraded.
          rbind (read_decimals (jget payload ''source'')) (\<lambda>source.
          rbind (read_decimals (jget payload ''unattributed'')) (\<lambda>unattributed.
          rbind (read_decimals (jget payload ''attributable'')) (\<lambda>attributable.
          rbind (read_pending payload) (\<lambda>pending0.
          rbind (if b_dynamic_market_eligibility (rs_bound s) then unknown_markets catalog attributable else Inr []) (\<lambda>unknown.
          rbind (case jget payload ''follower'' of
                   JObj f \<Rightarrow> rbind (read_decimals (jget f ''positions'')) (\<lambda>p. Inr (Some p))
                 | _ \<Rightarrow> Inr (rs_restored_positions s)) (\<lambda>positions.
          rbind (read_fills payload) (\<lambda>fills.
          rbind (read_triggers (jget payload ''triggers'')) (\<lambda>triggers.
          rbind (case jget payload ''source_revisions'' of
                   JObj m \<Rightarrow> read_revisions (JObj m) | _ \<Rightarrow> Inr (rs_source_revisions s)) (\<lambda>revisions.
          rbind (rfold (restore_pending catalog allowed) (remdups (pending0 @ unknown))
                   (False, restore_fields payload source unattributed attributable positions fills triggers revisions s)) (\<lambda>(refresh, s2).
          Inr (upgraded, refresh, restored_state (str_or_empty (jget payload ''state'')) s2)))))))))))))"


section \<open>Opening a slot\<close>

definition market_policy :: "BoundContinuousSlot \<Rightarrow> string" where
  "market_policy b = (if b_dynamic_market_eligibility b then ''all_active_token0_perps'' else ''explicit_allowlist'')"

definition slot_identity ::
  "digests \<Rightarrow> (string \<Rightarrow> string) \<Rightarrow> ContinuousPlan \<Rightarrow> BoundContinuousSlot \<Rightarrow> string \<Rightarrow> CatalogRevision \<Rightarrow> (string \<times> string) list result" where
  "slot_identity dg sha256 plan b source_mode catalog =
     rbind (if b_dynamic_market_eligibility b then Inr ''dynamic''
            else catalog_markets_sha256 (dg_catalog dg) catalog (allowed_markets (b_config b))) (\<lambda>markets_sha.
     Inr [(''plan_sha256'', plan_sha256 plan), (''runtime_id'', plan_runtime_id plan), (''network'', plan_network plan),
          (''source'', source_address (b_config b)), (''source_account_mode'', source_mode),
          (''source_equity_basis'', if source_mode = ''standard'' then ''standard_sum_relevant_dex_account_value''
                                    else ''unified_spot_token0_usdc_total''),
          (''follower'', follower_account_address (b_config b)), (''api_wallet'', b_api_wallet_address b),
          (''market_policy'', market_policy b), (''catalog_markets_sha256'', markets_sha),
          (''denied_markets_sha256'', sha256 (json_dumps (JArr (map JStr (sort (b_denied_markets b))))))])"

definition fresh_slot :: "BoundContinuousSlot \<Rightarrow> AccountStream \<Rightarrow> ContinuousSignerLane \<Rightarrow> journal \<Rightarrow> RuntimeSlot" where
  "fresh_slot b account lane j =
     \<lparr>rs_bound = b, rs_account = account, rs_lane = lane, rs_journal = j, rs_state = RECOVERING,
      rs_reason = Text ''startup reconciliation required'', rs_source_ready = False, rs_ever_baselined = False,
      rs_expected_source = None, rs_unattributed = [], rs_attributable = [], rs_pending_catalog = [], rs_applied_fills = [],
      rs_triggers = [], rs_source_revisions = [], rs_follower = None, rs_restored_positions = None, rs_initial_nonflat = False,
      rs_operator_paused = False, rs_fail_close_reason = None, rs_startup_blocker = None, rs_action_times = [],
      rs_liquidity_retries = [], rs_rejected_targets = [], rs_truth_revision = 0\<rparr>"

text \<open>The lane's signer, account and vault must be those the plan and the preflight name.\<close>

definition check_lane :: "BoundContinuousSlot \<Rightarrow> ContinuousSignerLane \<Rightarrow> string option \<Rightarrow> unit result" where
  "check_lane b lane proven =
     (let follower = follower_account_address (b_config b);
          expected_vault = (if follower \<noteq> b_global_account_address b then Some follower else None)
      in rbind (require (py_lower (sl_follower_account lane) = follower) (ValueError ''signer lane follower mismatch'')) (\<lambda>_.
         rbind (require (py_lower (sl_api_wallet_address lane) = b_api_wallet_address b) (ValueError ''signer lane wallet mismatch'')) (\<lambda>_.
         require (map_option py_lower proven = expected_vault \<and> map_option py_lower (sl_vault_address lane) = expected_vault)
           (ValueError ''signing-vault proof mismatch''))))"

text \<open>The allowed markets that are ready, and whether each of the others is absent or not ready.\<close>

definition catalog_issues :: "CatalogRevision \<Rightarrow> string list \<Rightarrow> (string list \<times> string list) result" where
  "catalog_issues catalog allowed =
     rfold (\<lambda>m (ready_markets, issues).
       rbind (revision_market catalog m) (\<lambda>spec. Inr (case spec of
         None \<Rightarrow> (ready_markets, issues @ [m @ '' is absent from the pinned catalog''])
       | Some c \<Rightarrow>
           if cm_is_delisted c \<or> cm_readiness c \<in> {HALTED, DELISTED, UNTRUSTED}
           then (ready_markets, issues @ [m @ '' is not runtime-ready''])
           else (List.insert m ready_markets, issues)))) allowed ([], [])"

text \<open>\<open>sep.join(xs)\<close>.\<close>

fun join_with :: "string \<Rightarrow> string list \<Rightarrow> string" where
  "join_with sep [] = []"
| "join_with sep [x] = x"
| "join_with sep (x # y # xs) = x @ sep @ join_with sep (y # xs)"

definition startup_block :: "string list \<Rightarrow> RuntimeSlot \<Rightarrow> RuntimeSlot" where
  "startup_block issues s =
     (if issues = [] then s
      else let why = ''allowed market validation failed: '' @ join_with ''; '' issues
           in block_slot (Text why) (s\<lparr>rs_startup_blocker := Some why\<rparr>))"

text \<open>
  The body of the constructor's loop over the slots of the plan: the markets to subscribe to, the
  allowed markets, whether a catalog refresh is requested, the slot, and the table with a migrated
  identity.
\<close>

definition open_slot ::
  "digests \<Rightarrow> (string \<Rightarrow> string) \<Rightarrow> ContinuousPlan \<Rightarrow> CatalogRevision \<Rightarrow> BoundContinuousSlot \<Rightarrow> ContinuousSignerLane \<Rightarrow> journal \<Rightarrow>
   string option \<Rightarrow> string \<Rightarrow> string list \<Rightarrow> int \<Rightarrow> state_store \<Rightarrow>
   (string list \<times> string list \<times> bool \<times> RuntimeSlot \<times> state_store) result" where
  "open_slot dg sha256 plan catalog b lane j proven_vault mode proven_dexes clock st =
     (let i = slot_id (b_config b); allowed = effective_allowed_markets b catalog; source_mode = py_lower (py_strip mode);
          scope = (if allowed = [] then None else Some allowed) in
      rbind (require (list_all (\<lambda>d. d \<in> set (cr_wire_dexes catalog)) proven_dexes) (ValueError ''preflight DEX proof is outside the catalog'')) (\<lambda>_.
      rbind (rmap market_dex (allowed_markets (b_config b))) (\<lambda>_.
      rbind (require (source_mode \<in> {''standard'', ''unified''}) (ValueError ''source mode proof is invalid'')) (\<lambda>_.
      rbind (require (py_lower (py_strip (b_expected_account_mode b)) = ''unified'')
               (ValueError ''follower must be preflight-proven Unified'')) (\<lambda>_.
      rbind (check_lane b lane proven_vault) (\<lambda>_.
      rbind (slot_identity dg sha256 plan b source_mode catalog) (\<lambda>ident.
      rbind (make_account_stream (source_address (b_config b)) (follower_account_address (b_config b)) source_mode scope scope
               (b_dynamic_market_eligibility b) 100000) (\<lambda>account.
      rbind (catalog_issues catalog allowed) (\<lambda>(ready_markets, issues).
      rbind (store_load st i) (\<lambda>stored.
      rbind (restore catalog allowed ident stored (startup_block issues (fresh_slot b account lane j))) (\<lambda>(upgraded, refresh, s).
      rbind (recent_send_attempts j (sl_follower_account lane) (sl_api_wallet_address lane) (max 0 (clock - 60000))) (\<lambda>times.
      Inr (ready_markets, allowed, refresh, s\<lparr>rs_action_times := rs_action_times s @ times\<rparr>,
           if upgraded then upgrade_identity i (the stored) ident st else st)))))))))))))"

end
