(* ===== verification/Runtime_Restart.thy ===== *)
theory Runtime_Restart
  imports Runtime_Store Runtime_Attribution Json_Roundtrip
begin

text \<open>
  Restarting a slot from its durable state: what is read back after a save, what is lost.
\<close>

section \<open>Reading back\<close>

lemma rmap_map_Inr: "(\<And>x. x \<in> set xs \<Longrightarrow> f (h x) = Inr (g x)) \<Longrightarrow> rmap f (map h xs) = Inr (map g xs)"
  by (induction xs) auto

lemma fold_update_fresh:
  "distinct (map fst (acc @ m)) \<Longrightarrow> fold (\<lambda>(k, v). AList.update k v) m acc = acc @ m"
proof (induction m arbitrary: acc)
  case (Cons e m)
  obtain k v where e: "e = (k, v)" by (cases e)
  have "AList.update k v acc = acc @ [(k, v)]" using Cons.prems by (simp add: update_new e)
  then show ?case using Cons.IH [of "acc @ [(k, v)]"] Cons.prems by (simp add: e)
qed simp

lemma dict_keys_distinct: "distinct xs \<Longrightarrow> dict_keys xs = xs"
  by (simp add: dict_keys_def distinct_remdups_id)

text \<open>A value whose text reads back, and a book that is written and read back.\<close>

definition readable :: "(rat \<Rightarrow> string) \<Rightarrow> rat \<Rightarrow> bool" where
  "readable dstr v \<longleftrightarrow> ascii (dstr v) \<and> parse_decimal (dstr v) = Some (Fin v)"

definition book_savable :: "(rat \<Rightarrow> string) \<Rightarrow> (string \<times> rat) list \<Rightarrow> bool" where
  "book_savable dstr b \<longleftrightarrow> book_keys_ok b \<and> list_all (\<lambda>(m, v). ascii m \<and> canonical_market_symbol m = Inr m \<and> readable dstr v) b"

lemma wire_decimals_nz: "book_keys_ok b \<Longrightarrow> wire_decimals dstr b = JObj (map (\<lambda>(m, v). (m, JStr (dstr v))) b)"
  unfolding wire_decimals_def by (subst filter_True) (auto simp: book_keys_ok_def image_iff)

lemma book_reads_back:
  assumes "book_savable dstr b"
  shows "storable (wire_decimals dstr b)" and "read_decimals (sort_json (wire_decimals dstr b)) = Inr (sort_key fst b)"
proof -
  have keys: "book_keys_ok b" using assms by (simp add: book_savable_def)
  let ?w = "\<lambda>(m, v). (m, JStr (dstr v))"
  have "map fst (map ?w b) = map fst b" by auto
  then have "distinct (map fst (map ?w b))" using keys by (simp only: book_keys_ok_def)
  with assms show "storable (wire_decimals dstr b)"
    unfolding wire_decimals_nz [OF keys] storable.simps by (auto simp: book_savable_def list_all_iff readable_def)
  have "map (map_prod id sort_json) (map ?w b) = map ?w b" by auto
  moreover have "sort_key fst (map ?w b) = map ?w (sort_key fst b)" by (rule sort_key_map) auto
  ultimately have "sort_json (wire_decimals dstr b) = JObj (map ?w (sort_key fst b))"
    by (simp only: wire_decimals_nz [OF keys] sort_json.simps)
  moreover have "rmap (\<lambda>(k, v). rbind (read_decimal v) (\<lambda>x. Inr (k, x))) (map ?w (sort_key fst b)) = Inr (map id (sort_key fst b))"
    using assms by (intro rmap_map_Inr) (auto simp: read_decimal_def book_savable_def list_all_iff readable_def)
  ultimately show "read_decimals (sort_json (wire_decimals dstr b)) = Inr (sort_key fst b)" by simp
qed

lemma trigger_reads_back:
  assumes "readable dstr (tr_price t)"
  shows "storable (wire_trigger dstr t)" and "\<exists>m. sort_json (wire_trigger dstr t) = JObj m \<and> read_trigger m = Inr t"
proof -
  show "storable (wire_trigger dstr t)" using assms by (simp add: wire_trigger_def readable_def ascii_def)
  define fs where "fs = [(''price'', JStr (dstr (tr_price t))), (''time_ms'', JInt (tr_time_ms t)), (''accepted_ms'', JInt (tr_accepted_ms t))]"
  obtain m where m: "sort_json (JObj fs) = JObj m" by simp
  have "map_of m k = map_option sort_json (map_of fs k)" for k by (rule jget_sorted [OF m]) (simp add: fs_def)
  then have "read_trigger m = Inr t"
    using assms by (simp add: read_trigger_def fs_def read_decimal_def readable_def need_int_def)
  with m show "\<exists>m. sort_json (wire_trigger dstr t) = JObj m \<and> read_trigger m = Inr t" by (auto simp: wire_trigger_def fs_def)
qed

lemma triggers_read_back:
  assumes "distinct (map fst ts)" and "list_all (\<lambda>(m, t). ascii m \<and> readable dstr (tr_price t)) ts"
  shows "storable (JObj (map (\<lambda>(m, t). (m, wire_trigger dstr t)) (sort_key fst ts)))"
    and "read_triggers (sort_json (JObj (map (\<lambda>(m, t). (m, wire_trigger dstr t)) (sort_key fst ts)))) = Inr (sort_key fst ts)"
proof -
  let ?w = "\<lambda>(m, t). (m, wire_trigger dstr t)" and ?u = "\<lambda>(m, t). (m, sort_json (wire_trigger dstr t))"
  have "map fst (map ?w (sort_key fst ts)) = map fst (sort_key fst ts)" by auto
  then have "distinct (map fst (map ?w (sort_key fst ts)))" using assms(1) by (simp only: distinct_keys_sort)
  then show "storable (JObj (map ?w (sort_key fst ts)))"
    using assms(2) trigger_reads_back(1) by (fastforce simp: list_all_iff)
  have w: "map (map_prod id sort_json) (map ?w xs) = map ?u xs" for xs by auto
  have u: "sort_key fst (map ?u xs) = map ?u (sort_key fst xs)" for xs by (rule sort_key_map) auto
  have s: "sort_json (JObj (map ?w (sort_key fst ts))) = JObj (map ?u (sort_key fst ts))"
    by (simp only: sort_json.simps w u sort_key_id_if_sorted sorted_sort_key)
  let ?r = "\<lambda>(k, v). case v of JObj f \<Rightarrow> rbind (read_trigger f) (\<lambda>t. Inr [(k, t)]) | _ \<Rightarrow> Inr []"
  have "?r (?u x) = Inr [x]" if "x \<in> set (sort_key fst ts)" for x
    using that assms(2) trigger_reads_back(2) [of dstr "snd x"] by (fastforce simp: list_all_iff)
  then have "rmap ?r (map ?u (sort_key fst ts)) = Inr (map (\<lambda>x. [x]) (sort_key fst ts))" by (rule rmap_map_Inr)
  then show "read_triggers (sort_json (JObj (map ?w (sort_key fst ts)))) = Inr (sort_key fst ts)"
    unfolding s read_triggers.simps by (simp add: concat_map_singleton)
qed

lemma revisions_read_back:
  assumes "distinct (map fst rs)" and "list_all (\<lambda>(m, n). ascii m \<and> 0 \<le> n) rs"
  shows "storable (JObj (map (\<lambda>(m, n). (m, JInt n)) (sort_key fst rs)))"
    and "\<exists>m. sort_json (JObj (map (\<lambda>(m, n). (m, JInt n)) (sort_key fst rs))) = JObj m \<and> read_revisions (JObj m) = Inr (sort_key fst rs)"
proof -
  let ?w = "\<lambda>(m, n). (m, JInt n)"
  have "map fst (map ?w (sort_key fst rs)) = map fst (sort_key fst rs)" by auto
  then have "distinct (map fst (map ?w (sort_key fst rs)))" using assms(1) by (simp only: distinct_keys_sort)
  then show "storable (JObj (map ?w (sort_key fst rs)))" using assms(2) by (auto simp: list_all_iff)
  have w: "map (map_prod id sort_json) (map ?w xs) = map ?w xs" for xs by auto
  have u: "sort_key fst (map ?w xs) = map ?w (sort_key fst xs)" for xs by (rule sort_key_map) auto
  have s: "sort_json (JObj (map ?w (sort_key fst rs))) = JObj (map ?w (sort_key fst rs))"
    by (simp only: sort_json.simps w u sort_key_id_if_sorted sorted_sort_key)
  have "rmap (\<lambda>(k, v). rbind (need_int (Some v)) (\<lambda>n. Inr (k, max 0 n))) (map ?w (sort_key fst rs)) = Inr (map id (sort_key fst rs))"
    using assms(2) by (intro rmap_map_Inr) (auto simp: list_all_iff need_int_def)
  then show "\<exists>m. sort_json (JObj (map ?w (sort_key fst rs))) = JObj m \<and> read_revisions (JObj m) = Inr (sort_key fst rs)"
    using s by simp
qed

lemma fills_read_back:
  assumes "distinct fs" and "list_all (\<lambda>(a, h, t). ascii a \<and> ascii h \<and> ascii t) fs"
  shows "storable (wire_fills fs)" and "sort_json (wire_fills fs) = wire_fills fs"
    and "\<exists>items. json_items (wire_fills fs) = Inr items \<and> dict_keys (concat (map read_fill items)) = drop (length fs - 512) fs"
proof -
  let ?d = "drop (length fs - 512) fs"
  have "list_all (\<lambda>(a, h, t). ascii a \<and> ascii h \<and> ascii t) ?d" using assms(2) by (auto simp: list_all_iff dest: in_set_dropD)
  then show "storable (wire_fills fs)" by (auto simp: wire_fills_def list_all_iff)
  show "sort_json (wire_fills fs) = wire_fills fs" by (auto simp: wire_fills_def)
  have "concat (map read_fill (map (\<lambda>(a, h, t). JArr [JStr a, JStr h, JStr t]) xs)) = xs" for xs by (induction xs) auto
  then show "\<exists>items. json_items (wire_fills fs) = Inr items \<and> dict_keys (concat (map read_fill items)) = ?d"
    using assms(1) by (simp add: wire_fills_def dict_keys_distinct distinct_drop)
qed


section \<open>One restart\<close>

text \<open>What \<open>save\<close> expects of a slot: well-formed books, ASCII texts, and Decimal texts that read back.\<close>

definition slot_savable :: "(rat \<Rightarrow> string) \<Rightarrow> RuntimeSlot \<Rightarrow> bool" where
  "slot_savable dstr s \<longleftrightarrow>
     book_savable dstr (rs_unattributed s) \<and> book_savable dstr (rs_attributable s) \<and>
     book_savable dstr (case rs_expected_source s of None \<Rightarrow> [] | Some e \<Rightarrow> e) \<and>
     (case rs_follower s of None \<Rightarrow> True
      | Some f \<Rightarrow> (case sizes (ft_positions f) of Inl _ \<Rightarrow> False | Inr b \<Rightarrow> book_savable dstr b) \<and> ascii (dstr (ft_equity f))) \<and>
     distinct (map fst (rs_triggers s)) \<and> list_all (\<lambda>(m, t). ascii m \<and> readable dstr (tr_price t)) (rs_triggers s) \<and>
     distinct (map fst (rs_source_revisions s)) \<and> list_all (\<lambda>(m, n). ascii m \<and> 0 \<le> n) (rs_source_revisions s) \<and>
     distinct (rs_applied_fills s) \<and> list_all (\<lambda>(a, h, t). ascii a \<and> ascii h \<and> ascii t) (rs_applied_fills s) \<and>
     distinct (rs_pending_catalog s) \<and> list_all (\<lambda>m. ascii m \<and> canonical_market_symbol m = Inr m) (rs_pending_catalog s) \<and>
     none_or (\<lambda>r. ascii r \<and> r \<noteq> [] \<and> py_strip r = r) (rs_fail_close_reason s)"

definition ident_ok :: "(string \<times> string) list \<Rightarrow> bool" where
  "ident_ok ident \<longleftrightarrow> distinct (map fst ident) \<and> list_all (\<lambda>(k, v). ascii k \<and> ascii v) ident"

lemma ident_reads_back:
  assumes "ident_ok ident"
  shows "storable (JObj (map (\<lambda>(k, v). (k, JStr v)) ident))"
    and "same_identity (sort_json (JObj (map (\<lambda>(k, v). (k, JStr v)) ident))) ident"
proof -
  let ?m = "map (\<lambda>(k, v). (k, JStr v)) ident"
  have "map fst ?m = map fst ident" by auto
  then have d: "distinct (map fst ?m)" using assms by (simp only: ident_ok_def)
  with assms show "storable (JObj ?m)" unfolding storable.simps by (auto simp: ident_ok_def list_all_iff)
  obtain m where m: "sort_json (JObj ?m) = JObj m" by simp
  have "map_of m k = map_option JStr (map_of ident k)" for k
    by (simp add: jget_sorted [OF m d] map_of_map option.map_comp comp_def)
  then show "same_identity (sort_json (JObj ?m)) ident" unfolding m same_identity_def by (simp add: list_all_iff)
qed

lemma follower_reads_back:
  assumes "sizes (ft_positions f) = Inr b" and "book_savable dstr b" and "ascii (dstr (ft_equity f))"
  shows "\<exists>j. wire_follower dstr f = Inr j \<and> storable j \<and>
    (\<exists>m. sort_json j = JObj m \<and> read_decimals (jget m ''positions'') = Inr (sort_key fst b))"
proof -
  define fs where "fs = [(''positions'', wire_decimals dstr b), (''equity'', JStr (dstr (ft_equity f))), (''observed_ms'', JInt (ft_observed_ms f))]"
  have "wire_follower dstr f = Inr (JObj fs)" using assms(1) by (simp add: wire_follower_def fs_def)
  moreover have "storable (JObj fs)"
    using book_reads_back(1) [OF assms(2)] assms(3) by (simp add: fs_def ascii_def)
  moreover obtain m where m: "sort_json (JObj fs) = JObj m" by simp
  moreover have "map_of m ''positions'' = Some (sort_json (wire_decimals dstr b))"
    by (subst jget_sorted [OF m]) (simp_all add: fs_def)
  ultimately show ?thesis
    using book_reads_back(2) [OF assms(2)] by (auto simp: jget_def dget_def)
qed

lemma pending_unknown:
  assumes "\<forall>m \<in> set ms. revision_market catalog m = Inr None"
  shows "\<exists>r P. rfold (restore_pending catalog allowed) ms (r0, s) = Inr (r, s\<lparr>rs_pending_catalog := P\<rparr>) \<and>
    set P = set (rs_pending_catalog s) \<union> {m \<in> set ms. dget (rs_attributable s) m 0 \<noteq> 0}"
  using assms
proof (induction ms arbitrary: r0 s)
  case Nil
  show ?case by (rule exI [of _ r0], rule exI [of _ "rs_pending_catalog s"]) simp
next
  case (Cons m ms)
  define t where "t = (if dget (rs_attributable s) m 0 \<noteq> 0 then s\<lparr>rs_pending_catalog := List.insert m (rs_pending_catalog s)\<rparr> else s)"
  define r1 where "r1 = (if dget (rs_attributable s) m 0 \<noteq> 0 then True else r0)"
  have step: "restore_pending catalog allowed m (r0, s) = Inr (r1, t)"
    using Cons.prems by (simp add: restore_pending_def t_def r1_def)
  have a: "rs_attributable t = rs_attributable s" "t\<lparr>rs_pending_catalog := Q\<rparr> = s\<lparr>rs_pending_catalog := Q\<rparr>" for Q
    by (simp_all add: t_def)
  obtain r P where "rfold (restore_pending catalog allowed) ms (r1, t) = Inr (r, t\<lparr>rs_pending_catalog := P\<rparr>)"
    "set P = set (rs_pending_catalog t) \<union> {m \<in> set ms. dget (rs_attributable t) m 0 \<noteq> 0}"
    using Cons.IH [of r1 t] Cons.prems by auto
  then show ?case
    by (intro exI [of _ r] exI [of _ P]) (auto simp: step a t_def split: if_splits)
qed

text \<open>Everything \<open>restore\<close> reads from a saved payload.\<close>

definition payload_of :: "RuntimeSlot \<Rightarrow> (string \<times> string) list \<Rightarrow> (string \<times> json) list \<Rightarrow> bool" where
  "payload_of s ident m \<longleftrightarrow>
     check_identity m ident = Inr False \<and>
     read_decimals (jget m ''source'') = Inr (sort_key fst (case rs_expected_source s of None \<Rightarrow> [] | Some e \<Rightarrow> e)) \<and>
     read_decimals (jget m ''unattributed'') = Inr (sort_key fst (rs_unattributed s)) \<and>
     read_decimals (jget m ''attributable'') = Inr (sort_key fst (rs_attributable s)) \<and>
     read_pending m = Inr (sort (rs_pending_catalog s)) \<and>
     (\<forall>r0. \<exists>p. (case jget m ''follower'' of
         JObj f \<Rightarrow> rbind (read_decimals (jget f ''positions'')) (\<lambda>p. Inr (Some p)) | _ \<Rightarrow> Inr r0) = Inr p) \<and>
     read_fills m = Inr (drop (length (rs_applied_fills s) - 512) (rs_applied_fills s)) \<and>
     read_triggers (jget m ''triggers'') = Inr (sort_key fst (rs_triggers s)) \<and>
     (\<exists>mm. jget m ''source_revisions'' = JObj mm \<and> read_revisions (JObj mm) = Inr (sort_key fst (rs_source_revisions s))) \<and>
     jget m ''initial_follower_nonflat'' = JBool (rs_initial_nonflat s) \<and>
     read_latch m = rs_fail_close_reason s \<and>
     str_or_empty (jget m ''state'') = state_value (rs_state s)"

lemma pending_reads_back:
  assumes "distinct ms" and "list_all (\<lambda>m. ascii m \<and> canonical_market_symbol m = Inr m) ms"
    and "map_of m ''pending_catalog_markets'' = Some (JArr (map JStr (sort ms)))"
  shows "read_pending m = Inr (sort ms)"
proof -
  have "rmap (\<lambda>v. canonical_market_symbol (py_str v)) (map JStr (sort ms)) = Inr (map id (sort ms))"
    using assms(2) by (intro rmap_map_Inr) (auto simp: list_all_iff)
  then show ?thesis using assms(1,3) by (simp add: read_pending_def dget_def list_all_iff distinct_remdups_id)
qed

lemma payload_keys: "distinct (map fst (payload_fields dstr ident fj s))" "list_all ascii (map fst (payload_fields dstr ident fj s))"
  by (simp_all add: payload_fields_def ascii_def)

text \<open>The parts of \<open>slot_savable\<close> that concern one field each.\<close>

lemma slot_savableD:
  assumes "slot_savable dstr s"
  shows "book_savable dstr (rs_unattributed s)" "book_savable dstr (rs_attributable s)"
    "book_savable dstr (case rs_expected_source s of None \<Rightarrow> [] | Some e \<Rightarrow> e)"
    "distinct (map fst (rs_triggers s))" "list_all (\<lambda>(m, t). ascii m \<and> readable dstr (tr_price t)) (rs_triggers s)"
    "distinct (map fst (rs_source_revisions s))" "list_all (\<lambda>(m, n). ascii m \<and> 0 \<le> n) (rs_source_revisions s)"
    "distinct (rs_applied_fills s)" "list_all (\<lambda>(a, h, t). ascii a \<and> ascii h \<and> ascii t) (rs_applied_fills s)"
    "distinct (rs_pending_catalog s)" "list_all (\<lambda>m. ascii m \<and> canonical_market_symbol m = Inr m) (rs_pending_catalog s)"
    "none_or (\<lambda>r. ascii r \<and> r \<noteq> [] \<and> py_strip r = r) (rs_fail_close_reason s)"
  using assms unfolding slot_savable_def by blast+

lemma payload_storable:
  assumes "slot_savable dstr s" and "ident_ok ident" and "storable fj"
  shows "storable (JObj (payload_fields dstr ident fj s))"
proof -
  note ok = slot_savableD [OF assms(1)]
  have "storable (JArr (map JStr (sort (rs_pending_catalog s))))" using ok(11) by (auto simp: list_all_iff)
  moreover have "storable (case rs_fail_close_reason s of None \<Rightarrow> JNull | Some r \<Rightarrow> JStr r)"
    using ok(12) by (auto simp: none_or_def split: option.splits)
  moreover have "storable (JStr (state_value (rs_state s)))" by (cases "rs_state s") (simp_all add: ascii_def)
  ultimately have "list_all storable (map snd (payload_fields dstr ident fj s))"
    unfolding payload_fields_def list.map snd_conv list.pred_inject
    by (intro conjI ident_reads_back(1) book_reads_back(1) triggers_read_back(1) revisions_read_back(1) fills_read_back(1) ok assms)
       simp_all
  then show ?thesis using payload_keys [of dstr ident fj s] by (auto simp: list_all_iff)
qed

lemma payload_get:
  assumes "slot_savable dstr s" and "sort_json (JObj (payload_fields dstr ident fj s)) = JObj m"
  shows "jget m ''identity'' = sort_json (JObj (map (\<lambda>(k, v). (k, JStr v)) ident))"
    "jget m ''state'' = JStr (state_value (rs_state s))"
    "jget m ''source'' = sort_json (wire_decimals dstr (case rs_expected_source s of None \<Rightarrow> [] | Some e \<Rightarrow> e))"
    "jget m ''unattributed'' = sort_json (wire_decimals dstr (rs_unattributed s))"
    "jget m ''attributable'' = sort_json (wire_decimals dstr (rs_attributable s))"
    "map_of m ''pending_catalog_markets'' = Some (JArr (map JStr (sort (rs_pending_catalog s))))"
    "dget m ''fills'' (JArr []) = wire_fills (rs_applied_fills s)"
    "jget m ''triggers'' = sort_json (JObj (map (\<lambda>(m, t). (m, wire_trigger dstr t)) (sort_key fst (rs_triggers s))))"
    "jget m ''source_revisions'' = sort_json (JObj (map (\<lambda>(m, n). (m, JInt n)) (sort_key fst (rs_source_revisions s))))"
    "jget m ''initial_follower_nonflat'' = JBool (rs_initial_nonflat s)"
    "jget m ''fail_close_reason'' = (case rs_fail_close_reason s of None \<Rightarrow> JNull | Some r \<Rightarrow> JStr r)"
    "jget m ''follower'' = sort_json fj"
  unfolding jget_def dget_def jget_sorted [OF assms(2) payload_keys(1)] payload_fields_def
  using fills_read_back(2) [OF slot_savableD(8) [OF assms(1)] slot_savableD(9) [OF assms(1)]]
  by (simp_all add: comp_def del: sort_json.simps(7) split: option.splits)

lemma follower_stored:
  assumes "slot_savable dstr s"
  shows "\<exists>fj. (case rs_follower s of None \<Rightarrow> Inr JNull | Some f \<Rightarrow> wire_follower dstr f) = Inr fj \<and> storable fj \<and>
    (\<forall>r0. \<exists>p. (case sort_json fj of JObj f \<Rightarrow> rbind (read_decimals (jget f ''positions'')) (\<lambda>p. Inr (Some p)) | _ \<Rightarrow> Inr r0) = Inr p)"
proof (cases "rs_follower s")
  case None
  then show ?thesis by (intro exI [of _ JNull]) simp
next
  case (Some f)
  with assms obtain b where b: "sizes (ft_positions f) = Inr b" "book_savable dstr b" "ascii (dstr (ft_equity f))"
    unfolding slot_savable_def by (auto split: sum.splits)
  from follower_reads_back [OF b] Some show ?thesis by auto
qed

lemma saved_payload:
  assumes "slot_savable dstr s" and "ident_ok ident"
  shows "\<exists>j m. state_payload dstr ident s = Inr j \<and> json_loads (json_dumps j) = Some (JObj m) \<and> payload_of s ident m"
proof -
  note ok = slot_savableD [OF assms(1)]
  obtain fj where fj: "(case rs_follower s of None \<Rightarrow> Inr JNull | Some f \<Rightarrow> wire_follower dstr f) = Inr fj" "storable fj"
    "\<forall>r0. \<exists>p. (case sort_json fj of JObj f \<Rightarrow> rbind (read_decimals (jget f ''positions'')) (\<lambda>p. Inr (Some p)) | _ \<Rightarrow> Inr r0) = Inr p"
    using follower_stored [OF assms(1)] by blast
  obtain m where m: "sort_json (JObj (payload_fields dstr ident fj s)) = JObj m" by simp
  note g = payload_get [OF assms(1) m]
  have "payload_of s ident m"
    unfolding payload_of_def
  proof (intro conjI)
    show "check_identity m ident = Inr False"
      using ident_reads_back(2) [OF assms(2)] by (simp add: check_identity_def g(1) del: sort_json.simps)
    show "read_fills m = Inr (drop (length (rs_applied_fills s) - 512) (rs_applied_fills s))"
      using fills_read_back(3) [OF ok(8,9)] by (auto simp: read_fills_def g(7))
    show "read_latch m = rs_fail_close_reason s"
      using ok(12) by (auto simp: read_latch_def g(11) none_or_def split: option.splits)
    show "str_or_empty (jget m ''state'') = state_value (rs_state s)"
      by (cases "rs_state s") (simp_all add: g(2) str_or_empty_def)
    show "\<exists>mm. jget m ''source_revisions'' = JObj mm \<and> read_revisions (JObj mm) = Inr (sort_key fst (rs_source_revisions s))"
      unfolding g(9) by (rule revisions_read_back(2) [OF ok(6,7)])
    show "\<forall>r0. \<exists>p. (case jget m ''follower'' of
         JObj f \<Rightarrow> rbind (read_decimals (jget f ''positions'')) (\<lambda>p. Inr (Some p)) | _ \<Rightarrow> Inr r0) = Inr p"
      unfolding g(12) by (rule fj(3))
  qed (simp_all only: g(3,4,5,8,10) book_reads_back(2) [OF ok(1)] book_reads_back(2) [OF ok(2)] book_reads_back(2) [OF ok(3)]
      triggers_read_back(2) [OF ok(4,5)] pending_reads_back [OF ok(10,11) g(6)])
  moreover have "state_payload dstr ident s = Inr (JObj (payload_fields dstr ident fj s))" by (simp add: state_payload_def fj(1))
  ultimately show ?thesis using loads_sorted [OF payload_storable [OF assms fj(2)]] m by simp
qed

lemma unknown_markets_Inr:
  assumes "list_all (\<lambda>(m, v). canonical_market_symbol m = Inr m) b"
  shows "\<exists>u. unknown_markets catalog b = Inr u \<and> (\<forall>m \<in> set u. revision_market catalog m = Inr None)"
proof -
  let ?row = "\<lambda>(m, v). rbind (revision_market catalog m) (\<lambda>spec. Inr (m, spec = None))"
  let ?g = "\<lambda>(m, v). (m, find (\<lambda>c. cm_symbol c = m) (cr_markets catalog) = None)"
  have r: "revision_market catalog m = Inr (find (\<lambda>c. cm_symbol c = m) (cr_markets catalog))" if "(m, v) \<in> set (nz b)" for m v
    using that assms by (auto simp: revision_market_def canonical_market_symbol_def nz_def list_all_iff)
  have "rmap ?row (map id (nz b)) = Inr (map ?g (nz b))" by (rule rmap_map_Inr) (use r in auto)
  then show ?thesis by (auto simp: unknown_markets_def r)
qed

text \<open>The slot after a restart: the same books and latches, the last fills, and a pause where the state was one.\<close>

definition resumed :: "RuntimeSlot \<Rightarrow> RuntimeSlot \<Rightarrow> bool" where
  "resumed s s' \<longleftrightarrow>
     map_of (rs_unattributed s') = map_of (rs_unattributed s) \<and>
     map_of (rs_attributable s') = map_of (rs_attributable s) \<and>
     rs_ever_baselined s' \<and> \<not> rs_source_ready s' \<and> rs_follower s' = None \<and>
     map_option map_of (rs_expected_source s') = Some (map_of (case rs_expected_source s of None \<Rightarrow> [] | Some e \<Rightarrow> e)) \<and>
     map_of (rs_triggers s') = map_of (rs_triggers s) \<and>
     map_of (rs_source_revisions s') = map_of (rs_source_revisions s) \<and>
     rs_applied_fills s' = drop (length (rs_applied_fills s) - 512) (rs_applied_fills s) \<and>
     {m \<in> set (rs_pending_catalog s). dget (rs_attributable s) m 0 \<noteq> 0} \<subseteq> set (rs_pending_catalog s') \<and>
     rs_initial_nonflat s' = rs_initial_nonflat s \<and>
     rs_fail_close_reason s' = rs_fail_close_reason s \<and>
     (rs_state s' = OPERATOR_STOP \<longleftrightarrow> rs_state s = OPERATOR_STOP) \<and>
     (rs_operator_paused s' \<longleftrightarrow> rs_fail_close_reason s \<noteq> None \<or> rs_state s = PAUSE_ENTRIES)"

lemma restored_slot:
  assumes "payload_of s ident m" and "slot_savable dstr s"
    and "\<forall>p \<in> set (rs_pending_catalog s). revision_market catalog p = Inr None"
  shows "\<exists>refresh s'. restore catalog allowed ident (Some m) (startup_block issues (fresh_slot b account lane j)) = Inr (False, refresh, s') \<and>
    resumed s s' \<and> rs_action_times s' = []"
proof -
  let ?s0 = "startup_block issues (fresh_slot b account lane j)"
  note ok = slot_savableD [OF assms(2)] and pay = assms(1) [unfolded payload_of_def]
  let ?A = "sort_key fst (rs_attributable s)"
  have canon: "list_all (\<lambda>(m, v). canonical_market_symbol m = Inr m) ?A"
    using ok(2) by (auto simp: book_savable_def list_all_iff)
  obtain u where u: "(if b_dynamic_market_eligibility (rs_bound ?s0) then unknown_markets catalog ?A else Inr []) = Inr u"
    "\<forall>m \<in> set u. revision_market catalog m = Inr None"
    using unknown_markets_Inr [OF canon, of catalog] by (cases "b_dynamic_market_eligibility (rs_bound ?s0)") auto
  obtain pos where pos: "(case jget m ''follower'' of
       JObj f \<Rightarrow> rbind (read_decimals (jget f ''positions'')) (\<lambda>p. Inr (Some p)) | _ \<Rightarrow> Inr (rs_restored_positions ?s0)) = Inr pos"
    using pay by blast
  obtain mm where mm: "jget m ''source_revisions'' = JObj mm" "read_revisions (JObj mm) = Inr (sort_key fst (rs_source_revisions s))"
    using pay by blast
  let ?e = "case rs_expected_source s of None \<Rightarrow> [] | Some e \<Rightarrow> e"
  define s1 where "s1 = restore_fields m (sort_key fst ?e) (sort_key fst (rs_unattributed s)) ?A pos
     (drop (length (rs_applied_fills s) - 512) (rs_applied_fills s)) (sort_key fst (rs_triggers s)) (sort_key fst (rs_source_revisions s)) ?s0"
  obtain refresh P where rf: "rfold (restore_pending catalog allowed) (remdups (sort (rs_pending_catalog s) @ u)) (False, s1) =
      Inr (refresh, s1\<lparr>rs_pending_catalog := P\<rparr>)"
    and P: "set P = set (rs_pending_catalog s1) \<union> {m \<in> set (remdups (sort (rs_pending_catalog s) @ u)). dget (rs_attributable s1) m 0 \<noteq> 0}"
    using pending_unknown [of "remdups (sort (rs_pending_catalog s) @ u)" catalog allowed False s1] u(2) assms(3) by auto
  let ?s' = "restored_state (state_value (rs_state s)) (s1\<lparr>rs_pending_catalog := P\<rparr>)"
  have "restore catalog allowed ident (Some m) ?s0 = Inr (False, refresh, ?s')"
    using pay mm u(1) pos rf unfolding restore_def s1_def by (simp del: remdups.simps)
  moreover have "resumed s ?s'"
  proof -
    have maps: "map_of ?A = map_of (rs_attributable s)" "map_of (sort_key fst (rs_unattributed s)) = map_of (rs_unattributed s)"
      "map_of (sort_key fst ?e) = map_of ?e" "map_of (sort_key fst (rs_source_revisions s)) = map_of (rs_source_revisions s)"
      "map_of (sort_key fst (rs_triggers s)) = map_of (rs_triggers s)"
      using ok by (auto intro!: map_of_sort_key simp: book_savable_def book_keys_ok_def)
    have "distinct (map fst ([] @ sort_key fst (rs_triggers s)))" using ok(4) by (simp only: append_Nil distinct_keys_sort)
    from fold_update_fresh [OF this] have trig: "fold (\<lambda>(m, t). AList.update m t) (sort_key fst (rs_triggers s)) [] = sort_key fst (rs_triggers s)"
      by simp
    have fresh: "rs_triggers ?s0 = []" "rs_fail_close_reason ?s0 = None" "\<not> rs_operator_paused ?s0" "rs_state ?s0 = RECOVERING"
      "\<not> rs_source_ready ?s0" "rs_follower ?s0 = None"
      by (auto simp: startup_block_def fresh_slot_def block_slot_def Let_def)
    show ?thesis
      using P by (cases "rs_state s") (auto simp: resumed_def restored_state_def s1_def restore_fields_def Let_def pay maps trig fresh dget_def)
  qed
  moreover have "rs_action_times ?s' = []"
    by (simp add: restored_state_def s1_def restore_fields_def startup_block_def fresh_slot_def block_slot_def Let_def)
  ultimately show ?thesis by blast
qed

lemma store_load_saved:
  assumes "state_payload dstr ident s = Inr p" and "json_loads (json_dumps p) = Some (JObj m)"
    and "store_save dstr ident s st = Inr st'"
  shows "store_load st' (slot_id (config_of s)) = Inr (Some m)"
  using assms by (auto simp: store_save_def store_load_def update_conv')

text \<open>A slot that opens without stored state also opens from what was saved.\<close>

lemma reopened:
  assumes "slot_identity dg sha256 plan (rs_bound s) (py_lower (py_strip mode)) catalog = Inr ident" and "ident_ok ident"
    and "slot_savable dstr s" and "\<forall>p \<in> set (rs_pending_catalog s). revision_market catalog p = Inr None"
    and "open_slot dg sha256 plan catalog (rs_bound s) lane j vault mode dexes clock [] = Inr (markets, allowed, refresh0, s0, st0)"
  shows "\<exists>st' refresh s'. store_save dstr ident s st = Inr st' \<and>
    open_slot dg sha256 plan catalog (rs_bound s) lane j vault mode dexes clock st' = Inr (markets, allowed, refresh, s', st') \<and>
    resumed s s'"
proof -
  obtain p m where p: "state_payload dstr ident s = Inr p" "json_loads (json_dumps p) = Some (JObj m)" "payload_of s ident m"
    using saved_payload [OF assms(3,2)] by blast
  obtain st' where st': "store_save dstr ident s st = Inr st'" using p(1) by (simp add: store_save_def)
  have load: "store_load st' (slot_id (b_config (rs_bound s))) = Inr (Some m)"
    using store_load_saved [OF p(1,2) st'] by (simp add: config_of_def)
  obtain account issues where parts: "make_account_stream (source_address (b_config (rs_bound s)))
        (follower_account_address (b_config (rs_bound s))) (py_lower (py_strip mode))
        (if effective_allowed_markets (rs_bound s) catalog = [] then None else Some (effective_allowed_markets (rs_bound s) catalog))
        (if effective_allowed_markets (rs_bound s) catalog = [] then None else Some (effective_allowed_markets (rs_bound s) catalog))
        (b_dynamic_market_eligibility (rs_bound s)) 100000 = Inr account"
    "catalog_issues catalog (effective_allowed_markets (rs_bound s) catalog) = Inr (markets, issues)"
    "allowed = effective_allowed_markets (rs_bound s) catalog"
    using assms(1,5) by (auto simp: open_slot_def Let_def)
  obtain refresh s' where r: "restore catalog allowed ident (Some m) (startup_block issues (fresh_slot (rs_bound s) account lane j)) =
      Inr (False, refresh, s')" "resumed s s'"
    using restored_slot [OF p(3) assms(3,4)] by blast
  obtain times where times: "recent_send_attempts j (sl_follower_account lane) (sl_api_wallet_address lane) (max 0 (clock - 60000)) = Inr times"
    using assms(5) by (auto simp: open_slot_def Let_def)
  have "open_slot dg sha256 plan catalog (rs_bound s) lane j vault mode dexes clock st' =
      Inr (markets, allowed, refresh, s'\<lparr>rs_action_times := rs_action_times s' @ times\<rparr>, st')"
    using assms(1,5) parts(1,2) r(1) times load unfolding parts(3) open_slot_def Let_def by auto
  moreover have "resumed s (s'\<lparr>rs_action_times := rs_action_times s' @ times\<rparr>)" using r(2) by (simp add: resumed_def)
  ultimately show ?thesis using st' by blast
qed

lemma paused_then_recovering:
  assumes "set_operator_state rt PAUSE_ENTRIES clock now s = Inr s1"
    and "s3 = adopt_truth rt2 epoch revision truth now2 (slot_source_gap (as_epoch (rs_account s1)) why s1)"
  shows "rs_operator_paused s3 \<and> rs_state s3 = RECOVERING \<and> rs_fail_close_reason s3 = rs_fail_close_reason s \<and> rs_bound s3 = rs_bound s \<and>
    rs_pending_catalog s3 = rs_pending_catalog s"
proof -
  define s2 where "s2 = slot_source_gap (as_epoch (rs_account s1)) why s1"
  have s2: "rs_operator_paused s2" "rs_state s2 = RECOVERING" "rs_fail_close_reason s2 = rs_fail_close_reason s" "rs_bound s2 = rs_bound s"
    "rs_pending_catalog s2 = rs_pending_catalog s"
    using assms(1) by (auto simp: s2_def set_operator_state_def slot_source_gap_def block_slot_def)
  have "rs_state (adopt_truth rt2 epoch revision truth now2 s2) = RECOVERING"
    using s2(2) by (auto simp: adopt_truth_def block_slot_def Let_def split: sum.splits)
  moreover have "rs_operator_paused (adopt_truth rt2 epoch revision truth now2 s2)"
    using s2(1) by (auto simp: adopt_truth_def block_slot_def Let_def split: sum.splits)
  moreover have "rs_fail_close_reason (adopt_truth rt2 epoch revision truth now2 s2) = rs_fail_close_reason s2"
    "rs_bound (adopt_truth rt2 epoch revision truth now2 s2) = rs_bound s2"
    "rs_pending_catalog (adopt_truth rt2 epoch revision truth now2 s2) = rs_pending_catalog s2"
    by (auto simp: adopt_truth_def block_slot_def Let_def split: sum.splits)
  ultimately show ?thesis using s2 by (simp add: assms(2) s2_def [symmetric])
qed


section \<open>Properties\<close>


text \<open>The concrete slot, with whole numbers written as integers.\<close>

definition ex_dstr :: "rat \<Rightarrow> string" where
  "ex_dstr x = show_int \<lfloor>x\<rfloor>"

definition ex_ident :: "(string \<times> string) list" where
  "ex_ident = (case slot_identity ex_digests (\<lambda>_. ''h'') ex_plan ex_bound ''unified'' ex_revision of Inr i \<Rightarrow> i | Inl _ \<Rightarrow> [])"

lemma ex_opens:
  "slot_identity ex_digests (\<lambda>_. ''h'') ex_plan ex_bound (py_lower (py_strip ''unified'')) ex_revision = Inr ex_ident"
  "ident_ok ex_ident"
  "\<exists>r. open_slot ex_digests (\<lambda>_. ''h'') ex_plan ex_revision ex_bound (rs_lane (ex_runtime_slot 100)) empty_journal None ''unified'' [] 100 [] = Inr r"
proof -
  show "slot_identity ex_digests (\<lambda>_. ''h'') ex_plan ex_bound (py_lower (py_strip ''unified'')) ex_revision = Inr ex_ident" by code_simp
  show "ident_ok ex_ident" by code_simp
  have "case open_slot ex_digests (\<lambda>_. ''h'') ex_plan ex_revision ex_bound (rs_lane (ex_runtime_slot 100)) empty_journal None ''unified'' [] 100 [] of
    Inr _ \<Rightarrow> True | Inl _ \<Rightarrow> False" by code_simp
  then show "\<exists>r. open_slot ex_digests (\<lambda>_. ''h'') ex_plan ex_revision ex_bound (rs_lane (ex_runtime_slot 100)) empty_journal None ''unified'' [] 100 [] = Inr r"
    by (auto split: sum.splits)
qed


text \<open>
  C30: a pause by the operator is lost when the process restarts after the source connection was lost: the
  slot then recovers, the next reconciliation saves it as recovering, and the slot that is opened
  from this state is not paused any more.
\<close>

theorem operator_pause_lost_on_restart:
  assumes "set_operator_state rt PAUSE_ENTRIES c now s = Inr s1" and "rs_fail_close_reason s = None"
    and "s3 = adopt_truth rt2 epoch revision truth now2 (slot_source_gap (as_epoch (rs_account s1)) why s1)"
    and "slot_identity dg sha256 plan (rs_bound s) (py_lower (py_strip mode)) catalog = Inr ident" and "ident_ok ident"
    and "slot_savable dstr s3" and "\<forall>p \<in> set (rs_pending_catalog s). revision_market catalog p = Inr None"
    and "open_slot dg sha256 plan catalog (rs_bound s) lane j vault mode dexes clock [] = Inr (markets, allowed, refresh0, s0, st0)"
  shows "rs_operator_paused s3 \<and> (\<exists>st' refresh s'. store_save dstr ident s3 st = Inr st' \<and>
    open_slot dg sha256 plan catalog (rs_bound s) lane j vault mode dexes clock st' = Inr (markets, allowed, refresh, s', st') \<and>
    \<not> rs_operator_paused s')"
proof -
  note v = paused_then_recovering [OF assms(1,3)]
  have "\<exists>st' refresh s'. store_save dstr ident s3 st = Inr st' \<and>
    open_slot dg sha256 plan catalog (rs_bound s) lane j vault mode dexes clock st' = Inr (markets, allowed, refresh, s', st') \<and> resumed s3 s'"
    using reopened [of dg sha256 plan s3 mode catalog ident dstr] assms(4-8) v by auto
  then show ?thesis using v assms(2) by (auto simp: resumed_def)
qed

text \<open>The concrete slot: paused at 100, its source connection lost, its flat follower read back at 200, restarted.\<close>

definition ex_truth :: "dec FollowerTruth" where
  "ex_truth = \<lparr>ft_positions = [], ft_equity = Fin 1000, ft_observed_ms = 200, ft_dex_observed_ms = [], ft_available = None\<rparr>"

definition ex_recovering :: RuntimeSlot where
  "ex_recovering = adopt_truth (ex_runtime 100 True) 1 0 ex_truth 200 (slot_source_gap 1 ''closed''
     ((ex_runtime_slot 100)\<lparr>rs_operator_paused := True, rs_state := PAUSE_ENTRIES, rs_reason := Text ''operator pause''\<rparr>))"

theorem operator_pause_lost_on_restart_witness:
  "rs_operator_paused ex_recovering \<and> (\<exists>st' markets allowed refresh s'. store_save ex_dstr ex_ident ex_recovering [] = Inr st' \<and>
     open_slot ex_digests (\<lambda>_. ''h'') ex_plan ex_revision ex_bound (rs_lane (ex_runtime_slot 100)) empty_journal None ''unified'' [] 100 st' =
       Inr (markets, allowed, refresh, s', st') \<and> \<not> rs_operator_paused s')"
proof -
  let ?s = "ex_runtime_slot 100"
  let ?p = "?s\<lparr>rs_operator_paused := True, rs_state := PAUSE_ENTRIES, rs_reason := Text ''operator pause''\<rparr>"
  have set: "set_operator_state (ex_runtime 100 True) PAUSE_ENTRIES 100 100 ?s = Inr ?p" by (simp add: set_operator_state_def)
  have s: "rs_fail_close_reason ?s = None" "rs_bound ?s = ex_bound" "as_epoch (rs_account ?p) = 1" "rs_pending_catalog ?s = []"
    by (simp_all add: ex_runtime_slot_def ex_account_at_def)
  obtain markets allowed refresh0 s0 st0 where o: "open_slot ex_digests (\<lambda>_. ''h'') ex_plan ex_revision ex_bound
      (rs_lane ?s) empty_journal None ''unified'' [] 100 [] = Inr (markets, allowed, refresh0, s0, st0)"
    using ex_opens(3) by auto
  have ok: "slot_savable ex_dstr ex_recovering" by code_simp
  have r: "ex_recovering = adopt_truth (ex_runtime 100 True) 1 0 ex_truth 200 (slot_source_gap (as_epoch (rs_account ?p)) ''closed'' ?p)"
    unfolding s(3) ex_recovering_def ..
  show ?thesis
    using operator_pause_lost_on_restart [OF set s(1) r ex_opens(1) [folded s(2)] ex_opens(2) ok _ o [folded s(2)], of "[]"]
    unfolding s(2,4) by auto
qed

end
