(* ===== verification/Rest_Budget.thy ===== *)
theory Rest_Budget
  imports Prelude
begin

text \<open>
  \<^verbatim>\<open>rest_budget.py\<close>: the coordinator that grants every REST request of the machine a share of a rolling
  weight budget, over a ledger in SQLite that several processes open.

  The ledger is a record of its tables; a row number is the position of a row, because nothing is deleted
  but the fence. A transaction sees the coordinator's own memory and the ledger; if it raises, the ledger
  is rolled back while the memory keeps what was assigned. The digests behind identities are arguments.
  A stored answer is the grant itself: the JSON text that is written is only read back.
\<close>

section \<open>Policy\<close>

datatype RestPriority = AMBIGUITY_CONTAINMENT | AFFECTED_FOLLOWER | GAP_REPAIR | CATALOG | BROAD_AUDIT | ANALYTICS

fun priority_value :: "RestPriority \<Rightarrow> nat" where
  "priority_value AMBIGUITY_CONTAINMENT = 0"
| "priority_value AFFECTED_FOLLOWER = 1"
| "priority_value GAP_REPAIR = 2"
| "priority_value CATALOG = 3"
| "priority_value BROAD_AUDIT = 4"
| "priority_value ANALYTICS = 5"

definition REST_BUDGET_WINDOW_MS :: int where "REST_BUDGET_WINDOW_MS = 60000"
definition REST_CLOCK_EPOCH_QUARANTINE_MS :: int where "REST_CLOCK_EPOCH_QUARANTINE_MS = REST_BUDGET_WINDOW_MS"

definition info_endpoint_weights :: "(string \<times> int) list" where
  "info_endpoint_weights =
     [(''l2Book'', 2), (''allMids'', 2), (''clearinghouseState'', 2), (''spotClearinghouseState'', 2), (''orderStatus'', 2),
      (''userRole'', 60), (''userAbstraction'', 20), (''userDexAbstraction'', 20), (''vaultDetails'', 20), (''extraAgents'', 20),
      (''subAccounts'', 20), (''userRateLimit'', 20), (''allDexsClearinghouseState'', 20), (''openOrders'', 20),
      (''historicalOrders'', 120), (''userFillsByTime'', 120), (''userTwapSliceFillsByTime'', 120),
      (''userNonFundingLedgerUpdates'', 20), (''perpDexs'', 20), (''allPerpMetas'', 20), (''meta'', 20),
      (''metaAndAssetCtxs'', 20), (''spotMetaAndAssetCtxs'', 20)]"

definition authoritative_rest_weight :: "string \<Rightarrow> int result" where
  "authoritative_rest_weight endpoint =
     (if prefix ''info:'' endpoint
      then (case map_of info_endpoint_weights (drop 5 endpoint) of
              None \<Rightarrow> Inl (ValueError ''REST endpoint policy has no weight'')
            | Some w \<Rightarrow> Inr w)
      else if prefix ''exchange:'' endpoint
      then if drop 9 endpoint \<in> {''cancel'', ''cancelByCloid'', ''order'', ''scheduleCancel''} then Inr 1
           else Inl (ValueError ''REST endpoint policy rejects'')
      else if endpoint = ''network-profile:api.hyperliquid.xyz'' then Inr 6
      else Inl (ValueError ''REST endpoint policy rejects''))"

definition runtime_senders :: "string list" where
  "runtime_senders = [''fleet-runtime'']"

definition guardian_senders :: "string list" where
  "guardian_senders = [''containment-guardian'', ''containment-guardian-info'', ''containment-guardian-info-takeover'',
     ''containment-guardian-action-takeover'']"

definition supervisor_senders :: "string list" where
  "supervisor_senders = [''fleet-supervisor-network-end'']"

definition launch_senders :: "string list" where
  "launch_senders = [''context-feed-measurement'', ''fast-execution-benchmark'', ''ui-launch-preview'',
     ''fleet-supervisor-preview-reservation'', ''fleet-supervisor-launch'', ''fleet-supervisor-launch-network'']"

definition validate_sender_policy :: "string \<Rightarrow> RestPriority \<Rightarrow> string \<Rightarrow> int \<Rightarrow> unit result" where
  "validate_sender_policy sender priority endpoint weight =
     rbind (authoritative_rest_weight endpoint) (\<lambda>expected.
     if weight \<noteq> expected then Inl (ValueError ''REST endpoint weight mismatch'')
     else if sender \<in> set runtime_senders
     then require (\<not> (priority = ANALYTICS \<or> prefix ''exchange:'' endpoint))
            (ValueError ''fleet runtime REST role exceeded its admission policy'')
     else if sender \<in> set guardian_senders
     then require (priority = AMBIGUITY_CONTAINMENT) (ValueError ''containment REST role may use only containment priority'')
     else if sender \<in> set supervisor_senders
     then require (priority = ANALYTICS \<and> endpoint = ''network-profile:api.hyperliquid.xyz'')
            (ValueError ''supervisor REST role exceeded its terminal measurement policy'')
     else if sender \<in> set launch_senders
     then require (priority \<in> {CATALOG, BROAD_AUDIT, ANALYTICS} \<and> \<not> prefix ''exchange:'' endpoint)
            (ValueError ''launch REST role exceeded its read-only admission policy'')
     else Inl (ValueError ''REST sender is not present in the frozen role policy''))"


section \<open>Load model\<close>

record RestLoadModel =
  lm_fleet_slots :: int
  lm_audited_dexes :: "int option"
  lm_cheap_follower_weight :: int
  lm_cheap_follower_queries_per_cycle :: "int option"
  lm_cheap_follower_period_ms :: int
  lm_full_dex_discovery_weight :: int
  lm_full_open_order_weight :: int
  lm_full_follower_period_ms :: int
  lm_nonfunding_ledger_weight :: int
  lm_nonfunding_ledger_period_ms :: int
  lm_catalog_refresh_weight :: int
  lm_catalog_period_ms :: int

record RestLoad =
  ld_affected_follower :: int
  ld_full_follower_dex_discovery :: int
  ld_full_open_order_audit :: int
  ld_nonfunding_ledger_audit :: int
  ld_catalog :: int
  ld_total :: int

definition floordiv :: "int \<Rightarrow> int \<Rightarrow> int result" where
  "floordiv a b = (if b = 0 then Inl (ArithmeticError ''integer division or modulo by zero'') else Inr (a div b))"

definition per_minute :: "RestLoadModel \<Rightarrow> RestLoad result" where
  "per_minute lm =
     rbind (require (\<not> lm_fleet_slots lm < 1) (ValueError ''REST load model requires at least one slot'')) (\<lambda>_.
     rbind (floordiv (60000 + lm_cheap_follower_period_ms lm - 1) (lm_cheap_follower_period_ms lm)) (\<lambda>cheap_cycles.
     rbind (floordiv (60000 + lm_catalog_period_ms lm - 1) (lm_catalog_period_ms lm)) (\<lambda>catalog_cycles.
     rbind (floordiv (lm_fleet_slots lm * 60000 + lm_nonfunding_ledger_period_ms lm - 1) (lm_nonfunding_ledger_period_ms lm)) (\<lambda>ledger_queries.
     let dexes = (case lm_audited_dexes lm of None \<Rightarrow> lm_fleet_slots lm | Some d \<Rightarrow> d);
         queries = (case lm_cheap_follower_queries_per_cycle lm of None \<Rightarrow> lm_fleet_slots lm | Some q \<Rightarrow> q) in
     rbind (require (\<not> (dexes < lm_fleet_slots lm \<or> queries < lm_fleet_slots lm))
              (ValueError ''REST load model must cover every follower and at least one DEX'')) (\<lambda>_.
     rbind (floordiv (dexes * 60000 + lm_full_follower_period_ms lm - 1) (lm_full_follower_period_ms lm)) (\<lambda>audits.
     let follower = queries * cheap_cycles * lm_cheap_follower_weight lm;
         discovery = audits * lm_full_dex_discovery_weight lm;
         orders = audits * lm_full_open_order_weight lm;
         ledger = ledger_queries * lm_nonfunding_ledger_weight lm;
         catalog = catalog_cycles * lm_catalog_refresh_weight lm
     in Inr \<lparr>ld_affected_follower = follower, ld_full_follower_dex_discovery = discovery, ld_full_open_order_audit = orders,
             ld_nonfunding_ledger_audit = ledger, ld_catalog = catalog,
             ld_total = follower + discovery + orders + ledger + catalog\<rparr>))))))"

text \<open>\<open>RestLoadModel.validate\<close>: the load, the headroom and whether it passed.\<close>

definition validate_load :: "RestLoadModel \<Rightarrow> int \<Rightarrow> int \<Rightarrow> (RestLoad \<times> int \<times> bool) result" where
  "validate_load lm ordinary_budget reserve_budget =
     rbind (per_minute lm) (\<lambda>ld.
     Inr (ld, ordinary_budget - ld_total ld, \<not> (ld_total ld > ordinary_budget) \<and> \<not> reserve_budget \<le> 0))"


section \<open>The ledger\<close>

record rest_request =
  rq_sender :: string
  rq_sender_epoch :: int
  rq_message_id :: int
  rq_priority :: RestPriority
  rq_endpoint :: string
  rq_weight :: int

datatype pool = Ordinary | Reserve | NoPool

datatype grant_reason =
    Granted | Egress_Fenced | Queue_Exhausted | Clock_Quarantine | Budget_Exhausted | Clock_Epoch_Replay | Takeover_Replay
  | Imported_Preview

text \<open>The request fields of a \<open>RestGrant\<close> are one component.\<close>

record RestGrant =
  g_grant_id :: string
  g_granted :: bool
  g_generation :: string
  g_coordinator_epoch :: int
  g_request :: rest_request
  g_pool :: pool
  g_granted_wall_ms :: int
  g_retry_after_ms :: int
  g_reason :: grant_reason

record owner_row =
  o_generation :: string
  o_epoch :: int
  o_process :: string
  o_ordinary :: int
  o_reserve :: int
  o_policy :: string
  o_clock_epoch :: int
  o_last_wall :: int
  o_last_mono :: int
  o_updated_wall :: int

record grant_row =
  t_grant_id :: string
  t_generation :: string
  t_coordinator_epoch :: int
  t_request :: rest_request
  t_pool :: pool
  t_wall :: int
  t_mono :: int
  t_clock_epoch :: int

type_synonym message_key = "string \<times> string \<times> int \<times> int"

definition key_of :: "string \<Rightarrow> rest_request \<Rightarrow> message_key" where
  "key_of generation r = (generation, rq_sender r, rq_sender_epoch r, rq_message_id r)"

text \<open>A row without an answer is pending.\<close>

record request_row =
  q_seq :: nat
  q_generation :: string
  q_request :: rest_request
  q_sha :: string
  q_wall :: int
  q_mono :: int
  q_response :: "RestGrant option"
  q_decided_wall :: int

record ack_row =
  k_key :: message_key
  k_sha :: string
  k_response :: RestGrant
  k_created_wall :: int

record fence_row =
  f_generation :: string
  f_preview :: string
  f_process :: string
  f_wall :: int
  f_mono :: int
  f_clock_epoch :: int

datatype epoch_reason = Initial_Epoch | Legacy_Adopted | Durable_Change | Runtime_Change | Takeover_Adopted | Takeover_Change

record epoch_row =
  e_generation :: string
  e_clock_epoch :: int
  e_started_wall :: int
  e_started_mono :: int
  e_quarantine_until :: int
  e_prior_epoch :: int
  e_prior_wall :: int
  e_prior_mono :: int
  e_reason :: epoch_reason

record RestTakeoverProof =
  tp_exact_prior_process_exited :: bool
  tp_exit_attestation_sha256 :: string
  tp_prior_grants_retained :: bool

record takeover_row =
  tk_id :: string
  tk_generation :: string
  tk_from_epoch :: int
  tk_to_epoch :: int
  tk_from_process :: string
  tk_to_process :: string
  tk_proof :: RestTakeoverProof
  tk_wall :: int

record import_row =
  i_source_generation :: string
  i_snapshot_sha :: string
  i_source_clock_epoch :: int
  i_captured_wall :: int
  i_captured_mono :: int
  i_source_count :: int
  i_live_count :: int
  i_weight :: int
  i_clock_epoch :: int
  i_wall :: int

record ledger =
  l_owner :: "owner_row option"
  l_grants :: "grant_row list"
  l_requests :: "request_row list"
  l_acks :: "ack_row list"
  l_takeovers :: "takeover_row list"
  l_fence :: "fence_row option"
  l_epochs :: "epoch_row list"
  l_imports :: "import_row list"

definition empty_ledger :: ledger where
  "empty_ledger = \<lparr>l_owner = None, l_grants = [], l_requests = [], l_acks = [], l_takeovers = [], l_fence = None, l_epochs = [], l_imports = []\<rparr>"

record coordinator =
  c_generation :: string
  c_ordinary :: int
  c_reserve :: int
  c_process :: string
  c_epoch :: int
  c_coalesce_ms :: int
  c_max_pending :: int
  c_critical_reserve :: int
  c_reorder_window :: int
  c_policy :: string
  c_clock_epoch :: int

text \<open>A snapshot of recent grants with its digest; the digest is taken of the snapshot without it.\<close>

record rest_snapshot =
  sn_generation :: string
  sn_clock_epoch :: int
  sn_captured_wall :: int
  sn_captured_mono :: int
  sn_window_ms :: int
  sn_grants :: "grant_row list"
  sn_sha :: string

text \<open>The digests of the program, as functions of what they digest.\<close>

record rest_digests =
  rd_request :: "string \<Rightarrow> rest_request \<Rightarrow> string"
  rd_grant :: "string \<Rightarrow> int \<Rightarrow> int \<Rightarrow> rest_request \<Rightarrow> string"
  rd_denial :: "string \<Rightarrow> rest_request \<Rightarrow> grant_reason \<Rightarrow> string"
  rd_takeover :: "string \<Rightarrow> int \<Rightarrow> int \<Rightarrow> string \<Rightarrow> string"
  rd_carryover :: "string \<Rightarrow> int \<Rightarrow> string \<Rightarrow> string"
  rd_snapshot :: "rest_snapshot \<Rightarrow> string"


section \<open>Transactions\<close>

type_synonym 'a tx = "coordinator \<Rightarrow> ledger \<Rightarrow> coordinator \<times> (ledger \<times> 'a) result"

definition tx_return :: "'a \<Rightarrow> 'a tx" where
  "tx_return x = (\<lambda>c l. (c, Inr (l, x)))"

definition tx_raise :: "error \<Rightarrow> 'a tx" where
  "tx_raise e = (\<lambda>c l. (c, Inl e))"

definition tx_bind :: "'a tx \<Rightarrow> ('a \<Rightarrow> 'b tx) \<Rightarrow> 'b tx" where
  "tx_bind m f = (\<lambda>c l. case m c l of (c', Inl e) \<Rightarrow> (c', Inl e) | (c', Inr (l', x)) \<Rightarrow> f x c' l')"

definition tx_require :: "bool \<Rightarrow> error \<Rightarrow> unit tx" where
  "tx_require b e = (if b then tx_return () else tx_raise e)"

definition tx_self :: "coordinator tx" where
  "tx_self = (\<lambda>c l. (c, Inr (l, c)))"

definition tx_ledger :: "ledger tx" where
  "tx_ledger = (\<lambda>c l. (c, Inr (l, l)))"

definition tx_update :: "(ledger \<Rightarrow> ledger) \<Rightarrow> unit tx" where
  "tx_update f = (\<lambda>c l. (c, Inr (f l, ())))"

definition tx_set_clock_epoch :: "int \<Rightarrow> unit tx" where
  "tx_set_clock_epoch e = (\<lambda>c l. (c\<lparr>c_clock_epoch := e\<rparr>, Inr (l, ())))"

definition tx_result :: "'a result \<Rightarrow> 'a tx" where
  "tx_result r = (case r of Inl e \<Rightarrow> tx_raise e | Inr x \<Rightarrow> tx_return x)"

fun tx_iter :: "('a \<Rightarrow> unit tx) \<Rightarrow> 'a list \<Rightarrow> unit tx" where
  "tx_iter f [] = tx_return ()"
| "tx_iter f (x # xs) = tx_bind (f x) (\<lambda>_. tx_iter f xs)"

text \<open>\<open>BEGIN IMMEDIATE\<close> with \<open>commit\<close>, and \<open>rollback\<close> on any exception.\<close>

definition atomically :: "'a tx \<Rightarrow> coordinator \<Rightarrow> ledger \<Rightarrow> coordinator \<times> ledger \<times> 'a result" where
  "atomically m c l = (case m c l of (c', Inl e) \<Rightarrow> (c', l, Inl e) | (c', Inr (l', x)) \<Rightarrow> (c', l', Inr x))"

text \<open>Inserts with the constraints of the tables.\<close>

definition insert_grant :: "grant_row \<Rightarrow> unit tx" where
  "insert_grant row =
     tx_bind tx_ledger (\<lambda>l.
     tx_bind (tx_require (\<not> list_ex (\<lambda>t. t_grant_id t = t_grant_id row \<or>
                key_of (t_generation t) (t_request t) = key_of (t_generation row) (t_request row)) (l_grants l))
              (IntegrityError ''UNIQUE constraint failed: rest_grants'')) (\<lambda>_.
     tx_update (\<lambda>l. l\<lparr>l_grants := l_grants l @ [row]\<rparr>)))"

definition insert_request :: "string \<Rightarrow> rest_request \<Rightarrow> string \<Rightarrow> int \<Rightarrow> int \<Rightarrow> RestGrant option \<Rightarrow> int \<Rightarrow> unit tx" where
  "insert_request generation r sha wall mono_ms response decided =
     tx_bind tx_ledger (\<lambda>l.
     tx_bind (tx_require (\<not> list_ex (\<lambda>q. key_of (q_generation q) (q_request q) = key_of generation r) (l_requests l))
              (IntegrityError ''UNIQUE constraint failed: rest_requests'')) (\<lambda>_.
     tx_update (\<lambda>l. l\<lparr>l_requests := l_requests l @
       [\<lparr>q_seq = length (l_requests l) + 1, q_generation = generation, q_request = r, q_sha = sha, q_wall = wall, q_mono = mono_ms,
         q_response = response, q_decided_wall = decided\<rparr>]\<rparr>)))"

definition insert_ack :: "message_key \<Rightarrow> string \<Rightarrow> RestGrant \<Rightarrow> int \<Rightarrow> unit tx" where
  "insert_ack key sha response wall =
     tx_bind tx_ledger (\<lambda>l.
     tx_bind (tx_require (\<not> list_ex (\<lambda>k. k_key k = key) (l_acks l)) (IntegrityError ''UNIQUE constraint failed: rest_ipc_acks'')) (\<lambda>_.
     tx_update (\<lambda>l. l\<lparr>l_acks := l_acks l @ [\<lparr>k_key = key, k_sha = sha, k_response = response, k_created_wall = wall\<rparr>]\<rparr>)))"


section \<open>Clock epochs\<close>

definition clock_epoch_changed :: "int \<Rightarrow> int \<Rightarrow> int \<Rightarrow> int \<Rightarrow> bool" where
  "clock_epoch_changed last_wall last_mono now_wall now_mono =
     (if last_wall \<le> 0 \<or> last_mono \<le> 0 then False
      else let wall_delta = now_wall - last_wall; mono_delta = now_mono - last_mono
           in mono_delta < 0 \<or> 2000 < \<bar>wall_delta - mono_delta\<bar>)"

definition find_epoch :: "coordinator \<Rightarrow> ledger \<Rightarrow> epoch_row option" where
  "find_epoch c l = find (\<lambda>e. e_generation e = c_generation c \<and> e_clock_epoch e = c_clock_epoch c) (l_epochs l)"

definition clock_epoch_row :: "epoch_row tx" where
  "clock_epoch_row = tx_bind tx_self (\<lambda>c. tx_bind tx_ledger (\<lambda>l.
     case find_epoch c l of
       None \<Rightarrow> tx_raise (RuntimeError ''REST coordinator clock epoch evidence is missing'')
     | Some e \<Rightarrow> tx_return e))"

definition insert_clock_epoch :: "int \<Rightarrow> int \<Rightarrow> int \<Rightarrow> int \<Rightarrow> int \<Rightarrow> int \<Rightarrow> int \<Rightarrow> epoch_reason \<Rightarrow> unit tx" where
  "insert_clock_epoch epoch wall mono_ms quarantine prior prior_wall prior_mono why =
     tx_bind tx_self (\<lambda>c. tx_bind tx_ledger (\<lambda>l.
     tx_bind (tx_require (\<not> list_ex (\<lambda>e. e_generation e = c_generation c \<and> e_clock_epoch e = epoch) (l_epochs l))
              (IntegrityError ''UNIQUE constraint failed: coordinator_clock_epochs'')) (\<lambda>_.
     tx_update (\<lambda>l. l\<lparr>l_epochs := l_epochs l @
       [\<lparr>e_generation = c_generation c, e_clock_epoch = epoch, e_started_wall = wall, e_started_mono = mono_ms,
         e_quarantine_until = mono_ms + quarantine, e_prior_epoch = prior, e_prior_wall = prior_wall, e_prior_mono = prior_mono,
         e_reason = why\<rparr>]\<rparr>))))"

definition begin_new_clock_epoch :: "owner_row \<Rightarrow> int \<Rightarrow> int \<Rightarrow> epoch_reason \<Rightarrow> unit tx" where
  "begin_new_clock_epoch ow wall mono_ms why =
     tx_bind (insert_clock_epoch (o_clock_epoch ow + 1) wall mono_ms REST_CLOCK_EPOCH_QUARANTINE_MS (o_clock_epoch ow)
                (o_last_wall ow) (o_last_mono ow) why) (\<lambda>_.
     tx_bind (tx_update (\<lambda>l. l\<lparr>l_owner := map_option (\<lambda>x. x\<lparr>o_clock_epoch := o_clock_epoch ow + 1, o_last_wall := wall,
                o_last_mono := mono_ms, o_updated_wall := wall\<rparr>) (l_owner l)\<rparr>)) (\<lambda>_.
     tx_set_clock_epoch (o_clock_epoch ow + 1)))"

text \<open>\<open>coalesce(max(column), 0)\<close>.\<close>

fun column_max :: "int list \<Rightarrow> int" where
  "column_max [] = 0"
| "column_max (x # xs) = foldr max xs x"

definition durable_mono_highwater :: "ledger \<Rightarrow> int" where
  "durable_mono_highwater l =
     Max {column_max (case l_owner l of None \<Rightarrow> [] | Some ow \<Rightarrow> [o_last_mono ow]), column_max (map t_mono (l_grants l)),
       column_max (map q_mono (l_requests l)), column_max (case l_fence l of None \<Rightarrow> [] | Some f \<Rightarrow> [f_mono f]),
       column_max (map e_started_mono (l_epochs l))}"

definition clock_quarantine_wait :: "int \<Rightarrow> int tx" where
  "clock_quarantine_wait mono_ms = tx_bind clock_epoch_row (\<lambda>e. tx_return (max 0 (e_quarantine_until e - mono_ms)))"


section \<open>Decisions\<close>

text \<open>The grants of the coordinator's generation and clock epoch that are younger than the window.\<close>

definition recent_grants :: "coordinator \<Rightarrow> int \<Rightarrow> ledger \<Rightarrow> grant_row list" where
  "recent_grants c mono_ms l =
     filter (\<lambda>t. t_generation t = c_generation c \<and> t_clock_epoch t = c_clock_epoch c \<and> mono_ms - REST_BUDGET_WINDOW_MS < t_mono t) (l_grants l)"

definition pool_weight :: "pool \<Rightarrow> grant_row list \<Rightarrow> int" where
  "pool_weight p ts = sum_list (map (\<lambda>t. rq_weight (t_request t)) (filter (\<lambda>t. t_pool t = p) ts))"

definition denial :: "rest_digests \<Rightarrow> rest_request \<Rightarrow> int \<Rightarrow> int \<Rightarrow> grant_reason \<Rightarrow> RestGrant tx" where
  "denial dg r wall mono_ms why =
     tx_bind tx_self (\<lambda>c. tx_bind tx_ledger (\<lambda>l.
     tx_bind (clock_quarantine_wait mono_ms) (\<lambda>quarantine.
     let recent = map t_mono (recent_grants c mono_ms l);
         retry = max quarantine
           (case recent of [] \<Rightarrow> 1000
            | m # ms \<Rightarrow> min (REST_BUDGET_WINDOW_MS + 1) (max 1 (foldr min ms m + REST_BUDGET_WINDOW_MS + 1 - mono_ms)))
     in tx_return \<lparr>g_grant_id = rd_denial dg (c_generation c) r why, g_granted = False, g_generation = c_generation c,
          g_coordinator_epoch = c_epoch c, g_request = r, g_pool = NoPool, g_granted_wall_ms = wall, g_retry_after_ms = retry, g_reason = why\<rparr>)))"

definition choose_pool :: "RestPriority \<Rightarrow> int \<Rightarrow> int \<Rightarrow> int \<Rightarrow> pool option" where
  "choose_pool priority weight ordinary_left reserve_left =
     (let reserve_first = (priority \<in> {AMBIGUITY_CONTAINMENT, GAP_REPAIR});
          reserve_eligible = (reserve_first \<or> priority = AFFECTED_FOLLOWER)
      in if reserve_first \<and> weight \<le> reserve_left then Some Reserve
         else if weight \<le> ordinary_left then Some Ordinary
         else if reserve_eligible \<and> weight \<le> reserve_left then Some Reserve
         else None)"

definition allocate :: "rest_digests \<Rightarrow> rest_request \<Rightarrow> int \<Rightarrow> int \<Rightarrow> RestGrant tx" where
  "allocate dg r wall mono_ms =
     tx_bind tx_self (\<lambda>c. tx_bind tx_ledger (\<lambda>l.
     let used = recent_grants c mono_ms l in
     case choose_pool (rq_priority r) (rq_weight r) (c_ordinary c - pool_weight Ordinary used) (c_reserve c - pool_weight Reserve used) of
       None \<Rightarrow> denial dg r wall mono_ms Budget_Exhausted
     | Some p \<Rightarrow>
         let i = rd_grant dg (c_generation c) (c_epoch c) (c_clock_epoch c) r in
         tx_bind (insert_grant \<lparr>t_grant_id = i, t_generation = c_generation c, t_coordinator_epoch = c_epoch c, t_request = r, t_pool = p,
                    t_wall = wall, t_mono = mono_ms, t_clock_epoch = c_clock_epoch c\<rparr>) (\<lambda>_.
         tx_return \<lparr>g_grant_id = i, g_granted = True, g_generation = c_generation c, g_coordinator_epoch = c_epoch c, g_request = r,
           g_pool = p, g_granted_wall_ms = wall, g_retry_after_ms = 0, g_reason = Granted\<rparr>)))"

text \<open>The answer is stored for the sender, and the row is decided.\<close>

definition store_answer :: "request_row \<Rightarrow> RestGrant \<Rightarrow> int \<Rightarrow> unit tx" where
  "store_answer q g wall =
     tx_bind tx_self (\<lambda>c.
     tx_bind (insert_ack (key_of (c_generation c) (q_request q)) (q_sha q) g wall) (\<lambda>_.
     tx_update (\<lambda>l. l\<lparr>l_requests := map (\<lambda>x. if q_seq x = q_seq q \<and> q_response x = None
       then x\<lparr>q_response := Some g, q_decided_wall := wall\<rparr> else x) (l_requests l)\<rparr>)))"

definition pending_rows :: "coordinator \<Rightarrow> ledger \<Rightarrow> request_row list" where
  "pending_rows c l = filter (\<lambda>q. q_generation q = c_generation c \<and> q_response q = None) (l_requests l)"

definition owner_matches :: "coordinator \<Rightarrow> owner_row \<Rightarrow> bool" where
  "owner_matches c ow \<longleftrightarrow> o_generation ow = c_generation c \<and> o_epoch ow = c_epoch c \<and> o_process ow = c_process c \<and>
     o_ordinary ow = c_ordinary c \<and> o_reserve ow = c_reserve c \<and> o_policy ow = c_policy c"

definition require_owner :: "owner_row tx" where
  "require_owner = tx_bind tx_self (\<lambda>c. tx_bind tx_ledger (\<lambda>l.
     case l_owner l of
       None \<Rightarrow> tx_raise (RuntimeError ''REST coordinator epoch fence failed'')
     | Some ow \<Rightarrow>
         if owner_matches c ow \<and> o_clock_epoch ow = c_clock_epoch c then tx_return ow
         else tx_raise (RuntimeError ''REST coordinator epoch fence failed'')))"

definition decide_row :: "rest_digests \<Rightarrow> bool \<Rightarrow> int \<Rightarrow> int \<Rightarrow> request_row \<Rightarrow> unit tx" where
  "decide_row dg quarantined wall mono_ms q =
     tx_bind (if quarantined then denial dg (q_request q) wall mono_ms Clock_Quarantine else allocate dg (q_request q) wall mono_ms) (\<lambda>g.
     store_answer q g wall)"

definition set_owner_clock :: "int \<Rightarrow> int \<Rightarrow> ledger \<Rightarrow> ledger" where
  "set_owner_clock wall mono_ms l =
     l\<lparr>l_owner := map_option (\<lambda>x. x\<lparr>o_last_wall := wall, o_last_mono := mono_ms, o_updated_wall := wall\<rparr>) (l_owner l)\<rparr>"

definition clock_jump :: "owner_row \<Rightarrow> int \<Rightarrow> int \<Rightarrow> bool" where
  "clock_jump ow wall mono_ms =
     (let wall_delta = wall - o_last_wall ow; mono_delta = mono_ms - o_last_mono ow
      in 0 < o_last_mono ow \<and> (mono_delta < 0 \<or> 2000 < \<bar>wall_delta - mono_delta\<bar>))"

definition decide_batch :: "rest_digests \<Rightarrow> owner_row \<Rightarrow> request_row list \<Rightarrow> int \<Rightarrow> int \<Rightarrow> unit tx" where
  "decide_batch dg ow pend wall mono_ms =
     (let jump = clock_jump ow wall mono_ms in
      tx_bind (if jump then begin_new_clock_epoch ow wall mono_ms Runtime_Change else tx_return ()) (\<lambda>_.
      tx_bind (clock_quarantine_wait mono_ms) (\<lambda>quarantine.
      tx_bind (tx_iter (decide_row dg (jump \<or> 0 < quarantine) wall mono_ms) pend) (\<lambda>_.
      tx_update (set_owner_clock wall mono_ms)))))"

text \<open>\<open>_drain_pending_requests\<close>: one batch in the order of priorities, at the latest time of its requests.\<close>

definition drain_pending :: "rest_digests \<Rightarrow> unit tx" where
  "drain_pending dg =
     tx_bind require_owner (\<lambda>ow. tx_bind tx_self (\<lambda>c. tx_bind tx_ledger (\<lambda>l.
     let pend = sort_key (\<lambda>q. priority_value (rq_priority (q_request q))) (pending_rows c l) in
     if pend = [] then tx_return ()
     else decide_batch dg ow pend (column_max (map q_wall pend)) (column_max (map q_mono pend)))))"


section \<open>Requests\<close>

definition request_ok :: "rest_request \<Rightarrow> unit result" where
  "request_ok r =
     rbind (require (\<not> (rq_sender r = [] \<or> rq_sender_epoch r < 1 \<or> rq_message_id r < 1 \<or> rq_endpoint r = [] \<or> rq_weight r < 1))
              (ValueError ''REST grant request fields are invalid'')) (\<lambda>_.
     validate_sender_policy (rq_sender r) (rq_priority r) (rq_endpoint r) (rq_weight r))"

definition find_ack :: "message_key \<Rightarrow> ledger \<Rightarrow> ack_row option" where
  "find_ack key l = find (\<lambda>k. k_key k = key) (l_acks l)"

definition find_request :: "message_key \<Rightarrow> ledger \<Rightarrow> request_row option" where
  "find_request key l = find (\<lambda>q. key_of (q_generation q) (q_request q) = key) (l_requests l)"

text \<open>The sender epochs and message ids the ledger has of a sender.\<close>

definition sender_messages :: "string \<Rightarrow> string \<Rightarrow> ledger \<Rightarrow> (int \<times> int) list" where
  "sender_messages generation sender l =
     map snd (filter (\<lambda>x. fst x = (generation, sender))
       (map (\<lambda>k. case k_key k of (g, s, e, m) \<Rightarrow> ((g, s), (e, m))) (l_acks l) @
        map (\<lambda>q. ((q_generation q, rq_sender (q_request q)), (rq_sender_epoch (q_request q), rq_message_id (q_request q)))) (l_requests l)))"

definition check_sender_fence :: "coordinator \<Rightarrow> rest_request \<Rightarrow> ledger \<Rightarrow> unit result" where
  "check_sender_fence c r l =
     (case sender_messages (c_generation c) (rq_sender r) l of
        [] \<Rightarrow> Inr ()
      | (e, m) # rest \<Rightarrow>
          rbind (require (list_all (\<lambda>(e', _). e' = rq_sender_epoch r) ((e, m) # rest)) (RuntimeError ''REST sender epoch fence failed'')) (\<lambda>_.
          require (\<not> rq_message_id r < foldr max (map snd rest) m - c_reorder_window c)
            (RuntimeError ''REST sender message ID exceeded the bounded reorder window'')))"

definition queue_full :: "coordinator \<Rightarrow> RestPriority \<Rightarrow> ledger \<Rightarrow> bool" where
  "queue_full c priority l =
     (let n = int (length (pending_rows c l))
      in c_max_pending c \<le> n \<or> priority \<noteq> AMBIGUITY_CONTAINMENT \<and> c_max_pending c - c_critical_reserve c \<le> n)"

text \<open>The first transaction of \<open>request_grant\<close>: an answer, or nothing when the request is queued or was already queued.\<close>

definition enqueue_request :: "rest_digests \<Rightarrow> rest_request \<Rightarrow> int \<Rightarrow> int \<Rightarrow> RestGrant option tx" where
  "enqueue_request dg r wall mono_ms =
     tx_bind tx_self (\<lambda>c. tx_bind tx_ledger (\<lambda>l.
     let key = key_of (c_generation c) r; sha = rd_request dg (c_generation c) r in
     case l_fence l of
       Some f \<Rightarrow>
         if f_generation f \<noteq> c_generation c then tx_raise (RuntimeError ''REST egress fence generation mismatch'')
         else tx_bind (denial dg r wall mono_ms Egress_Fenced) (\<lambda>g. tx_return (Some g))
     | None \<Rightarrow>
         case find_ack key l of
           Some k \<Rightarrow>
             if k_sha k \<noteq> sha then tx_raise (RuntimeError ''REST IPC message ID was replayed with different content'')
             else tx_return (Some (k_response k))
         | None \<Rightarrow>
             case find_request key l of
               Some q \<Rightarrow>
                 if q_sha q \<noteq> sha then tx_raise (RuntimeError ''REST IPC message ID was replayed with different content'')
                 else tx_return (q_response q)
             | None \<Rightarrow>
                 tx_bind (tx_result (check_sender_fence c r l)) (\<lambda>_.
                 tx_bind require_owner (\<lambda>_.
                 if queue_full c (rq_priority r) l
                 then tx_bind (denial dg r wall mono_ms Queue_Exhausted) (\<lambda>g.
                      tx_bind (insert_request (c_generation c) r sha wall mono_ms (Some g) wall) (\<lambda>_.
                      tx_bind (insert_ack key sha g wall) (\<lambda>_.
                      tx_return (Some g))))
                 else tx_bind (insert_request (c_generation c) r sha wall mono_ms None 0) (\<lambda>_. tx_return None)))))"

text \<open>\<open>request_grant\<close> without the pause that lets other requests join the batch.\<close>

definition request_grant :: "rest_digests \<Rightarrow> rest_request \<Rightarrow> int \<Rightarrow> int \<Rightarrow> coordinator \<Rightarrow> ledger \<Rightarrow> coordinator \<times> ledger \<times> RestGrant result" where
  "request_grant dg r wall mono_ms c l =
     (case request_ok r of
        Inl e \<Rightarrow> (c, l, Inl e)
      | Inr _ \<Rightarrow>
          (case atomically (enqueue_request dg r wall mono_ms) c l of
             (c1, l1, Inl e) \<Rightarrow> (c1, l1, Inl e)
           | (c1, l1, Inr (Some g)) \<Rightarrow> (c1, l1, Inr g)
           | (c1, l1, Inr None) \<Rightarrow>
               (case atomically (drain_pending dg) c1 l1 of
                  (c2, l2, Inl e) \<Rightarrow> (c2, l2, Inl e)
                | (c2, l2, Inr _) \<Rightarrow>
                    (c2, l2, case find_ack (key_of (c_generation c2) r) l2 of
                       None \<Rightarrow> Inl (RuntimeError ''REST durable request was not decided'')
                     | Some k \<Rightarrow>
                         if k_sha k \<noteq> rd_request dg (c_generation c2) r
                         then Inl (RuntimeError ''REST IPC acknowledgement content fence failed'')
                         else Inr (k_response k)))))"


section \<open>Ownership\<close>

definition make_coordinator ::
  "string \<Rightarrow> string \<Rightarrow> int \<Rightarrow> int \<Rightarrow> string \<Rightarrow> int \<Rightarrow> int \<Rightarrow> int \<Rightarrow> int \<Rightarrow> int \<Rightarrow> coordinator result" where
  "make_coordinator policy generation ordinary reserve process epoch coalesce max_pending critical reorder =
     rbind (require (\<not> (generation = [] \<or> process = [] \<or> epoch < 1)) (ValueError ''REST coordinator identity is incomplete'')) (\<lambda>_.
     rbind (require (\<not> (ordinary \<le> 0 \<or> reserve \<le> 0)) (ValueError ''REST coordinator budgets must be positive'')) (\<lambda>_.
     rbind (require (\<not> 1200 < ordinary + reserve) (ValueError ''REST coordinator budgets exceed the frozen IP allowance'')) (\<lambda>_.
     rbind (require (0 \<le> coalesce \<and> coalesce \<le> 100) (ValueError ''REST priority coalescing must be between 0 and 100ms'')) (\<lambda>_.
     rbind (require (\<not> (max_pending < 2 \<or> \<not> (0 < critical \<and> critical < max_pending) \<or> reorder < 1))
              (ValueError ''REST durable queue bounds are invalid'')) (\<lambda>_.
     Inr \<lparr>c_generation = generation, c_ordinary = ordinary, c_reserve = reserve, c_process = process, c_epoch = epoch, c_coalesce_ms = coalesce,
          c_max_pending = max_pending, c_critical_reserve = critical, c_reorder_window = reorder, c_policy = policy, c_clock_epoch = 1\<rparr>)))))"

text \<open>Every pending request is answered with a denial, in the order of arrival.\<close>

definition deny_pending :: "rest_digests \<Rightarrow> int \<Rightarrow> int \<Rightarrow> grant_reason \<Rightarrow> unit tx" where
  "deny_pending dg wall mono_ms why =
     tx_bind tx_self (\<lambda>c. tx_bind tx_ledger (\<lambda>l.
     tx_iter (\<lambda>q. tx_bind (denial dg (q_request q) wall mono_ms why) (\<lambda>g. store_answer q g wall)) (pending_rows c l)))"

text \<open>A ledger from before clock epochs gets the row of its epoch.\<close>

definition adopt_clock_epoch :: "owner_row \<Rightarrow> epoch_reason \<Rightarrow> unit tx" where
  "adopt_clock_epoch ow why =
     tx_bind (tx_set_clock_epoch (o_clock_epoch ow)) (\<lambda>_. tx_bind tx_self (\<lambda>c. tx_bind tx_ledger (\<lambda>l.
     if find_epoch c l = None
     then insert_clock_epoch (o_clock_epoch ow) (o_last_wall ow) (o_last_mono ow) 0 (max 0 (o_clock_epoch ow - 1)) 0 0 why
     else tx_return ())))"

definition clock_moved :: "owner_row \<Rightarrow> int \<Rightarrow> int \<Rightarrow> ledger \<Rightarrow> bool" where
  "clock_moved ow wall mono_ms l \<longleftrightarrow>
     mono_ms < durable_mono_highwater l \<or> clock_epoch_changed (o_last_wall ow) (o_last_mono ow) wall mono_ms"

definition claim_initial_epoch :: "rest_digests \<Rightarrow> int \<Rightarrow> int \<Rightarrow> unit tx" where
  "claim_initial_epoch dg wall mono_ms =
     tx_bind tx_self (\<lambda>c. tx_bind tx_ledger (\<lambda>l.
     case l_owner l of
       None \<Rightarrow>
         tx_bind (tx_update (\<lambda>l. l\<lparr>l_owner := Some \<lparr>o_generation = c_generation c, o_epoch = c_epoch c, o_process = c_process c,
                    o_ordinary = c_ordinary c, o_reserve = c_reserve c, o_policy = c_policy c, o_clock_epoch = 1,
                    o_last_wall = wall, o_last_mono = mono_ms, o_updated_wall = wall\<rparr>\<rparr>)) (\<lambda>_.
         tx_bind (tx_set_clock_epoch 1) (\<lambda>_.
         insert_clock_epoch 1 wall mono_ms 0 0 0 0 Initial_Epoch))
     | Some ow \<Rightarrow>
         if \<not> owner_matches c ow then tx_raise (RuntimeError ''REST coordinator ledger owner or frozen policy does not match'')
         else tx_bind (adopt_clock_epoch ow Legacy_Adopted) (\<lambda>_. tx_bind tx_ledger (\<lambda>l1.
              if clock_moved ow wall mono_ms l1
              then tx_bind (begin_new_clock_epoch ow wall mono_ms Durable_Change) (\<lambda>_. deny_pending dg wall mono_ms Clock_Epoch_Replay)
              else tx_update (set_owner_clock wall mono_ms)))))"

definition open_coordinator ::
  "rest_digests \<Rightarrow> coordinator result \<Rightarrow> bool \<Rightarrow> int \<Rightarrow> int \<Rightarrow> ledger \<Rightarrow> ledger \<times> coordinator result" where
  "open_coordinator dg made claim wall mono_ms l =
     (case made of
        Inl e \<Rightarrow> (l, Inl e)
      | Inr c \<Rightarrow>
          if \<not> claim then (l, Inr c)
          else case atomically (claim_initial_epoch dg wall mono_ms) c l of
                 (c', l', Inl e) \<Rightarrow> (l', Inl e)
               | (c', l', Inr _) \<Rightarrow> (l', Inr c'))"

definition lower_hex64 :: "string \<Rightarrow> bool" where
  "lower_hex64 s \<longleftrightarrow> length s = 64 \<and> list_all (\<lambda>ch. ch \<in> set ''0123456789abcdef'') s"

definition takeover_complete :: "RestTakeoverProof \<Rightarrow> bool" where
  "takeover_complete p \<longleftrightarrow> tp_exact_prior_process_exited p \<and> lower_hex64 (tp_exit_attestation_sha256 p) \<and> tp_prior_grants_retained p"

text \<open>The transaction of \<open>takeover\<close>; the grants of the generation are counted before and after.\<close>

definition generation_grants :: "coordinator \<Rightarrow> ledger \<Rightarrow> nat" where
  "generation_grants c l = length (filter (\<lambda>t. t_generation t = c_generation c) (l_grants l))"

definition takeover_tx :: "rest_digests \<Rightarrow> int \<Rightarrow> int \<Rightarrow> string \<Rightarrow> string \<Rightarrow> RestTakeoverProof \<Rightarrow> int \<Rightarrow> int \<Rightarrow> unit tx" where
  "takeover_tx dg expected_epoch new_epoch prior_process new_process prf wall mono_ms =
     tx_bind tx_self (\<lambda>c. tx_bind tx_ledger (\<lambda>l.
     case l_owner l of
       None \<Rightarrow> tx_raise (RuntimeError ''REST takeover frozen-policy fence failed'')
     | Some ow \<Rightarrow>
         if \<not> (o_generation ow = c_generation c \<and> o_ordinary ow = c_ordinary c \<and> o_reserve ow = c_reserve c \<and> o_policy ow = c_policy c)
         then tx_raise (RuntimeError ''REST takeover frozen-policy fence failed'')
         else tx_bind (adopt_clock_epoch ow Takeover_Adopted) (\<lambda>_. tx_bind tx_ledger (\<lambda>l1.
              tx_bind (if clock_moved ow wall mono_ms l1 then begin_new_clock_epoch ow wall mono_ms Takeover_Change else tx_return ()) (\<lambda>_. tx_bind tx_ledger (\<lambda>prior.
              if \<not> (o_epoch ow = expected_epoch \<and> o_process ow = prior_process)
              then tx_raise (RuntimeError ''REST coordinator takeover CAS failed'')
              else tx_bind (tx_update (\<lambda>l. (set_owner_clock wall mono_ms l)\<lparr>l_owner := map_option (\<lambda>x. x\<lparr>o_epoch := new_epoch, o_process := new_process\<rparr>)
                     (l_owner (set_owner_clock wall mono_ms l))\<rparr>)) (\<lambda>_.
              let i = rd_takeover dg (c_generation c) expected_epoch new_epoch new_process in
              tx_bind tx_ledger (\<lambda>l2.
              tx_bind (tx_require (\<not> list_ex (\<lambda>t. tk_id t = i) (l_takeovers l2)) (IntegrityError ''UNIQUE constraint failed: coordinator_takeovers'')) (\<lambda>_.
              tx_bind (tx_update (\<lambda>l. l\<lparr>l_takeovers := l_takeovers l @ [\<lparr>tk_id = i, tk_generation = c_generation c, tk_from_epoch = expected_epoch,
                         tk_to_epoch = new_epoch, tk_from_process = prior_process, tk_to_process = new_process, tk_proof = prf, tk_wall = wall\<rparr>]\<rparr>)) (\<lambda>_.
              tx_bind (deny_pending dg wall mono_ms Takeover_Replay) (\<lambda>_. tx_bind tx_ledger (\<lambda>l3.
              tx_require (generation_grants c l3 = generation_grants c prior) (RuntimeError ''REST takeover did not retain the prior grant ledger'')))))))))))))"

definition takeover ::
  "rest_digests \<Rightarrow> int \<Rightarrow> int \<Rightarrow> string \<Rightarrow> string \<Rightarrow> RestTakeoverProof \<Rightarrow> int \<Rightarrow> int \<Rightarrow> coordinator \<Rightarrow> ledger \<Rightarrow> coordinator \<times> ledger \<times> unit result" where
  "takeover dg expected_epoch new_epoch prior_process new_process prf wall mono_ms c l =
     (if \<not> takeover_complete prf then (c, l, Inl (RuntimeError ''REST coordinator takeover proof is incomplete''))
      else if new_epoch \<noteq> expected_epoch + 1 then (c, l, Inl (ValueError ''REST coordinator epoch must advance by exactly one''))
      else case atomically (takeover_tx dg expected_epoch new_epoch prior_process new_process prf wall mono_ms) c l of
             (c', l', Inl e) \<Rightarrow> (c', l', Inl e)
           | (c', l', Inr _) \<Rightarrow> (c'\<lparr>c_epoch := new_epoch, c_process := new_process\<rparr>, l', Inr ()))"


section \<open>Snapshots, the egress fence and imports\<close>

definition sender_message_highwater :: "coordinator \<Rightarrow> string \<Rightarrow> int \<Rightarrow> ledger \<Rightarrow> int result" where
  "sender_message_highwater c sender sender_epoch l =
     rbind (require (\<not> (sender = [] \<or> sender_epoch < 1)) (ValueError ''REST sender identity is incomplete'')) (\<lambda>_.
     Inr (column_max (map snd (filter (\<lambda>(e, _). e = sender_epoch) (sender_messages (c_generation c) sender l)))))"

definition recent_grant_snapshot :: "rest_digests \<Rightarrow> int \<Rightarrow> int \<Rightarrow> coordinator \<Rightarrow> ledger \<Rightarrow> rest_snapshot" where
  "recent_grant_snapshot dg wall mono_ms c l =
     (let body = \<lparr>sn_generation = c_generation c, sn_clock_epoch = c_clock_epoch c, sn_captured_wall = wall, sn_captured_mono = mono_ms,
        sn_window_ms = REST_BUDGET_WINDOW_MS, sn_grants = recent_grants c mono_ms l, sn_sha = []\<rparr>
      in body\<lparr>sn_sha := rd_snapshot dg body\<rparr>)"

definition snapshot_hash_ok :: "rest_digests \<Rightarrow> rest_snapshot \<Rightarrow> bool" where
  "snapshot_hash_ok dg sn \<longleftrightarrow> sn_sha sn = rd_snapshot dg (sn\<lparr>sn_sha := []\<rparr>)"

definition freeze_egress :: "rest_digests \<Rightarrow> string \<Rightarrow> rest_snapshot \<Rightarrow> int \<Rightarrow> int \<Rightarrow> fence_row tx" where
  "freeze_egress dg preview sn wall mono_ms =
     tx_bind (tx_require (lower_hex64 preview) (ValueError ''REST egress fence preview hash is invalid'')) (\<lambda>_.
     tx_bind tx_self (\<lambda>c. tx_bind tx_ledger (\<lambda>l.
     let ids = map t_grant_id (sn_grants sn) in
     tx_bind (tx_require (snapshot_hash_ok dg sn \<and> sn_generation sn = c_generation c \<and> sn_window_ms sn = REST_BUDGET_WINDOW_MS)
              (ValueError ''REST egress fence snapshot is invalid'')) (\<lambda>_.
     tx_bind (tx_require (ids \<noteq> [] \<and> [] \<notin> set ids \<and> distinct ids) (ValueError ''REST egress fence snapshot grant identities are invalid'')) (\<lambda>_.
     tx_bind (tx_require (sn_clock_epoch sn = c_clock_epoch c \<and> 0 < sn_captured_mono sn \<and> sn_captured_mono sn \<le> mono_ms \<and>
                list_all (\<lambda>t. t_clock_epoch t = sn_clock_epoch sn \<and> 0 < t_mono t \<and> t_mono t \<le> sn_captured_mono sn) (sn_grants sn))
              (ValueError ''REST egress fence snapshot clock epoch is invalid'')) (\<lambda>_.
     case l_fence l of
       Some f \<Rightarrow>
         if f_generation f = c_generation c \<and> f_preview f = preview then tx_return f
         else tx_raise (RuntimeError ''host-wide REST egress is already launch-fenced'')
     | None \<Rightarrow>
         tx_bind (tx_require (pending_rows c l = []) (RuntimeError ''host-wide REST egress has pending requests'')) (\<lambda>_.
         tx_bind (tx_require (set (map t_grant_id (recent_grants c mono_ms l)) \<subseteq> set ids)
                  (RuntimeError ''host-wide REST grants changed after preview'')) (\<lambda>_.
         let f = \<lparr>f_generation = c_generation c, f_preview = preview, f_process = c_process c, f_wall = wall, f_mono = mono_ms,
                  f_clock_epoch = c_clock_epoch c\<rparr> in
         tx_bind (tx_update (\<lambda>l. l\<lparr>l_fence := Some f\<rparr>)) (\<lambda>_. tx_return f)))))))))"

definition release_egress_fence :: "string \<Rightarrow> bool tx" where
  "release_egress_fence preview =
     tx_bind tx_ledger (\<lambda>l.
     case l_fence l of
       None \<Rightarrow> tx_return False
     | Some f \<Rightarrow>
         if f_preview f \<noteq> preview then tx_raise (RuntimeError ''REST egress fence preview identity mismatch'')
         else tx_bind (tx_update (\<lambda>l. l\<lparr>l_fence := None\<rparr>)) (\<lambda>_. tx_return True))"

definition stale_egress_fence_release_status :: "int \<Rightarrow> (bool \<times> int) tx" where
  "stale_egress_fence_release_status mono_ms =
     tx_bind tx_self (\<lambda>c. tx_bind tx_ledger (\<lambda>l. tx_bind clock_epoch_row (\<lambda>e.
     case l_fence l of
       None \<Rightarrow> tx_return (True, 0)
     | Some f \<Rightarrow>
         let ready_at = (if f_clock_epoch f = c_clock_epoch c then f_mono f + REST_BUDGET_WINDOW_MS else e_quarantine_until e);
             wait_ms = max 0 (ready_at - mono_ms)
         in tx_return (wait_ms = 0, wait_ms))))"

text \<open>One row of an imported snapshot, and those that are still inside the window with their positions.\<close>

definition import_row_ok :: "string \<Rightarrow> rest_snapshot \<Rightarrow> string list \<Rightarrow> grant_row \<Rightarrow> unit result" where
  "import_row_ok source sn seen t =
     rbind (require (\<not> (t_grant_id t = [] \<or> t_grant_id t \<in> set seen \<or> t_generation t \<noteq> source \<or> t_clock_epoch t \<noteq> sn_clock_epoch sn \<or>
                        t_pool t \<noteq> Ordinary \<or> t_wall t \<le> 0 \<or> t_mono t \<le> 0 \<or> sn_captured_mono sn < t_mono t))
              (ValueError ''REST grant import row identity is invalid'')) (\<lambda>_.
     validate_sender_policy (rq_sender (t_request t)) (rq_priority (t_request t)) (rq_endpoint (t_request t)) (rq_weight (t_request t)))"

fun import_rows :: "string \<Rightarrow> rest_snapshot \<Rightarrow> int \<Rightarrow> int \<Rightarrow> string list \<Rightarrow> grant_row list \<Rightarrow> (int \<times> grant_row) list result" where
  "import_rows source sn mono_ms n seen [] = Inr []"
| "import_rows source sn mono_ms n seen (t # ts) =
     rbind (import_row_ok source sn seen t) (\<lambda>_.
     rbind (import_rows source sn mono_ms (n + 1) (t_grant_id t # seen) ts) (\<lambda>rest.
     Inr (if REST_BUDGET_WINDOW_MS \<le> mono_ms - t_mono t then rest else (n, t) # rest)))"

definition import_one :: "rest_digests \<Rightarrow> int \<Rightarrow> int \<times> grant_row \<Rightarrow> unit tx" where
  "import_one dg wall nt =
     (case nt of (n, t) \<Rightarrow>
       tx_bind tx_self (\<lambda>c.
       let i = rd_carryover dg (c_generation c) (c_clock_epoch c) (t_grant_id t);
           r = (t_request t)\<lparr>rq_sender := ''fleet-supervisor-preview-reservation'', rq_sender_epoch := 1, rq_message_id := n\<rparr>;
           sha = rd_request dg (c_generation c) r;
           g = \<lparr>g_grant_id = i, g_granted = True, g_generation = c_generation c, g_coordinator_epoch = c_epoch c, g_request = r,
                g_pool = Ordinary, g_granted_wall_ms = t_wall t, g_retry_after_ms = 0, g_reason = Imported_Preview\<rparr> in
       tx_bind (insert_grant \<lparr>t_grant_id = i, t_generation = c_generation c, t_coordinator_epoch = c_epoch c, t_request = r, t_pool = Ordinary,
                  t_wall = t_wall t, t_mono = t_mono t, t_clock_epoch = c_clock_epoch c\<rparr>) (\<lambda>_.
       tx_bind (insert_request (c_generation c) r sha (t_wall t) (t_mono t) (Some g) wall) (\<lambda>_.
       insert_ack (key_of (c_generation c) r) sha g wall))))"

definition import_recent_grant_snapshot :: "rest_digests \<Rightarrow> rest_snapshot \<Rightarrow> string \<Rightarrow> int \<Rightarrow> int \<Rightarrow> import_row tx" where
  "import_recent_grant_snapshot dg sn source wall mono_ms =
     tx_bind (tx_require (snapshot_hash_ok dg sn) (ValueError ''REST grant import snapshot hash is invalid'')) (\<lambda>_.
     tx_bind (tx_require (sn_generation sn = source \<and> \<not> sn_clock_epoch sn < 1 \<and> sn_window_ms sn = REST_BUDGET_WINDOW_MS)
              (ValueError ''REST grant import snapshot identity is invalid'')) (\<lambda>_.
     tx_bind (tx_require (\<not> (sn_captured_wall sn \<le> 0 \<or> sn_captured_mono sn \<le> 0 \<or> mono_ms < sn_captured_mono sn))
              (ValueError ''REST grant import snapshot clock identity is invalid'')) (\<lambda>_.
     tx_bind (clock_quarantine_wait mono_ms) (\<lambda>quarantine.
     tx_bind (tx_require (\<not> 0 < quarantine) (ValueError ''REST grant import snapshot clock identity is invalid'')) (\<lambda>_.
     tx_bind (tx_result (import_rows source sn mono_ms 1 [] (sn_grants sn))) (\<lambda>rows.
     let weight = sum_list (map (\<lambda>(n, t). rq_weight (t_request t)) rows) in
     tx_bind tx_self (\<lambda>c. tx_bind tx_ledger (\<lambda>l.
     tx_bind (tx_require (\<not> c_ordinary c < weight) (ValueError ''REST grant import exceeds the run ordinary budget'')) (\<lambda>_.
     case find (\<lambda>i. i_source_generation i = source) (l_imports l) of
       Some i \<Rightarrow>
         if i_snapshot_sha i \<noteq> sn_sha sn then tx_raise (RuntimeError ''REST grant import source was replayed differently'')
         else tx_return i
     | None \<Rightarrow>
         let i = \<lparr>i_source_generation = source, i_snapshot_sha = sn_sha sn, i_source_clock_epoch = sn_clock_epoch sn,
                  i_captured_wall = sn_captured_wall sn, i_captured_mono = sn_captured_mono sn, i_source_count = int (length (sn_grants sn)),
                  i_live_count = int (length rows), i_weight = weight, i_clock_epoch = c_clock_epoch c, i_wall = wall\<rparr> in
         tx_bind (tx_iter (import_one dg wall) rows) (\<lambda>_.
         tx_bind (tx_update (\<lambda>l. l\<lparr>l_imports := l_imports l @ [i]\<rparr>)) (\<lambda>_.
         tx_return i)))))))))))"

record rest_usage =
  u_ordinary_used :: int
  u_ordinary_remaining :: int
  u_reserve_used :: int
  u_reserve_remaining :: int
  u_pending :: int
  u_pending_critical :: int
  u_clock_epoch :: int
  u_quarantine_ms :: int

definition usage :: "int \<Rightarrow> rest_usage tx" where
  "usage mono_ms =
     tx_bind tx_self (\<lambda>c. tx_bind tx_ledger (\<lambda>l. tx_bind (clock_quarantine_wait mono_ms) (\<lambda>quarantine.
     let used = recent_grants c mono_ms l; pend = pending_rows c l in
     tx_return \<lparr>u_ordinary_used = pool_weight Ordinary used, u_ordinary_remaining = c_ordinary c - pool_weight Ordinary used,
       u_reserve_used = pool_weight Reserve used, u_reserve_remaining = c_reserve c - pool_weight Reserve used,
       u_pending = int (length pend),
       u_pending_critical = int (length (filter (\<lambda>q. rq_priority (q_request q) = AMBIGUITY_CONTAINMENT) pend)),
       u_clock_epoch = c_clock_epoch c, u_quarantine_ms = quarantine\<rparr>)))"


section \<open>The pipe\<close>

text \<open>
  The coordinator's process answers requests of other processes over a named pipe. What the pipe does to
  one exchange is an argument: it may fail, and then the caller does not know whether it was decided.
\<close>

record pipe_client =
  pc_generation :: string
  pc_sender :: string
  pc_sender_epoch :: int
  pc_message_id :: int
  pc_durable :: bool

type_synonym message_ids = "string \<times> int \<rightharpoonup> int"

definition make_pipe_client :: "bool \<Rightarrow> string \<Rightarrow> nat \<Rightarrow> string \<Rightarrow> string \<Rightarrow> int \<Rightarrow> bool \<Rightarrow> bool \<Rightarrow> pipe_client result" where
  "make_pipe_client windows pipe_name secret_length generation sender sender_epoch durable positive_timeout =
     rbind (require windows (RuntimeError ''REST budget named pipes are supported only on Windows'')) (\<lambda>_.
     rbind (require (\<not> (pipe_name = [] \<or> secret_length < 32 \<or> generation = [] \<or> sender = [] \<or> \<not> positive_timeout))
              (ValueError ''REST pipe client identity is incomplete'')) (\<lambda>_.
     Inr \<lparr>pc_generation = generation, pc_sender = sender, pc_sender_epoch = sender_epoch, pc_message_id = 0, pc_durable = durable\<rparr>))"

text \<open>The next message id, from memory or from the table \<open>sender_message_ids\<close>.\<close>

definition next_message_id :: "pipe_client \<Rightarrow> message_ids \<Rightarrow> int \<times> pipe_client \<times> message_ids" where
  "next_message_id pc ids =
     (if \<not> pc_durable pc then (pc_message_id pc + 1, pc\<lparr>pc_message_id := pc_message_id pc + 1\<rparr>, ids)
      else let key = (pc_sender pc, pc_sender_epoch pc); i = (case ids key of None \<Rightarrow> 1 | Some n \<Rightarrow> n)
           in (i, pc, ids(key \<mapsto> i + 1)))"

definition pipe_handle :: "rest_digests \<Rightarrow> string \<Rightarrow> rest_request \<Rightarrow> int \<Rightarrow> int \<Rightarrow> coordinator \<Rightarrow> ledger \<Rightarrow> coordinator \<times> ledger \<times> RestGrant result" where
  "pipe_handle dg generation r wall mono_ms c l =
     (if generation \<noteq> c_generation c then (c, l, Inl (RuntimeError ''REST pipe generation fence failed''))
      else request_grant dg r wall mono_ms c l)"

text \<open>The client's side of a reply; a server that caught an exception answers that it is not ok.\<close>

datatype pipe_reply = Pipe_Failed | Pipe_Not_Ok | Pipe_Malformed | Pipe_Grant RestGrant

definition reply_of :: "RestGrant result \<Rightarrow> pipe_reply" where
  "reply_of x = (case x of Inl e \<Rightarrow> Pipe_Not_Ok | Inr g \<Rightarrow> Pipe_Grant g)"

definition read_reply :: "pipe_reply \<Rightarrow> RestGrant result" where
  "read_reply rep =
     (case rep of
        Pipe_Failed \<Rightarrow> Inl (RuntimeError ''REST grant pipe transport failed'')
      | Pipe_Not_Ok \<Rightarrow> Inl (RuntimeError ''REST grant pipe failed'')
      | Pipe_Malformed \<Rightarrow> Inl (RuntimeError ''REST grant pipe returned malformed response'')
      | Pipe_Grant g \<Rightarrow> Inr g)"

definition client_request_grant ::
  "(string \<Rightarrow> rest_request \<Rightarrow> pipe_reply) \<Rightarrow> RestPriority \<Rightarrow> string \<Rightarrow> int \<Rightarrow> pipe_client \<Rightarrow> message_ids \<Rightarrow> pipe_client \<times> message_ids \<times> RestGrant result" where
  "client_request_grant exchange priority endpoint weight pc ids =
     (case next_message_id pc ids of
        (i, pc', ids') \<Rightarrow>
          (pc', ids', read_reply (exchange (pc_generation pc)
             \<lparr>rq_sender = pc_sender pc, rq_sender_epoch = pc_sender_epoch pc, rq_message_id = i, rq_priority = priority,
              rq_endpoint = endpoint, rq_weight = weight\<rparr>)))"

end
