(* ===== verification/Continuous_Follower.thy ===== *)
theory Continuous_Follower
  imports Runtime_Restart Rest_Budget
begin

text \<open>
  \<^verbatim>\<open>continuous_follower.py\<close>: reading the follower's equity and positions over the shared socket.

  The replies to information requests are an argument, as a function of the request. The DEXes of one
  refresh are read one after the other; the program reads them with a few workers, whose order only
  decides which of several errors is raised.
\<close>

section \<open>The reader\<close>

record WsFollowerInfo =
  fi_catalog :: CatalogRevision
  fi_catalog_dexes :: "string list"
  fi_maximum_inflight :: int
  fi_per_slot_workers :: int

definition catalog_position_dexes :: "CatalogRevision \<Rightarrow> string list" where
  "catalog_position_dexes catalog =
     filter (\<lambda>dex. list_ex (\<lambda>m. cm_dex m = dex \<and> \<not> cm_removal_tombstone m) (cr_markets catalog)) (cr_wire_dexes catalog)"

definition make_follower_info :: "CatalogRevision \<Rightarrow> int \<Rightarrow> int \<Rightarrow> rat \<Rightarrow> WsFollowerInfo result" where
  "make_follower_info catalog maximum_inflight per_slot_workers timeout_s =
     rbind (require (\<not> (maximum_inflight < 1 \<or> per_slot_workers < 1 \<or> timeout_s \<le> 0))
              (ValueError ''follower WS bounds must be positive'')) (\<lambda>_.
     rbind (require (\<not> maximum_inflight < per_slot_workers)
              (ValueError ''per-slot follower workers exceed the shared inflight bound'')) (\<lambda>_.
     rbind (require (catalog_position_dexes catalog \<noteq> []) (ValueError ''follower truth requires at least one catalog DEX'')) (\<lambda>_.
     Inr \<lparr>fi_catalog = catalog, fi_catalog_dexes = catalog_position_dexes catalog, fi_maximum_inflight = maximum_inflight,
          fi_per_slot_workers = per_slot_workers\<rparr>)))"

definition follower_replace_catalog :: "CatalogRevision \<Rightarrow> WsFollowerInfo \<Rightarrow> WsFollowerInfo result" where
  "follower_replace_catalog catalog fi =
     rbind (require (catalog_position_dexes catalog \<noteq> []) (ValueError ''follower truth requires at least one catalog DEX'')) (\<lambda>_.
     Inr (fi\<lparr>fi_catalog := catalog, fi_catalog_dexes := catalog_position_dexes catalog\<rparr>))"

text \<open>The DEXes a slot may trade on, the native one first.\<close>

definition dexes_for :: "WsFollowerInfo \<Rightarrow> BoundContinuousSlot \<Rightarrow> string list result" where
  "dexes_for fi slot =
     rbind (rmap market_dex (allowed_markets (b_config slot))) (\<lambda>names.
     let dexes = sort_key (\<lambda>d. (d \<noteq> [], d)) (remdups names)
     in if dexes = [] \<or> \<not> list_all (\<lambda>d. d \<in> set (fi_catalog_dexes fi)) dexes
        then Inl (FollowerTruthError ''follower plan contains an unavailable DEX'') else Inr dexes)"

definition requests_per_refresh :: "WsFollowerInfo \<Rightarrow> BoundContinuousSlot \<Rightarrow> int result" where
  "requests_per_refresh fi slot =
     rbind (dexes_for fi slot) (\<lambda>dexes.
     Inr (1 + int (length dexes) + (if b_external_writers_allowed slot then int (length dexes) else 0)))"

definition weight_per_refresh :: "WsFollowerInfo \<Rightarrow> BoundContinuousSlot \<Rightarrow> int result" where
  "weight_per_refresh fi slot =
     rbind (dexes_for fi slot) (\<lambda>dexes.
     rbind (authoritative_rest_weight ''info:spotClearinghouseState'') (\<lambda>spot.
     rbind (authoritative_rest_weight ''info:clearinghouseState'') (\<lambda>state.
     rbind (if b_external_writers_allowed slot then authoritative_rest_weight ''info:openOrders'' else Inr 0) (\<lambda>orders.
     Inr (spot + int (length dexes) * (state + orders))))))"

text \<open>\<open>_info\<close>: the reply must be an information reply of the type that was asked for.\<close>

definition info_data :: "(json \<Rightarrow> PostResult result) \<Rightarrow> (string \<times> json) list \<Rightarrow> json result" where
  "info_data net payload =
     (let expected = str_or_empty (jget payload ''type'') in
      rbind (net (JObj payload)) (\<lambda>r.
      if pr_outcome r \<noteq> PO_INFO then Inl (FollowerTruthError ''follower WS info was not answered'')
      else case pr_response r of
        JObj response \<Rightarrow>
          if jget response ''type'' \<noteq> JStr ''info'' then Inl (FollowerTruthError ''follower WS info envelope is malformed'')
          else (case jget response ''payload'' of
                  JObj inner \<Rightarrow>
                    if jget inner ''type'' \<noteq> JStr expected \<or> \<not> has_key inner ''data''
                    then Inl (FollowerTruthError ''follower WS info payload is mismatched'')
                    else Inr (jget inner ''data'')
                | _ \<Rightarrow> Inl (FollowerTruthError ''follower WS info payload is mismatched''))
      | _ \<Rightarrow> Inl (FollowerTruthError ''follower WS info envelope is malformed'')))"

text \<open>The total and the unheld part of the one token-0 USDC balance.\<close>

definition usdc_rows :: "json list \<Rightarrow> (string \<times> json) list list" where
  "usdc_rows rows = filter (\<lambda>row. py_str (jget row ''token'') = ''0'' \<and> py_upper (str_or_empty (jget row ''coin'')) = ''USDC'') (objects_of rows)"

definition token_zero_usdc_balance :: "json \<Rightarrow> (rat \<times> rat) result" where
  "token_zero_usdc_balance payload =
     (case payload of
        JObj m \<Rightarrow>
          (case jget m ''balances'' of
             JArr rows \<Rightarrow>
               (case usdc_rows rows of
                  [row] \<Rightarrow>
                    (case (parse_decimal (py_str (jget row ''total'')), parse_decimal (py_str (jget row ''hold''))) of
                       (Some sum_, Some hold) \<Rightarrow>
                         if is_finite sum_ \<and> is_finite hold \<and> 0 < dec_val sum_ \<and> 0 \<le> dec_val hold \<and> dec_val hold \<le> dec_val sum_
                         then Inr (dec_val sum_, dsub (dec_val sum_) (dec_val hold))
                         else Inl (FollowerTruthError ''follower token-0 Spot USDC balance is inconsistent'')
                     | _ \<Rightarrow> Inl (FollowerTruthError ''follower token-0 Spot USDC balance is malformed''))
                | _ \<Rightarrow> Inl (FollowerTruthError ''follower requires exactly one token-0 Spot USDC balance''))
           | _ \<Rightarrow> Inl (FollowerTruthError ''follower Spot collateral is malformed''))
      | _ \<Rightarrow> Inl (FollowerTruthError ''follower Spot collateral is malformed''))"

definition dex_request :: "string \<Rightarrow> string \<Rightarrow> string \<Rightarrow> (string \<times> json) list" where
  "dex_request kind user dex =
     [(''type'', JStr kind), (''user'', JStr user)] @ (if dex = [] then [] else [(''dex'', JStr dex)])"

text \<open>No resting orders on one DEX.\<close>

definition audit_orders :: "json \<Rightarrow> unit result" where
  "audit_orders orders =
     (case orders of
        JArr rows \<Rightarrow>
          if \<not> list_all (\<lambda>r. case r of JObj _ \<Rightarrow> True | _ \<Rightarrow> False) rows
          then Inl (FollowerTruthError ''open-order truth is malformed'')
          else require (rows = []) (FollowerTruthError ''has resting order(s)'')
      | _ \<Rightarrow> Inl (FollowerTruthError ''open-order truth is malformed''))"

text \<open>The positions on one DEX, after the audit of its orders if there is one.\<close>

definition dex_positions ::
  "(json \<Rightarrow> PostResult result) \<Rightarrow> string \<Rightarrow> bool \<Rightarrow> int \<Rightarrow> string \<Rightarrow> (string \<times> rat position) list result" where
  "dex_positions net user audit now dex =
     rbind (info_data net (dex_request ''clearinghouseState'' user dex)) (\<lambda>state. case state of
       JObj m \<Rightarrow>
         rbind (parse_clearinghouse_positions m now dex) (\<lambda>parsed.
         rbind (if audit then rbind (info_data net (dex_request ''openOrders'' user dex)) audit_orders else Inr ()) (\<lambda>_.
         Inr parsed))
     | _ \<Rightarrow> Inl (FollowerTruthError ''clearinghouse state is malformed''))"

definition add_follower_position ::
  "CatalogRevision \<Rightarrow> string \<times> rat position \<Rightarrow> (string \<times> rat position) list \<Rightarrow> (string \<times> rat position) list result" where
  "add_follower_position catalog mp acc =
     (case mp of (market, p) \<Rightarrow>
        rbind (require (market \<notin> fst ` set acc) (FollowerTruthError ''duplicate follower position identity'')) (\<lambda>_.
        rbind (revision_market catalog market) (\<lambda>spec. case spec of
          None \<Rightarrow> Inl (FollowerTruthError ''follower position is absent from the pinned catalog'')
        | Some c \<Rightarrow>
            if cm_readiness c = UNTRUSTED then Inl (FollowerTruthError ''follower position has an untrusted identity'')
            else Inr (acc @ [(market, p)]))))"

text \<open>A parsed position as part of the truth.\<close>

definition as_read :: "rat position \<Rightarrow> dec position" where
  "as_read p = \<lparr>pos_coin = pos_coin p, pos_size = Fin (pos_size p), pos_entry_px = pos_entry_px p,
     pos_leverage = pos_leverage p, pos_updated_ms = pos_updated_ms p\<rparr>"

text \<open>\<open>__call__\<close>.\<close>

definition read_follower ::
  "(json \<Rightarrow> PostResult result) \<Rightarrow> WsFollowerInfo \<Rightarrow> BoundContinuousSlot \<Rightarrow> int \<Rightarrow> dec FollowerTruth result" where
  "read_follower net fi slot now =
     (let user = follower_account_address (b_config slot) in
      rbind (info_data net [(''type'', JStr ''spotClearinghouseState''), (''user'', JStr user)]) (\<lambda>spot.
      rbind (token_zero_usdc_balance spot) (\<lambda>(equity, spendable).
      rbind (dexes_for fi slot) (\<lambda>dexes.
      rbind (rfold (\<lambda>dex acc.
               rbind (dex_positions net user (b_external_writers_allowed slot) now dex) (\<lambda>parsed.
               rfold (add_follower_position (fi_catalog fi)) parsed acc)) dexes []) (\<lambda>positions.
      Inr \<lparr>ft_positions = map (\<lambda>(m, p). (m, as_read p)) (sort_key fst positions),
           ft_equity = Fin equity, ft_observed_ms = now, ft_dex_observed_ms = map (\<lambda>d. (d, now)) dexes,
           ft_available = Some (Fin spendable)\<rparr>)))))"

definition refresh_dex ::
  "(json \<Rightarrow> PostResult result) \<Rightarrow> WsFollowerInfo \<Rightarrow> BoundContinuousSlot \<Rightarrow> string \<Rightarrow> int \<Rightarrow> bool \<Rightarrow> (string \<times> rat position) list result" where
  "refresh_dex net fi slot dex now audit =
     (if dex \<notin> set (fi_catalog_dexes fi) then Inl (FollowerTruthError ''follower DEX is unavailable'')
      else rbind (dex_positions net (follower_account_address (b_config slot)) (audit \<or> b_external_writers_allowed slot) now dex) (\<lambda>parsed.
           rbind (rmap (\<lambda>(m, _). rbind (revision_market (fi_catalog fi) m) (\<lambda>spec.
                    require (case spec of None \<Rightarrow> False | Some c \<Rightarrow> cm_readiness c \<noteq> UNTRUSTED)
                      (FollowerTruthError ''follower position has no trusted identity''))) parsed) (\<lambda>_.
           Inr parsed)))"


section \<open>What a refresh guarantees\<close>

definition trusted :: "CatalogRevision \<Rightarrow> string \<Rightarrow> bool" where
  "trusted catalog m = (case revision_market catalog m of Inr (Some c) \<Rightarrow> cm_readiness c \<noteq> UNTRUSTED | _ \<Rightarrow> False)"

definition held_ok :: "CatalogRevision \<Rightarrow> (string \<times> rat position) list \<Rightarrow> bool" where
  "held_ok catalog ps \<longleftrightarrow> distinct (map fst ps) \<and>
     (\<forall>(m, p) \<in> set ps. pos_coin p = m \<and> pos_size p \<noteq> 0 \<and> canonical_market_symbol m = Inr m \<and> trusted catalog m)"

lemma qualified_canonical: "qualify_market_symbol dex raw = Inr m \<Longrightarrow> canonical_market_symbol m = Inr m"
  using qualify_market_symbol_dex [of dex raw m] by (auto simp: is_canonical_market_def canonical_market_symbol_def split: sum.splits)

lemma audit_orders_Inr: "audit_orders orders = Inr u \<Longrightarrow> orders = JArr []"
  by (cases orders) (auto simp: audit_orders_def split: if_splits)

lemma dex_positions_Inr:
  assumes "dex_positions net user audit now dex = Inr ps"
  shows "positions_ok dex ps" and "audit \<Longrightarrow> info_data net (dex_request ''openOrders'' user dex) = Inr (JArr [])"
proof -
  obtain state where "info_data net (dex_request ''clearinghouseState'' user dex) = Inr state"
    using assms by (auto simp: dex_positions_def)
  with assms obtain m where "parse_clearinghouse_positions m now dex = Inr ps"
    and "audit \<Longrightarrow> \<exists>w. info_data net (dex_request ''openOrders'' user dex) = Inr w \<and> audit_orders w = Inr ()"
    by (cases state) (auto simp: dex_positions_def split: if_splits)
  then show "positions_ok dex ps" and "audit \<Longrightarrow> info_data net (dex_request ''openOrders'' user dex) = Inr (JArr [])"
    by (auto intro: parse_clearinghouse_positions_ok dest: audit_orders_Inr)
qed

lemma add_follower_position_ok:
  assumes "add_follower_position catalog (m, p) acc = Inr acc'" and "held_ok catalog acc"
    and "pos_coin p = m" and "pos_size p \<noteq> 0" and "canonical_market_symbol m = Inr m"
  shows "held_ok catalog acc'"
proof -
  have "m \<notin> fst ` set acc" "trusted catalog m" "acc' = acc @ [(m, p)]"
    using assms(1) by (auto simp: add_follower_position_def trusted_def split: option.splits if_splits)
  with assms(2-5) show ?thesis by (auto simp: held_ok_def)
qed

lemma add_dex_ok:
  assumes "dex_positions net user audit now dex = Inr parsed" and "rfold (add_follower_position catalog) parsed acc = Inr acc'"
    and "held_ok catalog acc"
  shows "held_ok catalog acc'"
proof (rule rfold_invariant [where P = "held_ok catalog", OF assms(2,3)])
  show "held_ok catalog t" if x: "x \<in> set parsed" "held_ok catalog s" "add_follower_position catalog x s = Inr t" for x s t
  proof -
    obtain m p where mp: "x = (m, p)" by (cases x)
    have "pos_coin p = m \<and> pos_size p \<noteq> 0 \<and> (\<exists>raw. qualify_market_symbol dex raw = Inr m)"
      using dex_positions_Inr(1) [OF assms(1)] x(1) unfolding positions_ok_def mp by fast
    then show ?thesis
      using add_follower_position_ok [OF x(3) [unfolded mp] x(2)] qualified_canonical by blast
  qed
qed

text \<open>The loop over the DEXes: what holds of the positions, and of every DEX that was read.\<close>

lemma read_dexes_ok:
  assumes "rfold (\<lambda>dex acc. rbind (dex_positions net user audit now dex) (\<lambda>parsed.
      rfold (add_follower_position catalog) parsed acc)) dexes acc = Inr ps" and "held_ok catalog acc"
  shows "held_ok catalog ps \<and> (audit \<longrightarrow> (\<forall>d \<in> set dexes. info_data net (dex_request ''openOrders'' user d) = Inr (JArr [])))"
  using assms
proof (induction dexes arbitrary: acc)
  case (Cons d ds)
  then obtain parsed acc' where d: "dex_positions net user audit now d = Inr parsed"
    "rfold (add_follower_position catalog) parsed acc = Inr acc'"
    "rfold (\<lambda>dex acc. rbind (dex_positions net user audit now dex) (\<lambda>parsed. rfold (add_follower_position catalog) parsed acc)) ds acc' = Inr ps"
    by auto
  with Cons.IH [OF d(3) add_dex_ok [OF d(1,2) Cons.prems(2)]] dex_positions_Inr(2) [OF d(1)] show ?case by auto
qed simp

lemma token_zero_positive: "token_zero_usdc_balance j = Inr (x, y) \<Longrightarrow> 0 < x"
  by (auto simp: token_zero_usdc_balance_def split: json.splits list.splits option.splits if_splits)

lemma read_follower_Inr:
  assumes "read_follower net fi slot now = Inr t"
  obtains ps equity dexes where "held_ok (fi_catalog fi) ps" "sorted (map fst ps)" "ft_positions t = map (\<lambda>(m, p). (m, as_read p)) ps"
    "ft_equity t = Fin equity" "0 < equity" "ft_observed_ms t = now" "dexes_for fi slot = Inr dexes" "ft_dex_observed_ms t = map (\<lambda>d. (d, now)) dexes"
    "b_external_writers_allowed slot \<longrightarrow>
       (\<forall>d \<in> set dexes. info_data net (dex_request ''openOrders'' (follower_account_address (b_config slot)) d) = Inr (JArr []))"
proof -
  let ?user = "follower_account_address (b_config slot)"
  obtain x equity spendable dexes positions where
    e: "token_zero_usdc_balance x = Inr (equity, spendable)" and d: "dexes_for fi slot = Inr dexes" and
    p: "rfold (\<lambda>dex acc. rbind (dex_positions net ?user (b_external_writers_allowed slot) now dex) (\<lambda>parsed.
      rfold (add_follower_position (fi_catalog fi)) parsed acc)) dexes [] = Inr positions" and
    t: "t = \<lparr>ft_positions = map (\<lambda>(m, p). (m, as_read p)) (sort_key fst positions), ft_equity = Fin equity, ft_observed_ms = now,
      ft_dex_observed_ms = map (\<lambda>d. (d, now)) dexes, ft_available = Some (Fin spendable)\<rparr>"
    using assms unfolding read_follower_def Let_def by auto
  have "held_ok (fi_catalog fi) []" by (simp add: held_ok_def)
  note ok = read_dexes_ok [OF p this]
  then have "held_ok (fi_catalog fi) (sort_key fst positions)" by (simp add: held_ok_def distinct_keys_sort)
  then show ?thesis using that [of "sort_key fst positions" equity dexes] token_zero_positive [OF e] d ok by (simp add: t)
qed

text \<open>The runtime takes such a truth as it is.\<close>

lemma truth_of_held:
  assumes "held_ok catalog ps" and "\<forall>(m, p) \<in> set ps. m \<in> set (allowed_of rt s)" and "b_dynamic_market_eligibility (rs_bound s) \<longrightarrow> rt_catalog rt = catalog"
    and "ft_positions t = map (\<lambda>(m, p). (m, as_read p)) ps" and "ft_equity t = Fin equity" and "0 < equity"
    and "ft_observed_ms t = now" and "0 < now"
  shows "truth_of rt s t now = Inr \<lparr>ft_positions = ps, ft_equity = equity, ft_observed_ms = now,
    ft_dex_observed_ms = ft_dex_observed_ms t, ft_available = ft_available t\<rparr>"
proof -
  let ?f = "\<lambda>(market, p) acc. rbind (canonical_market_symbol market) (\<lambda>name.
               rbind (require (is_finite (pos_size p)) (ValueError ''follower position is non-finite'')) (\<lambda>_.
               rbind (if b_dynamic_market_eligibility (rs_bound s)
                      then rbind (revision_market (rt_catalog rt) name) (\<lambda>spec.
                           Inr (case spec of None \<Rightarrow> False | Some c \<Rightarrow> cm_is_delisted c \<or> cm_removal_tombstone c))
                      else Inr False) (\<lambda>managed_tombstone.
               let v = dec_val (pos_size p) in
               rbind (require (\<not> (v \<noteq> 0 \<and> allowed_of rt s \<noteq> [] \<and> name \<notin> set (allowed_of rt s) \<and> \<not> managed_tombstone))
                        (ValueError ''follower has unmanaged exposure'')) (\<lambda>_.
               Inr (if v = 0 then acc
                    else AList.update name \<lparr>pos_coin = name, pos_size = v, pos_entry_px = pos_entry_px p,
                           pos_leverage = pos_leverage p, pos_updated_ms = pos_updated_ms p\<rparr> acc)))))"
  have step: "?f (m, as_read p) acc = Inr (acc @ [(m, p)])" if "(m, p) \<in> set ps" "m \<notin> fst ` set acc" for m p acc
  proof -
    have mp: "pos_coin p = m" "pos_size p \<noteq> 0" "canonical_market_symbol m = Inr m" "trusted catalog m" "m \<in> set (allowed_of rt s)"
      using assms(1,2) that(1) unfolding held_ok_def by fast+
    have "\<exists>spec. b_dynamic_market_eligibility (rs_bound s) \<longrightarrow> revision_market (rt_catalog rt) m = Inr spec"
      using mp(4) assms(3) by (auto simp: trusted_def split: sum.splits)
    then show ?thesis using mp that(2) by (cases p) (auto simp: as_read_def Let_def update_new)
  qed
  have "rfold ?f (map (\<lambda>(m, p). (m, as_read p)) qs) acc = Inr (acc @ qs)" if "set qs \<subseteq> set ps" "distinct (map fst (acc @ qs))" for qs acc
    using that
  proof (induction qs arbitrary: acc)
    case (Cons q qs)
    obtain m p where q: "q = (m, p)" by (cases q)
    have "?f (m, as_read p) acc = Inr (acc @ [(m, p)])" by (rule step) (use Cons.prems q in auto)
    moreover have "rfold ?f (map (\<lambda>(m, p). (m, as_read p)) qs) (acc @ [(m, p)]) = Inr ((acc @ [(m, p)]) @ qs)"
      by (rule Cons.IH) (use Cons.prems q in auto)
    ultimately show ?case by (simp only: q list.map prod.case rfold.simps rbind.simps append_assoc append.simps)
  qed simp
  from this [of ps "[]"] assms(1)
  have "rfold ?f (map (\<lambda>(m, p). (m, as_read p)) ps) [] = Inr ps" by (simp only: held_ok_def append_Nil)
  then show ?thesis using assms(4-8) unfolding truth_of_def Let_def by simp
qed


section \<open>Properties\<close>

text \<open>
  C26: a truth that was read over the socket holds each market once, with a position of nonzero size that the
  pinned catalog trusts, and a positive equity; where other programs may write to the account, every
  DEX that was read has no resting orders. A slot that allows these markets takes it over unchanged
  when the connection and the slot did not move on, and is fresh then.
\<close>

theorem follower_truth_adopted:
  assumes "read_follower net fi slot now = Inr t" and "0 < now" and "rt_catalog rt = fi_catalog fi" and "0 \<le> rt_follower_age_ms rt"
    and "fst ` set (ft_positions t) \<subseteq> set (allowed_of rt s)"
    and "capture_epoch (rt_mux rt) = Inr epoch" and "rs_truth_revision s = revision"
  shows "\<exists>ps equity. held_ok (rt_catalog rt) ps \<and> ft_positions t = map (\<lambda>(m, p). (m, as_read p)) ps \<and> 0 < equity \<and>
    (b_external_writers_allowed slot \<longrightarrow> (\<forall>(d, _) \<in> set (ft_dex_observed_ms t).
       info_data net (dex_request ''openOrders'' (follower_account_address (b_config slot)) d) = Inr (JArr []))) \<and>
    rs_follower (adopt_truth rt epoch revision t now s) = Some \<lparr>ft_positions = ps, ft_equity = equity, ft_observed_ms = now,
      ft_dex_observed_ms = ft_dex_observed_ms t, ft_available = ft_available t\<rparr> \<and>
    follower_fresh rt (adopt_truth rt epoch revision t now s) now"
proof -
  obtain ps equity dexes where r: "held_ok (fi_catalog fi) ps" "ft_positions t = map (\<lambda>(m, p). (m, as_read p)) ps"
    "ft_equity t = Fin equity" "0 < equity" "ft_observed_ms t = now" "ft_dex_observed_ms t = map (\<lambda>d. (d, now)) dexes"
    "b_external_writers_allowed slot \<longrightarrow>
       (\<forall>d \<in> set dexes. info_data net (dex_request ''openOrders'' (follower_account_address (b_config slot)) d) = Inr (JArr []))"
    using read_follower_Inr [OF assms(1)] by metis
  have allowed: "\<forall>(m, p) \<in> set ps. m \<in> set (allowed_of rt s)" using assms(5) by (force simp: r(2))
  have tr: "truth_of rt s t now = Inr \<lparr>ft_positions = ps, ft_equity = equity, ft_observed_ms = now,
      ft_dex_observed_ms = ft_dex_observed_ms t, ft_available = ft_available t\<rparr>"
    by (rule truth_of_held [OF r(1) allowed]) (use assms r in auto)
  have "rs_follower (adopt_truth rt epoch revision t now s) = Some \<lparr>ft_positions = ps, ft_equity = equity, ft_observed_ms = now,
      ft_dex_observed_ms = ft_dex_observed_ms t, ft_available = ft_available t\<rparr>"
    using assms(6,7) by (auto simp: adopt_truth_def tr Let_def split: sum.splits)
  then show ?thesis using r assms(3,4) by (intro exI [of _ ps] exI [of _ equity]) (auto simp: follower_fresh_def)
qed

text \<open>A follower with 1000 USDC that holds 2 BTC.\<close>

definition ex_info :: "string \<Rightarrow> json \<Rightarrow> PostResult" where
  "ex_info kind d = post_result 1 PO_INFO
     (JObj [(''type'', JStr ''info''), (''payload'', JObj [(''type'', JStr kind), (''data'', d)])]) ''info_response''"

definition ex_net :: "json \<Rightarrow> PostResult result" where
  "ex_net request =
     (case request of
        JObj m \<Rightarrow>
          if jget m ''type'' = JStr ''spotClearinghouseState''
          then Inr (ex_info ''spotClearinghouseState'' (JObj [(''balances'', JArr [JObj [(''coin'', JStr ''USDC''), (''token'', JInt 0),
                      (''total'', JStr ''1000''), (''hold'', JStr ''0'')]])]))
          else Inr (ex_info ''clearinghouseState'' (JObj [(''assetPositions'', JArr [JObj [(''position'', JObj [(''coin'', JStr ''BTC''),
                      (''szi'', JStr ''2'')])]])]))
      | _ \<Rightarrow> Inl (ValueError ''info payload requires a request type''))"

definition ex_wire_revision :: CatalogRevision where
  "ex_wire_revision = ex_revision\<lparr>cr_wire_dexes := [[]]\<rparr>"

definition ex_wire_runtime :: ContinuousRuntime where
  "ex_wire_runtime = (ex_runtime 100 True)\<lparr>rt_catalog := ex_wire_revision\<rparr>"

definition ex_follower_info :: WsFollowerInfo where
  "ex_follower_info = \<lparr>fi_catalog = ex_wire_revision, fi_catalog_dexes = catalog_position_dexes ex_wire_revision, fi_maximum_inflight = 12,
     fi_per_slot_workers = 2\<rparr>"

definition ex_read :: "dec FollowerTruth" where
  "ex_read = (case read_follower ex_net ex_follower_info ex_bound 200 of Inr t \<Rightarrow> t | Inl _ \<Rightarrow> ex_truth)"

lemma ex_reads: "read_follower ex_net ex_follower_info ex_bound 200 = Inr ex_read" "map fst (ft_positions ex_read) = [''BTC'']"
  "allowed_of ex_wire_runtime (ex_runtime_slot 100) = [''BTC'']" "capture_epoch (rt_mux ex_wire_runtime) = Inr 1"
  by code_simp+

theorem follower_truth_adopted_witness:
  "follower_fresh ex_wire_runtime (adopt_truth ex_wire_runtime 1 0 ex_read 200 (ex_runtime_slot 100)) 200 \<and>
   map fst (follower_positions_of (adopt_truth ex_wire_runtime 1 0 ex_read 200 (ex_runtime_slot 100))) = [''BTC'']"
proof -
  have s: "fst ` set (ft_positions ex_read) \<subseteq> set (allowed_of ex_wire_runtime (ex_runtime_slot 100))"
    using ex_reads(2,3) by (metis list.set_map subset_refl)
  have c: "rt_catalog ex_wire_runtime = fi_catalog ex_follower_info" "0 \<le> rt_follower_age_ms ex_wire_runtime"
    "rs_truth_revision (ex_runtime_slot 100) = 0"
    by (simp_all add: ex_wire_runtime_def ex_runtime_def ex_follower_info_def ex_runtime_slot_def)
  obtain ps where ps: "ft_positions ex_read = map (\<lambda>(m, p). (m, as_read p)) ps"
    "follower_positions_of (adopt_truth ex_wire_runtime 1 0 ex_read 200 (ex_runtime_slot 100)) = ps"
    and fresh: "follower_fresh ex_wire_runtime (adopt_truth ex_wire_runtime 1 0 ex_read 200 (ex_runtime_slot 100)) 200"
    using follower_truth_adopted [OF ex_reads(1) _ c(1,2) s ex_reads(4) c(3)] by (auto simp: follower_positions_of_def)
  have "map fst (ft_positions ex_read) = map fst ps" by (auto simp: ps(1))
  then show ?thesis using fresh ps(2) ex_reads(2) by simp
qed

end
