(* ===== verification/Rest_Throttle.thy ===== *)
theory Rest_Throttle
  imports Ws_Actions Json_Roundtrip
begin

text \<open>
  \<^verbatim>\<open>rest_throttle.py\<close>: the queue in which all processes of a machine reserve their REST requests.

  A reservation reads both clocks, takes the lock, reads the state file, and writes the time at which the
  next request may start. The section under the lock is one step; the clocks are read before it. The
  state file is JSON text, or absent. Environment variables, clocks, sleeps and the file lock are
  outside the model: their readings are arguments, and a lock that is not obtained raises.
\<close>

section \<open>Request weights\<close>

definition DEFAULT_WEIGHT_INTERVAL_MS :: int where "DEFAULT_WEIGHT_INTERVAL_MS = 60"
definition DEFAULT_MAX_WAIT_MS :: int where "DEFAULT_MAX_WAIT_MS = 60000"
definition STATE_VALIDITY_MS :: int where "STATE_VALIDITY_MS = 5 * 60000"

definition weight_two_types :: "string list" where
  "weight_two_types = [''allmids'', ''clearinghousestate'', ''exchangestatus'', ''l2book'', ''orderstatus'',
     ''spotclearinghousestate'', ''userstate'']"

definition weight_sixty_types :: "string list" where
  "weight_sixty_types = [''user_role'', ''userrole'']"

definition response_weighted_types :: "string list" where
  "response_weighted_types = [''fundinghistory'', ''historicalorders'', ''nonuserfundingupdates'', ''recenttrades'', ''twaphistory'',
     ''userfills'', ''userfillsbytime'', ''userfunding'', ''usertwaphistory'', ''usertwapslicefills'', ''usertwapslicefillsbytime'']"

text \<open>\<open>label.rsplit(":", 1)[-1]\<close>, stripped, in lower case, without dashes, blanks and underscores.\<close>

definition normalized_request_type :: "string \<Rightarrow> string" where
  "normalized_request_type label =
     (let value = map (\<lambda>c. if c = CHR ''-'' then CHR ''_'' else c)
                    (py_lower (py_strip (rev (takeWhile (\<lambda>c. c \<noteq> CHR '':'') (rev label)))))
      in filter (\<lambda>c. c \<noteq> CHR '' '' \<and> c \<noteq> CHR ''_'') value)"

definition rest_request_weight :: "string \<Rightarrow> int" where
  "rest_request_weight label =
     (let normalized = normalized_request_type label
      in if prefix ''exchange:'' (py_lower label) then 1
         else if normalized \<in> set weight_two_types then 2
         else if normalized \<in> set weight_sixty_types then 60
         else 20)"

fun first_list :: "(string \<times> json) list \<Rightarrow> string list \<Rightarrow> int" where
  "first_list m [] = 0"
| "first_list m (k # ks) = (case jget m k of JArr xs \<Rightarrow> int (length xs) | _ \<Rightarrow> first_list m ks)"

fun response_item_count :: "json \<Rightarrow> int" where
  "response_item_count (JArr xs) = int (length xs)"
| "response_item_count (JObj m) = first_list m [''fills'', ''orders'', ''rows'', ''data'']"
| "response_item_count _ = 0"


section \<open>The shared state\<close>

text \<open>\<open>_int_value\<close> of an environment variable.\<close>

definition int_value :: "string \<Rightarrow> int \<Rightarrow> int" where
  "int_value raw dflt = (if raw = [] then dflt else case parse_int_text raw of None \<Rightarrow> dflt | Some n \<Rightarrow> n)"

definition weight_interval_ms :: "string \<Rightarrow> string \<Rightarrow> int" where
  "weight_interval_ms explicit legacy =
     (if py_strip explicit \<noteq> [] then int_value (py_strip explicit) DEFAULT_WEIGHT_INTERVAL_MS
      else if py_strip legacy \<noteq> [] then int_value (py_strip legacy) DEFAULT_WEIGHT_INTERVAL_MS
      else DEFAULT_WEIGHT_INTERVAL_MS)"

definition read_state :: "string option \<Rightarrow> (string \<times> json) list" where
  "read_state file =
     (case file of None \<Rightarrow> []
      | Some text \<Rightarrow> (case json_loads text of Some (JObj m) \<Rightarrow> m | _ \<Rightarrow> []))"

text \<open>The text of the file, without the blanks \<open>json.dumps\<close> puts after its separators.\<close>

definition state_text :: "string \<Rightarrow> int \<Rightarrow> int \<Rightarrow> int \<Rightarrow> int \<Rightarrow> string" where
  "state_text label next_ms mono_ms wall weight =
     json_dumps (JObj [(''label'', JStr label), (''next_request_monotonic_ms'', JInt next_ms),
       (''updated_monotonic_ms'', JInt mono_ms), (''updated_wall_ms'', JInt wall), (''weight'', JInt weight)])"

text \<open>\<open>int(state.get(key) or 0)\<close>; \<open>None\<close> when it raises.\<close>

definition state_int :: "(string \<times> json) list \<Rightarrow> string \<Rightarrow> int option" where
  "state_int st key = (let v = jget st key in if py_truthy v then py_int v else Some 0)"

definition valid_next_available_ms :: "(string \<times> json) list \<Rightarrow> int \<Rightarrow> int \<Rightarrow> int \<Rightarrow> int" where
  "valid_next_available_ms st mono_ms wall max_wait =
     (case (state_int st ''next_request_monotonic_ms'', state_int st ''updated_monotonic_ms'', state_int st ''updated_wall_ms'') of
        (Some next_available, Some updated_monotonic, Some updated_wall) \<Rightarrow>
          let wall_age = wall - updated_wall
          in if updated_wall \<le> 0 \<or> wall_age < 0 \<or> wall_age > STATE_VALIDITY_MS then mono_ms
             else if updated_monotonic > mono_ms then mono_ms
             else if next_available < 0 \<or> next_available > mono_ms + max_wait + STATE_VALIDITY_MS then mono_ms
             else next_available
      | _ \<Rightarrow> mono_ms)"

record clocks =
  ck_mono :: int
  ck_wall :: int

text \<open>The section of \<open>_reserve_weight\<close> under the lock: the wait, and the state file it leaves.\<close>

definition reserve_weight ::
  "int \<Rightarrow> int \<Rightarrow> string \<Rightarrow> int \<Rightarrow> bool \<Rightarrow> clocks \<Rightarrow> string option \<Rightarrow> (int \<times> string option) result" where
  "reserve_weight max_wait interval label weight wait ck file =
     (let mono_ms = ck_mono ck;
          scheduled = max mono_ms (valid_next_available_ms (read_state file) mono_ms (ck_wall ck) max_wait);
          wait_ms = scheduled - mono_ms
      in if wait \<and> wait_ms > max_wait then Inl (RuntimeError ''shared REST throttle backlog'')
         else Inr (if wait then wait_ms else 0,
                   Some (state_text label (scheduled + max weight 1 * interval) mono_ms (ck_wall ck) weight)))"

text \<open>\<open>apply_rest_throttle\<close>: how long the caller sleeps before its request.\<close>

definition apply_rest_throttle ::
  "int \<Rightarrow> int \<Rightarrow> string \<Rightarrow> bool \<Rightarrow> int option \<Rightarrow> clocks \<Rightarrow> string option \<Rightarrow> (int \<times> string option) result" where
  "apply_rest_throttle max_wait interval label enabled weight ck file =
     (if \<not> enabled \<or> interval \<le> 0 then Inr (0, file)
      else reserve_weight max_wait interval label
             (max (case weight of None \<Rightarrow> rest_request_weight label | Some w \<Rightarrow> w) 1) True ck file)"

definition record_response_weight ::
  "int \<Rightarrow> int \<Rightarrow> string \<Rightarrow> json \<Rightarrow> bool \<Rightarrow> clocks \<Rightarrow> string option \<Rightarrow> string option result" where
  "record_response_weight max_wait interval label response enabled ck file =
     (let n = response_item_count response
      in if \<not> enabled \<or> normalized_request_type label \<notin> set response_weighted_types \<or> n \<le> 0 then Inr file
         else rbind (reserve_weight max_wait interval (label @ '':response'') ((n + 19) div 20) False ck file) (\<lambda>(_, f). Inr f))"


section \<open>Retries\<close>

text \<open>
  What \<open>call_with_rest_backoff\<close> sees of one attempt: the value, or an exception with whether it is
  retryable and its \<open>Retry-After\<close> in milliseconds.
\<close>

datatype 'a reply = Value 'a | Failed error bool int

text \<open>
  The loop over the attempts: the result, and the sleeps between attempts in milliseconds. \<open>jitter\<close> is
  the random part of the sleep after an attempt. Throttling and response weights are left to the
  functions above.
\<close>

fun backoff_loop :: "(nat \<Rightarrow> 'a reply) \<Rightarrow> (nat \<Rightarrow> rat) \<Rightarrow> int \<Rightarrow> nat \<Rightarrow> nat \<Rightarrow> rat list \<Rightarrow> 'a result \<times> rat list" where
  "backoff_loop call jitter backoff attempt 0 sleeps = (Inl (RuntimeError ''exhausted REST retries''), sleeps)"
| "backoff_loop call jitter backoff attempt (Suc left) sleeps =
     (case call attempt of
        Value x \<Rightarrow> (Inr x, sleeps)
      | Failed e retryable retry_after \<Rightarrow>
          if left = 0 \<or> \<not> retryable then (Inl e, sleeps)
          else backoff_loop call jitter backoff (attempt + 1) left
                 (sleeps @ [max (of_int retry_after)
                    (of_int (backoff * 2 ^ (attempt - 1)) + (if backoff \<noteq> 0 then jitter attempt else 0))]))"

definition call_with_rest_backoff :: "(nat \<Rightarrow> 'a reply) \<Rightarrow> (nat \<Rightarrow> rat) \<Rightarrow> int \<Rightarrow> int \<Rightarrow> 'a result \<times> rat list" where
  "call_with_rest_backoff call jitter attempts backoff = backoff_loop call jitter (max backoff 0) 1 (nat (max attempts 1)) []"


section \<open>Reservations in lock order\<close>

text \<open>
  Reservations that wait, in the order in which they take the lock, with their start and weight. One that
  is refused leaves the file as it is; the run ends with its error.
\<close>

record request =
  rq_label :: string
  rq_weight :: int
  rq_clocks :: clocks

fun reserve_run :: "int \<Rightarrow> int \<Rightarrow> request list \<Rightarrow> string option \<Rightarrow> (int \<times> int) list result" where
  "reserve_run max_wait interval [] file = Inr []"
| "reserve_run max_wait interval (r # rs) file =
     rbind (reserve_weight max_wait interval (rq_label r) (rq_weight r) True (rq_clocks r) file) (\<lambda>(wait_ms, file').
     rbind (reserve_run max_wait interval rs file') (\<lambda>starts.
     Inr ((ck_mono (rq_clocks r) + wait_ms, max (rq_weight r) 1) # starts)))"

text \<open>
  The clock readings are ordered like the lock, the wall clock neither stands still at zero nor jumps, and
  no single request reserves more than the validity of the state.
\<close>

fun orderly :: "int \<Rightarrow> clocks \<Rightarrow> request list \<Rightarrow> bool" where
  "orderly interval ck [] = True"
| "orderly interval ck (r # rs) \<longleftrightarrow>
     ck_mono ck \<le> ck_mono (rq_clocks r) \<and> 0 < ck_wall (rq_clocks r) \<and>
     ck_wall ck \<le> ck_wall (rq_clocks r) \<and> ck_wall (rq_clocks r) \<le> ck_wall ck + STATE_VALIDITY_MS \<and>
     max (rq_weight r) 1 * interval \<le> STATE_VALIDITY_MS \<and> ascii (rq_label r) \<and> 0 \<le> ck_mono (rq_clocks r) \<and>
     orderly interval (rq_clocks r) rs"

lemma read_state_text:
  assumes "ascii label"
  shows "state_int (read_state (Some (state_text label next_ms mono_ms wall weight))) ''next_request_monotonic_ms'' = Some next_ms"
    "state_int (read_state (Some (state_text label next_ms mono_ms wall weight))) ''updated_monotonic_ms'' = Some mono_ms"
    "state_int (read_state (Some (state_text label next_ms mono_ms wall weight))) ''updated_wall_ms'' = Some wall"
proof -
  have "exact_json (JObj [(''label'', JStr label), (''next_request_monotonic_ms'', JInt next_ms),
       (''updated_monotonic_ms'', JInt mono_ms), (''updated_wall_ms'', JInt wall), (''weight'', JInt weight)])"
    using assms by (simp add: ascii_def)
  from loads_dumps [OF this]
  show "state_int (read_state (Some (state_text label next_ms mono_ms wall weight))) ''next_request_monotonic_ms'' = Some next_ms"
    "state_int (read_state (Some (state_text label next_ms mono_ms wall weight))) ''updated_monotonic_ms'' = Some mono_ms"
    "state_int (read_state (Some (state_text label next_ms mono_ms wall weight))) ''updated_wall_ms'' = Some wall"
    by (simp_all add: read_state_def state_text_def state_int_def jget_def dget_def Let_def)
qed

lemma valid_next_text:
  assumes "ascii label" and "0 < wall" and "wall \<le> wall'" and "wall' \<le> wall + STATE_VALIDITY_MS" and "mono_ms \<le> mono_ms'"
    and "0 \<le> next_ms" and "next_ms \<le> mono_ms' + max_wait + STATE_VALIDITY_MS"
  shows "valid_next_available_ms (read_state (Some (state_text label next_ms mono_ms wall weight))) mono_ms' wall' max_wait = next_ms"
  using assms by (simp add: valid_next_available_ms_def read_state_text Let_def)

fun spaced :: "int \<Rightarrow> int \<Rightarrow> (int \<times> int) list \<Rightarrow> bool" where
  "spaced interval from [] = True"
| "spaced interval from ((start, weight) # xs) = (from \<le> start \<and> spaced interval (start + weight * interval) xs)"

lemma reserve_weight_Inr:
  assumes "reserve_weight max_wait interval label weight True ck file = Inr (wait_ms, file')"
  shows "0 \<le> wait_ms" "wait_ms \<le> max_wait"
    "file' = Some (state_text label (ck_mono ck + wait_ms + max weight 1 * interval) (ck_mono ck) (ck_wall ck) weight)"
    "valid_next_available_ms (read_state file) (ck_mono ck) (ck_wall ck) max_wait \<le> ck_mono ck + wait_ms"
  using assms by (auto simp: reserve_weight_def Let_def split: if_splits)

lemma reserve_run_spaced:
  assumes "reserve_run max_wait interval rs (Some (state_text label next_ms (ck_mono ck) (ck_wall ck) weight)) = Inr starts"
    and "orderly interval ck rs" and "ascii label" and "0 < ck_wall ck" and "0 \<le> next_ms"
    and "next_ms \<le> ck_mono ck + max_wait + STATE_VALIDITY_MS" and "0 < interval"
  shows "spaced interval next_ms starts"
  using assms
proof (induction rs arbitrary: label next_ms ck weight starts)
  case (Cons r rs)
  let ?ck = "rq_clocks r"
  obtain wait_ms file' xs where w: "reserve_weight max_wait interval (rq_label r) (rq_weight r) True ?ck
        (Some (state_text label next_ms (ck_mono ck) (ck_wall ck) weight)) = Inr (wait_ms, file')"
    and xs: "reserve_run max_wait interval rs file' = Inr xs" "starts = (ck_mono ?ck + wait_ms, max (rq_weight r) 1) # xs"
    using Cons.prems(1) by auto
  note r = reserve_weight_Inr [OF w]
  have "valid_next_available_ms (read_state (Some (state_text label next_ms (ck_mono ck) (ck_wall ck) weight))) (ck_mono ?ck) (ck_wall ?ck) max_wait = next_ms"
    by (rule valid_next_text) (use Cons.prems in auto)
  with r(4) have "next_ms \<le> ck_mono ?ck + wait_ms" by simp
  moreover have "spaced interval (ck_mono ?ck + wait_ms + max (rq_weight r) 1 * interval) xs"
    using Cons.IH [OF xs(1) [unfolded r(3)]] Cons.prems(2,7) r(1,2) by auto
  ultimately show ?case by (simp add: xs(2))
qed simp

text \<open>Spaced starts bound the weight between the first and the last of them.\<close>

lemma spaced_span:
  "spaced interval from xs \<Longrightarrow> xs \<noteq> [] \<Longrightarrow> interval * sum_list (map snd (butlast xs)) \<le> fst (last xs) - from"
proof (induction xs arbitrary: "from")
  case (Cons x xs)
  obtain s w where x: "x = (s, w)" by (cases x)
  show ?case
  proof (cases "xs = []")
    case False
    with Cons.IH [of "s + w * interval"] Cons.prems x show ?thesis by (simp add: algebra_simps)
  qed (use Cons.prems x in simp)
qed simp

lemma spaced_part: "spaced interval from (as @ xs @ bs) \<Longrightarrow> xs \<noteq> [] \<Longrightarrow> spaced interval (fst (hd xs)) xs"
proof (induction as arbitrary: "from")
  case Nil
  have "spaced interval t (ys @ bs) \<Longrightarrow> spaced interval t ys" for t ys by (induction ys arbitrary: t) auto
  with Nil show ?case by (cases xs) fastforce+
next
  case (Cons a as)
  then show ?case by (cases a) auto
qed


section \<open>Properties\<close>

text \<open>
  C27: as long as the clocks are read in the order in which the lock is taken, the shared queue bounds the
  request rate: of any consecutive granted reservations, all but the last have together at most one
  unit of weight per interval between the first and the last start.
\<close>

theorem throttle_rate_bounded:
  assumes "reserve_run max_wait interval (r # rs) file = Inr starts" and "orderly interval (rq_clocks r) (r # rs)"
    and "0 < interval" and "starts = as @ xs @ bs" and "xs \<noteq> []"
  shows "interval * sum_list (map snd (butlast xs)) \<le> fst (last xs) - fst (hd xs)"
proof -
  obtain wait_ms file' ys where w: "reserve_weight max_wait interval (rq_label r) (rq_weight r) True (rq_clocks r) file = Inr (wait_ms, file')"
    and ys: "reserve_run max_wait interval rs file' = Inr ys" "starts = (ck_mono (rq_clocks r) + wait_ms, max (rq_weight r) 1) # ys"
    using assms(1) by auto
  note r = reserve_weight_Inr [OF w]
  have "spaced interval (ck_mono (rq_clocks r) + wait_ms + max (rq_weight r) 1 * interval) ys"
    by (rule reserve_run_spaced [OF ys(1) [unfolded r(3)]]) (use assms(2,3) r(1,2) in auto)
  then have "spaced interval (ck_mono (rq_clocks r) + wait_ms) starts" by (simp add: ys(2))
  then have "spaced interval (fst (hd xs)) xs" using spaced_part assms(4,5) by blast
  then show ?thesis using spaced_span assms(5) by blast
qed

text \<open>Three requests of weight 20 at the same moment start 1200 milliseconds apart.\<close>

definition ex_request :: "int \<Rightarrow> request" where
  "ex_request t = \<lparr>rq_label = ''info:meta'', rq_weight = 20, rq_clocks = \<lparr>ck_mono = t, ck_wall = 1000 + t\<rparr>\<rparr>"

lemma ex_reserve_run:
  "reserve_run 60000 60 [ex_request 5, ex_request 5, ex_request 6] None = Inr [(5, 20), (1205, 20), (2405, 20)]"
  "orderly 60 (rq_clocks (ex_request 5)) [ex_request 5, ex_request 5, ex_request 6]"
proof -
  have a: "ascii ''info:meta''" by (simp add: ascii_def)
  have none: "valid_next_available_ms (read_state None) m w x = m" for m w x
    by (simp add: valid_next_available_ms_def read_state_def state_int_def jget_def dget_def)
  show "reserve_run 60000 60 [ex_request 5, ex_request 5, ex_request 6] None = Inr [(5, 20), (1205, 20), (2405, 20)]"
    by (simp add: ex_request_def reserve_weight_def none Let_def)
       (simp add: valid_next_available_ms_def read_state_text [OF a] Let_def STATE_VALIDITY_MS_def)
  show "orderly 60 (rq_clocks (ex_request 5)) [ex_request 5, ex_request 5, ex_request 6]"
    by (simp add: ex_request_def STATE_VALIDITY_MS_def ascii_def)
qed

theorem throttle_rate_bounded_witness:
  "reserve_run 60000 60 [ex_request 5, ex_request 5, ex_request 6] None = Inr [(5, 20), (1205, 20), (2405, 20)] \<and>
   60 * sum_list [20, 20 :: int] \<le> 2405 - 5"
  using throttle_rate_bounded [OF ex_reserve_run, of "[]" "[(5, 20), (1205, 20), (2405, 20)]" "[]"] ex_reserve_run(1) by simp

text \<open>
  C31: the clocks are read before the lock is taken, so a caller that read them first may enter second. It
  then takes the newer reservation for one from before a reboot: it starts at once, next to the other
  request, and its own reservation replaces the other's, which later callers no longer wait for.
\<close>

theorem throttle_reservation_lost:
  assumes "reserve_weight max_wait interval lb wb True cb file = Inr (wait_b, file')" and "ck_mono ca < ck_mono cb"
    and "ascii lb" and "0 \<le> max_wait"
  shows "reserve_weight max_wait interval la wa True ca file' =
    Inr (0, Some (state_text la (ck_mono ca + max wa 1 * interval) (ck_mono ca) (ck_wall ca) wa))"
  using assms(2,4) unfolding reserve_weight_Inr(3) [OF assms(1)]
  by (simp add: reserve_weight_def valid_next_available_ms_def read_state_text [OF assms(3)] Let_def)

text \<open>Two requests one millisecond apart, entering in the other order: both start at once.\<close>

theorem throttle_reservation_lost_witness:
  "\<exists>file' file''. reserve_weight 60000 60 ''info:meta'' 20 True \<lparr>ck_mono = 6, ck_wall = 1006\<rparr> None = Inr (0, Some file') \<and>
     reserve_weight 60000 60 ''info:meta'' 20 True \<lparr>ck_mono = 5, ck_wall = 1005\<rparr> (Some file') = Inr (0, Some file'') \<and>
     reserve_weight 60000 60 ''info:meta'' 1 True \<lparr>ck_mono = 1205, ck_wall = 2205\<rparr> (Some file'') \<noteq>
       reserve_weight 60000 60 ''info:meta'' 1 True \<lparr>ck_mono = 1205, ck_wall = 2205\<rparr> (Some file')"
proof -
  let ?f = "state_text ''info:meta'' 1206 6 1006 20" and ?g = "state_text ''info:meta'' 1205 5 1005 20"
  have a: "ascii ''info:meta''" by (simp add: ascii_def)
  have b: "reserve_weight 60000 60 ''info:meta'' 20 True \<lparr>ck_mono = 6, ck_wall = 1006\<rparr> None = Inr (0, Some ?f)" by code_simp
  from throttle_reservation_lost [OF b _ a, of "\<lparr>ck_mono = 5, ck_wall = 1005\<rparr>" "''info:meta''" 20]
  have c: "reserve_weight 60000 60 ''info:meta'' 20 True \<lparr>ck_mono = 5, ck_wall = 1005\<rparr> (Some ?f) = Inr (0, Some ?g)" by simp
  have "reserve_weight 60000 60 ''info:meta'' 1 True \<lparr>ck_mono = 1205, ck_wall = 2205\<rparr> (Some ?g) \<noteq>
      reserve_weight 60000 60 ''info:meta'' 1 True \<lparr>ck_mono = 1205, ck_wall = 2205\<rparr> (Some ?f)"
    by (simp add: reserve_weight_def valid_next_available_ms_def read_state_text [OF a] Let_def STATE_VALIDITY_MS_def)
  with b c show ?thesis by blast
qed

end
