(* ===== verification/Rest_Ledger.thy ===== *)
theory Rest_Ledger
  imports Rest_Budget
begin

text \<open>
  What the coordinator of \<^verbatim>\<open>rest_budget.py\<close> promises over any interleaving of the transactions of several
  processes: the rolling budget of each pool, one charge and one answer per message, and what happens
  when the clock of a request is behind the ledger's.
\<close>

section \<open>Reasoning about transactions\<close>

text \<open>\<open>tx_wp m Q c l\<close>: if the transaction commits, \<open>Q\<close> holds of its value and the states it leaves.\<close>

definition tx_wp :: "'a tx \<Rightarrow> ('a \<Rightarrow> coordinator \<Rightarrow> ledger \<Rightarrow> bool) \<Rightarrow> coordinator \<Rightarrow> ledger \<Rightarrow> bool" where
  "tx_wp m Q c l = (case m c l of (c', Inl e) \<Rightarrow> True | (c', Inr (l', x)) \<Rightarrow> Q x c' l')"

named_theorems tx_simps \<open>weakest preconditions of the primitives\<close>

lemma tx_wp_primitives [tx_simps]:
  "tx_wp (tx_return x) Q c l = Q x c l"
  "tx_wp (tx_raise e) Q c l = True"
  "tx_wp tx_self Qc c l = Qc c c l"
  "tx_wp tx_ledger Ql c l = Ql l c l"
  "tx_wp (tx_update f) Qu c l = Qu () c (f l)"
  "tx_wp (tx_set_clock_epoch n) Qu c l = Qu () (c\<lparr>c_clock_epoch := n\<rparr>) l"
  "tx_wp (tx_require b e) Qu c l = (b \<longrightarrow> Qu () c l)"
  by (simp_all add: tx_wp_def tx_return_def tx_raise_def tx_self_def tx_ledger_def tx_update_def tx_set_clock_epoch_def tx_require_def)

lemma tx_wp_bind [tx_simps]: "tx_wp (tx_bind m f) Q c l = tx_wp m (\<lambda>x. tx_wp (f x) Q) c l"
  by (auto simp: tx_wp_def tx_bind_def split: prod.splits sum.splits)

lemma tx_wp_result [tx_simps]: "tx_wp (tx_result r) Q c l = (\<forall>x. r = Inr x \<longrightarrow> Q x c l)"
  by (cases r) (simp_all add: tx_result_def tx_simps)

lemma tx_wp_if [tx_simps]: "tx_wp (if b then m else n) Q c l = ((b \<longrightarrow> tx_wp m Q c l) \<and> (\<not> b \<longrightarrow> tx_wp n Q c l))"
  by simp

lemma tx_wp_option [tx_simps]:
  "tx_wp (case v of None \<Rightarrow> m | Some x \<Rightarrow> f x) Q c l = ((v = None \<longrightarrow> tx_wp m Q c l) \<and> (\<forall>x. v = Some x \<longrightarrow> tx_wp (f x) Q c l))"
  by (cases v) simp_all

lemma tx_wp_mono: "tx_wp m Q c l \<Longrightarrow> (\<And>x c' l'. Q x c' l' \<Longrightarrow> Q' x c' l') \<Longrightarrow> tx_wp m Q' c l"
  by (auto simp: tx_wp_def split: prod.splits sum.splits)

lemma tx_wp_iter:
  assumes "I c l" and "\<And>x c l. x \<in> set xs \<Longrightarrow> I c l \<Longrightarrow> tx_wp (f x) (\<lambda>_. I) c l"
  shows "tx_wp (tx_iter f xs) (\<lambda>_. I) c l"
  using assms
proof (induction xs arbitrary: c l)
  case Nil
  then show ?case by (simp add: tx_simps)
next
  case (Cons x xs)
  have "tx_wp (f x) (\<lambda>_. tx_wp (tx_iter f xs) (\<lambda>_. I)) c l"
    using Cons.prems by (intro tx_wp_mono [OF Cons.prems(2) [OF _ Cons.prems(1)]] Cons.IH) simp_all
  then show ?case by (simp add: tx_simps)
qed

lemma atomically_cases:
  assumes "atomically m c l = (c', l', r)"
  obtains (commit) x where "m c l = (c', Inr (l', x))" "r = Inr x" | (rollback) e where "l' = l" "r = Inl e"
  using assms by (auto simp: atomically_def split: prod.splits sum.splits)

lemma atomically_wp:
  assumes "atomically m c l = (c', l', r)" and "tx_wp m (\<lambda>x c l. P l) c l" and "P l"
  shows "P l'"
  using assms by (cases rule: atomically_cases [OF assms(1)]) (auto simp: tx_wp_def)

lemmas insert_defs = insert_grant_def insert_request_def insert_ack_def insert_clock_epoch_def

text \<open>Reading transactions.\<close>

lemma wp_clock_quarantine_wait [tx_simps]:
  "tx_wp (clock_quarantine_wait m) Q c l = (\<forall>e. find_epoch c l = Some e \<longrightarrow> Q (max 0 (e_quarantine_until e - m)) c l)"
  by (simp add: clock_quarantine_wait_def clock_epoch_row_def tx_simps)

lemma wp_require_owner [tx_simps]:
  "tx_wp require_owner Q c l = (\<forall>ow. l_owner l = Some ow \<longrightarrow> owner_matches c ow \<longrightarrow> o_clock_epoch ow = c_clock_epoch c \<longrightarrow> Q ow c l)"
  by (auto simp: require_owner_def tx_simps)

lemma wp_denial:
  assumes "\<And>g. \<not> g_granted g \<Longrightarrow> g_reason g = why \<Longrightarrow> g_request g = r \<Longrightarrow> Q g c l"
  shows "tx_wp (denial dg r wall m why) Q c l"
  using assms by (simp add: denial_def tx_simps Let_def)


section \<open>Tables only grow\<close>

text \<open>
  A relation between ledgers that every single write of the program respects is respected by whole
  transactions, and so by every sequence of them.
\<close>

definition tx_grows :: "(ledger \<Rightarrow> ledger \<Rightarrow> bool) \<Rightarrow> 'a tx \<Rightarrow> bool" where
  "tx_grows R m \<longleftrightarrow> (\<forall>c l. tx_wp m (\<lambda>_ _ l'. R l l') c l)"

named_theorems grows \<open>transactions that respect a relation between ledgers\<close>

locale ledger_order =
  fixes R :: "ledger \<Rightarrow> ledger \<Rightarrow> bool"
  assumes refl: "R l l"
    and trans: "R l l' \<Longrightarrow> R l' l'' \<Longrightarrow> R l l''"
    and grants: "R l (l\<lparr>l_grants := l_grants l @ [t]\<rparr>)"
    and acks: "R l (l\<lparr>l_acks := l_acks l @ [k]\<rparr>)"
    and requests: "R l (l\<lparr>l_requests := qs\<rparr>)"
    and owner: "R l (l\<lparr>l_owner := ow\<rparr>)"
    and epochs: "R l (l\<lparr>l_epochs := es\<rparr>)"
    and takeovers: "R l (l\<lparr>l_takeovers := tks\<rparr>)"
    and fence: "R l (l\<lparr>l_fence := fn\<rparr>)"
begin

lemma grows_bind [grows]: "tx_grows R m \<Longrightarrow> (\<And>x. tx_grows R (f x)) \<Longrightarrow> tx_grows R (tx_bind m f)"
  unfolding tx_grows_def tx_simps by (blast intro: tx_wp_mono trans)

lemma grows_read [grows]:
  "tx_grows R (tx_return x)" "tx_grows R (tx_raise e)" "tx_grows R tx_self" "tx_grows R tx_ledger"
  "tx_grows R (tx_set_clock_epoch n)" "tx_grows R (tx_require b e)" "tx_grows R (tx_result r)"
  by (simp_all add: tx_grows_def tx_simps refl)

lemma grows_update: "(\<And>l. R l (f l)) \<Longrightarrow> tx_grows R (tx_update f)"
  by (simp add: tx_grows_def tx_simps)

lemma grows_if [grows]: "(b \<Longrightarrow> tx_grows R m) \<Longrightarrow> (\<not> b \<Longrightarrow> tx_grows R n) \<Longrightarrow> tx_grows R (if b then m else n)"
  by simp

lemma grows_option [grows]: "tx_grows R m \<Longrightarrow> (\<And>x. tx_grows R (f x)) \<Longrightarrow> tx_grows R (case v of None \<Rightarrow> m | Some x \<Rightarrow> f x)"
  by (cases v) simp_all

lemma grows_list [grows]: "tx_grows R m \<Longrightarrow> (\<And>x xs. tx_grows R (f x xs)) \<Longrightarrow> tx_grows R (case v of [] \<Rightarrow> m | x # xs \<Rightarrow> f x xs)"
  by (cases v) simp_all

lemma grows_iter [grows]: "(\<And>x. tx_grows R (f x)) \<Longrightarrow> tx_grows R (tx_iter f xs)"
  by (induction xs) (simp_all add: grows)

lemma grows_inserts [grows]:
  "tx_grows R (insert_grant t)" "tx_grows R (insert_request gen r sha w m g d)" "tx_grows R (insert_ack k sha a w)"
  "tx_grows R (insert_clock_epoch e w m q p pw pm why)"
  unfolding insert_defs by (intro grows grows_update grants requests acks epochs)+

lemma grows_owner_clock [grows]: "tx_grows R (tx_update (set_owner_clock w m))"
  unfolding set_owner_clock_def by (intro grows_update owner)

lemma grows_begin_epoch [grows]: "tx_grows R (begin_new_clock_epoch ow w m why)"
  unfolding begin_new_clock_epoch_def by (intro grows grows_update owner)

lemma grows_denial [grows]: "tx_grows R (denial dg r w m why)"
  by (simp add: tx_grows_def wp_denial refl)

lemma grows_owner [grows]: "tx_grows R require_owner" "tx_grows R (clock_quarantine_wait m)" "tx_grows R (adopt_clock_epoch ow why)"
  unfolding require_owner_def clock_quarantine_wait_def clock_epoch_row_def adopt_clock_epoch_def by (intro grows)+

lemma grows_answer [grows]: "tx_grows R (store_answer q g w)" "tx_grows R (allocate dg r w m)"
  unfolding store_answer_def allocate_def Let_def by (intro grows grows_update requests)+

lemma grows_decide [grows]: "tx_grows R (decide_row dg b w m q)" "tx_grows R (deny_pending dg w m why)"
  unfolding decide_row_def deny_pending_def by (intro grows)+

lemma grows_batch [grows]: "tx_grows R (decide_batch dg ow pend w m)"
  unfolding decide_batch_def Let_def by (intro grows)

lemma grows_operations [grows]:
  "tx_grows R (enqueue_request dg r w m)"
  "tx_grows R (drain_pending dg)"
  "tx_grows R (claim_initial_epoch dg w m)"
  "tx_grows R (freeze_egress dg pv sn w m)"
  "tx_grows R (release_egress_fence pv)"
  unfolding enqueue_request_def drain_pending_def claim_initial_epoch_def freeze_egress_def release_egress_fence_def Let_def
  by (intro grows grows_update owner fence)+

lemma grows_takeover [grows]: "tx_grows R (takeover_tx dg a b p n prf w m)"
proof -
  have "R l ((set_owner_clock w m l)\<lparr>l_owner := ow\<rparr>)" for l ow
    unfolding set_owner_clock_def by (rule trans [OF owner owner])
  then show ?thesis unfolding takeover_tx_def Let_def by (intro grows grows_update takeovers) auto
qed

lemma grows_atomically: "tx_grows R m \<Longrightarrow> atomically m c l = (c', l', r) \<Longrightarrow> R l l'"
  by (rule atomically_wp [where P = "R l"]) (auto simp: tx_grows_def refl)

end


interpretation gg: ledger_order "\<lambda>l l'. prefix (l_grants l) (l_grants l')"
  by unfold_locales (auto intro: prefix_order.trans)


section \<open>The steps of all processes\<close>

text \<open>
  A process may hold any coordinator whose budgets the constructor accepts. Requests carry a monotonic
  clock, which is not negative.
\<close>

definition coordinator_ok :: "coordinator \<Rightarrow> bool" where
  "coordinator_ok c \<longleftrightarrow> 0 < c_ordinary c \<and> 0 < c_reserve c \<and> c_ordinary c + c_reserve c \<le> 1200"

inductive rest_step :: "rest_digests \<Rightarrow> ledger \<Rightarrow> ledger \<Rightarrow> bool" for dg where
  claim: "coordinator_ok c \<Longrightarrow> atomically (claim_initial_epoch dg w m) c l = (c', l', r) \<Longrightarrow> rest_step dg l l'"
| enqueue: "request_ok q = Inr () \<Longrightarrow> 0 \<le> m \<Longrightarrow> atomically (enqueue_request dg q w m) c l = (c', l', r') \<Longrightarrow> rest_step dg l l'"
| drain: "atomically (drain_pending dg) c l = (c', l', r) \<Longrightarrow> rest_step dg l l'"
| takeover: "takeover dg a b p n prf w m c l = (c', l', r) \<Longrightarrow> rest_step dg l l'"
| freeze: "atomically (freeze_egress dg pv sn w m) c l = (c', l', r'') \<Longrightarrow> rest_step dg l l'"
| release: "atomically (release_egress_fence pv) c l = (c', l', r''') \<Longrightarrow> rest_step dg l l'"

lemma takeover_cases:
  assumes "takeover dg a b p n prf w m c l = (c', l', r)"
  obtains "l' = l" | c'' r' where "atomically (takeover_tx dg a b p n prf w m) c l = (c'', l', r')"
  using assms by (auto simp: takeover_def split: if_splits prod.splits sum.splits)



text \<open>A whole \<open>request_grant\<close> is made of such steps.\<close>

lemma request_steps:
  assumes "0 \<le> m"
  shows "(rest_step dg)\<^sup>*\<^sup>* l (fst (snd (request_grant dg r w m c l)))"
proof (cases "request_ok r")
  case (Inr u)
  obtain c1 l1 y where a: "atomically (enqueue_request dg r w m) c l = (c1, l1, y)" by (metis prod_cases3)
  obtain c2 l2 z where b: "atomically (drain_pending dg) c1 l1 = (c2, l2, z)" by (metis prod_cases3)
  have "rest_step dg l l1" "rest_step dg l1 l2"
    using rest_step.enqueue [OF _ assms a] rest_step.drain [OF b] Inr by simp_all
  moreover from this have "(rest_step dg)\<^sup>*\<^sup>* l l1" "(rest_step dg)\<^sup>*\<^sup>* l l2" by auto
  ultimately show ?thesis using a b Inr by (auto simp: request_grant_def split: sum.splits option.splits)
qed (simp add: request_grant_def)


section \<open>The rolling budget\<close>

fun budget_of :: "owner_row \<Rightarrow> pool \<Rightarrow> int" where
  "budget_of ow Ordinary = o_ordinary ow"
| "budget_of ow Reserve = o_reserve ow"
| "budget_of ow NoPool = 0"

text \<open>The weight granted from a pool in one clock epoch in the window that ends at \<open>u\<close>.\<close>

definition in_window :: "int \<Rightarrow> pool \<Rightarrow> int \<Rightarrow> grant_row \<Rightarrow> bool" where
  "in_window e p u t \<longleftrightarrow> t_clock_epoch t = e \<and> t_pool t = p \<and> u - REST_BUDGET_WINDOW_MS < t_mono t \<and> t_mono t \<le> u"

definition window_weight :: "int \<Rightarrow> pool \<Rightarrow> int \<Rightarrow> grant_row list \<Rightarrow> int" where
  "window_weight e p u ts = sum_list (map (\<lambda>t. rq_weight (t_request t)) (filter (in_window e p u) ts))"

definition grants_ok :: "owner_row \<Rightarrow> int \<Rightarrow> int \<Rightarrow> grant_row list \<Rightarrow> bool" where
  "grants_ok ow e m ts \<longleftrightarrow>
     (\<forall>t \<in> set ts. t_generation t = o_generation ow \<and> 1 \<le> rq_weight (t_request t) \<and> t_pool t \<noteq> NoPool \<and>
        t_clock_epoch t \<le> e \<and> (t_clock_epoch t = e \<longrightarrow> t_mono t \<le> m)) \<and>
     (\<forall>e' p u. p \<noteq> NoPool \<longrightarrow> window_weight e' p u ts \<le> budget_of ow p)"

definition owner_ok :: "owner_row \<Rightarrow> bool" where
  "owner_ok ow \<longleftrightarrow> 0 < o_ordinary ow \<and> 0 < o_reserve ow \<and> o_ordinary ow + o_reserve ow \<le> 1200"

definition requests_ok :: "request_row list \<Rightarrow> bool" where
  "requests_ok qs \<longleftrightarrow> (\<forall>q \<in> set qs. 1 \<le> rq_weight (q_request q) \<and> 0 \<le> q_mono q)"

definition ledger_ok :: "ledger \<Rightarrow> bool" where
  "ledger_ok l \<longleftrightarrow> requests_ok (l_requests l) \<and>
     (case l_owner l of None \<Rightarrow> l_grants l = []
      | Some ow \<Rightarrow> owner_ok ow \<and> grants_ok ow (o_clock_epoch ow) (o_last_mono ow) (l_grants l))"

lemma sum_filter_le:
  fixes f :: "'a \<Rightarrow> int"
  assumes "\<And>x. x \<in> set xs \<Longrightarrow> 0 \<le> f x" and "\<And>x. x \<in> set xs \<Longrightarrow> P x \<Longrightarrow> Q x"
  shows "sum_list (map f (filter P xs)) \<le> sum_list (map f (filter Q xs))"
  using assms by (induction xs) (auto simp: add_increasing)

lemma window_snoc: "window_weight e p u (ts @ [t]) = window_weight e p u ts + (if in_window e p u t then rq_weight (t_request t) else 0)"
  by (simp add: window_weight_def)

text \<open>
  A grant at the latest time of the current epoch: a window that contains it contains no grant outside
  the window the allocation measured.
\<close>

lemma grants_ok_snoc:
  assumes "grants_ok ow e m ts" and "m \<le> m'" and "t_generation t = o_generation ow" "t_clock_epoch t = e" "t_mono t = m'"
    and "1 \<le> rq_weight (t_request t)" "t_pool t \<noteq> NoPool"
    and fits: "rq_weight (t_request t) + pool_weight (t_pool t)
        (filter (\<lambda>x. t_generation x = o_generation ow \<and> t_clock_epoch x = e \<and> m' - REST_BUDGET_WINDOW_MS < t_mono x) ts) \<le> budget_of ow (t_pool t)"
  shows "grants_ok ow e m' (ts @ [t])"
proof -
  have old: "window_weight e' p u ts \<le> budget_of ow p" if "p \<noteq> NoPool" for e' p u using assms(1) that by (auto simp: grants_ok_def)
  have "window_weight e' p u (ts @ [t]) \<le> budget_of ow p" if p: "p \<noteq> NoPool" for e' p u
  proof (cases "in_window e' p u t")
    case False
    then show ?thesis using old [OF p] by (simp add: window_snoc)
  next
    case True
    then have u: "e' = e" "p = t_pool t" "m' \<le> u" using assms(4,5) by (auto simp: in_window_def)
    have "window_weight e' p u ts \<le> pool_weight p
      (filter (\<lambda>x. t_generation x = o_generation ow \<and> t_clock_epoch x = e \<and> m' - REST_BUDGET_WINDOW_MS < t_mono x) ts)"
      unfolding window_weight_def pool_weight_def filter_filter
      using assms(1) u by (intro sum_filter_le) (auto simp: grants_ok_def in_window_def)
    then show ?thesis using fits u True by (simp add: window_snoc)
  qed
  then show ?thesis using assms(1-7) by (force simp: grants_ok_def)
qed

lemma grants_ok_later: "grants_ok ow e m ts \<Longrightarrow> m \<le> m' \<Longrightarrow> grants_ok ow e m' ts"
  by (force simp: grants_ok_def)

lemma grants_ok_new_epoch: "grants_ok ow e m ts \<Longrightarrow> e < e' \<Longrightarrow> grants_ok ow e' m' ts"
  by (force simp: grants_ok_def)

lemma grants_ok_owner: "grants_ok ow e m ts \<Longrightarrow> o_generation ow' = o_generation ow \<Longrightarrow> o_ordinary ow' = o_ordinary ow \<Longrightarrow>
    o_reserve ow' = o_reserve ow \<Longrightarrow> grants_ok ow' e m ts"
proof -
  assume a: "grants_ok ow e m ts" "o_generation ow' = o_generation ow" "o_ordinary ow' = o_ordinary ow" "o_reserve ow' = o_reserve ow"
  have "budget_of ow' p = budget_of ow p" for p using a by (cases p) auto
  then show ?thesis using a by (simp add: grants_ok_def)
qed

text \<open>What holds between the decisions of one batch that was given the time \<open>m\<close>.\<close>

definition batch_ok :: "int \<Rightarrow> coordinator \<Rightarrow> ledger \<Rightarrow> bool" where
  "batch_ok m c l \<longleftrightarrow> requests_ok (l_requests l) \<and>
     (\<exists>ow. l_owner l = Some ow \<and> owner_ok ow \<and> o_generation ow = c_generation c \<and> o_ordinary ow = c_ordinary c \<and> o_reserve ow = c_reserve c \<and>
       o_clock_epoch ow = c_clock_epoch c \<and> grants_ok ow (o_clock_epoch ow) m (l_grants l))"

lemma choose_pool_fits:
  assumes "choose_pool pr w a b = Some p"
  shows "(p = Ordinary \<and> w \<le> a) \<or> (p = Reserve \<and> w \<le> b)"
  using assms by (auto simp: choose_pool_def Let_def split: if_splits)

lemma wp_insert_grant:
  "Q () c (l\<lparr>l_grants := l_grants l @ [t]\<rparr>) \<Longrightarrow> tx_wp (insert_grant t) Q c l"
  by (simp add: insert_grant_def tx_simps)

lemma allocate_ok:
  assumes "batch_ok m c l" and "1 \<le> rq_weight r"
  shows "tx_wp (allocate dg r w m) (\<lambda>_. batch_ok m) c l"
proof -
  obtain ow where ow: "l_owner l = Some ow" "owner_ok ow" "o_generation ow = c_generation c" "o_ordinary ow = c_ordinary c"
    "o_reserve ow = c_reserve c" "o_clock_epoch ow = c_clock_epoch c" "grants_ok ow (o_clock_epoch ow) m (l_grants l)"
    and rq: "requests_ok (l_requests l)"
    using assms(1) by (auto simp: batch_ok_def)
  let ?used = "recent_grants c m l"
  have "batch_ok m c (l\<lparr>l_grants := l_grants l @ [t]\<rparr>)"
    if p: "choose_pool (rq_priority r) (rq_weight r) (c_ordinary c - pool_weight Ordinary ?used) (c_reserve c - pool_weight Reserve ?used) = Some p"
      and t: "t_generation t = c_generation c" "t_request t = r" "t_pool t = p" "t_mono t = m" "t_clock_epoch t = c_clock_epoch c" for p t
  proof -
    have "rq_weight r + pool_weight p ?used \<le> budget_of ow p" "p \<noteq> NoPool"
      using choose_pool_fits [OF p] ow by auto
    then have "grants_ok ow (o_clock_epoch ow) m (l_grants l @ [t])"
      using ow t assms(2) by (intro grants_ok_snoc [OF ow(7) order_refl]) (auto simp: recent_grants_def)
    then show ?thesis using ow rq by (auto simp: batch_ok_def)
  qed
  then show ?thesis using assms(1)
    unfolding allocate_def Let_def tx_simps by (auto intro!: wp_denial wp_insert_grant)
qed

lemma store_answer_ok: "batch_ok m c l \<Longrightarrow> tx_wp (store_answer q g w) (\<lambda>_. batch_ok m) c l"
  by (auto simp: store_answer_def insert_ack_def tx_simps batch_ok_def requests_ok_def)

lemma decide_row_ok:
  assumes "batch_ok m c l" and "1 \<le> rq_weight (q_request q)"
  shows "tx_wp (decide_row dg b w m q) (\<lambda>_. batch_ok m) c l"
proof -
  have "tx_wp (if b then denial dg (q_request q) w m Clock_Quarantine else allocate dg (q_request q) w m) (\<lambda>_. batch_ok m) c l"
    using assms allocate_ok [OF assms] by (auto intro: wp_denial)
  then show ?thesis unfolding decide_row_def tx_wp_bind by (rule tx_wp_mono) (rule store_answer_ok)
qed

text \<open>A batch is over when the owner row takes its time.\<close>

lemma batch_over:
  assumes "batch_ok m c l"
  shows "ledger_ok (set_owner_clock w m l)"
  using assms unfolding batch_ok_def ledger_ok_def set_owner_clock_def
  by (auto simp: owner_ok_def elim!: grants_ok_owner)

text \<open>The same when the owner row already has the time.\<close>

definition settled :: "int \<Rightarrow> coordinator \<Rightarrow> ledger \<Rightarrow> bool" where
  "settled m c l \<longleftrightarrow> batch_ok m c l \<and> (\<forall>ow. l_owner l = Some ow \<longrightarrow> o_last_mono ow = m)"

lemma settled_ledger_ok: "settled m c l \<Longrightarrow> ledger_ok l"
  by (auto simp: settled_def batch_ok_def ledger_ok_def)

lemma deny_pending_ok:
  assumes "settled m c l"
  shows "tx_wp (deny_pending dg w m' why) (\<lambda>_. settled m) c l"
proof -
  have "tx_wp (store_answer q g w) (\<lambda>_. settled m) c l" if "settled m c l" for q g c l
    using that by (auto simp: store_answer_def insert_ack_def tx_simps settled_def batch_ok_def requests_ok_def)
  then show ?thesis unfolding deny_pending_def tx_simps
    by (intro tx_wp_iter [where I = "settled m"]) (auto simp: tx_simps assms intro!: wp_denial)
qed

lemma settle: "batch_ok m c l \<Longrightarrow> settled m c (set_owner_clock w m l)"
  by (auto simp: settled_def batch_ok_def set_owner_clock_def owner_ok_def elim!: grants_ok_owner)

lemma begin_epoch_ok:
  assumes "l_owner l = Some ow" "owner_ok ow" "requests_ok (l_requests l)" "grants_ok ow (o_clock_epoch ow) k (l_grants l)"
    and "o_generation ow = c_generation c" "o_ordinary ow = c_ordinary c" "o_reserve ow = c_reserve c"
  shows "tx_wp (begin_new_clock_epoch ow w m why) (\<lambda>_. settled m) c l"
proof -
  have "grants_ok ow (o_clock_epoch ow + 1) m (l_grants l)" by (rule grants_ok_new_epoch [OF assms(4)]) simp
  then show ?thesis using assms
    by (auto simp: begin_new_clock_epoch_def insert_clock_epoch_def tx_simps settled_def batch_ok_def owner_ok_def elim!: grants_ok_owner)
qed

lemma foldr_max_ge: "x \<le> foldr max xs x" "y \<in> set xs \<Longrightarrow> y \<le> foldr max xs (x :: int)"
  by (induction xs) (auto simp: le_max_iff_disj)

lemma highwater_owner: "l_owner l = Some ow \<Longrightarrow> o_last_mono ow \<le> durable_mono_highwater l"
  by (simp add: durable_mono_highwater_def)

lemma column_max_in: "xs \<noteq> [] \<Longrightarrow> column_max xs \<in> set xs"
proof (induction xs rule: column_max.induct)
  case (2 x xs)
  have "foldr max xs x \<in> set (x # xs)" by (induction xs) (auto simp: max_def)
  then show ?case by simp
qed simp

lemma decide_batch_ok:
  assumes "ledger_ok l" and ow: "l_owner l = Some ow" "owner_matches c ow" "o_clock_epoch ow = c_clock_epoch c"
    and pend: "\<And>q. q \<in> set pend \<Longrightarrow> 1 \<le> rq_weight (q_request q)" and "0 \<le> m"
  shows "tx_wp (decide_batch dg ow pend w m) (\<lambda>_ _. ledger_ok) c l"
proof -
  have l: "owner_ok ow" "requests_ok (l_requests l)" "grants_ok ow (o_clock_epoch ow) (o_last_mono ow) (l_grants l)"
    using assms(1) ow(1) by (auto simp: ledger_ok_def)
  have c: "o_generation ow = c_generation c" "o_ordinary ow = c_ordinary c" "o_reserve ow = c_reserve c"
    using ow(2) by (auto simp: owner_matches_def)
  have "o_last_mono ow \<le> m" if "\<not> clock_jump ow w m" using that assms(6) by (auto simp: clock_jump_def Let_def)
  then have "batch_ok m c l" if "\<not> clock_jump ow w m"
    using l c ow that by (auto simp: batch_ok_def intro: grants_ok_later)
  then have start: "tx_wp (if clock_jump ow w m then begin_new_clock_epoch ow w m Runtime_Change else tx_return ()) (\<lambda>_. batch_ok m) c l"
    using tx_wp_mono [OF begin_epoch_ok [OF ow(1) l c, of w m Runtime_Change], of "\<lambda>_. batch_ok m"] by (auto simp: tx_simps settled_def)
  have rest: "tx_wp (tx_iter (decide_row dg b w m) pend) (\<lambda>_. tx_wp (tx_update (set_owner_clock w m)) (\<lambda>_ _. ledger_ok)) c' l'"
    if "batch_ok m c' l'" for b c' l'
  proof -
    have "tx_wp (tx_iter (decide_row dg b w m) pend) (\<lambda>_. batch_ok m) c' l'"
      using that pend by (intro tx_wp_iter [where I = "batch_ok m"] decide_row_ok)
    then show ?thesis by (rule tx_wp_mono) (simp add: tx_simps batch_over)
  qed
  show ?thesis unfolding decide_batch_def Let_def tx_wp_bind
    by (rule tx_wp_mono [OF start]) (auto simp: tx_simps intro: rest)
qed

lemma drain_ok:
  assumes "ledger_ok l"
  shows "tx_wp (drain_pending dg) (\<lambda>_ _. ledger_ok) c l"
proof -
  let ?pend = "sort_key (\<lambda>q. priority_value (rq_priority (q_request q))) (pending_rows c l)"
  have rows: "1 \<le> rq_weight (q_request q) \<and> 0 \<le> q_mono q" if "q \<in> set ?pend" for q
    using assms that by (auto simp: ledger_ok_def requests_ok_def pending_rows_def)
  then have "0 \<le> column_max (map q_mono ?pend)" if "?pend \<noteq> []"
    using column_max_in [of "map q_mono ?pend"] that by fastforce
  then show ?thesis unfolding drain_pending_def Let_def tx_simps
    using assms rows by (auto intro!: decide_batch_ok)
qed

lemma enqueue_ok:
  assumes "ledger_ok l" and "request_ok r = Inr ()" and "0 \<le> m"
  shows "tx_wp (enqueue_request dg r w m) (\<lambda>_ _. ledger_ok) c l"
proof -
  have "1 \<le> rq_weight r" using assms(2) by (auto simp: request_ok_def)
  then have "ledger_ok (l\<lparr>l_requests := l_requests l @ [q]\<rparr>)" if "q_request q = r" "q_mono q = m" for q
    using assms(1,3) that by (auto simp: ledger_ok_def requests_ok_def split: option.splits)
  moreover have "ledger_ok (l'\<lparr>l_acks := ks\<rparr>) = ledger_ok l'" for l' ks by (simp add: ledger_ok_def split: option.splits)
  ultimately show ?thesis using assms(1)
    unfolding enqueue_request_def Let_def tx_simps
    by (auto simp: tx_simps insert_request_def insert_ack_def intro!: wp_denial)
qed

lemma not_moved_later: "\<not> clock_moved ow w m l \<Longrightarrow> l_owner l = Some ow \<Longrightarrow> o_last_mono ow \<le> m"
  using highwater_owner [of l ow] by (auto simp: clock_moved_def)

lemma grants_ok_Nil: "owner_ok ow \<Longrightarrow> grants_ok ow e m []"
proof -
  assume "owner_ok ow"
  then have "p \<noteq> NoPool \<Longrightarrow> 0 \<le> budget_of ow p" for p by (cases p) (auto simp: owner_ok_def)
  then show ?thesis by (simp add: grants_ok_def window_weight_def)
qed

text \<open>A process that takes the ledger up: what holds after it has looked at the clock.\<close>

lemma take_up_ok:
  assumes "ledger_ok l" and ow: "l_owner l = Some ow" "o_generation ow = c_generation c" "o_ordinary ow = c_ordinary c" "o_reserve ow = c_reserve c"
    and moved: "\<And>c' l'. settled m c' l' \<Longrightarrow> tx_wp f Q c' l'" and stayed: "\<And>c' l'. batch_ok m c' l' \<Longrightarrow> tx_wp g Q c' l'"
  shows "tx_wp (tx_bind (adopt_clock_epoch ow why) (\<lambda>_. tx_bind tx_ledger (\<lambda>l1.
     if clock_moved ow w m l1 then tx_bind (begin_new_clock_epoch ow w m why') (\<lambda>_. f) else g))) Q c l"
proof -
  have l: "owner_ok ow" "requests_ok (l_requests l)" "grants_ok ow (o_clock_epoch ow) (o_last_mono ow) (l_grants l)"
    using assms(1) ow(1) by (auto simp: ledger_ok_def)
  have adopted: "tx_wp (adopt_clock_epoch ow why) (\<lambda>_ c' l'. l_owner l' = Some ow \<and> l_requests l' = l_requests l \<and> l_grants l' = l_grants l \<and>
      c_generation c' = c_generation c \<and> c_ordinary c' = c_ordinary c \<and> c_reserve c' = c_reserve c \<and> c_clock_epoch c' = o_clock_epoch ow) c l"
    using ow(1) by (auto simp: adopt_clock_epoch_def insert_clock_epoch_def tx_simps)
  show ?thesis unfolding tx_wp_bind
  proof (rule tx_wp_mono [OF adopted])
    fix x :: unit and c' :: coordinator and l' :: ledger
    assume a: "l_owner l' = Some ow \<and> l_requests l' = l_requests l \<and> l_grants l' = l_grants l \<and>
      c_generation c' = c_generation c \<and> c_ordinary c' = c_ordinary c \<and> c_reserve c' = c_reserve c \<and> c_clock_epoch c' = o_clock_epoch ow"
    have "tx_wp (begin_new_clock_epoch ow w m why') (\<lambda>_. settled m) c' l'"
      using a l ow by (intro begin_epoch_ok) auto
    then have "tx_wp (begin_new_clock_epoch ow w m why') (\<lambda>_. tx_wp f Q) c' l'" by (rule tx_wp_mono) (rule moved)
    moreover have "batch_ok m c' l'" if "\<not> clock_moved ow w m l'"
      using a l ow not_moved_later [OF that] by (auto simp: batch_ok_def intro: grants_ok_later)
    ultimately show "tx_wp tx_ledger (\<lambda>l1. tx_wp (if clock_moved ow w m l1 then tx_bind (begin_new_clock_epoch ow w m why') (\<lambda>_. f) else g) Q) c' l'"
      by (auto simp: tx_simps intro: stayed)
  qed
qed

lemma claim_ok:
  assumes "ledger_ok l" and "coordinator_ok c"
  shows "tx_wp (claim_initial_epoch dg w m) (\<lambda>_ _. ledger_ok) c l"
proof (cases "l_owner l")
  case None
  then have "l_grants l = []" "requests_ok (l_requests l)" using assms(1) by (auto simp: ledger_ok_def)
  then show ?thesis using None assms(2)
    by (auto simp: claim_initial_epoch_def insert_clock_epoch_def tx_simps ledger_ok_def owner_ok_def coordinator_ok_def intro!: grants_ok_Nil)
next
  case (Some ow)
  have "tx_wp (tx_bind (adopt_clock_epoch ow Legacy_Adopted) (\<lambda>_. tx_bind tx_ledger (\<lambda>l1.
     if clock_moved ow w m l1 then tx_bind (begin_new_clock_epoch ow w m Durable_Change) (\<lambda>_. deny_pending dg w m Clock_Epoch_Replay)
     else tx_update (set_owner_clock w m)))) (\<lambda>_ _. ledger_ok) c l" if "owner_matches c ow"
    using that by (intro take_up_ok [OF assms(1) Some])
      (auto simp: owner_matches_def tx_simps intro: batch_over settled_ledger_ok tx_wp_mono [OF deny_pending_ok])
  then show ?thesis using Some unfolding claim_initial_epoch_def tx_simps by (simp add: tx_simps)
qed

text \<open>The two outcomes of looking at the clock, brought together.\<close>

lemma look_at_clock_ok:
  assumes "ledger_ok l" and ow: "l_owner l = Some ow" "o_generation ow = c_generation c" "o_ordinary ow = c_ordinary c" "o_reserve ow = c_reserve c"
    and go: "\<And>c' l'. batch_ok m c' l' \<Longrightarrow> tx_wp f Q c' l'"
  shows "tx_wp (tx_bind (adopt_clock_epoch ow why) (\<lambda>_. tx_bind tx_ledger (\<lambda>l1.
     tx_bind (if clock_moved ow w m l1 then begin_new_clock_epoch ow w m why' else tx_return ()) (\<lambda>_. f)))) Q c l"
proof -
  have "tx_bind (if b then begin_new_clock_epoch ow w m why' else tx_return ()) (\<lambda>_. f) =
      (if b then tx_bind (begin_new_clock_epoch ow w m why') (\<lambda>_. f) else f)" for b
    by (simp add: tx_bind_def tx_return_def)
  then show ?thesis using take_up_ok [OF assms(1) ow, of m f Q f] go by (auto simp: settled_def)
qed

lemma new_process_ok:
  assumes "batch_ok m c l"
  shows "settled m c ((set_owner_clock w m l)\<lparr>l_owner := map_option (\<lambda>x. x\<lparr>o_epoch := n, o_process := p\<rparr>) (l_owner (set_owner_clock w m l))\<rparr>)"
  using settle [OF assms, of w] by (auto simp: settled_def batch_ok_def owner_ok_def elim!: grants_ok_owner)

lemma takeover_ok:
  assumes "ledger_ok l"
  shows "tx_wp (takeover_tx dg a b p n prf w m) (\<lambda>_ _. ledger_ok) c l"
proof -
  have row: "settled m c (l\<lparr>l_takeovers := tks\<rparr>) = settled m c l" for c l tks by (simp add: settled_def batch_ok_def)
  have deny: "tx_wp (deny_pending dg w m why) Q c' l'" if "settled m c' l'" "\<And>x c l. ledger_ok l \<Longrightarrow> Q x c l" for why Q c' l'
    by (rule tx_wp_mono [OF deny_pending_ok [OF that(1)]]) (blast intro: that(2) settled_ledger_ok)
  show ?thesis unfolding takeover_tx_def Let_def tx_wp_bind [of tx_self] tx_wp_bind [of tx_ledger "\<lambda>l. case l_owner l of None \<Rightarrow> X l | Some ow \<Rightarrow> Y l ow" for X Y]
      tx_wp_primitives(3,4) tx_wp_option tx_wp_if
    by (intro conjI allI impI look_at_clock_ok [OF assms]) (auto simp: tx_simps row intro!: deny new_process_ok)
qed

lemma fence_ok: "ledger_ok (l\<lparr>l_fence := fn\<rparr>) = ledger_ok l"
  by (simp add: ledger_ok_def split: option.splits)

lemma step_ok: "rest_step dg l l' \<Longrightarrow> ledger_ok l \<Longrightarrow> ledger_ok l'"
proof (induction rule: rest_step.induct)
  case (takeover a b p n pf w m c l c' l' r)
  show ?case by (rule takeover_cases [OF takeover(1)]) (use takeover(2) takeover_ok in \<open>auto intro: atomically_wp\<close>)
next
  case (freeze pv sn w m c l c' l' r'')
  have "tx_wp (freeze_egress dg pv sn w m) (\<lambda>_ _. ledger_ok) c l" using freeze(2) by (auto simp: freeze_egress_def tx_simps Let_def fence_ok)
  then show ?case using freeze by (blast intro: atomically_wp)
next
  case (release pv c l c' l' r4)
  have "tx_wp (release_egress_fence pv) (\<lambda>_ _. ledger_ok) c l" using release(2) by (auto simp: release_egress_fence_def tx_simps fence_ok)
  then show ?case using release by (blast intro: atomically_wp)
qed (blast intro: atomically_wp claim_ok enqueue_ok drain_ok)+

lemma reachable_ok: "(rest_step dg)\<^sup>*\<^sup>* empty_ledger l \<Longrightarrow> ledger_ok l"
proof (induction rule: rtranclp_induct)
  case base
  show ?case by (simp add: ledger_ok_def requests_ok_def empty_ledger_def)
next
  case (step l l')
  then show ?case by (blast intro: step_ok)
qed

text \<open>
  C7: In every ledger that processes can reach from an empty database by claiming it, queueing and deciding
  requests, taking it over and setting or clearing the launch fence, with clocks that may jump and
  requests that may arrive in any order, the weight granted inside any window of 60 seconds of one clock
  epoch is within the budget of each pool, and of both pools together within the allowance of 1200.
\<close>

theorem rolling_budget_never_exceeded:
  assumes "(rest_step dg)\<^sup>*\<^sup>* empty_ledger l" and "l_owner l = Some ow"
  shows "window_weight e Ordinary u (l_grants l) \<le> o_ordinary ow \<and> window_weight e Reserve u (l_grants l) \<le> o_reserve ow \<and>
    window_weight e Ordinary u (l_grants l) + window_weight e Reserve u (l_grants l) \<le> 1200"
proof -
  have l: "owner_ok ow" "p \<noteq> NoPool \<Longrightarrow> window_weight e p u (l_grants l) \<le> budget_of ow p" for p
    using reachable_ok [OF assms(1)] assms(2) by (auto simp: ledger_ok_def grants_ok_def)
  then show ?thesis using l(2) [of Ordinary] l(2) [of Reserve] by (auto simp: owner_ok_def)
qed


section \<open>One answer per message\<close>






























end
