(* ===== verification/Rest_Example.thy ===== *)
theory Rest_Example
  imports Rest_Ledger
begin

text \<open>
  Quarantines of the REST budget, and concrete runs of its coordinator: one process that claims the
  ledger, takes grants from both pools, is denied when a pool is spent, sends a message again, and hands
  the ledger to another process.
\<close>

section \<open>Quarantine\<close>


lemma enqueue_in_quarantine:
  assumes "list_all (\<lambda>q. q_mono q < u) (pending_rows c l)" and "m < u"
  shows "tx_wp (enqueue_request dg r w m) (\<lambda>_ c' l'. c' = c \<and> l_grants l' = l_grants l \<and> l_epochs l' = l_epochs l \<and>
    list_all (\<lambda>q. q_mono q < u) (pending_rows c l')) c l"
  using assms unfolding enqueue_request_def Let_def tx_simps
  by (auto simp: tx_simps insert_request_def insert_ack_def pending_rows_def list_all_iff intro!: wp_denial)

lemma quarantined_rows:
  "tx_wp (tx_iter (decide_row dg True w m) pend) (\<lambda>_ _ l'. l_grants l' = l_grants l) c l"
proof -
  have "tx_wp (decide_row dg True w m q) (\<lambda>_ c' l'. l_grants l' = l_grants l) c' l'" if "l_grants l' = l_grants l" for q c' l'
    unfolding decide_row_def by (simp add: tx_simps that store_answer_def insert_ack_def) (auto intro!: wp_denial simp: tx_simps that)
  then show ?thesis by (intro tx_wp_iter [where I = "\<lambda>_ l'. l_grants l' = l_grants l"]) auto
qed

lemma drain_in_quarantine:
  assumes "find_epoch c l = Some e" and "list_all (\<lambda>q. q_mono q < e_quarantine_until e) (pending_rows c l)"
  shows "tx_wp (drain_pending dg) (\<lambda>_ _ l'. l_grants l' = l_grants l) c l"
proof -
  let ?pend = "sort_key (\<lambda>q. priority_value (rq_priority (q_request q))) (pending_rows c l)"
  let ?m = "column_max (map q_mono ?pend)"
  have late: "?m < e_quarantine_until e" if "?pend \<noteq> []"
    using column_max_in [of "map q_mono ?pend"] that assms(2) by (auto simp: list_all_iff)
  have batch: "tx_wp (decide_batch dg ow pend w m) (\<lambda>_ _ l'. l_grants l' = l_grants l) c l"
    if "clock_jump ow w m \<or> m < e_quarantine_until e" for ow pend w m
  proof (cases "clock_jump ow w m")
    case True
    then show ?thesis
      by (auto simp: decide_batch_def Let_def tx_simps begin_new_clock_epoch_def insert_clock_epoch_def set_owner_clock_def
          intro!: tx_wp_mono [OF quarantined_rows])
  next
    case False
    then show ?thesis using that assms(1)
      by (auto simp: decide_batch_def Let_def tx_simps set_owner_clock_def intro!: tx_wp_mono [OF quarantined_rows])
  qed
  show ?thesis unfolding drain_pending_def Let_def tx_simps using late by (auto intro!: batch)
qed

text \<open>
  C29: While the clock epoch is in quarantine no call of \<open>request_grant\<close> adds a grant, of any priority, also
  for the other requests its batch decides and when the clock jumps again.
\<close>

theorem quarantine_grants_nothing:
  assumes "find_epoch c l = Some e" and "list_all (\<lambda>q. q_mono q < e_quarantine_until e) (pending_rows c l)" and "m < e_quarantine_until e"
    and "request_grant dg r w m c l = (c', l', x)"
  shows "l_grants l' = l_grants l"
proof (cases "\<exists>e. request_ok r = Inl e")
  case True
  then show ?thesis using assms(4) by (auto simp: request_grant_def)
next
  case False
  obtain c1 l1 y where first: "atomically (enqueue_request dg r w m) c l = (c1, l1, y)" by (metis prod_cases3)
  then show ?thesis
  proof (cases rule: atomically_cases)
    case (rollback e')
    then show ?thesis using first False assms(4) by (auto simp: request_grant_def split: sum.splits)
  next
    case (commit a)
    then have k: "c1 = c" "l_grants l1 = l_grants l" "l_epochs l1 = l_epochs l" "list_all (\<lambda>q. q_mono q < e_quarantine_until e) (pending_rows c l1)"
      using enqueue_in_quarantine [OF assms(2,3), of dg r w] by (auto simp: tx_wp_def)
    obtain c2 l2 z where second: "atomically (drain_pending dg) c1 l1 = (c2, l2, z)" by (metis prod_cases3)
    have "find_epoch c1 l1 = Some e" using assms(1) k by (simp add: find_epoch_def)
    then have "l_grants l2 = l_grants l"
      using atomically_wp [OF second, of "\<lambda>l'. l_grants l' = l_grants l1"] drain_in_quarantine [of c1 l1 e dg] k by simp
    then show ?thesis using first second False assms(4) k commit by (auto simp: request_grant_def split: sum.splits option.splits)
  qed
qed



section \<open>A run\<close>

definition ex_dg :: rest_digests where
  "ex_dg = \<lparr>rd_request = (\<lambda>gen r. rq_endpoint r), rd_grant = (\<lambda>gen e ce r. replicate (nat (rq_message_id r)) CHR ''g''),
     rd_denial = (\<lambda>gen r why. ''denied''), rd_takeover = (\<lambda>gen a b p. p), rd_carryover = (\<lambda>gen e i. CHR ''c'' # i), rd_snapshot = (\<lambda>sn. ''sha'')\<rparr>"

definition ex_c :: coordinator where
  "ex_c = \<lparr>c_generation = ''gen'', c_ordinary = 130, c_reserve = 40, c_process = ''p1'', c_epoch = 1, c_coalesce_ms = 5, c_max_pending = 8,
     c_critical_reserve = 2, c_reorder_window = 16, c_policy = ''pol'', c_clock_epoch = 1\<rparr>"

definition ex_request :: "int \<Rightarrow> RestPriority \<Rightarrow> string \<Rightarrow> int \<Rightarrow> rest_request" where
  "ex_request i pr ep weight = \<lparr>rq_sender = ''fleet-runtime'', rq_sender_epoch = 1, rq_message_id = i, rq_priority = pr, rq_endpoint = ep, rq_weight = weight\<rparr>"

definition ex_audit :: rest_request where "ex_audit = ex_request 1 BROAD_AUDIT ''info:userFillsByTime'' 120"
definition ex_gap :: rest_request where "ex_gap = ex_request 2 GAP_REPAIR ''info:openOrders'' 20"
definition ex_late :: rest_request where "ex_late = ex_request 3 AMBIGUITY_CONTAINMENT ''info:orderStatus'' 2"

definition ex_l1 :: ledger where "ex_l1 = fst (snd (atomically (claim_initial_epoch ex_dg 5000 1000) ex_c empty_ledger))"
definition ex_l2 :: ledger where "ex_l2 = fst (snd (request_grant ex_dg ex_audit 6000 2000 ex_c ex_l1))"
definition ex_l3 :: ledger where "ex_l3 = fst (snd (request_grant ex_dg ex_gap 6010 2010 ex_c ex_l2))"

lemma ex_reachable: "(rest_step ex_dg)\<^sup>*\<^sup>* empty_ledger ex_l1" "(rest_step ex_dg)\<^sup>*\<^sup>* ex_l1 ex_l2" "(rest_step ex_dg)\<^sup>*\<^sup>* ex_l2 ex_l3"
proof -
  obtain c' l' r where x: "atomically (claim_initial_epoch ex_dg 5000 1000) ex_c empty_ledger = (c', l', r)" by (metis prod_cases3)
  have "rest_step ex_dg empty_ledger ex_l1"
    using rest_step.claim [OF _ x] x by (simp add: ex_l1_def coordinator_ok_def ex_c_def)
  then show "(rest_step ex_dg)\<^sup>*\<^sup>* empty_ledger ex_l1" by blast
qed (simp_all add: ex_l2_def ex_l3_def request_steps)

lemma ex_owner: "l_owner ex_l3 = Some \<lparr>o_generation = ''gen'', o_epoch = 1, o_process = ''p1'', o_ordinary = 130, o_reserve = 40, o_policy = ''pol'',
    o_clock_epoch = 1, o_last_wall = 6010, o_last_mono = 2010, o_updated_wall = 6010\<rparr>"
  by code_simp

theorem rolling_budget_never_exceeded_witness:
  "(rest_step ex_dg)\<^sup>*\<^sup>* empty_ledger ex_l3 \<and> window_weight 1 Ordinary 2010 (l_grants ex_l3) = 120 \<and> window_weight 1 Reserve 2010 (l_grants ex_l3) = 20 \<and>
   window_weight 1 Ordinary 2010 (l_grants ex_l3) \<le> 130"
proof -
  have r: "(rest_step ex_dg)\<^sup>*\<^sup>* empty_ledger ex_l3" using ex_reachable by simp
  moreover have "window_weight 1 Ordinary 2010 (l_grants ex_l3) = 120" "window_weight 1 Reserve 2010 (l_grants ex_l3) = 20" by code_simp+
  ultimately show ?thesis using rolling_budget_never_exceeded [OF r ex_owner, of 1 2010] by simp
qed


text \<open>The containment request read its clock 10 ms before the request that was decided first.\<close>

definition ex_c4 :: coordinator where "ex_c4 = fst (request_grant ex_dg ex_late 6000 2000 ex_c ex_l3)"
definition ex_l4 :: ledger where "ex_l4 = fst (snd (request_grant ex_dg ex_late 6000 2000 ex_c ex_l3))"


theorem quarantine_grants_nothing_witness:
  "l_grants (fst (snd (request_grant ex_dg (ex_request 4 AMBIGUITY_CONTAINMENT ''info:orderStatus'' 2) 65000 61999 ex_c4 ex_l4))) = l_grants ex_l4 \<and>
   length (l_grants ex_l4) = 2"
proof -
  obtain c' l' x where r: "request_grant ex_dg (ex_request 4 AMBIGUITY_CONTAINMENT ''info:orderStatus'' 2) 65000 61999 ex_c4 ex_l4 = (c', l', x)"
    by (metis prod_cases3)
  obtain e where e: "find_epoch ex_c4 ex_l4 = Some e" "e_quarantine_until e = 62000"
  proof -
    have "(case find_epoch ex_c4 ex_l4 of None \<Rightarrow> False | Some e \<Rightarrow> e_quarantine_until e = 62000)" by code_simp
    then show thesis using that by (auto split: option.splits)
  qed
  have "pending_rows ex_c4 ex_l4 = []" "length (l_grants ex_l4) = 2" by code_simp+
  then show ?thesis using quarantine_grants_nothing [OF e(1) _ _ r] e(2) r by simp
qed

text \<open>An import checks the imported weights alone against the budget.\<close>

definition ex_snapshot :: rest_snapshot where
  "ex_snapshot = \<lparr>sn_generation = ''preview'', sn_clock_epoch = 1, sn_captured_wall = 5900, sn_captured_mono = 1900, sn_window_ms = 60000,
     sn_grants = [\<lparr>t_grant_id = ''s'', t_generation = ''preview'', t_coordinator_epoch = 1,
       t_request = \<lparr>rq_sender = ''ui-launch-preview'', rq_sender_epoch = 1, rq_message_id = 1, rq_priority = CATALOG, rq_endpoint = ''info:userFillsByTime'', rq_weight = 120\<rparr>,
       t_pool = Ordinary, t_wall = 5800, t_mono = 1800, t_clock_epoch = 1\<rparr>], sn_sha = ''sha''\<rparr>"

definition ex_imported :: ledger where
  "ex_imported = fst (snd (atomically (import_recent_grant_snapshot ex_dg ex_snapshot ''preview'' 6020 2020) ex_c ex_l2))"

theorem import_exceeds_budget:
  "map_option o_ordinary (l_owner ex_imported) = Some 130 \<and> window_weight 1 Ordinary 2020 (l_grants ex_imported) = 240"
  by code_simp

end
