(* ===== verification/Gap_Repair.thy ===== *)
theory Gap_Repair
  imports Runtime_Slot
begin

text \<open>
  \<open>DurableSourceGapRepair\<close> of \<^verbatim>\<open>continuous_network.py\<close>: fills of the source that were missed while its
  connection was down are queried again and must lead exactly from the positions before the gap to those
  of the reconnect snapshot.

  The two tables of its database are lists; a raised exception leaves the memory as it was changed before
  it and the tables as they were. The replies of the socket and of the HTTP fallback are arguments, and
  so is the clock. SQLite's 64-bit integers are not modelled.
\<close>

section \<open>State\<close>

type_synonym json_row = "(string \<times> json) list"

record gap_config =
  gc_overlap_ms :: int
  gc_maximum_window_ms :: int
  gc_maximum_pages :: int
  gc_page_size :: int
  gc_identity_capacity :: int

record cursor_row =
  cu_source :: string
  cu_last_good_ms :: int
  cu_gap_ms :: "int option"

record identity_row =
  id_source :: string
  id_tx_hash :: string
  id_tid :: string
  id_time_ms :: int

record gap_db =
  gd_cursors :: "cursor_row list"
  gd_identities :: "identity_row list"

record gap_repair =
  gr_horizons :: "string \<rightharpoonup> (string \<times> int) list"
  gr_pending :: "string \<rightharpoonup> (int \<times> json_row list) list"
  gr_recovered :: "string \<rightharpoonup> FillRecord list"
  gr_db :: gap_db

definition make_gap_repair :: "gap_config \<Rightarrow> gap_db \<Rightarrow> gap_repair result" where
  "make_gap_repair cfg db =
     rbind (require (\<not> Min {gc_overlap_ms cfg, gc_maximum_window_ms cfg, gc_maximum_pages cfg, gc_page_size cfg, gc_identity_capacity cfg} < 1)
              (ValueError ''gap-repair bounds must be positive'')) (\<lambda>_.
     rbind (require (\<not> gc_maximum_window_ms cfg \<le> gc_overlap_ms cfg)
              (ValueError ''gap-repair overlap must be smaller than its maximum window'')) (\<lambda>_.
     Inr \<lparr>gr_horizons = Map.empty, gr_pending = Map.empty, gr_recovered = Map.empty, gr_db = db\<rparr>))"

definition forget_source :: "string \<Rightarrow> gap_repair \<Rightarrow> gap_repair" where
  "forget_source raw g =
     (let s = py_lower raw
      in g\<lparr>gr_horizons := (gr_horizons g)(s := None), gr_pending := (gr_pending g)(s := None), gr_recovered := (gr_recovered g)(s := None)\<rparr>)"

definition begin_repair_connection :: "string list \<Rightarrow> gap_repair \<Rightarrow> gap_repair" where
  "begin_repair_connection sources g = fold forget_source sources g"


section \<open>Frames\<close>

text \<open>\<open>str(a or b or "")\<close> and \<open>str(v or "")\<close> with the full text of containers.\<close>

definition text_or_empty :: "json \<Rightarrow> string" where
  "text_or_empty v = (if py_truthy v then full_text v else [])"

definition frame_user :: "json_row \<Rightarrow> string" where
  "frame_user data = (if py_truthy (jget data ''user'') then full_text (jget data ''user'') else text_or_empty (jget data ''userAddress''))"

definition horizon_entries :: "json \<Rightarrow> (json \<times> json) list" where
  "horizon_entries v =
     (case v of
        JObj m \<Rightarrow> map (\<lambda>(k, s). (JStr k, s)) m
      | JArr xs \<Rightarrow> List.map_filter (\<lambda>x. case x of JArr [a, b] \<Rightarrow> Some (a, b) | _ \<Rightarrow> None) xs
      | _ \<Rightarrow> [])"

text \<open>One DEX of a positions snapshot; a time that is no integer makes the whole frame useless.\<close>

definition add_horizon :: "json \<times> json \<Rightarrow> (string \<times> int) list \<Rightarrow> (string \<times> int) list result" where
  "add_horizon entry acc =
     (case entry of
        (JStr raw_dex, JObj state) \<Rightarrow>
          (case int_text (jget state ''time'') of
             None \<Rightarrow> Inl (ValueError ''invalid literal for int'')
           | Some observed \<Rightarrow> Inr (if 0 < observed then AList.update (py_strip raw_dex) observed acc else acc))
      | _ \<Rightarrow> Inr acc)"

definition stage_source_frame :: "json_row \<Rightarrow> gap_repair \<Rightarrow> gap_repair" where
  "stage_source_frame message g =
     (if jget message ''channel'' \<noteq> JStr ''allDexsClearinghouseState'' then g
      else case jget message ''data'' of
        JObj data \<Rightarrow>
          (let source = py_lower (frame_user data)
           in case rfold add_horizon (horizon_entries (jget data ''clearinghouseStates'')) [] of
                Inl _ \<Rightarrow> g
              | Inr horizons \<Rightarrow>
                  if source \<noteq> [] \<and> horizons \<noteq> [] then g\<lparr>gr_horizons := (gr_horizons g)(source \<mapsto> horizons)\<rparr> else g)
      | _ \<Rightarrow> g)"

fun object_of :: "json \<Rightarrow> json_row option" where
  "object_of (JObj m) = Some m"
| "object_of _ = None"

definition frame_fill_rows :: "json_row \<Rightarrow> json_row list" where
  "frame_fill_rows message =
     (case jget message ''data'' of
        JObj data \<Rightarrow>
          if jget message ''channel'' = JStr ''userFills''
          then (case jget data ''fills'' of JArr rows \<Rightarrow> List.map_filter object_of rows | _ \<Rightarrow> [])
          else if jget message ''channel'' = JStr ''userTwapSliceFills''
          then (case jget data ''twapSliceFills'' of
                  JArr rows \<Rightarrow> List.map_filter (\<lambda>x. case x of JObj item \<Rightarrow> object_of (jget item ''fill'') | _ \<Rightarrow> None) rows
                | _ \<Rightarrow> [])
          else []
      | _ \<Rightarrow> [])"

definition raw_fill_identity :: "json_row \<Rightarrow> (string \<times> string \<times> int) result" where
  "raw_fill_identity row =
     (let tx_hash = py_lower (py_strip (text_or_empty (jget row ''hash''))); tid = py_strip (text_or_empty (jget row ''tid'')) in
      rbind (require (\<not> (tx_hash = [] \<or> tid = [])) (ContinuousNetworkError ''accepted source fill has no durable hash/tid identity'')) (\<lambda>_.
      case int_text (jget row ''time'') of
        None \<Rightarrow> Inl (ContinuousNetworkError ''accepted source fill has invalid time'')
      | Some fill_ms \<Rightarrow>
          if fill_ms \<le> 0 then Inl (ContinuousNetworkError ''accepted source fill has invalid time'')
          else Inr (tx_hash, tid, fill_ms)))"


section \<open>The tables\<close>

definition find_cursor :: "string \<Rightarrow> gap_db \<Rightarrow> cursor_row option" where
  "find_cursor source db = find (\<lambda>c. cu_source c = source) (gd_cursors db)"

text \<open>\<open>INSERT ... ON CONFLICT(source) DO UPDATE\<close>\<close>

definition upsert_cursor :: "cursor_row \<Rightarrow> (cursor_row \<Rightarrow> cursor_row) \<Rightarrow> gap_db \<Rightarrow> gap_db" where
  "upsert_cursor new f db =
     (if find_cursor (cu_source new) db = None then db\<lparr>gd_cursors := gd_cursors db @ [new]\<rparr>
      else db\<lparr>gd_cursors := map (\<lambda>c. if cu_source c = cu_source new then f c else c) (gd_cursors db)\<rparr>)"

definition mark_source_gap :: "int \<Rightarrow> string \<Rightarrow> gap_db \<Rightarrow> gap_db" where
  "mark_source_gap when_ms raw =
     upsert_cursor \<lparr>cu_source = py_lower raw, cu_last_good_ms = 0, cu_gap_ms = Some when_ms\<rparr>
       (\<lambda>c. c\<lparr>cu_gap_ms := (case cu_gap_ms c of None \<Rightarrow> Some when_ms | Some t \<Rightarrow> Some t)\<rparr>)"

definition mark_gap :: "string list \<Rightarrow> int \<Rightarrow> gap_repair \<Rightarrow> gap_repair \<times> unit result" where
  "mark_gap sources when_ms g =
     (if when_ms \<le> 0 then (g, Inl (ValueError ''gap timestamp must be positive''))
      else (g\<lparr>gr_db := fold (mark_source_gap when_ms) sources (gr_db g)\<rparr>, Inr ()))"

text \<open>\<open>INSERT OR IGNORE\<close> under the primary key.\<close>

definition insert_identity :: "string \<Rightarrow> string \<times> string \<times> int \<Rightarrow> gap_db \<Rightarrow> gap_db" where
  "insert_identity source i db =
     (case i of (tx_hash, tid, fill_ms) \<Rightarrow>
        if list_ex (\<lambda>r. id_source r = source \<and> id_tx_hash r = tx_hash \<and> id_tid r = tid) (gd_identities db) then db
        else db\<lparr>gd_identities := gd_identities db @ [\<lparr>id_source = source, id_tx_hash = tx_hash, id_tid = tid, id_time_ms = fill_ms\<rparr>]\<rparr>)"

definition accept_row :: "string \<Rightarrow> json_row \<Rightarrow> gap_db \<Rightarrow> gap_db result" where
  "accept_row source row db = rbind (raw_fill_identity row) (\<lambda>i. Inr (insert_identity source i db))"

text \<open>The oldest identities of a source make room beyond the capacity.\<close>

definition trim_identities :: "int \<Rightarrow> string \<Rightarrow> gap_db \<Rightarrow> gap_db" where
  "trim_identities capacity source db =
     (let mine = filter (\<lambda>r. id_source r = source) (gd_identities db); excess = int (length mine) - capacity in
      if 0 < excess
      then let old = take (nat excess) (sort_key (\<lambda>r. (id_time_ms r, id_tx_hash r, id_tid r)) mine)
           in db\<lparr>gd_identities := filter (\<lambda>r. r \<notin> set old) (gd_identities db)\<rparr>
      else db)"

definition commit_frames :: "gap_config \<Rightarrow> string \<Rightarrow> (int \<times> json_row list) list \<Rightarrow> FillRecord list \<Rightarrow> gap_db \<Rightarrow> gap_db result" where
  "commit_frames cfg source frames recovered db =
     (let newest = (case map fst frames of [] \<Rightarrow> 0 | t # ts \<Rightarrow> foldr max ts t);
          db1 = upsert_cursor \<lparr>cu_source = source, cu_last_good_ms = newest, cu_gap_ms = None\<rparr>
                  (\<lambda>c. c\<lparr>cu_last_good_ms := max (cu_last_good_ms c) newest, cu_gap_ms := None\<rparr>) db in
      rbind (rfold (accept_row source) (concat (map snd frames)) db1) (\<lambda>db2.
      Inr (trim_identities (gc_identity_capacity cfg) source
        (fold (\<lambda>f. insert_identity source (fr_tx_hash f, fr_tid f, fr_time_ms f)) recovered db2))))"

text \<open>
  A frame the runtime accepted. Frames wait until the source is trusted, and are then committed in one
  transaction; if that raises, the tables are rolled back and the frames are gone.
\<close>

definition record_accepted :: "gap_config \<Rightarrow> string \<Rightarrow> json_row \<Rightarrow> int \<Rightarrow> bool \<Rightarrow> gap_repair \<Rightarrow> gap_repair \<times> unit result" where
  "record_accepted cfg raw_source message received_ms source_ready g =
     (let source = py_lower raw_source;
          pend = (case gr_pending g source of None \<Rightarrow> [] | Some p \<Rightarrow> p) @ [(received_ms, frame_fill_rows message)];
          g1 = g\<lparr>gr_pending := (gr_pending g)(source \<mapsto> pend)\<rparr> in
      if 256 < length pend then (g1, Inl (ContinuousNetworkError ''untrusted source baseline exceeded 256 frames''))
      else if \<not> source_ready then (g1, Inr ())
      else let g2 = g1\<lparr>gr_pending := (gr_pending g1)(source := None)\<rparr>;
               recovered = (case gr_recovered g source of None \<Rightarrow> [] | Some fs \<Rightarrow> fs) in
           case commit_frames cfg source pend recovered (gr_db g2) of
             Inl e \<Rightarrow> (g2, Inl e)
           | Inr db \<Rightarrow> (g2\<lparr>gr_recovered := (gr_recovered g2)(source := None), gr_db := db\<rparr>, Inr ()))"


section \<open>The fill chain\<close>

definition record_key :: "FillRecord \<Rightarrow> string \<times> string" where
  "record_key f = (fr_tx_hash f, fr_tid f)"

text \<open>The \<open>while\<close> loop for one market: what it selected, and the position it stopped at.\<close>

definition next_candidate :: "FillRecord list \<Rightarrow> rat \<Rightarrow> (string \<times> string) list \<Rightarrow> int \<Rightarrow> FillRecord option" where
  "next_candidate cands current used minimum_time_ms =
     find (\<lambda>f. fr_start_position f = Some current \<and> record_key f \<notin> set used \<and> minimum_time_ms \<le> fr_time_ms f) cands"

lemma next_candidate_unused:
  assumes "next_candidate cands current used t = Some f"
  shows "f \<in> set cands" "record_key f \<notin> set used" "fr_start_position f = Some current" "t \<le> fr_time_ms f"
  using assms by (auto simp: next_candidate_def find_Some_iff)

function chain_loop :: "FillRecord list \<Rightarrow> rat \<Rightarrow> rat \<Rightarrow> (string \<times> string) list \<Rightarrow> int \<Rightarrow> FillRecord list \<times> rat" where
  "chain_loop cands target current used minimum_time_ms =
     (if current = target then ([], current)
      else case next_candidate cands current used minimum_time_ms of
        None \<Rightarrow> ([], current)
      | Some f \<Rightarrow>
          (case chain_loop cands target (dadd current (fill_signed_size f)) (record_key f # used) (fr_time_ms f) of
             (rest, final) \<Rightarrow> (f # rest, final)))"
  by pat_completeness auto

termination
proof (relation "measure (\<lambda>(cands, target, current, used, t). card (record_key ` set cands - set used))")
  fix cands :: "FillRecord list" and target current :: rat and used t f
  assume "next_candidate cands current used t = Some f"
  then have "record_key f \<in> record_key ` set cands - set used" using next_candidate_unused by blast
  then have "card (record_key ` set cands - set used - {record_key f}) < card (record_key ` set cands - set used)"
    by (intro card_Diff1_less) auto
  then show "((cands, target, dadd current (fill_signed_size f), record_key f # used, fr_time_ms f), cands, target, current, used, t)
      \<in> measure (\<lambda>(cands, target, current, used, t). card (record_key ` set cands - set used))"
    unfolding in_measure prod.case list.set Diff_insert [of "record_key ` set cands" "record_key f" "set used"] .
qed simp

declare chain_loop.simps [simp del]

text \<open>The markets whose size changed, in order, and the fills in the order of time and identity.\<close>

definition changed_markets :: "(string \<times> rat) list \<Rightarrow> (string \<times> rat) list \<Rightarrow> string list" where
  "changed_markets before after = sort (remdups (filter (\<lambda>m. dget before m 0 \<noteq> dget after m 0) (map fst before @ map fst after)))"

definition market_candidates :: "FillRecord list \<Rightarrow> (string \<times> string) list \<Rightarrow> string \<Rightarrow> FillRecord list" where
  "market_candidates records known market =
     filter (\<lambda>f. fr_market f = market \<and> record_key f \<notin> set known \<and> fr_start_position f \<noteq> None)
       (sort_key (\<lambda>f. (fr_time_ms f, fr_tx_hash f, fr_tid f)) records)"

definition connect_market ::
  "FillRecord list \<Rightarrow> (string \<times> string) list \<Rightarrow> (string \<times> rat) list \<Rightarrow> (string \<times> rat) list \<Rightarrow> string \<Rightarrow> FillRecord list \<Rightarrow> FillRecord list result" where
  "connect_market records known before after market selected =
     (case chain_loop (market_candidates records known market) (dget after market 0) (dget before market 0) [] 0 of
        (fills, final) \<Rightarrow>
          if final \<noteq> dget after market 0 then Inl (ContinuousNetworkError ''bounded fill recovery cannot connect'')
          else Inr (selected @ fills))"

definition connect_fill_chain ::
  "FillRecord list \<Rightarrow> (string \<times> string) list \<Rightarrow> (string \<times> rat) list \<Rightarrow> (string \<times> rat) list \<Rightarrow> FillRecord list result" where
  "connect_fill_chain records known before after =
     rfold (connect_market records known before after) (changed_markets before after) []"


section \<open>Asking for the missing fills\<close>

text \<open>
  The socket as the repair sees it: the connection epoch, the reply to the page with the given number and
  payload, and the HTTP fallback, if there is one.
\<close>

record gap_network =
  gn_epoch :: "int result"
  gn_post :: "int \<Rightarrow> nat \<Rightarrow> json \<Rightarrow> PostResult result"
  gn_fallback :: "(string \<Rightarrow> int \<Rightarrow> int \<Rightarrow> json_row list result) option"

definition fills_request :: "string \<Rightarrow> int \<Rightarrow> int \<Rightarrow> json" where
  "fills_request source start_ms end_ms =
     JObj [(''type'', JStr ''userFillsByTime''), (''user'', JStr source), (''startTime'', JInt start_ms), (''endTime'', JInt end_ms),
       (''aggregateByTime'', JBool False)]"

definition info_rows :: "json \<Rightarrow> string \<Rightarrow> json_row list result" where
  "info_rows response expected_type =
     (let v = (case response of JObj m \<Rightarrow> if jget m ''type'' = JStr ''info'' then jget m ''payload'' else response | _ \<Rightarrow> response);
          bad = Inl (ContinuousNetworkError ''response data is not a row list'') in
      case v of
        JObj m \<Rightarrow>
          if jget m ''type'' \<noteq> JStr expected_type then Inl (ContinuousNetworkError ''unexpected WS info response'')
          else (case jget m ''data'' of
                  JArr rows \<Rightarrow> if list_all (\<lambda>x. object_of x \<noteq> None) rows then Inr (List.map_filter object_of rows) else bad
                | _ \<Rightarrow> bad)
      | _ \<Rightarrow> Inl (ContinuousNetworkError ''unexpected WS info response''))"

text \<open>One row of a page: the rows so far, their identities, the newest time and how many were added.\<close>

type_synonym page_state = "json_row list \<times> (string \<times> string) list \<times> int \<times> nat"

definition add_page_row :: "int \<Rightarrow> int \<Rightarrow> json_row \<Rightarrow> page_state \<Rightarrow> page_state result" where
  "add_page_row start_ms end_ms item st =
     (case st of (rows, ids, newest, added) \<Rightarrow>
       rbind (raw_fill_identity item) (\<lambda>(tx_hash, tid, fill_ms).
       if \<not> (start_ms \<le> fill_ms \<and> fill_ms \<le> end_ms) then Inl (ContinuousNetworkError ''WS fill recovery returned an out-of-window row'')
       else if (tx_hash, tid) \<in> set ids then Inr (rows, ids, max newest fill_ms, added)
       else Inr (rows @ [item], (tx_hash, tid) # ids, max newest fill_ms, added + 1)))"

fun query_pages ::
  "gap_config \<Rightarrow> (nat \<Rightarrow> json \<Rightarrow> PostResult result) \<Rightarrow> string \<Rightarrow> int \<Rightarrow> int \<Rightarrow> nat \<Rightarrow> nat \<Rightarrow> int \<Rightarrow> json_row list \<Rightarrow> (string \<times> string) list \<Rightarrow> json_row list result" where
  "query_pages cfg post source start_ms end_ms 0 page_no cursor rows ids =
     Inl (ContinuousNetworkError ''WS fill recovery exceeded its bounded page count'')"
| "query_pages cfg post source start_ms end_ms (Suc left) page_no cursor rows ids =
     rbind (post page_no (fills_request source cursor end_ms)) (\<lambda>response.
     if pr_outcome response \<noteq> PO_INFO then Inl (ContinuousNetworkError ''WS fill recovery was not answered'')
     else
       rbind (info_rows (pr_response response) ''userFillsByTime'') (\<lambda>page.
       if gc_page_size cfg < int (length page) then Inl (ContinuousNetworkError ''WS fill recovery page exceeded its bound'')
       else
         rbind (rfold (add_page_row start_ms end_ms) page (rows, ids, cursor, 0)) (\<lambda>(rows', ids', newest, added).
         if int (length page) < gc_page_size cfg then Inr rows'
         else if newest \<le> cursor \<or> added = 0 then Inl (ContinuousNetworkError ''WS fill recovery pagination did not advance'')
         else query_pages cfg post source start_ms end_ms left (page_no + 1) newest rows' ids')))"

fun fallback_in_window :: "int \<Rightarrow> int \<Rightarrow> json_row list \<Rightarrow> unit result" where
  "fallback_in_window start_ms end_ms [] = Inr ()"
| "fallback_in_window start_ms end_ms (row # rows) =
     rbind (raw_fill_identity row) (\<lambda>(tx_hash, tid, fill_ms).
     if \<not> (start_ms \<le> fill_ms \<and> fill_ms \<le> end_ms) then Inl (ContinuousNetworkError ''fallback fill recovery returned an out-of-window row'')
     else fallback_in_window start_ms end_ms rows)"

definition fallback_rows :: "gap_config \<Rightarrow> gap_network \<Rightarrow> string \<Rightarrow> int \<Rightarrow> int \<Rightarrow> json_row list result" where
  "fallback_rows cfg net source start_ms end_ms =
     (case gn_fallback net of
        None \<Rightarrow> Inl (ContinuousNetworkError ''HTTP fill recovery fallback is disabled'')
      | Some fallback \<Rightarrow>
          rbind (fallback source start_ms end_ms) (\<lambda>rows.
          if gc_maximum_pages cfg * gc_page_size cfg < int (length rows)
          then Inl (ContinuousNetworkError ''fallback fill recovery exceeded its row bound'')
          else rbind (fallback_in_window start_ms end_ms rows) (\<lambda>_. Inr rows)))"

definition query_rows :: "gap_config \<Rightarrow> gap_network \<Rightarrow> string \<Rightarrow> int \<Rightarrow> int \<Rightarrow> (json_row list \<times> bool) result" where
  "query_rows cfg net source start_ms end_ms =
     (case rbind (gn_epoch net) (\<lambda>epoch. query_pages cfg (gn_post net epoch) source start_ms end_ms (nat (gc_maximum_pages cfg)) 0 start_ms [] []) of
        Inr rows \<Rightarrow> Inr (rows, False)
      | Inl e \<Rightarrow>
          (case gn_fallback net of
             None \<Rightarrow> Inl (case e of ContinuousNetworkError why \<Rightarrow> e | _ \<Rightarrow> ContinuousNetworkError ''WS fill recovery failed'')
           | Some _ \<Rightarrow> rbind (fallback_rows cfg net source start_ms end_ms) (\<lambda>rows. Inr (rows, True))))"

text \<open>The rows read by a stream of their own, as a fill snapshot.\<close>

definition recovery_records :: "BoundContinuousSlot \<Rightarrow> string \<Rightarrow> int \<Rightarrow> json_row list \<Rightarrow> FillRecord list result" where
  "recovery_records slot source now rows =
     rbind (make_account_stream source (follower_account_address (b_config slot)) ''unified''
              (if b_dynamic_market_eligibility slot then None else Some (allowed_markets (b_config slot))) None False 100000) (\<lambda>parser.
     rbind (begin_connection now parser) (\<lambda>(epoch, parser1).
     rbind (apply_frame (JObj [(''channel'', JStr ''userFills''),
              (''data'', JObj [(''user'', JStr source), (''isSnapshot'', JBool True), (''fills'', JArr (map JObj rows))])])
              epoch now parser1) (\<lambda>(update, parser2).
     Inr (sn_fills (source_snapshot parser2)))))"

text \<open>The window of a gap, from the durable cursor to the positions of the reconnect.\<close>

definition repair_window :: "gap_config \<Rightarrow> gap_repair \<Rightarrow> string \<Rightarrow> (string \<times> rat) list \<Rightarrow> (string \<times> rat) list \<Rightarrow> int \<Rightarrow> (int \<times> int) result" where
  "repair_window cfg g source before after now =
     rbind (rmap market_dex (changed_markets before after)) (\<lambda>dexes.
     let lacking = Inl (ContinuousNetworkError ''gap repair lacks the reconnect position horizon'') in
     case gr_horizons g source of
       None \<Rightarrow> lacking
     | Some horizons \<Rightarrow>
         if horizons = [] \<or> dexes = [] \<or> \<not> list_all (\<lambda>d. map_of horizons d \<noteq> None) dexes then lacking
         else
           let end_ms = Max (set (map (\<lambda>d. dget horizons d 0) dexes)) in
           (case find_cursor source (gr_db g) of
              None \<Rightarrow> Inl (ContinuousNetworkError ''gap repair has no durable source cursor'')
            | Some c \<Rightarrow>
                let anchor = (if 0 < cu_last_good_ms c then cu_last_good_ms c - gc_overlap_ms cfg else 1);
                    start_ms = max 1 (max anchor (end_ms - gc_maximum_window_ms cfg)) in
                if end_ms \<le> start_ms \<or> now < end_ms then Inl (ContinuousNetworkError ''gap-repair window is empty or in the future'')
                else Inr (start_ms, end_ms)))"

definition known_identities :: "string \<Rightarrow> gap_db \<Rightarrow> (string \<times> string) list" where
  "known_identities source db = map (\<lambda>r. (id_tx_hash r, id_tid r)) (filter (\<lambda>r. id_source r = source) (gd_identities db))"

fun is_network_error :: "error \<Rightarrow> bool" where
  "is_network_error (ContinuousNetworkError why) = True"
| "is_network_error _ = False"

definition repair_gap ::
  "gap_config \<Rightarrow> gap_network \<Rightarrow> BoundContinuousSlot \<Rightarrow> int \<Rightarrow> (string \<times> rat) list \<Rightarrow> (string \<times> rat) list \<Rightarrow> gap_repair \<Rightarrow> gap_repair \<times> FillRecord list result" where
  "repair_gap cfg net slot now before after g =
     (let source = py_lower (source_address (b_config slot)); known = known_identities source (gr_db g);
          connect = (\<lambda>rows. rbind (recovery_records slot source now rows) (\<lambda>records. connect_fill_chain records known before after)) in
      case rbind (repair_window cfg g source before after now) (\<lambda>(start_ms, end_ms).
           rbind (query_rows cfg net source start_ms end_ms) (\<lambda>(rows, used_fallback).
           case connect rows of
             Inr chain \<Rightarrow> Inr chain
           | Inl e \<Rightarrow>
               if \<not> is_network_error e \<or> gn_fallback net = None \<or> used_fallback then Inl e
               else rbind (fallback_rows cfg net source start_ms end_ms) connect)) of
        Inl e \<Rightarrow> (g, Inl e)
      | Inr chain \<Rightarrow> (g\<lparr>gr_recovered := (gr_recovered g)(source \<mapsto> chain)\<rparr>, Inr chain))"

end
