(* ===== verification/Gap_Safety.thy ===== *)
theory Gap_Safety
  imports Gap_Repair
begin

text \<open>
  What the repair of a gap returns: fills that were not known before and walk every market from its size
  before the gap to its size after it, which is what the runtime checks again; a complete history of the
  missed fills is always connected; and what its tables keep.
\<close>

section \<open>Walks\<close>

fun walk :: "FillRecord list \<Rightarrow> rat \<Rightarrow> rat option" where
  "walk [] p = Some p"
| "walk (f # fs) p = (if fr_start_position f = Some p then walk fs (dadd p (fill_signed_size f)) else None)"

definition of_market :: "string \<Rightarrow> FillRecord list \<Rightarrow> FillRecord list" where
  "of_market m fs = filter (\<lambda>f. fr_market f = m) fs"

lemma of_market_simps [simp]:
  "of_market m [] = []" "of_market m (f # fs) = (if fr_market f = m then f # of_market m fs else of_market m fs)"
  "of_market m (fs @ gs) = of_market m fs @ of_market m gs"
  by (simp_all add: of_market_def)

lemma chain_loop_sound:
  "chain_loop cands target current used t = (fs, final) \<Longrightarrow>
     walk fs current = Some final \<and> set fs \<subseteq> set cands \<and> distinct (map record_key fs) \<and> record_key ` set fs \<inter> set used = {} \<and>
     sorted (map fr_time_ms fs) \<and> (\<forall>f \<in> set fs. t \<le> fr_time_ms f)"
proof (induction cands target current used t arbitrary: fs final rule: chain_loop.induct)
  case (1 cands target current used t)
  show ?case
  proof (cases "current = target \<or> next_candidate cands current used t = None")
    case True
    then have "fs = []" "final = current" 
      using 1(2) unfolding chain_loop.simps [of cands target current used t] by (auto split: if_splits)
    then show ?thesis by simp
  next
    case False
    then obtain f where n: "current \<noteq> target" "next_candidate cands current used t = Some f" by auto
    obtain rest fin where r: "chain_loop cands target (dadd current (fill_signed_size f)) (record_key f # used) (fr_time_ms f) = (rest, fin)"
      by fastforce
    have eq: "fs = f # rest" "final = fin" 
      using 1(2) n r unfolding chain_loop.simps [of cands target current used t] by auto
    from 1(1) [OF n r] next_candidate_unused [OF n(2)] show ?thesis
      unfolding eq by (auto intro: order_trans)
  qed
qed

text \<open>The fills selected for one market, and whether they reach their target.\<close>

definition market_chain :: "FillRecord list \<Rightarrow> (string \<times> string) list \<Rightarrow> (string \<times> rat) list \<Rightarrow> (string \<times> rat) list \<Rightarrow> string \<Rightarrow> FillRecord list \<times> rat" where
  "market_chain records known before after m = chain_loop (market_candidates records known m) (dget after m 0) (dget before m 0) [] 0"

lemma connect_markets:
  "rfold (connect_market records known before after) ms sel = Inr chain \<longleftrightarrow>
     (\<forall>m \<in> set ms. snd (market_chain records known before after m) = dget after m 0) \<and>
     chain = sel @ concat (map (\<lambda>m. fst (market_chain records known before after m)) ms)"
proof (induction ms arbitrary: sel)
  case Nil
  then show ?case by auto
next
  case (Cons m ms)
  obtain fs final where c: "market_chain records known before after m = (fs, final)" by fastforce
  then show ?case using Cons by (auto simp: connect_market_def market_chain_def)
qed

lemma market_candidates_in: "f \<in> set (market_candidates records known m) \<Longrightarrow> f \<in> set records \<and> record_key f \<notin> set known \<and> fr_market f = m"
  by (auto simp: market_candidates_def)

lemma market_chain_sound:
  assumes "market_chain records known before after m = (fs, final)"
  shows "walk fs (dget before m 0) = Some final" "distinct (map record_key fs)" "sorted (map fr_time_ms fs)"
    "\<And>f. f \<in> set fs \<Longrightarrow> f \<in> set records \<and> record_key f \<notin> set known \<and> fr_market f = m"
  using chain_loop_sound [OF assms [unfolded market_chain_def]] market_candidates_in by fastforce+

lemma of_market_concat:
  assumes "distinct ms" and "\<And>m f. f \<in> set (g m) \<Longrightarrow> fr_market f = m"
  shows "of_market m (concat (map g ms)) = (if m \<in> set ms then g m else [])"
proof -
  have same: "of_market m (g k) = (if k = m then g m else [])" for k
    using assms(2) by (auto simp: of_market_def filter_id_conv filter_empty_conv)
  show ?thesis using assms(1) by (induction ms) (auto simp: same)
qed

lemma changed_markets_set: "m \<in> set (changed_markets before after) \<longleftrightarrow> dget before m 0 \<noteq> dget after m 0"
proof -
  have "m \<in> set (map fst before @ map fst after)" if "dget before m 0 \<noteq> dget after m 0"
    using that by (auto simp: dget_def image_iff dest!: map_of_SomeD split: option.splits) (metis fst_conv)+
  then show ?thesis by (auto simp: changed_markets_def)
qed

lemma distinct_changed: "distinct (changed_markets before after)"
  by (simp add: changed_markets_def)

lemma connected_parts:
  assumes "connect_fill_chain records known before after = Inr chain"
  shows "of_market m chain = (if m \<in> set (changed_markets before after) then fst (market_chain records known before after m) else [])"
    and "m \<in> set (changed_markets before after) \<Longrightarrow> snd (market_chain records known before after m) = dget after m 0"
    and "f \<in> set chain \<Longrightarrow> f \<in> set records \<and> record_key f \<notin> set known \<and> fr_market f \<in> set (changed_markets before after)"
proof -
  let ?g = "\<lambda>m. fst (market_chain records known before after m)"
  have c: "chain = concat (map ?g (changed_markets before after))"
    and ends: "\<And>m. m \<in> set (changed_markets before after) \<Longrightarrow> snd (market_chain records known before after m) = dget after m 0"
    using assms by (auto simp: connect_fill_chain_def connect_markets)
  have g: "f \<in> set (?g m) \<Longrightarrow> f \<in> set records \<and> record_key f \<notin> set known \<and> fr_market f = m" for f m
    using market_chain_sound(4) [of records known before after m "?g m" "snd (market_chain records known before after m)"] by auto
  show "of_market m chain = (if m \<in> set (changed_markets before after) then ?g m else [])"
    unfolding c by (rule of_market_concat [OF distinct_changed]) (use g in blast)
  show "m \<in> set (changed_markets before after) \<Longrightarrow> snd (market_chain records known before after m) = dget after m 0" by (rule ends)
  show "f \<in> set chain \<Longrightarrow> f \<in> set records \<and> record_key f \<notin> set known \<and> fr_market f \<in> set (changed_markets before after)"
    unfolding c using g by fastforce
qed

lemma connected_walk:
  assumes "connect_fill_chain records known before after = Inr chain"
  shows "walk (of_market m chain) (dget before m 0) = Some (dget after m 0)"
    and "distinct (map record_key (of_market m chain))" and "sorted (map fr_time_ms (of_market m chain))"
proof -
  let ?p = "market_chain records known before after m"
  have "walk (of_market m chain) (dget before m 0) = Some (dget after m 0) \<and> distinct (map record_key (of_market m chain)) \<and>
      sorted (map fr_time_ms (of_market m chain))"
  proof (cases "m \<in> set (changed_markets before after)")
    case True
    then show ?thesis using connected_parts(1,2) [OF assms] market_chain_sound(1-3) [OF prod.collapse [symmetric], of records known before after m] by simp
  next
    case False
    then show ?thesis using connected_parts(1) [OF assms] by (simp add: changed_markets_set)
  qed
  then show "walk (of_market m chain) (dget before m 0) = Some (dget after m 0)"
    "distinct (map record_key (of_market m chain))" "sorted (map fr_time_ms (of_market m chain))" by blast+
qed

text \<open>
  C16: The fills a repair returns were all among those the venue reported, none of them has an identity that
  was recorded before, and in every market they are distinct, in the order of time, and walk from the size
  before the gap exactly to the size after it, each starting where the one before it ended.
\<close>

theorem repaired_fills_walk:
  assumes "connect_fill_chain records known before after = Inr chain"
  shows "set chain \<subseteq> set records \<and> record_key ` set chain \<inter> set known = {} \<and>
    walk (of_market m chain) (dget before m 0) = Some (dget after m 0) \<and>
    distinct (map record_key (of_market m chain)) \<and> sorted (map fr_time_ms (of_market m chain))"
  using connected_parts(3) [OF assms] connected_walk [OF assms] by auto


section \<open>The runtime takes the fills\<close>

lemma repair_steps_walk:
  assumes "\<And>m. walk (of_market m fs) (dget w m 0) = Some (e m)" and "distinct (map fst w)"
  shows "\<exists>w'. rfold repair_step fs w = Inr w' \<and> distinct (map fst w') \<and> (\<forall>m. dget w' m 0 = e m)"
  using assms
proof (induction fs arbitrary: w)
  case Nil
  then show ?case by simp
next
  case (Cons f fs)
  let ?m = "fr_market f"
  let ?w = "AList.update ?m (dadd (dget w ?m 0) (fill_signed_size f)) w"
  have start: "fr_start_position f = Some (dget w ?m 0)" using Cons.prems(1) [of ?m] by (auto split: if_splits)
  have step: "walk (of_market m fs) (dget ?w m 0) = Some (e m)" for m
    using Cons.prems(1) [of m] start by (auto split: if_splits)
  have "distinct (map fst ?w)" using Cons.prems(2) by (rule distinct_update)
  from Cons.IH [OF step this] obtain w' where "rfold repair_step fs ?w = Inr w'" "distinct (map fst w')" "\<forall>m. dget w' m 0 = e m" by blast
  moreover have "repair_step f w = Inr ?w" using start by (simp add: repair_step_def)
  ultimately show ?case by simp
qed

lemma nz_by_dget:
  assumes "distinct (map fst d)"
  shows "(m, v) \<in> set (nz d) \<longleftrightarrow> dget d m 0 = v \<and> v \<noteq> 0"
proof -
  have "(m, v) \<in> set d \<longleftrightarrow> map_of d m = Some v" using assms by simp
  moreover have "(m, v) \<in> set (nz d) \<longleftrightarrow> (m, v) \<in> set d \<and> v \<noteq> 0" by (simp add: nz_def)
  ultimately show ?thesis by (cases "map_of d m") (auto simp only: dget_def option.simps)
qed

lemma same_sizes_dget:
  "distinct (map fst a) \<Longrightarrow> distinct (map fst b) \<Longrightarrow> (\<And>m. dget a m 0 = dget b m 0) \<Longrightarrow> same_sizes a b"
  unfolding same_sizes_def by (rule set_eqI) (auto simp: nz_by_dget)

lemma repair_gap_connects:
  assumes "repair_gap cfg net slot now before after g = (g', Inr chain)"
  obtains records where
    "connect_fill_chain records (known_identities (py_lower (source_address (b_config slot))) (gr_db g)) before after = Inr chain"
proof -
  note found_it = that
  define source where "source = py_lower (source_address (b_config slot))"
  define connect where "connect = (\<lambda>rows. rbind (recovery_records slot source now rows)
    (\<lambda>records. connect_fill_chain records (known_identities source (gr_db g)) before after))"
  have found: "thesis" if "connect rows = Inr chain" for rows
  proof -
    obtain records where "connect_fill_chain records (known_identities source (gr_db g)) before after = Inr chain"
      using \<open>connect rows = Inr chain\<close> by (auto simp: connect_def)
    then show thesis using found_it unfolding source_def by blast
  qed
  define attempt where "attempt = (\<lambda>start_ms end_ms rows used_fallback. case connect rows of
      Inr chain \<Rightarrow> Inr chain
    | Inl e \<Rightarrow> if \<not> is_network_error e \<or> gn_fallback net = None \<or> used_fallback then Inl e
        else rbind (fallback_rows cfg net source start_ms end_ms) connect)"
  let ?all = "rbind (repair_window cfg g source before after now) (\<lambda>(start_ms, end_ms).
    rbind (query_rows cfg net source start_ms end_ms) (\<lambda>(rows, used_fallback). attempt start_ms end_ms rows used_fallback))"
  have "(case ?all of Inl e \<Rightarrow> (g, Inl e)
      | Inr chain \<Rightarrow> (g\<lparr>gr_recovered := (gr_recovered g)(source \<mapsto> chain)\<rparr>, Inr chain)) = (g', Inr chain)"
    using assms unfolding repair_gap_def Let_def source_def connect_def attempt_def .
  then have "?all = Inr chain" by (cases ?all) auto
  then obtain start_ms end_ms rows used where "attempt start_ms end_ms rows used = Inr chain" by auto
  then have "connect rows = Inr chain \<or> (\<exists>rows'. connect rows' = Inr chain)"
    by (cases "connect rows") (auto simp: attempt_def split: if_splits)
  then show thesis using found by blast
qed

text \<open>
  C15: Whatever the socket, the fallback and the clock answer, when the repair returns fills for two books
  without duplicate markets, the runtime's own check of them succeeds: applied to the book before the gap
  one after the other, each starts at the size the book has, and they end in the book after the gap.
\<close>

theorem runtime_accepts_repair:
  assumes "repair_gap cfg net slot now before after g = (g', Inr chain)" and "distinct (map fst before)" and "distinct (map fst after)"
  shows "\<exists>working. rfold repair_step chain before = Inr working \<and> same_sizes working after"
proof -
  obtain records where "connect_fill_chain records (known_identities (py_lower (source_address (b_config slot))) (gr_db g)) before after = Inr chain"
    by (rule repair_gap_connects [OF assms(1)])
  then have "walk (of_market m chain) (dget before m 0) = Some (dget after m 0)" for m by (rule connected_walk(1))
  from repair_steps_walk [OF this assms(2)]
  obtain w where "rfold repair_step chain before = Inr w" "distinct (map fst w)" "\<forall>m. dget w m 0 = dget after m 0" by blast
  then show ?thesis using same_sizes_dget [of w after] assms(3) by blast
qed

section \<open>A complete history is repaired\<close>

lemma chain_loop_complete:
  assumes "walk rest p = Some target" and "distinct (map record_key (past @ rest))" and "sorted (map fr_time_ms (past @ rest))"
    and "\<And>f. f \<in> set rest \<Longrightarrow> t \<le> fr_time_ms f" and "set used = record_key ` set past"
  shows "\<exists>fs. chain_loop (past @ rest) target p used t = (fs, target) \<and> prefix fs rest"
  using assms
proof (induction rest arbitrary: past p used t)
  case Nil
  then show ?case by (subst chain_loop.simps) simp
next
  case (Cons f rest)
  show ?case
  proof (cases "p = target")
    case True
    then show ?thesis by (subst chain_loop.simps) simp
  next
    case False
    have f: "fr_start_position f = Some p" "walk rest (dadd p (fill_signed_size f)) = Some target" using Cons.prems(1) by (auto split: if_splits)
    have "find (\<lambda>f. fr_start_position f = Some p \<and> record_key f \<notin> set used \<and> t \<le> fr_time_ms f) past = None"
      using Cons.prems(5) by (auto simp: find_None_iff)
    moreover have "record_key f \<notin> set used" using Cons.prems(2,5) by auto
    ultimately have next_is: "next_candidate (past @ f # rest) p used t = Some f"
      using f(1) Cons.prems(4) by (simp add: next_candidate_def find_append)
    have "\<exists>fs. chain_loop ((past @ [f]) @ rest) target (dadd p (fill_signed_size f)) (record_key f # used) (fr_time_ms f) = (fs, target) \<and> prefix fs rest"
      by (rule Cons.IH) (use Cons.prems f in \<open>auto simp: sorted_append\<close>)
    then show ?thesis using False next_is by (auto simp: chain_loop.simps [of "past @ f # rest" target p used t])
  qed
qed

lemma candidates_in_time: "sorted (map fr_time_ms (market_candidates records known m))"
proof -
  let ?k = "\<lambda>f. (fr_time_ms f, fr_tx_hash f, fr_tid f)"
  have "sorted (map fr_time_ms xs)" if "sorted (map ?k xs)" for xs
    using that by (induction xs) (auto simp: less_eq_prod_def)
  moreover have "sorted (map ?k (market_candidates records known m))"
    unfolding market_candidates_def by (rule sorted_filter) simp
  ultimately show ?thesis by blast
qed

text \<open>
  C17: When in every market whose size changed the fills that were not known before walk, in the order of
  time, from the size before the gap to the size after it, the repair succeeds, and in each market it
  returns the first of these fills, up to where they first reach that size.
\<close>

theorem complete_history_repaired:
  assumes "\<And>m. m \<in> set (changed_markets before after) \<Longrightarrow>
      walk (market_candidates records known m) (dget before m 0) = Some (dget after m 0) \<and>
      distinct (map record_key (market_candidates records known m)) \<and> (\<forall>f \<in> set (market_candidates records known m). 0 \<le> fr_time_ms f)"
  shows "\<exists>chain. connect_fill_chain records known before after = Inr chain \<and>
    (\<forall>m \<in> set (changed_markets before after). prefix (of_market m chain) (market_candidates records known m))"
proof -
  have c: "\<exists>fs. market_chain records known before after m = (fs, dget after m 0) \<and> prefix fs (market_candidates records known m)"
    if "m \<in> set (changed_markets before after)" for m
    using chain_loop_complete [of "market_candidates records known m" "dget before m 0" "dget after m 0" "[]" 0 "[]"]
      assms [OF that] candidates_in_time by (simp add: market_chain_def)
  then have "\<forall>m \<in> set (changed_markets before after). snd (market_chain records known before after m) = dget after m 0" by force
  then have "\<exists>chain. connect_fill_chain records known before after = Inr chain" by (simp add: connect_fill_chain_def connect_markets)
  then obtain chain where chain: "connect_fill_chain records known before after = Inr chain" by blast
  have "prefix (of_market m chain) (market_candidates records known m)" if "m \<in> set (changed_markets before after)" for m
    using connected_parts(1) [OF chain, of m] c [OF that] that by auto
  then show ?thesis using chain by blast
qed


section \<open>The tables\<close>

inductive gap_step :: "gap_config \<Rightarrow> gap_repair \<Rightarrow> gap_repair \<Rightarrow> bool" for cfg where
  connection: "gap_step cfg g (begin_repair_connection sources g)"
| staged: "gap_step cfg g (stage_source_frame message g)"
| gap: "mark_gap sources when_ms g = (g', r) \<Longrightarrow> gap_step cfg g g'"
| accepted: "record_accepted cfg source message received trusted g = (g', r) \<Longrightarrow> gap_step cfg g g'"
| repaired: "repair_gap cfg net slot now before after g = (g', r') \<Longrightarrow> gap_step cfg g g'"

definition id_key :: "identity_row \<Rightarrow> string \<times> string \<times> string" where
  "id_key r = (id_source r, id_tx_hash r, id_tid r)"

definition of_source :: "string \<Rightarrow> gap_db \<Rightarrow> identity_row list" where
  "of_source s db = filter (\<lambda>r. id_source r = s) (gd_identities db)"

definition db_ok :: "int \<Rightarrow> gap_db \<Rightarrow> bool" where
  "db_ok capacity db \<longleftrightarrow> distinct (map cu_source (gd_cursors db)) \<and> distinct (map id_key (gd_identities db)) \<and>
     (\<forall>s. int (length (of_source s db)) \<le> capacity)"

lemma find_cursor_iff: "find_cursor s db = None \<longleftrightarrow> s \<notin> cu_source ` set (gd_cursors db)"
  by (auto simp: find_cursor_def find_None_iff)

lemma upsert_keeps:
  assumes "\<And>c. cu_source (f c) = cu_source c"
  shows "gd_identities (upsert_cursor new f db) = gd_identities db"
    and "distinct (map cu_source (gd_cursors db)) \<Longrightarrow> distinct (map cu_source (gd_cursors (upsert_cursor new f db)))"
proof -
  have "map cu_source (map (\<lambda>c. if cu_source c = k then f c else c) cs) = map cu_source cs" for k cs
    using assms by simp
  then show "distinct (map cu_source (gd_cursors db)) \<Longrightarrow> distinct (map cu_source (gd_cursors (upsert_cursor new f db)))"
    by (auto simp: upsert_cursor_def find_cursor_iff simp del: map_map)
qed (simp add: upsert_cursor_def)

lemma insert_identity_keeps:
  "gd_cursors (insert_identity s i db) = gd_cursors db"
  "distinct (map id_key (gd_identities db)) \<Longrightarrow> distinct (map id_key (gd_identities (insert_identity s i db)))"
  "s' \<noteq> s \<Longrightarrow> of_source s' (insert_identity s i db) = of_source s' db"
  by (auto simp: insert_identity_def of_source_def id_key_def list_ex_iff split: prod.splits)

lemma trim_keeps:
  "gd_cursors (trim_identities capacity s db) = gd_cursors db"
  "distinct (map id_key (gd_identities db)) \<Longrightarrow> distinct (map id_key (gd_identities (trim_identities capacity s db)))"
  by (simp_all add: trim_identities_def Let_def distinct_map_filter)

lemma trim_others: "s' \<noteq> s \<Longrightarrow> of_source s' (trim_identities capacity s db) = of_source s' db"
proof -
  assume s: "s' \<noteq> s"
  have "filter (\<lambda>r. r \<notin> set (take n (sort_key k (filter (\<lambda>r. id_source r = s) xs))) \<and> id_source r = s') xs = filter (\<lambda>r. id_source r = s') xs"
    for n xs and k :: "identity_row \<Rightarrow> int \<times> string \<times> string"
    using s by (intro filter_cong) (auto dest: in_set_takeD)
  then show ?thesis by (simp add: trim_identities_def of_source_def Let_def)
qed

lemma filter_not_taken:
  assumes "distinct ys" and "distinct zs" and "set ys = set zs"
  shows "length (filter (\<lambda>r. r \<notin> set (take n ys)) zs) = length ys - n"
proof -
  have "filter (\<lambda>r. r \<notin> set (take n ys)) ys = drop n ys"
  proof -
    have "filter (\<lambda>r. r \<notin> set (take n ys)) (take n ys @ drop n ys) = drop n ys"
      using assms(1) set_take_disj_set_drop_if_distinct [OF assms(1), of n n] by (auto simp: filter_empty_conv filter_id_conv simp del: append_take_drop_id)
    then show ?thesis by simp
  qed
  moreover have "length (filter P zs) = length (filter P ys)" for P
    using assms by (simp flip: distinct_card)
  ultimately show ?thesis by simp
qed

lemma trim_bound:
  assumes "distinct (map id_key (gd_identities db))" and "0 \<le> capacity"
  shows "int (length (of_source s (trim_identities capacity s db))) \<le> capacity"
proof -
  let ?mine = "of_source s db" and ?k = "\<lambda>r. (id_time_ms r, id_tx_hash r, id_tid r)"
  let ?n = "int (length ?mine) - capacity"
  have d: "distinct ?mine" using assms(1) by (simp add: of_source_def distinct_map)
  show ?thesis
  proof (cases "0 < ?n")
    case True
    have "of_source s (trim_identities capacity s db) = filter (\<lambda>r. r \<notin> set (take (nat ?n) (sort_key ?k ?mine))) ?mine"
      using True by (auto simp: trim_identities_def of_source_def Let_def conj_commute intro: filter_cong)
    then have "length (of_source s (trim_identities capacity s db)) = length ?mine - nat ?n"
      using filter_not_taken [of "sort_key ?k ?mine" "?mine" "nat ?n"] d by simp
    then show ?thesis using assms(2) by linarith
  next
    case False
    then show ?thesis by (simp add: trim_identities_def of_source_def Let_def)
  qed
qed

lemma commit_ok:
  assumes "commit_frames cfg s frames recovered db = Inr db'" and "db_ok (gc_identity_capacity cfg) db"
  shows "db_ok (gc_identity_capacity cfg) db'"
proof -
  let ?cap = "gc_identity_capacity cfg"
  let ?good = "\<lambda>d. distinct (map cu_source (gd_cursors d)) \<and> distinct (map id_key (gd_identities d)) \<and> (\<forall>s'. s' \<noteq> s \<longrightarrow> of_source s' d = of_source s' db)"
  have cap: "0 \<le> ?cap" using assms(2) by (auto simp: db_ok_def intro: order_trans [of 0 "int (length (of_source s db))"])
  obtain db1 db2 where up: "?good db1" and rows: "rfold (accept_row s) (concat (map snd frames)) db1 = Inr db2"
    and db': "db' = trim_identities ?cap s (fold (\<lambda>f. insert_identity s (fr_tx_hash f, fr_tid f, fr_time_ms f)) recovered db2)"
  proof -
    define newest where "newest = (case map fst frames of [] \<Rightarrow> 0 | t # ts \<Rightarrow> foldr max ts t)"
    define db1 where "db1 = upsert_cursor \<lparr>cu_source = s, cu_last_good_ms = newest, cu_gap_ms = None\<rparr>
      (\<lambda>c. c\<lparr>cu_last_good_ms := max (cu_last_good_ms c) newest, cu_gap_ms := None\<rparr>) db"
    have "?good db1" using assms(2) unfolding db1_def by (simp add: upsert_keeps db_ok_def of_source_def)
    moreover obtain db2 where "rfold (accept_row s) (concat (map snd frames)) db1 = Inr db2"
      "db' = trim_identities ?cap s (fold (\<lambda>f. insert_identity s (fr_tx_hash f, fr_tid f, fr_time_ms f)) recovered db2)"
      using assms(1) unfolding commit_frames_def Let_def newest_def [symmetric] db1_def [symmetric] by auto
    ultimately show thesis using that by blast
  qed
  have "?good db2"
    by (rule rfold_invariant [where P = ?good, OF rows up]) (auto simp: accept_row_def insert_identity_keeps)
  then have "?good (fold (\<lambda>f. insert_identity s (fr_tx_hash f, fr_tid f, fr_time_ms f)) recovered db2)"
    by (induction recovered arbitrary: db2) (simp_all add: insert_identity_keeps)
  then have "?good db'" "int (length (of_source s db')) \<le> ?cap"
    unfolding db' using cap by (simp_all add: trim_keeps trim_others trim_bound)
  then show ?thesis using assms(2) unfolding db_ok_def by metis
qed

lemma mark_ok: "db_ok cap db \<Longrightarrow> db_ok cap (mark_source_gap t s db)"
  by (simp add: mark_source_gap_def db_ok_def upsert_keeps of_source_def)

lemma memory_only:
  "gr_db (begin_repair_connection sources g) = gr_db g" "gr_db (stage_source_frame message g) = gr_db g"
  "repair_gap cfg net slot now before after g = (g', r) \<Longrightarrow> gr_db g' = gr_db g"
proof -
  show "gr_db (begin_repair_connection sources g) = gr_db g"
    unfolding begin_repair_connection_def by (induction sources arbitrary: g) (simp_all add: forget_source_def Let_def)
  show "gr_db (stage_source_frame message g) = gr_db g"
    by (simp add: stage_source_frame_def Let_def split: json.split sum.split)
  show "repair_gap cfg net slot now before after g = (g', r) \<Longrightarrow> gr_db g' = gr_db g"
    by (auto simp: repair_gap_def Let_def split: sum.splits)
qed

lemma record_accepted_db:
  assumes "record_accepted cfg source message received trusted g = (g', r)"
  shows "gr_db g' = gr_db g \<or> (\<exists>frames recovered. commit_frames cfg (py_lower source) frames recovered (gr_db g) = Inr (gr_db g'))"
  using assms by (auto simp: record_accepted_def Let_def split: if_splits sum.splits)

lemma gap_step_ok: "gap_step cfg g g' \<Longrightarrow> db_ok (gc_identity_capacity cfg) (gr_db g) \<Longrightarrow> db_ok (gc_identity_capacity cfg) (gr_db g')"
proof (induction rule: gap_step.induct)
  case (gap sources when_ms g g' r)
  have "db_ok c db \<Longrightarrow> db_ok c (fold (mark_source_gap when_ms) sources db)" for c db
    by (induction sources arbitrary: db) (simp_all add: mark_ok)
  then show ?case using gap by (auto simp: mark_gap_def split: if_splits)
next
  case (accepted source message received trusted g g' r)
  then show ?case using record_accepted_db [OF accepted(1)] commit_ok by metis
qed (simp_all add: memory_only)

text \<open>
  C18: Over any sequence of connections, frames, gaps and repairs from empty tables, the recorded fills have
  distinct identities, a source never has more of them than the capacity, and each source has one cursor.
\<close>

theorem recorded_fills_bounded:
  assumes "make_gap_repair cfg \<lparr>gd_cursors = [], gd_identities = []\<rparr> = Inr g0" and "(gap_step cfg)\<^sup>*\<^sup>* g0 g"
  shows "distinct (map id_key (gd_identities (gr_db g))) \<and> int (length (of_source s (gr_db g))) \<le> gc_identity_capacity cfg \<and>
    distinct (map cu_source (gd_cursors (gr_db g)))"
proof -
  have "db_ok (gc_identity_capacity cfg) (gr_db g0)"
    using assms(1) by (auto simp: make_gap_repair_def db_ok_def of_source_def)
  with assms(2) have "db_ok (gc_identity_capacity cfg) (gr_db g)"
    by (induction rule: rtranclp_induct) (auto intro: gap_step_ok)
  then show ?thesis by (simp add: db_ok_def)
qed


section \<open>The cursor\<close>

definition cursor_le :: "gap_db \<Rightarrow> gap_db \<Rightarrow> bool" where
  "cursor_le db db' \<longleftrightarrow> (\<forall>s c. find_cursor s db = Some c \<longrightarrow> (\<exists>c'. find_cursor s db' = Some c' \<and> cu_last_good_ms c \<le> cu_last_good_ms c'))"

lemma cursor_le_refl: "cursor_le db db" and cursor_le_trans: "cursor_le a b \<Longrightarrow> cursor_le b c \<Longrightarrow> cursor_le a c"
  by (fastforce simp: cursor_le_def intro: order_trans)+

lemma find_cursor_map:
  assumes "\<And>c. cu_source (f c) = cu_source c"
  shows "find (\<lambda>c. cu_source c = s) (map (\<lambda>c. if cu_source c = k then f c else c) cs) =
    map_option (\<lambda>c. if cu_source c = k then f c else c) (find (\<lambda>c. cu_source c = s) cs)"
  using assms by (induction cs) auto

lemma upsert_cursor_le:
  assumes "\<And>c. cu_source (f c) = cu_source c" and "\<And>c. cu_last_good_ms c \<le> cu_last_good_ms (f c)"
  shows "cursor_le db (upsert_cursor new f db)"
  using assms by (auto simp: cursor_le_def upsert_cursor_def find_cursor_def find_append find_cursor_map)

lemma commit_cursor:
  assumes "commit_frames cfg s frames recovered db = Inr db'"
  shows "cursor_le db db'"
proof -
  have fold_keeps: "gd_cursors (fold (\<lambda>f. insert_identity s (fr_tx_hash f, fr_tid f, fr_time_ms f)) recovered d) = gd_cursors d" for d
    by (induction recovered arbitrary: d) (simp_all add: insert_identity_keeps)
  have rows_keep: "gd_cursors d' = gd_cursors d" if "rfold (accept_row s) rows d = Inr d'" for rows d d'
    by (rule rfold_invariant [where P = "\<lambda>x. gd_cursors x = gd_cursors d", OF that]) (auto simp: accept_row_def insert_identity_keeps)
  obtain new f where "gd_cursors db' = gd_cursors (upsert_cursor new f db)" "\<And>c. cu_source (f c) = cu_source c" "\<And>c. cu_last_good_ms c \<le> cu_last_good_ms (f c)"
  proof -
    define newest where "newest = (case map fst frames of [] \<Rightarrow> 0 | t # ts \<Rightarrow> foldr max ts t)"
    obtain db2 where "rfold (accept_row s) (concat (map snd frames)) (upsert_cursor \<lparr>cu_source = s, cu_last_good_ms = newest, cu_gap_ms = None\<rparr>
        (\<lambda>c. c\<lparr>cu_last_good_ms := max (cu_last_good_ms c) newest, cu_gap_ms := None\<rparr>) db) = Inr db2"
      "gd_cursors db' = gd_cursors db2"
      using assms unfolding commit_frames_def Let_def newest_def [symmetric] by (auto simp: trim_keeps fold_keeps)
    then show thesis using that rows_keep by fastforce
  qed
  then show ?thesis using upsert_cursor_le [of f db new] by (simp add: cursor_le_def find_cursor_def)
qed

lemma gap_step_cursor: "gap_step cfg g g' \<Longrightarrow> cursor_le (gr_db g) (gr_db g')"
proof (induction rule: gap_step.induct)
  case (gap sources when_ms g g' r)
  have one: "cursor_le db (mark_source_gap when_ms k db)" for k db
    unfolding mark_source_gap_def by (rule upsert_cursor_le) simp_all
  have "cursor_le db (fold (mark_source_gap when_ms) sources db)" for db
    by (induction sources arbitrary: db) (auto intro: cursor_le_refl cursor_le_trans [OF one])
  then show ?case using gap by (auto simp: mark_gap_def cursor_le_refl split: if_splits)
next
  case (accepted source message received trusted g g' r)
  then show ?case using record_accepted_db [OF accepted(1)] commit_cursor cursor_le_refl by metis
qed (simp_all add: memory_only cursor_le_refl)

text \<open>
  No operation moves the durable cursor of a source back or loses it, over any sequence of them.
\<close>

theorem gap_cursor_never_back:
  assumes "(gap_step cfg)\<^sup>*\<^sup>* g g'" and "find_cursor s (gr_db g) = Some c"
  shows "\<exists>c'. find_cursor s (gr_db g') = Some c' \<and> cu_last_good_ms c \<le> cu_last_good_ms c'"
proof -
  have "cursor_le (gr_db g) (gr_db g')"
    using assms(1) by (induction rule: rtranclp_induct) (auto intro: cursor_le_refl cursor_le_trans gap_step_cursor)
  then show ?thesis using assms(2) by (simp add: cursor_le_def)
qed

end
