(* ===== verification/Gap_Example.thy ===== *)
theory Gap_Example
  imports Gap_Safety Runtime_Example
begin

text \<open>A gap in which the source bought 2 BTC, sold 1 and bought 1 again, and the runs of the repair over it.\<close>

definition ex_gap_config :: gap_config where
  "ex_gap_config = \<lparr>gc_overlap_ms = 3000, gc_maximum_window_ms = 86400000, gc_maximum_pages = 3, gc_page_size = 2000, gc_identity_capacity = 2\<rparr>"

definition ex_gap_row :: "string \<Rightarrow> string \<Rightarrow> string \<Rightarrow> string \<Rightarrow> int \<Rightarrow> json_row" where
  "ex_gap_row h side sz start t = [(''coin'', JStr ''BTC''), (''hash'', JStr h), (''tid'', JInt 7), (''side'', JStr side), (''sz'', JStr sz),
     (''px'', JStr ''10''), (''startPosition'', JStr start), (''time'', JInt t)]"

definition ex_gap_rows :: "json_row list" where
  "ex_gap_rows = [ex_gap_row ''h2'' ''A'' ''1'' ''3'' 1600, ex_gap_row ''h1'' ''B'' ''2'' ''1'' 1500, ex_gap_row ''h3'' ''B'' ''1'' ''2'' 1700]"

definition ex_gap_network :: gap_network where
  "ex_gap_network = \<lparr>gn_epoch = Inr 1,
     gn_post = (\<lambda>epoch page request. Inr (post_result 1 PO_INFO (JObj [(''type'', JStr ''info''),
       (''payload'', JObj [(''type'', JStr ''userFillsByTime''), (''data'', JArr (map JObj ex_gap_rows))])]) ''info_response'')),
     gn_fallback = None\<rparr>"

text \<open>The connection before the gap left its cursor; the reconnect shows positions at 2000.\<close>

definition ex_gap_start :: gap_repair where
  "ex_gap_start = \<lparr>gr_horizons = Map.empty, gr_pending = Map.empty, gr_recovered = Map.empty, gr_db = \<lparr>gd_cursors = [], gd_identities = []\<rparr>\<rparr>"

definition ex_gap_recorded :: gap_repair where
  "ex_gap_recorded = fst (record_accepted ex_gap_config ex_source
     [(''channel'', JStr ''userFills''), (''data'', JObj [(''user'', JStr ex_source), (''isSnapshot'', JBool True),
       (''fills'', JArr (map (\<lambda>n. JObj [(''hash'', JStr ''a''), (''tid'', JInt n), (''time'', JInt n)]) [5, 3, 4]))])] 1000 True ex_gap_start)"

definition ex_gap_ready :: gap_repair where
  "ex_gap_ready = stage_source_frame [(''channel'', JStr ''allDexsClearinghouseState''), (''data'', JObj [(''user'', JStr ex_source),
     (''clearinghouseStates'', JArr [JArr [JStr [], JObj [(''time'', JInt 2000)]]])])] ex_gap_recorded"

definition ex_gap_result :: "gap_repair \<times> FillRecord list result" where
  "ex_gap_result = repair_gap ex_gap_config ex_gap_network ex_bound 3000 [(''BTC'', 1)] [(''BTC'', 2)] ex_gap_ready"

lemma ex_gap_chain: "(case snd ex_gap_result of Inl e \<Rightarrow> False | Inr chain \<Rightarrow> map fr_tx_hash chain = [''h1'', ''h2''])"
  by code_simp

theorem runtime_accepts_repair_witness:
  "\<exists>chain working. map fr_tx_hash chain = [''h1'', ''h2''] \<and> snd ex_gap_result = Inr chain \<and>
     rfold repair_step chain [(''BTC'', 1)] = Inr working \<and> same_sizes working [(''BTC'', 2)]"
proof -
  obtain chain where chain: "snd ex_gap_result = Inr chain" "map fr_tx_hash chain = [''h1'', ''h2'']"
    using ex_gap_chain by (cases "snd ex_gap_result") auto
  then have c: "ex_gap_result = (fst ex_gap_result, Inr chain)" by (metis prod.collapse)
  from runtime_accepts_repair [OF c [unfolded ex_gap_result_def]] chain show ?thesis by simp
qed

definition ex_gap_fill :: "string \<Rightarrow> string \<Rightarrow> rat \<Rightarrow> rat \<Rightarrow> int \<Rightarrow> FillRecord" where
  "ex_gap_fill h side sz start t = \<lparr>fr_account = ex_source, fr_market = ''BTC'', fr_tx_hash = h, fr_tid = ''7'', fr_time_ms = t, fr_side = side,
     fr_size = sz, fr_price = 10, fr_start_position = Some start, fr_oid = None, fr_received_ms = 3000, fr_connection_epoch = 1, fr_is_snapshot = True\<rparr>"

definition ex_gap_fills :: "FillRecord list" where
  "ex_gap_fills = [ex_gap_fill ''h2'' ''sell'' 1 3 1600, ex_gap_fill ''h1'' ''buy'' 2 1 1500, ex_gap_fill ''h0'' ''buy'' 1 0 900]"

theorem repaired_fills_walk_witness:
  "walk (of_market ''BTC'' [ex_gap_fill ''h1'' ''buy'' 2 1 1500, ex_gap_fill ''h2'' ''sell'' 1 3 1600]) 1 = Some 2"
proof -
  have "connect_fill_chain ex_gap_fills [(''h0'', ''7'')] [(''BTC'', 1)] [(''BTC'', 2)] =
      Inr [ex_gap_fill ''h1'' ''buy'' 2 1 1500, ex_gap_fill ''h2'' ''sell'' 1 3 1600]"
    by code_simp
  from repaired_fills_walk [OF this, of "''BTC''"] show ?thesis by (simp add: dget_def)
qed

theorem complete_history_repaired_witness:
  "\<exists>chain. connect_fill_chain ex_gap_fills [(''h0'', ''7'')] [(''BTC'', 1)] [(''BTC'', 2)] = Inr chain \<and>
     prefix (of_market ''BTC'' chain) [ex_gap_fill ''h1'' ''buy'' 2 1 1500, ex_gap_fill ''h2'' ''sell'' 1 3 1600]"
proof -
  have m: "changed_markets [(''BTC'', 1)] [(''BTC'', 2)] = [''BTC'']" by code_simp
  have c: "market_candidates ex_gap_fills [(''h0'', ''7'')] ''BTC'' = [ex_gap_fill ''h1'' ''buy'' 2 1 1500, ex_gap_fill ''h2'' ''sell'' 1 3 1600]"
    by code_simp
  have w: "walk [ex_gap_fill ''h1'' ''buy'' 2 1 1500, ex_gap_fill ''h2'' ''sell'' 1 3 1600] 1 = Some 2" by code_simp
  show ?thesis
    using complete_history_repaired [of "[(''BTC'', 1)]" "[(''BTC'', 2)]" ex_gap_fills "[(''h0'', ''7'')]"] w
    by (simp add: m c dget_def record_key_def ex_gap_fill_def)
qed

text \<open>Three fills against a capacity of two: the oldest one is forgotten, the cursor stays at the time of the frame.\<close>

theorem recorded_fills_bounded_witness:
  "int (length (of_source ex_source (gr_db ex_gap_recorded))) \<le> 2 \<and> map id_tid (gd_identities (gr_db ex_gap_recorded)) = [''5'', ''4'']"
proof -
  have start: "make_gap_repair ex_gap_config \<lparr>gd_cursors = [], gd_identities = []\<rparr> = Inr ex_gap_start"
    by (simp add: make_gap_repair_def ex_gap_config_def ex_gap_start_def)
  have "gap_step ex_gap_config ex_gap_start ex_gap_recorded"
    unfolding ex_gap_recorded_def by (rule gap_step.accepted [OF prod.collapse [symmetric]])
  then have "(gap_step ex_gap_config)\<^sup>*\<^sup>* ex_gap_start ex_gap_recorded" by blast
  moreover have "map id_tid (gd_identities (gr_db ex_gap_recorded)) = [''5'', ''4'']" by code_simp
  ultimately show ?thesis using recorded_fills_bounded [OF start, of ex_gap_recorded ex_source] by (simp add: ex_gap_config_def)
qed

theorem gap_cursor_never_back_witness:
  "\<exists>c c'. find_cursor ex_source (gr_db ex_gap_recorded) = Some c \<and> cu_last_good_ms c = 1000 \<and>
     find_cursor ex_source (gr_db ex_gap_ready) = Some c' \<and> cu_last_good_ms c \<le> cu_last_good_ms c'"
proof -
  obtain c where c: "find_cursor ex_source (gr_db ex_gap_recorded) = Some c" "cu_last_good_ms c = 1000"
  proof -
    have "(case find_cursor ex_source (gr_db ex_gap_recorded) of None \<Rightarrow> False | Some c \<Rightarrow> cu_last_good_ms c = 1000)" by code_simp
    then show thesis using that by (auto split: option.splits)
  qed
  have "(gap_step ex_gap_config)\<^sup>*\<^sup>* ex_gap_recorded ex_gap_ready"
    unfolding ex_gap_ready_def by (rule r_into_rtranclp) (rule gap_step.staged)
  then show ?thesis using gap_cursor_never_back [OF _ c(1)] c by blast
qed

end
