(* ===== verification/Preflight.thy ===== *)
theory Preflight
  imports Continuous_Follower
begin

text \<open>
  \<^verbatim>\<open>continuous_preflight.py\<close>: the read-only audit of accounts and identities before a start, with the helpers
  it takes from \<^verbatim>\<open>exchange/hyperliquid.py\<close>.

  The callable that answers information requests is an argument, as a function of the request; an
  exception of it is a missing reply. A blocker is its scope and the fixed part of its text. The counters
  of the report are functions of the list of requests.
\<close>

section \<open>Replies\<close>

datatype reply = Missing | Answer json

type_synonym info_callable = "json \<Rightarrow> json result"

fun answer_field :: "(string \<times> json) list option \<Rightarrow> string \<Rightarrow> reply" where
  "answer_field None k = Missing"
| "answer_field (Some m) k = (if has_key m k then Answer (jget m k) else Missing)"

text \<open>\<open>int(s, 16)\<close> of a lower-case text: a sign, a prefix and single underscores between digits are allowed.\<close>

fun hex_digits_ok :: "string \<Rightarrow> bool" where
  "hex_digits_ok [] = False"
| "hex_digits_ok [c] = is_hex c"
| "hex_digits_ok (c # d # s) = (is_hex c \<and> (if d = CHR ''_'' then hex_digits_ok s else hex_digits_ok (d # s)))"

definition hex_int_ok :: "string \<Rightarrow> bool" where
  "hex_int_ok s =
     (let t = snd (split_sign (py_strip s));
          u = (if prefix ''0x'' t then (if prefix ''0x_'' t then drop 3 t else drop 2 t) else t)
      in hex_digits_ok u)"

definition normalized_address :: "json \<Rightarrow> string option" where
  "normalized_address v =
     (case v of
        JStr s \<Rightarrow>
          (let address = py_lower (py_strip s)
           in if length address \<noteq> 42 \<or> \<not> prefix ''0x'' address \<or> \<not> hex_int_ok (drop 2 address) then None else Some address)
      | _ \<Rightarrow> None)"

definition object_address :: "json \<Rightarrow> string \<Rightarrow> string option" where
  "object_address payload k = (case payload of JObj m \<Rightarrow> normalized_address (jget m k) | _ \<Rightarrow> None)"

definition agent_entries :: "json \<Rightarrow> json list" where
  "agent_entries payload = (case payload of JArr xs \<Rightarrow> xs | _ \<Rightarrow> [payload])"

text \<open>The first entry that is an object of the signer decides.\<close>

definition signer_entry :: "string \<Rightarrow> json \<Rightarrow> (string \<times> json) list option" where
  "signer_entry signer entry =
     (case entry of JObj m \<Rightarrow> if object_address entry ''address'' = Some signer then Some m else None | _ \<Rightarrow> None)"

definition validate_extra_agent :: "json \<Rightarrow> string \<Rightarrow> int \<Rightarrow> string list" where
  "validate_extra_agent payload signer minimum_valid_until_ms =
     (case List.map_filter (signer_entry signer) (agent_entries payload) of
        [] \<Rightarrow> [''API signer is not listed in the active extraAgents'']
      | m # _ \<Rightarrow>
          (case int_text (jget m ''validUntil'') of
             None \<Rightarrow> [''approved API wallet has an invalid validUntil timestamp'']
           | Some t \<Rightarrow> if t \<le> minimum_valid_until_ms then [''approved API wallet registration is expired''] else []))"

definition agent_valid_until :: "json \<Rightarrow> string \<Rightarrow> int option" where
  "agent_valid_until payload signer =
     (case List.map_filter (signer_entry signer) (agent_entries payload) of [] \<Rightarrow> None | m # _ \<Rightarrow> int_text (jget m ''validUntil''))"


section \<open>Collateral\<close>

text \<open>The balances of the spot state that are USDC, and the blockers of malformed ones.\<close>

fun usdc_balances :: "json list \<Rightarrow> (string \<times> json) list list \<times> string list" where
  "usdc_balances [] = ([], [])"
| "usdc_balances (b # bs) =
     (case usdc_balances bs of (found, blockers) \<Rightarrow>
       (case b of
          JObj m \<Rightarrow>
            if py_upper (if has_key m ''coin'' then full_text (jget m ''coin'') else []) = ''USDC'' then (m # found, blockers) else (found, blockers)
        | _ \<Rightarrow> (found, ''spot balance entry must be an object'' # blockers)))"

definition token_blockers :: "json \<Rightarrow> string list" where
  "token_blockers token =
     (if token = JNull then [''Spot USDC balance is missing collateral token index 0'']
      else case int_text token of
        None \<Rightarrow> [''Spot USDC token index is invalid'']
      | Some n \<Rightarrow> if n \<noteq> 0 then [''Spot USDC balance must use collateral token index 0''] else [])"

definition spot_usdc_collateral :: "json \<Rightarrow> rat option \<times> rat option \<times> string list" where
  "spot_usdc_collateral spot_state =
     (case spot_state of
        JObj m \<Rightarrow>
          (case jget m ''balances'' of
             JArr rows \<Rightarrow>
               (case usdc_balances rows of
                  ([b], bad) \<Rightarrow>
                    let blockers = bad @ token_blockers (jget b ''token'') in
                    (case rbind (parse_number (jget b ''total'')) (\<lambda>amount. rbind (parse_number (jget b ''hold'')) (\<lambda>hold. Inr (amount, hold))) of
                       Inl _ \<Rightarrow> (None, None, blockers @ [''Spot USDC collateral is not parseable''])
                     | Inr (amount, hold) \<Rightarrow>
                         (Some amount, Some hold,
                          blockers @ (if amount < 0 then [''Spot USDC total cannot be negative''] else []) @
                          (if hold < 0 then [''Spot USDC hold cannot be negative''] else []) @
                          (if hold > amount then [''Spot USDC hold cannot exceed total''] else [])))
                | (_, bad) \<Rightarrow> (None, None, bad @ [''unified account requires exactly one Spot USDC balance entry'']))
           | _ \<Rightarrow> (None, None, [''spot state is missing balances list'']))
      | _ \<Rightarrow> (None, None, [''spot state must be an object for unified accounts'']))"

record collateral =
  co_total :: "rat option"
  co_hold :: "rat option"
  co_available :: "rat option"
  co_by_dex :: "(string \<times> rat option) list"
  co_valid :: bool

definition empty_collateral :: collateral where
  "empty_collateral = \<lparr>co_total = None, co_hold = None, co_available = None, co_by_dex = [], co_valid = False\<rparr>"

definition collateral_summary :: "reply \<Rightarrow> bool \<Rightarrow> collateral \<times> string list" where
  "collateral_summary payload require_available =
     (case payload of
        Missing \<Rightarrow> (empty_collateral, [''spotClearinghouseState query failed''])
      | Answer v \<Rightarrow>
          (case spot_usdc_collateral v of
             (amount, hold, bad) \<Rightarrow>
               let available = (case (amount, hold) of (Some t, Some h) \<Rightarrow> if h \<le> t then Some (dsub t h) else None | _ \<Rightarrow> None);
                   blockers = bad @
                     (case available of
                        None \<Rightarrow> []
                      | Some a \<Rightarrow>
                          (if the amount \<le> 0 then [''token-0 Spot USDC total is not positive''] else []) @
                          (if require_available \<and> a \<le> 0 then [''token-0 Spot USDC available collateral is not positive''] else []))
               in (\<lparr>co_total = amount, co_hold = hold, co_available = available, co_by_dex = [], co_valid = blockers = []\<rparr>, blockers)))"

text \<open>The account value of a DEX state that a standard source sizes by.\<close>

definition dex_account_value :: "reply \<Rightarrow> rat option \<times> string list" where
  "dex_account_value payload =
     (case payload of
        Missing \<Rightarrow> (None, [''clearinghouseState query failed''])
      | Answer (JObj m) \<Rightarrow>
          (let raw = (case jget m ''marginSummary'' of JObj sm \<Rightarrow> jget sm ''accountValue'' | _ \<Rightarrow> JNull);
               bad = (None, [''accountValue is malformed''])
           in if raw = JNull then bad
              else case parse_decimal (py_str raw) of
                Some (Fin v) \<Rightarrow> if v < 0 then bad else (Some v, [])
              | _ \<Rightarrow> bad)
      | Answer _ \<Rightarrow> (None, [''clearinghouseState is malformed'']))"

record dex_summary =
  dx_count :: nat
  dx_markets :: "string list"

fun standard_equity_from :: "(string \<times> reply \<times> dex_summary) list \<Rightarrow> rat \<Rightarrow> rat \<times> (string \<times> rat option) list \<times> string list" where
  "standard_equity_from [] amount = (amount, [], [])"
| "standard_equity_from ((dex, state, positions) # rest) amount =
     (case dex_account_value state of
        (equity, bad) \<Rightarrow>
          let amount' = (case equity of None \<Rightarrow> amount | Some v \<Rightarrow> dadd amount v);
              flat = (case equity of None \<Rightarrow> [] | Some v \<Rightarrow> if dx_count positions \<noteq> 0 \<and> v \<le> 0 then [''nonflat with no accountValue''] else [])
          in (case standard_equity_from rest amount' of
                (final, by_dex, blockers) \<Rightarrow> (final, (if dex = [] then ''<default>'' else dex, equity) # by_dex, bad @ flat @ blockers)))"

definition standard_source_equity :: "(string \<times> reply \<times> dex_summary) list \<Rightarrow> collateral \<times> string list" where
  "standard_source_equity states =
     (case standard_equity_from states 0 of
        (amount, by_dex, bad) \<Rightarrow>
          let blockers = bad @ (if amount \<le> 0 then [''relevant DEX accountValue total is not positive''] else [])
          in (\<lparr>co_total = Some amount, co_hold = None, co_available = None, co_by_dex = by_dex, co_valid = blockers = []\<rparr>, blockers))"


section \<open>Positions and orders\<close>

definition market_for_dex :: "json \<Rightarrow> string \<Rightarrow> string option" where
  "market_for_dex raw dex =
     (case raw of
        JStr s \<Rightarrow>
          if py_strip s = [] then None
          else
            let candidate = (if dex \<noteq> [] \<and> CHR '':'' \<notin> set (py_strip s) then dex @ '':'' @ py_strip s else py_strip s) in
            (case canonical_market_symbol candidate of
               Inl _ \<Rightarrow> None
             | Inr market \<Rightarrow> if market_dex market = Inr dex then Some market else None)
      | _ \<Rightarrow> None)"

definition no_positions :: dex_summary where "no_positions = \<lparr>dx_count = 0, dx_markets = []\<rparr>"

text \<open>One row: the market of an open position, or a blocker, or nothing for a flat one.\<close>

definition position_entry :: "string \<Rightarrow> json \<Rightarrow> string list \<times> string list" where
  "position_entry dex row =
     (case row of
        JObj r \<Rightarrow>
          (case jget r ''position'' of
             JObj p \<Rightarrow>
               (case parse_decimal (py_str (jget p ''szi'')) of
                  None \<Rightarrow> ([], [''position size is malformed''])
                | Some d \<Rightarrow>
                    if \<not> is_finite d then ([], [''position size is not finite''])
                    else if dec_val d = 0 then ([], [])
                    else case market_for_dex (jget p ''coin'') dex of
                      None \<Rightarrow> ([], [''position market is malformed''])
                    | Some m \<Rightarrow> ([m], []))
           | _ \<Rightarrow> ([], [''position entry is malformed'']))
      | _ \<Rightarrow> ([], [''position entry is malformed'']))"

definition position_summary :: "reply \<Rightarrow> string \<Rightarrow> dex_summary \<times> string list" where
  "position_summary payload dex =
     (case payload of
        Missing \<Rightarrow> (no_positions, [])
      | Answer v \<Rightarrow>
          (case v of
             JObj m \<Rightarrow>
               (case jget m ''assetPositions'' of
                  JArr rows \<Rightarrow>
                    let markets = concat (map (fst \<circ> position_entry dex) rows)
                    in (\<lparr>dx_count = length markets, dx_markets = sort (remdups markets)\<rparr>, concat (map (snd \<circ> position_entry dex) rows))
                | _ \<Rightarrow> (no_positions, [''clearinghouseState is malformed'']))
           | _ \<Rightarrow> (no_positions, [''clearinghouseState is malformed''])))"

definition order_entry :: "string \<Rightarrow> json \<Rightarrow> string list \<times> string list" where
  "order_entry dex order =
     (case order of
        JObj m \<Rightarrow> (case market_for_dex (jget m ''coin'') dex of None \<Rightarrow> ([], [''open-order market is malformed'']) | Some k \<Rightarrow> ([k], []))
      | _ \<Rightarrow> ([], [''open-order entry is malformed'']))"

definition open_order_summary :: "reply \<Rightarrow> string \<Rightarrow> dex_summary \<times> string list" where
  "open_order_summary payload dex =
     (case payload of
        Missing \<Rightarrow> (no_positions, [])
      | Answer (JArr rows) \<Rightarrow>
          (\<lparr>dx_count = length rows, dx_markets = sort (remdups (concat (map (fst \<circ> order_entry dex) rows)))\<rparr>,
           concat (map (snd \<circ> order_entry dex) rows))
      | Answer _ \<Rightarrow> (no_positions, [''openOrders is malformed'']))"


section \<open>Subaccounts\<close>

definition add_subaccount ::
  "string \<Rightarrow> json \<Rightarrow> (string \<times> (string \<times> json) list) list \<times> string list \<Rightarrow> (string \<times> (string \<times> json) list) list \<times> string list" where
  "add_subaccount master row acc =
     (case acc of (records, blockers) \<Rightarrow>
       (case row of
          JObj m \<Rightarrow>
            (case (object_address row ''subAccountUser'', object_address row ''master'') of
               (Some follower, Some returned) \<Rightarrow>
                 if returned \<noteq> master then (records, blockers @ [''subAccounts entry belongs to a different master''])
                 else if map_of records follower \<noteq> None then (records, blockers @ [''subAccounts contains a duplicate follower identity''])
                 else (records @ [(follower, m)], blockers)
             | _ \<Rightarrow> (records, blockers @ [''subAccounts entry has malformed follower or master identity'']))
        | _ \<Rightarrow> (records, blockers @ [''subAccounts contains a malformed entry''])))"

definition subaccount_inventory :: "reply \<Rightarrow> string \<Rightarrow> (string \<times> (string \<times> json) list) list \<times> string list" where
  "subaccount_inventory payload master =
     (case payload of
        Missing \<Rightarrow> ([], [''subAccounts response is missing''])
      | Answer (JArr rows) \<Rightarrow> fold (add_subaccount master) rows ([], [])
      | Answer _ \<Rightarrow> ([], [''subAccounts response is malformed'']))"


section \<open>The audit of one slot\<close>

text \<open>What the audit has asked, as slot and request type, and the blockers so far, as scope and text.\<close>

record preflight_state =
  pf_queries :: "(string \<times> string) list"
  pf_blockers :: "(string \<times> string) list"

definition info_request :: "string \<Rightarrow> string \<Rightarrow> string \<Rightarrow> json" where
  "info_request request_type user dex =
     JObj ([(''type'', JStr request_type), (''user'', JStr user)] @ (if dex = [] then [] else [(''dex'', JStr dex)]))"

definition preflight_query :: "info_callable \<Rightarrow> string \<Rightarrow> string \<Rightarrow> string \<Rightarrow> string \<Rightarrow> string \<Rightarrow> preflight_state \<Rightarrow> reply \<times> preflight_state" where
  "preflight_query info slot scope request_type user dex st =
     (let st1 = st\<lparr>pf_queries := pf_queries st @ [(slot, request_type)]\<rparr> in
      case info (info_request request_type user dex) of
        Inr v \<Rightarrow> (Answer v, st1)
      | Inl _ \<Rightarrow> (Missing, st1\<lparr>pf_blockers := pf_blockers st1 @ [(slot, scope @ '' '' @ request_type @ '' query failed'')]\<rparr>))"

definition account_mode :: "reply \<Rightarrow> HyperliquidUserAbstraction option" where
  "account_mode payload = (case payload of Missing \<Rightarrow> None | Answer v \<Rightarrow> classify_user_abstraction v)"

definition mode_value :: "HyperliquidUserAbstraction \<Rightarrow> string" where
  "mode_value m =
     (case m of STANDARD \<Rightarrow> ''standard'' | UNIFIED \<Rightarrow> ''unified'' | PORTFOLIO_MARGIN \<Rightarrow> ''portfoliomargin'' | DEX_ABSTRACTION \<Rightarrow> ''dexabstraction'')"

definition dex_order :: "string list \<Rightarrow> string list" where
  "dex_order dexes = sort_key (\<lambda>d. (d \<noteq> [], d)) (remdups dexes)"

definition relevant_dexes :: "string list \<Rightarrow> string list result" where
  "relevant_dexes markets = rbind (rmap market_dex markets) (\<lambda>dexes. Inr (dex_order dexes))"

definition identity_blockers :: "string \<Rightarrow> string \<Rightarrow> string \<Rightarrow> string \<Rightarrow> string \<Rightarrow> string list" where
  "identity_blockers source follower signer global_account expected =
     (if address_re source then [] else [''source address is invalid'']) @
     (if address_re follower then [] else [''follower address is invalid'']) @
     (if address_re signer then [] else [''signer address is invalid'']) @
     (if address_re global_account then [] else [''global account address is invalid'']) @
     (if source = follower then [''source and follower identities must differ''] else []) @
     (if signer \<in> {source, follower, global_account} then [''API signer must differ from source, follower, and global accounts''] else []) @
     (if expected \<notin> {''standard'', ''unified''} then [''expected account mode must be standard or unified''] else []) @
     (if expected \<noteq> ''unified'' then [''continuous-v1 supports unified follower accounts only''] else [])"

fun scan_source :: "info_callable \<Rightarrow> string \<Rightarrow> string \<Rightarrow> string list \<Rightarrow> preflight_state \<Rightarrow> (string \<times> reply \<times> dex_summary) list \<times> string list \<times> preflight_state" where
  "scan_source info slot source [] st = ([], [], st)"
| "scan_source info slot source (dex # dexes) st =
     (case preflight_query info slot ''source'' ''clearinghouseState'' source dex st of
        (state, st1) \<Rightarrow>
          (case position_summary state dex of
             (summary, bad) \<Rightarrow>
               (case scan_source info slot source dexes st1 of
                  (rest, blockers, st2) \<Rightarrow> ((dex, state, summary) # rest, bad @ blockers, st2))))"

text \<open>The follower's native state is part of its subaccount entry.\<close>

fun scan_follower ::
  "info_callable \<Rightarrow> string \<Rightarrow> string \<Rightarrow> (string \<times> json) list option \<Rightarrow> bool \<Rightarrow> string list \<Rightarrow> preflight_state \<Rightarrow>
   (string \<times> dex_summary \<times> dex_summary option) list \<times> string list \<times> preflight_state" where
  "scan_follower info slot follower subaccount with_orders [] st = ([], [], st)"
| "scan_follower info slot follower subaccount with_orders (dex # dexes) st =
     (case (if dex = [] \<and> subaccount \<noteq> None then (answer_field subaccount ''clearinghouseState'', st)
            else preflight_query info slot ''follower'' ''clearinghouseState'' follower dex st) of
        (state, st1) \<Rightarrow>
          (case position_summary state dex of
             (positions, bad) \<Rightarrow>
               (case (if with_orders
                      then (case preflight_query info slot ''follower'' ''openOrders'' follower dex st1 of
                              (reply, st2) \<Rightarrow> (case open_order_summary reply dex of (orders, worse) \<Rightarrow> (Some orders, worse, st2)))
                      else (None, [], st1)) of
                  (orders, worse, st2) \<Rightarrow>
                    (case scan_follower info slot follower subaccount with_orders dexes st2 of
                       (rest, blockers, st3) \<Rightarrow> ((dex, positions, orders) # rest, bad @ worse @ blockers, st3)))))"

datatype equity_basis = Unified_Spot_Total | Standard_Dex_Sum | Unresolved

record slot_audit =
  sa_slot :: string
  sa_source_mode :: "HyperliquidUserAbstraction option"
  sa_equity_basis :: equity_basis
  sa_follower_mode :: "HyperliquidUserAbstraction option"
  sa_signer_authorized :: bool
  sa_valid_until :: "int option"
  sa_source_collateral :: collateral
  sa_follower_collateral :: collateral
  sa_source_dexes :: "(string \<times> dex_summary) list"
  sa_follower_dexes :: "(string \<times> dex_summary \<times> dex_summary option) list"
  sa_nonflat :: bool
  sa_order_count :: "nat option"
  sa_blockers :: "string list"

definition source_equity ::
  "info_callable \<Rightarrow> string \<Rightarrow> string \<Rightarrow> HyperliquidUserAbstraction option \<Rightarrow> (string \<times> reply \<times> dex_summary) list \<Rightarrow> preflight_state \<Rightarrow>
   (collateral \<times> string list \<times> equity_basis) \<times> preflight_state" where
  "source_equity info slot source mode states st =
     (if mode = Some UNIFIED
      then (case preflight_query info slot ''source'' ''spotClearinghouseState'' source [] st of
              (spot, st1) \<Rightarrow> (case collateral_summary spot False of (c, bad) \<Rightarrow> ((c, bad, Unified_Spot_Total), st1)))
      else if mode = Some STANDARD
      then (case standard_source_equity states of (c, bad) \<Rightarrow> ((c, bad, Standard_Dex_Sum), st))
      else ((empty_collateral, [''source account mode is unresolved''], Unresolved), st))"

definition audit_slot ::
  "info_callable \<Rightarrow> BoundContinuousSlot \<Rightarrow> int \<Rightarrow> string list option \<Rightarrow> (string \<times> json) list option \<Rightarrow> reply \<Rightarrow> bool \<Rightarrow> preflight_state \<Rightarrow>
   (slot_audit \<times> preflight_state) result" where
  "audit_slot info slot now audit_dexes subaccount agents with_orders st =
     (let cfg = b_config slot; sid = slot_id cfg; source = py_lower (source_address cfg); follower = py_lower (follower_account_address cfg);
          signer = py_lower (b_api_wallet_address slot); global_account = py_lower (b_global_account_address slot);
          expected = py_lower (py_strip (b_expected_account_mode slot));
          (source_reply, st1) = preflight_query info sid ''source'' ''userAbstraction'' source [] st;
          source_mode = account_mode source_reply;
          (follower_reply, st2) = preflight_query info sid ''follower'' ''userAbstraction'' follower [] st1;
          follower_mode = account_mode follower_reply;
          (authorized, valid_until, unauthorized) =
            (case agents of
               Missing \<Rightarrow> (False, None, [])
             | Answer v \<Rightarrow> (let bad = validate_extra_agent v signer now in (bad = [], agent_valid_until v signer, bad)));
          (follower_collateral, poor) = collateral_summary (answer_field subaccount ''spotState'') True in
      rbind (relevant_dexes (allowed_markets cfg)) (\<lambda>source_dexes.
      let follower_dexes = (case audit_dexes of None \<Rightarrow> source_dexes | Some ds \<Rightarrow> dex_order (source_dexes @ ds));
          (states, source_bad, st3) = scan_source info sid source source_dexes st2;
          ((source_collateral, source_poor, basis), st4) = source_equity info sid source source_mode states st3;
          (dexes, follower_bad, st5) = scan_follower info sid follower subaccount with_orders follower_dexes st4;
          blockers = identity_blockers source follower signer global_account expected @
            (if source_mode \<notin> {Some STANDARD, Some UNIFIED} then [''continuous-v1 source must use standard or unified mode''] else []) @
            (if map_option mode_value follower_mode \<noteq> Some expected then [''follower account mode does not match the bound Unified profile''] else []) @
            (if subaccount = None then [''follower is absent from the subAccounts inventory''] else []) @
            unauthorized @ poor @ source_bad @ source_poor @ follower_bad
      in Inr (\<lparr>sa_slot = sid, sa_source_mode = source_mode, sa_equity_basis = basis, sa_follower_mode = follower_mode,
                sa_signer_authorized = authorized, sa_valid_until = valid_until, sa_source_collateral = source_collateral,
                sa_follower_collateral = follower_collateral, sa_source_dexes = map (\<lambda>(d, _, s). (d, s)) states, sa_follower_dexes = dexes,
                sa_nonflat = list_ex (\<lambda>(_, p, _). 0 < dx_count p) dexes,
                sa_order_count = (if with_orders then Some (sum_list (map (\<lambda>(_, _, ord). case ord of None \<Rightarrow> 0 | Some s \<Rightarrow> dx_count s) dexes)) else None),
                sa_blockers = blockers\<rparr>, st5)))"


section \<open>The audit\<close>

record preflight_report =
  rp_network :: string
  rp_observed_ms :: int
  rp_passed :: bool
  rp_blockers :: "(string \<times> string) list"
  rp_slots :: "slot_audit list"
  rp_queries :: "(string \<times> string) list"

definition plan_scope :: string where "plan_scope = ''plan''"

definition config_matches :: "BoundContinuousSlot \<Rightarrow> ContinuousSlotConfig option \<Rightarrow> bool" where
  "config_matches slot configured =
     (case configured of
        None \<Rightarrow> False
      | Some k \<Rightarrow> b_config slot = k \<or> b_dynamic_market_eligibility slot \<and> (b_config slot)\<lparr>allowed_markets := allowed_markets k\<rparr> = k)"

text \<open>The blockers of the bound slots against the enabled ones.\<close>

fun bound_blockers :: "(string \<times> ContinuousSlotConfig) list \<Rightarrow> string list \<Rightarrow> BoundContinuousSlot list \<Rightarrow> (string \<times> string) list" where
  "bound_blockers enabled seen [] = []"
| "bound_blockers enabled seen (slot # slots) =
     (let sid = slot_id (b_config slot) in
      (if sid \<in> set seen then [(sid, ''duplicate bound slot'')] else []) @
      (if config_matches slot (map_of enabled sid) then [] else [(sid, ''bound slot does not match the enabled plan'')]) @
      bound_blockers enabled (sid # seen) slots)"

definition binding_blockers :: "BoundContinuousPlan \<Rightarrow> (string \<times> string) list" where
  "binding_blockers bound =
     (let enabled = rev (map (\<lambda>s. (slot_id s, s)) (enabled_slots (bound_plan bound)));
          signers = map (py_lower \<circ> b_api_wallet_address) (bound_slots bound) in
      bound_blockers enabled [] (bound_slots bound) @
      (if set (map fst enabled) \<subseteq> set (map (slot_id \<circ> b_config) (bound_slots bound)) then [] else [(plan_scope, ''enabled slots are not bound'')]) @
      (if distinct signers then [] else [(plan_scope, ''enabled slots require distinct API wallet signers'')]))"

text \<open>The DEXes to audit, and the blockers of a bounded canary.\<close>

definition canary_dexes :: "string \<Rightarrow> bool \<Rightarrow> string list option \<Rightarrow> CatalogRevision option \<Rightarrow> string list option \<times> (string \<times> string) list" where
  "canary_dexes network require_flat audit_dexes catalog =
     (let normalized = map_option dex_order audit_dexes in
      if \<not> require_flat then (normalized, [])
      else case catalog of
        None \<Rightarrow> (normalized, [(plan_scope, ''bounded canary requires a pinned complete DEX catalog'')])
      | Some k \<Rightarrow>
          let dexes = catalog_position_dexes k in
          (Some dexes,
           (if py_lower (py_strip (cr_network k)) \<noteq> network then [(plan_scope, ''bounded canary DEX catalog network does not match'')] else []) @
           (if normalized \<noteq> None \<and> normalized \<noteq> Some dexes
            then [(plan_scope, ''bounded canary audit DEX set is not the pinned complete catalog'')] else [])))"

text \<open>The subaccounts and agents of every master account.\<close>

type_synonym master_context = "(string \<times> (string \<times> json) list) list \<times> reply"

fun master_contexts :: "info_callable \<Rightarrow> nat \<Rightarrow> string list \<Rightarrow> preflight_state \<Rightarrow> (string \<times> master_context) list \<times> preflight_state" where
  "master_contexts info n [] st = ([], st)"
| "master_contexts info n (master # masters) st =
     (let scope = ''master-'' @ show_nat n;
          (subaccounts, st1) = preflight_query info scope ''subaccount topology'' ''subAccounts'' master [] st;
          (followers, bad) = subaccount_inventory subaccounts master;
          st2 = st1\<lparr>pf_blockers := pf_blockers st1 @ map (Pair scope) bad\<rparr>;
          (agents, st3) = preflight_query info scope ''API-wallet authorization inventory'' ''extraAgents'' master [] st2;
          st4 = (case agents of
                   Answer (JArr _) \<Rightarrow> st3
                 | _ \<Rightarrow> st3\<lparr>pf_blockers := pf_blockers st3 @ [(scope, ''extraAgents response is missing or malformed'')]\<rparr>);
          (rest, st5) = master_contexts info (n + 1) masters st4
      in ((master, (followers, agents)) # rest, st5))"

definition audit_in_context ::
  "info_callable \<Rightarrow> int \<Rightarrow> string list option \<Rightarrow> bool \<Rightarrow> bool \<Rightarrow> (string \<times> master_context) list \<Rightarrow> BoundContinuousSlot \<Rightarrow>
   slot_audit list \<times> preflight_state \<Rightarrow> (slot_audit list \<times> preflight_state) result" where
  "audit_in_context info now audit_dexes require_flat require_orders contexts slot acc =
     (case acc of (audits, st) \<Rightarrow>
       let (followers, agents) = (case map_of contexts (py_lower (b_global_account_address slot)) of None \<Rightarrow> ([], Missing) | Some k \<Rightarrow> k) in
       rbind (audit_slot info slot now audit_dexes (map_of followers (py_lower (follower_account_address (b_config slot)))) agents
                (require_orders \<or> require_flat) st) (\<lambda>(audit, st1).
       let busy = (case sa_order_count audit of None \<Rightarrow> False | Some n \<Rightarrow> n \<noteq> 0);
           blockers = sa_blockers audit @
             (if require_orders \<and> busy then [''continuous startup requires an order-free follower''] else []) @
             (if require_flat \<and> sa_nonflat audit then [''bounded canary requires a flat follower''] else []) @
             (if require_flat \<and> busy then [''bounded canary requires an order-free follower''] else [])
       in Inr (audits @ [audit\<lparr>sa_blockers := blockers\<rparr>],
               st1\<lparr>pf_blockers := pf_blockers st1 @ map (Pair (slot_id (b_config slot))) blockers\<rparr>)))"

definition run_continuous_preflight ::
  "BoundContinuousPlan \<Rightarrow> string \<Rightarrow> info_callable \<Rightarrow> int \<Rightarrow> bool \<Rightarrow> bool \<Rightarrow> string list option \<Rightarrow> CatalogRevision option \<Rightarrow> preflight_report result" where
  "run_continuous_preflight bound network info now require_flat require_orders audit_dexes catalog =
     (let net = py_lower (py_strip network) in
      rbind (require (net \<in> {''mainnet'', ''testnet''}) (ValueError ''network must explicitly be mainnet or testnet'')) (\<lambda>_.
      rbind (require (0 < now) (ValueError ''observed_ms must be a positive integer'')) (\<lambda>_.
      let same = (net = plan_network (bound_plan bound));
          (dexes, canary) = canary_dexes net require_flat audit_dexes catalog;
          st0 = \<lparr>pf_queries = [],
            pf_blockers = (if same then [] else [(plan_scope, ''explicit network does not match the continuous plan network'')]) @ canary @ binding_blockers bound\<rparr> in
      rbind (if \<not> same then Inr ([], st0)
             else let (contexts, st1) = master_contexts info 1 (sort (remdups (map (py_lower \<circ> b_global_account_address) (bound_slots bound)))) st0
                  in rfold (audit_in_context info now dexes require_flat require_orders contexts) (bound_slots bound) ([], st1)) (\<lambda>(audits, st).
      Inr \<lparr>rp_network = net, rp_observed_ms = now, rp_passed = (pf_blockers st = [] \<and> length audits = length (bound_slots bound)),
           rp_blockers = pf_blockers st, rp_slots = audits, rp_queries = pf_queries st\<rparr>))))"

text \<open>The weight of a report, and of one of its slots.\<close>

definition query_weight :: "string \<times> string \<Rightarrow> int" where
  "query_weight q = (case authoritative_rest_weight (''info:'' @ snd q) of Inl _ \<Rightarrow> 0 | Inr w \<Rightarrow> w)"

definition report_weight :: "preflight_report \<Rightarrow> int" where
  "report_weight rp = sum_list (map query_weight (rp_queries rp))"

definition slot_weight :: "preflight_report \<Rightarrow> string \<Rightarrow> int" where
  "slot_weight rp slot = sum_list (map query_weight (filter (\<lambda>q. fst q = slot) (rp_queries rp)))"

text \<open>How the report shows an address.\<close>

definition redact_address :: "string option \<Rightarrow> string option" where
  "redact_address address =
     (case address of
        None \<Rightarrow> None
      | Some raw \<Rightarrow>
          (let normalized = py_lower raw in
           if \<not> address_re normalized then Some ''<invalid-address>''
           else Some (take 8 normalized @ ''...'' @ drop (length normalized - 6) normalized)))"

end
