(* ===== verification/Preflight_Safety.thy ===== *)
theory Preflight_Safety
  imports Preflight
begin

text \<open>
  What a passed audit has seen. A query that is not answered leaves a blocker, and blockers are only ever
  added, so a report without blockers rests on answers alone.
\<close>

section \<open>No blocker, no missing reply\<close>

abbreviation clean :: "preflight_state \<Rightarrow> bool" where
  "clean st \<equiv> pf_blockers st = []"

lemma query_clean:
  assumes "preflight_query info slot scope t user dex st = (rep, st')" and "clean st'"
  shows "clean st" "\<exists>v. rep = Answer v \<and> info (info_request t user dex) = Inr v"
  using assms by (auto simp: preflight_query_def Let_def split: sum.splits)

lemma scan_source_clean: "scan_source info slot source dexes st = (xs, bad, st') \<Longrightarrow> clean st' \<Longrightarrow> clean st"
  by (induction dexes arbitrary: st xs bad st') (auto split: prod.splits dest: query_clean(1))

lemma source_equity_clean: "source_equity info slot source mode states st = (x, st') \<Longrightarrow> clean st' \<Longrightarrow> clean st"
  by (auto simp: source_equity_def split: prod.splits if_splits dest: query_clean(1))

text \<open>What the scan of the follower saw of one DEX.\<close>

definition flat_state :: "json \<Rightarrow> bool" where
  "flat_state v \<longleftrightarrow> (\<exists>m rows. v = JObj m \<and> jget m ''assetPositions'' = JArr rows \<and>
     (\<forall>row \<in> set rows. \<exists>r p. row = JObj r \<and> jget r ''position'' = JObj p \<and> parse_decimal (py_str (jget p ''szi'')) = Some (Fin 0)))"

lemma position_entry_flat:
  assumes "position_entry dex row = ([], [])"
  shows "\<exists>r p. row = JObj r \<and> jget r ''position'' = JObj p \<and> parse_decimal (py_str (jget p ''szi'')) = Some (Fin 0)"
proof -
  have "dec_val d = 0 \<Longrightarrow> is_finite d \<Longrightarrow> d = Fin 0" for d by (cases d) auto
  then show ?thesis using assms by (auto simp: position_entry_def split: json.splits option.splits if_splits)
qed

lemma position_summary_flat:
  assumes "position_summary (Answer v) dex = (summary, [])" and "dx_count summary = 0"
  shows "flat_state v"
proof -
  obtain m rows where v: "v = JObj m" "jget m ''assetPositions'' = JArr rows"
    and s: "summary = \<lparr>dx_count = length (concat (map (fst \<circ> position_entry dex) rows)), dx_markets = sort (remdups (concat (map (fst \<circ> position_entry dex) rows)))\<rparr>"
    and b: "concat (map (snd \<circ> position_entry dex) rows) = []"
    using assms(1) by (auto simp: position_summary_def Let_def split: json.splits)
  have "position_entry dex row = ([], [])" if "row \<in> set rows" for row
    using that b s assms(2) by (intro prod_eqI) auto
  then show ?thesis using v position_entry_flat unfolding flat_state_def by blast
qed

definition dex_state :: "info_callable \<Rightarrow> string \<Rightarrow> (string \<times> json) list option \<Rightarrow> string \<Rightarrow> reply" where
  "dex_state info follower subaccount dex =
     (if dex = [] \<and> subaccount \<noteq> None then answer_field subaccount ''clearinghouseState''
      else case info (info_request ''clearinghouseState'' follower dex) of Inr v \<Rightarrow> Answer v | Inl _ \<Rightarrow> Missing)"

lemma scan_follower_clean:
  assumes "scan_follower info slot follower subaccount with_orders dexes st = (xs, [], st')" and "clean st'"
  shows "clean st \<and> map fst xs = dexes \<and>
    (\<forall>(d, p, ords) \<in> set xs. position_summary (dex_state info follower subaccount d) d = (p, []) \<and>
      (d \<noteq> [] \<or> subaccount = None \<longrightarrow> dex_state info follower subaccount d \<noteq> Missing) \<and>
      (with_orders \<longrightarrow> (\<exists>rows n. info (info_request ''openOrders'' follower d) = Inr (JArr rows) \<and> ords = Some n \<and> dx_count n = length rows)))"
  using assms
proof (induction dexes arbitrary: st xs st')
  case Nil
  then show ?case by simp
next
  case (Cons d ds)
  let ?first = "if d = [] \<and> subaccount \<noteq> None then (answer_field subaccount ''clearinghouseState'', st)
    else preflight_query info slot ''follower'' ''clearinghouseState'' follower d st"
  obtain state st1 where first: "?first = (state, st1)" by fastforce
  obtain p bad where pos: "position_summary state d = (p, bad)" by fastforce
  let ?ord = "if with_orders then (case preflight_query info slot ''follower'' ''openOrders'' follower d st1 of
      (reply, st2) \<Rightarrow> (case open_order_summary reply d of (orders, worse) \<Rightarrow> (Some orders, worse, st2))) else (None, [], st1)"
  obtain ords worse st2 where ord: "?ord = (ords, worse, st2)" by (metis prod_cases3)
  obtain rest blockers st3 where more: "scan_follower info slot follower subaccount with_orders ds st2 = (rest, blockers, st3)" by (metis prod_cases3)
  have eq: "xs = (d, p, ords) # rest" "bad @ worse @ blockers = []" "st' = st3"
    using Cons.prems(1) unfolding scan_follower.simps first prod.case pos ord more by auto
  have ih: "clean st2 \<and> map fst rest = ds \<and>
    (\<forall>(d, p, ords) \<in> set rest. position_summary (dex_state info follower subaccount d) d = (p, []) \<and>
      (d \<noteq> [] \<or> subaccount = None \<longrightarrow> dex_state info follower subaccount d \<noteq> Missing) \<and>
      (with_orders \<longrightarrow> (\<exists>rows n. info (info_request ''openOrders'' follower d) = Inr (JArr rows) \<and> ords = Some n \<and> dx_count n = length rows)))"
    using Cons.IH [of st2 rest st3] more eq Cons.prems(2) by simp
  have orders: "clean st1 \<and> (with_orders \<longrightarrow> (\<exists>rows n. info (info_request ''openOrders'' follower d) = Inr (JArr rows) \<and> ords = Some n \<and> dx_count n = length rows))"
  proof (cases with_orders)
    case True
    then obtain reply where q: "preflight_query info slot ''follower'' ''openOrders'' follower d st1 = (reply, st2)"
      and o': "open_order_summary reply d = (the ords, worse)" "ords \<noteq> None"
      using ord by (auto split: prod.splits)
    have c: "clean st2" using ih by blast
    from query_clean [OF q c] o' eq(2) show ?thesis
      by (auto simp: open_order_summary_def split: json.splits)
  next
    case False
    then show ?thesis using ord ih by simp
  qed
  have "clean st \<and> state = dex_state info follower subaccount d \<and> (d \<noteq> [] \<or> subaccount = None \<longrightarrow> state \<noteq> Missing)"
  proof (cases "d = [] \<and> subaccount \<noteq> None")
    case True
    then show ?thesis using first orders by (auto simp: dex_state_def)
  next
    case False
    have q: "preflight_query info slot ''follower'' ''clearinghouseState'' follower d st = (state, st1)"
      using first unfolding if_not_P [OF False] .
    show ?thesis using query_clean [OF q] orders False by (auto simp: dex_state_def)
  qed
  then show ?case using ih orders pos eq by auto
qed


section \<open>A slot without blockers\<close>

definition follower_of :: "BoundContinuousSlot \<Rightarrow> string" where
  "follower_of slot = py_lower (follower_account_address (b_config slot))"

definition signer_of :: "BoundContinuousSlot \<Rightarrow> string" where
  "signer_of slot = py_lower (b_api_wallet_address slot)"

definition master_of :: "BoundContinuousSlot \<Rightarrow> string" where
  "master_of slot = py_lower (b_global_account_address slot)"

definition mode_known :: "info_callable \<Rightarrow> string \<Rightarrow> HyperliquidUserAbstraction set \<Rightarrow> bool" where
  "mode_known info user modes \<longleftrightarrow> (\<exists>v m. info (info_request ''userAbstraction'' user []) = Inr v \<and> classify_user_abstraction v = Some m \<and> m \<in> modes)"

definition identities_ok :: "BoundContinuousSlot \<Rightarrow> bool" where
  "identities_ok slot \<longleftrightarrow>
     list_all address_re [py_lower (source_address (b_config slot)), follower_of slot, signer_of slot, master_of slot] \<and>
     py_lower (source_address (b_config slot)) \<noteq> follower_of slot \<and>
     signer_of slot \<notin> {py_lower (source_address (b_config slot)), follower_of slot, master_of slot} \<and>
     py_lower (py_strip (b_expected_account_mode slot)) = ''unified''"

lemma identity_blockers_none:
  "identity_blockers (py_lower (source_address (b_config slot))) (follower_of slot) (signer_of slot) (master_of slot)
     (py_lower (py_strip (b_expected_account_mode slot))) = [] \<Longrightarrow> identities_ok slot"
  by (auto simp: identity_blockers_def identities_ok_def split: if_splits)

text \<open>The DEXes and what was seen there.\<close>

definition dexes_seen ::
  "info_callable \<Rightarrow> BoundContinuousSlot \<Rightarrow> string list option \<Rightarrow> (string \<times> json) list option \<Rightarrow> bool \<Rightarrow> (string \<times> dex_summary \<times> dex_summary option) list \<Rightarrow> bool" where
  "dexes_seen info slot audit_dexes subaccount with_orders xs \<longleftrightarrow>
     (\<exists>source_dexes. relevant_dexes (allowed_markets (b_config slot)) = Inr source_dexes \<and>
       map fst xs = (case audit_dexes of None \<Rightarrow> source_dexes | Some ds \<Rightarrow> dex_order (source_dexes @ ds))) \<and>
     (\<forall>(d, p, ords) \<in> set xs. position_summary (dex_state info (follower_of slot) subaccount d) d = (p, []) \<and>
       (d \<noteq> [] \<or> subaccount = None \<longrightarrow> dex_state info (follower_of slot) subaccount d \<noteq> Missing) \<and>
       (with_orders \<longrightarrow> (\<exists>rows n. info (info_request ''openOrders'' (follower_of slot) d) = Inr (JArr rows) \<and> ords = Some n \<and> dx_count n = length rows)))"

lemma mode_value_unified: "mode_value m = ''unified'' \<longleftrightarrow> m = UNIFIED"
  by (cases m) (simp_all add: mode_value_def)

lemma audit_slot_clean:
  assumes "audit_slot info slot now audit_dexes subaccount agents with_orders st = Inr (a, st')" and "clean st'" and "sa_blockers a = []"
  shows "clean st \<and> identities_ok slot \<and> mode_known info (py_lower (source_address (b_config slot))) {STANDARD, UNIFIED} \<and>
    mode_known info (follower_of slot) {UNIFIED} \<and> subaccount \<noteq> None \<and>
    (\<forall>v. agents = Answer v \<longrightarrow> validate_extra_agent v (signer_of slot) now = []) \<and>
    snd (collateral_summary (answer_field subaccount ''spotState'') True) = [] \<and>
    dexes_seen info slot audit_dexes subaccount with_orders (sa_follower_dexes a) \<and>
    sa_nonflat a = list_ex (\<lambda>(_, p, _). 0 < dx_count p) (sa_follower_dexes a) \<and>
    sa_order_count a = (if with_orders then Some (sum_list (map (\<lambda>(_, _, ord). case ord of None \<Rightarrow> 0 | Some s \<Rightarrow> dx_count s) (sa_follower_dexes a))) else None)"
proof -
  let ?sid = "slot_id (b_config slot)" and ?source = "py_lower (source_address (b_config slot))"
  let ?expected = "py_lower (py_strip (b_expected_account_mode slot))"
  obtain source_reply st1 where q1: "preflight_query info ?sid ''source'' ''userAbstraction'' ?source [] st = (source_reply, st1)" by fastforce
  obtain follower_reply st2 where q2: "preflight_query info ?sid ''follower'' ''userAbstraction'' (follower_of slot) [] st1 = (follower_reply, st2)" by fastforce
  obtain coll poor where coll: "collateral_summary (answer_field subaccount ''spotState'') True = (coll, poor)" by fastforce
  obtain authorized until unauthorized where auth: "(case agents of Missing \<Rightarrow> (False, None, [])
      | Answer v \<Rightarrow> (let bad = validate_extra_agent v (signer_of slot) now in (bad = [], agent_valid_until v (signer_of slot), bad))) = (authorized, until, unauthorized)"
    by (rule prod_cases3)
  obtain source_dexes where dexes: "relevant_dexes (allowed_markets (b_config slot)) = Inr source_dexes"
    using assms(1) by (cases "relevant_dexes (allowed_markets (b_config slot))") (simp_all add: audit_slot_def Let_def case_prod_beta)
  obtain states source_bad st3 where scan: "scan_source info ?sid ?source source_dexes st2 = (states, source_bad, st3)" by (rule prod_cases3)
  obtain answer st4 where answered: "source_equity info ?sid ?source (account_mode source_reply) states st3 = (answer, st4)" by fastforce
  obtain equity source_poor basis where triple: "answer = (equity, source_poor, basis)" by (rule prod_cases3)
  note eq = answered [unfolded triple]
  obtain xs follower_bad st5 where fol: "scan_follower info ?sid (follower_of slot) subaccount with_orders
      (case audit_dexes of None \<Rightarrow> source_dexes | Some ds \<Rightarrow> dex_order (source_dexes @ ds)) st4 = (xs, follower_bad, st5)"
    by (rule prod_cases3)
  note parts = q1 q2 [unfolded follower_of_def] coll auth [unfolded signer_of_def Let_def] dexes scan eq fol [unfolded follower_of_def]
  have r: "st' = st5" "sa_follower_dexes a = xs"
    "sa_nonflat a = list_ex (\<lambda>(_, p, _). 0 < dx_count p) xs"
    "sa_order_count a = (if with_orders then Some (sum_list (map (\<lambda>(_, _, ord). case ord of None \<Rightarrow> 0 | Some s \<Rightarrow> dx_count s) xs)) else None)"
    "sa_blockers a = identity_blockers ?source (follower_of slot) (signer_of slot) (master_of slot) ?expected @
       (if account_mode source_reply \<notin> {Some STANDARD, Some UNIFIED} then [''continuous-v1 source must use standard or unified mode''] else []) @
       (if map_option mode_value (account_mode follower_reply) \<noteq> Some ?expected then [''follower account mode does not match the bound Unified profile''] else []) @
       (if subaccount = None then [''follower is absent from the subAccounts inventory''] else []) @
       unauthorized @ poor @ source_bad @ source_poor @ follower_bad"
    using assms(1) unfolding audit_slot_def Let_def parts prod.case rbind.simps follower_of_def signer_of_def master_of_def
    by auto
  have none: "identity_blockers ?source (follower_of slot) (signer_of slot) (master_of slot) ?expected = []"
    "account_mode source_reply \<in> {Some STANDARD, Some UNIFIED}" "map_option mode_value (account_mode follower_reply) = Some ?expected"
    "subaccount \<noteq> None" "unauthorized = []" "poor = []" "follower_bad = []"
    using assms(3) unfolding r(5) by (auto split: if_splits)
  have id: "identities_ok slot" by (rule identity_blockers_none [OF none(1)])
  have s5: "clean st5" using assms(2) r(1) by simp
  have seen: "clean st4 \<and> dexes_seen info slot audit_dexes subaccount with_orders xs"
    using scan_follower_clean [OF fol [unfolded none(7)] s5] dexes by (simp add: dexes_seen_def)
  then have s2: "clean st2" using source_equity_clean [OF eq] scan_source_clean [OF scan] by blast
  from query_clean [OF q2 s2] obtain v2 where v2: "clean st1" "follower_reply = Answer v2" "info (info_request ''userAbstraction'' (follower_of slot) []) = Inr v2" by blast
  from query_clean [OF q1 v2(1)] obtain v1 where v1: "clean st" "source_reply = Answer v1" "info (info_request ''userAbstraction'' ?source []) = Inr v1" by blast
  have "mode_known info ?source {STANDARD, UNIFIED}" using none(2) v1 by (auto simp: mode_known_def account_mode_def)
  moreover have "mode_known info (follower_of slot) {UNIFIED}"
    using none(3) v2 id by (auto simp: mode_known_def account_mode_def identities_ok_def mode_value_unified)
  moreover have "\<forall>v. agents = Answer v \<longrightarrow> validate_extra_agent v (signer_of slot) now = []" using auth none(5) by (auto simp: Let_def)
  ultimately show ?thesis using id v1(1) none(4,6) coll seen r by simp
qed

end
