(* ===== verification/Preflight_Pass.thy ===== *)
theory Preflight_Pass
  imports Preflight_Safety
begin

text \<open>
  The audit of a whole plan: what a passed report says of every bound slot.
\<close>

section \<open>The specification\<close>







section \<open>The master accounts\<close>



definition context_ok :: "info_callable \<Rightarrow> string \<times> master_context \<Rightarrow> bool" where
  "context_ok info entry \<longleftrightarrow> (case entry of (master, (followers, agents)) \<Rightarrow>
     (\<exists>v. info (info_request ''subAccounts'' master []) = Inr v \<and> subaccount_inventory (Answer v) master = (followers, [])) \<and>
     (\<exists>rows. agents = Answer (JArr rows) \<and> info (info_request ''extraAgents'' master []) = Inr (JArr rows)))"

lemma master_contexts_clean:
  assumes "master_contexts info n masters st = (contexts, st')" and "clean st'"
  shows "clean st \<and> (\<forall>entry \<in> set contexts. context_ok info entry)"
  using assms
proof (induction masters arbitrary: n st contexts st')
  case Nil
  then show ?case by simp
next
  case (Cons master masters)
  let ?scope = "''master-'' @ show_nat n"
  obtain subaccounts st1 where q1: "preflight_query info ?scope ''subaccount topology'' ''subAccounts'' master [] st = (subaccounts, st1)" by fastforce
  obtain followers bad where inv: "subaccount_inventory subaccounts master = (followers, bad)" by fastforce
  obtain agents st3 where q2: "preflight_query info ?scope ''API-wallet authorization inventory'' ''extraAgents'' master []
      (st1\<lparr>pf_blockers := pf_blockers st1 @ map (Pair ?scope) bad\<rparr>) = (agents, st3)" by fastforce
  define st4 where "st4 = (case agents of Answer (JArr _) \<Rightarrow> st3
    | _ \<Rightarrow> st3\<lparr>pf_blockers := pf_blockers st3 @ [(?scope, ''extraAgents response is missing or malformed'')]\<rparr>)"
  obtain rest st5 where more: "master_contexts info (n + 1) masters st4 = (rest, st5)" by fastforce
  have eq: "contexts = (master, followers, agents) # rest" "st' = st5"
    using Cons.prems(1) unfolding master_contexts.simps Let_def q1 inv prod.case q2 st4_def [symmetric] more by auto
  have ih: "clean st4 \<and> (\<forall>entry \<in> set rest. context_ok info entry)" using Cons.IH [OF more] eq(2) Cons.prems(2) by blast
  then have s3: "clean st3" and rows: "\<exists>rows. agents = Answer (JArr rows)" by (auto simp: st4_def split: reply.splits json.splits)
  from query_clean [OF q2 s3] rows obtain xs where a: "pf_blockers st1 = []" "bad = []" "agents = Answer (JArr xs)"
    "info (info_request ''extraAgents'' master []) = Inr (JArr xs)" by auto
  from query_clean [OF q1 a(1)] obtain v where v: "clean st" "subaccounts = Answer v" "info (info_request ''subAccounts'' master []) = Inr v" by blast
  have "context_ok info (master, followers, agents)" using a v inv by (simp add: context_ok_def)
  then show ?case using v(1) ih eq(1) by simp
qed


section \<open>The slots\<close>





lemma audit_in_context_parts:
  assumes "audit_in_context info now extra require_flat require_orders contexts slot (audits, st) = Inr (audits', st')" and "clean st'"
  obtains followers agents a st1 where
    "(case map_of contexts (master_of slot) of None \<Rightarrow> ([], Missing) | Some k \<Rightarrow> k) = (followers, agents)"
    "audit_slot info slot now extra (map_of followers (follower_of slot)) agents (require_orders \<or> require_flat) st = Inr (a, st1)"
    "clean st1" "sa_blockers a = []" "require_flat \<Longrightarrow> \<not> sa_nonflat a"
    "require_orders \<or> require_flat \<Longrightarrow> \<not> (case sa_order_count a of None \<Rightarrow> False | Some n \<Rightarrow> n \<noteq> 0)"
proof -
  obtain followers agents where k: "(case map_of contexts (master_of slot) of None \<Rightarrow> ([], Missing) | Some k \<Rightarrow> k) = (followers, agents)" by fastforce
  obtain a st1 where audit: "audit_slot info slot now extra (map_of followers (follower_of slot)) agents (require_orders \<or> require_flat) st = Inr (a, st1)"
    and st': "st' = st1\<lparr>pf_blockers := pf_blockers st1 @ map (Pair (slot_id (b_config slot))) (sa_blockers a @
             (if require_orders \<and> (case sa_order_count a of None \<Rightarrow> False | Some n \<Rightarrow> n \<noteq> 0) then [''continuous startup requires an order-free follower''] else []) @
             (if require_flat \<and> sa_nonflat a then [''bounded canary requires a flat follower''] else []) @
             (if require_flat \<and> (case sa_order_count a of None \<Rightarrow> False | Some n \<Rightarrow> n \<noteq> 0) then [''bounded canary requires an order-free follower''] else []))\<rparr>"
    using assms(1) k unfolding audit_in_context_def by (auto simp: Let_def follower_of_def master_of_def)
  show thesis by (rule that [OF k audit]) (use assms(2) in \<open>auto simp: st' split: if_splits\<close>)
qed

lemma audit_in_context_start:
  assumes "audit_in_context info now extra require_flat require_orders contexts slot (audits, st) = Inr (audits', st')" and "clean st'"
  shows "clean st"
  using assms by (elim audit_in_context_parts) (auto dest: audit_slot_clean)


lemma audits_start:
  assumes "rfold (audit_in_context info now extra require_flat require_orders contexts) slots (audits, st) = Inr (audits', st')" and "clean st'"
  shows "clean st"
  using assms
proof (induction slots arbitrary: audits st)
  case Nil
  then show ?case by simp
next
  case (Cons slot slots)
  then show ?case using audit_in_context_start by fastforce
qed



section \<open>A passed report\<close>

lemma report_parts:
  assumes "run_continuous_preflight bound network info now require_flat require_orders audit_dexes catalog = Inr rp" and "rp_passed rp"
  obtains contexts st1 st audits dexes where
    "canary_dexes (py_lower (py_strip network)) require_flat audit_dexes catalog = (dexes, [])" "binding_blockers bound = []"
    "py_lower (py_strip network) = plan_network (bound_plan bound)"
    "\<forall>entry \<in> set contexts. context_ok info entry"
    "rfold (audit_in_context info now dexes require_flat require_orders contexts) (bound_slots bound) ([], st1) = Inr (audits, st)" "clean st"
proof -
  let ?net = "py_lower (py_strip network)"
  obtain dexes canary where canary: "canary_dexes ?net require_flat audit_dexes catalog = (dexes, canary)" by fastforce
  define st0 :: preflight_state where "st0 = \<lparr>pf_queries = [],
    pf_blockers = (if ?net = plan_network (bound_plan bound) then [] else [(plan_scope, ''explicit network does not match the continuous plan network'')]) @
      canary @ binding_blockers bound\<rparr>"
  obtain contexts st1 where m: "master_contexts info 1 (sort (remdups (map (py_lower \<circ> b_global_account_address) (bound_slots bound)))) st0 = (contexts, st1)"
    by fastforce
  obtain audits st where run: "(if ?net \<noteq> plan_network (bound_plan bound) then Inr ([], st0)
      else rfold (audit_in_context info now dexes require_flat require_orders contexts) (bound_slots bound) ([], st1)) = Inr (audits, st)"
    and rp: "rp_passed rp = (pf_blockers st = [] \<and> length audits = length (bound_slots bound))"
    using assms(1) unfolding run_continuous_preflight_def Let_def canary prod.case st0_def [symmetric] m by auto
  have clean: "clean st" using rp assms(2) by simp
  have net: "?net = plan_network (bound_plan bound)"
  proof (rule ccontr)
    assume off: "?net \<noteq> plan_network (bound_plan bound)"
    then have "st = st0" using run by simp
    then show False using clean off by (simp add: st0_def)
  qed
  have fold: "rfold (audit_in_context info now dexes require_flat require_orders contexts) (bound_slots bound) ([], st1) = Inr (audits, st)"
    using run net by simp
  have contexts: "clean st0 \<and> (\<forall>entry \<in> set contexts. context_ok info entry)"
    by (rule master_contexts_clean [OF m audits_start [OF fold clean]])
  have none: "canary = []" "binding_blockers bound = []" using contexts by (simp_all add: st0_def)
  show thesis by (rule that [OF _ none(2) net _ fold clean]) (use canary none(1) contexts in simp_all)
qed



text \<open>A canary asked to audit the DEXes of its own catalog, in an order other than the sorted one, does not pass.\<close>

lemma wire_order_blocks_canary:
  assumes "catalog_position_dexes catalog \<noteq> dex_order (cr_wire_dexes catalog)"
    and "run_continuous_preflight bound network info now True require_orders (Some (cr_wire_dexes catalog)) (Some catalog) = Inr rp"
  shows "\<not> rp_passed rp"
proof
  assume "rp_passed rp"
  then obtain dexes where "canary_dexes (py_lower (py_strip network)) True (Some (cr_wire_dexes catalog)) (Some catalog) = (dexes, [])"
    using report_parts [OF assms(2)] by metis
  then show False using assms(1) by (auto simp: canary_dexes_def Let_def split: if_splits)
qed

end
