(* ===== verification/Preflight_Example.thy ===== *)
theory Preflight_Example
  imports Preflight_Pass
begin

text \<open>A plan of one slot, audited before a bounded canary.\<close>

definition ex_master :: string where "ex_master = ''0x'' @ replicate 40 (CHR ''4'')"
definition ex_agent :: string where "ex_agent = ''0x'' @ replicate 40 (CHR ''3'')"

definition ex_audited_slot :: BoundContinuousSlot where
  "ex_audited_slot = ex_bound\<lparr>b_global_account_address := ex_master\<rparr>"

definition ex_audited :: BoundContinuousPlan where
  "ex_audited = \<lparr>bound_plan = ex_plan, bound_slots = [ex_audited_slot]\<rparr>"

definition ex_pinned :: CatalogRevision where
  "ex_pinned = ex_revision\<lparr>cr_network := ''testnet'', cr_wire_dexes := [[]]\<rparr>"

definition ex_spot :: json where
  "ex_spot = JObj [(''balances'', JArr [JObj [(''coin'', JStr ''USDC''), (''token'', JInt 0), (''total'', JInt 100), (''hold'', JInt 0)]])]"

text \<open>The follower's entry, with or without its native state.\<close>

definition ex_entry :: "bool \<Rightarrow> json" where
  "ex_entry with_state = JObj ([(''subAccountUser'', JStr ex_follower), (''master'', JStr ex_master), (''spotState'', ex_spot)] @
     (if with_state then [(''clearinghouseState'', JObj [(''assetPositions'', JArr [])])] else []))"

definition ex_info :: "bool \<Rightarrow> info_callable" where
  "ex_info with_state request =
     (case request of
        JObj m \<Rightarrow>
          (let kind = jget m ''type'' in
           if kind = JStr ''subAccounts'' then Inr (JArr [ex_entry with_state])
           else if kind = JStr ''extraAgents'' then Inr (JArr [JObj [(''address'', JStr ex_agent), (''validUntil'', JInt 2000)]])
           else if kind = JStr ''userAbstraction'' then Inr (JStr ''unifiedAccount'')
           else if kind = JStr ''spotClearinghouseState'' then Inr ex_spot
           else if kind = JStr ''clearinghouseState'' then Inr (JObj [(''assetPositions'', JArr [])])
           else if kind = JStr ''openOrders'' then Inr (JArr [])
           else Inl (ValueError ''unknown request''))
      | _ \<Rightarrow> Inl (ValueError ''unknown request''))"

definition ex_report :: "bool \<Rightarrow> preflight_report result" where
  "ex_report with_state = run_continuous_preflight ex_audited ''testnet'' (ex_info with_state) 1000 True False None (Some ex_pinned)"


text \<open>An entry without a native state passes all the same.\<close>

lemma missing_state_passes:
  "(case ex_report False of Inr rp \<Rightarrow> rp_passed rp | Inl _ \<Rightarrow> False)"
  by code_simp


end
