(* ===== verification/Copy_Engine.thy ===== *)
theory Copy_Engine
  imports Desired_Engine
begin

text \<open>
  \<^verbatim>\<open>copy_engine.py\<close>: the planner of the polling service, which turns the source's positions into target
  positions and the difference to the follower's positions into order intents.

  The settings that are only compared or multiplied are finite numbers; those the code checks for
  being finite are Decimals. The digest behind client order ids and the clock are arguments. The
  sizing report keeps what was computed, not the settings it repeats.
\<close>

section \<open>Records\<close>

datatype Mode = SHADOW | PAPER | TESTNET | LIVE

datatype MarketEligibility = ALLOWLIST | ALL_ACTIVE_MARKETS

record RiskConfig =
  rk_allowed_symbols :: "string list"
  rk_market_eligibility :: MarketEligibility
  rk_denied_symbols :: "string list"
  rk_fixed_multiplier :: dec
  rk_equity_ratio :: "dec option"
  rk_balance_sizing_enabled :: bool
  rk_sizing_equity_cap_usd :: "dec option"
  rk_max_initial_margin_utilization :: "dec option"
  rk_max_balance_scale :: dec
  rk_max_notional_usd :: rat
  rk_max_gross_exposure_usd :: rat
  rk_max_open_positions :: int
  rk_max_leverage :: int
  rk_min_order_size :: rat
  rk_slippage_bps :: rat
  rk_close_slippage_bps :: rat
  rk_hip3_oracle_envelope_bps :: rat
  rk_stale_source_ms :: int
  rk_stale_follower_ms :: int
  rk_rapid_flip_ms :: int

record AssetMeta =
  am_coin :: string
  am_sz_decimals :: int
  am_max_leverage :: "int option"

datatype sizing_mode =
    Fixed_Multiplier | Explicit_Equity_Ratio | Blocked_Missing_Balances
  | Waiting_For_Balances | Balance_Scaled | Blocked_Invalid_Sizing string

datatype margin_status =
    Margin_Disabled | Blocked_Invalid_Policy | Blocked_Invalid_Equity | Blocked_Invalid_Leverage
  | Within_Budget | Scaled_To_Budget | Blocked_Budget_Exceeded

record Sizing =
  sz_mode :: sizing_mode
  sz_sizing_equity :: "rat option"
  sz_raw_balance_scale :: "rat option"
  sz_balance_scale :: "rat option"
  sz_effective_scale :: "rat option"
  sz_gross_before_cap :: "rat option"
  sz_gross_cap_scale :: "rat option"
  sz_gross_after_cap :: "rat option"
  sz_margin_status :: margin_status
  sz_margin_budget :: "rat option"
  sz_margin_before_cap :: "rat option"
  sz_margin_cap_scale :: "rat option"
  sz_margin_after_cap :: "rat option"
  sz_margin_utilization :: "rat option"

datatype margin_error =
    LeverageRequired string | LeverageInvalid string int | MidRequired string

datatype copy_blocker =
    ScaleBlocked sizing_mode
  | InvalidSourceMarket string
  | MissingMetadata string
  | MissingPositiveMid string
  | SourceSizeNotFinite string
  | SourceEntryNotFinite string
  | SourceLeverageInvalid string int
  | LeverageAboveExchange string int int
  | GrossExceedsCap rat rat
  | MarginPolicyInvalid
  | MarginEquityInvalid
  | MarginInvalid margin_error
  | MarginExceedsBudget rat rat
  | FollowerSizeNotFinite string
  | MissingMetadataForDelta string
  | MissingMidForDelta string

datatype IntentAction = OPEN | REDUCE | CLOSE | CANCEL | NOOP

datatype intent_reason =
    NoMetadata | NoMidPrice | CloseBeforeFlip rat | OpenAfterFlip rat | DeltaBelowMinimum rat rat | MoveToTarget bool rat

text \<open>An intent; the planner leaves it pending or skipped.\<close>

record FollowerIntent =
  in_intent_id :: string
  in_cloid :: string
  in_action :: IntentAction
  in_coin :: string
  in_side :: string
  in_size :: rat
  in_price :: "rat option"
  in_reduce_only :: bool
  in_reason :: intent_reason
  in_skipped :: bool
  in_created_ms :: int

type_synonym mids = "(string \<times> dec) list"
type_synonym metas = "(string \<times> AssetMeta) list"


section \<open>Sizing\<close>

definition positive_finite :: "dec \<Rightarrow> bool" where
  "positive_finite d \<longleftrightarrow> is_finite d \<and> 0 < dec_val d"

definition positive_mid :: "dec option \<Rightarrow> bool" where
  "positive_mid m = (case m of None \<Rightarrow> False | Some d \<Rightarrow> positive_finite d)"

definition sizing_of :: "sizing_mode \<Rightarrow> rat option \<Rightarrow> Sizing" where
  "sizing_of mode scale =
     \<lparr>sz_mode = mode, sz_sizing_equity = None, sz_raw_balance_scale = None, sz_balance_scale = None, sz_effective_scale = scale,
      sz_gross_before_cap = None, sz_gross_cap_scale = None, sz_gross_after_cap = None, sz_margin_status = Margin_Disabled,
      sz_margin_budget = None, sz_margin_before_cap = None, sz_margin_cap_scale = None, sz_margin_after_cap = None,
      sz_margin_utilization = None\<rparr>"

definition blocked_sizing :: "string \<Rightarrow> Sizing" where
  "blocked_sizing why = sizing_of (Blocked_Invalid_Sizing why) None"

definition balance_sizing :: "RiskConfig \<Rightarrow> rat \<Rightarrow> rat \<Rightarrow> rat \<Rightarrow> rat option \<times> Sizing" where
  "balance_sizing risk base source follower =
     (let sizing_equity = (case rk_sizing_equity_cap_usd risk of None \<Rightarrow> follower | Some c \<Rightarrow> min follower (dec_val c));
          raw = ddiv sizing_equity source;
          scale = min raw (dec_val (rk_max_balance_scale risk));
          effective = dmul base scale
      in if effective \<le> 0
         then (None, (blocked_sizing ''effective account-value scale must be finite and positive'')
                 \<lparr>sz_raw_balance_scale := Some raw, sz_balance_scale := Some scale\<rparr>)
         else (Some effective, (sizing_of Balance_Scaled (Some effective))
                 \<lparr>sz_raw_balance_scale := Some raw, sz_balance_scale := Some scale, sz_sizing_equity := Some sizing_equity\<rparr>))"

definition effective_scale :: "RiskConfig \<Rightarrow> Mode \<Rightarrow> dec option \<Rightarrow> dec option \<Rightarrow> rat option \<times> Sizing" where
  "effective_scale risk mode source follower =
     (let base = dec_val (rk_fixed_multiplier risk)
      in if \<not> positive_finite (rk_fixed_multiplier risk)
         then (None, blocked_sizing ''fixed multiplier must be finite and positive'')
         else if (case rk_sizing_equity_cap_usd risk of None \<Rightarrow> False | Some c \<Rightarrow> \<not> positive_finite c)
         then (None, blocked_sizing ''sizing equity cap must be finite and positive'')
         else case rk_equity_ratio risk of
           Some ratio \<Rightarrow>
             if \<not> positive_finite ratio then (None, blocked_sizing ''explicit equity ratio must be finite and positive'')
             else (Some (dec_val ratio), sizing_of Explicit_Equity_Ratio (Some (dec_val ratio)))
         | None \<Rightarrow>
             if \<not> rk_balance_sizing_enabled risk then (Some base, sizing_of Fixed_Multiplier (Some base))
             else if \<not> (positive_mid source \<and> positive_mid follower)
             then if mode = TESTNET \<or> mode = LIVE then (None, sizing_of Blocked_Missing_Balances None)
                  else (Some base, sizing_of Waiting_For_Balances (Some base))
             else if \<not> positive_finite (rk_max_balance_scale risk)
             then (None, blocked_sizing ''max balance scale must be finite and positive'')
             else balance_sizing risk base (dec_val (the source)) (dec_val (the follower)))"


section \<open>Targets\<close>

text \<open>The target for one source position: nothing, a blocker, or the position.\<close>

datatype target_step = NoTarget | BlockTarget copy_blocker | Target "rat position"

definition position_cap_price :: "RiskConfig \<Rightarrow> string \<Rightarrow> rat \<Rightarrow> rat" where
  "position_cap_price risk dex mid =
     (if dex \<noteq> [] then dmul mid (dadd 1 (ddiv (rk_hip3_oracle_envelope_bps risk) 10000)) else mid)"

definition target_size_of :: "RiskConfig \<Rightarrow> string \<Rightarrow> rat \<Rightarrow> rat \<Rightarrow> rat \<Rightarrow> rat result" where
  "target_size_of risk dex mid scale source_size =
     (let target = dmul source_size scale;
          cap_price = position_cap_price risk dex mid
      in if rk_max_notional_usd risk < dmul (dabs target) cap_price
         then rbind (py_div (rk_max_notional_usd risk) cap_price) (\<lambda>capped. Inr (copy_sign capped target))
         else Inr target)"

definition target_leverage :: "RiskConfig \<Rightarrow> int option \<Rightarrow> int option" where
  "target_leverage risk leverage = map_option (\<lambda>l. min l (rk_max_leverage risk)) leverage"

definition target_step_of ::
  "RiskConfig \<Rightarrow> string list \<Rightarrow> string list \<Rightarrow> metas \<Rightarrow> mids \<Rightarrow> rat \<Rightarrow> int \<Rightarrow> string \<Rightarrow> dec position \<Rightarrow> target_step result" where
  "target_step_of risk allowlist denylist metas mids scale now market p =
     (if market \<in> set denylist \<or> rk_market_eligibility risk = ALLOWLIST \<and> market \<notin> set allowlist then Inr NoTarget
      else case map_of metas market of
        None \<Rightarrow> Inr (BlockTarget (MissingMetadata market))
      | Some meta \<Rightarrow>
          if \<not> positive_mid (map_of mids market) then Inr (BlockTarget (MissingPositiveMid market))
          else if \<not> is_finite (pos_size p) then Inr (BlockTarget (SourceSizeNotFinite market))
          else if (case pos_entry_px p of None \<Rightarrow> False | Some e \<Rightarrow> \<not> is_finite e) then Inr (BlockTarget (SourceEntryNotFinite market))
          else if (case pos_leverage p of None \<Rightarrow> False | Some l \<Rightarrow> l \<le> 0)
          then Inr (BlockTarget (SourceLeverageInvalid market (the (pos_leverage p))))
          else let leverage = target_leverage risk (pos_leverage p)
               in if (case (leverage, am_max_leverage meta) of (Some l, Some x) \<Rightarrow> x < l | _ \<Rightarrow> False)
                  then Inr (BlockTarget (LeverageAboveExchange market (the leverage) (the (am_max_leverage meta))))
                  else rbind (market_dex market) (\<lambda>dex.
                       rbind (target_size_of risk dex (dec_val (the (map_of mids market))) scale (dec_val (pos_size p))) (\<lambda>sz.
                       Inr (Target \<lparr>pos_coin = market, pos_size = sz, pos_entry_px = pos_entry_px p, pos_leverage = leverage,
                                    pos_updated_ms = now\<rparr>))))"

definition add_target ::
  "RiskConfig \<Rightarrow> string list \<Rightarrow> string list \<Rightarrow> metas \<Rightarrow> mids \<Rightarrow> rat \<Rightarrow> int \<Rightarrow> string \<times> dec position \<Rightarrow>
   (string \<times> rat position) list \<times> copy_blocker list \<Rightarrow> ((string \<times> rat position) list \<times> copy_blocker list) result" where
  "add_target risk allowlist denylist metas mids scale now entry acc =
     (case (entry, acc) of ((coin, p), (targets, blockers)) \<Rightarrow>
        (case canonical_market_symbol coin of
           Inl _ \<Rightarrow> Inr (targets, blockers @ [InvalidSourceMarket coin])
         | Inr market \<Rightarrow>
             rbind (target_step_of risk allowlist denylist metas mids scale now market p) (\<lambda>step.
             Inr (case step of
                    NoTarget \<Rightarrow> (targets, blockers)
                  | BlockTarget b \<Rightarrow> (targets, blockers @ [b])
                  | Target q \<Rightarrow> (AList.update market q targets, blockers)))))"

definition gross_notional :: "(string \<times> rat position) list \<Rightarrow> mids \<Rightarrow> rat result" where
  "gross_notional positions mids =
     rfold (\<lambda>(coin, p) gross.
       if pos_size p = 0 then Inr gross
       else rbind (canonical_market_symbol coin) (\<lambda>market.
            if \<not> positive_mid (map_of mids market) then Inr gross
            else Inr (dadd gross (dmul (dabs (pos_size p)) (dec_val (the (map_of mids market))))))) positions 0"

definition scale_targets :: "metas \<Rightarrow> mids \<Rightarrow> rat \<Rightarrow> (string \<times> rat position) list \<Rightarrow> (string \<times> rat position) list result" where
  "scale_targets metas mids scale positions =
     rfold (\<lambda>(coin, p) acc.
       rbind (canonical_market_symbol coin) (\<lambda>market.
       let sz = (if map_of metas market \<noteq> None \<and> positive_mid (map_of mids market) \<and> pos_size p \<noteq> 0
                   then dmul (pos_size p) scale else pos_size p)
       in Inr (AList.update market (p\<lparr>pos_coin := market, pos_size := sz\<rparr>) acc))) positions []"

text \<open>The targets cut to the gross cap, their gross notional, and the factor.\<close>

definition scale_targets_to_gross_cap ::
  "RiskConfig \<Rightarrow> metas \<Rightarrow> mids \<Rightarrow> rat \<Rightarrow> (string \<times> rat position) list \<Rightarrow> ((string \<times> rat position) list \<times> rat \<times> rat) result" where
  "scale_targets_to_gross_cap risk metas mids gross positions =
     (if gross \<le> 0 then Inr (positions, gross, 1)
      else let gross_scale = ddiv (rk_max_gross_exposure_usd risk) gross in
           rbind (scale_targets metas mids gross_scale positions) (\<lambda>scaled.
           rbind (gross_notional scaled mids) (\<lambda>g. Inr (scaled, g, gross_scale))))"

definition margin_step :: "mids \<Rightarrow> string \<times> rat position \<Rightarrow> margin_error + rat \<Rightarrow> (margin_error + rat) result" where
  "margin_step mids entry acc =
     (case (entry, acc) of
        (_, Inl e) \<Rightarrow> Inr (Inl e)
      | ((coin, p), Inr required) \<Rightarrow>
          if pos_size p = 0 then Inr (Inr required)
          else rbind (canonical_market_symbol coin) (\<lambda>market. Inr (
               case pos_leverage p of
                 None \<Rightarrow> Inl (LeverageRequired market)
               | Some l \<Rightarrow>
                   if l \<le> 0 then Inl (LeverageInvalid market l)
                   else if \<not> positive_mid (map_of mids market) then Inl (MidRequired market)
                   else Inr (dadd required (ddiv (dmul (dabs (pos_size p)) (dec_val (the (map_of mids market)))) (of_int l))))))"

definition initial_margin_requirement :: "(string \<times> rat position) list \<Rightarrow> mids \<Rightarrow> (margin_error + rat) result" where
  "initial_margin_requirement positions mids = rfold (margin_step mids) positions (Inr 0)"

text \<open>The budget is a part of the follower's equity; targets that need more are scaled once.\<close>

definition scale_to_margin ::
  "metas \<Rightarrow> mids \<Rightarrow> rat \<Rightarrow> rat \<Rightarrow> rat \<Rightarrow> (string \<times> rat position) list \<Rightarrow> Sizing \<Rightarrow>
   ((string \<times> rat position) list \<times> copy_blocker option \<times> Sizing) result" where
  "scale_to_margin metas mids equity budget required positions sizing =
     (let margin_scale = ddiv budget required in
      rbind (scale_targets metas mids margin_scale positions) (\<lambda>scaled.
      rbind (initial_margin_requirement scaled mids) (\<lambda>final. Inr (case final of
        Inl e \<Rightarrow> ([], Some (MarginInvalid e), sizing\<lparr>sz_margin_status := Blocked_Invalid_Leverage\<rparr>)
      | Inr final_margin \<Rightarrow>
          let sizing1 = sizing\<lparr>sz_margin_status := Scaled_To_Budget, sz_margin_cap_scale := Some margin_scale,
                sz_margin_after_cap := Some final_margin, sz_margin_utilization := Some (ddiv final_margin equity)\<rparr>
          in if budget < final_margin
             then ([], Some (MarginExceedsBudget final_margin budget), sizing1\<lparr>sz_margin_status := Blocked_Budget_Exceeded\<rparr>)
             else (scaled, None, sizing1)))))"

definition apply_initial_margin_budget ::
  "RiskConfig \<Rightarrow> metas \<Rightarrow> mids \<Rightarrow> dec option \<Rightarrow> (string \<times> rat position) list \<Rightarrow> Sizing \<Rightarrow>
   ((string \<times> rat position) list \<times> copy_blocker option \<times> Sizing) result" where
  "apply_initial_margin_budget risk metas mids follower positions sizing =
     (case rk_max_initial_margin_utilization risk of
        None \<Rightarrow> Inr (positions, None, sizing)
      | Some utilization \<Rightarrow>
          if \<not> (positive_finite utilization \<and> dec_val utilization \<le> 1)
          then Inr ([], Some MarginPolicyInvalid, sizing\<lparr>sz_margin_status := Blocked_Invalid_Policy\<rparr>)
          else if \<not> positive_mid follower
          then Inr ([], Some MarginEquityInvalid, sizing\<lparr>sz_margin_status := Blocked_Invalid_Equity\<rparr>)
          else rbind (initial_margin_requirement positions mids) (\<lambda>need. case need of
            Inl e \<Rightarrow> Inr ([], Some (MarginInvalid e), sizing\<lparr>sz_margin_status := Blocked_Invalid_Leverage\<rparr>)
          | Inr required \<Rightarrow>
              let equity = dec_val (the follower); budget = dmul equity (dec_val utilization);
                  sizing1 = sizing\<lparr>sz_margin_status := Within_Budget, sz_margin_budget := Some budget, sz_margin_before_cap := Some required,
                    sz_margin_after_cap := Some required, sz_margin_utilization := Some (ddiv required equity)\<rparr>
              in if required \<le> budget then Inr (positions, None, sizing1)
                 else scale_to_margin metas mids equity budget required positions sizing1))"

definition build_target_state ::
  "RiskConfig \<Rightarrow> Mode \<Rightarrow> (string \<times> dec position) list \<Rightarrow> metas \<Rightarrow> mids \<Rightarrow> dec option \<Rightarrow> dec option \<Rightarrow> int \<Rightarrow>
   ((string \<times> rat position) list \<times> copy_blocker list \<times> Sizing) result" where
  "build_target_state risk mode source_positions metas mids source follower now =
     rbind (rmap canonical_market_symbol (rk_allowed_symbols risk)) (\<lambda>allowlist.
     rbind (rmap canonical_market_symbol (rk_denied_symbols risk)) (\<lambda>denylist.
     case effective_scale risk mode source follower of
       (None, sizing) \<Rightarrow> Inr ([], [ScaleBlocked (sz_mode sizing)], sizing)
     | (Some scale, sizing) \<Rightarrow>
         rbind (rfold (add_target risk allowlist denylist metas mids scale now) source_positions ([], [])) (\<lambda>(targets0, blockers0).
         rbind (gross_notional targets0 mids) (\<lambda>gross0.
         rbind (if rk_max_gross_exposure_usd risk < gross0
                then rbind (scale_targets_to_gross_cap risk metas mids gross0 targets0) (\<lambda>(t, g, k). Inr (t, g, Some k))
                else Inr (targets0, gross0, None)) (\<lambda>(targets1, gross1, gross_scale).
         let blockers1 = (if rk_max_gross_exposure_usd risk < gross1
                          then blockers0 @ [GrossExceedsCap gross1 (rk_max_gross_exposure_usd risk)] else blockers0);
             sizing1 = sizing\<lparr>sz_gross_before_cap := Some gross0, sz_gross_cap_scale := gross_scale, sz_gross_after_cap := Some gross1\<rparr> in
         rbind (apply_initial_margin_budget risk metas mids follower targets1 sizing1) (\<lambda>(targets2, margin_blocker, sizing2).
         rbind (gross_notional targets2 mids) (\<lambda>gross2.
         Inr (targets2, blockers1 @ (case margin_blocker of None \<Rightarrow> [] | Some b \<Rightarrow> [b]),
              sizing2\<lparr>sz_gross_after_cap := Some gross2\<rparr>))))))))"


section \<open>Intents\<close>

record intent_context =
  ic_cloid :: "string \<Rightarrow> IntentAction \<Rightarrow> string \<Rightarrow> rat \<Rightarrow> rat option \<Rightarrow> bool \<Rightarrow> string"
  ic_intent_id :: "string \<Rightarrow> string"
  ic_state_id :: "(string \<times> string \<times> rat \<times> dec option \<times> int option) list \<Rightarrow> string"
  ic_now :: int

definition make_intent ::
  "intent_context \<Rightarrow> IntentAction \<Rightarrow> string \<Rightarrow> string \<Rightarrow> rat \<Rightarrow> rat option \<Rightarrow> bool \<Rightarrow> intent_reason \<Rightarrow> bool \<Rightarrow> FollowerIntent" where
  "make_intent ic action coin side sz price reduce_only why skipped =
     (let cloid = ic_cloid ic coin action side sz price reduce_only in
     \<lparr>in_intent_id = ic_intent_id ic cloid, in_cloid = cloid, in_action = action, in_coin = coin, in_side = side, in_size = sz,
      in_price = price, in_reduce_only = reduce_only, in_reason = why, in_skipped = skipped, in_created_ms = ic_now ic\<rparr>)"

definition noop_intent :: "intent_context \<Rightarrow> string \<Rightarrow> intent_reason \<Rightarrow> FollowerIntent" where
  "noop_intent ic coin why = make_intent ic NOOP coin ''none'' 0 None False why True"

definition flip_intents :: "RiskConfig \<Rightarrow> intent_context \<Rightarrow> string \<Rightarrow> rat \<Rightarrow> rat \<Rightarrow> int \<Rightarrow> rat \<Rightarrow> FollowerIntent list result" where
  "flip_intents risk ic coin target current sz_decimals mid =
     (let close_side = (if 0 < current then ''sell'' else ''buy''); open_side = (if 0 < target then ''buy'' else ''sell'') in
      rbind (aggressive_ioc_price (Fin mid) (close_side = ''buy'') (Fin (rk_close_slippage_bps risk)) sz_decimals) (\<lambda>close_price.
      rbind (aggressive_ioc_price (Fin mid) (open_side = ''buy'') (Fin (rk_slippage_bps risk)) sz_decimals) (\<lambda>open_price.
      Inr [make_intent ic CLOSE coin close_side (dabs current) (Some close_price) True (CloseBeforeFlip (rk_close_slippage_bps risk)) False,
           make_intent ic OPEN coin open_side (dabs target) (Some open_price) False (OpenAfterFlip (rk_slippage_bps risk)) False])))"

definition order_intent ::
  "RiskConfig \<Rightarrow> intent_context \<Rightarrow> string \<Rightarrow> rat \<Rightarrow> bool \<Rightarrow> int \<Rightarrow> rat \<Rightarrow> FollowerIntent list result" where
  "order_intent risk ic coin delta reducing sz_decimals mid =
     (let side = (if 0 < delta then ''buy'' else ''sell''); bps = (if reducing then rk_close_slippage_bps risk else rk_slippage_bps risk) in
      rbind (aggressive_ioc_price (Fin mid) (side = ''buy'') (Fin bps) sz_decimals) (\<lambda>price.
      Inr [make_intent ic (if reducing then REDUCE else OPEN) coin side (dabs delta) (Some price) reducing (MoveToTarget reducing bps) False]))"

definition move_intents :: "RiskConfig \<Rightarrow> intent_context \<Rightarrow> string \<Rightarrow> rat \<Rightarrow> rat \<Rightarrow> int \<Rightarrow> rat \<Rightarrow> FollowerIntent list result" where
  "move_intents risk ic coin target current sz_decimals mid =
     (let raw_delta = dsub target current in
      rbind (quantize_size (Fin raw_delta) sz_decimals) (\<lambda>delta.
      if delta = 0
      then Inr (if raw_delta = 0 then []
                else [noop_intent ic coin (DeltaBelowMinimum (dabs raw_delta) (dmul (dabs raw_delta) mid))])
      else let reducing = (current \<noteq> 0 \<and> dabs target < dabs current);
               exact_flatten = (reducing \<and> target = 0 \<and> dabs delta = dabs current)
           in if dabs delta < rk_min_order_size risk \<and> \<not> exact_flatten
              then Inr [noop_intent ic coin (DeltaBelowMinimum (dabs delta) (dmul (dabs delta) mid))]
              else order_intent risk ic coin delta reducing sz_decimals mid))"

definition plan_coin ::
  "RiskConfig \<Rightarrow> intent_context \<Rightarrow> string \<Rightarrow> rat \<Rightarrow> rat \<Rightarrow> metas \<Rightarrow> mids \<Rightarrow> FollowerIntent list result" where
  "plan_coin risk ic coin target current metas mids =
     (if target = current then Inr []
      else case map_of metas coin of
        None \<Rightarrow> Inr [noop_intent ic coin NoMetadata]
      | Some meta \<Rightarrow>
          if \<not> positive_mid (map_of mids coin) then Inr [noop_intent ic coin NoMidPrice]
          else let mid = dec_val (the (map_of mids coin)); d = am_sz_decimals meta
               in if current \<noteq> 0 \<and> target \<noteq> 0 \<and> (0 < current) \<noteq> (0 < target)
                  then flip_intents risk ic coin target current d mid
                  else move_intents risk ic coin target current d mid)"

definition delta_blockers :: "string \<Rightarrow> FollowerIntent list \<Rightarrow> copy_blocker list" where
  "delta_blockers coin intents =
     concat (map (\<lambda>i. if \<not> in_skipped i then []
                     else case in_reason i of
                       NoMetadata \<Rightarrow> [MissingMetadataForDelta coin]
                     | NoMidPrice \<Rightarrow> [MissingMidForDelta coin]
                     | _ \<Rightarrow> []) intents)"

definition plan_step ::
  "RiskConfig \<Rightarrow> intent_context \<Rightarrow> (string \<times> rat position) list \<Rightarrow> (string \<times> dec position) list \<Rightarrow> metas \<Rightarrow> mids \<Rightarrow> string \<Rightarrow>
   FollowerIntent list \<times> copy_blocker list \<Rightarrow> (FollowerIntent list \<times> copy_blocker list) result" where
  "plan_step risk ic targets followers metas mids coin acc =
     (case acc of (intents, blockers) \<Rightarrow>
        let target = (case map_of targets coin of None \<Rightarrow> 0 | Some p \<Rightarrow> pos_size p);
            current = (case map_of followers coin of None \<Rightarrow> Fin 0 | Some p \<Rightarrow> pos_size p)
        in if \<not> is_finite current then Inr (intents, blockers @ [FollowerSizeNotFinite coin])
           else rbind (plan_coin risk ic coin target (dec_val current) metas mids) (\<lambda>coin_intents.
                Inr (intents @ coin_intents, blockers @ delta_blockers coin coin_intents)))"

text \<open>The fields of a target that its state id digests, by market.\<close>

definition stable_target_positions :: "(string \<times> rat position) list \<Rightarrow> (string \<times> string \<times> rat \<times> dec option \<times> int option) list result" where
  "stable_target_positions positions =
     rmap (\<lambda>(coin, p).
       rbind (canonical_market_symbol coin) (\<lambda>key.
       rbind (canonical_market_symbol (pos_coin p)) (\<lambda>market.
       Inr (key, market, pos_size p, pos_entry_px p, pos_leverage p)))) (sort_key fst positions)"

record CopyResult =
  cp_state_id :: string
  cp_positions :: "(string \<times> rat position) list"
  cp_intents :: "FollowerIntent list"
  cp_blockers :: "copy_blocker list"
  cp_sizing :: Sizing

definition copy_plan ::
  "RiskConfig \<Rightarrow> Mode \<Rightarrow> intent_context \<Rightarrow> (string \<times> dec position) list \<Rightarrow> (string \<times> dec position) list \<Rightarrow> metas \<Rightarrow> mids \<Rightarrow>
   dec option \<Rightarrow> dec option \<Rightarrow> CopyResult result" where
  "copy_plan risk mode ic source_positions follower_positions metas mids source follower =
     rbind (build_target_state risk mode source_positions metas mids source follower (ic_now ic)) (\<lambda>(targets, blockers, sizing).
     rbind (stable_target_positions targets) (\<lambda>stable.
     rbind (rfold (plan_step risk ic targets follower_positions metas mids)
              (sort (remdups (map fst targets @ map fst follower_positions))) ([], blockers)) (\<lambda>(intents, all_blockers).
     Inr \<lparr>cp_state_id = ic_state_id ic stable, cp_positions = targets, cp_intents = intents, cp_blockers = all_blockers, cp_sizing = sizing\<rparr>)))"

end
