(* ===== verification/Copy_Caps.thy ===== *)
theory Copy_Caps
  imports Copy_Engine
begin

text \<open>
  What the planner of \<^verbatim>\<open>copy_engine.py\<close> promises: a plan without blockers stays inside the position,
  gross and margin caps, and the intents of a market lead from the follower's position to the target
  without passing it.
\<close>

section \<open>Target sets\<close>

text \<open>Targets are keyed by canonical names, and their sizes are results of the decimal context.\<close>

definition target_set :: "(string \<times> rat position) list \<Rightarrow> bool" where
  "target_set ts \<longleftrightarrow> distinct (map fst ts) \<and> (\<forall>(c, p) \<in> set ts. canonical_market_symbol c = Inr c \<and> ctx_rep (pos_size p))"

lemma target_set_Nil [simp]: "target_set []"
  by (simp add: target_set_def)

lemma target_set_update:
  assumes "target_set ts" and "canonical_market_symbol c = Inr c" and "ctx_rep (pos_size p)"
  shows "target_set (AList.update c p ts)"
  using assms by (auto simp: target_set_def distinct_update dest!: in_set_update_D)

lemma canonical_symbol_idem:
  assumes "canonical_market_symbol s = Inr c"
  shows "canonical_market_symbol c = Inr c"
  using assms parse_canonical [OF parse_market_ok]
  by (auto simp: canonical_market_symbol_def canonical_market_def)

text \<open>The notional of a target at its mid; a market without a positive mid does not count.\<close>

definition gross_term :: "mids \<Rightarrow> string \<times> rat position \<Rightarrow> rat" where
  "gross_term mids entry =
     (if positive_mid (map_of mids (fst entry))
      then dmul (dabs (pos_size (snd entry))) (dec_val (the (map_of mids (fst entry)))) else 0)"

lemma gross_notional_fsum:
  assumes "target_set ts"
  shows "gross_notional ts mids = Inr (dc.fsum 0 (map (gross_term mids) ts))"
proof -
  have "ctx_rep a \<Longrightarrow> \<forall>(c, p) \<in> set ts. canonical_market_symbol c = Inr c \<Longrightarrow>
    rfold (\<lambda>(coin, p) gross.
       if pos_size p = 0 then Inr gross
       else rbind (canonical_market_symbol coin) (\<lambda>market.
            if \<not> positive_mid (map_of mids market) then Inr gross
            else Inr (dadd gross (dmul (dabs (pos_size p)) (dec_val (the (map_of mids market))))))) ts a
     = Inr (dc.fsum a (map (gross_term mids) ts))" for a
    by (induction ts arbitrary: a)
      (auto simp: gross_term_def ctx_rep_def dadd_def dmul_def dabs_def)
  from this [of 0] show ?thesis using assms unfolding gross_notional_def target_set_def
    by (auto simp: ctx_rep_def)
qed

lemma scale_targets_map:
  assumes "target_set ts"
  shows "scale_targets metas mids k ts = Inr (map (\<lambda>(c, p). (c, p\<lparr>pos_coin := c, pos_size :=
     (if map_of metas c \<noteq> None \<and> positive_mid (map_of mids c) \<and> pos_size p \<noteq> 0 then dmul (pos_size p) k else pos_size p)\<rparr>)) ts)"
proof -
  have "distinct (map fst ts) \<Longrightarrow> set (map fst ts) \<inter> fst ` set acc = {} \<Longrightarrow> \<forall>(c, p) \<in> set ts. canonical_market_symbol c = Inr c \<Longrightarrow>
    rfold (\<lambda>(coin, p) acc.
       rbind (canonical_market_symbol coin) (\<lambda>market.
       let sz = (if map_of metas market \<noteq> None \<and> positive_mid (map_of mids market) \<and> pos_size p \<noteq> 0
                   then dmul (pos_size p) k else pos_size p)
       in Inr (AList.update market (p\<lparr>pos_coin := market, pos_size := sz\<rparr>) acc))) ts acc
    = Inr (acc @ map (\<lambda>(c, p). (c, p\<lparr>pos_coin := c, pos_size :=
     (if map_of metas c \<noteq> None \<and> positive_mid (map_of mids c) \<and> pos_size p \<noteq> 0 then dmul (pos_size p) k else pos_size p)\<rparr>)) ts)" for acc
  proof (induction ts arbitrary: acc)
    case (Cons x ts)
    obtain c p where x: "x = (c, p)" by (cases x)
    have upd: "AList.update c v acc = acc @ [(c, v)]" for v
      using Cons.prems(2) x by (intro update_new) auto
    show ?case using Cons x by (simp add: upd Let_def)
  qed simp
  from this [of "[]"] show ?thesis using assms by (auto simp: scale_targets_def target_set_def)
qed

lemma scaled_abs_le:
  assumes "ctx_rep x" and "0 \<le> k" and "k \<le> 1"
  shows "\<bar>dmul x k\<bar> \<le> \<bar>x\<bar>" and "0 \<le> x * dmul x k"
proof -
  have "\<bar>x * k\<bar> \<le> \<bar>x\<bar>" using assms by (simp add: abs_mult mult_left_le)
  then have "ctx \<bar>x * k\<bar> \<le> ctx \<bar>x\<bar>" by (rule ctx_mono)
  then show "\<bar>dmul x k\<bar> \<le> \<bar>x\<bar>" using assms(1) by (simp add: dmul_def ctx_abs ctx_rep_def)
  show "0 \<le> x * dmul x k" using assms(2)
    by (auto simp: dmul_def zero_le_mult_iff mult_le_0_iff)
qed

text \<open>Scaling by at most one keeps the set, shrinks every size and so the gross notional.\<close>

definition shrunk :: "string \<times> rat position \<Rightarrow> string \<times> rat position \<Rightarrow> bool" where
  "shrunk a b \<longleftrightarrow> fst b = fst a \<and> pos_leverage (snd b) = pos_leverage (snd a) \<and> ctx_rep (pos_size (snd b)) \<and>
     \<bar>pos_size (snd b)\<bar> \<le> \<bar>pos_size (snd a)\<bar> \<and> 0 \<le> pos_size (snd a) * pos_size (snd b)"

lemma scale_targets_shrinks:
  assumes "target_set ts" and "0 \<le> k" and "k \<le> 1" and "scale_targets metas mids k ts = Inr us"
  shows "list_all2 shrunk ts us" and "target_set us"
proof -
  note us = assms(4) [unfolded scale_targets_map [OF assms(1)] sum.inject, symmetric]
  have rep: "c \<in> set ts \<Longrightarrow> ctx_rep (pos_size (snd c))" for c using assms(1) by (auto simp: target_set_def)
  show "list_all2 shrunk ts us" unfolding us list_all2_map2
    using rep scaled_abs_le [OF rep assms(2,3)]
    by (auto simp: list_all2_same shrunk_def ctx_rep_def dmul_def)
  show "target_set us" using assms(1) unfolding us target_set_def
    by (auto simp: ctx_rep_def dmul_def o_def split_def)
qed

lemma gross_shrunk:
  assumes "list_all2 shrunk ts us"
  shows "dc.fsum 0 (map (gross_term mids) us) \<le> dc.fsum 0 (map (gross_term mids) ts)"
proof (rule dc.fsum_mono)
  have "gross_term mids b \<le> gross_term mids a" if "shrunk a b" for a b
    using that by (auto simp: shrunk_def gross_term_def positive_mid_def positive_finite_def dmul_def dabs_def
        intro!: ctx_mono mult_right_mono split: option.splits)
  then show "list_all2 (\<le>) (map (gross_term mids) us) (map (gross_term mids) ts)"
    using assms by (auto simp: list_all2_conv_all_nth)
qed simp

section \<open>The caps\<close>

text \<open>What the rules say of one target.\<close>

definition target_ok :: "RiskConfig \<Rightarrow> string list \<Rightarrow> string list \<Rightarrow> metas \<Rightarrow> mids \<Rightarrow> string \<times> rat position \<Rightarrow> bool" where
  "target_ok risk allowlist denylist metas mids entry \<longleftrightarrow>
     (case entry of (c, p) \<Rightarrow>
        c \<notin> set denylist \<and> (rk_market_eligibility risk = ALLOWLIST \<longrightarrow> c \<in> set allowlist) \<and>
        positive_mid (map_of mids c) \<and>
        (\<exists>meta dex. map_of metas c = Some meta \<and> market_dex c = Inr dex \<and>
          (\<forall>l. pos_leverage p = Some l \<longrightarrow> l \<le> rk_max_leverage risk \<and> (\<forall>x. am_max_leverage meta = Some x \<longrightarrow> l \<le> x)) \<and>
          \<bar>pos_size p\<bar> * position_cap_price risk dex (dec_val (the (map_of mids c))) * (1 - ctx_ulp) \<le> rk_max_notional_usd risk))"

lemma cap_price_pos:
  assumes "0 < mid" and "0 \<le> rk_hip3_oracle_envelope_bps risk"
  shows "0 < position_cap_price risk dex mid"
proof -
  have "0 \<le> ddiv (rk_hip3_oracle_envelope_bps risk) 10000" using assms by (simp add: ddiv_def)
  then show ?thesis using assms by (auto simp: position_cap_price_def dmul_def dadd_def intro!: mult_pos_pos)
qed

text \<open>The cap on one position holds up to one unit of the last digit.\<close>

lemma target_size_capped:
  assumes "target_size_of risk dex mid scale x = Inr sz" and "0 < mid"
    and "0 \<le> rk_hip3_oracle_envelope_bps risk" and "0 \<le> rk_max_notional_usd risk"
  shows "ctx_rep sz" and "\<bar>sz\<bar> * position_cap_price risk dex mid * (1 - ctx_ulp) \<le> rk_max_notional_usd risk"
proof -
  define P where "P = position_cap_price risk dex mid"
  define N where "N = rk_max_notional_usd risk"
  have P: "0 < P" unfolding P_def using assms(2,3) by (rule cap_price_pos)
  have u: "0 \<le> ctx_ulp" "ctx_ulp < 1" by (simp_all add: ctx_ulp_def pow10_def)
  let ?t = "dmul x scale"
  consider "sz = ?t" "dmul (dabs ?t) P \<le> N" | "\<bar>sz\<bar> = ctx (N / P)" "ctx_rep sz"
  proof (cases "N < dmul (dabs ?t) P")
    case True
    have "0 \<le> N / P" using P assms(4) by (simp add: N_def)
    then have "\<bar>sz\<bar> = ctx (N / P)" "ctx_rep sz"
      using assms(1) True P
      by (auto simp: target_size_of_def P_def [symmetric] N_def [symmetric] py_div_def ddiv_def copy_sign_def ctx_rep_def ctx_uminus
          split: if_splits)
    then show ?thesis by (rule that(2))
  next
    case False
    then show ?thesis using assms(1) that(1)
      by (auto simp: target_size_of_def P_def [symmetric] N_def [symmetric])
  qed
  then have "ctx_rep sz \<and> \<bar>sz\<bar> * P * (1 - ctx_ulp) \<le> N"
  proof cases
    case 1
    have "\<bar>sz\<bar> * P * (1 - ctx_ulp) \<le> ctx (\<bar>sz\<bar> * P)" using P by (intro dc.rnd_lower) simp
    also have "\<dots> \<le> N" using 1 by (simp add: dmul_def dabs_def ctx_abs)
    finally show ?thesis using 1 by (simp add: dmul_def)
  next
    case 2
    have N: "0 \<le> N / P" using P assms(4) by (simp add: N_def)
    have "\<bar>sz\<bar> * P \<le> N / P * (1 + ctx_ulp) * P"
      using dc.rnd_upper [OF N] P 2 by (intro mult_right_mono) auto
    then have "\<bar>sz\<bar> * P \<le> N * (1 + ctx_ulp)" using P by simp
    then have "\<bar>sz\<bar> * P * (1 - ctx_ulp) \<le> N * (1 + ctx_ulp) * (1 - ctx_ulp)"
      using u by (intro mult_right_mono) auto
    also have "\<dots> = N * (1 - ctx_ulp * ctx_ulp)" by (simp add: algebra_simps)
    also have "\<dots> \<le> N" using u assms(4) by (intro mult_left_le) (auto simp: N_def)
    finally show ?thesis using 2 by simp
  qed
  then show "ctx_rep sz" and "\<bar>sz\<bar> * position_cap_price risk dex mid * (1 - ctx_ulp) \<le> rk_max_notional_usd risk"
    by (simp_all add: P_def N_def)
qed

lemma positive_midE:
  assumes "positive_mid m"
  obtains x where "m = Some (Fin x)" and "0 < x"
  using assms by (cases m) (auto simp: positive_mid_def positive_finite_def is_finite_iff)

lemma target_step_ok:
  assumes "target_step_of risk allowlist denylist metas mids scale now c p = Inr (Target q)"
    and "0 \<le> rk_hip3_oracle_envelope_bps risk" and "0 \<le> rk_max_notional_usd risk"
  shows "target_ok risk allowlist denylist metas mids (c, q) \<and> ctx_rep (pos_size q)"
proof -
  note step = assms(1) [unfolded target_step_of_def Let_def]
  have elig: "c \<notin> set denylist" "rk_market_eligibility risk = ALLOWLIST \<longrightarrow> c \<in> set allowlist"
    using step by (auto split: if_split_asm)
  obtain meta where meta: "map_of metas c = Some meta" using step by (cases "map_of metas c") (auto split: if_split_asm)
  have mid: "positive_mid (map_of mids c)" using step meta by (auto split: if_split_asm)
  have lev: "\<not> (case (target_leverage risk (pos_leverage p), am_max_leverage meta) of (Some l, Some x) \<Rightarrow> x < l | _ \<Rightarrow> False)"
    and rest: "\<exists>dex sz. market_dex c = Inr dex \<and>
      target_size_of risk dex (dec_val (the (map_of mids c))) scale (dec_val (pos_size p)) = Inr sz \<and>
      pos_size q = sz \<and> pos_leverage q = target_leverage risk (pos_leverage p)"
    using step meta elig mid by (simp_all split: if_split_asm) auto
  from rest obtain dex sz where dex: "market_dex c = Inr dex"
    and sz: "target_size_of risk dex (dec_val (the (map_of mids c))) scale (dec_val (pos_size p)) = Inr sz"
    and q: "pos_size q = sz" "pos_leverage q = target_leverage risk (pos_leverage p)" by blast
  from mid have "0 < dec_val (the (map_of mids c))" by (auto elim: positive_midE)
  from target_size_capped [OF sz this assms(2,3)] show ?thesis
    using elig meta mid dex q lev by (auto simp: target_ok_def target_leverage_def split: option.split_asm)
qed

lemma add_target_ok:
  assumes "rfold (add_target risk allowlist denylist metas mids scale now) xs ([], []) = Inr (ts, bs)"
    and "0 \<le> rk_hip3_oracle_envelope_bps risk" and "0 \<le> rk_max_notional_usd risk"
  shows "target_set ts \<and> (\<forall>e \<in> set ts. target_ok risk allowlist denylist metas mids e)"
proof -
  let ?I = "\<lambda>(ts, bs :: copy_blocker list). target_set ts \<and> (\<forall>e \<in> set ts. target_ok risk allowlist denylist metas mids e)"
  have step: "?I acc'" if add: "add_target risk allowlist denylist metas mids scale now e acc = Inr acc'" and inv: "?I acc" for e acc acc'
  proof -
    obtain coin p ts bs where e: "e = (coin, p)" "acc = (ts, bs)" by (cases e; cases acc)
    show ?thesis
    proof (cases "canonical_market_symbol coin")
      case (Inl x)
      then show ?thesis using add inv e by (auto simp: add_target_def)
    next
      case (Inr market)
      with add e obtain st where st: "target_step_of risk allowlist denylist metas mids scale now market p = Inr st"
        and acc': "acc' = (case st of NoTarget \<Rightarrow> (ts, bs) | BlockTarget b \<Rightarrow> (ts, bs @ [b]) | Target q \<Rightarrow> (AList.update market q ts, bs))"
        by (auto simp: add_target_def)
      show ?thesis
        using st inv acc' e target_step_ok [OF _ assms(2,3)] target_set_update [OF _ canonical_symbol_idem [OF Inr]]
        by (cases st) (auto dest!: in_set_update_D)
    qed
  qed
  show ?thesis using rfold_invariant [OF assms(1), of ?I] step by fastforce
qed

lemma shrunk_ok:
  assumes "list_all2 shrunk ts us" and "0 \<le> rk_hip3_oracle_envelope_bps risk"
    and "\<forall>e \<in> set ts. target_ok risk allowlist denylist metas mids e"
  shows "\<forall>e \<in> set us. target_ok risk allowlist denylist metas mids e"
proof
  fix b assume "b \<in> set us"
  then obtain a where ab: "a \<in> set ts" "shrunk a b" using assms(1)
    by (metis in_set_conv_nth list_all2_conv_all_nth)
  obtain c p q where a: "a = (c, p)" and b: "b = (c, q)" using ab(2) by (cases a; cases b) (auto simp: shrunk_def)
  have q: "pos_leverage q = pos_leverage p" "\<bar>pos_size q\<bar> \<le> \<bar>pos_size p\<bar>" using ab(2) by (auto simp: shrunk_def a b)
  have ok: "target_ok risk allowlist denylist metas mids (c, p)" using ab(1) assms(3) by (simp add: a)
  have "\<bar>pos_size q\<bar> * (position_cap_price risk dex (dec_val (the (map_of mids c))) * (1 - ctx_ulp)) \<le>
        \<bar>pos_size p\<bar> * (position_cap_price risk dex (dec_val (the (map_of mids c))) * (1 - ctx_ulp))" for dex
    using q(2) ok cap_price_pos [OF _ assms(2)]
    by (intro mult_right_mono)
      (auto simp: target_ok_def ctx_ulp_def pow10_def intro!: less_imp_le elim!: positive_midE)
  note le = this [folded mult.assoc]
  show "target_ok risk allowlist denylist metas mids b"
    using ok q(1) order_trans [OF le] unfolding b target_ok_def by fastforce
qed

lemma list_all2_shrunk_refl: "target_set ts \<Longrightarrow> list_all2 shrunk ts ts"
  by (auto simp: list_all2_same shrunk_def target_set_def)

lemma unit_ratio:
  assumes "0 \<le> a" and "a \<le> b" and "0 < b"
  shows "0 \<le> ddiv a b" and "ddiv a b \<le> 1"
proof -
  show "0 \<le> ddiv a b" using assms by (simp add: ddiv_def)
  have "ctx (a / b) \<le> ctx 1" using assms by (intro ctx_mono) simp
  moreover have "ctx 1 = 1" by (intro short_dec_ctx) (simp add: short_dec_def)
  ultimately show "ddiv a b \<le> 1" by (simp add: ddiv_def)
qed

text \<open>The margin budget only shrinks, and what is left fits it.\<close>

lemma margin_budget_ok:
  assumes "apply_initial_margin_budget risk metas mids fv ts sizing = Inr (us, None, sizing')" and "target_set ts"
  shows "list_all2 shrunk ts us \<and> target_set us \<and>
    (\<forall>u. rk_max_initial_margin_utilization risk = Some u \<longrightarrow>
      (\<exists>e m. fv = Some (Fin e) \<and> initial_margin_requirement us mids = Inr (Inr m) \<and> m \<le> dmul e (dec_val u)))"
proof (cases "rk_max_initial_margin_utilization risk")
  case None
  then show ?thesis using assms list_all2_shrunk_refl by (auto simp: apply_initial_margin_budget_def)
next
  case (Some u)
  have u: "positive_finite u" and fv: "positive_mid fv"
    using assms(1) Some by (auto simp: apply_initial_margin_budget_def split: if_splits)
  from fv obtain e where e: "fv = Some (Fin e)" "0 < e" by (rule positive_midE)
  obtain need where need: "initial_margin_requirement ts mids = Inr need"
    using assms(1) Some u fv by (auto simp: apply_initial_margin_budget_def split: if_splits)
  with assms(1) Some u fv obtain required where req: "initial_margin_requirement ts mids = Inr (Inr required)"
    by (cases need) (auto simp: apply_initial_margin_budget_def split: if_splits)
  define budget where "budget = dmul e (dec_val u)"
  have budget: "0 < budget" using e u by (simp add: budget_def dmul_def positive_finite_def)
  show ?thesis
  proof (cases "required \<le> budget")
    case True
    then have "us = ts" using assms(1) Some u e fv req
      by (auto simp: apply_initial_margin_budget_def Let_def budget_def split: if_splits)
    then show ?thesis using True Some e req assms(2) list_all2_shrunk_refl by (auto simp: budget_def)
  next
    case False
    then obtain sc need2 where need2: "scale_targets metas mids (ddiv budget required) ts = Inr sc" "initial_margin_requirement sc mids = Inr need2"
      using assms(1) Some u e fv req
      by (auto simp: apply_initial_margin_budget_def scale_to_margin_def Let_def budget_def split: if_splits)
    with False obtain sc final where sc: "scale_targets metas mids (ddiv budget required) ts = Inr sc"
      and final: "initial_margin_requirement sc mids = Inr (Inr final)" "final \<le> budget" and us: "us = sc"
      using assms(1) Some u e fv req
      by (cases need2) (auto simp: apply_initial_margin_budget_def scale_to_margin_def Let_def budget_def split: if_splits)
    have "0 \<le> ddiv budget required" "ddiv budget required \<le> 1"
      using False budget by (auto intro!: unit_ratio)
    from scale_targets_shrinks [OF assms(2) this sc] show ?thesis
      using us final Some e by (auto simp: budget_def)
  qed
qed

text \<open>
  C24: a plan without blockers keeps every cap, in the decimal arithmetic the code computes in: the gross notional of the targets is at
  most the gross cap (also after the margin budget scaled them once more), the initial margin is at most the share of the follower's
  equity the policy allows, and every target is an eligible market with exchange metadata and a positive mid, at a leverage within the
  policy and the exchange maximum, and with a notional within the position cap up to half a unit of the 28th digit.
\<close>

theorem copy_targets_within_caps:
  assumes "build_target_state risk mode source metas mids sv fv now = Inr (targets, [], sizing)"
    and "0 \<le> rk_hip3_oracle_envelope_bps risk" and "0 \<le> rk_max_notional_usd risk" and "0 \<le> rk_max_gross_exposure_usd risk"
  shows "\<exists>g allowlist denylist.
    rmap canonical_market_symbol (rk_allowed_symbols risk) = Inr allowlist \<and> rmap canonical_market_symbol (rk_denied_symbols risk) = Inr denylist \<and>
    gross_notional targets mids = Inr g \<and> g \<le> rk_max_gross_exposure_usd risk \<and>
    (\<forall>e \<in> set targets. target_ok risk allowlist denylist metas mids e) \<and>
    (\<forall>u. rk_max_initial_margin_utilization risk = Some u \<longrightarrow>
      (\<exists>e m. fv = Some (Fin e) \<and> initial_margin_requirement targets mids = Inr (Inr m) \<and> m \<le> dmul e (dec_val u)))"
proof -
  let ?cap = "rk_max_gross_exposure_usd risk"
  note build = assms(1) [unfolded build_target_state_def Let_def]
  obtain allowlist denylist where
    lists: "rmap canonical_market_symbol (rk_allowed_symbols risk) = Inr allowlist" "rmap canonical_market_symbol (rk_denied_symbols risk) = Inr denylist"
    using build by auto
  obtain scale szg where scale: "effective_scale risk mode sv fv = (Some scale, szg)"
    using build lists by (cases "effective_scale risk mode sv fv"; cases "fst (effective_scale risk mode sv fv)") auto
  obtain ts0 bs0 gross0 where add0: "rfold (add_target risk allowlist denylist metas mids scale now) source ([], []) = Inr (ts0, bs0)"
    and g0: "gross_notional ts0 mids = Inr gross0"
    using build lists scale by (auto split: prod.split_asm)
  note build = build [simplified lists scale add0 g0 rbind.simps option.case prod.case]
  obtain ts1 gross1 k where g1: "if ?cap < gross0 then scale_targets_to_gross_cap risk metas mids gross0 ts0 = Inr (ts1, gross1, k) else ts1 = ts0 \<and> gross1 = gross0"
    and le: "gross1 \<le> ?cap"
    and rest: "\<exists>sizing1 sizing2. bs0 = [] \<and> apply_initial_margin_budget risk metas mids fv ts1 sizing1 = Inr (targets, None, sizing2)"
    using build by (cases "?cap < gross0") (auto split: if_split_asm option.split_asm prod.split_asm, blast+)
  from rest obtain sizing1 sizing2 where add: "rfold (add_target risk allowlist denylist metas mids scale now) source ([], []) = Inr (ts0, [])"
    and margin: "apply_initial_margin_budget risk metas mids fv ts1 sizing1 = Inr (targets, None, sizing2)"
    using add0 by auto
  have ts0: "target_set ts0" "\<forall>e \<in> set ts0. target_ok risk allowlist denylist metas mids e"
    using add_target_ok [OF add assms(2,3)] by auto
  have ts1: "list_all2 shrunk ts0 ts1 \<and> target_set ts1 \<and> gross_notional ts1 mids = Inr gross1"
  proof (cases "?cap < gross0")
    case True
    with assms(4) have pos: "0 < gross0" by linarith
    with True g1 have sc: "scale_targets metas mids (ddiv ?cap gross0) ts0 = Inr ts1" "gross_notional ts1 mids = Inr gross1"
      by (auto simp: scale_targets_to_gross_cap_def Let_def)
    have "0 \<le> ddiv ?cap gross0" "ddiv ?cap gross0 \<le> 1" using True pos assms(4) by (auto intro!: unit_ratio)
    from scale_targets_shrinks [OF ts0(1) this sc(1)] sc(2) show ?thesis by simp
  next
    case False
    then show ?thesis using g0 g1 ts0(1) list_all2_shrunk_refl by auto
  qed
  then have set1: "target_set ts1" by blast
  note m = margin_budget_ok [OF margin set1]
  have "dc.fsum 0 (map (gross_term mids) targets) \<le> gross1"
    using gross_shrunk [of ts1 targets mids] m ts1 gross_notional_fsum [OF set1, of mids] by simp
  then have g: "gross_notional targets mids = Inr (dc.fsum 0 (map (gross_term mids) targets))" "dc.fsum 0 (map (gross_term mids) targets) \<le> ?cap"
    using gross_notional_fsum [of targets mids] m le by auto
  have ok: "\<forall>e \<in> set targets. target_ok risk allowlist denylist metas mids e"
    by (rule shrunk_ok [OF m [THEN conjunct1] assms(2) shrunk_ok [OF ts1 [THEN conjunct1] assms(2) ts0(2)]])
  show ?thesis using lists g ok m [THEN conjunct2, THEN conjunct2] by (intro exI conjI) assumption+
qed

text \<open>A plan that both caps scale: two BTC of the source become 0.3, at half size, cut to 60 gross and to 6 of margin.\<close>

definition cx_risk :: RiskConfig where
  "cx_risk = \<lparr>rk_allowed_symbols = [''btc''], rk_market_eligibility = ALLOWLIST, rk_denied_symbols = [], rk_fixed_multiplier = Fin (1 / 2),
     rk_equity_ratio = None, rk_balance_sizing_enabled = False, rk_sizing_equity_cap_usd = None, rk_max_initial_margin_utilization = Some (Fin (6 / 100)),
     rk_max_balance_scale = Fin 1, rk_max_notional_usd = 1000, rk_max_gross_exposure_usd = 60, rk_max_open_positions = 5, rk_max_leverage = 5,
     rk_min_order_size = 0, rk_slippage_bps = 50, rk_close_slippage_bps = 100, rk_hip3_oracle_envelope_bps = 0, rk_stale_source_ms = 10000,
     rk_stale_follower_ms = 10000, rk_rapid_flip_ms = 1000\<rparr>"

definition cx_pos :: "string \<Rightarrow> rat \<Rightarrow> dec position" where
  "cx_pos c x = \<lparr>pos_coin = c, pos_size = Fin x, pos_entry_px = None, pos_leverage = Some 10, pos_updated_ms = 0\<rparr>"

definition cx_metas :: metas where
  "cx_metas = [(''BTC'', \<lparr>am_coin = ''BTC'', am_sz_decimals = 3, am_max_leverage = Some 40\<rparr>), (''ETH'', \<lparr>am_coin = ''ETH'', am_sz_decimals = 2, am_max_leverage = Some 25\<rparr>)]"

definition cx_mids :: mids where "cx_mids = [(''BTC'', Fin 100), (''ETH'', Fin 10)]"

definition cx_source :: "(string \<times> dec position) list" where
  "cx_source = [(''btc'', cx_pos ''BTC'' 2), (''ETH'', cx_pos ''ETH'' 1)]"

lemma cx_targets:
  "case build_target_state cx_risk PAPER cx_source cx_metas cx_mids None (Some (Fin 100)) 7 of
     Inl _ \<Rightarrow> False
   | Inr (targets, blockers, sizing) \<Rightarrow>
       map (\<lambda>(c, p). (c, pos_size p)) targets = [(''BTC'', 3 / 10)] \<and> blockers = [] \<and>
       sz_gross_before_cap sizing = Some 100 \<and> sz_gross_after_cap sizing = Some 30 \<and> sz_margin_status sizing = Scaled_To_Budget"
  by code_simp

theorem copy_targets_within_caps_witness:
  "\<exists>targets g. map (\<lambda>(c, p). (c, pos_size p)) targets = [(''BTC'', 3 / 10)] \<and>
     gross_notional targets cx_mids = Inr g \<and> g \<le> 60 \<and>
     (\<exists>m. initial_margin_requirement targets cx_mids = Inr (Inr m) \<and> m \<le> dmul 100 (6 / 100))"
proof -
  obtain targets sizing where b: "build_target_state cx_risk PAPER cx_source cx_metas cx_mids None (Some (Fin 100)) 7 = Inr (targets, [], sizing)"
    and t: "map (\<lambda>(c, p). (c, pos_size p)) targets = [(''BTC'', 3 / 10)]"
    using cx_targets by (auto split: sum.splits prod.splits)
  have "0 \<le> rk_hip3_oracle_envelope_bps cx_risk" "0 \<le> rk_max_notional_usd cx_risk" "0 \<le> rk_max_gross_exposure_usd cx_risk"
    by (simp_all add: cx_risk_def)
  from copy_targets_within_caps [OF b this] obtain g m where "gross_notional targets cx_mids = Inr g" "g \<le> 60"
    "initial_margin_requirement targets cx_mids = Inr (Inr m)" "m \<le> dmul 100 (6 / 100)"
    by (auto simp: cx_risk_def)
  with t show ?thesis by (intro exI [of _ targets] exI [of _ g] exI [of _ m] conjI)
qed

end
