(* ===== verification/Copy_Moves.thy ===== *)
theory Copy_Moves
  imports Copy_Caps
begin

text \<open>
  The intents of \<^verbatim>\<open>copy_engine.py\<close> as moves of the follower's position: how the orders of one market lead
  from the current size to the target.
\<close>

definition intent_move :: "FollowerIntent \<Rightarrow> rat" where
  "intent_move i = (if in_skipped i then 0 else if in_side i = ''buy'' then in_size i else - in_size i)"

definition after_intents :: "rat \<Rightarrow> FollowerIntent list \<Rightarrow> rat" where
  "after_intents current intents = current + sum_list (map intent_move intents)"

text \<open>An order the venue takes: a positive size at a venue price, and a reduce-only one no larger than the position it reduces.\<close>

definition intent_ok :: "metas \<Rightarrow> rat \<Rightarrow> FollowerIntent \<Rightarrow> bool" where
  "intent_ok metas current i \<longleftrightarrow>
     0 < in_size i \<and> (in_side i = ''buy'' \<or> in_side i = ''sell'') \<and>
     (\<exists>meta price. map_of metas (in_coin i) = Some meta \<and> in_price i = Some price \<and> venue_price (am_sz_decimals meta) price) \<and>
     (in_reduce_only i \<longrightarrow> in_size i \<le> \<bar>current\<bar> \<and> (in_side i = ''buy'' \<longleftrightarrow> current < 0))"

lemma ioc_price_venue:
  assumes "aggressive_ioc_price (Fin mid) is_buy (Fin bps) d = Inr y"
  shows "venue_price d y"
proof -
  have q: "quantize_price_inside_limit (Fin (dmul mid (ioc_multiplier is_buy bps))) d is_buy = Inr y"
    using assms by (simp add: aggressive_ioc_price_def split: if_splits)
  show ?thesis by (rule inside_limit_spec(1) [OF q])
qed

lemmas intent_simps = make_intent_def noop_intent_def Let_def intent_move_def after_intents_def

text \<open>A quantized move from the current size never passes the target and stops less than a lot short.\<close>

lemma quantized_move:
  assumes "quantize_size (Fin (target - current)) d = Inr delta"
  shows "min current target \<le> current + delta" and "current + delta \<le> max current target"
    and "\<bar>target - (current + delta)\<bar> < pow10 (- d)"
  using quantize_size_nonneg [OF assms] quantize_size_neg [OF assms]
  by (cases "0 \<le> target - current"; force)+

lemma plan_coin_flip:
  assumes "flip_intents risk ic coin target current d mid = Inr intents" and "map_of metas coin = Some meta" "am_sz_decimals meta = d"
    and "ctx_rep target" "ctx_rep current" and "current \<noteq> 0" "target \<noteq> 0" "(0 < current) \<noteq> (0 < target)"
  shows "(\<forall>i \<in> set intents. in_coin i = coin \<and> \<not> in_skipped i \<and> intent_ok metas current i) \<and> after_intents current intents = target"
proof -
  from assms(1) obtain p q where pq: "venue_price d p" "venue_price d q"
    and intents: "intents = [make_intent ic CLOSE coin (if 0 < current then ''sell'' else ''buy'') (dabs current) (Some p) True (CloseBeforeFlip (rk_close_slippage_bps risk)) False,
           make_intent ic OPEN coin (if 0 < target then ''buy'' else ''sell'') (dabs target) (Some q) False (OpenAfterFlip (rk_slippage_bps risk)) False]"
    by (auto simp: flip_intents_def Let_def dest!: ioc_price_venue)
  have "dabs current = \<bar>current\<bar>" "dabs target = \<bar>target\<bar>" using assms(4,5) by (simp_all add: dabs_def ctx_abs ctx_rep_def)
  then show ?thesis using assms(2,3,6-8) pq by (auto simp: intents intent_ok_def intent_simps)
qed

lemma order_intent_ok:
  assumes "order_intent risk ic coin delta reducing d mid = Inr intents"
    and "map_of metas coin = Some meta" "am_sz_decimals meta = d" and "ctx_rep delta" "delta \<noteq> 0"
    and "reducing \<Longrightarrow> \<bar>delta\<bar> \<le> \<bar>current\<bar> \<and> (0 < delta \<longleftrightarrow> current < 0)"
  shows "(\<forall>i \<in> set intents. in_coin i = coin \<and> \<not> in_skipped i \<and> intent_ok metas current i) \<and> after_intents current intents = current + delta"
proof -
  have "dabs delta = \<bar>delta\<bar>" using assms(4) by (simp add: dabs_def ctx_abs ctx_rep_def)
  then show ?thesis using assms
    by (auto simp: order_intent_def intent_ok_def intent_simps dest!: ioc_price_venue split: if_split_asm)
qed

lemma plan_coin_move:
  assumes "move_intents risk ic coin target current d mid = Inr intents"
    and meta: "map_of metas coin = Some meta" "am_sz_decimals meta = d"
    and rep: "ctx_rep target" "ctx_rep current" "ctx_rep (target - current)"
    and same_side: "\<not> (current \<noteq> 0 \<and> target \<noteq> 0 \<and> (0 < current) \<noteq> (0 < target))" and "target \<noteq> current"
  shows "(\<exists>why. intents = [noop_intent ic coin why]) \<or>
    ((\<forall>i \<in> set intents. in_coin i = coin \<and> \<not> in_skipped i \<and> intent_ok metas current i) \<and>
     min current target \<le> after_intents current intents \<and> after_intents current intents \<le> max current target \<and>
     \<bar>target - after_intents current intents\<bar> < pow10 (- d))"
proof -
  have raw: "dsub target current = target - current" using rep(3) by (simp add: dsub_def ctx_rep_def)
  from assms(1) obtain delta where delta: "quantize_size (Fin (target - current)) d = Inr delta"
    by (auto simp: move_intents_def raw Let_def)
  let ?red = "current \<noteq> 0 \<and> dabs target < dabs current"
  have red: "?red \<Longrightarrow> \<bar>delta\<bar> \<le> \<bar>current\<bar> \<and> (0 < delta \<longleftrightarrow> current < 0)" if "delta \<noteq> 0"
  proof -
    assume r: "?red"
    have "dabs target = \<bar>target\<bar>" "dabs current = \<bar>current\<bar>" using rep by (simp_all add: dabs_def ctx_abs ctx_rep_def)
    then show ?thesis using quantize_size_nonneg [OF delta] quantize_size_neg [OF delta] same_side that r
      by (cases "0 \<le> target - current"; cases "0 < current"; cases "0 < target") auto
  qed
  consider why where "intents = [noop_intent ic coin why]" | "delta \<noteq> 0" "order_intent risk ic coin delta ?red d mid = Inr intents"
    using assms(1,8) delta by (auto simp: move_intents_def raw Let_def split: if_split_asm)
  then show ?thesis
  proof cases
    case 2
    from order_intent_ok [OF 2(2) meta quantize_size_rep [OF delta] 2(1) red [OF 2(1)]] show ?thesis
      using quantized_move [OF delta] by simp
  qed blast
qed

lemma plan_coin_moves:
  assumes "plan_coin risk ic coin target current metas mids = Inr intents"
    and rep: "ctx_rep target" "ctx_rep current" "ctx_rep (target - current)"
  shows "(\<forall>i \<in> set intents. in_coin i = coin \<and> (in_skipped i \<or> intent_ok metas current i)) \<and>
    min current target \<le> after_intents current intents \<and> after_intents current intents \<le> max current target \<and>
    ((\<exists>i \<in> set intents. in_skipped i) \<or> target = current \<or>
     (\<exists>meta. map_of metas coin = Some meta \<and> \<bar>target - after_intents current intents\<bar> < pow10 (- am_sz_decimals meta)))"
proof -
  consider (same) "target = current" "intents = []"
    | (noop) why where "intents = [noop_intent ic coin why]"
    | (flip) meta mid where "map_of metas coin = Some meta" "current \<noteq> 0" "target \<noteq> 0" "(0 < current) \<noteq> (0 < target)"
        "flip_intents risk ic coin target current (am_sz_decimals meta) mid = Inr intents"
    | (move) meta mid where "map_of metas coin = Some meta" "\<not> (current \<noteq> 0 \<and> target \<noteq> 0 \<and> (0 < current) \<noteq> (0 < target))"
        "target \<noteq> current" "move_intents risk ic coin target current (am_sz_decimals meta) mid = Inr intents"
    using assms(1) unfolding plan_coin_def Let_def by (auto split: if_split_asm option.split_asm)
  then show ?thesis
  proof cases
    case same
    then show ?thesis by (simp add: after_intents_def)
  next
    case noop
    then show ?thesis by (simp add: intent_simps)
  next
    case flip
    from plan_coin_flip [OF flip(5) flip(1) refl rep(1,2) flip(2-4)] show ?thesis
      using flip(1) by auto
  next
    case move
    from plan_coin_move [OF move(4) move(1) refl rep move(2,3)] show ?thesis
      using move(1) by (auto simp: intent_simps)
  qed
qed


section \<open>The whole plan\<close>

abbreviation target_in :: "(string \<times> rat position) list \<Rightarrow> string \<Rightarrow> rat" where
  "target_in targets coin \<equiv> (case map_of targets coin of None \<Rightarrow> 0 | Some p \<Rightarrow> pos_size p)"

abbreviation current_in :: "(string \<times> dec position) list \<Rightarrow> string \<Rightarrow> dec" where
  "current_in followers coin \<equiv> (case map_of followers coin of None \<Rightarrow> Fin 0 | Some p \<Rightarrow> pos_size p)"

abbreviation intents_for :: "string \<Rightarrow> FollowerIntent list \<Rightarrow> FollowerIntent list" where
  "intents_for coin \<equiv> filter (\<lambda>i. in_coin i = coin)"

lemma plan_coin_coin: "plan_coin risk ic coin target current metas mids = Inr is \<Longrightarrow> i \<in> set is \<Longrightarrow> in_coin i = coin"
  by (auto simp: plan_coin_def flip_intents_def move_intents_def order_intent_def intent_simps split: if_split_asm option.split_asm)

lemma intents_for_coin:
  "plan_coin risk ic coin target current metas mids = Inr is \<Longrightarrow> intents_for c is = (if c = coin then is else [])"
  by (auto simp: filter_empty_conv filter_id_conv dest: plan_coin_coin)

text \<open>The intents of a market are exactly those its own step planned.\<close>

lemma plan_steps_for:
  assumes "rfold (plan_step risk ic targets followers metas mids) coins (is, bs) = Inr (is', bs')" and "distinct coins"
    and "current_in followers c = Fin current"
  shows "\<exists>xs. intents_for c is' = intents_for c is @ xs \<and>
    (if c \<in> set coins then plan_coin risk ic c (target_in targets c) current metas mids = Inr xs else xs = [])"
  using assms(1,2)
proof (induction coins arbitrary: "is" bs)
  case Nil
  then show ?case by simp
next
  case (Cons coin coins)
  from Cons.prems(1) obtain is1 bs1 where st: "plan_step risk ic targets followers metas mids coin (is, bs) = Inr (is1, bs1)"
    and rest: "rfold (plan_step risk ic targets followers metas mids) coins (is1, bs1) = Inr (is', bs')" by auto
  from Cons.IH [OF rest] Cons.prems(2) obtain xs where xs: "intents_for c is' = intents_for c is1 @ xs"
    "if c \<in> set coins then plan_coin risk ic c (target_in targets c) current metas mids = Inr xs else xs = []" by auto
  show ?case
  proof (cases "is_finite (current_in followers coin)")
    case False
    then have "is1 = is" "c \<noteq> coin" using st assms(3) by (auto simp: plan_step_def)
    then show ?thesis using xs by auto
  next
    case True
    with st obtain ys where ys: "plan_coin risk ic coin (target_in targets coin) (dec_val (current_in followers coin)) metas mids = Inr ys"
      and is1: "is1 = is @ ys" by (auto simp: plan_step_def Let_def)
    show ?thesis
    proof (cases "c = coin")
      case c: True
      with Cons.prems(2) xs(2) have "xs = []" by simp
      then show ?thesis using xs(1) ys is1 c assms(3) intents_for_coin [OF ys, of c] by simp
    next
      case c: False
      then show ?thesis using xs is1 intents_for_coin [OF ys, of c] by simp
    qed
  qed
qed

text \<open>
  C25: the pending intents of a plan lead every market from the follower's position to its target: executed in order they end between
  the two (never past the target, never in the wrong direction), less than one venue lot short of it unless an intent of the market was
  skipped; each has a positive size and a venue price, and a reduce-only one opposes the position and is no larger than it, also when
  the source changed sides. The sizes and their difference are assumed to have at most 28 digits.
\<close>

theorem copy_intents_reach_target:
  assumes "copy_plan risk mode ic source_positions followers metas mids sv fv = Inr r"
    and "current_in followers coin = Fin current" and "target = target_in (cp_positions r) coin"
    and "ctx_rep target" "ctx_rep current" "ctx_rep (target - current)"
  shows "(\<forall>i \<in> set (intents_for coin (cp_intents r)). in_skipped i \<or> intent_ok metas current i) \<and>
    min current target \<le> after_intents current (intents_for coin (cp_intents r)) \<and>
    after_intents current (intents_for coin (cp_intents r)) \<le> max current target \<and>
    ((\<exists>i \<in> set (intents_for coin (cp_intents r)). in_skipped i) \<or> target = current \<or>
     (\<exists>meta. map_of metas coin = Some meta \<and>
       \<bar>target - after_intents current (intents_for coin (cp_intents r))\<bar> < pow10 (- am_sz_decimals meta)))"
proof -
  from assms(1) obtain bs bs' where steps: "rfold (plan_step risk ic (cp_positions r) followers metas mids)
      (sort (remdups (map fst (cp_positions r) @ map fst followers))) ([], bs) = Inr (cp_intents r, bs')"
    by (auto simp: copy_plan_def)
  from plan_steps_for [OF steps _ assms(2)] obtain xs where xs: "intents_for coin (cp_intents r) = xs"
    "if coin \<in> set (map fst (cp_positions r) @ map fst followers)
     then plan_coin risk ic coin target current metas mids = Inr xs else xs = []"
    unfolding assms(3) by (auto simp del: filter.simps)
  show ?thesis
  proof (cases "coin \<in> set (map fst (cp_positions r) @ map fst followers)")
    case True
    with xs(2) have "plan_coin risk ic coin target current metas mids = Inr xs" by simp
    from plan_coin_moves [OF this assms(4-6)] show ?thesis unfolding xs(1) by blast
  next
    case False
    then have "map_of (cp_positions r) coin = None" "map_of followers coin = None" by (auto simp: map_of_eq_None_iff)
    then have "target = 0" "current = 0" using assms(2,3) by auto
    then show ?thesis using xs False by (auto simp: after_intents_def)
  qed
qed

text \<open>A follower that is short one BTC and long ETH: the short is closed before 0.3 BTC are bought, and ETH is flattened.\<close>

definition cx_ic :: intent_context where
  "cx_ic = \<lparr>ic_cloid = (\<lambda>coin a s x p r. coin @ s), ic_intent_id = (\<lambda>c. ''intent'' @ c), ic_state_id = (\<lambda>_. ''state''), ic_now = 7\<rparr>"

definition cx_followers :: "(string \<times> dec position) list" where
  "cx_followers = [(''BTC'', cx_pos ''BTC'' (- 1)), (''ETH'', cx_pos ''ETH'' (3 / 2))]"

lemma cx_plan:
  "case copy_plan cx_risk PAPER cx_ic cx_source cx_followers cx_metas cx_mids None (Some (Fin 100)) of
     Inl _ \<Rightarrow> False
   | Inr r \<Rightarrow> target_in (cp_positions r) ''BTC'' = 3 / 10 \<and> cp_blockers r = [] \<and>
       map (\<lambda>i. (in_coin i, in_action i, in_side i, in_size i, in_reduce_only i, in_skipped i)) (cp_intents r) =
         [(''BTC'', CLOSE, ''buy'', 1, True, False), (''BTC'', OPEN, ''buy'', 3 / 10, False, False), (''ETH'', REDUCE, ''sell'', 3 / 2, True, False)]"
  by code_simp

theorem copy_intents_reach_target_witness:
  "\<exists>r. copy_plan cx_risk PAPER cx_ic cx_source cx_followers cx_metas cx_mids None (Some (Fin 100)) = Inr r \<and>
     - 1 \<le> after_intents (- 1) (intents_for ''BTC'' (cp_intents r)) \<and> after_intents (- 1) (intents_for ''BTC'' (cp_intents r)) \<le> 3 / 10"
proof -
  obtain r where r: "copy_plan cx_risk PAPER cx_ic cx_source cx_followers cx_metas cx_mids None (Some (Fin 100)) = Inr r"
    and t: "3 / 10 = target_in (cp_positions r) ''BTC''"
    using cx_plan by (auto split: sum.splits)
  have c: "current_in cx_followers ''BTC'' = Fin (- 1)" by (simp add: cx_followers_def cx_pos_def)
  have rep: "ctx_rep (3 / 10)" "ctx_rep (- 1)" "ctx_rep (3 / 10 - (- 1))"
    by (simp_all only: ctx_rep_def) (rule short_dec_ctx; simp add: short_dec_def; code_simp)+
  from copy_intents_reach_target [OF r c t rep] show ?thesis using r by auto
qed

end
