(* ===== verification/Spec2Isabelle.thy ===== *)
theory Spec2Isabelle
  imports Next_Action Desired_Portfolio Order_Status Executor_Safety Stream_Safety Market_Safety Runtime_Attribution Runtime_Safety Runtime_Exposure Continuous_Follower Rest_Throttle Rest_Example Gap_Example Preflight_Example Copy_Moves
begin

text \<open>
  A verification of the continuous copy path of \<^verbatim>\<open>hyperliquid_copytrader\<close>: the program follows a source
  account on the Hyperliquid exchange and keeps a follower account close to a scaled copy of its
  positions. All sources named below are under \<^verbatim>\<open>src/src/hyperliquid_copytrader/\<close>.

  \<^bold>\<open>How the program works.\<close> A copy plan (\<^verbatim>\<open>continuous_config.py\<close>) names slots: a source, a follower with
  its signer, and limits. For each slot an account stream (\<^verbatim>\<open>account_stream.py\<close>) reduces WebSocket
  frames of both accounts to positions, collateral, orders and live fills, and a market stream
  (\<^verbatim>\<open>market_stream.py\<close>) reduces books and quotes. The desired engine (\<^verbatim>\<open>desired_engine.py\<close>) turns the
  source's positions into a target portfolio and picks one next order, checked by the order preflight
  (\<^verbatim>\<open>order_preflight.py\<close>, \<^verbatim>\<open>precision.py\<close>). A signer lane (\<^verbatim>\<open>continuous_executor.py\<close>) sends it as one
  immediate-or-cancel order over a shared socket (\<^verbatim>\<open>ws_actions.py\<close>) and records every step in a
  durable journal (\<^verbatim>\<open>action_journal.py\<close>), from which it recovers after a crash by asking for the order
  by its client id (\<^verbatim>\<open>reconciliation.py\<close>). The runtime (\<^verbatim>\<open>continuous_runtime.py\<close>) holds the slots: it
  decides which source fills count as copied, whether a slot may act, and which order passes all
  gates, and folds the outcome back into the slot.

  \<^bold>\<open>What the theories hold\<close>, in the order of the imports:

  \<^item> \<open>Prelude\<close>: exceptions as the datatype \<open>error\<close>, fallible computations \<open>'a result\<close>, loops \<open>rfold\<close> and
    \<open>rmap\<close>, Python's string methods, dictionaries as association lists, and the locale \<open>simulation\<close>.
  \<^item> \<open>Decimals\<close>: Python's \<open>decimal\<close> with its default context of 28 digits. A finite Decimal is its
    rational value; \<open>ctx\<close> is rounding to the context, and \<open>dadd\<close>, \<open>dmul\<close>, ... are the rounded operations.
    The locale \<open>rounded_arith\<close> states the error bounds the clients use and is interpreted on \<open>ctx\<close>.
  \<^item> \<open>Json\<close>, \<open>Json_Roundtrip\<close>: JSON values, the parser and the compact printer, and that they invert
    each other. The parser takes the length of the text as fuel, which each step shortens.
  \<^item> \<open>Raises\<close>: which exceptions a computation raises, by rules over the shape of the code.
  \<^item> \<open>Precision\<close>, \<open>Order_Preflight\<close>: lot and price rounding, and the preflight with every rejection.
  \<^item> \<open>Markets\<close>: market names of \<^verbatim>\<open>markets.py\<close> (identities, canonical names, qualification).
  \<^item> \<open>Continuous_Config\<close>: loading, validating and binding a plan.
  \<^item> \<open>Desired_Engine\<close>, \<open>Desired_Portfolio\<close>, \<open>Next_Action\<close>: the target portfolio and the next order, and
    their limits: gross exposure, position count, order size, reductions before increases.
  \<^item> \<open>Action_Journal\<close>, \<open>Journal_Ledger\<close>: every operation of the journal over its two tables, the row
    invariant, and the refinement of an abstract ledger of order intents.
  \<^item> \<open>Ws_Actions\<close>, \<open>Ws_Post_Mux\<close>: building and reading order frames, the request multiplexer as a state
    machine cut at its await points, and the priority send gate.
  \<^item> \<open>Order_Status\<close>: the classification of order-status replies.
  \<^item> \<open>Continuous_Executor\<close>, \<open>Executor_Run\<close>, \<open>Executor_Safety\<close>: the signer lane. Its state is a \<open>world\<close> of
    journal, multiplexer and socket frames; the network is an argument (\<open>exec_env\<close>), and a budget of
    journal transactions stands for a crash after any of them. Runs refine the \<open>courier\<close>, which
    sends each order at most once.
  \<^item> \<open>Account_Frames\<close>, \<open>Account_Stream\<close>, \<open>Stream_Safety\<close>: payload parsers of \<^verbatim>\<open>observer.py\<close>,
    \<^verbatim>\<open>unified_account.py\<close> and \<^verbatim>\<open>models.py\<close>; the account reducer; delivery of each fill at most once, the
    per-market chain of positions, monotone exchange time, and the exceptions of a frame.
  \<^item> \<open>Market_Stream\<close>, \<open>Market_Safety\<close>: the market reducer with the catalog records of
    \<^verbatim>\<open>market_catalog.py\<close>, and the planner of one order; well-formed snapshots, atomic frames, limits.

  \<^item> \<open>Runtime_Slot\<close>, \<open>Runtime_Drive\<close>, \<open>Runtime_Outcome\<close>: a slot of the runtime, cut into the sections that
    run without suspending: source frames and their attribution, readiness, operator commands; the
    choice of an order and its gates, as steps that go on, stop or raise; the outcome of an order,
    follower truth read back from the exchange, and new catalog revisions.
  \<^item> \<open>Runtime_Frame\<close>: what each section leaves unchanged, proved once in locales over a view of the slot
    and interpreted on its fields, and the step relation \<open>slot_step\<close> of one slot.
  \<^item> \<open>Runtime_Attribution\<close>, \<open>Runtime_Safety\<close>, \<open>Runtime_Exposure\<close>: the books of a slot, the gates of an
    entry, the fail-close latch, retries, exposure caps, and a reservation that is never released;
    \<open>Runtime_Example\<close> is the concrete slot of their instances.

  \<^item> \<open>Runtime_Store\<close>, \<open>Runtime_Restart\<close>: the durable state of a slot, how it is written and restored, and how
    the constructor opens a slot; a restart takes up the saved slot, but forgets an operator pause.
  \<^item> \<open>Continuous_Follower\<close>: reading follower equity and positions over the socket
    (\<^verbatim>\<open>continuous_follower.py\<close>), with the endpoint weights of \<^verbatim>\<open>rest_budget.py\<close>.
  \<^item> \<open>Preflight\<close>, \<open>Preflight_Safety\<close>, \<open>Preflight_Pass\<close>, \<open>Preflight_Example\<close>: the read-only audit before a start
    (\<^verbatim>\<open>continuous_preflight.py\<close>, helpers of \<^verbatim>\<open>exchange/hyperliquid.py\<close>) over a function that answers
    requests. Blockers only grow, so a passed report rests on answers alone and clears every slot.
  \<^item> \<open>Rest_Throttle\<close>: the request queue all processes share (\<^verbatim>\<open>rest_throttle.py\<close>), its rate, and how a
    reservation is lost.
  \<^item> \<open>Gap_Repair\<close>, \<open>Gap_Safety\<close>, \<open>Gap_Example\<close>: the repair of fills missed while the source was not connected
    (\<open>DurableSourceGapRepair\<close> of \<^verbatim>\<open>continuous_network.py\<close>): its tables, the paged query and the fallback, the chain
    of fills, and that the runtime's own check of the chain succeeds. The loop over the chain ends because
    every fill is used once.
  \<^item> \<open>Rest_Budget\<close>, \<open>Rest_Ledger\<close>, \<open>Rest_Example\<close>: the coordinator of REST budgets (\<^verbatim>\<open>rest_budget.py\<close>): sender
    policy, load model, the tables of its ledger, transactions with rollback, clock epochs, batches of
    decisions, takeover, launch fence, imports and the pipe. A weakest-precondition calculus for the
    transactions carries the rolling budget over every interleaving of processes; the locale
    \<open>ledger_order\<close> gives that tables only grow. The pause before a batch is left to the interleaving.
  \<^item> \<open>Copy_Engine\<close>, \<open>Copy_Caps\<close>, \<open>Copy_Moves\<close>: the planner of the older polling service (\<^verbatim>\<open>copy_engine.py\<close>):
    sizing, targets within the gross, position and margin caps, and intents that lead to the targets.

  \<^bold>\<open>Conventions.\<close> Operations are functions that return the next state or an exception; the message of
  an exception keeps its fixed part. Python integers are \<open>int\<close>. Text is ASCII. The digest behind client
  order ids and desired-portfolio ids and the wallet signature are parameters of the definitions.

  \<^bold>\<open>Not modelled.\<close> Of the runtime: the status reports, the dispatch of market frames over all slots and the
  scheduling of its coroutines and locks; sockets, timers and process start-up; SQLite's durability
  and locking; the catalog builder; and of the older polling service
  everything but its planner: execution, guards, storage, reports and tools.
\<close>

end
